(* ===== verification/Prelude.thy ===== *)
theory Prelude
  imports Complex_Main "HOL-Library.AList" "HOL-Library.Char_ord" "HOL-Library.List_Lexorder"
    "HOL-Library.Product_Lexorder"
begin

text \<open>
  Shared vocabulary of the development: Python results and exceptions, Python strings
  (\<open>strip\<close>, \<open>lower\<close>, decimal printing), insertion-ordered dictionaries as association
  lists, and the generic lemmas the component theories use.  Python's unbounded integers are
  \<^typ>\<open>int\<close>; its floats are idealised as \<^typ>\<open>rat\<close> (exact arithmetic, no NaN or
  infinity).  A string is a list of code points below 256.
\<close>

section \<open>Exceptions and results\<close>

datatype py_error =
    ValueError string
  | TypeError string
  | KeyError string
  | RuntimeError string
  | OSError string
  | WorkerStagingPoolError string
  | WorkerDataPlaneResourceError string
  | IntLiteralError
  | ConversionTypeError

type_synonym 'a result = "py_error + 'a"

named_theorems result_simps

definition raise_if :: "bool \<Rightarrow> py_error \<Rightarrow> 'a result \<Rightarrow> 'a result" where
  "raise_if c e k = (if c then Inl e else k)"

definition rbind :: "'a result \<Rightarrow> ('a \<Rightarrow> 'b result) \<Rightarrow> 'b result" where
  "rbind m f = (case m of Inl e \<Rightarrow> Inl e | Inr x \<Rightarrow> f x)"

lemma raise_if_cong [fundef_cong]:
  "c = c' \<Longrightarrow> e = e' \<Longrightarrow> (\<not> c' \<Longrightarrow> k = k') \<Longrightarrow> raise_if c e k = raise_if c' e' k'"
  by (simp add: raise_if_def)

lemma rbind_cong [fundef_cong]:
  "m = m' \<Longrightarrow> (\<And>x. m' = Inr x \<Longrightarrow> f x = g x) \<Longrightarrow> rbind m f = rbind m' g"
  by (auto simp: rbind_def split: sum.splits)

lemma raise_if_True [simp]: "raise_if True e k = Inl e"
  by (simp add: raise_if_def)

lemma raise_if_False [simp]: "raise_if False e k = k"
  by (simp add: raise_if_def)

lemma rbind_Inl [simp]: "rbind (Inl e) f = Inl e"
  by (simp add: rbind_def)

lemma rbind_Inr [simp]: "rbind (Inr x) f = f x"
  by (simp add: rbind_def)

lemma raise_if_Inr [result_simps]: "raise_if c e k = Inr y \<longleftrightarrow> \<not> c \<and> k = Inr y"
  by (simp add: raise_if_def)

lemma raise_if_Inl [result_simps]:
  "raise_if c e k = Inl x \<longleftrightarrow> (c \<and> x = e) \<or> (\<not> c \<and> k = Inl x)"
  by (auto simp: raise_if_def)

lemma rbind_Inr_iff [result_simps]: "rbind m f = Inr y \<longleftrightarrow> (\<exists>x. m = Inr x \<and> f x = Inr y)"
  by (cases m) auto

lemma rbind_assoc: "rbind (rbind m f) g = rbind m (\<lambda>x. rbind (f x) g)"
  by (cases m) auto

text \<open>A Python loop or comprehension that calls a function that may raise.\<close>

primrec rmap :: "('a \<Rightarrow> 'b result) \<Rightarrow> 'a list \<Rightarrow> 'b list result" where
  "rmap f [] = Inr []"
| "rmap f (x # xs) = rbind (f x) (\<lambda>y. rbind (rmap f xs) (\<lambda>ys. Inr (y # ys)))"

lemma rmap_Inr_iff: "rmap f xs = Inr ys \<longleftrightarrow> list_all2 (\<lambda>x y. f x = Inr y) xs ys"
proof (induction xs arbitrary: ys)
  case Nil
  then show ?case by auto
next
  case (Cons x xs)
  then show ?case by (auto simp: list_all2_Cons1 result_simps)
qed

lemma rmap_total: "(\<And>x. x \<in> set xs \<Longrightarrow> f x = Inr (g x)) \<Longrightarrow> rmap f xs = Inr (map g xs)"
  by (induction xs) auto

lemma rmap_identity_iff:
  assumes "\<And>x y. f x = Inr y \<longleftrightarrow> P x \<and> y = x"
  shows "rmap f xs = Inr ys \<longleftrightarrow> list_all P xs \<and> ys = xs"
proof -
  have "list_all2 (\<lambda>x y. f x = Inr y) xs ys \<longleftrightarrow> list_all P xs \<and> ys = xs"
    by (simp add: assms) (induction xs arbitrary: ys; auto simp: list_all2_Cons1)
  then show ?thesis by (simp add: rmap_Inr_iff)
qed

text \<open>Sequential checks over a list: the first failing element raises.\<close>

primrec rcheck :: "('a \<Rightarrow> unit result) \<Rightarrow> 'a list \<Rightarrow> unit result" where
  "rcheck f [] = Inr ()"
| "rcheck f (x # xs) = rbind (f x) (\<lambda>_. rcheck f xs)"

lemma rcheck_Inr_iff [result_simps]: "rcheck f xs = Inr u \<longleftrightarrow> list_all (\<lambda>x. f x = Inr ()) xs"
  by (induction xs) (auto simp: result_simps)

section \<open>Strings\<close>

text \<open>\<open>str.isspace\<close> and \<open>str.lower\<close> on code points below 256.\<close>

definition is_space :: "char \<Rightarrow> bool" where
  "is_space c = (let n = (of_char c :: nat) in
     (9 \<le> n \<and> n \<le> 13) \<or> (28 \<le> n \<and> n \<le> 32) \<or> n = 133 \<or> n = 160)"

definition blank :: "string \<Rightarrow> bool" where
  "blank s = list_all is_space s"

definition lower_char :: "char \<Rightarrow> char" where
  "lower_char c = (let n = (of_char c :: nat) in
     if (65 \<le> n \<and> n \<le> 90) \<or> (192 \<le> n \<and> n \<le> 214) \<or> (216 \<le> n \<and> n \<le> 222)
     then char_of (n + 32) else c)"

definition lower :: "string \<Rightarrow> string" where
  "lower s = map lower_char s"

lemma of_char_less [simp]: "(of_char c :: nat) < 256"
  using of_char_mod_256 [of c, where 'a = nat] by (metis mod_less_divisor zero_less_numeral)

lemma lower_char_idem [simp]: "lower_char (lower_char c) = lower_char c"
  by (auto simp: lower_char_def Let_def)

lemma lower_idem [simp]: "lower (lower s) = lower s"
  by (simp add: lower_def)

lemma is_space_lower_char: "is_space (lower_char c) = is_space c"
  by (auto simp: lower_char_def is_space_def Let_def)

lemma blank_lower [simp]: "blank (lower s) = blank s"
  by (induction s) (auto simp: blank_def lower_def is_space_lower_char)

lemma blank_append [simp]: "blank (s @ t) = (blank s \<and> blank t)"
  by (simp add: blank_def)

text \<open>Decimal printing of integers, as \<open>str(int)\<close> and f-strings do.\<close>

definition digit_char :: "nat \<Rightarrow> char" where
  "digit_char d = char_of (48 + d)"

fun nat_digits :: "nat \<Rightarrow> string" where
  "nat_digits n = (if n < 10 then [digit_char n] else nat_digits (n div 10) @ [digit_char (n mod 10)])"

declare nat_digits.simps [simp del]

definition int_str :: "int \<Rightarrow> string" where
  "int_str i = (if i < 0 then CHR ''-'' # nat_digits (nat (- i)) else nat_digits (nat i))"

definition digit_value :: "char \<Rightarrow> nat" where
  "digit_value c = of_char c - 48"

definition digits_value :: "string \<Rightarrow> nat" where
  "digits_value s = foldl (\<lambda>a c. 10 * a + digit_value c) 0 s"

lemma digit_value_digit_char [simp]: "d < 10 \<Longrightarrow> digit_value (digit_char d) = d"
  by (simp add: digit_value_def digit_char_def)

lemma digits_value_snoc: "digits_value (s @ [c]) = 10 * digits_value s + digit_value c"
  by (simp add: digits_value_def)

lemma digits_value_nat_digits [simp]: "digits_value (nat_digits n) = n"
proof (induction n rule: nat_digits.induct)
  case (1 n)
  show ?case
  proof (cases "n < 10")
    case True
    then show ?thesis by (simp add: nat_digits.simps [of n] digits_value_def)
  next
    case False
    with 1 show ?thesis by (simp add: nat_digits.simps [of n] digits_value_snoc)
  qed
qed

lemma nat_digits_inject [simp]: "nat_digits m = nat_digits n \<longleftrightarrow> m = n"
  by (metis digits_value_nat_digits)

lemma nat_digits_not_Nil [simp]: "nat_digits n \<noteq> []"
  by (subst nat_digits.simps) simp

lemma digit_char_code: "d < 10 \<Longrightarrow> (of_char (digit_char d) :: nat) = 48 + d"
  by (simp add: digit_char_def)

lemma nat_digits_codes: "c \<in> set (nat_digits n) \<Longrightarrow> (of_char c :: nat) \<in> {48..57}"
proof (induction n rule: nat_digits.induct)
  case (1 n)
  show ?case
  proof (cases "n < 10")
    case True
    with "1.prems" show ?thesis by (auto simp: nat_digits.simps [of n] digit_char_code)
  next
    case False
    with 1 show ?thesis
      using digit_char_code [of "n mod 10"] by (auto simp: nat_digits.simps [of n])
  qed
qed

lemma nat_digits_no_minus: "CHR ''-'' \<notin> set (nat_digits n)"
  using nat_digits_codes [of "CHR ''-''" n] by auto

lemma int_str_inject [simp]: "int_str i = int_str j \<longleftrightarrow> i = j"
proof
  assume eq: "int_str i = int_str j"
  have "CHR ''-'' \<notin> set (nat_digits n)" for n by (rule nat_digits_no_minus)
  with eq show "i = j"
    by (auto simp: int_str_def eq_nat_nat_iff split: if_splits dest!: sym [of "CHR ''-'' # _"])
       (metis list.set_intros(1))+
qed simp

lemma nat_digits_not_blank [simp]: "\<not> blank (nat_digits n)"
proof -
  have "hd (nat_digits n) \<in> set (nat_digits n)" by simp
  then have "\<not> is_space (hd (nat_digits n))"
    using nat_digits_codes [of "hd (nat_digits n)" n] by (auto simp: is_space_def)
  then show ?thesis by (metis blank_def hd_in_set list_all_iff nat_digits_not_Nil)
qed

section \<open>Insertion-ordered dictionaries\<close>

text \<open>
  A Python dict is an association list with distinct keys, in insertion order:
  \<open>d[k] = v\<close> is \<^term>\<open>AList.update k v d\<close> (it keeps the position of an existing key and
  appends a new one), \<open>d.pop(k, None)\<close> is \<^term>\<open>AList.delete k d\<close>, \<open>d.get(k)\<close> is
  \<^term>\<open>map_of d k\<close>, and iteration is over the list.
\<close>

type_synonym ('k, 'v) dict = "('k \<times> 'v) list"

abbreviation dkeys :: "('k, 'v) dict \<Rightarrow> 'k list" where
  "dkeys d \<equiv> map fst d"

definition dict_wf :: "('k, 'v) dict \<Rightarrow> bool" where
  "dict_wf d = distinct (dkeys d)"

definition dget_default :: "('k, 'v) dict \<Rightarrow> 'k \<Rightarrow> 'v \<Rightarrow> 'v" where
  "dget_default d k v = (case map_of d k of None \<Rightarrow> v | Some x \<Rightarrow> x)"

definition dsum :: "('v \<Rightarrow> int) \<Rightarrow> ('k, 'v) dict \<Rightarrow> int" where
  "dsum f d = sum_list (map (\<lambda>(k, v). f v) d)"

lemma dict_wf_Nil [simp]: "dict_wf []"
  by (simp add: dict_wf_def)

lemma dict_wf_update [simp]: "dict_wf d \<Longrightarrow> dict_wf (AList.update k v d)"
  by (simp add: dict_wf_def AList.distinct_update)

lemma dict_wf_delete [simp]: "dict_wf d \<Longrightarrow> dict_wf (AList.delete k d)"
  by (simp add: dict_wf_def AList.distinct_delete)

lemma map_of_update [simp]: "map_of (AList.update k v d) = (map_of d)(k \<mapsto> v)"
  by (rule AList.update_conv')

lemma map_of_delete [simp]: "map_of (AList.delete k d) = (map_of d)(k := None)"
  by (rule AList.delete_conv')

lemma dsum_Nil [simp]: "dsum f [] = 0"
  by (simp add: dsum_def)

lemma dsum_Cons [simp]: "dsum f ((k, v) # d) = f v + dsum f d"
  by (simp add: dsum_def)

lemma dsum_update_new: "map_of d k = None \<Longrightarrow> dsum f (AList.update k v d) = dsum f d + f v"
  by (induction d) (auto split: if_splits)

lemma delete_notin [simp]: "map_of d k = None \<Longrightarrow> AList.delete k d = d"
  by (simp add: AList.delete_eq map_of_eq_None_iff) (induction d; auto)

lemma delete_Cons:
  "AList.delete k ((a, b) # d) = (if a = k then AList.delete k d else (a, b) # AList.delete k d)"
  by (auto simp: AList.delete_eq)

lemma dsum_delete:
  "dict_wf d \<Longrightarrow> map_of d k = Some v \<Longrightarrow> dsum f (AList.delete k d) = dsum f d - f v"
proof (induction d)
  case Nil
  then show ?case by simp
next
  case (Cons p d)
  obtain k' v' where p: "p = (k', v')" by (cases p)
  show ?case
  proof (cases "k' = k")
    case True
    with Cons.prems p have "map_of d k = None"
      by (auto simp: dict_wf_def map_of_eq_None_iff)
    with True Cons.prems p show ?thesis by (simp add: delete_Cons)
  next
    case False
    with Cons p show ?thesis by (auto simp: dict_wf_def delete_Cons)
  qed
qed

lemma dsum_nonneg: "\<forall>p \<in> set d. 0 \<le> f (snd p) \<Longrightarrow> 0 \<le> dsum f d"
  by (induction d) auto

lemma dsum_member_le:
  "\<forall>p \<in> set d. 0 \<le> f (snd p) \<Longrightarrow> (k, v) \<in> set d \<Longrightarrow> f v \<le> dsum f d"
proof (induction d)
  case Nil
  then show ?case by simp
next
  case (Cons p d)
  have "0 \<le> dsum f d" using Cons.prems(1) by (simp add: dsum_nonneg)
  with Cons show ?case by (cases p) fastforce
qed

end
