(* ===== verification/Values.thy ===== *)
theory Values
  imports Prelude
begin

text \<open>
  Dynamically typed Python values, for the mappings the code inspects at run time (buffer
  metadata, plans, policy hints, completion evidence, block records).  Tuples and lists are one
  constructor: the code only ever tests \<open>isinstance(x, list | tuple)\<close> or iterates.
\<close>

datatype pyval =
    VNone
  | VBool bool
  | VInt int
  | VFloat rat
  | VStr string
  | VList "pyval list"
  | VDict "(string \<times> pyval) list"

type_synonym mapping = "(string, pyval) dict"

text \<open>Truth value testing.\<close>

fun truthy :: "pyval \<Rightarrow> bool" where
  "truthy VNone = False"
| "truthy (VBool b) = b"
| "truthy (VInt i) = (i \<noteq> 0)"
| "truthy (VFloat x) = (x \<noteq> 0)"
| "truthy (VStr s) = (s \<noteq> [])"
| "truthy (VList xs) = (xs \<noteq> [])"
| "truthy (VDict d) = (d \<noteq> [])"

text \<open>\<open>m.get(k, default)\<close> and \<open>x or default\<close>.\<close>

definition vget :: "mapping \<Rightarrow> string \<Rightarrow> pyval \<Rightarrow> pyval" where
  "vget m k v = dget_default m k v"

definition vor :: "pyval \<Rightarrow> pyval \<Rightarrow> pyval" where
  "vor x v = (if truthy x then x else v)"

text \<open>\<open>m[k]\<close> raises KeyError for a missing key.\<close>

definition vindex :: "mapping \<Rightarrow> string \<Rightarrow> pyval result" where
  "vindex m k = (case map_of m k of None \<Rightarrow> Inl (KeyError k) | Some v \<Rightarrow> Inr v)"

section \<open>int()\<close>

definition strip_left :: "string \<Rightarrow> string" where
  "strip_left s = dropWhile is_space s"

definition strip :: "string \<Rightarrow> string" where
  "strip s = rev (strip_left (rev (strip_left s)))"

definition is_digit :: "char \<Rightarrow> bool" where
  "is_digit c = (let n = (of_char c :: nat) in 48 \<le> n \<and> n \<le> 57)"

text \<open>
  Decimal literals accepted by \<open>int(text)\<close>: surrounding whitespace, an optional sign, digits
  with single underscores between them.  The flag says whether the previous character was a
  digit.
\<close>

fun scan_digits :: "bool \<Rightarrow> nat \<Rightarrow> string \<Rightarrow> nat option" where
  "scan_digits prev a [] = (if prev then Some a else None)"
| "scan_digits prev a (c # cs) =
     (if is_digit c then scan_digits True (10 * a + digit_value c) cs
      else if c = CHR ''_'' \<and> prev then scan_digits False a cs
      else None)"

definition parse_int :: "string \<Rightarrow> int result" where
  "parse_int s =
     (let t = strip s;
          neg = (case t of c # _ \<Rightarrow> c = CHR ''-'' | [] \<Rightarrow> False);
          signed = (case t of c # _ \<Rightarrow> c = CHR ''-'' \<or> c = CHR ''+'' | [] \<Rightarrow> False);
          body = (if signed then tl t else t)
      in case scan_digits False 0 body of
           None \<Rightarrow> Inl IntLiteralError
         | Some n \<Rightarrow> Inr (if neg then - int n else int n))"

definition truncate_rat :: "rat \<Rightarrow> int" where
  "truncate_rat x = (if 0 \<le> x then \<lfloor>x\<rfloor> else \<lceil>x\<rceil>)"

fun py_int :: "pyval \<Rightarrow> int result" where
  "py_int (VInt i) = Inr i"
| "py_int (VBool b) = Inr (if b then 1 else 0)"
| "py_int (VFloat x) = Inr (truncate_rat x)"
| "py_int (VStr s) = parse_int s"
| "py_int VNone = Inl ConversionTypeError"
| "py_int (VList xs) = Inl ConversionTypeError"
| "py_int (VDict d) = Inl ConversionTypeError"

text \<open>
  \<open>str(x).lower()\<close> tested against lower-case ASCII words: \<open>str\<close> of None, a bool, a number or a
  container is never one of the words the code tests for, so only strings can match.
\<close>

definition str_lower_in :: "pyval \<Rightarrow> string list \<Rightarrow> bool" where
  "str_lower_in v ws = (case v of VStr s \<Rightarrow> lower s \<in> set ws | _ \<Rightarrow> False)"

section \<open>Printing and parsing an integer\<close>

lemma digit_char_is_digit: "d < 10 \<Longrightarrow> is_digit (digit_char d)"
  by (simp add: is_digit_def digit_char_code)

lemma nat_digits_are_digits: "list_all is_digit (nat_digits n)"
  using nat_digits_codes by (auto simp: list_all_iff is_digit_def)

lemma scan_digits_all:
  "list_all is_digit s \<Longrightarrow> s \<noteq> [] \<or> prev \<Longrightarrow>
   scan_digits prev a s = Some (foldl (\<lambda>a c. 10 * a + digit_value c) a s)"
  by (induction s arbitrary: prev a) auto

lemma scan_nat_digits [simp]: "scan_digits False 0 (nat_digits n) = Some n"
proof -
  have "scan_digits False 0 (nat_digits n) = Some (digits_value (nat_digits n))"
    unfolding digits_value_def by (rule scan_digits_all) (simp_all add: nat_digits_are_digits)
  then show ?thesis by simp
qed

lemma digit_not_space: "is_digit c \<Longrightarrow> \<not> is_space c"
  by (auto simp: is_digit_def is_space_def Let_def)

lemma strip_left_no_space: "s \<noteq> [] \<Longrightarrow> \<not> is_space (hd s) \<Longrightarrow> strip_left s = s"
  by (cases s) (auto simp: strip_left_def)

lemma strip_no_space: "s \<noteq> [] \<Longrightarrow> \<not> is_space (hd s) \<Longrightarrow> \<not> is_space (last s) \<Longrightarrow> strip s = s"
  by (simp add: strip_def strip_left_no_space hd_rev)

lemma nat_digits_ends: "is_digit (hd (nat_digits n))" "is_digit (last (nat_digits n))"
  using nat_digits_are_digits [of n] by (auto simp: list_all_iff)

lemma strip_int_str: "strip (int_str i) = int_str i"
proof -
  have "is_digit (hd (nat_digits n))" "is_digit (last (nat_digits n))" for n
    by (rule nat_digits_ends)+
  moreover have "\<not> is_space (CHR ''-'')" by (simp add: is_space_def)
  ultimately show ?thesis
    by (intro strip_no_space) (simp_all add: int_str_def digit_not_space)
qed

lemma nat_digits_hd: "nat_digits n = c # cs \<Longrightarrow> c \<noteq> CHR ''-'' \<and> c \<noteq> CHR ''+''"
  using nat_digits_ends(1) [of n] by (auto simp: is_digit_def)

lemma parse_int_str: "parse_int (int_str i) = Inr i"
proof (cases "i < 0")
  case True
  then have t: "int_str i = CHR ''-'' # nat_digits (nat (- i))"
    by (simp add: int_str_def)
  have "strip (int_str i) = CHR ''-'' # nat_digits (nat (- i))"
    unfolding t [symmetric] by (rule strip_int_str)
  with True show ?thesis by (simp add: parse_int_def)
next
  case False
  then have t: "int_str i = nat_digits (nat i)"
    by (simp add: int_str_def)
  obtain c cs where c: "nat_digits (nat i) = c # cs" by (cases "nat_digits (nat i)") auto
  with nat_digits_hd have "c \<noteq> CHR ''-'' \<and> c \<noteq> CHR ''+''" by blast
  moreover have "scan_digits False 0 (c # cs) = Some (nat i)"
    unfolding c [symmetric] by simp
  moreover have "strip (int_str i) = c # cs"
    unfolding c [symmetric] t [symmetric] by (rule strip_int_str)
  ultimately show ?thesis using False by (simp add: parse_int_def)
qed

end
