(* ===== verification/Schema_Base.thy ===== *)
theory Schema_Base
  imports Values
begin

text \<open>
  The vocabulary of \<open>turbobus/schema.py\<close> and \<open>turbobus/ranges.py\<close>: the enumerations, the
  normalisation helpers the dataclass constructors call, byte ranges, and the interface
  \<open>validated_record\<close> every validated dataclass provides: what its \<open>__post_init__\<close> accepts is
  a well-formed record, and a well-formed record is accepted unchanged.
\<close>

section \<open>The contract of a validating constructor\<close>

locale validated_record =
  fixes mk :: "'r \<Rightarrow> 'r result"
    and wf :: "'r \<Rightarrow> bool"
  assumes mk_wf: "mk r = Inr r' \<Longrightarrow> wf r'"
    and wf_mk: "wf r \<Longrightarrow> mk r = Inr r"
begin

lemma mk_idem: "mk r = Inr r' \<Longrightarrow> mk r' = Inr r'"
  by (rule wf_mk) (rule mk_wf)

lemma wf_iff_fixpoint: "wf r \<longleftrightarrow> mk r = Inr r"
  using mk_wf wf_mk by blast

lemma image_iff: "(\<exists>r. mk r = Inr r') \<longleftrightarrow> wf r'"
  using mk_wf wf_mk by blast

end

text \<open>A constructor that only checks: it returns its argument or raises.\<close>

locale checked_record =
  fixes mk :: "'r \<Rightarrow> 'r result"
    and wf :: "'r \<Rightarrow> bool"
  assumes mk_iff: "mk r = Inr r' \<longleftrightarrow> wf r \<and> r' = r"
begin

lemma rejects_iff: "(\<exists>e. mk r = Inl e) \<longleftrightarrow> \<not> wf r"
proof (cases "mk r")
  case (Inl e)
  then have "\<not> wf r" using mk_iff [of r r] by auto
  with Inl show ?thesis by auto
next
  case (Inr r')
  then have "wf r" using mk_iff by blast
  with Inr show ?thesis by simp
qed

end

sublocale checked_record \<subseteq> validated_record mk wf
  by unfold_locales (auto simp: mk_iff)

section \<open>Enumerations\<close>

datatype TransferMode = AUTO | POOL | DIRECT | RELAY

primrec mode_value :: "TransferMode \<Rightarrow> string" where
  "mode_value AUTO = ''auto''"
| "mode_value POOL = ''pool''"
| "mode_value DIRECT = ''direct''"
| "mode_value RELAY = ''relay''"

datatype TransferStatusState = SUBMITTED | RUNNING | COMPLETE | FAILED | CANCELED

primrec state_value :: "TransferStatusState \<Rightarrow> string" where
  "state_value SUBMITTED = ''submitted''"
| "state_value RUNNING = ''running''"
| "state_value COMPLETE = ''complete''"
| "state_value FAILED = ''failed''"
| "state_value CANCELED = ''canceled''"

datatype BufferKind = CPU | CPU_PINNED | GPU | RELAY_STAGING

primrec kind_value :: "BufferKind \<Rightarrow> string" where
  "kind_value CPU = ''cpu''"
| "kind_value CPU_PINNED = ''cpu_pinned''"
| "kind_value GPU = ''gpu''"
| "kind_value RELAY_STAGING = ''relay_staging''"

datatype WorkloadKind = GENERIC | KV_CACHE | MODEL_WEIGHTS | TRAINING_STATE | OPTIMIZER_STATE

primrec workload_value :: "WorkloadKind \<Rightarrow> string" where
  "workload_value GENERIC = ''generic''"
| "workload_value KV_CACHE = ''kv_cache''"
| "workload_value MODEL_WEIGHTS = ''model_weights''"
| "workload_value TRAINING_STATE = ''training_state''"
| "workload_value OPTIMIZER_STATE = ''optimizer_state''"

datatype SchedulingDecisionState = PLANNED | FALLBACK | REJECTED

primrec decision_value :: "SchedulingDecisionState \<Rightarrow> string" where
  "decision_value PLANNED = ''planned''"
| "decision_value FALLBACK = ''fallback''"
| "decision_value REJECTED = ''rejected''"

text \<open>Calling an enumeration class on a value finds the member with that value or raises.\<close>

definition enum_of_value :: "('e \<Rightarrow> string) \<Rightarrow> 'e list \<Rightarrow> string \<Rightarrow> 'e result" where
  "enum_of_value value members s =
     (case find (\<lambda>e. value e = s) members of
        None \<Rightarrow> Inl (ValueError ''not a valid enumeration value'')
      | Some e \<Rightarrow> Inr e)"

definition TransferMode_of :: "string \<Rightarrow> TransferMode result" where
  "TransferMode_of = enum_of_value mode_value [AUTO, POOL, DIRECT, RELAY]"

definition TransferStatusState_of :: "string \<Rightarrow> TransferStatusState result" where
  "TransferStatusState_of =
     enum_of_value state_value [SUBMITTED, RUNNING, COMPLETE, FAILED, CANCELED]"

definition BufferKind_of :: "string \<Rightarrow> BufferKind result" where
  "BufferKind_of = enum_of_value kind_value [CPU, CPU_PINNED, GPU, RELAY_STAGING]"

definition WorkloadKind_of :: "string \<Rightarrow> WorkloadKind result" where
  "WorkloadKind_of = enum_of_value workload_value
     [GENERIC, KV_CACHE, MODEL_WEIGHTS, TRAINING_STATE, OPTIMIZER_STATE]"

lemma TransferStatusState_roundtrip [simp]: "TransferStatusState_of (state_value s) = Inr s"
  by (cases s) (simp_all add: TransferStatusState_of_def enum_of_value_def)

lemma TransferMode_roundtrip [simp]: "TransferMode_of (mode_value m) = Inr m"
  by (cases m) (simp_all add: TransferMode_of_def enum_of_value_def)

lemma BufferKind_roundtrip [simp]: "BufferKind_of (kind_value k) = Inr k"
  by (cases k) (simp_all add: BufferKind_of_def enum_of_value_def)

lemma WorkloadKind_roundtrip [simp]: "WorkloadKind_of (workload_value k) = Inr k"
  by (cases k) (simp_all add: WorkloadKind_of_def enum_of_value_def)

section \<open>Field helpers\<close>

definition opt_holds :: "('a \<Rightarrow> bool) \<Rightarrow> 'a option \<Rightarrow> bool" where
  "opt_holds P v = (case v of None \<Rightarrow> False | Some x \<Rightarrow> P x)"

lemma opt_holds_simps [simp]: "opt_holds P None = False" "opt_holds P (Some x) = P x"
  by (simp_all add: opt_holds_def)

definition require_non_empty_str :: "string \<Rightarrow> string \<Rightarrow> string result" where
  "require_non_empty_str value field_name =
     raise_if (blank value) (ValueError (field_name @ '' must be non-empty'')) (Inr value)"

text \<open>The same check under \<open>if self.f is not None\<close>.\<close>

definition require_optional_str :: "string option \<Rightarrow> string \<Rightarrow> string option result" where
  "require_optional_str value field_name =
     (case value of None \<Rightarrow> Inr None
      | Some s \<Rightarrow> rbind (require_non_empty_str s field_name) (\<lambda>s'. Inr (Some s')))"

definition normalize_non_empty_str_tuple :: "string list \<Rightarrow> string \<Rightarrow> string list result" where
  "normalize_non_empty_str_tuple values field_name =
     rmap (\<lambda>v. require_non_empty_str v field_name) values"

definition normalize_transfer_direction :: "string \<Rightarrow> string result" where
  "normalize_transfer_direction value =
     (let direction = lower value
      in raise_if (direction \<noteq> ''h2d'' \<and> direction \<noteq> ''d2h'')
           (ValueError ''direction must be h2d or d2h'') (Inr direction))"

lemma require_non_empty_str_Inr [result_simps]:
  "require_non_empty_str s n = Inr t \<longleftrightarrow> \<not> blank s \<and> t = s"
  by (auto simp: require_non_empty_str_def result_simps)

lemma require_optional_str_Inr [result_simps]:
  "require_optional_str v n = Inr t \<longleftrightarrow> \<not> opt_holds blank v \<and> t = v"
  by (cases v) (auto simp: require_optional_str_def result_simps)

lemma normalize_non_empty_str_tuple_Inr [result_simps]:
  "normalize_non_empty_str_tuple vs n = Inr t \<longleftrightarrow> list_all (\<lambda>v. \<not> blank v) vs \<and> t = vs"
  unfolding normalize_non_empty_str_tuple_def by (rule rmap_identity_iff) (simp add: result_simps)

lemma normalize_transfer_direction_Inr [result_simps]:
  "normalize_transfer_direction s = Inr d \<longleftrightarrow> lower s \<in> {''h2d'', ''d2h''} \<and> d = lower s"
  by (auto simp: normalize_transfer_direction_def Let_def result_simps)

lemma lower_directions [simp]: "lower ''h2d'' = ''h2d''" "lower ''d2h'' = ''d2h''"
  by (simp_all add: lower_def lower_char_def)

section \<open>Byte ranges\<close>

record TransferRange =
  src_offset :: int
  dst_offset :: int
  bytes :: int

definition range_ok :: "TransferRange \<Rightarrow> bool" where
  "range_ok r = (0 \<le> src_offset r \<and> 0 \<le> dst_offset r \<and> 0 < bytes r)"

definition mk_TransferRange :: "TransferRange \<Rightarrow> TransferRange result" where
  "mk_TransferRange r =
     raise_if (src_offset r < 0 \<or> dst_offset r < 0)
       (ValueError ''range offsets must be non-negative'') (
     raise_if (bytes r \<le> 0) (ValueError ''range bytes must be positive'') (
     Inr r))"

interpretation transfer_range: checked_record mk_TransferRange range_ok
  by unfold_locales (auto simp: mk_TransferRange_def range_ok_def result_simps)

text \<open>A range that arrives as a mapping: \<open>int(item["src_offset"])\<close> and so on.\<close>

definition index_int :: "mapping \<Rightarrow> string \<Rightarrow> int result" where
  "index_int m k = rbind (vindex m k) py_int"

definition range_of_mapping :: "mapping \<Rightarrow> TransferRange result" where
  "range_of_mapping item =
     rbind (index_int item ''src_offset'') (\<lambda>s.
     rbind (index_int item ''dst_offset'') (\<lambda>d.
     rbind (index_int item ''bytes'') (\<lambda>b.
     Inr \<lparr>src_offset = s, dst_offset = d, bytes = b\<rparr>)))"

definition range_as_dict :: "TransferRange \<Rightarrow> mapping" where
  "range_as_dict r =
     [(''src_offset'', VInt (src_offset r)), (''dst_offset'', VInt (dst_offset r)),
      (''bytes'', VInt (bytes r))]"

lemma range_of_mapping_as_dict [simp]: "range_of_mapping (range_as_dict r) = Inr r"
  by (simp add: range_of_mapping_def range_as_dict_def index_int_def vindex_def)

text \<open>One iteration of the loop of \<open>_normalize_worker_ranges\<close>.\<close>

definition normalize_worker_range :: "mapping \<Rightarrow> TransferRange result" where
  "normalize_worker_range item =
     rbind (range_of_mapping item) (\<lambda>r.
     raise_if (src_offset r < 0 \<or> dst_offset r < 0)
       (ValueError ''range offsets must be non-negative'') (
     raise_if (bytes r \<le> 0) (ValueError ''range bytes must be positive'') (
     Inr r)))"

definition normalize_worker_ranges :: "mapping list \<Rightarrow> TransferRange list result" where
  "normalize_worker_ranges ranges = rmap normalize_worker_range ranges"

definition range_total :: "TransferRange list \<Rightarrow> int" where
  "range_total ranges = sum_list (map bytes ranges)"

definition validate_ranges_match_total ::
  "int \<Rightarrow> TransferRange list \<Rightarrow> string \<Rightarrow> unit result" where
  "validate_ranges_match_total total_bytes ranges field_name =
     raise_if (range_total ranges \<noteq> total_bytes)
       (ValueError (field_name @ '' must equal the sum of range bytes'')) (Inr ())"

lemma normalize_worker_range_Inr:
  "normalize_worker_range item = Inr r \<longleftrightarrow> range_of_mapping item = Inr r \<and> range_ok r"
  by (auto simp: normalize_worker_range_def range_ok_def result_simps)

lemma normalize_worker_ranges_ok:
  "normalize_worker_ranges items = Inr rs \<Longrightarrow> list_all range_ok rs"
  unfolding normalize_worker_ranges_def rmap_Inr_iff
  by (induction items rs rule: list_all2_induct) (auto simp: normalize_worker_range_Inr)

lemma normalize_worker_ranges_as_dict [simp]:
  "list_all range_ok rs \<Longrightarrow> normalize_worker_ranges (map range_as_dict rs) = Inr rs"
  by (induction rs) (auto simp: normalize_worker_ranges_def normalize_worker_range_def range_ok_def)

lemma normalize_worker_ranges_Inr [result_simps]:
  "normalize_worker_ranges (map range_as_dict rs) = Inr rs' \<longleftrightarrow> list_all range_ok rs \<and> rs' = rs"
proof -
  have "normalize_worker_ranges (map range_as_dict rs) =
      rmap (\<lambda>r. normalize_worker_range (range_as_dict r)) rs"
    by (induction rs) (simp_all add: normalize_worker_ranges_def)
  also have "\<dots> = Inr rs' \<longleftrightarrow> list_all range_ok rs \<and> rs' = rs"
    by (rule rmap_identity_iff) (auto simp: normalize_worker_range_Inr)
  finally show ?thesis .
qed

lemma range_total_pos: "list_all range_ok rs \<Longrightarrow> rs \<noteq> [] \<Longrightarrow> 0 < range_total rs"
proof (induction rs)
  case Nil
  then show ?case by simp
next
  case (Cons r rs)
  then show ?case by (cases rs) (auto simp: range_total_def range_ok_def)
qed

lemma range_bytes_le_total:
  "list_all range_ok rs \<Longrightarrow> r \<in> set rs \<Longrightarrow> bytes r \<le> range_total rs"
  unfolding range_total_def
  by (rule member_le_sum_list) (auto simp: list_all_iff range_ok_def)

end
