(* ===== verification/Buffer_Metadata.thy ===== *)
theory Buffer_Metadata
  imports Schema_Base
begin

text \<open>
  \<open>_normalize_buffer_handle_metadata\<close> and \<open>_normalize_cuda_ipc_handle\<close> of
  \<open>turbobus/schema.py\<close>: the checks that tie a buffer's size to the shared memory segment or to
  the CUDA allocation it lives in.  The metadata is a mapping by type, so the
  \<open>isinstance(metadata, dict)\<close> tests always pass.
\<close>

section \<open>Hexadecimal IPC handles\<close>

definition ascii_space :: "char \<Rightarrow> bool" where
  "ascii_space c = (let n = (of_char c :: nat) in (9 \<le> n \<and> n \<le> 13) \<or> n = 32)"

definition hex_value :: "char \<Rightarrow> nat option" where
  "hex_value c = (let n = (of_char c :: nat) in
     if 48 \<le> n \<and> n \<le> 57 then Some (n - 48)
     else if 97 \<le> n \<and> n \<le> 102 then Some (n - 87)
     else if 65 \<le> n \<and> n \<le> 70 then Some (n - 55)
     else None)"

definition hex_digit :: "nat \<Rightarrow> char" where
  "hex_digit d = char_of (if d < 10 then 48 + d else 87 + d)"

text \<open>\<open>bytes.fromhex\<close> skips whitespace between bytes.\<close>

fun fromhex :: "string \<Rightarrow> nat list option" where
  "fromhex [] = Some []"
| "fromhex (c # cs) =
     (if ascii_space c then fromhex cs
      else case cs of
        [] \<Rightarrow> None
      | d # ds \<Rightarrow>
          (case (hex_value c, hex_value d) of
             (Some h, Some l) \<Rightarrow> map_option (\<lambda>bs. (16 * h + l) # bs) (fromhex ds)
           | _ \<Rightarrow> None))"

definition tohex :: "nat list \<Rightarrow> string" where
  "tohex bs = concat (map (\<lambda>b. [hex_digit (b div 16), hex_digit (b mod 16)]) bs)"

definition normalize_cuda_ipc_handle :: "pyval \<Rightarrow> string result" where
  "normalize_cuda_ipc_handle handle =
     (case handle of
        VStr s \<Rightarrow>
          (case fromhex s of
             None \<Rightarrow> Inl (ValueError ''cuda_ipc_handle must be hex encoded'')
           | Some raw \<Rightarrow>
               raise_if (length raw \<noteq> 64)
                 (ValueError ''cuda_ipc_handle must decode to 64 bytes'') (Inr (tohex raw)))
      | _ \<Rightarrow> Inl (ValueError ''cuda_ipc_handle must be a hex string''))"

lemma hex_digit_code: "d < 16 \<Longrightarrow> (of_char (hex_digit d) :: nat) = (if d < 10 then 48 + d else 87 + d)"
  by (simp add: hex_digit_def)

lemma hex_value_digit [simp]: "d < 16 \<Longrightarrow> hex_value (hex_digit d) = Some d"
  by (simp add: hex_value_def hex_digit_code Let_def)

lemma hex_digit_not_space [simp]: "d < 16 \<Longrightarrow> \<not> ascii_space (hex_digit d)"
  by (simp add: ascii_space_def hex_digit_code Let_def)

lemma tohex_Cons: "tohex (b # bs) = hex_digit (b div 16) # hex_digit (b mod 16) # tohex bs"
  by (simp add: tohex_def)

lemma hex_value_less: "hex_value c = Some h \<Longrightarrow> h < 16"
  by (auto simp: hex_value_def Let_def split: if_splits)

lemma fromhex_bytes: "fromhex s = Some bs \<Longrightarrow> list_all (\<lambda>b. b < 256) bs"
proof (induction s arbitrary: bs rule: fromhex.induct)
  case 1
  then show ?case by simp
next
  case (2 c cs)
  then show ?case
    by (fastforce split: if_splits list.splits option.splits dest: hex_value_less)
qed

lemma fromhex_tohex [simp]: "list_all (\<lambda>b. b < 256) bs \<Longrightarrow> fromhex (tohex bs) = Some bs"
proof (induction bs)
  case Nil
  then show ?case by (simp add: tohex_def)
next
  case (Cons b bs)
  then have "b div 16 < 16" "b mod 16 < 16" by (simp_all add: less_mult_imp_div_less)
  with Cons show ?case by (simp add: tohex_Cons)
qed

definition ipc_handle_ok :: "string \<Rightarrow> bool" where
  "ipc_handle_ok s = (\<exists>raw. length raw = 64 \<and> list_all (\<lambda>b. b < 256) raw \<and> s = tohex raw)"

lemma normalize_cuda_ipc_handle_ok:
  "normalize_cuda_ipc_handle v = Inr s \<Longrightarrow> ipc_handle_ok s"
  by (auto simp: normalize_cuda_ipc_handle_def ipc_handle_ok_def result_simps
      split: pyval.splits option.splits dest: fromhex_bytes)

lemma normalize_cuda_ipc_handle_fixed:
  "ipc_handle_ok s \<Longrightarrow> normalize_cuda_ipc_handle (VStr s) = Inr s"
  by (auto simp: normalize_cuda_ipc_handle_def ipc_handle_ok_def)

section \<open>Metadata of a buffer handle\<close>

definition normalize_shared_pinned :: "string \<Rightarrow> bool \<Rightarrow> int \<Rightarrow> mapping \<Rightarrow> mapping result" where
  "normalize_shared_pinned kind pinned size_bytes metadata =
     raise_if (kind \<noteq> ''cpu_pinned'')
       (ValueError ''shared_pinned_cpu handles require cpu_pinned buffers'') (
     raise_if (\<not> pinned) (ValueError ''shared_pinned_cpu handles require pinned buffers'') (
     rbind (rcheck (\<lambda>field_name.
              raise_if (map_of metadata field_name = None)
                (ValueError (''shared_pinned_cpu metadata requires '' @ field_name)) (Inr ()))
            [''shared_memory_name'', ''offset_bytes'', ''shared_memory_size_bytes'']) (\<lambda>_.
     rbind (index_int metadata ''offset_bytes'') (\<lambda>offset.
     raise_if (offset < 0)
       (ValueError ''shared_pinned_cpu offset_bytes must be non-negative'') (
     rbind (index_int metadata ''shared_memory_size_bytes'') (\<lambda>shared_size.
     raise_if (shared_size < offset + size_bytes)
       (ValueError ''shared_pinned_cpu shared_memory_size_bytes is smaller than buffer span'') (
     Inr metadata)))))))"

definition normalize_base_ptr :: "mapping \<Rightarrow> mapping result" where
  "normalize_base_ptr metadata =
     (case map_of metadata ''allocation_base_ptr'' of
        None \<Rightarrow> Inr metadata
      | Some v \<Rightarrow>
          if v = VNone then Inr metadata
          else rbind (py_int v) (\<lambda>p.
               raise_if (p \<le> 0)
                 (ValueError ''cuda_ipc_device allocation_base_ptr must be positive'') (
               Inr (AList.update ''allocation_base_ptr'' (VInt p) metadata))))"

definition normalize_cuda_device :: "string \<Rightarrow> int option \<Rightarrow> int \<Rightarrow> mapping \<Rightarrow> mapping result" where
  "normalize_cuda_device kind device_index size_bytes metadata0 =
     raise_if (kind \<noteq> ''gpu'') (ValueError ''cuda_ipc_device handles require gpu buffers'') (
     raise_if (device_index = None)
       (ValueError ''cuda_ipc_device handles require device_index'') (
     (case map_of metadata0 ''cuda_ipc_handle'' of
        None \<Rightarrow> Inl (ValueError ''cuda_ipc_device metadata requires cuda_ipc_handle'')
      | Some h \<Rightarrow>
          rbind (normalize_cuda_ipc_handle h) (\<lambda>handle.
          let m1 = AList.update ''cuda_ipc_handle'' (VStr handle) metadata0 in
          rbind (py_int (vget m1 ''device_offset_bytes'' (VInt 0))) (\<lambda>offset.
          let m2 = AList.update ''device_offset_bytes'' (VInt offset) m1 in
          raise_if (offset < 0)
            (ValueError ''cuda_ipc_device device_offset_bytes must be non-negative'') (
          case map_of m2 ''allocation_size_bytes'' of
            None \<Rightarrow> Inl (ValueError ''cuda_ipc_device metadata requires allocation_size_bytes'')
          | Some a \<Rightarrow>
              rbind (py_int a) (\<lambda>alloc.
              let m3 = AList.update ''allocation_size_bytes'' (VInt alloc) m2 in
              raise_if (alloc \<le> 0)
                (ValueError ''cuda_ipc_device allocation_size_bytes must be positive'') (
              raise_if (offset + size_bytes > alloc)
                (ValueError ''cuda_ipc_device buffer span exceeds allocation_size_bytes'') (
              normalize_base_ptr m3)))))))))"

definition normalize_buffer_handle_metadata ::
  "string \<Rightarrow> bool \<Rightarrow> int option \<Rightarrow> int \<Rightarrow> string \<Rightarrow> mapping \<Rightarrow> mapping result" where
  "normalize_buffer_handle_metadata kind pinned device_index size_bytes handle_type metadata =
     raise_if (blank handle_type) (ValueError ''handle_type must be non-empty'') (
     if handle_type = ''shared_pinned_cpu''
     then normalize_shared_pinned kind pinned size_bytes metadata
     else if handle_type = ''cuda_ipc_device''
     then normalize_cuda_device kind device_index size_bytes metadata
     else Inr metadata)"

section \<open>What normalised metadata promises\<close>

text \<open>The buffer lies inside the shared segment or the device allocation it names.\<close>

definition shared_pinned_ok :: "string \<Rightarrow> bool \<Rightarrow> int \<Rightarrow> mapping \<Rightarrow> bool" where
  "shared_pinned_ok kind pinned size_bytes m =
     (kind = ''cpu_pinned'' \<and> pinned \<and> map_of m ''shared_memory_name'' \<noteq> None \<and>
      (\<exists>offset shared. index_int m ''offset_bytes'' = Inr offset \<and>
         index_int m ''shared_memory_size_bytes'' = Inr shared \<and>
         0 \<le> offset \<and> offset + size_bytes \<le> shared))"

definition cuda_device_ok :: "string \<Rightarrow> int option \<Rightarrow> int \<Rightarrow> mapping \<Rightarrow> bool" where
  "cuda_device_ok kind device_index size_bytes m =
     (kind = ''gpu'' \<and> device_index \<noteq> None \<and>
      (\<exists>handle offset alloc.
         map_of m ''cuda_ipc_handle'' = Some (VStr handle) \<and> ipc_handle_ok handle \<and>
         map_of m ''device_offset_bytes'' = Some (VInt offset) \<and>
         map_of m ''allocation_size_bytes'' = Some (VInt alloc) \<and>
         0 \<le> offset \<and> 0 < alloc \<and> offset + size_bytes \<le> alloc) \<and>
      (case map_of m ''allocation_base_ptr'' of
         None \<Rightarrow> True | Some v \<Rightarrow> v = VNone \<or> (\<exists>p. v = VInt p \<and> 0 < p)))"

definition metadata_ok :: "string \<Rightarrow> bool \<Rightarrow> int option \<Rightarrow> int \<Rightarrow> string \<Rightarrow> mapping \<Rightarrow> bool" where
  "metadata_ok kind pinned device_index size_bytes handle_type m =
     (\<not> blank handle_type \<and>
      (handle_type = ''shared_pinned_cpu'' \<longrightarrow> shared_pinned_ok kind pinned size_bytes m) \<and>
      (handle_type = ''cuda_ipc_device'' \<longrightarrow> cuda_device_ok kind device_index size_bytes m))"

lemma index_int_known: "index_int m k = Inr i \<Longrightarrow> map_of m k \<noteq> None"
  by (auto simp: index_int_def vindex_def split: option.splits)

lemma normalize_shared_pinned_Inr:
  "normalize_shared_pinned kind pinned nbytes m = Inr m' \<longleftrightarrow>
     shared_pinned_ok kind pinned nbytes m \<and> m' = m"
  using index_int_known [of m]
  by (auto simp: normalize_shared_pinned_def shared_pinned_ok_def result_simps)

lemma update_same: "map_of d k = Some v \<Longrightarrow> AList.update k v d = d"
  by (induction d) (auto split: if_splits)

lemma normalize_base_ptr_ok:
  assumes "normalize_base_ptr m = Inr m'"
  shows "(case map_of m' ''allocation_base_ptr'' of
            None \<Rightarrow> True | Some v \<Rightarrow> v = VNone \<or> (\<exists>p. v = VInt p \<and> 0 < p)) \<and>
         (\<forall>k. k \<noteq> ''allocation_base_ptr'' \<longrightarrow> map_of m' k = map_of m k)"
  using assms by (auto simp: normalize_base_ptr_def result_simps split: option.splits if_splits)

lemma normalize_cuda_device_ok:
  assumes "normalize_cuda_device kind dev nbytes m = Inr m'"
  shows "cuda_device_ok kind dev nbytes m'"
  using assms
  by (auto simp: normalize_cuda_device_def cuda_device_ok_def Let_def result_simps
      split: option.splits dest!: normalize_base_ptr_ok normalize_cuda_ipc_handle_ok)

lemma normalize_cuda_device_fixed:
  assumes "cuda_device_ok kind dev nbytes m"
  shows "normalize_cuda_device kind dev nbytes m = Inr m"
proof -
  from assms obtain handle offset alloc where m:
    "kind = ''gpu''" "dev \<noteq> None"
    "map_of m ''cuda_ipc_handle'' = Some (VStr handle)" "ipc_handle_ok handle"
    "map_of m ''device_offset_bytes'' = Some (VInt offset)"
    "map_of m ''allocation_size_bytes'' = Some (VInt alloc)"
    "0 \<le> offset" "0 < alloc" "offset + nbytes \<le> alloc"
    and base: "case map_of m ''allocation_base_ptr'' of
         None \<Rightarrow> True | Some v \<Rightarrow> v = VNone \<or> (\<exists>p. v = VInt p \<and> 0 < p)"
    by (auto simp: cuda_device_ok_def)
  have "normalize_base_ptr m = Inr m"
    using base by (auto simp: normalize_base_ptr_def update_same split: option.splits)
  with m show ?thesis
    by (auto simp: normalize_cuda_device_def Let_def normalize_cuda_ipc_handle_fixed
        update_same vget_def dget_default_def raise_if_def)
qed

lemma normalize_metadata_ok:
  "normalize_buffer_handle_metadata k p d s h m = Inr m' \<Longrightarrow> metadata_ok k p d s h m'"
  by (auto simp: normalize_buffer_handle_metadata_def metadata_ok_def result_simps
      normalize_shared_pinned_Inr dest: normalize_cuda_device_ok split: if_splits)

lemma normalize_metadata_fixed:
  "metadata_ok k p d s h m \<Longrightarrow> normalize_buffer_handle_metadata k p d s h m = Inr m"
  by (auto simp: normalize_buffer_handle_metadata_def metadata_ok_def
      normalize_shared_pinned_Inr normalize_cuda_device_fixed)

end
