(* ===== verification/Schema_Control.thy ===== *)
theory Schema_Control
  imports Buffer_Metadata
begin

text \<open>
  The control-plane records of \<open>turbobus/schema.py\<close>: identities, buffers, transfer intents,
  scheduling decisions, execution tickets, receipts, lease tokens, transfer statuses, cleanup
  requests, sessions, relay quotas and reservations.  A \<open>mk_\<close> function is the dataclass's
  \<open>__post_init__\<close>: it takes the record as constructed, runs the checks in the source's order and
  returns the normalised record or the exception.  Fields have the annotated types, on which
  \<open>int\<close>, \<open>str\<close>, \<open>float\<close>, \<open>bool\<close> and \<open>dict\<close> are identities.  A \<open>_ok\<close> predicate says what an
  accepted record satisfies; each pair is an interpretation of the constructor contract.
\<close>

section \<open>Identities\<close>

record PeerIdentity =
  pi_authenticated :: bool
  pi_source :: string
  pi_user_id :: "string option"
  pi_process_id :: "int option"
  pi_group_id :: "int option"
  pi_container_id :: "string option"
  pi_unsupported_reason :: "string option"

definition mk_PeerIdentity :: "PeerIdentity \<Rightarrow> PeerIdentity result" where
  "mk_PeerIdentity p =
     rbind (require_non_empty_str (pi_source p) ''source'') (\<lambda>source.
     raise_if (pi_authenticated p \<and> pi_user_id p = None)
       (ValueError ''authenticated peer identity requires user_id'') (
     raise_if (opt_holds (\<lambda>i. i < 0) (pi_process_id p))
       (ValueError ''process_id must be non-negative'') (
     raise_if (opt_holds (\<lambda>i. i < 0) (pi_group_id p))
       (ValueError ''group_id must be non-negative'') (
     rbind (if \<not> pi_authenticated p
            then require_optional_str (pi_unsupported_reason p) ''unsupported_reason''
            else Inr (pi_unsupported_reason p)) (\<lambda>unsupported.
     rbind (require_optional_str (pi_user_id p) ''user_id'') (\<lambda>user.
     rbind (require_optional_str (pi_container_id p) ''container_id'') (\<lambda>container.
     Inr (p\<lparr>pi_source := source, pi_unsupported_reason := unsupported,
            pi_user_id := user, pi_container_id := container\<rparr>))))))))"

definition PeerIdentity_ok :: "PeerIdentity \<Rightarrow> bool" where
  "PeerIdentity_ok p =
     (\<not> blank (pi_source p) \<and> (pi_authenticated p \<longrightarrow> pi_user_id p \<noteq> None) \<and>
      \<not> opt_holds (\<lambda>i. i < 0) (pi_process_id p) \<and> \<not> opt_holds (\<lambda>i. i < 0) (pi_group_id p) \<and>
      \<not> opt_holds blank (pi_user_id p) \<and> \<not> opt_holds blank (pi_container_id p) \<and>
      (\<not> pi_authenticated p \<longrightarrow> \<not> opt_holds blank (pi_unsupported_reason p)))"

interpretation peer_identity: checked_record mk_PeerIdentity PeerIdentity_ok
  by unfold_locales (auto simp: mk_PeerIdentity_def PeerIdentity_ok_def result_simps split: if_splits)

record JobIdentity =
  ji_job_id :: string
  ji_user_id :: "string option"
  ji_session_id :: "string option"
  ji_container_id :: "string option"
  ji_process_id :: "int option"
  ji_weight :: rat

definition mk_JobIdentity :: "JobIdentity \<Rightarrow> JobIdentity result" where
  "mk_JobIdentity j =
     rbind (require_non_empty_str (ji_job_id j) ''job_id'') (\<lambda>job_id.
     raise_if (opt_holds (\<lambda>i. i < 0) (ji_process_id j))
       (ValueError ''process_id must be non-negative'') (
     raise_if (ji_weight j \<le> 0) (ValueError ''job weight must be positive'') (
     rbind (require_optional_str (ji_user_id j) ''user_id'') (\<lambda>user.
     rbind (require_optional_str (ji_session_id j) ''session_id'') (\<lambda>session.
     rbind (require_optional_str (ji_container_id j) ''container_id'') (\<lambda>container.
     Inr (j\<lparr>ji_job_id := job_id, ji_user_id := user, ji_session_id := session,
            ji_container_id := container\<rparr>)))))))"

definition JobIdentity_ok :: "JobIdentity \<Rightarrow> bool" where
  "JobIdentity_ok j =
     (\<not> blank (ji_job_id j) \<and> \<not> opt_holds (\<lambda>i. i < 0) (ji_process_id j) \<and> 0 < ji_weight j \<and>
      \<not> opt_holds blank (ji_user_id j) \<and> \<not> opt_holds blank (ji_session_id j) \<and>
      \<not> opt_holds blank (ji_container_id j))"

interpretation job_identity: checked_record mk_JobIdentity JobIdentity_ok
  by unfold_locales (auto simp: mk_JobIdentity_def JobIdentity_ok_def result_simps)

section \<open>Buffers\<close>

record BufferHandle =
  bh_buffer_id :: string
  bh_job_id :: string
  bh_session_id :: string
  bh_kind :: BufferKind
  bh_size_bytes :: int
  bh_device_index :: "int option"
  bh_address :: "int option"
  bh_pinned :: bool
  bh_handle_type :: string
  bh_metadata :: mapping

definition mk_BufferHandle :: "BufferHandle \<Rightarrow> BufferHandle result" where
  "mk_BufferHandle b =
     rbind (require_non_empty_str (bh_buffer_id b) ''buffer_id'') (\<lambda>buffer_id.
     rbind (require_non_empty_str (bh_job_id b) ''job_id'') (\<lambda>job_id.
     rbind (require_non_empty_str (bh_session_id b) ''session_id'') (\<lambda>session_id.
     raise_if (bh_size_bytes b < 0) (ValueError ''size_bytes must be non-negative'') (
     raise_if (opt_holds (\<lambda>i. i < 0) (bh_device_index b))
       (ValueError ''device_index must be non-negative'') (
     raise_if (opt_holds (\<lambda>i. i < 0) (bh_address b))
       (ValueError ''address must be non-negative'') (
     raise_if (bh_kind b = GPU \<and> bh_device_index b = None)
       (ValueError ''gpu buffer handles require device_index'') (
     raise_if (bh_kind b = CPU_PINNED \<and> \<not> bh_pinned b)
       (ValueError ''cpu_pinned buffer handles require pinned=True'') (
     rbind (require_non_empty_str (bh_handle_type b) ''handle_type'') (\<lambda>h.
     let handle_type = lower h in
     rbind (normalize_buffer_handle_metadata (kind_value (bh_kind b)) (bh_pinned b)
              (bh_device_index b) (bh_size_bytes b) handle_type (bh_metadata b)) (\<lambda>metadata.
     Inr (b\<lparr>bh_buffer_id := buffer_id, bh_job_id := job_id, bh_session_id := session_id,
            bh_handle_type := handle_type, bh_metadata := metadata\<rparr>)))))))))))"

definition BufferHandle_ok :: "BufferHandle \<Rightarrow> bool" where
  "BufferHandle_ok b =
     (\<not> blank (bh_buffer_id b) \<and> \<not> blank (bh_job_id b) \<and> \<not> blank (bh_session_id b) \<and>
      0 \<le> bh_size_bytes b \<and> \<not> opt_holds (\<lambda>i. i < 0) (bh_device_index b) \<and>
      \<not> opt_holds (\<lambda>i. i < 0) (bh_address b) \<and>
      (bh_kind b = GPU \<longrightarrow> bh_device_index b \<noteq> None) \<and>
      (bh_kind b = CPU_PINNED \<longrightarrow> bh_pinned b) \<and>
      lower (bh_handle_type b) = bh_handle_type b \<and>
      metadata_ok (kind_value (bh_kind b)) (bh_pinned b) (bh_device_index b) (bh_size_bytes b)
        (bh_handle_type b) (bh_metadata b))"

lemma metadata_ok_not_blank: "metadata_ok k p d s h m \<Longrightarrow> \<not> blank h"
  by (simp add: metadata_ok_def)

interpretation buffer_handle: validated_record mk_BufferHandle BufferHandle_ok
proof
  fix b b'
  assume "mk_BufferHandle b = Inr b'"
  then show "BufferHandle_ok b'"
    by (auto simp: mk_BufferHandle_def BufferHandle_ok_def Let_def result_simps
        dest: normalize_metadata_ok)
next
  fix b
  assume "BufferHandle_ok b"
  then show "mk_BufferHandle b = Inr b"
    by (auto simp: mk_BufferHandle_def BufferHandle_ok_def Let_def result_simps
        normalize_metadata_fixed dest: metadata_ok_not_blank)
qed

record BufferRegistration =
  br_buffer_id :: string
  br_job_id :: string
  br_kind :: string
  br_size_bytes :: int
  br_device_index :: "int option"
  br_address :: "int option"
  br_pinned :: bool
  br_handle_type :: string
  br_metadata :: mapping

definition mk_BufferRegistration :: "BufferRegistration \<Rightarrow> BufferRegistration result" where
  "mk_BufferRegistration b =
     raise_if (blank (br_buffer_id b)) (ValueError ''buffer_id must be non-empty'') (
     raise_if (blank (br_job_id b)) (ValueError ''job_id must be non-empty'') (
     raise_if (br_size_bytes b < 0) (ValueError ''size_bytes must be non-negative'') (
     raise_if (opt_holds (\<lambda>i. i < 0) (br_device_index b))
       (ValueError ''device_index must be non-negative'') (
     raise_if (opt_holds (\<lambda>i. i < 0) (br_address b))
       (ValueError ''address must be non-negative'') (
     raise_if (blank (br_kind b)) (ValueError ''kind must be non-empty'') (
     let handle_type = lower (br_handle_type b) in
     rbind (normalize_buffer_handle_metadata (br_kind b) (br_pinned b) (br_device_index b)
              (br_size_bytes b) handle_type (br_metadata b)) (\<lambda>metadata.
     Inr (b\<lparr>br_handle_type := handle_type, br_metadata := metadata\<rparr>))))))))"

definition BufferRegistration_ok :: "BufferRegistration \<Rightarrow> bool" where
  "BufferRegistration_ok b =
     (\<not> blank (br_buffer_id b) \<and> \<not> blank (br_job_id b) \<and> 0 \<le> br_size_bytes b \<and>
      \<not> opt_holds (\<lambda>i. i < 0) (br_device_index b) \<and> \<not> opt_holds (\<lambda>i. i < 0) (br_address b) \<and>
      \<not> blank (br_kind b) \<and> lower (br_handle_type b) = br_handle_type b \<and>
      metadata_ok (br_kind b) (br_pinned b) (br_device_index b) (br_size_bytes b)
        (br_handle_type b) (br_metadata b))"

interpretation buffer_registration: validated_record mk_BufferRegistration BufferRegistration_ok
proof
  fix b b'
  assume "mk_BufferRegistration b = Inr b'"
  then show "BufferRegistration_ok b'"
    by (auto simp: mk_BufferRegistration_def BufferRegistration_ok_def Let_def result_simps
        dest: normalize_metadata_ok)
next
  fix b
  assume "BufferRegistration_ok b"
  then show "mk_BufferRegistration b = Inr b"
    by (auto simp: mk_BufferRegistration_def BufferRegistration_ok_def Let_def result_simps
        normalize_metadata_fixed)
qed

section \<open>Transfer intents\<close>

definition forbidden_policy_keys :: "string list" where
  "forbidden_policy_keys =
     [''mode'', ''path'', ''paths'', ''route'', ''routes'', ''relay'', ''relays'',
      ''relay_gpu'', ''relay_gpus'', ''target_device'', ''target_gpu'']"

fun join :: "string \<Rightarrow> string list \<Rightarrow> string" where
  "join sep [] = []"
| "join sep [s] = s"
| "join sep (s # ss) = s @ sep @ join sep ss"

definition normalize_policy_hints :: "mapping \<Rightarrow> mapping result" where
  "normalize_policy_hints hints =
     (let invalid_keys = sort (filter (\<lambda>k. lower k \<in> set forbidden_policy_keys) (dkeys hints))
      in raise_if (invalid_keys \<noteq> [])
           (ValueError (''policy_hints must not choose physical paths: '' @ join '', '' invalid_keys))
           (Inr hints))"

lemma normalize_policy_hints_Inr [result_simps]:
  "normalize_policy_hints h = Inr h' \<longleftrightarrow>
     (\<forall>k \<in> set (dkeys h). lower k \<notin> set forbidden_policy_keys) \<and> h' = h"
proof -
  have "sort (filter P xs) = [] \<longleftrightarrow> (\<forall>k \<in> set xs. \<not> P k)" for P and xs :: "string list"
    by (metis filter_empty_conv set_empty set_sort)
  then show ?thesis
    by (auto simp: normalize_policy_hints_def Let_def result_simps)
qed

record TransferIntent =
  ti_intent_id :: string
  ti_job_id :: string
  ti_session_id :: string
  ti_source_buffer_id :: string
  ti_destination_buffer_id :: string
  ti_direction :: string
  ti_total_bytes :: int
  ti_ranges :: "TransferRange list"
  ti_workload_kind :: WorkloadKind
  ti_priority :: int
  ti_policy_hints :: mapping
  ti_metadata :: mapping

definition mk_TransferIntent :: "TransferIntent \<Rightarrow> TransferIntent result" where
  "mk_TransferIntent t =
     raise_if (ti_total_bytes t \<le> 0) (ValueError ''total_bytes must be positive'') (
     rbind (normalize_worker_ranges (map range_as_dict (ti_ranges t))) (\<lambda>ranges.
     raise_if (ranges = []) (ValueError ''transfer intent requires at least one byte range'') (
     rbind (validate_ranges_match_total (ti_total_bytes t) ranges ''total_bytes'') (\<lambda>_.
     rbind (require_non_empty_str (ti_source_buffer_id t) ''source_buffer_id'') (\<lambda>src.
     rbind (require_non_empty_str (ti_destination_buffer_id t) ''destination_buffer_id'') (\<lambda>dst.
     raise_if (src = dst) (ValueError ''source and destination buffers must be different'') (
     rbind (normalize_policy_hints (ti_policy_hints t)) (\<lambda>hints.
     rbind (require_non_empty_str (ti_intent_id t) ''intent_id'') (\<lambda>intent_id.
     rbind (require_non_empty_str (ti_job_id t) ''job_id'') (\<lambda>job_id.
     rbind (require_non_empty_str (ti_session_id t) ''session_id'') (\<lambda>session_id.
     rbind (normalize_transfer_direction (ti_direction t)) (\<lambda>direction.
     Inr (t\<lparr>ti_intent_id := intent_id, ti_job_id := job_id, ti_session_id := session_id,
            ti_source_buffer_id := src, ti_destination_buffer_id := dst,
            ti_direction := direction, ti_ranges := ranges, ti_policy_hints := hints\<rparr>)))))))))))))"

definition TransferIntent_ok :: "TransferIntent \<Rightarrow> bool" where
  "TransferIntent_ok t =
     (0 < ti_total_bytes t \<and> ti_ranges t \<noteq> [] \<and> list_all range_ok (ti_ranges t) \<and>
      range_total (ti_ranges t) = ti_total_bytes t \<and>
      \<not> blank (ti_source_buffer_id t) \<and> \<not> blank (ti_destination_buffer_id t) \<and>
      ti_source_buffer_id t \<noteq> ti_destination_buffer_id t \<and>
      (\<forall>k \<in> set (dkeys (ti_policy_hints t)). lower k \<notin> set forbidden_policy_keys) \<and>
      \<not> blank (ti_intent_id t) \<and> \<not> blank (ti_job_id t) \<and> \<not> blank (ti_session_id t) \<and>
      ti_direction t \<in> {''h2d'', ''d2h''})"

lemma validate_ranges_match_total_Inr [result_simps]:
  "validate_ranges_match_total n rs f = Inr u \<longleftrightarrow> range_total rs = n"
  by (auto simp: validate_ranges_match_total_def result_simps)

interpretation transfer_intent: validated_record mk_TransferIntent TransferIntent_ok
proof
  fix t t'
  assume "mk_TransferIntent t = Inr t'"
  then show "TransferIntent_ok t'"
    by (auto simp: mk_TransferIntent_def TransferIntent_ok_def result_simps)
next
  fix t
  assume "TransferIntent_ok t"
  then show "mk_TransferIntent t = Inr t"
    by (auto simp: mk_TransferIntent_def TransferIntent_ok_def result_simps)
qed

end
