(* ===== verification/Schema_Tickets.thy ===== *)
theory Schema_Tickets
  imports Schema_Control
begin

text \<open>
  The daemon-issued records of \<open>turbobus/schema.py\<close>: topology snapshots, scheduling decisions,
  execution tickets, receipts with their completion evidence, lease tokens, transfer statuses,
  cleanup requests, and the mutable session, relay quota and reservation records.
\<close>

section \<open>Topology snapshots and scheduling decisions\<close>

record TopologySnapshot =
  tp_snapshot_id :: string
  tp_source :: string
  tp_discovered_at :: rat
  tp_version :: int
  tp_devices :: "mapping list"
  tp_pcie_links :: "mapping list"
  tp_fabric_links :: "mapping list"
  tp_numa_nodes :: "mapping list"
  tp_metadata :: mapping

definition mk_TopologySnapshot :: "TopologySnapshot \<Rightarrow> TopologySnapshot result" where
  "mk_TopologySnapshot t =
     raise_if (tp_discovered_at t < 0) (ValueError ''discovered_at must be non-negative'') (
     raise_if (tp_version t < 0) (ValueError ''version must be non-negative'') (
     rbind (require_non_empty_str (tp_snapshot_id t) ''snapshot_id'') (\<lambda>snapshot_id.
     rbind (require_non_empty_str (tp_source t) ''source'') (\<lambda>source.
     Inr (t\<lparr>tp_snapshot_id := snapshot_id, tp_source := source\<rparr>)))))"

definition TopologySnapshot_ok :: "TopologySnapshot \<Rightarrow> bool" where
  "TopologySnapshot_ok t =
     (0 \<le> tp_discovered_at t \<and> 0 \<le> tp_version t \<and>
      \<not> blank (tp_snapshot_id t) \<and> \<not> blank (tp_source t))"

interpretation topology_snapshot: checked_record mk_TopologySnapshot TopologySnapshot_ok
  by unfold_locales (auto simp: mk_TopologySnapshot_def TopologySnapshot_ok_def result_simps)

record SchedulingDecision =
  sd_decision_id :: string
  sd_intent_id :: string
  sd_topology_snapshot_id :: string
  sd_job_id :: string
  sd_session_id :: string
  sd_state :: SchedulingDecisionState
  sd_plan :: mapping
  sd_path_summary :: "mapping list"
  sd_fallback_reason :: "string option"
  sd_rejection_reason :: "string option"
  sd_issued_at :: rat
  sd_metadata :: mapping

definition missing_reason :: "string option \<Rightarrow> bool" where
  "missing_reason r = (case r of None \<Rightarrow> True | Some s \<Rightarrow> blank s)"

lemma missing_reason_simps [simp]: "missing_reason None" "missing_reason (Some s) = blank s"
  by (simp_all add: missing_reason_def)

definition mk_SchedulingDecision :: "SchedulingDecision \<Rightarrow> SchedulingDecision result" where
  "mk_SchedulingDecision d =
     rbind (if sd_state d = REJECTED
            then raise_if (sd_plan d \<noteq> [])
                   (ValueError ''rejected scheduling decisions must not include a plan'') (
                 raise_if (missing_reason (sd_rejection_reason d))
                   (ValueError ''rejected scheduling decisions require rejection_reason'') (Inr ()))
            else raise_if (sd_plan d = [])
                   (ValueError ''planned scheduling decisions require a plan'') (
                 raise_if (sd_state d = FALLBACK \<and> missing_reason (sd_fallback_reason d))
                   (ValueError ''fallback scheduling decisions require fallback_reason'')
                   (Inr ()))) (\<lambda>_.
     raise_if (sd_issued_at d < 0) (ValueError ''issued_at must be non-negative'') (
     rbind (require_non_empty_str (sd_decision_id d) ''decision_id'') (\<lambda>decision_id.
     rbind (require_non_empty_str (sd_intent_id d) ''intent_id'') (\<lambda>intent_id.
     rbind (require_non_empty_str (sd_topology_snapshot_id d) ''topology_snapshot_id'') (\<lambda>snapshot.
     rbind (require_non_empty_str (sd_job_id d) ''job_id'') (\<lambda>job_id.
     rbind (require_non_empty_str (sd_session_id d) ''session_id'') (\<lambda>session_id.
     rbind (require_optional_str (sd_fallback_reason d) ''fallback_reason'') (\<lambda>fallback.
     rbind (require_optional_str (sd_rejection_reason d) ''rejection_reason'') (\<lambda>rejection.
     Inr (d\<lparr>sd_decision_id := decision_id, sd_intent_id := intent_id,
            sd_topology_snapshot_id := snapshot, sd_job_id := job_id, sd_session_id := session_id,
            sd_fallback_reason := fallback, sd_rejection_reason := rejection\<rparr>))))))))))"

definition SchedulingDecision_ok :: "SchedulingDecision \<Rightarrow> bool" where
  "SchedulingDecision_ok d =
     ((sd_state d = REJECTED \<longleftrightarrow> sd_plan d = []) \<and>
      (sd_state d = REJECTED \<longrightarrow> sd_rejection_reason d \<noteq> None) \<and>
      (sd_state d = FALLBACK \<longrightarrow> sd_fallback_reason d \<noteq> None) \<and>
      0 \<le> sd_issued_at d \<and> \<not> blank (sd_decision_id d) \<and> \<not> blank (sd_intent_id d) \<and>
      \<not> blank (sd_topology_snapshot_id d) \<and> \<not> blank (sd_job_id d) \<and> \<not> blank (sd_session_id d) \<and>
      \<not> opt_holds blank (sd_fallback_reason d) \<and> \<not> opt_holds blank (sd_rejection_reason d))"

interpretation scheduling_decision: checked_record mk_SchedulingDecision SchedulingDecision_ok
proof
  fix d d'
  have state: "\<not> missing_reason r \<longleftrightarrow> r \<noteq> None \<and> \<not> opt_holds blank r" for r
    by (cases r) simp_all
  show "mk_SchedulingDecision d = Inr d' \<longleftrightarrow> SchedulingDecision_ok d \<and> d' = d"
    by (cases "sd_state d")
      (auto simp: mk_SchedulingDecision_def SchedulingDecision_ok_def result_simps state)
qed

section \<open>Execution tickets\<close>

record ExecutionTicket =
  et_ticket_id :: string
  et_decision_id :: string
  et_intent_id :: string
  et_topology_snapshot_id :: string
  et_job_id :: string
  et_session_id :: string
  et_source_buffer_id :: string
  et_destination_buffer_id :: string
  et_direction :: string
  et_total_bytes :: int
  et_ranges :: "TransferRange list"
  et_plan :: mapping
  et_issued_at :: rat
  et_expires_at :: rat
  et_lease_ids :: "string list"
  et_metadata :: mapping

definition mk_ExecutionTicket :: "ExecutionTicket \<Rightarrow> ExecutionTicket result" where
  "mk_ExecutionTicket t =
     raise_if (et_total_bytes t \<le> 0) (ValueError ''ticket total_bytes must be positive'') (
     rbind (normalize_worker_ranges (map range_as_dict (et_ranges t))) (\<lambda>ranges.
     raise_if (ranges = []) (ValueError ''execution ticket requires at least one byte range'') (
     rbind (validate_ranges_match_total (et_total_bytes t) ranges ''ticket total_bytes'') (\<lambda>_.
     raise_if (et_plan t = []) (ValueError ''execution ticket requires daemon-issued plan'') (
     raise_if (et_issued_at t < 0) (ValueError ''issued_at must be non-negative'') (
     raise_if (et_expires_at t \<le> et_issued_at t)
       (ValueError ''expires_at must be later than issued_at'') (
     rbind (require_non_empty_str (et_source_buffer_id t) ''source_buffer_id'') (\<lambda>src.
     rbind (require_non_empty_str (et_destination_buffer_id t) ''destination_buffer_id'') (\<lambda>dst.
     raise_if (src = dst) (ValueError ''source and destination buffers must be different'') (
     rbind (require_non_empty_str (et_ticket_id t) ''ticket_id'') (\<lambda>ticket_id.
     rbind (require_non_empty_str (et_decision_id t) ''decision_id'') (\<lambda>decision_id.
     rbind (require_non_empty_str (et_intent_id t) ''intent_id'') (\<lambda>intent_id.
     rbind (require_non_empty_str (et_topology_snapshot_id t) ''topology_snapshot_id'') (\<lambda>snapshot.
     rbind (require_non_empty_str (et_job_id t) ''job_id'') (\<lambda>job_id.
     rbind (require_non_empty_str (et_session_id t) ''session_id'') (\<lambda>session_id.
     rbind (normalize_transfer_direction (et_direction t)) (\<lambda>direction.
     rbind (normalize_non_empty_str_tuple (et_lease_ids t) ''lease_ids'') (\<lambda>lease_ids.
     Inr (t\<lparr>et_ticket_id := ticket_id, et_decision_id := decision_id, et_intent_id := intent_id,
            et_topology_snapshot_id := snapshot, et_job_id := job_id, et_session_id := session_id,
            et_source_buffer_id := src, et_destination_buffer_id := dst,
            et_direction := direction, et_ranges := ranges,
            et_lease_ids := lease_ids\<rparr>)))))))))))))))))))"

definition ExecutionTicket_ok :: "ExecutionTicket \<Rightarrow> bool" where
  "ExecutionTicket_ok t =
     (0 < et_total_bytes t \<and> et_ranges t \<noteq> [] \<and> list_all range_ok (et_ranges t) \<and>
      range_total (et_ranges t) = et_total_bytes t \<and> et_plan t \<noteq> [] \<and>
      0 \<le> et_issued_at t \<and> et_issued_at t < et_expires_at t \<and>
      \<not> blank (et_source_buffer_id t) \<and> \<not> blank (et_destination_buffer_id t) \<and>
      et_source_buffer_id t \<noteq> et_destination_buffer_id t \<and>
      \<not> blank (et_ticket_id t) \<and> \<not> blank (et_decision_id t) \<and> \<not> blank (et_intent_id t) \<and>
      \<not> blank (et_topology_snapshot_id t) \<and> \<not> blank (et_job_id t) \<and>
      \<not> blank (et_session_id t) \<and> et_direction t \<in> {''h2d'', ''d2h''} \<and>
      list_all (\<lambda>l. \<not> blank l) (et_lease_ids t))"

interpretation execution_ticket: validated_record mk_ExecutionTicket ExecutionTicket_ok
proof
  fix t t'
  assume "mk_ExecutionTicket t = Inr t'"
  then show "ExecutionTicket_ok t'"
    by (auto simp: mk_ExecutionTicket_def ExecutionTicket_ok_def result_simps)
next
  fix t
  assume "ExecutionTicket_ok t"
  then show "mk_ExecutionTicket t = Inr t"
    by (auto simp: mk_ExecutionTicket_def ExecutionTicket_ok_def result_simps)
qed

section \<open>Receipts\<close>

text \<open>
  \<open>require_complete_receipt_metadata_evidence\<close>: a complete receipt names the worker or the
  backend that executed the transfer, and says that the execution, its verification and the
  content comparison happened, for exactly the bytes of the transfer.
\<close>

definition require_complete_receipt_metadata_evidence :: "mapping \<Rightarrow> int \<Rightarrow> unit result" where
  "require_complete_receipt_metadata_evidence metadata bytes_total =
     raise_if (\<not> str_lower_in (vget metadata ''completion_source'' (VStr [])) [''worker'', ''backend''])
       (ValueError ''complete receipt missing worker/backend execution source'') (
     raise_if (\<not> truthy (vget metadata ''executed'' (VBool False)))
       (ValueError ''complete receipt missing execution evidence'') (
     raise_if (\<not> truthy (vget metadata ''verified'' (VBool False)))
       (ValueError ''complete receipt missing verification evidence'') (
     (case py_int (vor (vget metadata ''verified_bytes'' (VInt 0)) (VInt 0)) of
        Inl _ \<Rightarrow> Inl (ValueError ''complete receipt has invalid verified bytes'')
      | Inr verified_bytes \<Rightarrow>
          raise_if (verified_bytes \<noteq> bytes_total)
            (ValueError (''complete receipt verified byte mismatch: '' @ int_str verified_bytes @
                         '' != '' @ int_str bytes_total)) (
          raise_if (\<not> truthy (vget metadata ''content_match'' (VBool False)))
            (ValueError ''complete receipt missing content-match evidence'') (
          Inr ()))))))"

definition completion_evidence_ok :: "mapping \<Rightarrow> int \<Rightarrow> bool" where
  "completion_evidence_ok metadata bytes_total =
     (str_lower_in (vget metadata ''completion_source'' (VStr [])) [''worker'', ''backend''] \<and>
      truthy (vget metadata ''executed'' (VBool False)) \<and>
      truthy (vget metadata ''verified'' (VBool False)) \<and>
      py_int (vor (vget metadata ''verified_bytes'' (VInt 0)) (VInt 0)) = Inr bytes_total \<and>
      truthy (vget metadata ''content_match'' (VBool False)))"

lemma require_evidence_Inr [result_simps]:
  "require_complete_receipt_metadata_evidence m n = Inr u \<longleftrightarrow> completion_evidence_ok m n"
  by (auto simp: require_complete_receipt_metadata_evidence_def completion_evidence_ok_def
      result_simps split: sum.splits)

record TransferReceipt =
  tr_receipt_id :: string
  tr_ticket_id :: string
  tr_intent_id :: string
  tr_decision_id :: string
  tr_topology_snapshot_id :: string
  tr_job_id :: string
  tr_session_id :: string
  tr_state :: TransferStatusState
  tr_bytes_total :: int
  tr_bytes_completed :: int
  tr_started_at :: rat
  tr_completed_at :: "rat option"
  tr_path_stats :: "mapping list"
  tr_error :: "string option"
  tr_metadata :: mapping

definition mk_TransferReceipt :: "TransferReceipt \<Rightarrow> TransferReceipt result" where
  "mk_TransferReceipt r =
     raise_if (tr_bytes_total r < 0) (ValueError ''bytes_total must be non-negative'') (
     raise_if (tr_bytes_completed r < 0) (ValueError ''bytes_completed must be non-negative'') (
     raise_if (tr_bytes_completed r > tr_bytes_total r)
       (ValueError ''bytes_completed cannot exceed bytes_total'') (
     rbind (if tr_state r = COMPLETE
            then raise_if (tr_bytes_completed r \<noteq> tr_bytes_total r)
                   (ValueError ''complete receipt must report all bytes completed'') (
                 raise_if (tr_error r \<noteq> None)
                   (ValueError ''complete receipt cannot include error'') (
                 require_complete_receipt_metadata_evidence (tr_metadata r) (tr_bytes_total r)))
            else Inr ()) (\<lambda>_.
     raise_if (tr_state r \<in> {FAILED, CANCELED} \<and> missing_reason (tr_error r))
       (ValueError ''failed or canceled receipt requires error'') (
     raise_if (tr_started_at r < 0) (ValueError ''started_at must be non-negative'') (
     raise_if (opt_holds (\<lambda>c. c < tr_started_at r) (tr_completed_at r))
       (ValueError ''completed_at must not be earlier than started_at'') (
     rbind (require_non_empty_str (tr_receipt_id r) ''receipt_id'') (\<lambda>receipt_id.
     rbind (require_non_empty_str (tr_ticket_id r) ''ticket_id'') (\<lambda>ticket_id.
     rbind (require_non_empty_str (tr_intent_id r) ''intent_id'') (\<lambda>intent_id.
     rbind (require_non_empty_str (tr_decision_id r) ''decision_id'') (\<lambda>decision_id.
     rbind (require_non_empty_str (tr_topology_snapshot_id r) ''topology_snapshot_id'') (\<lambda>snapshot.
     rbind (require_non_empty_str (tr_job_id r) ''job_id'') (\<lambda>job_id.
     rbind (require_non_empty_str (tr_session_id r) ''session_id'') (\<lambda>session_id.
     Inr (r\<lparr>tr_receipt_id := receipt_id, tr_ticket_id := ticket_id, tr_intent_id := intent_id,
            tr_decision_id := decision_id, tr_topology_snapshot_id := snapshot,
            tr_job_id := job_id, tr_session_id := session_id\<rparr>)))))))))))))))"

definition TransferReceipt_ok :: "TransferReceipt \<Rightarrow> bool" where
  "TransferReceipt_ok r =
     (0 \<le> tr_bytes_completed r \<and> tr_bytes_completed r \<le> tr_bytes_total r \<and>
      (tr_state r = COMPLETE \<longrightarrow> tr_bytes_completed r = tr_bytes_total r \<and> tr_error r = None \<and>
         completion_evidence_ok (tr_metadata r) (tr_bytes_total r)) \<and>
      (tr_state r \<in> {FAILED, CANCELED} \<longrightarrow> \<not> missing_reason (tr_error r)) \<and>
      0 \<le> tr_started_at r \<and> \<not> opt_holds (\<lambda>c. c < tr_started_at r) (tr_completed_at r) \<and>
      \<not> blank (tr_receipt_id r) \<and> \<not> blank (tr_ticket_id r) \<and> \<not> blank (tr_intent_id r) \<and>
      \<not> blank (tr_decision_id r) \<and> \<not> blank (tr_topology_snapshot_id r) \<and>
      \<not> blank (tr_job_id r) \<and> \<not> blank (tr_session_id r))"

interpretation transfer_receipt: checked_record mk_TransferReceipt TransferReceipt_ok
proof
  fix r r'
  show "mk_TransferReceipt r = Inr r' \<longleftrightarrow> TransferReceipt_ok r \<and> r' = r"
    by (cases "tr_state r")
      (auto simp: mk_TransferReceipt_def TransferReceipt_ok_def result_simps)
qed

section \<open>Lease tokens and transfer statuses\<close>

record LeaseToken =
  lt_lease_id :: string
  lt_session_id :: string
  lt_relay_gpu :: int
  lt_token :: string
  lt_buffer_ids :: "string list"
  lt_job_id :: "string option"
  lt_issued_at :: rat
  lt_expires_at :: rat

definition mk_LeaseToken :: "LeaseToken \<Rightarrow> LeaseToken result" where
  "mk_LeaseToken l =
     raise_if (blank (lt_lease_id l)) (ValueError ''lease_id must be non-empty'') (
     raise_if (blank (lt_session_id l)) (ValueError ''session_id must be non-empty'') (
     raise_if (lt_relay_gpu l < 0) (ValueError ''relay_gpu must be non-negative'') (
     raise_if (blank (lt_token l)) (ValueError ''token must be non-empty'') (
     raise_if (list_ex blank (lt_buffer_ids l))
       (ValueError ''buffer_ids must be non-empty when provided'') (
     raise_if (lt_expires_at l \<noteq> 0 \<and> lt_expires_at l < lt_issued_at l)
       (ValueError ''expires_at must not be earlier than issued_at'') (
     Inr l))))))"

definition LeaseToken_ok :: "LeaseToken \<Rightarrow> bool" where
  "LeaseToken_ok l =
     (\<not> blank (lt_lease_id l) \<and> \<not> blank (lt_session_id l) \<and> 0 \<le> lt_relay_gpu l \<and>
      \<not> blank (lt_token l) \<and> list_all (\<lambda>b. \<not> blank b) (lt_buffer_ids l) \<and>
      (lt_expires_at l = 0 \<or> lt_issued_at l \<le> lt_expires_at l))"

interpretation lease_token: checked_record mk_LeaseToken LeaseToken_ok
  by unfold_locales
    (auto simp: mk_LeaseToken_def LeaseToken_ok_def result_simps list_all_iff list_ex_iff)

record TransferStatus =
  ts_transfer_id :: string
  ts_job_id :: string
  ts_state :: TransferStatusState
  ts_bytes_total :: int
  ts_bytes_completed :: int
  ts_session_id :: "string option"
  ts_error :: "string option"

definition mk_TransferStatus :: "TransferStatus \<Rightarrow> TransferStatus result" where
  "mk_TransferStatus s =
     raise_if (blank (ts_transfer_id s)) (ValueError ''transfer_id must be non-empty'') (
     raise_if (blank (ts_job_id s)) (ValueError ''job_id must be non-empty'') (
     raise_if (ts_bytes_total s < 0) (ValueError ''bytes_total must be non-negative'') (
     raise_if (ts_bytes_completed s < 0) (ValueError ''bytes_completed must be non-negative'') (
     raise_if (ts_bytes_completed s > ts_bytes_total s)
       (ValueError ''bytes_completed cannot exceed bytes_total'') (
     raise_if (ts_state s = COMPLETE \<and> ts_bytes_completed s \<noteq> ts_bytes_total s)
       (ValueError ''complete transfer must report bytes_total completed'') (
     Inr s))))))"

definition TransferStatus_ok :: "TransferStatus \<Rightarrow> bool" where
  "TransferStatus_ok s =
     (\<not> blank (ts_transfer_id s) \<and> \<not> blank (ts_job_id s) \<and> 0 \<le> ts_bytes_completed s \<and>
      ts_bytes_completed s \<le> ts_bytes_total s \<and>
      (ts_state s = COMPLETE \<longrightarrow> ts_bytes_completed s = ts_bytes_total s))"

interpretation transfer_status: checked_record mk_TransferStatus TransferStatus_ok
  by unfold_locales (auto simp: mk_TransferStatus_def TransferStatus_ok_def result_simps)

section \<open>Cleanup requests, sessions, relay quotas and reservations\<close>

record CleanupRequest =
  cr_target_kind :: string
  cr_target_id :: string
  cr_reason :: string
  cr_force :: bool
  cr_owner_binding :: "mapping option"
  cr_retention_evidence :: "mapping option"

definition mk_CleanupRequest :: "CleanupRequest \<Rightarrow> CleanupRequest result" where
  "mk_CleanupRequest c =
     raise_if (blank (cr_target_kind c)) (ValueError ''target_kind must be non-empty'') (
     raise_if (blank (cr_target_id c)) (ValueError ''target_id must be non-empty'') (
     raise_if (blank (cr_reason c)) (ValueError ''reason must be non-empty'') (
     Inr c)))"

definition CleanupRequest_ok :: "CleanupRequest \<Rightarrow> bool" where
  "CleanupRequest_ok c =
     (\<not> blank (cr_target_kind c) \<and> \<not> blank (cr_target_id c) \<and> \<not> blank (cr_reason c))"

interpretation cleanup_request: checked_record mk_CleanupRequest CleanupRequest_ok
  by unfold_locales (auto simp: mk_CleanupRequest_def CleanupRequest_ok_def result_simps)

record Session =
  ss_session_id :: string
  ss_target_gpu :: int
  ss_relay_gpus :: "int list"
  ss_max_inflight_chunks :: int
  ss_worker_relay_capable :: bool
  ss_active_chunks :: int
  ss_active :: bool
  ss_created_at :: rat
  ss_last_seen :: rat
  ss_closed_at :: "rat option"

text \<open>The \<open>sessions\<close> set of a quota is a duplicate-free list.\<close>

record RelayQuota =
  rq_relay_gpu :: int
  rq_max_sessions :: int
  rq_max_inflight_chunks :: int
  rq_sessions :: "string list"
  rq_active_chunks :: int

definition can_attach :: "RelayQuota \<Rightarrow> bool" where
  "can_attach q = (int (length (rq_sessions q)) < rq_max_sessions q)"

definition can_reserve :: "RelayQuota \<Rightarrow> int \<Rightarrow> bool" where
  "can_reserve q chunks = (rq_active_chunks q + chunks \<le> rq_max_inflight_chunks q)"

record TransferReservation =
  rv_reservation_id :: string
  rv_session_id :: string
  rv_relay_gpu :: int
  rv_chunks :: int
  rv_bytes :: int
  rv_direction :: string

end
