(* ===== verification/Schema_Worker.thy ===== *)
theory Schema_Worker
  imports Schema_Tickets
begin

text \<open>
  The worker side of \<open>turbobus/schema.py\<close>: authorization requests and authorizations, worker
  buffer handles, staging requirements, data-plane requests and completions.  A data-plane
  request is what a worker executes; its constructor is the last check before bytes move.
\<close>

section \<open>Authorization\<close>

record WorkerTransferAuthorizationRequest =
  wq_transfer_id :: string
  wq_lease_id :: string
  wq_token :: string
  wq_session_id :: string
  wq_job_id :: string
  wq_src_buffer_id :: string
  wq_dst_buffer_id :: string
  wq_direction :: string
  wq_ranges :: "TransferRange list"
  wq_relay_gpu :: "int option"

definition mk_WorkerTransferAuthorizationRequest ::
  "WorkerTransferAuthorizationRequest \<Rightarrow> WorkerTransferAuthorizationRequest result" where
  "mk_WorkerTransferAuthorizationRequest q =
     raise_if (blank (wq_transfer_id q)) (ValueError ''transfer_id must be non-empty'') (
     raise_if (blank (wq_lease_id q)) (ValueError ''lease_id must be non-empty'') (
     raise_if (blank (wq_token q)) (ValueError ''token must be non-empty'') (
     raise_if (blank (wq_session_id q)) (ValueError ''session_id must be non-empty'') (
     raise_if (blank (wq_job_id q)) (ValueError ''job_id must be non-empty'') (
     raise_if (blank (wq_src_buffer_id q)) (ValueError ''src_buffer_id must be non-empty'') (
     raise_if (blank (wq_dst_buffer_id q)) (ValueError ''dst_buffer_id must be non-empty'') (
     rbind (normalize_transfer_direction (wq_direction q)) (\<lambda>direction.
     rbind (normalize_worker_ranges (map range_as_dict (wq_ranges q))) (\<lambda>ranges.
     raise_if (opt_holds (\<lambda>g. g < 0) (wq_relay_gpu q))
       (ValueError ''relay_gpu must be non-negative'') (
     Inr (q\<lparr>wq_direction := direction, wq_ranges := ranges\<rparr>)))))))))))"

definition WorkerTransferAuthorizationRequest_ok :: "WorkerTransferAuthorizationRequest \<Rightarrow> bool" where
  "WorkerTransferAuthorizationRequest_ok q =
     (\<not> blank (wq_transfer_id q) \<and> \<not> blank (wq_lease_id q) \<and> \<not> blank (wq_token q) \<and>
      \<not> blank (wq_session_id q) \<and> \<not> blank (wq_job_id q) \<and> \<not> blank (wq_src_buffer_id q) \<and>
      \<not> blank (wq_dst_buffer_id q) \<and> wq_direction q \<in> {''h2d'', ''d2h''} \<and>
      list_all range_ok (wq_ranges q) \<and> \<not> opt_holds (\<lambda>g. g < 0) (wq_relay_gpu q))"

interpretation worker_authorization_request:
  validated_record mk_WorkerTransferAuthorizationRequest WorkerTransferAuthorizationRequest_ok
  by unfold_locales
    (auto simp: mk_WorkerTransferAuthorizationRequest_def
      WorkerTransferAuthorizationRequest_ok_def result_simps)

record WorkerTransferAuthorization =
  wa_transfer_id :: string
  wa_lease_id :: string
  wa_session_id :: string
  wa_job_id :: string
  wa_src_buffer :: BufferRegistration
  wa_dst_buffer :: BufferRegistration
  wa_direction :: string
  wa_ranges :: "TransferRange list"
  wa_relay_gpu :: "int option"
  wa_plan :: mapping

definition mk_WorkerTransferAuthorization ::
  "WorkerTransferAuthorization \<Rightarrow> WorkerTransferAuthorization result" where
  "mk_WorkerTransferAuthorization a =
     raise_if (blank (wa_transfer_id a)) (ValueError ''transfer_id must be non-empty'') (
     raise_if (blank (wa_lease_id a)) (ValueError ''lease_id must be non-empty'') (
     raise_if (blank (wa_session_id a)) (ValueError ''session_id must be non-empty'') (
     raise_if (blank (wa_job_id a)) (ValueError ''job_id must be non-empty'') (
     rbind (normalize_transfer_direction (wa_direction a)) (\<lambda>direction.
     rbind (normalize_worker_ranges (map range_as_dict (wa_ranges a))) (\<lambda>ranges.
     raise_if (br_job_id (wa_src_buffer a) \<noteq> wa_job_id a)
       (ValueError ''src buffer job does not match authorization job'') (
     raise_if (br_job_id (wa_dst_buffer a) \<noteq> wa_job_id a)
       (ValueError ''dst buffer job does not match authorization job'') (
     raise_if (opt_holds (\<lambda>g. g < 0) (wa_relay_gpu a))
       (ValueError ''relay_gpu must be non-negative'') (
     Inr (a\<lparr>wa_direction := direction, wa_ranges := ranges\<rparr>))))))))))"

definition WorkerTransferAuthorization_ok :: "WorkerTransferAuthorization \<Rightarrow> bool" where
  "WorkerTransferAuthorization_ok a =
     (\<not> blank (wa_transfer_id a) \<and> \<not> blank (wa_lease_id a) \<and> \<not> blank (wa_session_id a) \<and>
      \<not> blank (wa_job_id a) \<and> wa_direction a \<in> {''h2d'', ''d2h''} \<and>
      list_all range_ok (wa_ranges a) \<and> br_job_id (wa_src_buffer a) = wa_job_id a \<and>
      br_job_id (wa_dst_buffer a) = wa_job_id a \<and> \<not> opt_holds (\<lambda>g. g < 0) (wa_relay_gpu a))"

interpretation worker_authorization:
  validated_record mk_WorkerTransferAuthorization WorkerTransferAuthorization_ok
  by unfold_locales
    (auto simp: mk_WorkerTransferAuthorization_def WorkerTransferAuthorization_ok_def result_simps)

section \<open>Worker buffer handles\<close>

record WorkerBufferHandle =
  wb_buffer_id :: string
  wb_job_id :: string
  wb_kind :: string
  wb_size_bytes :: int
  wb_access :: string
  wb_device_index :: "int option"
  wb_address :: "int option"
  wb_pinned :: bool
  wb_handle_type :: string
  wb_metadata :: mapping

definition mk_WorkerBufferHandle :: "WorkerBufferHandle \<Rightarrow> WorkerBufferHandle result" where
  "mk_WorkerBufferHandle b =
     raise_if (blank (wb_buffer_id b)) (ValueError ''buffer_id must be non-empty'') (
     raise_if (blank (wb_job_id b)) (ValueError ''job_id must be non-empty'') (
     raise_if (blank (wb_kind b)) (ValueError ''kind must be non-empty'') (
     raise_if (wb_size_bytes b < 0) (ValueError ''size_bytes must be non-negative'') (
     let access = lower (wb_access b) in
     raise_if (access \<notin> {''read'', ''write'', ''read_write''})
       (ValueError ''access must be read, write, or read_write'') (
     let handle_type = lower (wb_handle_type b) in
     raise_if (blank handle_type) (ValueError ''handle_type must be non-empty'') (
     raise_if (opt_holds (\<lambda>i. i < 0) (wb_device_index b))
       (ValueError ''device_index must be non-negative'') (
     raise_if (opt_holds (\<lambda>i. i < 0) (wb_address b))
       (ValueError ''address must be non-negative'') (
     rbind (normalize_buffer_handle_metadata (wb_kind b) (wb_pinned b) (wb_device_index b)
              (wb_size_bytes b) handle_type (wb_metadata b)) (\<lambda>metadata.
     Inr (b\<lparr>wb_access := access, wb_handle_type := handle_type,
            wb_metadata := metadata\<rparr>))))))))))"

definition WorkerBufferHandle_ok :: "WorkerBufferHandle \<Rightarrow> bool" where
  "WorkerBufferHandle_ok b =
     (\<not> blank (wb_buffer_id b) \<and> \<not> blank (wb_job_id b) \<and> \<not> blank (wb_kind b) \<and>
      0 \<le> wb_size_bytes b \<and> wb_access b \<in> {''read'', ''write'', ''read_write''} \<and>
      lower (wb_handle_type b) = wb_handle_type b \<and>
      \<not> opt_holds (\<lambda>i. i < 0) (wb_device_index b) \<and> \<not> opt_holds (\<lambda>i. i < 0) (wb_address b) \<and>
      metadata_ok (wb_kind b) (wb_pinned b) (wb_device_index b) (wb_size_bytes b)
        (wb_handle_type b) (wb_metadata b))"

lemma lower_access [simp]:
  "lower ''read'' = ''read''" "lower ''write'' = ''write''" "lower ''read_write'' = ''read_write''"
  by (simp_all add: lower_def lower_char_def)

interpretation worker_buffer_handle: validated_record mk_WorkerBufferHandle WorkerBufferHandle_ok
proof
  fix b b'
  assume "mk_WorkerBufferHandle b = Inr b'"
  then show "WorkerBufferHandle_ok b'"
    by (auto simp: mk_WorkerBufferHandle_def WorkerBufferHandle_ok_def Let_def result_simps
        dest: normalize_metadata_ok)
next
  fix b
  assume "WorkerBufferHandle_ok b"
  then show "mk_WorkerBufferHandle b = Inr b"
    by (auto simp: mk_WorkerBufferHandle_def WorkerBufferHandle_ok_def Let_def result_simps
        normalize_metadata_fixed dest: metadata_ok_not_blank)
qed

definition from_buffer_registration :: "BufferRegistration \<Rightarrow> string \<Rightarrow> WorkerBufferHandle result" where
  "from_buffer_registration buffer access =
     mk_WorkerBufferHandle
       \<lparr>wb_buffer_id = br_buffer_id buffer, wb_job_id = br_job_id buffer, wb_kind = br_kind buffer,
        wb_size_bytes = br_size_bytes buffer, wb_access = access,
        wb_device_index = br_device_index buffer, wb_address = br_address buffer,
        wb_pinned = br_pinned buffer, wb_handle_type = br_handle_type buffer,
        wb_metadata = br_metadata buffer\<rparr>"

lemma from_buffer_registration_ok:
  assumes "BufferRegistration_ok b" and "a \<in> {''read'', ''write'', ''read_write''}"
  shows "\<exists>h. from_buffer_registration b a = Inr h \<and> wb_access h = a \<and>
           wb_job_id h = br_job_id b \<and> wb_size_bytes h = br_size_bytes b \<and>
           wb_handle_type h = br_handle_type b"
proof -
  let ?h = "\<lparr>wb_buffer_id = br_buffer_id b, wb_job_id = br_job_id b, wb_kind = br_kind b,
        wb_size_bytes = br_size_bytes b, wb_access = a,
        wb_device_index = br_device_index b, wb_address = br_address b,
        wb_pinned = br_pinned b, wb_handle_type = br_handle_type b,
        wb_metadata = br_metadata b\<rparr>"
  have "WorkerBufferHandle_ok ?h"
    using assms by (auto simp: BufferRegistration_ok_def WorkerBufferHandle_ok_def)
  then have "from_buffer_registration b a = Inr ?h"
    unfolding from_buffer_registration_def by (rule worker_buffer_handle.wf_mk)
  then show ?thesis by simp
qed

section \<open>Staging requirements\<close>

record WorkerStagingBufferRequirement =
  wt_relay_gpu :: int
  wt_total_bytes :: int
  wt_max_chunk_bytes :: int
  wt_chunk_count :: int
  wt_alignment_bytes :: int
  wt_buffer_kind :: string
  wt_metadata :: mapping

definition mk_WorkerStagingBufferRequirement ::
  "WorkerStagingBufferRequirement \<Rightarrow> WorkerStagingBufferRequirement result" where
  "mk_WorkerStagingBufferRequirement s =
     raise_if (wt_relay_gpu s < 0) (ValueError ''relay_gpu must be non-negative'') (
     raise_if (wt_total_bytes s \<le> 0) (ValueError ''staging total_bytes must be positive'') (
     raise_if (wt_max_chunk_bytes s \<le> 0) (ValueError ''staging max_chunk_bytes must be positive'') (
     raise_if (wt_max_chunk_bytes s > wt_total_bytes s)
       (ValueError ''staging max_chunk_bytes cannot exceed total_bytes'') (
     raise_if (wt_chunk_count s \<le> 0) (ValueError ''staging chunk_count must be positive'') (
     raise_if (wt_alignment_bytes s \<le> 0) (ValueError ''staging alignment_bytes must be positive'') (
     raise_if (blank (wt_buffer_kind s)) (ValueError ''staging buffer_kind must be non-empty'') (
     Inr s)))))))"

definition WorkerStagingBufferRequirement_ok :: "WorkerStagingBufferRequirement \<Rightarrow> bool" where
  "WorkerStagingBufferRequirement_ok s =
     (0 \<le> wt_relay_gpu s \<and> 0 < wt_total_bytes s \<and> 0 < wt_max_chunk_bytes s \<and>
      wt_max_chunk_bytes s \<le> wt_total_bytes s \<and> 0 < wt_chunk_count s \<and>
      0 < wt_alignment_bytes s \<and> \<not> blank (wt_buffer_kind s))"

interpretation worker_staging_requirement:
  checked_record mk_WorkerStagingBufferRequirement WorkerStagingBufferRequirement_ok
  by unfold_locales
    (auto simp: mk_WorkerStagingBufferRequirement_def WorkerStagingBufferRequirement_ok_def
      result_simps)

section \<open>Data-plane requests\<close>

record WorkerDataPlaneRequest =
  wr_transfer_id :: string
  wr_lease_id :: string
  wr_session_id :: string
  wr_job_id :: string
  wr_relay_gpu :: int
  wr_direction :: string
  wr_src_handle :: WorkerBufferHandle
  wr_dst_handle :: WorkerBufferHandle
  wr_staging :: WorkerStagingBufferRequirement
  wr_ranges :: "TransferRange list"
  wr_plan :: mapping
  wr_metadata :: mapping

definition validate_worker_handle_direction ::
  "string \<Rightarrow> WorkerBufferHandle \<Rightarrow> WorkerBufferHandle \<Rightarrow> unit result" where
  "validate_worker_handle_direction direction src_handle dst_handle =
     (if direction = ''h2d'' then
        raise_if (wb_handle_type src_handle \<noteq> ''shared_pinned_cpu'')
          (ValueError ''h2d worker source must be shared_pinned_cpu'') (
        raise_if (wb_handle_type dst_handle \<noteq> ''cuda_ipc_device'')
          (ValueError ''h2d worker destination must be cuda_ipc_device'') (Inr ()))
      else
        raise_if (wb_handle_type src_handle \<noteq> ''cuda_ipc_device'')
          (ValueError ''d2h worker source must be cuda_ipc_device'') (
        raise_if (wb_handle_type dst_handle \<noteq> ''shared_pinned_cpu'')
          (ValueError ''d2h worker destination must be shared_pinned_cpu'') (Inr ())))"

definition range_in_bounds :: "int \<Rightarrow> int \<Rightarrow> TransferRange \<Rightarrow> bool" where
  "range_in_bounds src_size dst_size r =
     (src_offset r + bytes r \<le> src_size \<and> dst_offset r + bytes r \<le> dst_size)"

definition validate_worker_range_bounds :: "TransferRange list \<Rightarrow> int \<Rightarrow> int \<Rightarrow> unit result" where
  "validate_worker_range_bounds ranges src_size_bytes dst_size_bytes =
     rcheck (\<lambda>item.
       raise_if (src_offset item + bytes item > src_size_bytes)
         (ValueError ''worker range exceeds src buffer size'') (
       raise_if (dst_offset item + bytes item > dst_size_bytes)
         (ValueError ''worker range exceeds dst buffer size'') (Inr ()))) ranges"

text \<open>
  Iterating \<open>x or ()\<close>: a falsy value has no elements, a list iterates over its elements and a
  mapping over its keys; a number or True is not iterable (a TypeError) and a string iterates
  over one-character strings.
\<close>

definition iterate_or_empty :: "pyval \<Rightarrow> pyval list result" where
  "iterate_or_empty v =
     (if \<not> truthy v then Inr []
      else case v of
        VList xs \<Rightarrow> Inr xs
      | VDict d \<Rightarrow> Inr (map VStr (dkeys d))
      | VStr s \<Rightarrow> Inr (map (\<lambda>c. VStr [c]) s)
      | _ \<Rightarrow> Inl ConversionTypeError)"

definition validate_plan_chunk :: "int \<Rightarrow> int \<Rightarrow> pyval \<Rightarrow> unit result" where
  "validate_plan_chunk src_size dst_size chunk =
     (case chunk of
        VDict m \<Rightarrow>
          rbind (range_of_mapping m) (\<lambda>r.
          raise_if (src_offset r < 0 \<or> dst_offset r < 0)
            (ValueError ''daemon plan chunk offsets must be non-negative'') (
          raise_if (bytes r \<le> 0) (ValueError ''daemon plan chunk bytes must be positive'') (
          raise_if (src_offset r + bytes r > src_size)
            (ValueError ''daemon plan chunk exceeds src buffer size'') (
          raise_if (dst_offset r + bytes r > dst_size)
            (ValueError ''daemon plan chunk exceeds dst buffer size'') (Inr ())))))
      | _ \<Rightarrow> Inl (ValueError ''daemon plan chunk must be a mapping''))"

definition validate_plan_assignment :: "int \<Rightarrow> int \<Rightarrow> pyval \<Rightarrow> unit result" where
  "validate_plan_assignment src_size dst_size assignment =
     (case assignment of
        VDict m \<Rightarrow>
          rbind (iterate_or_empty (vget m ''chunks'' (VList []))) (\<lambda>chunks.
          rcheck (validate_plan_chunk src_size dst_size) chunks)
      | _ \<Rightarrow> Inl (ValueError ''daemon plan assignment must be a mapping''))"

definition validate_worker_plan_chunk_bounds :: "mapping \<Rightarrow> int \<Rightarrow> int \<Rightarrow> unit result" where
  "validate_worker_plan_chunk_bounds plan src_size_bytes dst_size_bytes =
     rbind (iterate_or_empty (vget plan ''assignments'' (VList []))) (\<lambda>assignments.
     rcheck (validate_plan_assignment src_size_bytes dst_size_bytes) assignments)"

definition max_range_bytes :: "TransferRange list \<Rightarrow> int" where
  "max_range_bytes ranges = fold (\<lambda>r m. max (bytes r) m) ranges 0"

definition mk_WorkerDataPlaneRequest :: "WorkerDataPlaneRequest \<Rightarrow> WorkerDataPlaneRequest result" where
  "mk_WorkerDataPlaneRequest q =
     raise_if (blank (wr_transfer_id q)) (ValueError ''transfer_id must be non-empty'') (
     raise_if (blank (wr_lease_id q)) (ValueError ''lease_id must be non-empty'') (
     raise_if (blank (wr_session_id q)) (ValueError ''session_id must be non-empty'') (
     raise_if (blank (wr_job_id q)) (ValueError ''job_id must be non-empty'') (
     raise_if (wr_relay_gpu q < 0) (ValueError ''relay_gpu must be non-negative'') (
     rbind (normalize_transfer_direction (wr_direction q)) (\<lambda>direction.
     rbind (normalize_worker_ranges (map range_as_dict (wr_ranges q))) (\<lambda>ranges.
     raise_if (ranges = []) (ValueError ''worker data-plane request requires chunk ranges'') (
     raise_if (range_total ranges > wt_total_bytes (wr_staging q))
       (ValueError ''ranges exceed staging total_bytes'') (
     raise_if (max_range_bytes ranges > wt_max_chunk_bytes (wr_staging q))
       (ValueError ''ranges exceed staging max_chunk_bytes'') (
     raise_if (wt_chunk_count (wr_staging q) < int (length ranges))
       (ValueError ''staging chunk_count cannot be smaller than range count'') (
     raise_if (wb_job_id (wr_src_handle q) \<noteq> wr_job_id q)
       (ValueError ''src handle job does not match request job'') (
     raise_if (wb_job_id (wr_dst_handle q) \<noteq> wr_job_id q)
       (ValueError ''dst handle job does not match request job'') (
     raise_if (wt_relay_gpu (wr_staging q) \<noteq> wr_relay_gpu q)
       (ValueError ''staging relay does not match request relay'') (
     rbind (validate_worker_handle_direction direction (wr_src_handle q) (wr_dst_handle q)) (\<lambda>_.
     rbind (validate_worker_range_bounds ranges (wb_size_bytes (wr_src_handle q))
              (wb_size_bytes (wr_dst_handle q))) (\<lambda>_.
     rbind (validate_worker_plan_chunk_bounds (wr_plan q) (wb_size_bytes (wr_src_handle q))
              (wb_size_bytes (wr_dst_handle q))) (\<lambda>_.
     Inr (q\<lparr>wr_direction := direction, wr_ranges := ranges\<rparr>))))))))))))))))))"

text \<open>Every chunk of every assignment of the plan lies inside both buffers.\<close>

definition plan_chunk_in_bounds :: "int \<Rightarrow> int \<Rightarrow> pyval \<Rightarrow> bool" where
  "plan_chunk_in_bounds src_size dst_size chunk =
     (\<exists>m r. chunk = VDict m \<and> range_of_mapping m = Inr r \<and> range_ok r \<and>
        range_in_bounds src_size dst_size r)"

definition plan_in_bounds :: "mapping \<Rightarrow> int \<Rightarrow> int \<Rightarrow> bool" where
  "plan_in_bounds plan src_size dst_size =
     (\<exists>assignments. iterate_or_empty (vget plan ''assignments'' (VList [])) = Inr assignments \<and>
        list_all (\<lambda>a. \<exists>m chunks. a = VDict m \<and>
          iterate_or_empty (vget m ''chunks'' (VList [])) = Inr chunks \<and>
          list_all (plan_chunk_in_bounds src_size dst_size) chunks) assignments)"

definition handle_direction_ok :: "string \<Rightarrow> WorkerBufferHandle \<Rightarrow> WorkerBufferHandle \<Rightarrow> bool" where
  "handle_direction_ok direction src dst =
     (if direction = ''h2d''
      then wb_handle_type src = ''shared_pinned_cpu'' \<and> wb_handle_type dst = ''cuda_ipc_device''
      else wb_handle_type src = ''cuda_ipc_device'' \<and> wb_handle_type dst = ''shared_pinned_cpu'')"

lemma validate_handle_direction_Inr [result_simps]:
  "validate_worker_handle_direction d s t = Inr u \<longleftrightarrow> handle_direction_ok d s t"
  by (auto simp: validate_worker_handle_direction_def handle_direction_ok_def result_simps)

lemma validate_range_bounds_Inr [result_simps]:
  "validate_worker_range_bounds rs n m = Inr u \<longleftrightarrow> list_all (range_in_bounds n m) rs"
  by (auto simp: validate_worker_range_bounds_def range_in_bounds_def result_simps list_all_iff
      not_less)

lemma validate_plan_chunk_Inr [result_simps]:
  "validate_plan_chunk n m c = Inr u \<longleftrightarrow> plan_chunk_in_bounds n m c"
  by (cases c) (auto simp: validate_plan_chunk_def plan_chunk_in_bounds_def range_in_bounds_def
      range_ok_def result_simps not_less)

lemma validate_plan_assignment_Inr [result_simps]:
  "validate_plan_assignment n m a = Inr u \<longleftrightarrow>
     (\<exists>d chunks. a = VDict d \<and> iterate_or_empty (vget d ''chunks'' (VList [])) = Inr chunks \<and>
        list_all (plan_chunk_in_bounds n m) chunks)"
  by (cases a) (auto simp: validate_plan_assignment_def result_simps)

lemma validate_plan_bounds_Inr [result_simps]:
  "validate_worker_plan_chunk_bounds p n m = Inr u \<longleftrightarrow> plan_in_bounds p n m"
  by (auto simp: validate_worker_plan_chunk_bounds_def plan_in_bounds_def result_simps)

lemma max_range_bytes_le_iff:
  "max_range_bytes rs \<le> n \<longleftrightarrow> list_all (\<lambda>r. bytes r \<le> n) rs \<and> (0 \<le> n)"
proof -
  have "fold (\<lambda>r m. max (bytes r) m) rs a \<le> n \<longleftrightarrow> list_all (\<lambda>r. bytes r \<le> n) rs \<and> a \<le> n" for a
    by (induction rs arbitrary: a) auto
  then show ?thesis by (simp add: max_range_bytes_def)
qed

definition WorkerDataPlaneRequest_ok :: "WorkerDataPlaneRequest \<Rightarrow> bool" where
  "WorkerDataPlaneRequest_ok q =
     (\<not> blank (wr_transfer_id q) \<and> \<not> blank (wr_lease_id q) \<and> \<not> blank (wr_session_id q) \<and>
      \<not> blank (wr_job_id q) \<and> 0 \<le> wr_relay_gpu q \<and> wr_direction q \<in> {''h2d'', ''d2h''} \<and>
      wr_ranges q \<noteq> [] \<and> list_all range_ok (wr_ranges q) \<and>
      range_total (wr_ranges q) \<le> wt_total_bytes (wr_staging q) \<and>
      max_range_bytes (wr_ranges q) \<le> wt_max_chunk_bytes (wr_staging q) \<and>
      int (length (wr_ranges q)) \<le> wt_chunk_count (wr_staging q) \<and>
      wb_job_id (wr_src_handle q) = wr_job_id q \<and> wb_job_id (wr_dst_handle q) = wr_job_id q \<and>
      wt_relay_gpu (wr_staging q) = wr_relay_gpu q \<and>
      handle_direction_ok (wr_direction q) (wr_src_handle q) (wr_dst_handle q) \<and>
      list_all (range_in_bounds (wb_size_bytes (wr_src_handle q)) (wb_size_bytes (wr_dst_handle q)))
        (wr_ranges q) \<and>
      plan_in_bounds (wr_plan q) (wb_size_bytes (wr_src_handle q)) (wb_size_bytes (wr_dst_handle q)))"

interpretation worker_data_plane_request:
  validated_record mk_WorkerDataPlaneRequest WorkerDataPlaneRequest_ok
proof
  fix q q'
  assume "mk_WorkerDataPlaneRequest q = Inr q'"
  then show "WorkerDataPlaneRequest_ok q'"
    by (auto simp: mk_WorkerDataPlaneRequest_def WorkerDataPlaneRequest_ok_def result_simps not_less)
next
  fix q
  assume "WorkerDataPlaneRequest_ok q"
  then show "mk_WorkerDataPlaneRequest q = Inr q"
    by (auto simp: mk_WorkerDataPlaneRequest_def WorkerDataPlaneRequest_ok_def result_simps not_less)
qed

definition from_authorization ::
  "WorkerTransferAuthorization \<Rightarrow> int \<Rightarrow> mapping \<Rightarrow> WorkerDataPlaneRequest result" where
  "from_authorization authorization staging_alignment_bytes metadata =
     (case wa_relay_gpu authorization of
        None \<Rightarrow> Inl (ValueError ''relay_gpu is required for worker data-plane request'')
      | Some relay_gpu \<Rightarrow>
          let ranges = wa_ranges authorization in
          raise_if (ranges = []) (ValueError ''worker data-plane request requires chunk ranges'') (
          rbind (from_buffer_registration (wa_src_buffer authorization) ''read'') (\<lambda>src_handle.
          rbind (from_buffer_registration (wa_dst_buffer authorization) ''write'') (\<lambda>dst_handle.
          rbind (mk_WorkerStagingBufferRequirement
                   \<lparr>wt_relay_gpu = relay_gpu, wt_total_bytes = range_total ranges,
                    wt_max_chunk_bytes = max_range_bytes ranges,
                    wt_chunk_count = int (length ranges),
                    wt_alignment_bytes = staging_alignment_bytes,
                    wt_buffer_kind = ''relay_staging'', wt_metadata = []\<rparr>) (\<lambda>staging.
          mk_WorkerDataPlaneRequest
            \<lparr>wr_transfer_id = wa_transfer_id authorization, wr_lease_id = wa_lease_id authorization,
             wr_session_id = wa_session_id authorization, wr_job_id = wa_job_id authorization,
             wr_relay_gpu = relay_gpu, wr_direction = wa_direction authorization,
             wr_src_handle = src_handle, wr_dst_handle = dst_handle, wr_staging = staging,
             wr_ranges = ranges, wr_plan = wa_plan authorization, wr_metadata = metadata\<rparr>)))))"

record WorkerDataPlaneCompletion =
  wc_transfer_id :: string
  wc_lease_id :: string
  wc_state :: TransferStatusState
  wc_bytes_completed :: int
  wc_error :: "string option"
  wc_metadata :: mapping

definition mk_WorkerDataPlaneCompletion ::
  "WorkerDataPlaneCompletion \<Rightarrow> WorkerDataPlaneCompletion result" where
  "mk_WorkerDataPlaneCompletion c =
     raise_if (blank (wc_transfer_id c)) (ValueError ''transfer_id must be non-empty'') (
     raise_if (blank (wc_lease_id c)) (ValueError ''lease_id must be non-empty'') (
     raise_if (wc_state c \<notin> {COMPLETE, FAILED})
       (ValueError ''worker completion state must be complete or failed'') (
     raise_if (wc_bytes_completed c < 0) (ValueError ''bytes_completed must be non-negative'') (
     raise_if (wc_state c = FAILED \<and> wc_error c = None)
       (ValueError ''failed worker completion requires error'') (
     raise_if (wc_state c = COMPLETE \<and> wc_error c \<noteq> None)
       (ValueError ''complete worker completion cannot include error'') (
     Inr c))))))"

definition WorkerDataPlaneCompletion_ok :: "WorkerDataPlaneCompletion \<Rightarrow> bool" where
  "WorkerDataPlaneCompletion_ok c =
     (\<not> blank (wc_transfer_id c) \<and> \<not> blank (wc_lease_id c) \<and> 0 \<le> wc_bytes_completed c \<and>
      ((wc_state c = COMPLETE \<and> wc_error c = None) \<or> (wc_state c = FAILED \<and> wc_error c \<noteq> None)))"

interpretation worker_completion: checked_record mk_WorkerDataPlaneCompletion WorkerDataPlaneCompletion_ok
  by unfold_locales
    (auto simp: mk_WorkerDataPlaneCompletion_def WorkerDataPlaneCompletion_ok_def result_simps)

end
