(* ===== verification/Worker_Requests.thy ===== *)
theory Worker_Requests
  imports Schema_Worker
begin

text \<open>
  What the checked request records of \<open>turbobus/schema.py\<close> promise to the code that acts on them:
  the data-plane request, the authorization it is made from, the transfer intent and the receipt.
\<close>

section \<open>The memory behind a buffer handle\<close>

text \<open>
  The offset of the buffer inside the shared segment or device allocation its metadata names, and
  the size of that segment or allocation.
\<close>

definition backing :: "WorkerBufferHandle \<Rightarrow> (int \<times> int) option" where
  "backing h =
     (let m = wb_metadata h in
      if wb_handle_type h = ''shared_pinned_cpu''
      then (case (index_int m ''offset_bytes'', index_int m ''shared_memory_size_bytes'') of
              (Inr offset, Inr limit) \<Rightarrow> Some (offset, limit) | _ \<Rightarrow> None)
      else if wb_handle_type h = ''cuda_ipc_device''
      then (case (map_of m ''device_offset_bytes'', map_of m ''allocation_size_bytes'') of
              (Some (VInt offset), Some (VInt limit)) \<Rightarrow> Some (offset, limit) | _ \<Rightarrow> None)
      else None)"

definition holds_extent :: "WorkerBufferHandle \<Rightarrow> int \<Rightarrow> int \<Rightarrow> bool" where
  "holds_extent h offset n =
     (0 \<le> offset \<and> offset + n \<le> wb_size_bytes h \<and>
      (case backing h of None \<Rightarrow> False
       | Some (start, limit) \<Rightarrow> 0 \<le> start \<and> start + offset + n \<le> limit))"

lemma backing_ok:
  assumes "WorkerBufferHandle_ok h"
    and "wb_handle_type h \<in> {''shared_pinned_cpu'', ''cuda_ipc_device''}"
  shows "\<exists>start limit. backing h = Some (start, limit) \<and> 0 \<le> start \<and> start + wb_size_bytes h \<le> limit"
  using assms
  by (auto simp: WorkerBufferHandle_ok_def metadata_ok_def shared_pinned_ok_def cuda_device_ok_def
      backing_def Let_def)

lemma holds_extentI:
  assumes "WorkerBufferHandle_ok h"
    and "wb_handle_type h \<in> {''shared_pinned_cpu'', ''cuda_ipc_device''}"
    and "0 \<le> offset" and "offset + n \<le> wb_size_bytes h"
  shows "holds_extent h offset n"
  using backing_ok [OF assms(1,2)] assms(3,4) by (auto simp: holds_extent_def)

lemma handle_direction_types:
  "handle_direction_ok d s t \<Longrightarrow> wb_handle_type s \<in> {''shared_pinned_cpu'', ''cuda_ipc_device''} \<and>
     wb_handle_type t \<in> {''shared_pinned_cpu'', ''cuda_ipc_device''}"
  by (auto simp: handle_direction_ok_def split: if_splits)

definition holds_range :: "WorkerDataPlaneRequest \<Rightarrow> TransferRange \<Rightarrow> bool" where
  "holds_range q r =
     (holds_extent (wr_src_handle q) (src_offset r) (bytes r) \<and>
      holds_extent (wr_dst_handle q) (dst_offset r) (bytes r))"

text \<open>The ranges of the chunks of the daemon's plan, as the worker reads them.\<close>

definition plan_items :: "mapping \<Rightarrow> string \<Rightarrow> pyval list" where
  "plan_items m key = (case iterate_or_empty (vget m key (VList [])) of Inl _ \<Rightarrow> [] | Inr xs \<Rightarrow> xs)"

definition dict_of :: "pyval \<Rightarrow> mapping" where
  "dict_of v = (case v of VDict m \<Rightarrow> m | _ \<Rightarrow> [])"

definition plan_ranges_of :: "mapping \<Rightarrow> TransferRange list" where
  "plan_ranges_of p =
     concat (map (\<lambda>a. concat (map (\<lambda>c. case range_of_mapping (dict_of c) of Inl _ \<Rightarrow> [] | Inr r \<Rightarrow> [r])
       (plan_items (dict_of a) ''chunks''))) (plan_items p ''assignments''))"

lemma plan_in_bounds_ranges:
  assumes "plan_in_bounds p n m" and "r \<in> set (plan_ranges_of p)"
  shows "range_ok r \<and> range_in_bounds n m r"
  using assms
  by (fastforce simp: plan_in_bounds_def plan_ranges_of_def plan_items_def dict_of_def list_all_iff
      plan_chunk_in_bounds_def split: sum.splits)

text \<open>
  C15: an accepted data-plane request never names a byte outside its buffers: every range and every
  chunk of its daemon plan lies inside both buffers, and inside the shared segment or device
  allocation that backs each of them; its ranges fit the staging buffer.
\<close>

theorem accepted_request_stays_in_memory:
  assumes "mk_WorkerDataPlaneRequest q = Inr q'"
    and "WorkerBufferHandle_ok (wr_src_handle q)" and "WorkerBufferHandle_ok (wr_dst_handle q)"
  shows "list_all (holds_range q') (wr_ranges q' @ plan_ranges_of (wr_plan q')) \<and>
    range_total (wr_ranges q') \<le> wt_total_bytes (wr_staging q') \<and>
    list_all (\<lambda>r. 0 < bytes r \<and> bytes r \<le> wt_max_chunk_bytes (wr_staging q')) (wr_ranges q')"
proof -
  have ok: "WorkerDataPlaneRequest_ok q'"
    using assms(1) by (rule worker_data_plane_request.mk_wf)
  have handles: "wr_src_handle q' = wr_src_handle q" "wr_dst_handle q' = wr_dst_handle q"
    using assms(1) by (auto simp: mk_WorkerDataPlaneRequest_def result_simps)
  let ?s = "wr_src_handle q'" and ?d = "wr_dst_handle q'"
  from ok have types: "wb_handle_type ?s \<in> {''shared_pinned_cpu'', ''cuda_ipc_device''}"
      "wb_handle_type ?d \<in> {''shared_pinned_cpu'', ''cuda_ipc_device''}"
    by (auto simp: WorkerDataPlaneRequest_ok_def dest: handle_direction_types)
  have hold: "holds_range q' r"
    if "range_ok r" "range_in_bounds (wb_size_bytes ?s) (wb_size_bytes ?d) r" for r
    unfolding holds_range_def
    using that types assms(2,3)
    by (intro conjI holds_extentI) (auto simp: range_ok_def range_in_bounds_def handles)
  have "holds_range q' r" if "r \<in> set (wr_ranges q')" for r
    using ok that by (intro hold) (auto simp: WorkerDataPlaneRequest_ok_def list_all_iff)
  moreover have "holds_range q' r" if r: "r \<in> set (plan_ranges_of (wr_plan q'))" for r
    using ok plan_in_bounds_ranges [OF _ r] by (intro hold) (auto simp: WorkerDataPlaneRequest_ok_def)
  ultimately show ?thesis
    using ok by (auto simp: WorkerDataPlaneRequest_ok_def list_all_iff max_range_bytes_le_iff range_ok_def)
qed

section \<open>Samples\<close>

definition sample_src :: BufferRegistration where
  "sample_src = \<lparr>br_buffer_id = ''src'', br_job_id = ''job'', br_kind = ''cpu_pinned'', br_size_bytes = 64,
     br_device_index = None, br_address = None, br_pinned = True, br_handle_type = ''shared_pinned_cpu'',
     br_metadata = [(''shared_memory_name'', VStr ''seg''), (''offset_bytes'', VInt 8),
       (''shared_memory_size_bytes'', VInt 128)]\<rparr>"

definition sample_dst :: BufferRegistration where
  "sample_dst = \<lparr>br_buffer_id = ''dst'', br_job_id = ''job'', br_kind = ''gpu'', br_size_bytes = 64,
     br_device_index = Some 0, br_address = None, br_pinned = False, br_handle_type = ''cuda_ipc_device'',
     br_metadata = [(''cuda_ipc_handle'', VStr (tohex (replicate 64 10))),
       (''device_offset_bytes'', VInt 0), (''allocation_size_bytes'', VInt 64)]\<rparr>"

definition sample_authorization :: WorkerTransferAuthorization where
  "sample_authorization = \<lparr>wa_transfer_id = ''t'', wa_lease_id = ''l'', wa_session_id = ''s'',
     wa_job_id = ''job'', wa_src_buffer = sample_src, wa_dst_buffer = sample_dst,
     wa_direction = ''h2d'', wa_ranges = [\<lparr>src_offset = 0, dst_offset = 16, bytes = 32\<rparr>],
     wa_relay_gpu = Some 1,
     wa_plan = [(''assignments'', VList [VDict [(''chunks'', VList [VDict (range_as_dict
       \<lparr>src_offset = 32, dst_offset = 0, bytes = 16\<rparr>)])]])]\<rparr>"

lemma ipc_handle_ok_sample: "ipc_handle_ok (tohex (replicate 64 10))"
  unfolding ipc_handle_ok_def
  by (rule exI [of _ "replicate 64 10"], intro conjI refl) (simp_all add: list_all_iff)

lemma sample_src_ok: "BufferRegistration_ok sample_src"
  by (simp add: BufferRegistration_ok_def sample_src_def blank_def is_space_def opt_holds_def
      lower_def lower_char_def metadata_ok_def shared_pinned_ok_def index_int_def vindex_def)

lemma sample_dst_ok: "BufferRegistration_ok sample_dst"
  using ipc_handle_ok_sample
  by (simp add: BufferRegistration_ok_def sample_dst_def blank_def is_space_def opt_holds_def
      lower_def lower_char_def metadata_ok_def cuda_device_ok_def)

lemma sample_authorization_ok: "WorkerTransferAuthorization_ok sample_authorization"
  by (simp add: WorkerTransferAuthorization_ok_def sample_authorization_def sample_src_def
      sample_dst_def blank_def is_space_def opt_holds_def range_ok_def)

section \<open>From an authorization to a request\<close>

lemma max_range_bytes_bounds:
  assumes "list_all range_ok rs" and "rs \<noteq> []"
  shows "0 < max_range_bytes rs" and "max_range_bytes rs \<le> range_total rs"
proof -
  have "max_range_bytes rs \<le> range_total rs"
    using range_bytes_le_total [OF assms(1)] range_total_pos [OF assms]
    by (simp add: max_range_bytes_le_iff list_all_iff)
  moreover have "bytes (hd rs) \<le> max_range_bytes rs"
    using max_range_bytes_le_iff [of rs "max_range_bytes rs"] assms(2) by (auto simp: list_all_iff)
  ultimately show "0 < max_range_bytes rs" "max_range_bytes rs \<le> range_total rs"
    using assms by (cases rs; auto simp: range_ok_def)+
qed

text \<open>
  C31: the worker can always act on a sound authorization: when the daemon's authorization names a
  relay, the shared-pinned and device buffers in the order its direction asks for, ranges and plan
  chunks inside the buffers, and the alignment is positive, the request is made without error; its
  staging buffer has exactly the bytes, the largest chunk and the number of the ranges, and the
  source is only readable, the destination only writable.
\<close>

theorem authorization_yields_request:
  fixes a :: WorkerTransferAuthorization
  assumes "WorkerTransferAuthorization_ok a" and "wa_relay_gpu a = Some g" and "wa_ranges a \<noteq> []"
    and "BufferRegistration_ok (wa_src_buffer a)" and "BufferRegistration_ok (wa_dst_buffer a)"
    and "if wa_direction a = ''h2d''
         then br_handle_type (wa_src_buffer a) = ''shared_pinned_cpu'' \<and>
              br_handle_type (wa_dst_buffer a) = ''cuda_ipc_device''
         else br_handle_type (wa_src_buffer a) = ''cuda_ipc_device'' \<and>
              br_handle_type (wa_dst_buffer a) = ''shared_pinned_cpu''"
    and "list_all (range_in_bounds (br_size_bytes (wa_src_buffer a)) (br_size_bytes (wa_dst_buffer a)))
           (wa_ranges a)"
    and "plan_in_bounds (wa_plan a) (br_size_bytes (wa_src_buffer a)) (br_size_bytes (wa_dst_buffer a))"
    and "0 < alignment"
  shows "\<exists>q. from_authorization a alignment meta = Inr q \<and> WorkerDataPlaneRequest_ok q \<and>
    WorkerStagingBufferRequirement_ok (wr_staging q) \<and>
    wt_total_bytes (wr_staging q) = range_total (wa_ranges a) \<and>
    wt_max_chunk_bytes (wr_staging q) = max_range_bytes (wa_ranges a) \<and>
    wt_chunk_count (wr_staging q) = int (length (wa_ranges a)) \<and>
    wb_access (wr_src_handle q) = ''read'' \<and> wb_access (wr_dst_handle q) = ''write''"
proof -
  let ?rs = "wa_ranges a"
  obtain src where src: "from_buffer_registration (wa_src_buffer a) ''read'' = Inr src"
      "wb_access src = ''read''" "wb_job_id src = br_job_id (wa_src_buffer a)"
      "wb_size_bytes src = br_size_bytes (wa_src_buffer a)"
      "wb_handle_type src = br_handle_type (wa_src_buffer a)"
    using from_buffer_registration_ok [OF assms(4), of "''read''"] by auto
  obtain dst where dst: "from_buffer_registration (wa_dst_buffer a) ''write'' = Inr dst"
      "wb_access dst = ''write''" "wb_job_id dst = br_job_id (wa_dst_buffer a)"
      "wb_size_bytes dst = br_size_bytes (wa_dst_buffer a)"
      "wb_handle_type dst = br_handle_type (wa_dst_buffer a)"
    using from_buffer_registration_ok [OF assms(5), of "''write''"] by auto
  have ranges: "list_all range_ok ?rs" "0 \<le> g"
    using assms(1,2) by (auto simp: WorkerTransferAuthorization_ok_def opt_holds_def)
  note bounds = max_range_bytes_bounds [OF ranges(1) assms(3)] range_total_pos [OF ranges(1) assms(3)]
  define st where "st = \<lparr>wt_relay_gpu = g, wt_total_bytes = range_total ?rs,
    wt_max_chunk_bytes = max_range_bytes ?rs, wt_chunk_count = int (length ?rs),
    wt_alignment_bytes = alignment, wt_buffer_kind = ''relay_staging'', wt_metadata = []\<rparr>"
  have st: "WorkerStagingBufferRequirement_ok st"
    using ranges(2) bounds assms(3,9)
    by (simp add: st_def WorkerStagingBufferRequirement_ok_def blank_def is_space_def)
  define q where "q = \<lparr>wr_transfer_id = wa_transfer_id a, wr_lease_id = wa_lease_id a,
     wr_session_id = wa_session_id a, wr_job_id = wa_job_id a, wr_relay_gpu = g,
     wr_direction = wa_direction a, wr_src_handle = src, wr_dst_handle = dst, wr_staging = st,
     wr_ranges = ?rs, wr_plan = wa_plan a, wr_metadata = meta\<rparr>"
  have q: "WorkerDataPlaneRequest_ok q"
    using assms(1,3,6,7,8) ranges src dst
    by (auto simp: q_def st_def WorkerDataPlaneRequest_ok_def WorkerTransferAuthorization_ok_def
        handle_direction_ok_def)
  have "from_authorization a alignment meta = Inr q"
    using assms(2,3) src(1) dst(1) st worker_staging_requirement.mk_iff [of st st]
      worker_data_plane_request.wf_mk [OF q]
    by (simp add: from_authorization_def Let_def q_def st_def)
  with q st src(2) dst(2) show ?thesis by (auto simp: q_def st_def)
qed

lemma sample_in_bounds:
  "list_all (range_in_bounds (br_size_bytes (wa_src_buffer sample_authorization))
     (br_size_bytes (wa_dst_buffer sample_authorization))) (wa_ranges sample_authorization)"
  "plan_in_bounds (wa_plan sample_authorization) (br_size_bytes (wa_src_buffer sample_authorization))
     (br_size_bytes (wa_dst_buffer sample_authorization))"
  by (simp_all add: sample_authorization_def sample_src_def sample_dst_def range_in_bounds_def
      plan_in_bounds_def iterate_or_empty_def vget_def dget_default_def plan_chunk_in_bounds_def range_ok_def)

theorem authorization_yields_request_witness:
  "\<exists>q. from_authorization sample_authorization 16 [] = Inr q \<and> WorkerDataPlaneRequest_ok q \<and>
     wt_total_bytes (wr_staging q) = 32"
proof -
  have "\<exists>q. from_authorization sample_authorization 16 [] = Inr q \<and> WorkerDataPlaneRequest_ok q \<and>
      WorkerStagingBufferRequirement_ok (wr_staging q) \<and>
      wt_total_bytes (wr_staging q) = range_total (wa_ranges sample_authorization) \<and>
      wt_max_chunk_bytes (wr_staging q) = max_range_bytes (wa_ranges sample_authorization) \<and>
      wt_chunk_count (wr_staging q) = int (length (wa_ranges sample_authorization)) \<and>
      wb_access (wr_src_handle q) = ''read'' \<and> wb_access (wr_dst_handle q) = ''write''"
    by (rule authorization_yields_request [OF sample_authorization_ok, where g = 1])
       (use sample_src_ok sample_dst_ok sample_in_bounds in
         \<open>simp_all add: sample_authorization_def sample_src_def sample_dst_def\<close>)
  then show ?thesis by (auto simp: sample_authorization_def range_total_def)
qed

text \<open>A request over the same buffers.\<close>

definition handle_of :: "BufferRegistration \<Rightarrow> string \<Rightarrow> WorkerBufferHandle" where
  "handle_of b a = \<lparr>wb_buffer_id = br_buffer_id b, wb_job_id = br_job_id b, wb_kind = br_kind b,
     wb_size_bytes = br_size_bytes b, wb_access = a, wb_device_index = br_device_index b,
     wb_address = br_address b, wb_pinned = br_pinned b, wb_handle_type = br_handle_type b,
     wb_metadata = br_metadata b\<rparr>"

definition sample_request :: WorkerDataPlaneRequest where
  "sample_request = \<lparr>wr_transfer_id = ''t'', wr_lease_id = ''l'', wr_session_id = ''s'',
     wr_job_id = ''job'', wr_relay_gpu = 1, wr_direction = ''h2d'',
     wr_src_handle = handle_of sample_src ''read'', wr_dst_handle = handle_of sample_dst ''write'',
     wr_staging = \<lparr>wt_relay_gpu = 1, wt_total_bytes = 40, wt_max_chunk_bytes = 32, wt_chunk_count = 1,
       wt_alignment_bytes = 16, wt_buffer_kind = ''relay_staging'', wt_metadata = []\<rparr>,
     wr_ranges = wa_ranges sample_authorization, wr_plan = wa_plan sample_authorization,
     wr_metadata = []\<rparr>"

lemma handle_of_ok:
  "BufferRegistration_ok b \<Longrightarrow> a \<in> {''read'', ''write'', ''read_write''} \<Longrightarrow> WorkerBufferHandle_ok (handle_of b a)"
  by (auto simp: BufferRegistration_ok_def WorkerBufferHandle_ok_def handle_of_def)

lemma sample_request_ok: "WorkerDataPlaneRequest_ok sample_request"
  using sample_in_bounds
  by (simp add: WorkerDataPlaneRequest_ok_def sample_request_def handle_of_def sample_authorization_def
      sample_src_def sample_dst_def handle_direction_ok_def blank_def is_space_def range_ok_def
      range_total_def max_range_bytes_def)

theorem accepted_request_stays_in_memory_witness:
  "mk_WorkerDataPlaneRequest sample_request = Inr sample_request \<and>
   list_all (holds_range sample_request) (wr_ranges sample_request @ plan_ranges_of (wr_plan sample_request)) \<and>
   length (plan_ranges_of (wr_plan sample_request)) = 1"
proof -
  have mk: "mk_WorkerDataPlaneRequest sample_request = Inr sample_request"
    by (rule worker_data_plane_request.wf_mk [OF sample_request_ok])
  have "WorkerBufferHandle_ok (wr_src_handle sample_request)"
    "WorkerBufferHandle_ok (wr_dst_handle sample_request)"
    by (simp_all add: sample_request_def handle_of_ok sample_src_ok sample_dst_ok)
  moreover have "length (plan_ranges_of (wr_plan sample_request)) = 1"
    by (simp add: plan_ranges_of_def sample_request_def sample_authorization_def plan_items_def
        iterate_or_empty_def vget_def dget_default_def dict_of_def)
  ultimately show ?thesis using accepted_request_stays_in_memory [OF mk] mk by simp
qed

section \<open>Intents and receipts\<close>

text \<open>
  C34: a transfer intent is accepted exactly when its ranges are well formed and sum to its bytes,
  its buffers differ, its ids are not blank, its direction is one of the two (in any letter case)
  and no policy hint names a physical path, in any letter case; the accepted intent differs from
  the submitted one in the direction's case only, and submitting it again changes nothing.
\<close>

theorem intent_acceptance:
  "mk_TransferIntent t = Inr t' \<longleftrightarrow>
     t' = t\<lparr>ti_direction := lower (ti_direction t)\<rparr> \<and> TransferIntent_ok t'"
proof -
  have "normalize_transfer_direction d = Inr d' \<longleftrightarrow> d' = lower d \<and> lower d \<in> {''h2d'', ''d2h''}" for d d'
    by (auto simp: normalize_transfer_direction_def Let_def result_simps)
  then show ?thesis
    by (auto simp: mk_TransferIntent_def TransferIntent_ok_def result_simps)
qed

text \<open>
  a receipt says that a transfer is complete only with all of its bytes completed, no error,
  and evidence that a worker or backend executed it, verified exactly those bytes and compared
  their content; a failed or canceled receipt carries a reason; and a receipt that meets these
  conditions is accepted as it is.
\<close>

lemma receipt_acceptance:
  "mk_TransferReceipt r = Inr r' \<longleftrightarrow> r' = r \<and>
     0 \<le> tr_bytes_completed r \<and> tr_bytes_completed r \<le> tr_bytes_total r \<and>
     (if tr_state r = COMPLETE then
        tr_bytes_completed r = tr_bytes_total r \<and> tr_error r = None \<and>
        str_lower_in (vget (tr_metadata r) ''completion_source'' (VStr [])) [''worker'', ''backend''] \<and>
        truthy (vget (tr_metadata r) ''executed'' (VBool False)) \<and>
        truthy (vget (tr_metadata r) ''verified'' (VBool False)) \<and>
        py_int (vor (vget (tr_metadata r) ''verified_bytes'' (VInt 0)) (VInt 0)) = Inr (tr_bytes_total r) \<and>
        truthy (vget (tr_metadata r) ''content_match'' (VBool False)) else True) \<and>
     (if tr_state r \<in> {FAILED, CANCELED} then \<not> missing_reason (tr_error r) else True) \<and>
     0 \<le> tr_started_at r \<and> \<not> opt_holds (\<lambda>c. c < tr_started_at r) (tr_completed_at r) \<and>
     list_all (\<lambda>i. \<not> blank i) [tr_receipt_id r, tr_ticket_id r, tr_intent_id r, tr_decision_id r,
       tr_topology_snapshot_id r, tr_job_id r, tr_session_id r]"
  by (auto simp: transfer_receipt.mk_iff TransferReceipt_ok_def completion_evidence_ok_def)

end
