(* ===== verification/Staging_Pool.thy ===== *)
theory Staging_Pool
  imports Worker_Requests
begin

text \<open>
  The worker's pool of relay staging slots, \<open>turbobus/worker/staging_pool.py\<close>.  A slot is made
  from a validated data-plane request and is removed by the request that owns it.  An operation
  returns the pool after it and its result, since a failed allocation still consumes a slot number.
  The optional slot-id factory is a caller's function: its answer is an argument of the allocation.
\<close>

record WorkerStagingSlot =
  sl_slot_id :: string
  sl_transfer_id :: string
  sl_lease_id :: string
  sl_session_id :: string
  sl_job_id :: string
  sl_relay_gpu :: int
  sl_requested_bytes :: int
  sl_allocated_bytes :: int
  sl_max_chunk_bytes :: int
  sl_chunk_count :: int
  sl_alignment_bytes :: int
  sl_buffer_kind :: string
  sl_active :: bool
  sl_metadata :: mapping

definition mk_WorkerStagingSlot :: "WorkerStagingSlot \<Rightarrow> WorkerStagingSlot result" where
  "mk_WorkerStagingSlot s =
     raise_if (blank (sl_slot_id s)) (ValueError ''slot_id must be non-empty'') (
     raise_if (blank (sl_transfer_id s)) (ValueError ''transfer_id must be non-empty'') (
     raise_if (blank (sl_lease_id s)) (ValueError ''lease_id must be non-empty'') (
     raise_if (blank (sl_session_id s)) (ValueError ''session_id must be non-empty'') (
     raise_if (blank (sl_job_id s)) (ValueError ''job_id must be non-empty'') (
     raise_if (sl_relay_gpu s < 0) (ValueError ''relay_gpu must be non-negative'') (
     raise_if (sl_requested_bytes s \<le> 0) (ValueError ''requested_bytes must be positive'') (
     raise_if (sl_allocated_bytes s < sl_requested_bytes s)
       (ValueError ''allocated_bytes cannot be smaller than requested_bytes'') (
     raise_if (sl_max_chunk_bytes s \<le> 0) (ValueError ''max_chunk_bytes must be positive'') (
     raise_if (sl_chunk_count s \<le> 0) (ValueError ''chunk_count must be positive'') (
     raise_if (sl_alignment_bytes s \<le> 0) (ValueError ''alignment_bytes must be positive'') (
     raise_if (sl_allocated_bytes s mod sl_alignment_bytes s \<noteq> 0)
       (ValueError ''allocated_bytes must be alignment-sized'') (
     raise_if (blank (sl_buffer_kind s)) (ValueError ''buffer_kind must be non-empty'') (
     Inr s)))))))))))))"

definition WorkerStagingSlot_ok :: "WorkerStagingSlot \<Rightarrow> bool" where
  "WorkerStagingSlot_ok s =
     (\<not> blank (sl_slot_id s) \<and> \<not> blank (sl_transfer_id s) \<and> \<not> blank (sl_lease_id s) \<and>
      \<not> blank (sl_session_id s) \<and> \<not> blank (sl_job_id s) \<and> 0 \<le> sl_relay_gpu s \<and>
      0 < sl_requested_bytes s \<and> sl_requested_bytes s \<le> sl_allocated_bytes s \<and>
      0 < sl_max_chunk_bytes s \<and> 0 < sl_chunk_count s \<and> 0 < sl_alignment_bytes s \<and>
      sl_alignment_bytes s dvd sl_allocated_bytes s \<and> \<not> blank (sl_buffer_kind s))"

interpretation worker_staging_slot: checked_record mk_WorkerStagingSlot WorkerStagingSlot_ok
  by unfold_locales
    (auto simp: mk_WorkerStagingSlot_def WorkerStagingSlot_ok_def result_simps dvd_eq_mod_eq_0)

section \<open>The pool\<close>

definition align_up :: "int \<Rightarrow> int \<Rightarrow> int" where
  "align_up value alignment = ((value + alignment - 1) div alignment) * alignment"

definition slot_from_request :: "WorkerDataPlaneRequest \<Rightarrow> string \<Rightarrow> WorkerStagingSlot result" where
  "slot_from_request request slot_id =
     (let staging = wr_staging request
      in mk_WorkerStagingSlot
        \<lparr>sl_slot_id = slot_id, sl_transfer_id = wr_transfer_id request,
         sl_lease_id = wr_lease_id request, sl_session_id = wr_session_id request,
         sl_job_id = wr_job_id request, sl_relay_gpu = wr_relay_gpu request,
         sl_requested_bytes = wt_total_bytes staging,
         sl_allocated_bytes = align_up (wt_total_bytes staging) (wt_alignment_bytes staging),
         sl_max_chunk_bytes = wt_max_chunk_bytes staging, sl_chunk_count = wt_chunk_count staging,
         sl_alignment_bytes = wt_alignment_bytes staging, sl_buffer_kind = wt_buffer_kind staging,
         sl_active = True,
         sl_metadata =
           [(''src_buffer_id'', VStr (wb_buffer_id (wr_src_handle request))),
            (''dst_buffer_id'', VStr (wb_buffer_id (wr_dst_handle request))),
            (''direction'', VStr (wr_direction request))]\<rparr>)"

record StagingPool =
  sp_next_slot_id :: nat
  sp_slots :: "(string, WorkerStagingSlot) dict"

definition empty_pool :: StagingPool where
  "empty_pool = \<lparr>sp_next_slot_id = 1, sp_slots = []\<rparr>"

definition default_slot_id :: "nat \<Rightarrow> string" where
  "default_slot_id n = ''staging-'' @ int_str (int n)"

definition new_slot_id :: "string option \<Rightarrow> StagingPool \<Rightarrow> StagingPool \<times> string result" where
  "new_slot_id factory pool =
     (case factory of
        Some slot_id \<Rightarrow>
          (pool, raise_if (blank slot_id)
             (WorkerStagingPoolError ''slot id factory returned an empty id'') (Inr slot_id))
      | None \<Rightarrow>
          (pool\<lparr>sp_next_slot_id := sp_next_slot_id pool + 1\<rparr>,
           Inr (default_slot_id (sp_next_slot_id pool))))"

definition allocate ::
  "string option \<Rightarrow> WorkerDataPlaneRequest \<Rightarrow> StagingPool \<Rightarrow> StagingPool \<times> WorkerStagingSlot result" where
  "allocate factory request pool =
     (case new_slot_id factory pool of
        (pool', Inl e) \<Rightarrow> (pool', Inl e)
      | (pool', Inr slot_id) \<Rightarrow>
          if map_of (sp_slots pool') slot_id \<noteq> None
          then (pool', Inl (WorkerStagingPoolError ''staging slot id already exists''))
          else case slot_from_request request slot_id of
                 Inl e \<Rightarrow> (pool', Inl e)
               | Inr slot \<Rightarrow>
                   (pool'\<lparr>sp_slots := AList.update (sl_slot_id slot) slot (sp_slots pool')\<rparr>,
                    Inr slot))"

definition describe_slot :: "string \<Rightarrow> StagingPool \<Rightarrow> WorkerStagingSlot result" where
  "describe_slot slot_id pool =
     (case map_of (sp_slots pool) slot_id of
        None \<Rightarrow> Inl (WorkerStagingPoolError ''unknown staging slot'')
      | Some slot \<Rightarrow> Inr slot)"

definition describe_pool :: "StagingPool \<Rightarrow> (string, WorkerStagingSlot) dict" where
  "describe_pool pool = sort_key fst (sp_slots pool)"

definition validate_slot_for_request ::
  "string \<Rightarrow> WorkerDataPlaneRequest \<Rightarrow> StagingPool \<Rightarrow> WorkerStagingSlot result" where
  "validate_slot_for_request slot_id request pool =
     (case map_of (sp_slots pool) slot_id of
        None \<Rightarrow> Inl (WorkerStagingPoolError ''unknown staging slot'')
      | Some slot \<Rightarrow>
          raise_if (sl_transfer_id slot \<noteq> wr_transfer_id request)
            (WorkerStagingPoolError ''staging slot transfer mismatch'') (
          raise_if (sl_lease_id slot \<noteq> wr_lease_id request)
            (WorkerStagingPoolError ''staging slot lease mismatch'') (
          raise_if (sl_session_id slot \<noteq> wr_session_id request)
            (WorkerStagingPoolError ''staging slot session mismatch'') (
          raise_if (sl_job_id slot \<noteq> wr_job_id request)
            (WorkerStagingPoolError ''staging slot job mismatch'') (
          raise_if (sl_relay_gpu slot \<noteq> wr_relay_gpu request)
            (WorkerStagingPoolError ''staging slot relay mismatch'') (
          Inr slot))))))"

definition release ::
  "string \<Rightarrow> WorkerDataPlaneRequest option \<Rightarrow> StagingPool \<Rightarrow> StagingPool \<times> WorkerStagingSlot result" where
  "release slot_id request pool =
     (case (case request of None \<Rightarrow> Inr ()
            | Some q \<Rightarrow> rbind (validate_slot_for_request slot_id q pool) (\<lambda>_. Inr ())) of
        Inl e \<Rightarrow> (pool, Inl e)
      | Inr _ \<Rightarrow>
          case map_of (sp_slots pool) slot_id of
            None \<Rightarrow> (pool, Inl (WorkerStagingPoolError ''unknown staging slot''))
          | Some slot \<Rightarrow>
              (pool\<lparr>sp_slots := AList.delete slot_id (sp_slots pool)\<rparr>,
               rbind (mk_WorkerStagingSlot (slot\<lparr>sl_active := False\<rparr>)) Inr))"

section \<open>Alignment\<close>

lemma align_up_bounds:
  assumes "0 < a"
  shows "n \<le> align_up n a" and "align_up n a < n + a" and "a dvd align_up n a"
proof -
  have "(n + a - 1) div a * a = n + a - 1 - (n + a - 1) mod a"
    by (simp add: minus_mod_eq_div_mult)
  moreover have "0 \<le> (n + a - 1) mod a" "(n + a - 1) mod a < a" using assms by simp_all
  ultimately show "n \<le> align_up n a" "align_up n a < n + a" by (simp_all add: align_up_def)
  show "a dvd align_up n a" by (simp add: align_up_def)
qed

lemma align_up_least:
  assumes "0 < a" and "n \<le> m" and "a dvd m"
  shows "align_up n a \<le> m"
proof -
  obtain k where m: "m = a * k" using assms(3) by (auto simp: dvd_def)
  have "align_up n a < m + a" using align_up_bounds(2) [OF assms(1), of n] assms(2) by simp
  moreover obtain j where "align_up n a = a * j"
    using align_up_bounds(3) [OF assms(1), of n] by (auto simp: dvd_def)
  ultimately have "a * j < a * (k + 1)" using m by (simp add: algebra_simps)
  then have "j < k + 1" using assms(1) by (simp add: mult_less_cancel_left_pos)
  then show ?thesis using \<open>align_up n a = a * j\<close> assms(1) m by simp
qed

section \<open>The pool's invariant\<close>

definition pool_ok :: "StagingPool \<Rightarrow> bool" where
  "pool_ok pool =
     (dict_wf (sp_slots pool) \<and>
      (\<forall>k s. map_of (sp_slots pool) k = Some s \<longrightarrow>
         WorkerStagingSlot_ok s \<and> sl_active s \<and> sl_slot_id s = k))"

text \<open>With no factory, the ids in use are below the counter.\<close>

definition numbered_below :: "StagingPool \<Rightarrow> bool" where
  "numbered_below pool =
     (\<forall>k \<in> set (dkeys (sp_slots pool)). \<exists>n < sp_next_slot_id pool. k = default_slot_id n)"

lemma default_slot_id_inject [simp]: "default_slot_id m = default_slot_id n \<longleftrightarrow> m = n"
  by (simp add: default_slot_id_def)

lemma default_slot_id_not_blank [simp]: "\<not> blank (default_slot_id n)"
  by (simp add: default_slot_id_def blank_def is_space_def)

lemma pool_ok_empty: "pool_ok empty_pool" "numbered_below empty_pool"
  by (simp_all add: pool_ok_def numbered_below_def empty_pool_def)

lemma slot_from_request_Inr:
  assumes "slot_from_request q i = Inr s"
  shows "WorkerStagingSlot_ok s \<and> sl_active s \<and> sl_slot_id s = i \<and>
    sl_transfer_id s = wr_transfer_id q \<and> sl_lease_id s = wr_lease_id q \<and>
    sl_session_id s = wr_session_id q \<and> sl_job_id s = wr_job_id q \<and> sl_relay_gpu s = wr_relay_gpu q \<and>
    sl_requested_bytes s = wt_total_bytes (wr_staging q) \<and>
    sl_allocated_bytes s = align_up (wt_total_bytes (wr_staging q)) (wt_alignment_bytes (wr_staging q))"
  using assms unfolding slot_from_request_def Let_def
  by (auto simp: worker_staging_slot.mk_iff)

lemma new_slot_id_slots: "new_slot_id f pool = (pool', r) \<Longrightarrow> sp_slots pool' = sp_slots pool"
  by (auto simp: new_slot_id_def split: option.splits)

lemma allocate_Inr:
  assumes "allocate f q pool = (pool', Inr s)"
  shows "sp_slots pool' = AList.update (sl_slot_id s) s (sp_slots pool) \<and>
    map_of (sp_slots pool) (sl_slot_id s) = None \<and> slot_from_request q (sl_slot_id s) = Inr s"
  using assms slot_from_request_Inr [of q]
  by (auto simp: allocate_def split: prod.splits sum.splits if_splits dest!: new_slot_id_slots)

lemma allocate_Inl: "allocate f q pool = (pool', Inl e) \<Longrightarrow> sp_slots pool' = sp_slots pool"
  by (auto simp: allocate_def split: prod.splits sum.splits if_splits dest!: new_slot_id_slots)

lemma pool_ok_allocate: "pool_ok pool \<Longrightarrow> pool_ok (fst (allocate f q pool))"
proof (cases "allocate f q pool")
  case (Pair pool' r)
  assume ok: "pool_ok pool"
  show ?thesis
  proof (cases r)
    case (Inl e)
    with Pair ok show ?thesis by (simp add: pool_ok_def allocate_Inl)
  next
    case (Inr s)
    with allocate_Inr [of f q pool pool' s] slot_from_request_Inr [of q "sl_slot_id s" s] Pair ok
    show ?thesis by (auto simp: pool_ok_def)
  qed
qed

lemma pool_ok_release: "pool_ok pool \<Longrightarrow> pool_ok (fst (release i q pool))"
  by (auto simp: release_def pool_ok_def split: option.splits sum.splits)

section \<open>Properties\<close>

lemma slot_from_request_ok:
  assumes "WorkerDataPlaneRequest_ok q" and "WorkerStagingBufferRequirement_ok (wr_staging q)"
    and "\<not> blank i"
  shows "\<exists>s. slot_from_request q i = Inr s"
  using assms align_up_bounds [of "wt_alignment_bytes (wr_staging q)" "wt_total_bytes (wr_staging q)"]
  by (auto simp: slot_from_request_def Let_def worker_staging_slot.mk_iff WorkerStagingSlot_ok_def
      WorkerDataPlaneRequest_ok_def WorkerStagingBufferRequirement_ok_def)

lemma validate_slot_Inr:
  "validate_slot_for_request i q pool = Inr s \<longleftrightarrow>
     map_of (sp_slots pool) i = Some s \<and> sl_transfer_id s = wr_transfer_id q \<and>
     sl_lease_id s = wr_lease_id q \<and> sl_session_id s = wr_session_id q \<and>
     sl_job_id s = wr_job_id q \<and> sl_relay_gpu s = wr_relay_gpu q"
  by (auto simp: validate_slot_for_request_def result_simps split: option.splits)

text \<open>
  C29: with its own numbering the pool never refuses a sound request: it hands out a fresh slot of
  the smallest multiple of the alignment that holds the staging bytes, the slot passes validation
  for the request that made it, the other slots are untouched, and the pool stays consistent.
\<close>

theorem allocate_serves_request:
  assumes "pool_ok pool" and "numbered_below pool" and "WorkerDataPlaneRequest_ok q"
    and "WorkerStagingBufferRequirement_ok (wr_staging q)"
  defines "n \<equiv> wt_total_bytes (wr_staging q)" and "al \<equiv> wt_alignment_bytes (wr_staging q)"
    and "i \<equiv> default_slot_id (sp_next_slot_id pool)"
  shows "\<exists>pool' s. allocate None q pool = (pool', Inr s) \<and> pool_ok pool' \<and> numbered_below pool' \<and>
    map_of (sp_slots pool) i = None \<and> map_of (sp_slots pool') = (map_of (sp_slots pool))(i \<mapsto> s) \<and>
    validate_slot_for_request i q pool' = Inr s \<and>
    n \<le> sl_allocated_bytes s \<and> al dvd sl_allocated_bytes s \<and> sl_allocated_bytes s < n + al \<and>
    sl_active s"
proof -
  have fresh: "map_of (sp_slots pool) i = None"
    using assms(2) by (auto simp: i_def numbered_below_def map_of_eq_None_iff)
  obtain s where s: "slot_from_request q i = Inr s"
    using slot_from_request_ok [OF assms(3,4), of i] by (auto simp: i_def)
  note facts = slot_from_request_Inr [OF s]
  let ?pool' = "pool\<lparr>sp_next_slot_id := sp_next_slot_id pool + 1,
                     sp_slots := AList.update i s (sp_slots pool)\<rparr>"
  have al: "allocate None q pool = (?pool', Inr s)"
    using fresh s facts by (simp add: allocate_def new_slot_id_def i_def)
  have "pool_ok ?pool'" using pool_ok_allocate [OF assms(1), of None q] al by simp
  moreover have "numbered_below ?pool'"
    using assms(2) by (fastforce simp: numbered_below_def dom_update i_def less_Suc_eq)
  moreover have "validate_slot_for_request i q ?pool' = Inr s"
    using facts by (simp add: validate_slot_Inr)
  moreover have "n \<le> sl_allocated_bytes s \<and> al dvd sl_allocated_bytes s \<and> sl_allocated_bytes s < n + al"
    using facts assms(4) align_up_bounds [of al n]
    by (auto simp: n_def al_def WorkerStagingBufferRequirement_ok_def)
  ultimately show ?thesis using al fresh facts by auto
qed

lemma sample_staging_ok: "WorkerStagingBufferRequirement_ok (wr_staging sample_request)"
  by (simp add: sample_request_def WorkerStagingBufferRequirement_ok_def blank_def is_space_def)

theorem allocate_serves_request_witness:
  "\<exists>pool' s. allocate None sample_request empty_pool = (pool', Inr s) \<and> 40 \<le> sl_allocated_bytes s \<and>
     sl_allocated_bytes s < 56"
  using allocate_serves_request [OF pool_ok_empty sample_request_ok sample_staging_ok]
  by (auto simp: sample_request_def)

text \<open>
  C30: of the releases that name a request (the worker also releases without one), only the request
  that owns a slot can release it: a request that differs in its transfer,
  lease, session, job or relay fails and leaves the pool as it was, while the owner gets the slot
  back inactive, the slot is gone, every other slot is kept and a second release fails.
\<close>

theorem release_only_by_owner:
  fixes q :: WorkerDataPlaneRequest
  assumes "pool_ok pool" and "map_of (sp_slots pool) i = Some s"
  defines "owns \<equiv> sl_transfer_id s = wr_transfer_id q \<and> sl_lease_id s = wr_lease_id q \<and>
    sl_session_id s = wr_session_id q \<and> sl_job_id s = wr_job_id q \<and> sl_relay_gpu s = wr_relay_gpu q"
    and "pool' \<equiv> fst (release i (Some q) pool)"
  shows "if owns
    then release i (Some q) pool = (pool', Inr (s\<lparr>sl_active := False\<rparr>)) \<and> pool_ok pool' \<and>
      map_of (sp_slots pool') = (map_of (sp_slots pool))(i := None) \<and>
      release i (Some q) pool' = (pool', Inl (WorkerStagingPoolError ''unknown staging slot''))
    else pool' = pool \<and> (\<exists>e. release i (Some q) pool = (pool, Inl e))"
proof (cases owns)
  case True
  then have val: "validate_slot_for_request i q pool = Inr s"
    using assms(2) by (auto simp: owns_def validate_slot_Inr)
  have "WorkerStagingSlot_ok (s\<lparr>sl_active := False\<rparr>)"
    using assms(1,2) by (auto simp: pool_ok_def WorkerStagingSlot_ok_def)
  then have mk: "mk_WorkerStagingSlot (s\<lparr>sl_active := False\<rparr>) = Inr (s\<lparr>sl_active := False\<rparr>)"
    by (simp add: worker_staging_slot.mk_iff)
  have rel: "release i (Some q) pool =
      (pool\<lparr>sp_slots := AList.delete i (sp_slots pool)\<rparr>, Inr (s\<lparr>sl_active := False\<rparr>))"
    using assms(2) val mk by (simp add: release_def)
  then have pool': "pool' = pool\<lparr>sp_slots := AList.delete i (sp_slots pool)\<rparr>" by (simp add: pool'_def)
  have "release i (Some q) pool' = (pool', Inl (WorkerStagingPoolError ''unknown staging slot''))"
    by (simp add: release_def validate_slot_for_request_def pool')
  moreover have "pool_ok pool'" using pool_ok_release [OF assms(1)] by (simp add: pool'_def)
  ultimately show ?thesis using True rel pool' by simp
next
  case False
  then have "validate_slot_for_request i q pool \<noteq> Inr t" for t
    using assms(2) by (auto simp: owns_def validate_slot_Inr)
  then obtain e where "validate_slot_for_request i q pool = Inl e"
    by (cases "validate_slot_for_request i q pool") auto
  then have "release i (Some q) pool = (pool, Inl e)" by (simp add: release_def)
  with False show ?thesis by (simp add: pool'_def)
qed

theorem release_only_by_owner_witness:
  "\<exists>pool s. map_of (sp_slots pool) ''staging-1'' = Some s \<and>
     release ''staging-1'' (Some sample_request) pool =
       (fst (release ''staging-1'' (Some sample_request) pool), Inr (s\<lparr>sl_active := False\<rparr>)) \<and>
     fst (release ''staging-1'' (Some (sample_request\<lparr>wr_job_id := ''x''\<rparr>)) pool) = pool"
proof -
  obtain s where s: "slot_from_request sample_request ''staging-1'' = Inr s"
    using slot_from_request_ok [OF sample_request_ok sample_staging_ok, of "''staging-1''"]
    by (auto simp: blank_def is_space_def)
  note facts = slot_from_request_Inr [OF s]
  let ?pool = "\<lparr>sp_next_slot_id = 2, sp_slots = [(''staging-1'', s)]\<rparr>"
  have "pool_ok ?pool" and mem: "map_of (sp_slots ?pool) ''staging-1'' = Some s"
    using facts by (auto simp: pool_ok_def dict_wf_def)
  note rel = release_only_by_owner [OF this]
  have "sl_job_id s \<noteq> ''x''" using facts by (simp add: sample_request_def)
  then have "fst (release ''staging-1'' (Some (sample_request\<lparr>wr_job_id := ''x''\<rparr>)) ?pool) = ?pool"
    using rel [of "sample_request\<lparr>wr_job_id := ''x''\<rparr>"] by auto
  with rel [of sample_request] facts mem show ?thesis by (intro exI [of _ ?pool] exI [of _ s]) auto
qed

end
