(* ===== verification/Peer_Auth.thy ===== *)
theory Peer_Auth
  imports Schema_Tickets
begin

text \<open>
  Peer identities and ownership, \<open>turbobus/daemon/peer_auth.py\<close>.  Reading credentials off a socket
  is the operating system's; here are the decisions the daemon makes about an identity it has.
  \<open>str(None)\<close> is the text \<open>None\<close>.
\<close>

definition str_opt :: "string option \<Rightarrow> string" where
  "str_opt s = (case s of None \<Rightarrow> ''None'' | Some t \<Rightarrow> t)"

definition authenticated :: "PeerIdentity option \<Rightarrow> bool" where
  "authenticated p = (case p of None \<Rightarrow> False | Some i \<Rightarrow> pi_authenticated i)"

text \<open>\<open>peer_identity.unsupported_reason or "peer identity is unauthenticated"\<close>.\<close>

definition unauthenticated_reason :: "PeerIdentity option \<Rightarrow> string" where
  "unauthenticated_reason p =
     (case p of
        None \<Rightarrow> ''peer identity is unavailable''
      | Some i \<Rightarrow> (case pi_unsupported_reason i of
                      None \<Rightarrow> ''peer identity is unauthenticated''
                    | Some r \<Rightarrow> if r = [] then ''peer identity is unauthenticated'' else r))"

definition authenticated_peer_required_error :: "PeerIdentity option \<Rightarrow> string" where
  "authenticated_peer_required_error p =
     ''authenticated peer credentials are required: '' @ unauthenticated_reason p"

definition peer_uid :: "PeerIdentity option \<Rightarrow> string option" where
  "peer_uid p = (case p of None \<Rightarrow> None | Some i \<Rightarrow> if pi_authenticated i then pi_user_id i else None)"

definition peer_gid :: "PeerIdentity option \<Rightarrow> int option" where
  "peer_gid p = (case p of None \<Rightarrow> None | Some i \<Rightarrow> if pi_authenticated i then pi_group_id i else None)"

definition require_authenticated_peer :: "PeerIdentity option \<Rightarrow> PeerIdentity result" where
  "require_authenticated_peer p =
     (case p of
        Some i \<Rightarrow> raise_if (\<not> pi_authenticated i) (ValueError (authenticated_peer_required_error p)) (Inr i)
      | None \<Rightarrow> Inl (ValueError (authenticated_peer_required_error p)))"

text \<open>\<open>a is not None and b is not None and a != b\<close>.\<close>

definition both_differ :: "'a option \<Rightarrow> 'a option \<Rightarrow> bool" where
  "both_differ a b = (case (a, b) of (Some x, Some y) \<Rightarrow> x \<noteq> y | _ \<Rightarrow> False)"

definition or_else :: "'a option \<Rightarrow> 'a option \<Rightarrow> 'a option" where
  "or_else a b = (case a of None \<Rightarrow> b | Some x \<Rightarrow> Some x)"

definition bind_job_identity_to_peer ::
  "string option \<Rightarrow> int option \<Rightarrow> string option \<Rightarrow> PeerIdentity option
     \<Rightarrow> (string option \<times> int option \<times> string option) result" where
  "bind_job_identity_to_peer user_id process_id container_id peer =
     (case peer of
        None \<Rightarrow> Inr (user_id, process_id, container_id)
      | Some p \<Rightarrow>
          if \<not> pi_authenticated p then Inr (user_id, process_id, container_id)
          else raise_if (user_id \<noteq> None \<and> str_opt user_id \<noteq> str_opt (pi_user_id p))
                 (ValueError ''job user_id does not match authenticated peer'') (
               raise_if (both_differ process_id (pi_process_id p))
                 (ValueError ''job process_id does not match authenticated peer'') (
               raise_if (both_differ container_id (pi_container_id p))
                 (ValueError ''job container_id does not match authenticated peer'') (
               Inr (Some (str_opt (pi_user_id p)), or_else process_id (pi_process_id p),
                    or_else container_id (pi_container_id p))))))"

definition validate_peer_owner_match ::
  "PeerIdentity option \<Rightarrow> PeerIdentity option \<Rightarrow> string \<Rightarrow> unit result" where
  "validate_peer_owner_match expected actual owner_name =
     (case (expected, actual) of
        (Some e, Some a) \<Rightarrow>
          if \<not> pi_authenticated e \<or> \<not> pi_authenticated a then Inr ()
          else raise_if (str_opt (pi_user_id e) \<noteq> str_opt (pi_user_id a))
                 (ValueError (owner_name @ '' owner does not match authenticated peer'')) (Inr ())
      | _ \<Rightarrow> Inr ())"

definition peer_identity_same_connection ::
  "PeerIdentity option \<Rightarrow> PeerIdentity option \<Rightarrow> bool" where
  "peer_identity_same_connection expected actual =
     (case (expected, actual) of
        (Some e, Some a) \<Rightarrow>
          if pi_authenticated e \<and> pi_authenticated a
          then str_opt (pi_user_id e) = str_opt (pi_user_id a) \<and> pi_process_id e = pi_process_id a \<and>
               pi_group_id e = pi_group_id a
          else pi_authenticated e = pi_authenticated a \<and> pi_source e = pi_source a \<and>
               pi_unsupported_reason e = pi_unsupported_reason a
      | _ \<Rightarrow> False)"

section \<open>Ownership\<close>

lemma peer_uid_authenticated: "peer_uid p = Some u \<Longrightarrow> authenticated p"
  by (auto simp: peer_uid_def authenticated_def split: option.splits if_splits)

lemma PeerIdentity_uid: "PeerIdentity_ok p \<Longrightarrow> pi_authenticated p \<Longrightarrow> \<exists>u. peer_uid (Some p) = Some u"
  by (auto simp: PeerIdentity_ok_def peer_uid_def)

text \<open>An owner check between two identities with a uid succeeds exactly when the uids agree.\<close>

lemma owner_match_uids:
  "peer_uid e = Some u \<Longrightarrow> peer_uid a = Some v \<Longrightarrow>
   validate_peer_owner_match e a name = Inr () \<longleftrightarrow> u = v"
  by (auto simp: peer_uid_def validate_peer_owner_match_def str_opt_def result_simps
      split: option.splits if_splits)

lemma bind_job_identity_uid:
  "bind_job_identity_to_peer u p c peer = Inr (u', p', c') \<Longrightarrow> peer_uid peer = Some v \<Longrightarrow>
   u' = Some v \<and> (u = None \<or> u = Some v)"
  by (auto simp: bind_job_identity_to_peer_def peer_uid_def str_opt_def result_simps
      split: option.splits if_splits)

lemma same_connection_sym:
  "peer_identity_same_connection a b \<longleftrightarrow> peer_identity_same_connection b a"
  by (auto simp: peer_identity_same_connection_def split: option.splits)

end
