(* ===== verification/Tiling.thy ===== *)
theory Tiling
  imports Prelude
begin

text \<open>
  Splitting a byte count into chunks.  Three loops of the code do this (the planner over a whole
  transfer, the planner over one range, the block plan over one chunk); they share the interface
  \<open>tiler\<close> and its consequences.
\<close>

section \<open>Segments that tile an interval\<close>

fun tiles :: "int \<Rightarrow> int \<Rightarrow> (int \<times> int) list \<Rightarrow> bool" where
  "tiles a b [] = (a = b)"
| "tiles a b ((off, n) # ps) = (off = a \<and> 0 < n \<and> tiles (a + n) b ps)"

text \<open>All pieces have the chunk size, except that the last one may be shorter.\<close>

fun full_but_last :: "int \<Rightarrow> (int \<times> int) list \<Rightarrow> bool" where
  "full_but_last c [] = True"
| "full_but_last c [(off, n)] = (n \<le> c)"
| "full_but_last c ((off, n) # p # ps) = (n = c \<and> full_but_last c (p # ps))"

lemma tiles_le: "tiles a b ps \<Longrightarrow> a \<le> b"
  by (induction a b ps rule: tiles.induct) auto

lemma tiles_sum: "tiles a b ps \<Longrightarrow> sum_list (map snd ps) = b - a"
  by (induction a b ps rule: tiles.induct) auto

lemma tiles_bounds: "tiles a b ps \<Longrightarrow> (off, n) \<in> set ps \<Longrightarrow> a \<le> off \<and> 0 < n \<and> off + n \<le> b"
  by (induction a b ps rule: tiles.induct) (auto dest: tiles_le)

lemma tiles_cover: "tiles a b ps \<Longrightarrow> a \<le> x \<Longrightarrow> x < b \<Longrightarrow> \<exists>(off, n) \<in> set ps. off \<le> x \<and> x < off + n"
proof (induction a b ps rule: tiles.induct)
  case (1 a b)
  then show ?case by simp
next
  case (2 a b off n ps)
  then show ?case by (cases "x < a + n") auto
qed

definition holds_byte :: "int \<Rightarrow> int \<times> int \<Rightarrow> bool" where
  "holds_byte x p = (fst p \<le> x \<and> x < fst p + snd p)"

lemma tiles_once:
  "tiles a b ps \<Longrightarrow> length (filter (holds_byte x) ps) = (if a \<le> x \<and> x < b then 1 else 0)"
  by (induction a b ps rule: tiles.induct) (auto simp: holds_byte_def dest: tiles_le)

lemma full_but_last_le: "full_but_last c ps \<Longrightarrow> (off, n) \<in> set ps \<Longrightarrow> n \<le> c"
  by (induction c ps rule: full_but_last.induct) auto

lemma full_but_last_length:
  "tiles a b ps \<Longrightarrow> full_but_last c ps \<Longrightarrow> 0 < c \<Longrightarrow> int (length ps) = (b - a + c - 1) div c"
proof (induction c ps arbitrary: a rule: full_but_last.induct)
  case (1 c)
  then show ?case by simp
next
  case (2 c off n)
  then have "b - a = n" "0 < n" "n \<le> c" by auto
  then have "(b - a + c - 1) div c = (n - 1 + c) div c" by (simp add: algebra_simps)
  also have "\<dots> = (n - 1) div c + 1" using \<open>0 < c\<close> by simp
  also have "(n - 1) div c = 0" using \<open>0 < n\<close> \<open>n \<le> c\<close> by (intro div_pos_pos_trivial) auto
  finally show ?case by simp
next
  case (3 c off n p ps)
  then have IH: "int (length (p # ps)) = (b - (a + n) + c - 1) div c" and n: "n = c" by auto
  have "(b - a + c - 1) div c = ((b - (a + n) + c - 1) + c) div c" by (simp add: n algebra_simps)
  also have "\<dots> = (b - (a + n) + c - 1) div c + 1" using \<open>0 < c\<close> by (intro div_add_self2) simp
  finally show ?case using IH by simp
qed

section \<open>The interface of a chunking loop\<close>

locale tiler =
  fixes pieces :: "int \<Rightarrow> int \<Rightarrow> (int \<times> int) list"
  assumes pieces_tile: "0 < c \<Longrightarrow> 0 \<le> n \<Longrightarrow> tiles 0 n (pieces n c)"
    and pieces_full: "0 < c \<Longrightarrow> full_but_last c (pieces n c)"
begin

lemma total: "0 < c \<Longrightarrow> 0 \<le> n \<Longrightarrow> sum_list (map snd (pieces n c)) = n"
  using tiles_sum [OF pieces_tile, of c n] by simp

lemma within: "0 < c \<Longrightarrow> 0 \<le> n \<Longrightarrow> (off, k) \<in> set (pieces n c) \<Longrightarrow> 0 \<le> off \<and> 0 < k \<and> off + k \<le> n"
  by (rule tiles_bounds [OF pieces_tile, of c n])

lemma bounded: "0 < c \<Longrightarrow> (off, k) \<in> set (pieces n c) \<Longrightarrow> k \<le> c"
  using full_but_last_le [OF pieces_full [of c n]] by blast

lemma each_byte_once:
  "0 < c \<Longrightarrow> 0 \<le> x \<Longrightarrow> x < n \<Longrightarrow> length (filter (holds_byte x) (pieces n c)) = 1"
  using tiles_once [OF pieces_tile, of c n x] by simp

lemma count: "0 < c \<Longrightarrow> 0 \<le> n \<Longrightarrow> int (length (pieces n c)) = (n + c - 1) div c"
  using full_but_last_length [OF pieces_tile pieces_full, of c n] by simp

lemma empty_iff: "0 < c \<Longrightarrow> 0 \<le> n \<Longrightarrow> pieces n c = [] \<longleftrightarrow> n = 0"
  using pieces_tile [of c n] total [of c n] tiles_bounds [of 0 n "pieces n c"]
  by (cases "pieces n c") fastforce+

end

section \<open>The common loop\<close>

function segments :: "int \<Rightarrow> int \<Rightarrow> int \<Rightarrow> (int \<times> int) list" where
  "segments consumed n c =
     (if 0 < c \<and> consumed < n
      then (consumed, min c (n - consumed)) # segments (consumed + min c (n - consumed)) n c
      else [])"
  by pat_completeness auto
termination
  by (relation "measure (\<lambda>(consumed, n, c). nat (n - consumed))") auto

declare segments.simps [simp del]

lemma segments_tile: "0 < c \<Longrightarrow> consumed \<le> n \<Longrightarrow> tiles consumed n (segments consumed n c)"
proof (induction consumed n c rule: segments.induct)
  case (1 consumed n c)
  then show ?case by (auto simp: segments.simps [of consumed n c])
qed

lemma segments_full: "full_but_last c (segments consumed n c)"
proof (induction consumed n c rule: segments.induct)
  case (1 consumed n c)
  let ?m = "min c (n - consumed)"
  show ?case
  proof (cases "0 < c \<and> consumed < n")
    case True
    with 1 have IH: "full_but_last c (segments (consumed + ?m) n c)" by simp
    have unfold: "segments consumed n c = (consumed, ?m) # segments (consumed + ?m) n c"
      using True by (simp add: segments.simps [of consumed n c])
    show ?thesis
    proof (cases "segments (consumed + ?m) n c")
      case Nil
      then show ?thesis by (simp add: unfold)
    next
      case (Cons p ps)
      then have "consumed + ?m < n" by (auto simp: segments.simps [of "consumed + ?m" n c] split: if_splits)
      then have "?m = c" by linarith
      with IH Cons show ?thesis by (simp add: unfold)
    qed
  next
    case False
    then have "segments consumed n c = []" by (subst segments.simps) simp
    then show ?thesis by simp
  qed
qed

interpretation loop: tiler "segments 0"
  by unfold_locales (auto simp: segments_tile segments_full)

end
