(* ===== verification/Planner.thy ===== *)
theory Planner
  imports Tiling Schema_Base
begin

text \<open>
  \<open>turbobus/planner_types.py\<close> and \<open>turbobus/planner_engine.py\<close>: chunking a transfer, building
  the enabled paths of a profile, and assigning chunks to paths by smallest projected finish
  time.  Bandwidths are rationals.  A profile is duck-typed in the code
  (\<open>getattr(profile, name, default)\<close>): its record holds the attributes read, an absent or None
  number being 0.
\<close>

section \<open>Planner types\<close>

record PlannerChunk =
  pc_src_offset :: int
  pc_dst_offset :: int
  pc_bytes :: int
  pc_relay_device :: "int option"

record PlannerPath =
  pp_kind :: string
  pp_direction :: string
  pp_target_device :: int
  pp_relay_device :: int
  pp_h2d_bw_gbps :: rat
  pp_d2h_bw_gbps :: rat
  pp_p2p_bw_gbps :: rat
  pp_effective_bw_gbps :: rat
  pp_enabled :: bool
  pp_fabric_kind :: "string option"
  pp_scheduler_weight_gbps :: "rat option"
  pp_runtime_pressure :: rat
  pp_cost_metadata :: mapping

record PlannerPathAssignment =
  pa_path :: PlannerPath
  pa_chunks :: "PlannerChunk list"

record PathCostRecord =
  pcr_kind :: string
  pcr_target_device :: int
  pcr_relay_device :: "int option"
  pcr_effective_bw_gbps :: rat
  pcr_scheduler_weight_gbps :: rat
  pcr_scheduler_weight_source :: string
  pcr_runtime_pressure :: rat
  pcr_assigned_bytes :: int
  pcr_assigned_chunks :: int
  pcr_estimated_finish_seconds :: rat
  pcr_source :: pyval

record PlanCostMetadata =
  pcm_pool_disabled_reason :: "string option"
  pcm_paths :: "PathCostRecord list"

record PlannerTransferPlan =
  tpl_total_bytes :: int
  tpl_chunk_bytes :: int
  tpl_assignments :: "PlannerPathAssignment list"
  tpl_cost_metadata :: "PlanCostMetadata option"

text \<open>\<open>PlannerTransferPlan()\<close> with its default field values.\<close>

definition empty_plan :: PlannerTransferPlan where
  "empty_plan = \<lparr>tpl_total_bytes = 0, tpl_chunk_bytes = 16 * 1024 * 1024,
     tpl_assignments = [], tpl_cost_metadata = None\<rparr>"

record PlannerEngineOptions =
  po_min_chunks_for_relay :: int
  po_min_pool_bytes :: int
  po_relay_min_effective_bw_gbps :: rat
  po_relay_min_direct_ratio :: rat

definition default_options :: PlannerEngineOptions where
  "default_options = \<lparr>po_min_chunks_for_relay = 2, po_min_pool_bytes = 0,
     po_relay_min_effective_bw_gbps = 0, po_relay_min_direct_ratio = 0\<rparr>"

record ProfileRelay =
  pr_relay_device :: int
  pr_target_device :: "int option"
  pr_p2p_enabled :: bool
  pr_h2d_bw_gbps :: rat
  pr_d2h_bw_gbps :: rat
  pr_p2p_bw_gbps :: rat
  pr_effective_bw_gbps :: rat
  pr_effective_d2h_bw_gbps :: rat
  pr_scheduler_weight_h2d_gbps :: rat
  pr_scheduler_weight_d2h_gbps :: rat
  pr_runtime_pressure_h2d :: rat
  pr_runtime_pressure_d2h :: rat
  pr_cost_metadata :: mapping

record Profile =
  pf_target_device :: int
  pf_direct_h2d_bw_gbps :: rat
  pf_direct_d2h_bw_gbps :: rat
  pf_direct_scheduler_weight_h2d_gbps :: rat
  pf_direct_scheduler_weight_d2h_gbps :: rat
  pf_direct_runtime_pressure_h2d :: rat
  pf_direct_runtime_pressure_d2h :: rat
  pf_relays :: "ProfileRelay list"
  pf_cost_metadata :: mapping

section \<open>Chunking\<close>

text \<open>\<open>_make_chunks\<close>: \<open>for offset in range(0, total_bytes, chunk_bytes)\<close>.\<close>

function make_chunks_from :: "int \<Rightarrow> int \<Rightarrow> int \<Rightarrow> PlannerChunk list" where
  "make_chunks_from offset total_bytes chunk_bytes =
     (if 0 < chunk_bytes \<and> offset < total_bytes
      then \<lparr>pc_src_offset = offset, pc_dst_offset = offset,
            pc_bytes = min chunk_bytes (total_bytes - offset), pc_relay_device = None\<rparr>
           # make_chunks_from (offset + chunk_bytes) total_bytes chunk_bytes
      else [])"
  by pat_completeness auto
termination
  by (relation "measure (\<lambda>(offset, total, chunk). nat (total - offset))") auto

declare make_chunks_from.simps [simp del]

definition make_chunks :: "int \<Rightarrow> int \<Rightarrow> PlannerChunk list" where
  "make_chunks total_bytes chunk_bytes = make_chunks_from 0 total_bytes chunk_bytes"

text \<open>The \<open>while consumed < bytes_\<close> loop of \<open>plan_ranges\<close>.\<close>

function range_chunks :: "int \<Rightarrow> int \<Rightarrow> int \<Rightarrow> int \<Rightarrow> int \<Rightarrow> PlannerChunk list" where
  "range_chunks src dst nbytes chunk_bytes consumed =
     (if 0 < chunk_bytes \<and> consumed < nbytes
      then let this = min chunk_bytes (nbytes - consumed)
           in \<lparr>pc_src_offset = src + consumed, pc_dst_offset = dst + consumed,
               pc_bytes = this, pc_relay_device = None\<rparr>
              # range_chunks src dst nbytes chunk_bytes (consumed + this)
      else [])"
  by pat_completeness auto
termination
  by (relation "measure (\<lambda>(src, dst, nbytes, chunk, consumed). nat (nbytes - consumed))") auto

declare range_chunks.simps [simp del]

text \<open>The outer loop of \<open>plan_ranges\<close>: the chunks and the total bytes.\<close>

fun chunk_ranges :: "int \<Rightarrow> TransferRange list \<Rightarrow> PlannerChunk list \<times> int" where
  "chunk_ranges chunk_bytes [] = ([], 0)"
| "chunk_ranges chunk_bytes (r # rs) =
     (let (chunks, total) = chunk_ranges chunk_bytes rs
      in if bytes r \<le> 0 then (chunks, total)
         else (range_chunks (src_offset r) (dst_offset r) (bytes r) chunk_bytes 0 @ chunks,
               bytes r + total))"

definition chunk_piece :: "int \<Rightarrow> PlannerChunk \<Rightarrow> int \<times> int" where
  "chunk_piece base c = (pc_src_offset c - base, pc_bytes c)"

lemma segments_step:
  "0 < c \<Longrightarrow> segments (a + min c (n - a)) n c = segments (a + c) n c"
  by (cases "c \<le> n - a") (simp_all add: segments.simps [of n n c] segments.simps [of "a + c" n c])

lemma make_chunks_from_pieces:
  "map (chunk_piece 0) (make_chunks_from a n c) = segments a n c"
proof (induction a n c rule: make_chunks_from.induct)
  case (1 a n c)
  then show ?case
    by (simp add: make_chunks_from.simps [of a n c] segments.simps [of a n c]
        segments_step chunk_piece_def)
qed

lemma make_chunks_dst: "c \<in> set (make_chunks n k) \<Longrightarrow> pc_dst_offset c = pc_src_offset c"
proof -
  have "c \<in> set (make_chunks_from a n k) \<Longrightarrow> pc_dst_offset c = pc_src_offset c" for a
  proof (induction a n k rule: make_chunks_from.induct)
    case (1 a n k)
    then show ?case
      by (subst (asm) (2) make_chunks_from.simps) (auto split: if_splits)
  qed
  then show "c \<in> set (make_chunks n k) \<Longrightarrow> ?thesis" by (simp add: make_chunks_def)
qed

lemma range_chunks_pieces:
  "map (chunk_piece s) (range_chunks s d n c a) = segments a n c"
proof (induction s d n c a rule: range_chunks.induct)
  case (1 s d n c a)
  then show ?case
    by (simp add: range_chunks.simps [of s d n c a] segments.simps [of a n c]
        chunk_piece_def Let_def)
qed

interpretation transfer_chunks: tiler "\<lambda>n c. map (chunk_piece 0) (make_chunks n c)"
  by unfold_locales (simp_all add: make_chunks_def make_chunks_from_pieces loop.pieces_tile loop.pieces_full)

interpretation range_pieces: tiler "\<lambda>n c. map (chunk_piece s) (range_chunks s d n c 0)" for s d
  by unfold_locales (simp_all add: range_chunks_pieces loop.pieces_tile loop.pieces_full)

definition chunk_total :: "PlannerChunk list \<Rightarrow> int" where
  "chunk_total cs = sum_list (map pc_bytes cs)"

lemma chunk_total_simps [simp]:
  "chunk_total [] = 0" "chunk_total (c # cs) = pc_bytes c + chunk_total cs"
  "chunk_total (cs @ ds) = chunk_total cs + chunk_total ds"
  by (simp_all add: chunk_total_def)

lemma snd_chunk_piece [simp]: "map snd (map (chunk_piece s) cs) = map pc_bytes cs"
  by (simp add: chunk_piece_def)

lemma make_chunks_total: "0 < c \<Longrightarrow> 0 \<le> n \<Longrightarrow> chunk_total (make_chunks n c) = n"
  using transfer_chunks.total [of c n] by (simp add: chunk_total_def chunk_piece_def comp_def)

lemma range_chunks_total: "0 < c \<Longrightarrow> 0 \<le> n \<Longrightarrow> chunk_total (range_chunks s d n c 0) = n"
  using range_pieces.total [of c n s d] by (simp add: chunk_total_def chunk_piece_def comp_def)

lemma chunk_ranges_total:
  "0 < c \<Longrightarrow> chunk_ranges c rs = (cs, n) \<Longrightarrow> chunk_total cs = n"
proof (induction rs arbitrary: cs n)
  case Nil
  then show ?case by simp
next
  case (Cons r rs)
  then show ?case by (auto simp: range_chunks_total split: prod.splits if_splits)
qed

lemma make_chunks_bytes:
  assumes "0 < k" and "c \<in> set (make_chunks n k)"
  shows "0 < pc_bytes c \<and> pc_bytes c \<le> k \<and> 0 \<le> pc_src_offset c \<and> pc_src_offset c + pc_bytes c \<le> n"
proof -
  from assms(2) have "chunk_piece 0 c \<in> set (map (chunk_piece 0) (make_chunks n k))" by simp
  then have mem: "(pc_src_offset c, pc_bytes c) \<in> set (map (chunk_piece 0) (make_chunks n k))"
    by (simp add: chunk_piece_def)
  then have "make_chunks n k \<noteq> []" by auto
  then have "0 \<le> n"
    by (auto simp: make_chunks_def make_chunks_from.simps [of 0 n k] split: if_splits)
  with transfer_chunks.within [OF assms(1) _ mem] transfer_chunks.bounded [OF assms(1) mem]
  show ?thesis by simp
qed

lemma range_chunks_bytes:
  assumes "0 < k" and "0 \<le> n" and "c \<in> set (range_chunks s d n k 0)"
  shows "0 < pc_bytes c \<and> pc_bytes c \<le> k"
proof -
  from assms(3) have "chunk_piece s c \<in> set (map (chunk_piece s) (range_chunks s d n k 0))" by simp
  then have mem: "(pc_src_offset c - s, pc_bytes c) \<in> set (map (chunk_piece s) (range_chunks s d n k 0))"
    by (simp add: chunk_piece_def)
  show ?thesis
    using range_pieces.within [OF assms(1,2) mem] range_pieces.bounded [OF assms(1) mem] by simp
qed

lemma chunk_ranges_bytes:
  "0 < k \<Longrightarrow> chunk_ranges k rs = (cs, n) \<Longrightarrow> c \<in> set cs \<Longrightarrow> 0 < pc_bytes c \<and> pc_bytes c \<le> k"
proof (induction rs arbitrary: cs n)
  case Nil
  then show ?case by simp
next
  case (Cons r rs)
  then show ?case
    using range_chunks_bytes [of k "bytes r" c "src_offset r" "dst_offset r"]
    by (auto split: prod.splits if_splits)
qed

end
