(* ===== verification/Planner_Engine.thy ===== *)
theory Planner_Engine
  imports Planner "HOL-Library.Multiset"
begin

text \<open>
  \<open>PlannerEngine\<close> of \<open>turbobus/planner_engine.py\<close>: which paths of a profile are enabled, how
  chunks are assigned to them, what the plan's cost metadata reports (its constant source labels are left out), and \<open>plan\<close> and
  \<open>plan_ranges\<close> themselves.
\<close>

section \<open>Bandwidths, weights and pressures\<close>

definition direct_bandwidth :: "Profile \<Rightarrow> string \<Rightarrow> rat" where
  "direct_bandwidth profile direction =
     (let direct_bw = max 0 (if direction = ''h2d'' then pf_direct_h2d_bw_gbps profile
                             else pf_direct_d2h_bw_gbps profile)
      in if direction \<noteq> ''h2d'' \<and> direct_bw \<le> 0
         then max 0 (pf_direct_h2d_bw_gbps profile) else direct_bw)"

definition relay_effective_bandwidth :: "ProfileRelay \<Rightarrow> string \<Rightarrow> rat" where
  "relay_effective_bandwidth relay direction =
     (let effective_bw = max 0 (if direction = ''h2d'' then pr_effective_bw_gbps relay
                                else pr_effective_d2h_bw_gbps relay)
      in if direction \<noteq> ''h2d'' \<and> effective_bw \<le> 0
         then max 0 (pr_effective_bw_gbps relay) else effective_bw)"

definition direct_scheduler_weight :: "Profile \<Rightarrow> string \<Rightarrow> rat" where
  "direct_scheduler_weight profile direction =
     (let weight = (if direction = ''h2d'' then pf_direct_scheduler_weight_h2d_gbps profile
                    else pf_direct_scheduler_weight_d2h_gbps profile)
      in if weight > 0 then weight else 0)"

definition relay_scheduler_weight :: "ProfileRelay \<Rightarrow> string \<Rightarrow> rat" where
  "relay_scheduler_weight relay direction =
     (let weight = (if direction = ''h2d'' then pr_scheduler_weight_h2d_gbps relay
                    else pr_scheduler_weight_d2h_gbps relay)
      in if weight > 0 then weight else 0)"

definition direct_runtime_pressure :: "Profile \<Rightarrow> string \<Rightarrow> rat" where
  "direct_runtime_pressure profile direction =
     max 0 (if direction = ''h2d'' then pf_direct_runtime_pressure_h2d profile
            else pf_direct_runtime_pressure_d2h profile)"

definition relay_runtime_pressure :: "ProfileRelay \<Rightarrow> string \<Rightarrow> rat" where
  "relay_runtime_pressure relay direction =
     max 0 (if direction = ''h2d'' then pr_runtime_pressure_h2d relay
            else pr_runtime_pressure_d2h relay)"

definition has_explicit_weight :: "PlannerPath \<Rightarrow> bool" where
  "has_explicit_weight path = opt_holds (\<lambda>w. w > 0) (pp_scheduler_weight_gbps path)"

definition scheduler_weight :: "PlannerPath \<Rightarrow> rat" where
  "scheduler_weight path =
     (case pp_scheduler_weight_gbps path of
        Some w \<Rightarrow> if w > 0 then max 0 w
                  else max 0 (pp_effective_bw_gbps path) / (1 + min (max 0 (pp_runtime_pressure path)) 4)
      | None \<Rightarrow> max 0 (pp_effective_bw_gbps path) / (1 + min (max 0 (pp_runtime_pressure path)) 4))"

section \<open>Enabled paths\<close>

definition direct_path :: "Profile \<Rightarrow> string \<Rightarrow> PlannerPath" where
  "direct_path profile direction =
     (let direct_bw = direct_bandwidth profile direction in
      \<lparr>pp_kind = ''direct'', pp_direction = direction,
       pp_target_device = pf_target_device profile, pp_relay_device = -1,
       pp_h2d_bw_gbps = pf_direct_h2d_bw_gbps profile,
       pp_d2h_bw_gbps = (if pf_direct_d2h_bw_gbps profile \<noteq> 0 then pf_direct_d2h_bw_gbps profile
                         else direct_bw),
       pp_p2p_bw_gbps = 0, pp_effective_bw_gbps = direct_bw, pp_enabled = True,
       pp_fabric_kind = None,
       pp_scheduler_weight_gbps = Some (direct_scheduler_weight profile direction),
       pp_runtime_pressure = direct_runtime_pressure profile direction,
       pp_cost_metadata = pf_cost_metadata profile\<rparr>)"

definition relay_path :: "Profile \<Rightarrow> string \<Rightarrow> ProfileRelay \<Rightarrow> PlannerPath" where
  "relay_path profile direction relay =
     \<lparr>pp_kind = ''relay'', pp_direction = direction,
      pp_target_device = (case pr_target_device relay of
                            Some t \<Rightarrow> t | None \<Rightarrow> pf_target_device profile),
      pp_relay_device = pr_relay_device relay,
      pp_h2d_bw_gbps = pr_h2d_bw_gbps relay,
      pp_d2h_bw_gbps = (if pr_d2h_bw_gbps relay \<noteq> 0 then pr_d2h_bw_gbps relay
                        else pr_h2d_bw_gbps relay),
      pp_p2p_bw_gbps = pr_p2p_bw_gbps relay,
      pp_effective_bw_gbps = relay_effective_bandwidth relay direction, pp_enabled = True,
      pp_fabric_kind = None,
      pp_scheduler_weight_gbps = Some (relay_scheduler_weight relay direction),
      pp_runtime_pressure = relay_runtime_pressure relay direction,
      pp_cost_metadata = pr_cost_metadata relay\<rparr>"

definition relay_eligible :: "PlannerEngineOptions \<Rightarrow> Profile \<Rightarrow> string \<Rightarrow> ProfileRelay \<Rightarrow> bool" where
  "relay_eligible options profile direction relay =
     (let direct_bw = direct_bandwidth profile direction;
          relay_effective_bw = relay_effective_bandwidth relay direction in
      if \<not> pr_p2p_enabled relay \<or> relay_effective_bw \<le> 0 then False
      else if relay_effective_bw < po_relay_min_effective_bw_gbps options then False
      else if direct_bw > 0 \<and> po_relay_min_direct_ratio options > 0 \<and>
              relay_effective_bw < direct_bw * po_relay_min_direct_ratio options then False
      else True)"

definition build_paths ::
  "PlannerEngineOptions \<Rightarrow> Profile \<Rightarrow> TransferMode \<Rightarrow> string \<Rightarrow> PlannerPath list" where
  "build_paths options profile mode direction =
     (let direct = (if mode \<noteq> RELAY \<and> direct_bandwidth profile direction > 0
                    then [direct_path profile direction] else [])
      in if mode = DIRECT then direct
         else direct @ map (relay_path profile direction)
                (filter (relay_eligible options profile direction) (pf_relays profile)))"

text \<open>
  What \<open>profile_entry\<close> of \<open>turbobus/daemon/profiles.py\<close> checks of the relays of a profile before the
  daemon keeps it: the relay devices are unique, all among the given ones, and none is missing.
\<close>

definition check_profile_relays :: "int list \<Rightarrow> Profile \<Rightarrow> unit result" where
  "check_profile_relays relays profile =
     (let profile_relays = map pr_relay_device (pf_relays profile) in
      raise_if (length profile_relays \<noteq> length (remdups profile_relays))
        (ValueError ''profile relay devices must be unique'') (
      raise_if (list_ex (\<lambda>r. r \<notin> set relays) profile_relays)
        (ValueError ''profile relay devices must be listed in relay_gpus'') (
      raise_if (list_ex (\<lambda>r. r \<notin> set profile_relays) relays)
        (ValueError ''profile must include every daemon-discovered relay'') (Inr ()))))"

section \<open>Assigning chunks to paths\<close>

text \<open>The inner loop: the first path whose projected score is strictly below the best so far.\<close>

definition path_score :: "rat \<Rightarrow> rat \<Rightarrow> int \<Rightarrow> rat" where
  "path_score weight assigned chunk_bytes =
     (assigned + of_int chunk_bytes) / max weight (1 / 1000000000000)"

fun select_path ::
  "rat list \<Rightarrow> rat list \<Rightarrow> int \<Rightarrow> nat \<Rightarrow> nat \<Rightarrow> rat option \<Rightarrow> nat" where
  "select_path (w # ws) (s # ss) chunk_bytes index selected best =
     (let score = path_score w s chunk_bytes
      in if (case best of None \<Rightarrow> True | Some b \<Rightarrow> score < b)
         then select_path ws ss chunk_bytes (Suc index) index (Some score)
         else select_path ws ss chunk_bytes (Suc index) selected best)"
| "select_path _ _ chunk_bytes index selected best = selected"

text \<open>The outer loop over the chunks, with the per-path chunk per_path and byte scores.\<close>

fun assign_chunks ::
  "rat list \<Rightarrow> PlannerChunk list list \<times> rat list \<Rightarrow> PlannerChunk list
     \<Rightarrow> PlannerChunk list list \<times> rat list" where
  "assign_chunks weights st [] = st"
| "assign_chunks weights (per_path, scores) (chunk # chunks) =
     (let selected = select_path weights scores (pc_bytes chunk) 0 0 None
      in assign_chunks weights
           (per_path[selected := per_path ! selected @ [chunk]],
            scores[selected := scores ! selected + of_int (pc_bytes chunk)]) chunks)"

type_synonym path_key = "string \<times> string \<times> int \<times> int"

definition planner_path_key :: "PlannerPath \<Rightarrow> path_key" where
  "planner_path_key path =
     (pp_kind path, pp_direction path, pp_target_device path, pp_relay_device path)"

text \<open>\<open>_plan_cost_metadata\<close>: assignments are looked up by path key, a later one winning.\<close>

definition assigned_by_path :: "PlannerPathAssignment list \<Rightarrow> (path_key, PlannerPathAssignment) dict" where
  "assigned_by_path assignments =
     fold (\<lambda>a d. AList.update (planner_path_key (pa_path a)) a d) assignments []"

definition path_cost_record ::
  "(path_key, PlannerPathAssignment) dict \<Rightarrow> PlannerPath \<times> rat \<Rightarrow> PathCostRecord" where
  "path_cost_record assigned pw =
     (let (path, path_weight) = pw;
          assignment = map_of assigned (planner_path_key path);
          assigned_bytes = (case assignment of None \<Rightarrow> 0 | Some a \<Rightarrow> chunk_total (pa_chunks a));
          assigned_chunks = (case assignment of None \<Rightarrow> 0 | Some a \<Rightarrow> int (length (pa_chunks a)));
          weight = max 0 path_weight
      in \<lparr>pcr_kind = pp_kind path, pcr_target_device = pp_target_device path,
          pcr_relay_device = (if pp_kind path \<noteq> ''relay'' then None else Some (pp_relay_device path)),
          pcr_effective_bw_gbps = pp_effective_bw_gbps path,
          pcr_scheduler_weight_gbps = weight,
          pcr_scheduler_weight_source =
            (if has_explicit_weight path then ''explicit'' else ''runtime_pressure_fallback''),
          pcr_runtime_pressure = pp_runtime_pressure path,
          pcr_assigned_bytes = assigned_bytes, pcr_assigned_chunks = assigned_chunks,
          pcr_estimated_finish_seconds =
            (if assigned_bytes \<le> 0 then 0
             else of_int assigned_bytes / (max weight (1 / 1000000000000) * 1000000000)),
          pcr_source = vget (pp_cost_metadata path) ''source'' (VStr ''planner_path_weight'')\<rparr>)"

definition plan_cost_metadata ::
  "PlannerPath list \<Rightarrow> PlannerPathAssignment list \<Rightarrow> rat list \<Rightarrow> string option
     \<Rightarrow> PlanCostMetadata result" where
  "plan_cost_metadata paths assignments path_weights pool_disabled_reason =
     raise_if (length path_weights \<noteq> length paths)
       (RuntimeError ''planner path weight snapshot does not match paths'') (
     Inr \<lparr>pcm_pool_disabled_reason = pool_disabled_reason,
          pcm_paths = map (path_cost_record (assigned_by_path assignments)) (zip paths path_weights)\<rparr>)"

definition assignments_of :: "PlannerPath list \<Rightarrow> PlannerChunk list list \<Rightarrow> PlannerPathAssignment list" where
  "assignments_of paths per_path =
     map (\<lambda>(path, cs). \<lparr>pa_path = path, pa_chunks = cs\<rparr>)
       (filter (\<lambda>(path, cs). cs \<noteq> []) (zip paths per_path))"

definition plan_chunks ::
  "PlannerChunk list \<Rightarrow> int \<Rightarrow> int \<Rightarrow> PlannerPath list \<Rightarrow> string option
     \<Rightarrow> PlannerTransferPlan result" where
  "plan_chunks chunks total_bytes chunk_bytes paths pool_disabled_reason =
     (let path_weights = map scheduler_weight paths
      in raise_if (sum_list path_weights \<le> 0)
           (RuntimeError ''enabled paths have zero effective bandwidth'') (
         let (per_path, scores) = assign_chunks path_weights
               (map (\<lambda>_. []) paths, map (\<lambda>_. 0) paths) chunks;
             assignments = assignments_of paths per_path
         in rbind (plan_cost_metadata paths assignments path_weights pool_disabled_reason)
              (\<lambda>metadata. Inr
                \<lparr>tpl_total_bytes = total_bytes, tpl_chunk_bytes = chunk_bytes,
                 tpl_assignments = assignments, tpl_cost_metadata = Some metadata\<rparr>)))"

section \<open>The two entry points\<close>

text \<open>A pooled transfer that is too small falls back to the direct path.\<close>

definition resolve_mode ::
  "PlannerEngineOptions \<Rightarrow> TransferMode \<Rightarrow> PlannerChunk list \<Rightarrow> int
     \<Rightarrow> TransferMode \<times> string option" where
  "resolve_mode options mode chunks total_bytes =
     (let (mode1, reason1) =
            (if mode = POOL \<and> int (length chunks) < po_min_chunks_for_relay options
             then (DIRECT, Some ''below_min_chunks_for_relay'') else (mode, None))
      in if mode1 = POOL \<and> po_min_pool_bytes options > 0 \<and> total_bytes < po_min_pool_bytes options
         then (DIRECT, Some ''below_min_pool_bytes'') else (mode1, reason1))"

definition plan_over ::
  "PlannerEngineOptions \<Rightarrow> PlannerChunk list \<Rightarrow> int \<Rightarrow> int \<Rightarrow> Profile \<Rightarrow> TransferMode \<Rightarrow> string
     \<Rightarrow> PlannerTransferPlan result" where
  "plan_over options chunks total_bytes chunk_bytes profile mode direction =
     (let (transfer_mode, reason) = resolve_mode options mode chunks total_bytes;
          paths = build_paths options profile transfer_mode direction
      in raise_if (paths = []) (RuntimeError ''no enabled transfer path is available'') (
         plan_chunks chunks total_bytes chunk_bytes paths reason))"

definition plan ::
  "PlannerEngineOptions \<Rightarrow> int \<Rightarrow> int \<Rightarrow> Profile \<Rightarrow> TransferMode \<Rightarrow> string
     \<Rightarrow> PlannerTransferPlan result" where
  "plan options total_bytes0 chunk_bytes profile mode direction =
     (let total_bytes = max 0 total_bytes0
      in if total_bytes = 0 then Inr empty_plan
         else raise_if (chunk_bytes \<le> 0) (ValueError ''chunk_bytes must be greater than zero'') (
           plan_over options (make_chunks total_bytes chunk_bytes) total_bytes chunk_bytes
             profile mode direction))"

definition plan_ranges ::
  "PlannerEngineOptions \<Rightarrow> TransferRange list \<Rightarrow> int \<Rightarrow> Profile \<Rightarrow> TransferMode \<Rightarrow> string
     \<Rightarrow> PlannerTransferPlan result" where
  "plan_ranges options ranges chunk_bytes profile mode direction =
     raise_if (chunk_bytes \<le> 0) (ValueError ''chunk_bytes must be greater than zero'') (
     let (chunks, total_bytes) = chunk_ranges chunk_bytes ranges
     in if chunks = [] then Inr empty_plan
        else plan_over options chunks total_bytes chunk_bytes profile mode direction)"

text \<open>\<open>_coalesced_path_chunks\<close>: contiguous chunks of a direct path merge into one.\<close>

definition chunks_are_contiguous :: "PlannerChunk \<Rightarrow> PlannerChunk \<Rightarrow> bool" where
  "chunks_are_contiguous left right =
     (pc_relay_device left = pc_relay_device right \<and>
      pc_src_offset left + pc_bytes left = pc_src_offset right \<and>
      pc_dst_offset left + pc_bytes left = pc_dst_offset right)"

fun coalesce_loop :: "PlannerChunk list \<Rightarrow> PlannerChunk list \<Rightarrow> PlannerChunk list" where
  "coalesce_loop merged [] = merged"
| "coalesce_loop merged (chunk # chunks) =
     (if merged = [] \<or> \<not> chunks_are_contiguous (last merged) chunk
      then coalesce_loop (merged @ [chunk]) chunks
      else coalesce_loop (butlast merged @
             [(last merged)\<lparr>pc_bytes := pc_bytes (last merged) + pc_bytes chunk\<rparr>]) chunks)"

definition coalesced_path_chunks :: "PlannerPath \<Rightarrow> PlannerChunk list \<Rightarrow> PlannerChunk list" where
  "coalesced_path_chunks path chunks =
     (if pp_kind path \<noteq> ''direct'' then chunks else coalesce_loop [] chunks)"

section \<open>The selected path has the smallest projected score\<close>

lemma select_path_best:
  assumes "length ws = length ss"
  shows "(select_path ws ss b i sel (Some m) = sel \<and>
            (\<forall>j < length ws. m \<le> path_score (ws ! j) (ss ! j) b)) \<or>
         (\<exists>k < length ws. select_path ws ss b i sel (Some m) = i + k \<and>
            path_score (ws ! k) (ss ! k) b \<le> m \<and>
            (\<forall>j < length ws. path_score (ws ! k) (ss ! k) b \<le> path_score (ws ! j) (ss ! j) b))"
  using assms
proof (induction ws ss arbitrary: i sel m rule: list_induct2)
  case Nil
  then show ?case by simp
next
  case (Cons w ws s ss)
  let ?sc = "path_score w s b"
  show ?case
  proof (cases "?sc < m")
    case True
    then have step: "select_path (w # ws) (s # ss) b i sel (Some m) =
        select_path ws ss b (Suc i) i (Some ?sc)" by (simp add: Let_def)
    from Cons.IH [of "Suc i" i ?sc] show ?thesis
    proof (elim disjE exE conjE)
      assume "select_path ws ss b (Suc i) i (Some ?sc) = i"
        and "\<forall>j < length ws. ?sc \<le> path_score (ws ! j) (ss ! j) b"
      with True step show ?thesis
        by (intro disjI2 exI [of _ 0]) (auto simp: nth_Cons split: nat.splits)
    next
      fix k
      assume "k < length ws" "select_path ws ss b (Suc i) i (Some ?sc) = Suc i + k"
        "path_score (ws ! k) (ss ! k) b \<le> ?sc"
        "\<forall>j < length ws. path_score (ws ! k) (ss ! k) b \<le> path_score (ws ! j) (ss ! j) b"
      with True step show ?thesis
        by (intro disjI2 exI [of _ "Suc k"]) (auto simp: nth_Cons split: nat.splits)
    qed
  next
    case False
    then have step: "select_path (w # ws) (s # ss) b i sel (Some m) =
        select_path ws ss b (Suc i) sel (Some m)" by (simp add: Let_def)
    from Cons.IH [of "Suc i" sel m] show ?thesis
    proof (elim disjE exE conjE)
      assume "select_path ws ss b (Suc i) sel (Some m) = sel"
        and "\<forall>j < length ws. m \<le> path_score (ws ! j) (ss ! j) b"
      with False step show ?thesis
        by (intro disjI1) (auto simp: nth_Cons split: nat.splits)
    next
      fix k
      assume "k < length ws" "select_path ws ss b (Suc i) sel (Some m) = Suc i + k"
        "path_score (ws ! k) (ss ! k) b \<le> m"
        "\<forall>j < length ws. path_score (ws ! k) (ss ! k) b \<le> path_score (ws ! j) (ss ! j) b"
      with False step show ?thesis
        by (intro disjI2 exI [of _ "Suc k"]) (auto simp: nth_Cons split: nat.splits)
    qed
  qed
qed

lemma select_path_min:
  assumes "length ws = length ss" and "ws \<noteq> []"
  shows "select_path ws ss b 0 0 None < length ws \<and>
    (\<forall>j < length ws. path_score (ws ! select_path ws ss b 0 0 None) (ss ! select_path ws ss b 0 0 None) b
        \<le> path_score (ws ! j) (ss ! j) b)"
proof -
  from assms obtain w ws' s ss' where ws: "ws = w # ws'" "ss = s # ss'" "length ws' = length ss'"
    by (cases ws; cases ss) auto
  have step: "select_path ws ss b 0 0 None = select_path ws' ss' b (Suc 0) 0 (Some (path_score w s b))"
    by (simp add: ws Let_def)
  from select_path_best [OF ws(3), of b "Suc 0" 0 "path_score w s b"] show ?thesis
    unfolding step by (elim disjE exE conjE) (auto simp: ws nth_Cons split: nat.splits)
qed

section \<open>The assignment loop\<close>

lemma mset_concat_update:
  "k < length xs \<Longrightarrow> mset (concat (xs[k := xs ! k @ [c]])) = add_mset c (mset (concat xs))"
proof (induction xs arbitrary: k)
  case Nil
  then show ?case by simp
next
  case (Cons x xs)
  then show ?case by (cases k) auto
qed

lemma sum_list_update_add:
  fixes xs :: "rat list"
  shows "k < length xs \<Longrightarrow> sum_list (xs[k := xs ! k + b]) = sum_list xs + b"
  by (induction xs arbitrary: k) (auto split: nat.splits simp: nth_Cons algebra_simps)

text \<open>
  The state of the loop: one list and one score per path, every score the bytes of its list, and
  no path further ahead of the ideal split than one chunk per other path.
\<close>

definition effective_weight :: "rat \<Rightarrow> rat" where
  "effective_weight w = max w (1 / 1000000000000)"

definition capacity :: "rat list \<Rightarrow> rat" where
  "capacity weights = sum_list (map effective_weight weights)"

definition balanced :: "rat list \<Rightarrow> int \<Rightarrow> rat list \<Rightarrow> bool" where
  "balanced weights bound scores =
     (\<forall>k < length weights. scores ! k * capacity weights \<le>
        effective_weight (weights ! k) *
        (sum_list scores + (of_nat (length weights) - 1) * of_int bound))"

definition loop_inv :: "rat list \<Rightarrow> int \<Rightarrow> PlannerChunk list list \<times> rat list \<Rightarrow> bool" where
  "loop_inv weights bound st =
     (length (fst st) = length weights \<and> length (snd st) = length weights \<and>
      (\<forall>k < length weights. snd st ! k = of_int (chunk_total (fst st ! k))) \<and>
      balanced weights bound (snd st))"

lemma effective_weight_pos: "0 < effective_weight w"
  by (simp add: effective_weight_def less_max_iff_disj)

lemma path_score_eq: "path_score w s b = (s + of_int b) / effective_weight w"
  by (simp add: path_score_def effective_weight_def)

lemma divide_le_cross:
  fixes a c x y :: rat
  assumes "0 < a" and "0 < c"
  shows "x / a \<le> y / c \<longleftrightarrow> x * c \<le> y * a"
  using assms by (simp add: pos_divide_le_eq pos_le_divide_eq)

lemma balanced_step:
  fixes scores :: "rat list"
  assumes len: "length scores = length weights" and k: "k < length weights"
    and best: "\<forall>j < length weights. path_score (weights ! k) (scores ! k) b
                 \<le> path_score (weights ! j) (scores ! j) b"
    and b: "0 < b" "b \<le> bound" and bal: "balanced weights bound scores"
  shows "balanced weights bound (scores[k := scores ! k + of_int b])"
proof -
  let ?n = "length weights" and ?w = "\<lambda>j. effective_weight (weights ! j)"
  let ?new = "scores[k := scores ! k + of_int b]"
  have total: "sum_list ?new = sum_list scores + of_int b"
    using k len by (simp add: sum_list_update_add)
  have n: "1 \<le> (of_nat ?n :: rat)" using k by (cases ?n) auto
  have chosen: "(scores ! k + of_int b) * ?w j \<le> (scores ! j + of_int b) * ?w k" if "j < ?n" for j
  proof -
    have "(scores ! k + of_int b) / ?w k \<le> (scores ! j + of_int b) / ?w j"
      using best that by (simp add: path_score_eq)
    then show ?thesis
      using divide_le_cross [OF effective_weight_pos effective_weight_pos] by simp
  qed
  have "(scores ! k + of_int b) * capacity weights = (\<Sum>j<?n. (scores ! k + of_int b) * ?w j)"
    by (simp add: capacity_def sum_list_sum_nth sum_distrib_left atLeast0LessThan)
  also have "\<dots> \<le> (\<Sum>j<?n. (scores ! j + of_int b) * ?w k)"
    by (rule sum_mono) (use chosen in auto)
  also have "\<dots> = (sum_list scores + of_nat ?n * of_int b) * ?w k"
    by (simp add: sum_distrib_right [symmetric] sum.distrib sum_list_sum_nth len atLeast0LessThan)
  finally have top: "(scores ! k + of_int b) * capacity weights \<le>
      ?w k * (sum_list scores + of_nat ?n * of_int b)" by (simp add: mult.commute)
  have slack: "sum_list scores + of_nat ?n * of_int b \<le>
      sum_list ?new + (of_nat ?n - 1) * of_int bound"
  proof -
    have "(of_nat ?n - 1) * (of_int b :: rat) \<le> (of_nat ?n - 1) * of_int bound"
      using n b by (intro mult_left_mono) auto
    then show ?thesis unfolding total by (simp add: algebra_simps)
  qed
  show ?thesis
    unfolding balanced_def
  proof (intro allI impI)
    fix j assume j: "j < ?n"
    show "?new ! j * capacity weights \<le> ?w j * (sum_list ?new + (of_nat ?n - 1) * of_int bound)"
    proof (cases "j = k")
      case True
      have "?w k * (sum_list scores + of_nat ?n * of_int b) \<le>
          ?w k * (sum_list ?new + (of_nat ?n - 1) * of_int bound)"
        using slack effective_weight_pos [of "weights ! k"] by (intro mult_left_mono) auto
      with top True k len show ?thesis by simp
    next
      case False
      have "scores ! j * capacity weights \<le>
          ?w j * (sum_list scores + (of_nat ?n - 1) * of_int bound)"
        using bal j by (simp add: balanced_def)
      also have "\<dots> \<le> ?w j * (sum_list ?new + (of_nat ?n - 1) * of_int bound)"
        using b effective_weight_pos [of "weights ! j"] by (intro mult_left_mono) (auto simp: total)
      finally show ?thesis using False by simp
    qed
  qed
qed

lemma loop_inv_start:
  "0 \<le> bound \<Longrightarrow> loop_inv weights bound (map (\<lambda>_. []) weights, map (\<lambda>_. 0) weights)"
  by (cases weights)
    (auto simp: loop_inv_def balanced_def nth_Cons split: nat.splits
      intro!: mult_nonneg_nonneg less_imp_le [OF effective_weight_pos])

lemma assign_chunks_inv:
  assumes "weights \<noteq> []" and "loop_inv weights bound st"
    and "\<forall>c \<in> set chunks. 0 < pc_bytes c \<and> pc_bytes c \<le> bound"
  shows "loop_inv weights bound (assign_chunks weights st chunks) \<and>
    mset (concat (fst (assign_chunks weights st chunks))) = mset (concat (fst st)) + mset chunks"
  using assms
proof (induction weights st chunks rule: assign_chunks.induct)
  case (1 weights st)
  then show ?case by simp
next
  case (2 weights per_path scores chunk chunks)
  let ?k = "select_path weights scores (pc_bytes chunk) 0 0 None"
  let ?st = "(per_path[?k := per_path ! ?k @ [chunk]],
              scores[?k := scores ! ?k + of_int (pc_bytes chunk)])"
  from "2.prems" have len: "length per_path = length weights" "length scores = length weights"
    and sc: "\<forall>k < length weights. scores ! k = of_int (chunk_total (per_path ! k))"
    and bal: "balanced weights bound scores" by (auto simp: loop_inv_def)
  from select_path_min [of weights scores "pc_bytes chunk"] len "2.prems"(1)
  have k: "?k < length weights"
    and best: "\<forall>j < length weights. path_score (weights ! ?k) (scores ! ?k) (pc_bytes chunk)
                 \<le> path_score (weights ! j) (scores ! j) (pc_bytes chunk)" by auto
  have "balanced weights bound (snd ?st)"
    using balanced_step [OF len(2) k best _ _ bal] "2.prems"(3) by simp
  then have inv: "loop_inv weights bound ?st"
    using len sc k by (auto simp: loop_inv_def nth_list_update)
  have "loop_inv weights bound (assign_chunks weights ?st chunks) \<and>
      mset (concat (fst (assign_chunks weights ?st chunks))) = mset (concat (fst ?st)) + mset chunks"
    by (rule "2.IH" [OF refl "2.prems"(1) inv]) (use "2.prems"(3) in auto)
  moreover have "mset (concat (fst ?st)) = add_mset chunk (mset (concat per_path))"
    using k len by (simp add: mset_concat_update)
  ultimately show ?case by (simp add: Let_def)
qed

section \<open>Plans\<close>

lemma scheduler_weight_pos:
  assumes "0 < pp_effective_bw_gbps p"
  shows "0 < scheduler_weight p"
proof -
  have "0 < max 0 (pp_effective_bw_gbps p) / (1 + min (max 0 (pp_runtime_pressure p)) 4)"
    using assms by (intro divide_pos_pos) auto
  then show ?thesis by (auto simp: scheduler_weight_def split: option.splits)
qed

lemma build_paths_effective:
  "p \<in> set (build_paths options profile mode direction) \<Longrightarrow> 0 < pp_effective_bw_gbps p"
  by (auto simp: build_paths_def Let_def direct_path_def relay_path_def relay_eligible_def
      split: if_splits)

lemma build_paths_direct_mode:
  "p \<in> set (build_paths options profile DIRECT direction) \<Longrightarrow> pp_kind p = ''direct''"
  by (auto simp: build_paths_def direct_path_def Let_def split: if_splits)

lemma build_paths_relay_mode:
  "p \<in> set (build_paths options profile RELAY direction) \<Longrightarrow> pp_kind p = ''relay''"
  by (auto simp: build_paths_def relay_path_def Let_def)

lemma sum_list_pos: "xs \<noteq> [] \<Longrightarrow> \<forall>x \<in> set xs. 0 < (x :: rat) \<Longrightarrow> 0 < sum_list xs"
proof (induction xs)
  case Nil
  then show ?case by simp
next
  case (Cons x xs)
  then show ?case by (cases xs) (auto intro: add_pos_pos)
qed

lemma build_paths_weights:
  "paths = build_paths options profile mode direction \<Longrightarrow> paths \<noteq> [] \<Longrightarrow>
   0 < sum_list (map scheduler_weight paths)"
  by (rule sum_list_pos) (auto dest: build_paths_effective scheduler_weight_pos)

lemma assignments_of_chunks:
  "length paths = length per_path \<Longrightarrow>
   concat (map pa_chunks (assignments_of paths per_path)) = concat per_path"
  unfolding assignments_of_def by (induction paths per_path rule: list_induct2) auto

lemma assignments_of_nth:
  assumes "a \<in> set (assignments_of paths per_path)"
  shows "\<exists>k < length paths. k < length per_path \<and> pa_path a = paths ! k \<and>
           pa_chunks a = per_path ! k \<and> per_path ! k \<noteq> []"
  using assms by (auto simp: assignments_of_def in_set_zip)

lemma plan_chunks_total:
  "paths \<noteq> [] \<Longrightarrow> 0 < sum_list (map scheduler_weight paths) \<Longrightarrow>
   \<exists>p. plan_chunks chunks nbytes cb paths reason = Inr p"
  by (simp add: plan_chunks_def Let_def plan_cost_metadata_def split: prod.splits)

lemma plan_chunks_Inr:
  assumes "plan_chunks chunks nbytes cb paths reason = Inr p" and "paths \<noteq> []"
    and "\<forall>c \<in> set chunks. 0 < pc_bytes c \<and> pc_bytes c \<le> bound" and "0 \<le> bound"
  shows "tpl_total_bytes p = nbytes" and "tpl_chunk_bytes p = cb"
    and "mset (concat (map pa_chunks (tpl_assignments p))) = mset chunks"
    and "\<forall>a \<in> set (tpl_assignments p). pa_chunks a \<noteq> [] \<and> pa_path a \<in> set paths \<and>
           of_int (chunk_total (pa_chunks a)) * capacity (map scheduler_weight paths) \<le>
             effective_weight (scheduler_weight (pa_path a)) *
             (of_int (chunk_total chunks) + (of_nat (length paths) - 1) * of_int bound)"
proof -
  let ?ws = "map scheduler_weight paths"
  let ?st = "assign_chunks ?ws (map (\<lambda>_. []) paths, map (\<lambda>_. 0) paths) chunks"
  have start: "(map (\<lambda>_. []) paths, map (\<lambda>_. 0) paths) = (map (\<lambda>_. []) ?ws, map (\<lambda>_. 0) ?ws)"
    by simp
  have inv: "loop_inv ?ws bound ?st" and ms: "mset (concat (fst ?st)) = mset chunks"
    using assign_chunks_inv [of ?ws bound "(map (\<lambda>_. []) paths, map (\<lambda>_. 0) paths)" chunks]
      loop_inv_start [OF assms(4), of ?ws] assms(2,3) unfolding start
    by (auto simp: map_replicate_const)
  have len: "length paths = length (fst ?st)" using inv by (simp add: loop_inv_def)
  from assms(1) have p: "tpl_total_bytes p = nbytes" "tpl_chunk_bytes p = cb"
    "tpl_assignments p = assignments_of paths (fst ?st)"
    by (auto simp: plan_chunks_def Let_def result_simps split: prod.splits)
  show "tpl_total_bytes p = nbytes" "tpl_chunk_bytes p = cb" by (fact p)+
  show "mset (concat (map pa_chunks (tpl_assignments p))) = mset chunks"
    by (simp add: p assignments_of_chunks [OF len] ms)
  have sum: "sum_list (snd ?st) = of_int (chunk_total chunks)"
  proof -
    have "snd ?st = map (\<lambda>cs. of_int (chunk_total cs)) (fst ?st)"
      using inv by (intro nth_equalityI) (auto simp: loop_inv_def)
    moreover have "sum_list (map (\<lambda>cs. (of_int (chunk_total cs) :: rat)) xss) =
        of_int (sum_list (map pc_bytes (concat xss)))" for xss
      by (induction xss) (simp_all add: chunk_total_def)
    moreover have "sum_list (map pc_bytes (concat (fst ?st))) = chunk_total chunks"
      unfolding chunk_total_def by (metis ms mset_map sum_mset_sum_list)
    ultimately show ?thesis by simp
  qed
  show "\<forall>a \<in> set (tpl_assignments p). pa_chunks a \<noteq> [] \<and> pa_path a \<in> set paths \<and>
      of_int (chunk_total (pa_chunks a)) * capacity ?ws \<le>
        effective_weight (scheduler_weight (pa_path a)) *
        (of_int (chunk_total chunks) + (of_nat (length paths) - 1) * of_int bound)"
  proof
    fix a assume "a \<in> set (tpl_assignments p)"
    then obtain k where k: "k < length paths" "pa_path a = paths ! k"
      "pa_chunks a = fst ?st ! k" "pa_chunks a \<noteq> []"
      using assignments_of_nth [of a paths "fst ?st"] p(3) by auto
    have "of_int (chunk_total (pa_chunks a)) * capacity ?ws \<le>
        effective_weight (scheduler_weight (paths ! k)) *
        (sum_list (snd ?st) + (of_nat (length paths) - 1) * of_int bound)"
      using inv k by (auto simp: loop_inv_def balanced_def)
    with k show "pa_chunks a \<noteq> [] \<and> pa_path a \<in> set paths \<and>
      of_int (chunk_total (pa_chunks a)) * capacity ?ws \<le>
        effective_weight (scheduler_weight (pa_path a)) *
        (of_int (chunk_total chunks) + (of_nat (length paths) - 1) * of_int bound)"
      by (simp add: sum)
  qed
qed

lemma plan_over_total:
  "build_paths options profile (fst (resolve_mode options mode chunks n)) direction \<noteq> [] \<Longrightarrow>
   \<exists>p. plan_over options chunks n cb profile mode direction = Inr p"
  using plan_chunks_total build_paths_weights
  by (auto simp: plan_over_def Let_def split: prod.splits)

lemma plan_over_Inr:
  assumes "plan_over options chunks n cb profile mode direction = Inr p"
    and "\<forall>c \<in> set chunks. 0 < pc_bytes c \<and> pc_bytes c \<le> cb" and "0 < cb"
  defines "paths \<equiv> build_paths options profile (fst (resolve_mode options mode chunks n)) direction"
  shows "tpl_total_bytes p = n" and "tpl_chunk_bytes p = cb"
    and "mset (concat (map pa_chunks (tpl_assignments p))) = mset chunks"
    and "\<forall>a \<in> set (tpl_assignments p). pa_chunks a \<noteq> [] \<and> pa_path a \<in> set paths \<and>
           of_int (chunk_total (pa_chunks a)) * capacity (map scheduler_weight paths) \<le>
             effective_weight (scheduler_weight (pa_path a)) *
             (of_int (chunk_total chunks) + (of_nat (length paths) - 1) * of_int cb)"
proof -
  from assms(1) obtain reason where ne: "paths \<noteq> []"
    and pc: "plan_chunks chunks n cb paths reason = Inr p"
    by (auto simp: plan_over_def paths_def Let_def result_simps split: prod.splits)
  have "0 \<le> cb" using assms(3) by simp
  note * = plan_chunks_Inr [OF pc ne assms(2) this]
  show "tpl_total_bytes p = n" "tpl_chunk_bytes p = cb"
    "mset (concat (map pa_chunks (tpl_assignments p))) = mset chunks"
    "\<forall>a \<in> set (tpl_assignments p). pa_chunks a \<noteq> [] \<and> pa_path a \<in> set paths \<and>
           of_int (chunk_total (pa_chunks a)) * capacity (map scheduler_weight paths) \<le>
             effective_weight (scheduler_weight (pa_path a)) *
             (of_int (chunk_total chunks) + (of_nat (length paths) - 1) * of_int cb)"
    by (fact *)+
qed

lemma plan_Inr:
  assumes "plan options n cb profile mode direction = Inr p" and "0 < n"
  shows "0 < cb \<and> plan_over options (make_chunks n cb) n cb profile mode direction = Inr p"
  using assms by (auto simp: plan_def Let_def max_def result_simps split: if_splits)

definition carries :: "int \<Rightarrow> PlannerChunk \<Rightarrow> bool" where
  "carries x c = (pc_src_offset c \<le> x \<and> x < pc_src_offset c + pc_bytes c \<and>
                  pc_dst_offset c = pc_src_offset c)"

lemma make_chunks_carry:
  assumes "0 < k" and "0 \<le> x" and "x < n"
  shows "length (filter (carries x) (make_chunks n k)) = 1"
proof -
  have "filter (carries x) (make_chunks n k) = filter (holds_byte x \<circ> chunk_piece 0) (make_chunks n k)"
    by (rule filter_cong) (auto simp: carries_def holds_byte_def chunk_piece_def dest: make_chunks_dst)
  then have "length (filter (carries x) (make_chunks n k)) =
      length (filter (holds_byte x) (map (chunk_piece 0) (make_chunks n k)))"
    by (simp add: filter_map)
  with transfer_chunks.each_byte_once [OF assms] show ?thesis by simp
qed

lemma length_filter_mset: "mset xs = mset ys \<Longrightarrow> length (filter P xs) = length (filter P ys)"
  by (metis mset_filter size_mset)

text \<open>
  C12: a successful plan moves every byte of the transfer exactly once: for each byte offset of
  the transfer exactly one assigned chunk covers it, at the same offset of source and destination,
  no chunk is larger than the chunk size, and no assignment is empty.
\<close>

theorem plan_moves_every_byte_once:
  assumes "plan options n cb profile mode direction = Inr p" and "0 \<le> x" and "x < n"
  shows "length (filter (carries x) (concat (map pa_chunks (tpl_assignments p)))) = 1 \<and>
    tpl_total_bytes p = n \<and>
    chunk_total (concat (map pa_chunks (tpl_assignments p))) = n \<and>
    list_all (\<lambda>c. 0 < pc_bytes c \<and> pc_bytes c \<le> cb \<and> pc_src_offset c + pc_bytes c \<le> n)
      (concat (map pa_chunks (tpl_assignments p))) \<and>
    list_all (\<lambda>a. pa_chunks a \<noteq> []) (tpl_assignments p)"
proof -
  let ?cs = "concat (map pa_chunks (tpl_assignments p))"
  have n: "0 < n" using assms(2,3) by simp
  from plan_Inr [OF assms(1) n] have cb: "0 < cb"
    and po: "plan_over options (make_chunks n cb) n cb profile mode direction = Inr p" by auto
  have bytes: "\<forall>c \<in> set (make_chunks n cb). 0 < pc_bytes c \<and> pc_bytes c \<le> cb"
    using make_chunks_bytes [OF cb] by blast
  note res = plan_over_Inr [OF po bytes cb]
  have "chunk_total ?cs = chunk_total (make_chunks n cb)"
    unfolding chunk_total_def by (metis res(3) mset_map sum_mset_sum_list)
  moreover have "set ?cs = set (make_chunks n cb)" by (metis res(3) set_mset_mset)
  ultimately show ?thesis
    using res(1,4) n make_chunks_total [OF cb, of n] make_chunks_bytes [OF cb]
      length_filter_mset [OF res(3), of "carries x"] make_chunks_carry [OF cb assms(2,3)]
    by (auto simp: list_all_iff)
qed

definition sample_relay :: ProfileRelay where
  "sample_relay = \<lparr>pr_relay_device = 1, pr_target_device = Some 0, pr_p2p_enabled = True,
     pr_h2d_bw_gbps = 20, pr_d2h_bw_gbps = 20, pr_p2p_bw_gbps = 40, pr_effective_bw_gbps = 20,
     pr_effective_d2h_bw_gbps = 20, pr_scheduler_weight_h2d_gbps = 0,
     pr_scheduler_weight_d2h_gbps = 0, pr_runtime_pressure_h2d = 0, pr_runtime_pressure_d2h = 0,
     pr_cost_metadata = []\<rparr>"

definition sample_profile :: Profile where
  "sample_profile = \<lparr>pf_target_device = 0, pf_direct_h2d_bw_gbps = 25, pf_direct_d2h_bw_gbps = 25,
     pf_direct_scheduler_weight_h2d_gbps = 0, pf_direct_scheduler_weight_d2h_gbps = 0,
     pf_direct_runtime_pressure_h2d = 1, pf_direct_runtime_pressure_d2h = 0,
     pf_relays = [sample_relay], pf_cost_metadata = []\<rparr>"

lemma sample_direct: "0 < direct_bandwidth sample_profile direction"
  by (simp add: direct_bandwidth_def sample_profile_def)

lemma build_paths_direct:
  "0 < direct_bandwidth profile direction \<Longrightarrow> mode \<noteq> RELAY \<Longrightarrow>
   build_paths options profile mode direction \<noteq> []"
  by (simp add: build_paths_def Let_def)

lemma resolve_mode_not_relay: "mode \<noteq> RELAY \<Longrightarrow> fst (resolve_mode options mode chunks n) \<noteq> RELAY"
  by (auto simp: resolve_mode_def Let_def split: prod.splits)

lemma plan_total:
  assumes "0 < cb" and "0 < direct_bandwidth profile direction" and "mode \<noteq> RELAY"
  shows "\<exists>p. plan options n cb profile mode direction = Inr p"
proof (cases "n \<le> 0")
  case True
  then show ?thesis by (simp add: plan_def)
next
  case False
  have "\<exists>p. plan_over options (make_chunks n cb) n cb profile mode direction = Inr p"
    by (intro plan_over_total build_paths_direct assms resolve_mode_not_relay)
  with False assms(1) show ?thesis by (auto simp: plan_def max_def)
qed

theorem plan_moves_every_byte_once_witness:
  "\<exists>p. plan default_options 10 4 sample_profile POOL ''h2d'' = Inr p \<and>
       length (filter (carries 7) (concat (map pa_chunks (tpl_assignments p)))) = 1"
proof -
  obtain p where p: "plan default_options 10 4 sample_profile POOL ''h2d'' = Inr p"
    using plan_total [of 4 sample_profile "''h2d''" POOL default_options 10] sample_direct by auto
  with plan_moves_every_byte_once [OF p, of 7] show ?thesis by auto
qed

text \<open>
  C19: the greedy assignment is close to the ideal split.  Writing \<open>w\<close> for a path's effective
  weight and \<open>W\<close> for the sum over the enabled paths, a path's finish time \<open>bytes / w\<close> exceeds the
  ideal \<open>n / W\<close> by at most one chunk per other path: \<open>bytes * W \<le> w * (n + (paths - 1) * chunk)\<close>.
\<close>

theorem plan_finish_time_bound:
  assumes "plan options n cb profile mode direction = Inr p" and "0 < n"
    and "a \<in> set (tpl_assignments p)"
  defines "paths \<equiv> build_paths options profile
             (fst (resolve_mode options mode (make_chunks n cb) n)) direction"
  shows "of_int (chunk_total (pa_chunks a)) * capacity (map scheduler_weight paths) \<le>
    effective_weight (scheduler_weight (pa_path a)) *
    (of_int n + (of_nat (length paths) - 1) * of_int cb)"
proof -
  from plan_Inr [OF assms(1,2)] have cb: "0 < cb"
    and po: "plan_over options (make_chunks n cb) n cb profile mode direction = Inr p" by auto
  have bytes: "\<forall>c \<in> set (make_chunks n cb). 0 < pc_bytes c \<and> pc_bytes c \<le> cb"
    using make_chunks_bytes [OF cb] by blast
  have "chunk_total (make_chunks n cb) = n" using cb assms(2) by (simp add: make_chunks_total)
  with plan_over_Inr(4) [OF po bytes cb] assms(3) show ?thesis unfolding paths_def by auto
qed

theorem plan_finish_time_bound_witness:
  "\<exists>p a. plan default_options 10 4 sample_profile POOL ''h2d'' = Inr p \<and> a \<in> set (tpl_assignments p) \<and>
     of_int (chunk_total (pa_chunks a)) *
       capacity (map scheduler_weight (build_paths default_options sample_profile
         (fst (resolve_mode default_options POOL (make_chunks 10 4) 10)) ''h2d'')) \<le>
     effective_weight (scheduler_weight (pa_path a)) *
       (10 + (of_nat (length (build_paths default_options sample_profile
         (fst (resolve_mode default_options POOL (make_chunks 10 4) 10)) ''h2d'')) - 1) * 4)"
proof -
  obtain p where p: "plan default_options 10 4 sample_profile POOL ''h2d'' = Inr p"
    using plan_total [of 4 sample_profile "''h2d''" POOL default_options 10] sample_direct by auto
  from plan_Inr [OF p]
  have po: "plan_over default_options (make_chunks 10 4) 10 4 sample_profile POOL ''h2d'' = Inr p" by simp
  have bytes: "\<forall>c \<in> set (make_chunks 10 4). 0 < pc_bytes c \<and> pc_bytes c \<le> 4"
    using make_chunks_bytes [of 4 _ 10] by auto
  have "mset (concat (map pa_chunks (tpl_assignments p))) = mset (make_chunks 10 4)"
    using plan_over_Inr(3) [OF po bytes] by simp
  moreover have "make_chunks 10 4 \<noteq> []"
    by (simp add: make_chunks_def make_chunks_from.simps [of 0 10 4])
  ultimately obtain a where a: "a \<in> set (tpl_assignments p)"
    by (cases "tpl_assignments p") auto
  from plan_finish_time_bound [OF p _ a] a p show ?thesis by auto
qed

text \<open>
  C32: planning fails only for a transfer with bytes, and then only because the chunk size is not
  positive or no path is enabled; the guard against zero total bandwidth never fires.
\<close>

theorem plan_failures:
  "plan options n cb profile mode direction = Inl e \<longleftrightarrow>
     0 < n \<and>
     ((cb \<le> 0 \<and> e = ValueError ''chunk_bytes must be greater than zero'') \<or>
      (0 < cb \<and>
       build_paths options profile (fst (resolve_mode options mode (make_chunks n cb) n)) direction = [] \<and>
       e = RuntimeError ''no enabled transfer path is available''))"
proof (cases "0 < n \<and> 0 < cb")
  case True
  let ?paths = "build_paths options profile (fst (resolve_mode options mode (make_chunks n cb) n)) direction"
  have pl: "plan options n cb profile mode direction =
      plan_over options (make_chunks n cb) n cb profile mode direction"
    using True by (simp add: plan_def Let_def max_def)
  show ?thesis
  proof (cases "?paths = []")
    case empty: True
    then have "plan_over options (make_chunks n cb) n cb profile mode direction =
        Inl (RuntimeError ''no enabled transfer path is available'')"
      by (auto simp: plan_over_def Let_def split: prod.splits)
    with True empty show ?thesis by (auto simp: pl)
  next
    case False
    then obtain p where "plan_over options (make_chunks n cb) n cb profile mode direction = Inr p"
      using plan_over_total by blast
    with True False show ?thesis by (auto simp: pl)
  qed
next
  case False
  then show ?thesis by (auto simp: plan_def Let_def max_def result_simps)
qed

text \<open>
  A pooled transfer below the chunk or byte threshold uses no relay: every assignment of its
  plan is on the direct path, and the plan records why.
\<close>

lemma small_pool_plan_is_direct:
  assumes "plan options n cb profile POOL direction = Inr p" and "0 < n"
    and "(n + cb - 1) div cb < po_min_chunks_for_relay options \<or> n < po_min_pool_bytes options"
  shows "list_all (\<lambda>a. pp_kind (pa_path a) = ''direct'') (tpl_assignments p) \<and>
    (\<exists>m reason. tpl_cost_metadata p = Some m \<and> pcm_pool_disabled_reason m = Some reason)"
proof -
  from plan_Inr [OF assms(1,2)] have cb: "0 < cb"
    and po: "plan_over options (make_chunks n cb) n cb profile POOL direction = Inr p" by auto
  have len: "int (length (make_chunks n cb)) = (n + cb - 1) div cb"
    using transfer_chunks.count [OF cb, of n] assms(2) by simp
  have "\<exists>reason. resolve_mode options POOL (make_chunks n cb) n = (DIRECT, Some reason)"
    using assms(2,3) len
    by (cases "(n + cb - 1) div cb < po_min_chunks_for_relay options")
      (auto simp: resolve_mode_def Let_def)
  then obtain reason where mode: "resolve_mode options POOL (make_chunks n cb) n = (DIRECT, Some reason)"
    by blast
  have bytes: "\<forall>c \<in> set (make_chunks n cb). 0 < pc_bytes c \<and> pc_bytes c \<le> cb"
    using make_chunks_bytes [OF cb] by blast
  from plan_over_Inr(4) [OF po bytes cb] mode build_paths_direct_mode
  have "list_all (\<lambda>a. pp_kind (pa_path a) = ''direct'') (tpl_assignments p)"
    by (auto simp: list_all_iff)
  moreover have "\<exists>m. tpl_cost_metadata p = Some m \<and> pcm_pool_disabled_reason m = Some reason"
    using po by (auto simp: plan_over_def mode plan_chunks_def plan_cost_metadata_def Let_def
        result_simps split: prod.splits)
  ultimately show ?thesis by auto
qed

theorem small_pool_plan_is_direct_witness:
  "\<exists>p. plan default_options 3 4 sample_profile POOL ''h2d'' = Inr p \<and>
       list_all (\<lambda>a. pp_kind (pa_path a) = ''direct'') (tpl_assignments p)"
proof -
  obtain p where p: "plan default_options 3 4 sample_profile POOL ''h2d'' = Inr p"
    using plan_total [of 4 sample_profile "''h2d''" POOL default_options 3] sample_direct by auto
  with small_pool_plan_is_direct [OF p] show ?thesis by (auto simp: default_options_def)
qed

section \<open>Plans over ranges\<close>

lemma plan_ranges_Inr:
  assumes "plan_ranges options ranges cb profile mode direction = Inr p"
    and "chunk_ranges cb ranges = (chunks, n)" and "chunks \<noteq> []"
  shows "0 < cb \<and> plan_over options chunks n cb profile mode direction = Inr p"
  using assms by (auto simp: plan_ranges_def result_simps)

text \<open>A chunk stays in step with a range: the same displacement in source and destination.\<close>

definition chunk_in_range :: "TransferRange \<Rightarrow> PlannerChunk \<Rightarrow> bool" where
  "chunk_in_range r c =
     (src_offset r \<le> pc_src_offset c \<and> pc_src_offset c + pc_bytes c \<le> src_offset r + bytes r \<and>
      pc_dst_offset c - dst_offset r = pc_src_offset c - src_offset r)"

lemma range_chunks_offsets:
  "c \<in> set (range_chunks s d n k a) \<Longrightarrow> pc_dst_offset c - d = pc_src_offset c - s"
proof (induction s d n k a rule: range_chunks.induct)
  case (1 s d n k a)
  then show ?case
    by (auto simp: range_chunks.simps [of s d n k a] Let_def split: if_splits)
qed

lemma chunk_ranges_in_range:
  "0 < k \<Longrightarrow> chunk_ranges k rs = (cs, n) \<Longrightarrow> c \<in> set cs \<Longrightarrow> \<exists>r \<in> set rs. chunk_in_range r c"
proof (induction rs arbitrary: cs n)
  case Nil
  then show ?case by simp
next
  case (Cons r rs)
  obtain cs' n' where rest: "chunk_ranges k rs = (cs', n')" by fastforce
  show ?case
  proof (cases "c \<in> set cs'")
    case True
    with Cons.IH [OF Cons.prems(1) rest] show ?thesis by auto
  next
    case False
    with Cons.prems rest have r: "0 \<le> bytes r"
      and mem: "c \<in> set (range_chunks (src_offset r) (dst_offset r) (bytes r) k 0)"
      by (auto split: if_splits)
    from mem have "(pc_src_offset c - src_offset r, pc_bytes c) \<in>
        set (map (chunk_piece (src_offset r)) (range_chunks (src_offset r) (dst_offset r) (bytes r) k 0))"
      by (force simp: chunk_piece_def)
    from range_pieces.within [OF Cons.prems(1) r this] range_chunks_offsets [OF mem]
    have "chunk_in_range r c" by (simp add: chunk_in_range_def)
    then show ?thesis by auto
  qed
qed

definition positive_bytes :: "TransferRange list \<Rightarrow> int" where
  "positive_bytes rs = sum_list (map bytes (filter (\<lambda>r. 0 < bytes r) rs))"

lemma chunk_ranges_snd: "snd (chunk_ranges k rs) = positive_bytes rs"
  by (induction rs) (auto simp: positive_bytes_def split: prod.splits)

text \<open>
  What a range asks for, byte by byte: the copy of source byte \<open>x\<close> to destination byte \<open>y\<close>.  A chunk
  makes that copy when it covers \<open>x\<close> with the displacement of \<open>y\<close>.
\<close>

definition range_asks :: "int \<Rightarrow> int \<Rightarrow> TransferRange \<Rightarrow> bool" where
  "range_asks x y r = (src_offset r \<le> x \<and> x < src_offset r + bytes r \<and>
     y - dst_offset r = x - src_offset r)"

definition chunk_copies :: "int \<Rightarrow> int \<Rightarrow> PlannerChunk \<Rightarrow> bool" where
  "chunk_copies x y c = (pc_src_offset c \<le> x \<and> x < pc_src_offset c + pc_bytes c \<and>
     y - pc_dst_offset c = x - pc_src_offset c)"

lemma range_chunks_copy:
  assumes "0 < k" and "0 < n"
  shows "length (filter (chunk_copies x y) (range_chunks s d n k 0)) =
    (if s \<le> x \<and> x < s + n \<and> y - d = x - s then 1 else 0)"
proof -
  let ?cs = "range_chunks s d n k 0"
  have "chunk_copies x y c \<longleftrightarrow> y - d = x - s \<and> holds_byte (x - s) (chunk_piece s c)"
    if "c \<in> set ?cs" for c
    using range_chunks_offsets [OF that] by (auto simp: chunk_copies_def holds_byte_def chunk_piece_def)
  then have "filter (chunk_copies x y) ?cs =
      (if y - d = x - s then filter (holds_byte (x - s) \<circ> chunk_piece s) ?cs else [])"
    by (auto simp: filter_empty_conv intro: filter_cong)
  moreover have "length (filter (holds_byte (x - s) \<circ> chunk_piece s) ?cs) =
      length (filter (holds_byte (x - s)) (map (chunk_piece s) ?cs))"
    by (simp add: filter_map)
  moreover have "\<dots> = (if 0 \<le> x - s \<and> x - s < n then 1 else 0)"
    by (rule tiles_once [OF range_pieces.pieces_tile]) (use assms in auto)
  ultimately show ?thesis by auto
qed

lemma chunk_ranges_copy:
  "0 < k \<Longrightarrow> chunk_ranges k rs = (cs, n) \<Longrightarrow>
   length (filter (chunk_copies x y) cs) = length (filter (range_asks x y) rs)"
proof (induction rs arbitrary: cs n)
  case Nil
  then show ?case by simp
next
  case (Cons r rs)
  obtain cs' n' where rest: "chunk_ranges k rs = (cs', n')" by fastforce
  note IH = Cons.IH [OF Cons.prems(1) rest]
  show ?case
  proof (cases "bytes r \<le> 0")
    case True
    with Cons.prems(2) rest IH show ?thesis by (auto simp: range_asks_def)
  next
    case False
    with Cons.prems(2) rest
    have "cs = range_chunks (src_offset r) (dst_offset r) (bytes r) k 0 @ cs'" by auto
    with IH range_chunks_copy [OF Cons.prems(1), of "bytes r" x y "src_offset r" "dst_offset r"] False
    show ?thesis by (simp add: range_asks_def)
  qed
qed

text \<open>
  C20: a plan over ranges makes exactly the copies its ranges ask for: each copy of a source byte to
  a destination byte is made by as many assigned chunks as there are ranges that ask for it, so a
  byte asked for once is moved once and a byte not asked for is not moved.  Its total is the bytes
  of the non-empty ranges, and every chunk is a non-empty piece of one range, displaced equally in
  source and destination.
\<close>

theorem plan_ranges_stays_in_ranges:
  assumes "plan_ranges options ranges cb profile mode direction = Inr p"
  shows "length (filter (chunk_copies x y) (concat (map pa_chunks (tpl_assignments p)))) =
      length (filter (range_asks x y) ranges) \<and>
    tpl_total_bytes p = positive_bytes ranges \<and>
    chunk_total (concat (map pa_chunks (tpl_assignments p))) = positive_bytes ranges \<and>
    list_all (\<lambda>c. 0 < pc_bytes c \<and> list_ex (\<lambda>r. chunk_in_range r c) ranges)
      (concat (map pa_chunks (tpl_assignments p)))"
proof -
  obtain chunks n where cr: "chunk_ranges cb ranges = (chunks, n)" by fastforce
  then have n: "n = positive_bytes ranges" using chunk_ranges_snd [of cb ranges] by simp
  have cb: "0 < cb" using assms by (simp add: plan_ranges_def result_simps)
  note copies = chunk_ranges_copy [OF cb cr, of x y]
  show ?thesis
  proof (cases "chunks = []")
    case True
    with assms cr have "p = empty_plan" by (simp add: plan_ranges_def result_simps)
    moreover have "n = 0" using chunk_ranges_total [OF cb cr] True by simp
    ultimately show ?thesis using n copies True by (simp add: empty_plan_def)
  next
    case False
    let ?cs = "concat (map pa_chunks (tpl_assignments p))"
    have po: "plan_over options chunks n cb profile mode direction = Inr p"
      using plan_ranges_Inr [OF assms cr False] by simp
    have bytes: "\<forall>c \<in> set chunks. 0 < pc_bytes c \<and> pc_bytes c \<le> cb"
      using chunk_ranges_bytes [OF cb cr] by blast
    note res = plan_over_Inr [OF po bytes cb]
    have "chunk_total ?cs = chunk_total chunks"
      unfolding chunk_total_def by (metis res(3) mset_map sum_mset_sum_list)
    moreover have "set ?cs = set chunks" by (metis res(3) set_mset_mset)
    moreover have "length (filter (chunk_copies x y) ?cs) = length (filter (range_asks x y) ranges)"
      using length_filter_mset [OF res(3)] copies by simp
    ultimately show ?thesis
      using res(1) n chunk_ranges_total [OF cb cr] bytes chunk_ranges_in_range [OF cb cr]
      by (auto simp: list_all_iff list_ex_iff)
  qed
qed

lemma plan_ranges_total:
  assumes "0 < cb" and "0 < direct_bandwidth profile direction" and "mode \<noteq> RELAY"
  shows "\<exists>p. plan_ranges options ranges cb profile mode direction = Inr p"
proof -
  obtain chunks n where cr: "chunk_ranges cb ranges = (chunks, n)" by fastforce
  have "\<exists>p. plan_over options chunks n cb profile mode direction = Inr p"
    by (intro plan_over_total build_paths_direct assms resolve_mode_not_relay)
  with cr assms(1) show ?thesis by (auto simp: plan_ranges_def)
qed

theorem plan_ranges_stays_in_ranges_witness:
  "\<exists>p. plan_ranges default_options [\<lparr>src_offset = 8, dst_offset = 0, bytes = 6\<rparr>] 4
         sample_profile POOL ''h2d'' = Inr p \<and>
       length (filter (chunk_copies 12 4) (concat (map pa_chunks (tpl_assignments p)))) = 1 \<and>
       chunk_total (concat (map pa_chunks (tpl_assignments p))) = 6"
proof -
  obtain p where p: "plan_ranges default_options [\<lparr>src_offset = 8, dst_offset = 0, bytes = 6\<rparr>] 4
      sample_profile POOL ''h2d'' = Inr p"
    using plan_ranges_total [of 4 sample_profile "''h2d''" POOL default_options] sample_direct by auto
  from plan_ranges_stays_in_ranges [OF p, of 12 4] p show ?thesis
    by (auto simp: positive_bytes_def range_asks_def)
qed

section \<open>A plan uses every relay once\<close>

definition goes_by_relay :: "PlannerPath \<Rightarrow> bool" where
  "goes_by_relay path = (pp_kind path = ''relay'')"

lemma checked_profile_relays:
  assumes "check_profile_relays relays profile = Inr u"
  shows "distinct (map pr_relay_device (pf_relays profile))"
proof -
  let ?ds = "map pr_relay_device (pf_relays profile)"
  have "length (remdups ?ds) = length ?ds"
    using assms unfolding check_profile_relays_def Let_def
    by (cases "length ?ds = length (remdups ?ds)") (simp_all add: raise_if_def)
  then have "remdups ?ds = ?ds" by (simp only: length_remdups_eq)
  then show ?thesis by (simp only: remdups_id_iff_distinct)
qed

lemma build_paths_relays:
  assumes "distinct (map pr_relay_device (pf_relays profile))"
  shows "distinct (map pp_relay_device (filter goes_by_relay (build_paths options profile mode direction)))"
proof -
  have relays: "filter goes_by_relay (map (relay_path profile direction) rs) = map (relay_path profile direction) rs" for rs
    by (induction rs) (simp_all add: goes_by_relay_def relay_path_def)
  have "\<not> goes_by_relay (direct_path profile direction)"
    by (simp add: goes_by_relay_def direct_path_def Let_def)
  moreover have "pp_relay_device (relay_path profile direction r) = pr_relay_device r" for r
    by (simp add: relay_path_def)
  ultimately show ?thesis
    using assms by (simp add: build_paths_def Let_def relays comp_def distinct_map_filter)
qed

lemma assignments_of_relays:
  "distinct (map pp_relay_device (filter goes_by_relay paths)) \<Longrightarrow>
   distinct (map (\<lambda>a. pp_relay_device (pa_path a))
     (filter (\<lambda>a. goes_by_relay (pa_path a)) (assignments_of paths per_path)))"
proof (induction paths arbitrary: per_path)
  case Nil
  then show ?case by (simp add: assignments_of_def)
next
  case (Cons path paths)
  show ?case
  proof (cases per_path)
    case Nil
    then show ?thesis by (simp add: assignments_of_def)
  next
    case (Cons cs rest)
    have "pa_path ` set (assignments_of paths rest) \<subseteq> set paths"
      by (auto simp: assignments_of_def dest: set_zip_leftD)
    with Cons.prems Cons.IH [of rest] Cons show ?thesis
      by (auto simp: assignments_of_def split: if_splits)
  qed
qed

lemma plan_over_relays:
  assumes "plan_over options chunks n cb profile mode direction = Inr p"
    and "distinct (map pr_relay_device (pf_relays profile))"
  shows "distinct (map (\<lambda>a. pp_relay_device (pa_path a)) (filter (\<lambda>a. goes_by_relay (pa_path a)) (tpl_assignments p)))"
proof -
  from assms(1) obtain m per_path where "tpl_assignments p = assignments_of (build_paths options profile m direction) per_path"
    by (auto simp: plan_over_def plan_chunks_def plan_cost_metadata_def Let_def result_simps split: prod.splits)
  then show ?thesis using assignments_of_relays [OF build_paths_relays [OF assms(2)]] by simp
qed

lemma planned_relays:
  assumes "plan options n cb profile mode direction = Inr p \<or>
      plan_ranges options ranges cb profile mode direction = Inr p"
    and "check_profile_relays relays profile = Inr u"
  shows "distinct (map (\<lambda>a. pp_relay_device (pa_path a)) (filter (\<lambda>a. goes_by_relay (pa_path a)) (tpl_assignments p)))"
proof -
  note dist = checked_profile_relays [OF assms(2)]
  have "p = empty_plan \<or> (\<exists>chunks m. plan_over options chunks m cb profile mode direction = Inr p)"
    using assms(1) by (auto simp: plan_def plan_ranges_def Let_def result_simps split: if_splits prod.splits)
  then show ?thesis using plan_over_relays [OF _ dist] by (auto simp: empty_plan_def)
qed

section \<open>Cost metadata and coalescing\<close>

lemma map_of_fold_update:
  "distinct (map key as) \<Longrightarrow>
   map_of (fold (\<lambda>a d. AList.update (key a) a d) as d) = map_of d ++ map_of (map (\<lambda>a. (key a, a)) as)"
proof (induction as arbitrary: d)
  case Nil
  then show ?case by simp
next
  case (Cons a as)
  then have "key a \<notin> dom (map_of (map (\<lambda>a. (key a, a)) as))"
    by (auto simp: dom_map_of_conv_image_fst)
  with Cons show ?case
    by (auto simp: fun_eq_iff map_add_def domIff split: option.splits)
qed

lemma assignments_of_keys:
  assumes "distinct (map planner_path_key paths)"
  shows "distinct (map (\<lambda>a. planner_path_key (pa_path a)) (assignments_of paths per_path))"
proof -
  have "distinct (map (planner_path_key \<circ> fst) (filter P (zip paths per_path)))" for P
    using assms
    by (induction paths arbitrary: per_path)
      (auto simp: zip_Cons1 split: list.splits dest!: set_zip_leftD)
  then show ?thesis by (simp add: assignments_of_def comp_def case_prod_unfold)
qed

lemma assigned_by_path_nth:
  assumes "distinct (map planner_path_key paths)" and "length paths = length per_path"
    and k: "k < length paths"
  shows "map_of (assigned_by_path (assignments_of paths per_path)) (planner_path_key (paths ! k)) =
    (if per_path ! k = [] then None else Some \<lparr>pa_path = paths ! k, pa_chunks = per_path ! k\<rparr>)"
proof -
  let ?as = "assignments_of paths per_path"
  have dist: "distinct (map (\<lambda>a. planner_path_key (pa_path a)) ?as)"
    using assms(1) by (rule assignments_of_keys)
  have map: "map_of (assigned_by_path ?as) = map_of (map (\<lambda>a. (planner_path_key (pa_path a), a)) ?as)"
    using map_of_fold_update [OF dist, of "[]"] by (simp add: assigned_by_path_def)
  have fsts: "map fst (map (\<lambda>a. (planner_path_key (pa_path a), a)) ?as) =
      map (\<lambda>a. planner_path_key (pa_path a)) ?as" by simp
  show ?thesis
  proof (cases "per_path ! k = []")
    case True
    have "planner_path_key (paths ! k) \<notin> set (map (\<lambda>a. planner_path_key (pa_path a)) ?as)"
    proof
      assume "planner_path_key (paths ! k) \<in> set (map (\<lambda>a. planner_path_key (pa_path a)) ?as)"
      then obtain j where "j < length paths" "planner_path_key (paths ! k) = planner_path_key (paths ! j)"
        "per_path ! j \<noteq> []"
        by (auto dest: assignments_of_nth)
      with True k assms(1) show False
        by (metis distinct_conv_nth length_map nth_map)
    qed
    with True show ?thesis by (simp add: map map_of_eq_None_iff image_image)
  next
    case False
    let ?a = "\<lparr>pa_path = paths ! k, pa_chunks = per_path ! k\<rparr>"
    have "(paths ! k, per_path ! k) \<in> set (zip paths per_path)"
      using k assms(2) by (auto simp: in_set_zip)
    with False have "?a \<in> set ?as" by (force simp: assignments_of_def)
    then have "(planner_path_key (paths ! k), ?a) \<in> set (map (\<lambda>a. (planner_path_key (pa_path a), a)) ?as)"
      by (force simp: image_iff)
    with dist False show ?thesis
      unfolding map by (simp add: fsts map_of_is_SomeI comp_def)
  qed
qed

text \<open>
  C33: when the enabled paths have distinct keys, the plan's cost metadata accounts for every byte
  and every chunk of the transfer: the per-path figures it reports add up to the transfer.
\<close>

theorem cost_metadata_accounts_for_transfer:
  assumes "plan options n cb profile mode direction = Inr p" and "0 < n"
    and "distinct (map planner_path_key (build_paths options profile
           (fst (resolve_mode options mode (make_chunks n cb) n)) direction))"
  shows "\<exists>m. tpl_cost_metadata p = Some m \<and>
    sum_list (map pcr_assigned_bytes (pcm_paths m)) = n \<and>
    sum_list (map pcr_assigned_chunks (pcm_paths m)) = int (length (make_chunks n cb))"
proof -
  let ?paths = "build_paths options profile (fst (resolve_mode options mode (make_chunks n cb) n)) direction"
  let ?ws = "map scheduler_weight ?paths" and ?cs = "make_chunks n cb"
  let ?start = "(map (\<lambda>_. []) ?paths, map (\<lambda>_. 0 :: rat) ?paths)"
  let ?st = "assign_chunks ?ws ?start ?cs"
  from plan_Inr [OF assms(1,2)] have cb: "0 < cb"
    and po: "plan_over options ?cs n cb profile mode direction = Inr p" by auto
  have bytes: "\<forall>c \<in> set ?cs. 0 < pc_bytes c \<and> pc_bytes c \<le> cb"
    using make_chunks_bytes [OF cb] by blast
  from po have ne: "?paths \<noteq> []"
    and m: "tpl_cost_metadata p = Some \<lparr>pcm_pool_disabled_reason =
        snd (resolve_mode options mode ?cs n),
        pcm_paths = map (path_cost_record (assigned_by_path (assignments_of ?paths (fst ?st))))
          (zip ?paths ?ws)\<rparr>"
    by (auto simp: plan_over_def plan_chunks_def plan_cost_metadata_def Let_def result_simps
        split: prod.splits)
  have start: "?start = (map (\<lambda>_. []) ?ws, map (\<lambda>_. 0) ?ws)" by simp
  have "loop_inv ?ws cb ?st" and ms: "mset (concat (fst ?st)) = mset ?cs"
    using assign_chunks_inv [of ?ws cb ?start ?cs] loop_inv_start [of cb ?ws] ne cb bytes
    unfolding start by (auto simp: map_replicate_const)
  then have len: "length ?paths = length (fst ?st)" by (simp add: loop_inv_def)
  note nth = assigned_by_path_nth [OF assms(3) len]
  have "map pcr_assigned_bytes (map (path_cost_record (assigned_by_path (assignments_of ?paths (fst ?st))))
      (zip ?paths ?ws)) = map chunk_total (fst ?st)"
    using len by (intro nth_equalityI) (auto simp: path_cost_record_def Let_def nth chunk_total_def)
  moreover have "map pcr_assigned_chunks (map (path_cost_record (assigned_by_path (assignments_of ?paths (fst ?st))))
      (zip ?paths ?ws)) = map (\<lambda>cs. int (length cs)) (fst ?st)"
    using len by (intro nth_equalityI) (auto simp: path_cost_record_def Let_def nth)
  moreover have "sum_list (map chunk_total xss) = chunk_total (concat xss)" for xss
    by (induction xss) simp_all
  moreover have "sum_list (map (\<lambda>cs. int (length cs)) xss) = int (length (concat xss))"
    for xss :: "PlannerChunk list list"
    by (induction xss) simp_all
  moreover have "chunk_total (concat (fst ?st)) = n"
    unfolding chunk_total_def by (metis ms mset_map sum_mset_sum_list chunk_total_def
        make_chunks_total [OF cb] assms(2) less_imp_le)
  moreover have "length (concat (fst ?st)) = length ?cs" by (metis ms size_mset)
  ultimately show ?thesis using m by simp
qed

theorem cost_metadata_accounts_for_transfer_witness:
  "\<exists>p m. plan default_options 10 4 sample_profile POOL ''h2d'' = Inr p \<and>
     tpl_cost_metadata p = Some m \<and> sum_list (map pcr_assigned_bytes (pcm_paths m)) = 10"
proof -
  obtain p where p: "plan default_options 10 4 sample_profile POOL ''h2d'' = Inr p"
    using plan_total [of 4 sample_profile "''h2d''" POOL default_options 10] sample_direct by auto
  have "distinct (map planner_path_key (build_paths default_options sample_profile
      (fst (resolve_mode default_options POOL (make_chunks 10 4) 10)) ''h2d''))"
    by (auto simp: build_paths_def sample_profile_def sample_relay_def direct_path_def relay_path_def
        planner_path_key_def Let_def)
  with cost_metadata_accounts_for_transfer [OF p] p show ?thesis by auto
qed

lemma coalesce_loop_total:
  "chunk_total (coalesce_loop merged chunks) = chunk_total merged + chunk_total chunks"
proof (induction merged chunks rule: coalesce_loop.induct)
  case (1 merged)
  then show ?case by simp
next
  case (2 merged chunk chunks)
  show ?case
  proof (cases "merged = [] \<or> \<not> chunks_are_contiguous (last merged) chunk")
    case True
    with 2 show ?thesis by auto
  next
    case False
    then have "merged = butlast merged @ [last merged]" by simp
    then have "chunk_total merged = chunk_total (butlast merged) + pc_bytes (last merged)"
      by (metis chunk_total_simps(1,2,3) add.right_neutral)
    with 2 False show ?thesis by simp
  qed
qed

end
