(* ===== verification/Block_Plan.thy ===== *)
theory Block_Plan
  imports Planner_Engine
begin

text \<open>
  The scheduler's block plan: \<open>turbobus/scheduler/block_plan.py\<close>,
  \<open>turbobus/scheduler/path_allocator.py\<close> and \<open>turbobus/scheduler/block_queue.py\<close>.  A transfer
  plan's assignments are cut into numbered blocks, each bound to a path; the allocator labels the
  plan and sums its bytes, and the queue tracks one record per block.
\<close>

section \<open>Data\<close>

record BlockPath =
  bp_path_id :: string
  bp_kind :: string
  bp_direction :: string
  bp_target_device :: int
  bp_relay_device :: "int option"
  bp_scheduler_weight_gbps :: rat
  bp_runtime_pressure :: rat
  bp_metadata :: mapping

record TransferBlock =
  tb_block_id :: string
  tb_path_id :: string
  tb_attempt :: int
  tb_src_offset :: int
  tb_dst_offset :: int
  tb_bytes :: int
  tb_allowed_path_ids :: "string list"
  tb_metadata :: mapping

record BlockPlan =
  bl_plan_id :: string
  bl_direction :: string
  bl_total_bytes :: int
  bl_blocks :: "TransferBlock list"
  bl_paths :: "BlockPath list"
  bl_metadata :: mapping

section \<open>From assignments to blocks\<close>

definition planner_path_id :: "PlannerPath \<Rightarrow> string" where
  "planner_path_id path =
     (if lower (pp_kind path) = ''relay''
      then pp_direction path @ '':relay:'' @ int_str (pp_relay_device path) @ ''->'' @
           int_str (pp_target_device path)
      else pp_direction path @ '':direct:'' @ int_str (pp_target_device path))"

definition block_path_from_planner_path :: "PlannerPath \<Rightarrow> BlockPath" where
  "block_path_from_planner_path path =
     \<lparr>bp_path_id = planner_path_id path, bp_kind = pp_kind path, bp_direction = pp_direction path,
      bp_target_device = pp_target_device path,
      bp_relay_device = (if pp_kind path \<noteq> ''relay'' then None else Some (pp_relay_device path)),
      bp_scheduler_weight_gbps =
        max 0 (case pp_scheduler_weight_gbps path of
                 Some w \<Rightarrow> if w \<noteq> 0 then w else pp_effective_bw_gbps path
               | None \<Rightarrow> pp_effective_bw_gbps path),
      bp_runtime_pressure = max 0 (pp_runtime_pressure path),
      bp_metadata = pp_cost_metadata path\<rparr>"

text \<open>The loop of \<open>_split_chunk\<close>.\<close>

function split_loop :: "PlannerChunk \<Rightarrow> int \<Rightarrow> int \<Rightarrow> PlannerChunk list" where
  "split_loop chunk sz consumed =
     (if 0 < sz \<and> consumed < pc_bytes chunk
      then let current = min sz (pc_bytes chunk - consumed)
           in \<lparr>pc_src_offset = pc_src_offset chunk + consumed,
               pc_dst_offset = pc_dst_offset chunk + consumed,
               pc_bytes = current, pc_relay_device = pc_relay_device chunk\<rparr>
              # split_loop chunk sz (consumed + current)
      else [])"
  by pat_completeness auto
termination
  by (relation "measure (\<lambda>(chunk, sz, consumed). nat (pc_bytes chunk - consumed))") auto

declare split_loop.simps [simp del]

definition split_chunk :: "PlannerChunk \<Rightarrow> int \<Rightarrow> PlannerChunk list" where
  "split_chunk chunk chunk_bytes =
     (let sz = max 1 chunk_bytes
      in if pc_bytes chunk \<le> sz then [chunk] else split_loop chunk sz 0)"

definition add_split ::
  "string \<Rightarrow> string \<Rightarrow> string list \<Rightarrow> nat \<Rightarrow> nat \<Rightarrow> nat \<times> PlannerChunk
     \<Rightarrow> TransferBlock list \<Rightarrow> TransferBlock list" where
  "add_split plan_id path_id allowed assignment_index chunk_index is blocks =
     (let (split_index, split) = is
      in blocks @
         [\<lparr>tb_block_id = plan_id @ '':b'' @ int_str (int (length blocks)), tb_path_id = path_id,
           tb_attempt = 0, tb_src_offset = pc_src_offset split, tb_dst_offset = pc_dst_offset split,
           tb_bytes = pc_bytes split, tb_allowed_path_ids = allowed,
           tb_metadata =
             [(''source'', VStr ''daemon_scheduler_block_plan''),
              (''assignment_index'', VInt (int assignment_index)),
              (''chunk_index'', VInt (int chunk_index)),
              (''split_index'', VInt (int split_index))]\<rparr>])"

definition add_chunk ::
  "string \<Rightarrow> int \<Rightarrow> string \<Rightarrow> string list \<Rightarrow> nat \<Rightarrow> nat \<times> PlannerChunk
     \<Rightarrow> TransferBlock list \<Rightarrow> TransferBlock list" where
  "add_chunk plan_id chunk_bytes path_id allowed assignment_index ic blocks =
     fold (add_split plan_id path_id allowed assignment_index (fst ic))
       (List.enumerate 0 (split_chunk (snd ic) chunk_bytes)) blocks"

definition add_assignment ::
  "string \<Rightarrow> int \<Rightarrow> string list \<Rightarrow> nat \<times> PlannerPathAssignment
     \<Rightarrow> TransferBlock list \<Rightarrow> TransferBlock list" where
  "add_assignment plan_id chunk_bytes allowed ia blocks =
     fold (add_chunk plan_id chunk_bytes (planner_path_id (pa_path (snd ia))) allowed (fst ia))
       (List.enumerate 0 (pa_chunks (snd ia))) blocks"

definition assignment_blocks ::
  "string \<Rightarrow> int \<Rightarrow> string list \<Rightarrow> PlannerPathAssignment list \<Rightarrow> TransferBlock list" where
  "assignment_blocks plan_id chunk_bytes allowed assignments =
     fold (add_assignment plan_id chunk_bytes allowed) (List.enumerate 0 assignments) []"

text \<open>\<open>block_paths.setdefault(path_id, ...)\<close> keeps the first path of an id.\<close>

definition setdefault :: "'k \<Rightarrow> 'v \<Rightarrow> ('k, 'v) dict \<Rightarrow> ('k, 'v) dict" where
  "setdefault k v d = (if map_of d k = None then AList.update k v d else d)"

definition block_paths_of :: "PlannerPathAssignment list \<Rightarrow> (string, BlockPath) dict" where
  "block_paths_of assignments =
     fold (\<lambda>a. setdefault (planner_path_id (pa_path a)) (block_path_from_planner_path (pa_path a)))
       assignments []"

definition dict_merge :: "('k, 'v) dict \<Rightarrow> ('k, 'v) dict \<Rightarrow> ('k, 'v) dict" where
  "dict_merge d e = fold (\<lambda>(k, v). AList.update k v) e d"

definition block_plan_from_assignments ::
  "string \<Rightarrow> int \<Rightarrow> int \<Rightarrow> PlannerPathAssignment list \<Rightarrow> string \<Rightarrow> mapping \<Rightarrow> BlockPlan" where
  "block_plan_from_assignments plan_id total_bytes chunk_bytes assignments direction metadata =
     (let allowed = map (\<lambda>a. planner_path_id (pa_path a))
                      (filter (\<lambda>a. pa_chunks a \<noteq> []) assignments);
          block_paths = block_paths_of assignments;
          blocks = assignment_blocks plan_id chunk_bytes allowed assignments
      in \<lparr>bl_plan_id = plan_id, bl_direction = lower direction, bl_total_bytes = total_bytes,
          bl_blocks = blocks,
          bl_paths = map (\<lambda>path_id. the (map_of block_paths path_id)) (sort (dkeys block_paths)),
          bl_metadata = dict_merge
            [(''source'', VStr ''daemon_scheduler_block_plan''),
             (''block_count'', VInt (int (length blocks))),
             (''path_count'', VInt (int (length block_paths))),
             (''chunk_bytes'', VInt chunk_bytes)] metadata\<rparr>)"

section \<open>The path allocator\<close>

definition allocation_mode :: "int \<Rightarrow> int \<Rightarrow> string" where
  "allocation_mode direct_blocks relay_blocks =
     (if direct_blocks > 0 \<and> relay_blocks > 0 then ''mixed''
      else if relay_blocks > 0 then ''relay'' else ''direct'')"

definition count_blocks :: "(string \<Rightarrow> bool) \<Rightarrow> PlannerPathAssignment list \<Rightarrow> int" where
  "count_blocks P assignments =
     sum_list (map (\<lambda>a. if P (pp_kind (pa_path a)) then int (length (pa_chunks a)) else 0) assignments)"

definition path_cost_value :: "PathCostRecord \<Rightarrow> pyval" where
  "path_cost_value r = VDict
     [(''kind'', VStr (pcr_kind r)), (''target_device'', VInt (pcr_target_device r)),
      (''relay_device'', (case pcr_relay_device r of None \<Rightarrow> VNone | Some d \<Rightarrow> VInt d)),
      (''effective_bw_gbps'', VFloat (pcr_effective_bw_gbps r)),
      (''scheduler_weight_gbps'', VFloat (pcr_scheduler_weight_gbps r)),
      (''scheduler_weight_source'', VStr (pcr_scheduler_weight_source r)),
      (''runtime_pressure'', VFloat (pcr_runtime_pressure r)),
      (''assigned_bytes'', VInt (pcr_assigned_bytes r)),
      (''assigned_chunks'', VInt (pcr_assigned_chunks r)),
      (''estimated_finish_seconds'', VFloat (pcr_estimated_finish_seconds r)),
      (''source'', pcr_source r)]"

definition cost_metadata_value :: "PlanCostMetadata option \<Rightarrow> pyval" where
  "cost_metadata_value metadata = VDict
     (case metadata of
        None \<Rightarrow> []
      | Some m \<Rightarrow>
          [(''source'', VStr ''planner_engine_minimax_finish_time_assignment''),
           (''assignment_policy'', VStr ''minimize_projected_path_finish_time''),
           (''weight_snapshot_source'', VStr ''planner_runtime_pressure_snapshot''),
           (''pool_disabled_reason'',
             (case pcm_pool_disabled_reason m of None \<Rightarrow> VNone | Some r \<Rightarrow> VStr r)),
           (''path_count'', VInt (int (length (pcm_paths m)))),
           (''paths'', VList (map path_cost_value (pcm_paths m)))])"

definition block_plan_for_transfer_plan ::
  "PlannerTransferPlan \<Rightarrow> string \<Rightarrow> string \<Rightarrow> mapping \<Rightarrow> BlockPlan" where
  "block_plan_for_transfer_plan tplan decision_seed direction scheduler_metadata =
     (let assignments = tpl_assignments tplan;
          direct_blocks = count_blocks (\<lambda>k. k \<noteq> ''relay'') assignments;
          relay_blocks = count_blocks (\<lambda>k. k = ''relay'') assignments
      in block_plan_from_assignments (''block-plan-'' @ decision_seed) (tpl_total_bytes tplan)
           (tpl_chunk_bytes tplan) assignments direction
           (dict_merge
              [(''allocation_source'', VStr ''daemon_scheduler_path_allocator''),
               (''allocation_mode'', VStr (allocation_mode direct_blocks relay_blocks)),
               (''direct_block_count'', VInt direct_blocks),
               (''relay_block_count'', VInt relay_blocks),
               (''planner_cost_metadata'', cost_metadata_value (tpl_cost_metadata tplan))]
              scheduler_metadata))"

definition path_is_relay :: "BlockPath list \<Rightarrow> string \<Rightarrow> bool" where
  "path_is_relay paths path_id =
     (case map_of (rev (map (\<lambda>p. (bp_path_id p, p)) paths)) path_id of
        None \<Rightarrow> False | Some p \<Rightarrow> bp_kind p = ''relay'')"

definition block_plan_metadata :: "BlockPlan \<Rightarrow> mapping" where
  "block_plan_metadata block_plan =
     (let relay = (\<lambda>b. path_is_relay (bl_paths block_plan) (tb_path_id b));
          direct_bytes = sum_list (map tb_bytes (filter (\<lambda>b. \<not> relay b) (bl_blocks block_plan)));
          relay_bytes = sum_list (map tb_bytes (filter relay (bl_blocks block_plan)))
      in [(''source'', VStr ''daemon_scheduler_path_allocator''),
          (''plan_id'', VStr (bl_plan_id block_plan)),
          (''direction'', VStr (bl_direction block_plan)),
          (''block_count'', VInt (int (length (bl_blocks block_plan)))),
          (''path_count'', VInt (int (length (bl_paths block_plan)))),
          (''direct_bytes'', VInt direct_bytes), (''relay_bytes'', VInt relay_bytes),
          (''allocation_mode'', vget (bl_metadata block_plan) ''allocation_mode'' VNone)])"

section \<open>The block queue\<close>

record BlockQueueRecord =
  bq_block_id :: string
  bq_path_id :: string
  bq_state :: string
  bq_attempt :: int
  bq_bytes :: int
  bq_error :: "string option"

definition queue_records_for_block_plan :: "BlockPlan \<Rightarrow> BlockQueueRecord list" where
  "queue_records_for_block_plan block_plan =
     map (\<lambda>block. \<lparr>bq_block_id = tb_block_id block, bq_path_id = tb_path_id block,
                   bq_state = ''queued'', bq_attempt = tb_attempt block, bq_bytes = tb_bytes block,
                   bq_error = None\<rparr>) (bl_blocks block_plan)"

definition transition_block_record ::
  "BlockQueueRecord \<Rightarrow> string \<Rightarrow> string option \<Rightarrow> BlockQueueRecord" where
  "transition_block_record rec state error = rec\<lparr>bq_state := state, bq_error := error\<rparr>"

text \<open>\<open>d[k] = d.get(k, 0) + n\<close>.\<close>

definition bump :: "'k \<Rightarrow> int \<Rightarrow> ('k, int) dict \<Rightarrow> ('k, int) dict" where
  "bump k n d = AList.update k (dget_default d k 0 + n) d"

record QueueSummary =
  qs_block_count :: int
  qs_states :: "(string, int) dict"
  qs_bytes_by_state :: "(string, int) dict"

definition queue_summary :: "BlockQueueRecord list \<Rightarrow> QueueSummary" where
  "queue_summary records =
     \<lparr>qs_block_count = int (length records),
      qs_states = fold (\<lambda>r. bump (bq_state r) 1) records [],
      qs_bytes_by_state = fold (\<lambda>r. bump (bq_state r) (bq_bytes r)) records []\<rparr>"

section \<open>The blocks of a plan\<close>

text \<open>What a block moves and where: its path and its extent.\<close>

type_synonym piece = "string \<times> int \<times> int \<times> int"

definition block_piece :: "TransferBlock \<Rightarrow> piece" where
  "block_piece b = (tb_path_id b, tb_src_offset b, tb_dst_offset b, tb_bytes b)"

definition split_piece :: "string \<Rightarrow> PlannerChunk \<Rightarrow> piece" where
  "split_piece path_id c = (path_id, pc_src_offset c, pc_dst_offset c, pc_bytes c)"

definition assignment_pieces :: "int \<Rightarrow> PlannerPathAssignment \<Rightarrow> piece list" where
  "assignment_pieces chunk_bytes a =
     concat (map (\<lambda>c. map (split_piece (planner_path_id (pa_path a))) (split_chunk c chunk_bytes))
       (pa_chunks a))"

lemma add_split_pieces:
  "map block_piece (fold (add_split plan_id path_id allowed ai ci) xs blocks) =
   map block_piece blocks @ map (split_piece path_id \<circ> snd) xs"
  by (induction xs arbitrary: blocks)
     (auto simp: add_split_def block_piece_def split_piece_def split: prod.splits)

lemma map_snd_enumerate: "map (f \<circ> snd) (List.enumerate n xs) = map f xs"
  by (simp flip: map_map)

lemma add_chunk_pieces:
  "map block_piece (fold (add_chunk plan_id cb path_id allowed ai) xs blocks) =
   map block_piece blocks @
     concat (map (\<lambda>ic. map (split_piece path_id) (split_chunk (snd ic) cb)) xs)"
proof (induction xs arbitrary: blocks)
  case Nil
  then show ?case by simp
next
  case (Cons ic xs)
  then show ?case
    by (simp add: add_chunk_def add_split_pieces map_snd_enumerate del: map_map)
qed

lemma add_assignment_pieces:
  "map block_piece (fold (add_assignment plan_id cb allowed) xs blocks) =
   map block_piece blocks @ concat (map (assignment_pieces cb \<circ> snd) xs)"
proof (induction xs arbitrary: blocks)
  case Nil
  then show ?case by simp
next
  case (Cons ia xs)
  have "map (\<lambda>ic. map (split_piece p) (split_chunk (snd ic) cb)) (List.enumerate n cs) =
        map (\<lambda>c. map (split_piece p) (split_chunk c cb)) cs" for p n cs
    using map_snd_enumerate [of "\<lambda>c. map (split_piece p) (split_chunk c cb)" n cs]
    by (simp add: comp_def)
  with Cons show ?case
    by (simp add: add_assignment_def add_chunk_pieces assignment_pieces_def del: map_map)
qed

lemma assignment_blocks_pieces:
  "map block_piece (assignment_blocks plan_id cb allowed as) = concat (map (assignment_pieces cb) as)"
  by (simp add: assignment_blocks_def add_assignment_pieces map_snd_enumerate del: map_map)

text \<open>Blocks are numbered in the order they are made.\<close>

definition numbered :: "string \<Rightarrow> string list \<Rightarrow> TransferBlock list \<Rightarrow> bool" where
  "numbered plan_id allowed blocks =
     (map tb_block_id blocks = map (\<lambda>i. plan_id @ '':b'' @ int_str (int i)) [0..<length blocks] \<and>
      list_all (\<lambda>b. tb_allowed_path_ids b = allowed \<and> tb_attempt b = 0) blocks)"

lemma numbered_add_split:
  "numbered plan_id allowed blocks \<Longrightarrow>
   numbered plan_id allowed (add_split plan_id path_id allowed ai ci x blocks)"
  by (cases x) (simp add: numbered_def add_split_def)

lemma fold_keeps: "(\<And>x b. P b \<Longrightarrow> P (f x b)) \<Longrightarrow> P b \<Longrightarrow> P (fold f xs b)"
  by (induction xs arbitrary: b) auto

lemma assignment_blocks_numbered: "numbered plan_id allowed (assignment_blocks plan_id cb allowed as)"
proof -
  have chunk: "numbered plan_id allowed bs \<Longrightarrow>
      numbered plan_id allowed (add_chunk plan_id cb path_id allowed ai ic bs)" for path_id ai ic bs
    unfolding add_chunk_def by (rule fold_keeps [where P = "numbered plan_id allowed"]) (rule numbered_add_split)
  have "numbered plan_id allowed bs \<Longrightarrow>
      numbered plan_id allowed (add_assignment plan_id cb allowed ia bs)" for ia bs
    unfolding add_assignment_def by (rule fold_keeps [where P = "numbered plan_id allowed"]) (rule chunk)
  moreover have "numbered plan_id allowed []" by (simp add: numbered_def)
  ultimately show ?thesis
    unfolding assignment_blocks_def by (intro fold_keeps [where P = "numbered plan_id allowed"])
qed

lemma numbered_distinct: "numbered plan_id allowed blocks \<Longrightarrow> distinct (map tb_block_id blocks)"
  by (auto simp: numbered_def distinct_map inj_on_def)

lemma assignment_blocks_allowed:
  "b \<in> set (assignment_blocks pid cb allowed as) \<Longrightarrow> tb_allowed_path_ids b = allowed"
  using assignment_blocks_numbered [of pid allowed cb as] by (auto simp: numbered_def list_all_iff)

section \<open>Splitting a chunk\<close>

lemma split_loop_pieces:
  "map (chunk_piece (pc_src_offset c)) (split_loop c k a) = segments a (pc_bytes c) k"
proof (induction c k a rule: split_loop.induct)
  case (1 c k a)
  then show ?case
    by (simp add: split_loop.simps [of c k a] segments.simps [of a "pc_bytes c" k] Let_def)
       (simp add: chunk_piece_def)
qed

interpretation chunk_splits: tiler
  "\<lambda>n k. map (chunk_piece s) (split_loop \<lparr>pc_src_offset = s, pc_dst_offset = d, pc_bytes = n,
            pc_relay_device = r\<rparr> k 0)" for s d r
  by unfold_locales
     (simp_all add: split_loop_pieces [of "\<lparr>pc_src_offset = s, pc_dst_offset = d, pc_bytes = n,
            pc_relay_device = r\<rparr>" for n, simplified] loop.pieces_tile loop.pieces_full)

lemma PlannerChunk_eta:
  "\<lparr>pc_src_offset = pc_src_offset c, pc_dst_offset = pc_dst_offset c, pc_bytes = pc_bytes c,
    pc_relay_device = pc_relay_device c\<rparr> = (c :: PlannerChunk)"
  by simp

lemma split_chunk_total: "chunk_total (split_chunk c k) = pc_bytes c"
proof (cases "pc_bytes c \<le> max 1 k")
  case True
  then show ?thesis by (simp add: split_chunk_def Let_def)
next
  case False
  then show ?thesis
    using chunk_splits.total [of "max 1 k" "pc_bytes c" "pc_src_offset c" "pc_dst_offset c"
        "pc_relay_device c"]
    by (simp add: split_chunk_def Let_def chunk_total_def chunk_piece_def comp_def PlannerChunk_eta)
qed

lemma split_chunk_bounded: "x \<in> set (split_chunk c k) \<Longrightarrow> pc_bytes x \<le> max 1 k"
proof (cases "pc_bytes c \<le> max 1 k")
  case True
  then show "x \<in> set (split_chunk c k) \<Longrightarrow> ?thesis" by (simp add: split_chunk_def Let_def)
next
  case False
  assume "x \<in> set (split_chunk c k)"
  with False have "chunk_piece (pc_src_offset c) x \<in>
      set (map (chunk_piece (pc_src_offset c)) (split_loop c (max 1 k) 0))"
    by (simp add: split_chunk_def Let_def)
  then show ?thesis
    using chunk_splits.bounded [of "max 1 k" _ "pc_bytes x" "pc_src_offset c" "pc_dst_offset c"
        "pc_bytes c" "pc_relay_device c"]
    by (auto simp: PlannerChunk_eta chunk_piece_def)
qed

lemma split_loop_dst:
  "x \<in> set (split_loop c k a) \<Longrightarrow>
   pc_dst_offset x - pc_src_offset x = pc_dst_offset c - pc_src_offset c"
proof (induction c k a rule: split_loop.induct)
  case (1 c k a)
  then show ?case
    by (subst (asm) (2) split_loop.simps) (auto simp: Let_def split: if_splits)
qed

lemma split_chunk_carries:
  assumes "0 < pc_bytes c"
  shows "length (filter (carries x) (split_chunk c k)) = (if carries x c then 1 else 0)"
proof (cases "pc_bytes c \<le> max 1 k")
  case True
  then show ?thesis by (simp add: split_chunk_def Let_def)
next
  case False
  let ?s = "pc_src_offset c"
  have eq: "filter (carries x) (split_loop c (max 1 k) 0) =
      (if pc_dst_offset c = ?s
       then filter (holds_byte (x - ?s) \<circ> chunk_piece ?s) (split_loop c (max 1 k) 0) else [])"
    by (auto simp: carries_def holds_byte_def chunk_piece_def filter_empty_conv
        intro!: filter_cong dest!: split_loop_dst)
  have "length (filter (holds_byte (x - ?s) \<circ> chunk_piece ?s) (split_loop c (max 1 k) 0)) =
      length (filter (holds_byte (x - ?s)) (segments 0 (pc_bytes c) (max 1 k)))"
    by (simp add: filter_map flip: split_loop_pieces)
  also have "\<dots> = (if 0 \<le> x - ?s \<and> x - ?s < pc_bytes c then 1 else 0)"
    by (rule tiles_once [OF segments_tile]) (use assms in auto)
  finally show ?thesis
    using False by (auto simp: split_chunk_def Let_def eq carries_def)
qed

section \<open>Paths of a block plan\<close>

lemma dget_default_update:
  "dget_default (AList.update k v d) k' w = (if k' = k then v else dget_default d k' w)"
  by (simp add: dget_default_def)

lemma map_of_setdefault:
  "map_of (setdefault k v d) = (map_of d)(k := (case map_of d k of None \<Rightarrow> Some v | Some w \<Rightarrow> Some w))"
  by (auto simp: setdefault_def split: option.splits)

lemma map_of_block_paths:
  "map_of (block_paths_of as) k =
     map_option (block_path_from_planner_path \<circ> pa_path)
       (find (\<lambda>a. planner_path_id (pa_path a) = k) as)"
proof -
  have "map_of (fold (\<lambda>a. setdefault (planner_path_id (pa_path a))
             (block_path_from_planner_path (pa_path a))) as d) k =
      (case map_of d k of Some v \<Rightarrow> Some v | None \<Rightarrow>
         map_option (block_path_from_planner_path \<circ> pa_path)
           (find (\<lambda>a. planner_path_id (pa_path a) = k) as))" for d
    by (induction as arbitrary: d) (auto simp: map_of_setdefault split: option.splits)
  from this [of "[]"] show ?thesis by (simp add: block_paths_of_def)
qed

lemma block_paths_wf: "dict_wf (block_paths_of as)"
proof -
  have "dict_wf (setdefault k v d)" if "dict_wf d" for k and v :: BlockPath and d :: "(string, BlockPath) dict"
    using that by (simp add: setdefault_def)
  then show ?thesis
    unfolding block_paths_of_def by (intro fold_keeps [where P = dict_wf]) auto
qed

lemma find_Some_mem: "x \<in> set xs \<Longrightarrow> P x \<Longrightarrow> \<exists>y. find P xs = Some y \<and> y \<in> set xs \<and> P y"
  by (induction xs) auto

lemma find_Some_P: "find P xs = Some y \<Longrightarrow> y \<in> set xs \<and> P y"
  by (induction xs) (auto split: if_splits)

lemma set_block_path_keys: "set (dkeys (block_paths_of as)) = (planner_path_id \<circ> pa_path) ` set as"
proof -
  have "k \<in> set (dkeys (block_paths_of as)) \<longleftrightarrow> map_of (block_paths_of as) k \<noteq> None" for k
    by (simp add: map_of_eq_None_iff)
  then have "k \<in> set (dkeys (block_paths_of as)) \<longleftrightarrow> (\<exists>a \<in> set as. planner_path_id (pa_path a) = k)" for k
    by (auto simp: map_of_block_paths find_None_iff simp flip: not_None_eq)
  then show ?thesis by (auto simp: set_eq_iff image_iff)
qed

text \<open>The paths of the plan are listed in the order of their ids, one per id.\<close>

lemma block_plan_path_ids:
  "map bp_path_id (map (\<lambda>path_id. the (map_of (block_paths_of as) path_id))
     (sort (dkeys (block_paths_of as)))) = sort (dkeys (block_paths_of as))"
proof -
  have "bp_path_id (the (map_of (block_paths_of as) k)) = k"
    if "k \<in> set (sort (dkeys (block_paths_of as)))" for k
  proof -
    from that obtain a where "a \<in> set as" "planner_path_id (pa_path a) = k"
      using set_block_path_keys [of as] by auto
    then obtain b where "find (\<lambda>a. planner_path_id (pa_path a) = k) as = Some b"
        "planner_path_id (pa_path b) = k"
      using find_Some_mem [of a as "\<lambda>a. planner_path_id (pa_path a) = k"] by auto
    then show ?thesis by (simp add: map_of_block_paths block_path_from_planner_path_def)
  qed
  then show ?thesis unfolding map_map comp_def by (rule map_idI)
qed

text \<open>A relay path and a direct path of the same direction have different ids.\<close>

definition plain_kinds :: "string \<Rightarrow> PlannerPathAssignment list \<Rightarrow> bool" where
  "plain_kinds d as = list_all (\<lambda>a. pp_direction (pa_path a) = d \<and>
     (pp_kind (pa_path a) = ''direct'' \<or> pp_kind (pa_path a) = ''relay'')) as"

lemma lower_kinds [simp]: "lower ''direct'' = ''direct''" "lower ''relay'' = ''relay''"
  by code_simp+

lemma path_id_kind:
  "pp_direction p = pp_direction q \<Longrightarrow> pp_kind p \<in> {''direct'', ''relay''} \<Longrightarrow>
   pp_kind q \<in> {''direct'', ''relay''} \<Longrightarrow> planner_path_id p = planner_path_id q \<Longrightarrow> pp_kind p = pp_kind q"
  by (auto simp: planner_path_id_def)

lemma map_of_keyed_list:
  assumes "distinct (map f xs)" and "x \<in> set xs"
  shows "map_of (rev (map (\<lambda>x. (f x, x)) xs)) (f x) = Some x"
proof -
  have "distinct (map fst (rev (map (\<lambda>x. (f x, x)) xs)))"
    using assms(1) by (simp add: comp_def flip: rev_map)
  moreover have "(f x, x) \<in> set (rev (map (\<lambda>x. (f x, x)) xs))" using assms(2) by auto
  ultimately show ?thesis by (rule map_of_is_SomeI)
qed

lemma block_plan_path_is_relay:
  assumes "plain_kinds d as" and "a \<in> set as"
  shows "path_is_relay (bl_paths (block_plan_from_assignments pid n cb as dir m))
     (planner_path_id (pa_path a)) \<longleftrightarrow> pp_kind (pa_path a) = ''relay''"
proof -
  let ?id = "planner_path_id (pa_path a)"
  let ?paths = "bl_paths (block_plan_from_assignments pid n cb as dir m)"
  obtain b where b: "find (\<lambda>a. planner_path_id (pa_path a) = ?id) as = Some b" "b \<in> set as"
      "planner_path_id (pa_path b) = ?id"
    using find_Some_mem [of a as "\<lambda>a. planner_path_id (pa_path a) = ?id"] assms(2) by auto
  have ids: "map bp_path_id ?paths = sort (dkeys (block_paths_of as))"
    by (simp add: block_plan_from_assignments_def Let_def block_plan_path_ids del: map_map)
  have "distinct (map bp_path_id ?paths)"
    unfolding ids using block_paths_wf [of as] by (simp add: dict_wf_def)
  moreover have "?id \<in> set (sort (dkeys (block_paths_of as)))"
    using assms(2) set_block_path_keys [of as] by auto
  then have "block_path_from_planner_path (pa_path b) \<in> set ?paths"
    by (force simp: block_plan_from_assignments_def Let_def map_of_block_paths b(1))
  moreover have "bp_path_id (block_path_from_planner_path (pa_path b)) = ?id"
    by (simp add: block_path_from_planner_path_def b(3))
  ultimately have "map_of (rev (map (\<lambda>p. (bp_path_id p, p)) ?paths)) ?id =
      Some (block_path_from_planner_path (pa_path b))"
    using map_of_keyed_list [of bp_path_id ?paths "block_path_from_planner_path (pa_path b)"] by simp
  then have "path_is_relay ?paths ?id \<longleftrightarrow> pp_kind (pa_path b) = ''relay''"
    by (simp add: path_is_relay_def block_path_from_planner_path_def)
  moreover have "pp_kind (pa_path b) = pp_kind (pa_path a)"
    using assms b(2,3) by (intro path_id_kind) (auto simp: plain_kinds_def list_all_iff)
  ultimately show ?thesis by simp
qed

section \<open>Properties of the block plan\<close>

lemma plan_result:
  assumes "plan options n cb profile mode direction = Inr p" and "0 < n"
  shows "0 < cb" and "tpl_total_bytes p = n" and "tpl_chunk_bytes p = cb"
    and "mset (concat (map pa_chunks (tpl_assignments p))) = mset (make_chunks n cb)"
    and "plain_kinds direction (tpl_assignments p)"
proof -
  from plan_Inr [OF assms] have cb: "0 < cb"
    and po: "plan_over options (make_chunks n cb) n cb profile mode direction = Inr p" by auto
  have "\<forall>c \<in> set (make_chunks n cb). 0 < pc_bytes c \<and> pc_bytes c \<le> cb"
    using make_chunks_bytes [OF cb] by blast
  note res = plan_over_Inr [OF po this cb]
  show "0 < cb" "tpl_total_bytes p = n" "tpl_chunk_bytes p = cb"
    "mset (concat (map pa_chunks (tpl_assignments p))) = mset (make_chunks n cb)"
    using cb res(1,2,3) by auto
  show "plain_kinds direction (tpl_assignments p)"
    using res(4) by (auto simp: plain_kinds_def list_all_iff build_paths_def Let_def direct_path_def
        relay_path_def split: if_splits dest!: bspec)
qed

definition block_carries :: "int \<Rightarrow> TransferBlock \<Rightarrow> bool" where
  "block_carries x b = (tb_src_offset b \<le> x \<and> x < tb_src_offset b + tb_bytes b \<and>
                        tb_dst_offset b = tb_src_offset b)"

definition piece_carries :: "int \<Rightarrow> piece \<Rightarrow> bool" where
  "piece_carries x p = (case p of (_, s, d, n) \<Rightarrow> s \<le> x \<and> x < s + n \<and> d = s)"

lemma piece_carries_split: "piece_carries x \<circ> split_piece path_id = carries x"
  by (auto simp: fun_eq_iff piece_carries_def split_piece_def carries_def)

lemma piece_carries_block: "piece_carries x \<circ> block_piece = block_carries x"
  by (auto simp: fun_eq_iff piece_carries_def block_piece_def block_carries_def)

lemma assignment_pieces_carries:
  assumes "\<forall>c \<in> set (pa_chunks a). 0 < pc_bytes c"
  shows "length (filter (piece_carries x) (assignment_pieces cb a)) =
         length (filter (carries x) (pa_chunks a))"
proof -
  have "length (filter (piece_carries x) (concat (map (\<lambda>c. map (split_piece q) (split_chunk c cb)) cs))) =
        length (filter (carries x) cs)" if "\<forall>c \<in> set cs. 0 < pc_bytes c" for cs q
    using that by (induction cs) (auto simp: filter_map piece_carries_split split_chunk_carries)
  with assms show ?thesis by (simp add: assignment_pieces_def)
qed

lemma blocks_carry:
  assumes "\<forall>a \<in> set as. \<forall>c \<in> set (pa_chunks a). 0 < pc_bytes c"
  shows "length (filter (block_carries x) (assignment_blocks pid cb allowed as)) =
         length (filter (carries x) (concat (map pa_chunks as)))"
proof -
  have "length (filter (block_carries x) (assignment_blocks pid cb allowed as)) =
        length (filter (piece_carries x) (map block_piece (assignment_blocks pid cb allowed as)))"
    by (simp add: filter_map piece_carries_block)
  also have "\<dots> = length (filter (piece_carries x) (concat (map (assignment_pieces cb) as)))"
    by (simp add: assignment_blocks_pieces)
  also have "\<dots> = length (filter (carries x) (concat (map pa_chunks as)))"
    using assms by (induction as) (simp_all add: assignment_pieces_carries)
  finally show ?thesis .
qed

lemma block_mem_piece:
  assumes "b \<in> set (assignment_blocks pid cb allowed as)"
  obtains a c s where "a \<in> set as" "c \<in> set (pa_chunks a)" "s \<in> set (split_chunk c cb)"
    "tb_path_id b = planner_path_id (pa_path a)" "tb_bytes b = pc_bytes s"
proof -
  have "block_piece b \<in> set (map block_piece (assignment_blocks pid cb allowed as))"
    using assms by simp
  then have "block_piece b \<in> set (concat (map (assignment_pieces cb) as))"
    by (simp only: assignment_blocks_pieces)
  with that show thesis
    by (auto simp: assignment_pieces_def block_piece_def split_piece_def)
qed

lemma bl_blocks_for_plan:
  "bl_blocks (block_plan_for_transfer_plan p seed direction meta) =
     assignment_blocks (''block-plan-'' @ seed) (tpl_chunk_bytes p)
       (map (\<lambda>a. planner_path_id (pa_path a)) (filter (\<lambda>a. pa_chunks a \<noteq> []) (tpl_assignments p)))
       (tpl_assignments p)"
  by (simp add: block_plan_for_transfer_plan_def block_plan_from_assignments_def Let_def)

lemma plan_chunk_total:
  assumes "plan options n cb profile mode direction = Inr p" and "0 < n"
  shows "chunk_total (concat (map pa_chunks (tpl_assignments p))) = n"
proof -
  note res = plan_result [OF assms]
  have "chunk_total (concat (map pa_chunks (tpl_assignments p))) = chunk_total (make_chunks n cb)"
    unfolding chunk_total_def by (metis res(4) mset_map sum_mset_sum_list)
  with make_chunks_total [OF res(1), of n] assms(2) show ?thesis by simp
qed

lemma plan_blocks_carry:
  assumes "plan options n cb profile mode direction = Inr p" and "0 \<le> x" and "x < n"
  shows "length (filter (block_carries x) (bl_blocks (block_plan_for_transfer_plan p seed dir meta))) = 1"
proof -
  have n: "0 < n" using assms(2,3) by simp
  note res = plan_result [OF assms(1) n]
  have "set (concat (map pa_chunks (tpl_assignments p))) = set (make_chunks n cb)"
    by (metis res(4) set_mset_mset)
  then have "\<forall>a \<in> set (tpl_assignments p). \<forall>c \<in> set (pa_chunks a). 0 < pc_bytes c"
    using make_chunks_bytes [OF res(1), of _ n] by auto
  then show ?thesis
    using length_filter_mset [OF res(4), of "carries x"] make_chunks_carry [OF res(1) assms(2,3)]
    by (simp add: bl_blocks_for_plan blocks_carry)
qed

text \<open>
  C14: the block plan of a planned transfer moves every byte exactly once, in uniquely named blocks
  no larger than the chunk size, each allowed on the path it is bound to, and its declared total is
  the transfer size.
\<close>

theorem block_plan_moves_every_byte_once:
  fixes seed dir :: string and meta :: mapping
  assumes "plan options n cb profile mode direction = Inr p" and "0 \<le> x" and "x < n"
  defines "bplan \<equiv> block_plan_for_transfer_plan p seed dir meta"
  shows "length (filter (block_carries x) (bl_blocks bplan)) = 1 \<and>
    bl_total_bytes bplan = n \<and>
    distinct (map tb_block_id (bl_blocks bplan)) \<and>
    list_all (\<lambda>b. tb_bytes b \<le> cb \<and> tb_path_id b \<in> set (tb_allowed_path_ids b) \<and>
      tb_path_id b \<in> set (map bp_path_id (bl_paths bplan))) (bl_blocks bplan)"
proof -
  have n: "0 < n" using assms(2,3) by simp
  note res = plan_result [OF assms(1) n]
  let ?as = "tpl_assignments p"
  have "length (filter (block_carries x) (bl_blocks bplan)) = 1"
    unfolding bplan_def by (rule plan_blocks_carry [OF assms(1-3)])
  moreover have "distinct (map tb_block_id (bl_blocks bplan))"
    unfolding bplan_def bl_blocks_for_plan by (rule numbered_distinct [OF assignment_blocks_numbered])
  moreover have "bl_total_bytes bplan = n"
    by (simp add: bplan_def block_plan_for_transfer_plan_def block_plan_from_assignments_def Let_def res(2))
  moreover have "tb_bytes b \<le> cb \<and> tb_path_id b \<in> set (tb_allowed_path_ids b) \<and>
      tb_path_id b \<in> set (map bp_path_id (bl_paths bplan))" if b: "b \<in> set (bl_blocks bplan)" for b
  proof -
    from b obtain a c s where a: "a \<in> set ?as" "c \<in> set (pa_chunks a)" "s \<in> set (split_chunk c cb)"
      "tb_path_id b = planner_path_id (pa_path a)" "tb_bytes b = pc_bytes s"
      unfolding bplan_def bl_blocks_for_plan res(3) by (rule block_mem_piece)
    have "tb_allowed_path_ids b = map (\<lambda>a. planner_path_id (pa_path a)) (filter (\<lambda>a. pa_chunks a \<noteq> []) ?as)"
      using b unfolding bplan_def bl_blocks_for_plan by (rule assignment_blocks_allowed)
    moreover have "set (map bp_path_id (bl_paths bplan)) = (planner_path_id \<circ> pa_path) ` set ?as"
      by (simp add: bplan_def block_plan_for_transfer_plan_def block_plan_from_assignments_def Let_def
          block_plan_path_ids set_block_path_keys del: map_map set_map)
    ultimately show ?thesis
      using a split_chunk_bounded [OF a(3)] res(1) by (auto simp: image_iff)
  qed
  ultimately show ?thesis by (simp add: list_all_iff)
qed

theorem block_plan_moves_every_byte_once_witness:
  "\<exists>p. plan default_options 10 4 sample_profile POOL ''h2d'' = Inr p \<and>
     length (filter (block_carries 7) (bl_blocks (block_plan_for_transfer_plan p ''s'' ''h2d'' []))) = 1"
proof -
  obtain p where p: "plan default_options 10 4 sample_profile POOL ''h2d'' = Inr p"
    using plan_total [of 4 sample_profile "''h2d''" POOL default_options 10] sample_direct by auto
  with block_plan_moves_every_byte_once [OF p, of 7] show ?thesis by auto
qed

lemma sum_filter_split:
  "sum_list (map f (filter P xs)) + sum_list (map f (filter (\<lambda>x. \<not> P x) xs)) = (sum_list (map f xs) :: int)"
  by (induction xs) auto

lemma chunk_total_concat:
  "chunk_total (concat (map f xs)) = sum_list (map (\<lambda>x. chunk_total (f x)) xs)"
  by (induction xs) auto

definition piece_bytes :: "piece \<Rightarrow> int" where
  "piece_bytes p = snd (snd (snd p))"

lemma assignment_pieces_bytes:
  "sum_list (map piece_bytes (assignment_pieces cb a)) = chunk_total (pa_chunks a)"
proof -
  have "sum_list (map piece_bytes (concat (map (\<lambda>c. map (split_piece q) (split_chunk c cb)) cs))) =
        chunk_total cs" for cs q
  proof (induction cs)
    case Nil
    then show ?case by simp
  next
    case (Cons c cs)
    then show ?case
      using split_chunk_total [of c cb]
      by (simp add: piece_bytes_def split_piece_def comp_def chunk_total_def)
  qed
  then show ?thesis by (simp add: assignment_pieces_def)
qed

lemma assignment_pieces_path: "q \<in> set (assignment_pieces cb a) \<Longrightarrow> fst q = planner_path_id (pa_path a)"
  by (auto simp: assignment_pieces_def split_piece_def)

lemma pieces_bytes_where:
  "(\<And>a. a \<in> set as \<Longrightarrow> P (planner_path_id (pa_path a)) = Q a) \<Longrightarrow>
   sum_list (map piece_bytes (filter (\<lambda>q. P (fst q)) (concat (map (assignment_pieces cb) as)))) =
   sum_list (map (\<lambda>a. chunk_total (pa_chunks a)) (filter Q as))"
proof (induction as)
  case Nil
  then show ?case by simp
next
  case (Cons a as)
  have "filter (\<lambda>q. P (fst q)) (assignment_pieces cb a) = (if Q a then assignment_pieces cb a else [])"
    using assignment_pieces_path [of _ cb a] Cons.prems [of a]
    by (auto simp: filter_id_conv filter_empty_conv)
  with Cons show ?case by (auto simp: assignment_pieces_bytes)
qed

lemma blocks_bytes_where:
  assumes "\<And>a. a \<in> set as \<Longrightarrow> P (planner_path_id (pa_path a)) = Q a"
  shows "sum_list (map tb_bytes (filter (\<lambda>b. P (tb_path_id b)) (assignment_blocks pid cb allowed as))) =
    sum_list (map (\<lambda>a. chunk_total (pa_chunks a)) (filter Q as))"
proof -
  let ?bs = "assignment_blocks pid cb allowed as"
  have "sum_list (map tb_bytes (filter (\<lambda>b. P (tb_path_id b)) ?bs)) =
      sum_list (map piece_bytes (filter (\<lambda>q. P (fst q)) (map block_piece ?bs)))"
    by (simp add: filter_map comp_def block_piece_def piece_bytes_def)
  also have "\<dots> = sum_list (map (\<lambda>a. chunk_total (pa_chunks a)) (filter Q as))"
    unfolding assignment_blocks_pieces by (rule pieces_bytes_where [where P = P and Q = Q, OF assms])
  finally show ?thesis .
qed

lemma plan_block_bytes:
  assumes "plan options n cb profile mode direction = Inr p" and "0 < n"
  shows "sum_list (map tb_bytes (bl_blocks (block_plan_for_transfer_plan p seed dir meta))) = n"
  using plan_chunk_total [OF assms]
    blocks_bytes_where [where P = "\<lambda>_. True" and Q = "\<lambda>_. True"]
  by (simp add: bl_blocks_for_plan chunk_total_concat)

text \<open>
  the byte split the allocator reports for a planned transfer is the planner's: the relay bytes
  are those assigned to relay paths, the direct bytes those assigned to direct paths, and the two
  add up to the transfer.
\<close>

lemma allocator_reports_the_planned_split:
  fixes seed dir :: string and meta :: mapping
  assumes "plan options n cb profile mode direction = Inr p" and "0 < n"
  defines "m \<equiv> block_plan_metadata (block_plan_for_transfer_plan p seed dir meta)"
    and "path_bytes \<equiv> \<lambda>k. sum_list (map (\<lambda>a. chunk_total (pa_chunks a))
           (filter (\<lambda>a. pp_kind (pa_path a) = k) (tpl_assignments p)))"
  shows "map_of m ''relay_bytes'' = Some (VInt (path_bytes ''relay'')) \<and>
    map_of m ''direct_bytes'' = Some (VInt (path_bytes ''direct'')) \<and>
    path_bytes ''relay'' + path_bytes ''direct'' = n"
proof -
  note res = plan_result [OF assms(1,2)]
  let ?as = "tpl_assignments p" and ?bp = "block_plan_for_transfer_plan p seed dir meta"
  have relay: "path_is_relay (bl_paths ?bp) (planner_path_id (pa_path a)) = (pp_kind (pa_path a) = ''relay'')"
    if "a \<in> set ?as" for a
    unfolding block_plan_for_transfer_plan_def Let_def
    by (rule block_plan_path_is_relay [OF res(5) that])
  have direct: "(\<not> path_is_relay (bl_paths ?bp) (planner_path_id (pa_path a))) = (pp_kind (pa_path a) = ''direct'')"
    if "a \<in> set ?as" for a
    using relay [OF that] res(5) that by (auto simp: plain_kinds_def list_all_iff)
  have not_relay: "filter (\<lambda>a. \<not> pp_kind (pa_path a) = ''relay'') ?as =
      filter (\<lambda>a. pp_kind (pa_path a) = ''direct'') ?as"
    using res(5) by (intro filter_cong) (auto simp: plain_kinds_def list_all_iff)
  have "map_of m ''relay_bytes'' = Some (VInt (path_bytes ''relay''))"
    using blocks_bytes_where [where P = "path_is_relay (bl_paths ?bp)", OF relay]
    by (simp add: m_def block_plan_metadata_def Let_def path_bytes_def bl_blocks_for_plan)
  moreover have "map_of m ''direct_bytes'' = Some (VInt (path_bytes ''direct''))"
    using blocks_bytes_where [where P = "\<lambda>i. \<not> path_is_relay (bl_paths ?bp) i", OF direct]
    by (simp add: m_def block_plan_metadata_def Let_def path_bytes_def bl_blocks_for_plan)
  moreover have "path_bytes ''relay'' + path_bytes ''direct'' = chunk_total (concat (map pa_chunks ?as))"
  proof -
    have "path_bytes ''relay'' + path_bytes ''direct'' = sum_list (map (\<lambda>a. chunk_total (pa_chunks a)) ?as)"
      using sum_filter_split [of "\<lambda>a. chunk_total (pa_chunks a)" "\<lambda>a. pp_kind (pa_path a) = ''relay''" ?as]
      by (simp add: path_bytes_def not_relay)
    also have "\<dots> = chunk_total (concat (map pa_chunks ?as))"
      by (rule chunk_total_concat [symmetric])
    finally show ?thesis .
  qed
  moreover have "chunk_total (concat (map pa_chunks ?as)) = n" by (rule plan_chunk_total [OF assms(1,2)])
  ultimately show ?thesis by simp
qed

theorem allocator_reports_the_planned_split_witness:
  "\<exists>p d r. plan default_options 10 4 sample_profile POOL ''h2d'' = Inr p \<and>
     map_of (block_plan_metadata (block_plan_for_transfer_plan p ''s'' ''h2d'' [])) ''direct_bytes'' = Some (VInt d) \<and>
     map_of (block_plan_metadata (block_plan_for_transfer_plan p ''s'' ''h2d'' [])) ''relay_bytes'' = Some (VInt r) \<and>
     r + d = 10"
proof -
  obtain p where p: "plan default_options 10 4 sample_profile POOL ''h2d'' = Inr p"
    using plan_total [of 4 sample_profile "''h2d''" POOL default_options 10] sample_direct by auto
  with allocator_reports_the_planned_split [OF p, of "''s''" "''h2d''" "[]"] show ?thesis by auto
qed

section \<open>The queue\<close>

lemma dget_default_Nil [simp]: "dget_default [] k v = v"
  by (simp add: dget_default_def)

lemma fold_bump:
  "dget_default (fold (\<lambda>r. bump (f r) (w r)) rs d) s 0 =
   dget_default d s 0 + sum_list (map w (filter (\<lambda>r. f r = s) rs))"
  by (induction rs arbitrary: d) (auto simp: bump_def dget_default_update)

lemma sum_list_ones: "sum_list (map (\<lambda>x. 1 :: int) xs) = int (length xs)"
  by (induction xs) auto

text \<open>
  The queue summary is the record count and, for each state, the number of records and of bytes
  in that state.
\<close>

lemma queue_summary_counts:
  "qs_block_count (queue_summary records) = int (length records) \<and>
   dget_default (qs_states (queue_summary records)) s 0 =
     int (length (filter (\<lambda>r. bq_state r = s) records)) \<and>
   dget_default (qs_bytes_by_state (queue_summary records)) s 0 =
     sum_list (map bq_bytes (filter (\<lambda>r. bq_state r = s) records))"
  by (simp add: queue_summary_def fold_bump sum_list_ones)

end
