(* ===== verification/Block_Runtime.thy ===== *)
theory Block_Runtime
  imports Block_Plan
begin

text \<open>
  The daemon's record of every block of a transfer, \<open>turbobus/daemon/block_runtime.py\<close>: the
  records made from a block plan, how ticket issue, transfer status and worker progress advance
  them, and the views derived from them.  The daemon keeps the records as dictionaries between
  calls and rebuilds them field by field; here a record is the typed value throughout.
\<close>

section \<open>Data\<close>

record BlockRuntimeRecord =
  bk_transfer_id :: string
  bk_plan_id :: string
  bk_block_id :: string
  bk_path_id :: string
  bk_path_kind :: string
  bk_direction :: string
  bk_target_device :: int
  bk_relay_device :: "int option"
  bk_state :: string
  bk_attempt :: int
  bk_src_offset :: int
  bk_dst_offset :: int
  bk_bytes :: int
  bk_allowed_path_ids :: "string list"
  bk_lease_ids :: "string list"
  bk_plan_generation :: int
  bk_ticket_id :: "string option"
  bk_issued_at :: "rat option"
  bk_started_at :: "rat option"
  bk_completed_at :: "rat option"
  bk_error :: "string option"

text \<open>
  Completion evidence: the two error fields, as the text they print to, and the whole mapping.
\<close>

record CompletionEvidence =
  ce_error :: "string option"
  ce_failure_source :: "string option"
  ce_fields :: mapping

section \<open>Records of a block plan\<close>

definition lookup_path :: "BlockPath list \<Rightarrow> string \<Rightarrow> BlockPath option" where
  "lookup_path paths path_id = map_of (rev (map (\<lambda>p. (bp_path_id p, p)) paths)) path_id"

definition block_record ::
  "string \<Rightarrow> BlockPlan \<Rightarrow> int \<Rightarrow> (int, string list) dict \<Rightarrow> TransferBlock \<Rightarrow> BlockRuntimeRecord" where
  "block_record transfer_id bplan plan_generation relay_leases block =
     (let path = lookup_path (bl_paths bplan) (tb_path_id block);
          relay_device = (case path of None \<Rightarrow> None | Some p \<Rightarrow> bp_relay_device p)
      in \<lparr>bk_transfer_id = transfer_id, bk_plan_id = bl_plan_id bplan,
          bk_block_id = tb_block_id block, bk_path_id = tb_path_id block,
          bk_path_kind = (case path of None \<Rightarrow> ''unknown'' | Some p \<Rightarrow> bp_kind p),
          bk_direction = (case path of None \<Rightarrow> bl_direction bplan | Some p \<Rightarrow> bp_direction p),
          bk_target_device = (case path of None \<Rightarrow> -1 | Some p \<Rightarrow> bp_target_device p),
          bk_relay_device = relay_device, bk_state = ''queued'', bk_attempt = tb_attempt block,
          bk_src_offset = tb_src_offset block, bk_dst_offset = tb_dst_offset block,
          bk_bytes = tb_bytes block, bk_allowed_path_ids = tb_allowed_path_ids block,
          bk_lease_ids = (case relay_device of None \<Rightarrow> []
                          | Some d \<Rightarrow> dget_default relay_leases d []),
          bk_plan_generation = plan_generation, bk_ticket_id = None, bk_issued_at = None,
          bk_started_at = None, bk_completed_at = None, bk_error = None\<rparr>)"

definition runtime_records_for_block_plan ::
  "string \<Rightarrow> BlockPlan option \<Rightarrow> int \<Rightarrow> (int, string list) dict option
     \<Rightarrow> BlockRuntimeRecord list" where
  "runtime_records_for_block_plan transfer_id block_plan plan_generation lease_ids_by_relay =
     (case block_plan of
        None \<Rightarrow> []
      | Some bplan \<Rightarrow>
          map (block_record transfer_id bplan plan_generation
                 (case lease_ids_by_relay of None \<Rightarrow> [] | Some m \<Rightarrow> m)) (bl_blocks bplan))"

definition mark_ticket_issued ::
  "BlockRuntimeRecord list \<Rightarrow> string \<Rightarrow> rat \<Rightarrow> BlockRuntimeRecord list" where
  "mark_ticket_issued records ticket_id issued_at =
     map (\<lambda>r. r\<lparr>bk_ticket_id := Some ticket_id, bk_issued_at := Some issued_at\<rparr>) records"

section \<open>Advancing records\<close>

text \<open>\<open>record.started_at or float(now)\<close> and \<open>error or state\<close>.\<close>

definition or_now :: "rat option \<Rightarrow> rat \<Rightarrow> rat" where
  "or_now t now = (case t of None \<Rightarrow> now | Some x \<Rightarrow> if x = 0 then now else x)"

definition or_text :: "string option \<Rightarrow> string \<Rightarrow> string" where
  "or_text e s = (case e of None \<Rightarrow> s | Some x \<Rightarrow> if x = [] then s else x)"

definition running_record :: "rat \<Rightarrow> BlockRuntimeRecord \<Rightarrow> BlockRuntimeRecord" where
  "running_record now r =
     (if bk_state r \<in> {''completed'', ''failed'', ''canceled''} then r
      else r\<lparr>bk_state := ''running'', bk_started_at := Some (or_now (bk_started_at r) now)\<rparr>)"

definition completed_record :: "rat \<Rightarrow> BlockRuntimeRecord \<Rightarrow> BlockRuntimeRecord" where
  "completed_record now r =
     r\<lparr>bk_state := ''completed'', bk_started_at := Some (or_now (bk_started_at r) now),
       bk_completed_at := Some now, bk_error := None\<rparr>"

text \<open>The \<open>replace\<close> of a failed or canceled block, shared by both callers.\<close>

definition ended_record ::
  "string \<Rightarrow> string option \<Rightarrow> rat \<Rightarrow> BlockRuntimeRecord \<Rightarrow> BlockRuntimeRecord" where
  "ended_record state error now r =
     r\<lparr>bk_state := state, bk_started_at := Some (or_now (bk_started_at r) now),
       bk_completed_at := Some now, bk_error := Some (or_text error state)\<rparr>"

fun terminal_partial_loop ::
  "string \<Rightarrow> string option \<Rightarrow> rat \<Rightarrow> int \<Rightarrow> BlockRuntimeRecord list \<Rightarrow> BlockRuntimeRecord list" where
  "terminal_partial_loop state error now remaining [] = []"
| "terminal_partial_loop state error now remaining (r # rs) =
     (if remaining \<ge> bk_bytes r
      then completed_record now r # terminal_partial_loop state error now (remaining - bk_bytes r) rs
      else ended_record state error now r # terminal_partial_loop state error now remaining rs)"

definition terminal_partial_records ::
  "BlockRuntimeRecord list \<Rightarrow> string \<Rightarrow> int \<Rightarrow> string option \<Rightarrow> rat \<Rightarrow> BlockRuntimeRecord list" where
  "terminal_partial_records records state bytes_completed error now =
     terminal_partial_loop state error now (max 0 bytes_completed) records"

definition completion_error :: "CompletionEvidence option \<Rightarrow> string option" where
  "completion_error evidence =
     (case evidence of
        None \<Rightarrow> None
      | Some e \<Rightarrow> (case ce_error e of Some t \<Rightarrow> Some t | None \<Rightarrow> ce_failure_source e))"

definition status_records ::
  "BlockRuntimeRecord list \<Rightarrow> TransferStatusState \<Rightarrow> int \<Rightarrow> CompletionEvidence option \<Rightarrow> rat
     \<Rightarrow> BlockRuntimeRecord list" where
  "status_records current status_state bytes_completed evidence now =
     (case status_state of
        RUNNING \<Rightarrow> map (running_record now) current
      | COMPLETE \<Rightarrow> map (completed_record now) current
      | SUBMITTED \<Rightarrow> current
      | _ \<Rightarrow> terminal_partial_records current (state_value status_state) bytes_completed
               (completion_error evidence) now)"

section \<open>Views\<close>

definition runtime_states :: "BlockRuntimeRecord list \<Rightarrow> (string, int) dict" where
  "runtime_states records = fold (\<lambda>r. bump (bk_state r) 1) records []"

record RuntimeSummary =
  rs_block_count :: int
  rs_states :: "(string, int) dict"
  rs_bytes_by_state :: "(string, int) dict"
  rs_bytes_by_path_kind :: "(string, int) dict"
  rs_lease_ids :: "string list"
  rs_ticket_ids :: "string list"

definition runtime_summary :: "BlockRuntimeRecord list \<Rightarrow> RuntimeSummary" where
  "runtime_summary records =
     \<lparr>rs_block_count = int (length records),
      rs_states = runtime_states records,
      rs_bytes_by_state = fold (\<lambda>r. bump (bk_state r) (bk_bytes r)) records [],
      rs_bytes_by_path_kind = fold (\<lambda>r. bump (bk_path_kind r) (bk_bytes r)) records [],
      rs_lease_ids = sort (remdups (concat (map bk_lease_ids records))),
      rs_ticket_ids = sort (remdups (concat (map (\<lambda>r. case bk_ticket_id r of None \<Rightarrow> [] | Some t \<Rightarrow> [t])
                        records)))\<rparr>"

record CleanupTarget =
  ct_block_id :: string
  ct_target_id :: string
  ct_path_id :: string
  ct_relay_device :: "int option"

definition record_cleanup_targets :: "BlockRuntimeRecord \<Rightarrow> CleanupTarget list" where
  "record_cleanup_targets r =
     map (\<lambda>lease_id. \<lparr>ct_block_id = bk_block_id r, ct_target_id = lease_id,
                      ct_path_id = bk_path_id r, ct_relay_device = bk_relay_device r\<rparr>)
       (bk_lease_ids r)"

text \<open>\<open>block_cleanup_summary\<close>: the block count, the target count and the targets.\<close>

definition block_cleanup_summary :: "BlockRuntimeRecord list \<Rightarrow> int \<times> int \<times> CleanupTarget list" where
  "block_cleanup_summary records =
     (let targets = concat (map record_cleanup_targets records)
      in (int (length records), int (length targets), targets))"

definition observed_fields :: "string list" where
  "observed_fields =
     [''ticket_id'', ''transfer_id'', ''plan_generation'', ''verified_bytes'', ''expected_bytes'',
      ''direct_bytes'', ''relay_bytes'', ''direct_chunks'', ''relay_chunks'', ''path'', ''executor'']"

definition completion_observed_view :: "CompletionEvidence option \<Rightarrow> mapping option" where
  "completion_observed_view evidence =
     (case evidence of
        None \<Rightarrow> None
      | Some e \<Rightarrow>
          (let observed = concat (map (\<lambda>f. case map_of (ce_fields e) f of None \<Rightarrow> [] | Some v \<Rightarrow> [(f, v)])
                            observed_fields)
           in if observed = [] then None else Some observed))"

record BlockProgress =
  bg_block_id :: string
  bg_state :: "string option"

record RuntimeEvidence =
  re_available :: bool
  re_completion_source :: "string option"
  re_summary :: RuntimeSummary
  re_records :: "BlockRuntimeRecord list"
  re_completion_observed :: "mapping option"
  re_cleanup :: "int \<times> int \<times> CleanupTarget list"
  re_worker_block_progress :: "(int \<times> int \<times> BlockProgress list) option"

definition runtime_evidence ::
  "BlockRuntimeRecord list \<Rightarrow> string option \<Rightarrow> CompletionEvidence option \<Rightarrow> RuntimeEvidence" where
  "runtime_evidence records completion_source evidence =
     \<lparr>re_available = (records \<noteq> []), re_completion_source = completion_source,
      re_summary = runtime_summary records, re_records = records,
      re_completion_observed = completion_observed_view evidence,
      re_cleanup = block_cleanup_summary records, re_worker_block_progress = None\<rparr>"

definition ticket_metadata_view ::
  "BlockRuntimeRecord list \<Rightarrow> (RuntimeSummary \<times> BlockRuntimeRecord list) option" where
  "ticket_metadata_view records =
     (if records = [] then None else Some (runtime_summary records, records))"

record QueueViewRecord =
  qv_block_id :: string
  qv_path_id :: string
  qv_state :: string
  qv_attempt :: int
  qv_bytes :: int
  qv_error :: "string option"
  qv_lease_ids :: "string list"
  qv_ticket_id :: "string option"

record QueueView =
  qw_available :: bool
  qw_block_count :: int
  qw_states :: "(string, int) dict"
  qw_bytes_by_state :: "(string, int) dict"
  qw_records :: "QueueViewRecord list"

definition queue_view :: "BlockRuntimeRecord list \<Rightarrow> QueueView" where
  "queue_view records =
     (let summary = runtime_summary records
      in \<lparr>qw_available = (records \<noteq> []), qw_block_count = rs_block_count summary,
          qw_states = rs_states summary, qw_bytes_by_state = rs_bytes_by_state summary,
          qw_records = map (\<lambda>r. \<lparr>qv_block_id = bk_block_id r, qv_path_id = bk_path_id r,
            qv_state = bk_state r, qv_attempt = bk_attempt r, qv_bytes = bk_bytes r,
            qv_error = bk_error r, qv_lease_ids = bk_lease_ids r, qv_ticket_id = bk_ticket_id r\<rparr>)
            records\<rparr>)"

section \<open>The two entry points\<close>

text \<open>
  The evidence is absent when there are no records.  Worker progress adds the completed bytes, the
  number of reported blocks and their reports; the identifiers it copies are left out.
\<close>

definition advance_for_status ::
  "BlockRuntimeRecord list \<Rightarrow> string \<Rightarrow> int \<Rightarrow> string option \<Rightarrow> CompletionEvidence option \<Rightarrow> rat
     \<Rightarrow> (BlockRuntimeRecord list \<times> RuntimeEvidence option) result" where
  "advance_for_status current state bytes_completed completion_source evidence now =
     (if current = [] then Inr ([], None)
      else rbind (TransferStatusState_of state) (\<lambda>status_state.
        let updated = status_records current status_state bytes_completed evidence now
        in Inr (updated, Some (runtime_evidence updated completion_source evidence))))"

record WorkerProgress =
  wpg_records :: "BlockProgress list"
  wpg_state :: "string option"
  wpg_bytes_completed :: int

definition progress_by_block :: "BlockProgress list \<Rightarrow> (string, BlockProgress) dict" where
  "progress_by_block items = fold (\<lambda>i. AList.update (bg_block_id i) i) items []"

definition progress_state :: "BlockRuntimeRecord \<Rightarrow> BlockProgress \<Rightarrow> string" where
  "progress_state r p =
     (let state = (case bg_state p of None \<Rightarrow> bk_state r | Some s \<Rightarrow> s);
          state = (if state = ''complete'' then ''completed'' else state)
      in if state = ''cancelled'' then ''canceled'' else state)"

definition progress_record ::
  "(string, BlockProgress) dict \<Rightarrow> CompletionEvidence option \<Rightarrow> rat \<Rightarrow> BlockRuntimeRecord
     \<Rightarrow> BlockRuntimeRecord" where
  "progress_record by_block evidence now r =
     (case map_of by_block (bk_block_id r) of
        None \<Rightarrow> r
      | Some p \<Rightarrow>
          (let state = progress_state r p
           in if state = ''completed'' then completed_record now r
              else if state \<in> {''failed'', ''canceled''}
              then ended_record state (completion_error evidence) now r
              else if state = ''running'' then running_record now r
              else r))"

definition advance_from_worker_progress ::
  "BlockRuntimeRecord list \<Rightarrow> WorkerProgress \<Rightarrow> string option \<Rightarrow> CompletionEvidence option \<Rightarrow> rat
     \<Rightarrow> (BlockRuntimeRecord list \<times> RuntimeEvidence option) result" where
  "advance_from_worker_progress current progress completion_source evidence now =
     (if current = [] then Inr ([], None)
      else let by_block = progress_by_block (wpg_records progress)
           in if by_block = []
              then advance_for_status current
                     (case wpg_state progress of None \<Rightarrow> ''running'' | Some s \<Rightarrow> s)
                     (wpg_bytes_completed progress) completion_source evidence now
              else let updated = map (progress_record by_block evidence now) current
                   in Inr (updated,
                        Some ((runtime_evidence updated completion_source evidence)
                          \<lparr>re_worker_block_progress := Some (wpg_bytes_completed progress,
                             int (length by_block), map snd by_block)\<rparr>)))"

section \<open>What advancing keeps\<close>

text \<open>Everything of a record but its state, times and error.\<close>

definition same_block :: "BlockRuntimeRecord \<Rightarrow> BlockRuntimeRecord \<Rightarrow> bool" where
  "same_block r r' =
     (r' = r\<lparr>bk_state := bk_state r', bk_started_at := bk_started_at r',
             bk_completed_at := bk_completed_at r', bk_error := bk_error r'\<rparr>)"

lemma same_block_refl [simp]: "same_block r r"
  by (simp add: same_block_def)

lemma same_block_steps [simp]:
  "same_block r (running_record now r)" "same_block r (completed_record now r)"
  "same_block r (ended_record state error now r)" "same_block r (progress_record d e now r)"
  by (simp_all add: same_block_def running_record_def completed_record_def ended_record_def
      progress_record_def Let_def split: option.splits)

lemma terminal_partial_same: "list_all2 same_block rs (terminal_partial_loop state error now n rs)"
  by (induction state error now n rs rule: terminal_partial_loop.induct) auto

lemma list_all2_map_self: "(\<And>x. P x (f x)) \<Longrightarrow> list_all2 P xs (map f xs)"
  by (induction xs) auto

lemma status_records_same: "list_all2 same_block rs (status_records rs state n evidence now)"
  by (cases state)
     (auto simp: status_records_def terminal_partial_records_def terminal_partial_same
       list_all2_map_self list.rel_refl)

section \<open>Records are consistent\<close>

definition terminal_states :: "string set" where
  "terminal_states = {''completed'', ''failed'', ''canceled''}"

text \<open>
  The invariant of a block record: its state is one of five, a terminal record has both times, a
  queued one has neither, and the error is set exactly in the failed and canceled states.
\<close>

definition record_ok :: "BlockRuntimeRecord \<Rightarrow> bool" where
  "record_ok r =
     (bk_state r \<in> {''queued'', ''running''} \<union> terminal_states \<and>
      (bk_state r \<in> terminal_states \<longleftrightarrow> bk_completed_at r \<noteq> None) \<and>
      (bk_state r = ''queued'' \<longleftrightarrow> bk_started_at r = None) \<and>
      (bk_error r \<noteq> None \<longleftrightarrow> bk_state r \<in> {''failed'', ''canceled''}) \<and>
      bk_error r \<noteq> Some [])"

lemmas record_defs = record_ok_def terminal_states_def running_record_def completed_record_def
  ended_record_def

lemma block_record_ok: "record_ok (block_record t p g l b)"
  by (simp add: block_record_def record_defs Let_def)

lemma running_record_ok: "record_ok r \<Longrightarrow> record_ok (running_record now r)"
  by (auto simp: record_defs)

lemma completed_record_ok: "record_ok (completed_record now r)"
  by (simp add: record_defs)

lemma or_text_nonempty: "s \<noteq> [] \<Longrightarrow> or_text e s \<noteq> []"
  by (simp add: or_text_def split: option.splits)

lemma ended_record_ok: "state \<in> {''failed'', ''canceled''} \<Longrightarrow> record_ok (ended_record state error now r)"
  by (auto simp: record_defs or_text_nonempty)

lemma progress_record_ok: "record_ok r \<Longrightarrow> record_ok (progress_record d e now r)"
  by (auto simp: progress_record_def Let_def running_record_ok completed_record_ok ended_record_ok
      split: option.splits)

lemma terminal_partial_ok:
  "state \<in> {''failed'', ''canceled''} \<Longrightarrow> list_all record_ok (terminal_partial_loop state error now n rs)"
  by (induction state error now n rs rule: terminal_partial_loop.induct)
     (auto simp: completed_record_ok ended_record_ok)

lemma status_records_ok:
  "list_all record_ok rs \<Longrightarrow> list_all record_ok (status_records rs state n evidence now)"
  using terminal_partial_ok [of "''failed''" "completion_error evidence" now "max 0 n" rs]
    terminal_partial_ok [of "''canceled''" "completion_error evidence" now "max 0 n" rs]
  by (cases state)
     (auto simp: status_records_def terminal_partial_records_def list_all_iff running_record_ok
       completed_record_ok)

lemma list_all_map_ok: "(\<And>r. P r \<Longrightarrow> P (f r)) \<Longrightarrow> list_all P rs \<Longrightarrow> list_all P (map f rs)"
  by (induction rs) auto

section \<open>The life of a transfer's records\<close>

text \<open>
  The daemon's transitions on the records of one transfer, as it makes them: records start from a
  block plan, then the ticket, status updates and worker progress arrive in any order.
\<close>

inductive runtime_step :: "BlockRuntimeRecord list \<Rightarrow> BlockRuntimeRecord list \<Rightarrow> bool" where
  ticket: "runtime_step rs (mark_ticket_issued rs ticket_id issued_at)"
| status: "advance_for_status rs state n source evidence now = Inr (rs', ev) \<Longrightarrow> runtime_step rs rs'"
| progress: "advance_from_worker_progress rs prog source evidence now = Inr (rs', ev) \<Longrightarrow>
    runtime_step rs rs'"

inductive_cases runtime_stepE: "runtime_step rs rs'"

inductive runtime_reachable :: "BlockRuntimeRecord list \<Rightarrow> BlockRuntimeRecord list \<Rightarrow> bool"
  for rs0 :: "BlockRuntimeRecord list" where
  start: "runtime_reachable rs0 rs0"
| step: "runtime_reachable rs0 rs \<Longrightarrow> runtime_step rs rs' \<Longrightarrow> runtime_reachable rs0 rs'"

lemma advance_for_status_cases:
  assumes "advance_for_status rs state n source evidence now = Inr (rs', ev)"
  obtains "rs = []" "rs' = []" | s where "rs' = status_records rs s n evidence now"
  using assms that by (auto simp: advance_for_status_def result_simps Let_def split: if_splits)

lemma advance_from_worker_progress_cases:
  assumes "advance_from_worker_progress rs p source evidence now = Inr (rs', ev)"
  obtains "rs = []" "rs' = []" | s n where "rs' = status_records rs s n evidence now"
    | d where "rs' = map (progress_record d evidence now) rs"
  using assms that
  by (auto simp: advance_from_worker_progress_def Let_def elim: advance_for_status_cases split: if_splits)

lemma mark_ticket_ok: "list_all record_ok rs \<Longrightarrow> list_all record_ok (mark_ticket_issued rs t i)"
  unfolding mark_ticket_issued_def by (rule list_all_map_ok) (auto simp: record_defs)

lemma runtime_step_ok:
  assumes "runtime_step rs rs'" and "list_all record_ok rs"
  shows "list_all record_ok rs'"
  using assms
proof (cases rule: runtime_step.cases)
  case ticket
  with assms(2) show ?thesis by (simp add: mark_ticket_ok)
next
  case (status state n source evidence now ev)
  from status assms(2) show ?thesis
    by (auto elim!: advance_for_status_cases simp: status_records_ok)
next
  case (progress prog source evidence now ev)
  from progress assms(2) show ?thesis
    by (elim advance_from_worker_progress_cases)
       (auto simp: status_records_ok intro!: list_all_map_ok progress_record_ok)
qed

text \<open>What identifies a block: its id, plan, path, extent, attempt and leases.\<close>

definition block_key :: "BlockRuntimeRecord \<Rightarrow> string \<times> string \<times> string \<times> int \<times> int \<times> int \<times> int \<times> string list" where
  "block_key r = (bk_block_id r, bk_plan_id r, bk_path_id r, bk_src_offset r, bk_dst_offset r,
     bk_bytes r, bk_attempt r, bk_lease_ids r)"

lemma same_block_key: "same_block r r' \<Longrightarrow> block_key r' = block_key r"
  by (cases r, cases r') (simp add: same_block_def block_key_def)

lemma same_blocks_keys: "list_all2 same_block rs rs' \<Longrightarrow> map block_key rs' = map block_key rs"
  by (induction rule: list_all2_induct) (auto simp: same_block_key)

lemma runtime_step_keys:
  assumes "runtime_step rs rs'"
  shows "map block_key rs' = map block_key rs"
  using assms
proof (cases rule: runtime_step.cases)
  case ticket
  then show ?thesis by (simp add: mark_ticket_issued_def block_key_def)
next
  case (status state n source evidence now ev)
  then show ?thesis
    by (auto elim!: advance_for_status_cases intro!: same_blocks_keys simp: status_records_same)
next
  case (progress prog source evidence now ev)
  from this(1) have "rs' = rs \<or> list_all2 same_block rs rs'"
    by (rule advance_from_worker_progress_cases) (auto simp: status_records_same list_all2_map_self)
  then show ?thesis by (auto intro: same_blocks_keys)
qed

lemma reachable_keys: "runtime_reachable rs0 rs \<Longrightarrow> map block_key rs = map block_key rs0"
  by (induction rule: runtime_reachable.induct) (auto dest: runtime_step_keys)

lemma reachable_ok: "runtime_reachable rs0 rs \<Longrightarrow> list_all record_ok rs0 \<Longrightarrow> list_all record_ok rs"
  by (induction rule: runtime_reachable.induct) (auto dest: runtime_step_ok)

lemma runtime_records_ok: "list_all record_ok (runtime_records_for_block_plan t bp g m)"
  by (auto simp: runtime_records_for_block_plan_def list_all_iff block_record_ok split: option.splits)

text \<open>
  C17: from a block plan on, through any sequence of ticket issue, status updates and worker
  progress, the records stay consistent (legal state, times and error matching the state), and
  they name the same blocks with the same extents, paths and leases.
\<close>

theorem block_runtime_invariant:
  assumes "runtime_reachable (runtime_records_for_block_plan t (Some bp) g m) rs"
  shows "list_all record_ok rs \<and> map bk_block_id rs = map tb_block_id (bl_blocks bp) \<and>
    map bk_bytes rs = map tb_bytes (bl_blocks bp) \<and>
    map block_key rs = map block_key (runtime_records_for_block_plan t (Some bp) g m)"
proof -
  let ?rs0 = "runtime_records_for_block_plan t (Some bp) g m"
  have keys: "map block_key rs = map block_key ?rs0" by (rule reachable_keys [OF assms])
  have "map bk_block_id rs = map fst (map block_key rs)"
    and "map bk_bytes rs = map (fst \<circ> snd \<circ> snd \<circ> snd \<circ> snd \<circ> snd) (map block_key rs)"
    by (simp_all add: block_key_def)
  moreover have "map fst (map block_key ?rs0) = map tb_block_id (bl_blocks bp)"
    and "map (fst \<circ> snd \<circ> snd \<circ> snd \<circ> snd \<circ> snd) (map block_key ?rs0) = map tb_bytes (bl_blocks bp)"
    by (simp_all add: runtime_records_for_block_plan_def block_record_def block_key_def Let_def)
  ultimately show ?thesis
    using reachable_ok [OF assms runtime_records_ok] keys by metis
qed

definition sample_block_plan :: BlockPlan where
  "sample_block_plan = \<lparr>bl_plan_id = ''p'', bl_direction = ''h2d'', bl_total_bytes = 6,
     bl_blocks =
       [\<lparr>tb_block_id = ''p:b0'', tb_path_id = ''h2d:direct:0'', tb_attempt = 0, tb_src_offset = 0,
         tb_dst_offset = 0, tb_bytes = 4, tb_allowed_path_ids = [''h2d:direct:0''], tb_metadata = []\<rparr>,
        \<lparr>tb_block_id = ''p:b1'', tb_path_id = ''h2d:direct:0'', tb_attempt = 0, tb_src_offset = 4,
         tb_dst_offset = 4, tb_bytes = 2, tb_allowed_path_ids = [''h2d:direct:0''], tb_metadata = []\<rparr>],
     bl_paths = [], bl_metadata = []\<rparr>"

abbreviation sample_records :: "BlockRuntimeRecord list" where
  "sample_records \<equiv> runtime_records_for_block_plan ''t'' (Some sample_block_plan) 1 None"

lemma sample_running:
  "runtime_reachable sample_records (map (running_record 5) sample_records)"
proof (rule runtime_reachable.step [OF runtime_reachable.start])
  have "advance_for_status sample_records (state_value RUNNING) 0 None None 5 =
      Inr (map (running_record 5) sample_records,
           Some (runtime_evidence (map (running_record 5) sample_records) None None))"
    by (simp add: advance_for_status_def status_records_def Let_def runtime_records_for_block_plan_def
        sample_block_plan_def del: state_value.simps)
  then show "runtime_step sample_records (map (running_record 5) sample_records)"
    by (rule runtime_step.status)
qed

theorem block_runtime_invariant_witness:
  "list_all record_ok (map (running_record 5) sample_records) \<and>
   map bk_bytes (map (running_record 5) sample_records) = [4, 2]"
  using block_runtime_invariant [OF sample_running] by (simp add: sample_block_plan_def)

text \<open>Sums over the records.\<close>

definition bytes_in :: "string \<Rightarrow> BlockRuntimeRecord list \<Rightarrow> int" where
  "bytes_in state rs = sum_list (map bk_bytes (filter (\<lambda>r. bk_state r = state) rs))"

lemma bytes_in_Cons [simp]:
  "bytes_in s [] = 0" "bytes_in s (r # rs) = (if bk_state r = s then bk_bytes r else 0) + bytes_in s rs"
  by (simp_all add: bytes_in_def)

lemma state_of_steps [simp]:
  "bk_state (completed_record now r) = ''completed''" "bk_state (ended_record s e now r) = s"
  "bk_bytes (completed_record now r) = bk_bytes r" "bk_bytes (ended_record s e now r) = bk_bytes r"
  by (simp_all add: completed_record_def ended_record_def)

lemma terminal_partial_bytes:
  assumes "0 \<le> n" and "state \<noteq> ''completed''"
  shows "bytes_in ''completed'' (terminal_partial_loop state error now n rs) \<le> n"
  using assms
proof (induction state error now n rs rule: terminal_partial_loop.induct)
  case (1 state error now remaining)
  then show ?case by simp
next
  case (2 state error now remaining r rs)
  then show ?case by (cases "remaining \<ge> bk_bytes r") (auto simp: algebra_simps)
qed

lemma terminal_partial_states:
  "r \<in> set (terminal_partial_loop state error now n rs) \<Longrightarrow> bk_state r = ''completed'' \<or> bk_state r = state"
  by (induction state error now n rs rule: terminal_partial_loop.induct) (auto split: if_splits)

lemma terminal_partial_all:
  "list_all (\<lambda>r. 0 \<le> bk_bytes r) rs \<Longrightarrow> sum_list (map bk_bytes rs) \<le> n \<Longrightarrow>
   terminal_partial_loop state error now n rs = map (completed_record now) rs"
proof (induction state error now n rs rule: terminal_partial_loop.induct)
  case (1 state error now remaining)
  then show ?case by simp
next
  case (2 state error now remaining r rs)
  have "0 \<le> sum_list (map bk_bytes rs)"
    using "2.prems"(1) by (intro sum_list_nonneg) (auto simp: list_all_iff)
  with 2 show ?case by auto
qed

lemma terminal_partial_sizes [simp]:
  "map bk_bytes (terminal_partial_loop state error now n rs) = map bk_bytes rs"
  by (induction state error now n rs rule: terminal_partial_loop.induct) auto

lemma bytes_in_nonneg: "list_all (\<lambda>n. 0 \<le> n) (map bk_bytes rs) \<Longrightarrow> 0 \<le> bytes_in s rs"
  by (induction rs) auto

lemma ended_record_bytes: "r = ended_record s e now x \<Longrightarrow> bk_bytes r = bk_bytes x"
  by simp

lemma terminal_partial_maximal:
  "list_all (\<lambda>n. 0 \<le> n) (map bk_bytes rs) \<Longrightarrow> r \<in> set (terminal_partial_loop state error now n rs) \<Longrightarrow>
   state \<noteq> ''completed'' \<Longrightarrow> bk_state r = state \<Longrightarrow>
   n - bytes_in ''completed'' (terminal_partial_loop state error now n rs) < bk_bytes r"
proof (induction state error now n rs rule: terminal_partial_loop.induct)
  case (1 state error now remaining)
  then show ?case by simp
next
  case (2 state error now remaining x rs)
  have "0 \<le> bytes_in ''completed'' (terminal_partial_loop state error now remaining rs)"
    by (rule bytes_in_nonneg) (use "2.prems"(1) in simp)
  with 2 show ?case
    by (cases "remaining \<ge> bk_bytes x") (auto simp: algebra_simps dest: ended_record_bytes)
qed

text \<open>
  C18: when a transfer fails or is canceled with \<open>n\<close> bytes done, every block ends either completed
  or in the reported state; the completed blocks hold at most \<open>n\<close> bytes, and the credit left is
  smaller than every block that was not completed, so no further block could have been credited.
  With full credit every block is completed.
\<close>

theorem partial_failure_credits_bytes:
  assumes "list_all (\<lambda>r. 0 \<le> bk_bytes r) rs" and "0 \<le> n" and "state \<in> {FAILED, CANCELED}"
    and "rs \<noteq> []"
    and "advance_for_status rs (state_value state) n source evidence now = Inr (rs', ev)"
  shows "bytes_in ''completed'' rs' \<le> n \<and>
    list_all (\<lambda>r. bk_state r = ''completed'' \<or>
      bk_state r = state_value state \<and> n - bytes_in ''completed'' rs' < bk_bytes r) rs' \<and>
    (sum_list (map bk_bytes rs) \<le> n \<longrightarrow> list_all (\<lambda>r. bk_state r = ''completed'') rs')"
proof -
  let ?e = "completion_error evidence"
  have rs': "rs' = terminal_partial_loop (state_value state) ?e now n rs"
    using assms(2-5)
    by (auto simp: advance_for_status_def status_records_def terminal_partial_records_def Let_def
        simp del: state_value.simps)
  have ns: "state_value state \<noteq> ''completed''" using assms(3) by auto
  have nn: "list_all (\<lambda>n. 0 \<le> n) (map bk_bytes rs)" using assms(1) by (simp add: list_all_iff)
  have "bytes_in ''completed'' rs' \<le> n"
    unfolding rs' by (rule terminal_partial_bytes [OF assms(2) ns])
  moreover have "bk_state r = ''completed'' \<or>
      bk_state r = state_value state \<and> n - bytes_in ''completed'' rs' < bk_bytes r" if "r \<in> set rs'" for r
    using terminal_partial_states terminal_partial_maximal [OF nn _ ns] that unfolding rs' by blast
  moreover have "list_all (\<lambda>r. bk_state r = ''completed'') rs'" if "sum_list (map bk_bytes rs) \<le> n"
    unfolding rs' terminal_partial_all [OF assms(1) that] by (simp add: list_all_iff)
  ultimately show ?thesis by (simp add: list_all_iff)
qed

lemma sample_failure:
  "advance_for_status sample_records (state_value FAILED) 5 None None 7 =
     Inr (terminal_partial_loop ''failed'' None 7 5 sample_records,
          Some (runtime_evidence (terminal_partial_loop ''failed'' None 7 5 sample_records) None None))"
  by (simp only: advance_for_status_def TransferStatusState_roundtrip rbind_Inr)
     (simp add: status_records_def terminal_partial_records_def Let_def completion_error_def
       runtime_records_for_block_plan_def sample_block_plan_def)

theorem partial_failure_credits_bytes_witness:
  "\<exists>rs' ev. advance_for_status sample_records (state_value FAILED) 5 None None 7 = Inr (rs', ev) \<and>
     bytes_in ''completed'' rs' \<le> 5"
proof -
  have "list_all (\<lambda>r. 0 \<le> bk_bytes r) sample_records" "sample_records \<noteq> []"
    by (simp_all add: runtime_records_for_block_plan_def sample_block_plan_def block_record_def Let_def)
  with partial_failure_credits_bytes [OF _ _ _ _ sample_failure] sample_failure show ?thesis by auto
qed

text \<open>
  The cleanup summary names exactly the leases the blocks hold, once per block and lease, and
  a record made from a plan holds leases only when its path goes through a relay.
\<close>

lemma cleanup_targets_are_the_leases:
  "map (\<lambda>t. (ct_block_id t, ct_target_id t)) (snd (snd (block_cleanup_summary rs))) =
     concat (map (\<lambda>r. map (Pair (bk_block_id r)) (bk_lease_ids r)) rs) \<and>
   fst (block_cleanup_summary rs) = int (length rs) \<and>
   fst (snd (block_cleanup_summary rs)) = int (length (snd (snd (block_cleanup_summary rs)))) \<and>
   filter (\<lambda>r. bk_relay_device r = None \<and> bk_lease_ids r \<noteq> [])
     (runtime_records_for_block_plan t bp g m) = []"
proof -
  have "map (\<lambda>t. (ct_block_id t, ct_target_id t)) (concat (map record_cleanup_targets rs)) =
      concat (map (\<lambda>r. map (Pair (bk_block_id r)) (bk_lease_ids r)) rs)"
    by (induction rs) (auto simp: record_cleanup_targets_def)
  moreover have "filter (\<lambda>r. bk_relay_device r = None \<and> bk_lease_ids r \<noteq> [])
     (runtime_records_for_block_plan t bp g m) = []"
    by (auto simp: runtime_records_for_block_plan_def filter_empty_conv block_record_def Let_def
        split: option.splits)
  ultimately show ?thesis by (simp add: block_cleanup_summary_def Let_def)
qed

text \<open>Sums kept by the counters.\<close>

lemma dsum_update:
  "dict_wf d \<Longrightarrow> dsum f (AList.update k v d) =
     dsum f d + f v - (case map_of d k of None \<Rightarrow> 0 | Some w \<Rightarrow> f w)"
proof (induction d)
  case Nil
  then show ?case by simp
next
  case (Cons p d)
  then have "fst p = k \<Longrightarrow> map_of d k = None" and "dict_wf d"
    by (auto simp: dict_wf_def map_of_eq_None_iff)
  with Cons.IH show ?case by (cases p) auto
qed

lemma bump_total: "dict_wf d \<Longrightarrow> dict_wf (bump k n d) \<and> dsum id (bump k n d) = dsum id d + n"
  by (simp add: bump_def dsum_update dget_default_def split: option.splits)

lemma fold_bump_total:
  "dict_wf d \<Longrightarrow> dict_wf (fold (\<lambda>r. bump (f r) (w r)) rs d) \<and>
     dsum id (fold (\<lambda>r. bump (f r) (w r)) rs d) = dsum id d + sum_list (map w rs)"
  by (induction rs arbitrary: d) (auto simp: bump_total)

lemma runtime_summary_totals:
  "dsum id (rs_bytes_by_state (runtime_summary rs)) = sum_list (map bk_bytes rs)"
  "dsum id (rs_bytes_by_path_kind (runtime_summary rs)) = sum_list (map bk_bytes rs)"
  "dsum id (rs_states (runtime_summary rs)) = int (length rs)"
  using fold_bump_total [of "[]" bk_state bk_bytes rs] fold_bump_total [of "[]" bk_path_kind bk_bytes rs]
    fold_bump_total [of "[]" bk_state "\<lambda>_. 1" rs]
  by (simp_all add: runtime_summary_def runtime_states_def sum_list_ones)

end
