(* ===== verification/Scheduler_Leases.thy ===== *)
theory Scheduler_Leases
  imports Planner_Engine Schema_Tickets
begin

text \<open>
  The scheduler's leases, \<open>turbobus/scheduler/daemon.py\<close>: how many chunks a relay path may hold and
  which leases a plan is granted.  The lease ids come from the daemon's id factory (\<open>uuid4\<close>), here
  the argument \<open>fresh\<close> giving the id of the n-th lease made.
\<close>

record PlannerLease =
  pl_lease_id :: string
  pl_session_id :: string
  pl_relay_device :: int
  pl_chunk_limit :: int
  pl_bytes_limit :: int
  pl_direction :: string
  pl_granted_at :: rat
  pl_expires_at :: rat
  pl_job_id :: "string option"

definition relay_reservation_chunks :: "int \<Rightarrow> Session \<Rightarrow> RelayQuota option \<Rightarrow> int" where
  "relay_reservation_chunks requested_chunks session quota =
     (case quota of
        None \<Rightarrow> 0
      | Some q \<Rightarrow>
          (let requested = max 0 requested_chunks
           in if requested \<le> 0 then 0
              else min requested
                (min (max 0 (ss_max_inflight_chunks session - ss_active_chunks session))
                     (max 0 (rq_max_inflight_chunks q - rq_active_chunks q)))))"

text \<open>The specs of the relay assignments that hold chunks; none when one of them gets no chunk.\<close>

fun lease_specs ::
  "Session \<Rightarrow> (int, RelayQuota) dict \<Rightarrow> PlannerPathAssignment list \<Rightarrow> (int \<times> int \<times> int) list option" where
  "lease_specs session quotas [] = Some []"
| "lease_specs session quotas (a # as) =
     (if pp_kind (pa_path a) \<noteq> ''relay'' \<or> pa_chunks a = [] then lease_specs session quotas as
      else let relay = pp_relay_device (pa_path a);
               n = relay_reservation_chunks (int (length (pa_chunks a))) session (map_of quotas relay)
           in if n \<le> 0 then None
              else case lease_specs session quotas as of
                     None \<Rightarrow> None | Some specs \<Rightarrow> Some ((relay, n, chunk_total (pa_chunks a)) # specs))"

fun grant_leases ::
  "(nat \<Rightarrow> string) \<Rightarrow> rat \<Rightarrow> Session \<Rightarrow> (int, RelayQuota) dict \<Rightarrow> string \<Rightarrow> rat \<Rightarrow> string option \<Rightarrow> bool \<Rightarrow> nat
     \<Rightarrow> (int \<times> int \<times> int) list \<Rightarrow> PlannerLease list \<times> string option" where
  "grant_leases fresh lease_seconds session quotas direction now job_id defer i [] = ([], None)"
| "grant_leases fresh lease_seconds session quotas direction now job_id defer i ((relay, n, b) # specs) =
     (if relay \<notin> set (ss_relay_gpus session) then ([], Some ''relay GPU is not assigned to this session'')
      else case map_of quotas relay of
             None \<Rightarrow> ([], Some ''relay chunk quota is unavailable'')
           | Some quota \<Rightarrow>
               if \<not> defer \<and> \<not> can_reserve quota n then ([], Some ''relay chunk quota is unavailable'')
               else case grant_leases fresh lease_seconds session quotas direction now job_id defer (i + 1) specs of
                      (ls, Some e) \<Rightarrow> ([], Some e)
                    | (ls, None) \<Rightarrow>
                        (\<lparr>pl_lease_id = fresh i, pl_session_id = ss_session_id session,
                          pl_relay_device = relay, pl_chunk_limit = n, pl_bytes_limit = b,
                          pl_direction = direction, pl_granted_at = now,
                          pl_expires_at = now + lease_seconds, pl_job_id = job_id\<rparr> # ls, None))"

definition leases_for_plan ::
  "(nat \<Rightarrow> string) \<Rightarrow> rat \<Rightarrow> PlannerTransferPlan \<Rightarrow> Session \<Rightarrow> (int, RelayQuota) dict \<Rightarrow> string \<Rightarrow> rat
     \<Rightarrow> string option \<Rightarrow> bool \<Rightarrow> PlannerLease list \<times> string option" where
  "leases_for_plan fresh lease_seconds tplan session quotas direction now job_id defer =
     (case lease_specs session quotas (tpl_assignments tplan) of
        None \<Rightarrow> ([], Some ''relay chunk quota is unavailable'')
      | Some specs \<Rightarrow>
          if specs = [] then ([], None)
          else if \<not> defer \<and>
             ss_active_chunks session + sum_list (map (\<lambda>(r, n, b). n) specs) > ss_max_inflight_chunks session
          then ([], Some ''session chunk quota is unavailable'')
          else grant_leases fresh lease_seconds session quotas direction now job_id defer 0 specs)"

section \<open>What a granted lease promises\<close>

definition lease_chunks :: "PlannerLease list \<Rightarrow> int" where
  "lease_chunks ls = sum_list (map pl_chunk_limit ls)"

definition relay_chunks :: "int \<Rightarrow> PlannerLease list \<Rightarrow> int" where
  "relay_chunks g ls = lease_chunks (filter (\<lambda>l. pl_relay_device l = g) ls)"

lemma relay_reservation_chunks_bounds:
  "relay_reservation_chunks n s (Some q) \<le> max 0 n \<and>
   (0 < relay_reservation_chunks n s (Some q) \<longrightarrow>
      ss_active_chunks s + relay_reservation_chunks n s (Some q) \<le> ss_max_inflight_chunks s \<and>
      rq_active_chunks q + relay_reservation_chunks n s (Some q) \<le> rq_max_inflight_chunks q)"
  by (auto simp: relay_reservation_chunks_def Let_def min_def max_def)

definition relay_assignments :: "PlannerPathAssignment list \<Rightarrow> PlannerPathAssignment list" where
  "relay_assignments = filter (\<lambda>a. pp_kind (pa_path a) = ''relay'' \<and> pa_chunks a \<noteq> [])"

lemma lease_specs_Some:
  "lease_specs s qs as = Some specs \<Longrightarrow>
     map fst specs = map (\<lambda>a. pp_relay_device (pa_path a)) (relay_assignments as) \<and>
     map (\<lambda>(r, n, b). b) specs = map (\<lambda>a. chunk_total (pa_chunks a)) (relay_assignments as) \<and>
     (\<forall>(r, n, b) \<in> set specs. 0 < n \<and> ss_active_chunks s + n \<le> ss_max_inflight_chunks s \<and>
        (\<exists>q. map_of qs r = Some q \<and> can_reserve q n))"
proof (induction as arbitrary: specs)
  case Nil
  then show ?case by (simp add: relay_assignments_def)
next
  case (Cons a as)
  show ?case
  proof (cases "pp_kind (pa_path a) = ''relay'' \<and> pa_chunks a \<noteq> []")
    case False
    with Cons show ?thesis by (auto simp: relay_assignments_def)
  next
    case True
    let ?r = "pp_relay_device (pa_path a)"
    let ?n = "relay_reservation_chunks (int (length (pa_chunks a))) s (map_of qs ?r)"
    from Cons.prems True obtain rest where n: "0 < ?n" and rest: "lease_specs s qs as = Some rest"
      and specs: "specs = (?r, ?n, chunk_total (pa_chunks a)) # rest"
      by (auto simp: Let_def split: if_splits option.splits)
    obtain q where q: "map_of qs ?r = Some q"
      using n by (cases "map_of qs ?r") (auto simp: relay_reservation_chunks_def)
    have "can_reserve q ?n" "ss_active_chunks s + ?n \<le> ss_max_inflight_chunks s"
      using relay_reservation_chunks_bounds [of "int (length (pa_chunks a))" s q] n q
      by (simp_all add: can_reserve_def)
    with Cons.IH [OF rest] n q True specs show ?thesis
      by (auto simp: relay_assignments_def)
  qed
qed

lemma grant_leases_None:
  "grant_leases fresh secs s qs dir now job defer i specs = (ls, None) \<Longrightarrow>
     map (\<lambda>l. (pl_relay_device l, pl_chunk_limit l, pl_bytes_limit l)) ls = specs \<and>
     map pl_lease_id ls = map fresh [i..<i + length specs] \<and>
     list_all (\<lambda>l. pl_session_id l = ss_session_id s \<and> pl_relay_device l \<in> set (ss_relay_gpus s) \<and>
       pl_direction l = dir \<and> pl_job_id l = job \<and> pl_granted_at l = now \<and>
       pl_expires_at l = now + secs) ls"
proof (induction fresh secs s qs dir "now" job "defer" i specs arbitrary: ls rule: grant_leases.induct)
  case (1 fresh lease_seconds session quotas direction tm job_id df i)
  then show ?case by simp
next
  case (2 fresh lease_seconds session quotas direction tm job_id df i relay n b specs)
  from "2.prems" obtain q rest where r: "relay \<in> set (ss_relay_gpus session)"
      and q: "map_of quotas relay = Some q" "\<not> (\<not> df \<and> \<not> can_reserve q n)"
      and rest: "grant_leases fresh lease_seconds session quotas direction tm job_id df (i + 1) specs = (rest, None)"
      and ls: "ls = \<lparr>pl_lease_id = fresh i, pl_session_id = ss_session_id session,
        pl_relay_device = relay, pl_chunk_limit = n, pl_bytes_limit = b, pl_direction = direction,
        pl_granted_at = tm, pl_expires_at = tm + lease_seconds, pl_job_id = job_id\<rparr> # rest"
    by (auto split: if_splits option.splits prod.splits)
  have "[i..<i + length ((relay, n, b) # specs)] = i # [i + 1..<i + 1 + length specs]"
    using upt_conv_Cons [of i "i + length ((relay, n, b) # specs)"] by (simp del: upt_Suc)
  with "2.IH" [OF _ q rest] r ls show ?case by simp
qed

lemma relay_chunks_distinct:
  assumes "distinct (map pl_relay_device ls)" and "l \<in> set ls"
  shows "relay_chunks (pl_relay_device l) ls = pl_chunk_limit l"
proof -
  have "filter (\<lambda>k. pl_relay_device k = pl_relay_device l) ls = [l]"
    using assms by (induction ls) (auto simp: filter_empty_conv image_iff)
  then show ?thesis by (simp add: relay_chunks_def lease_chunks_def)
qed

text \<open>
  C21: the leases the scheduler grants for a plan whose relay paths use different relays, and a
  session that is within its chunk limit, whether or not admission is deferred: each lease by itself
  fits what the session has left, and a relay's leases together fit what the relay has left; there is one
  lease per relay path with chunks, for exactly the bytes assigned to that path, on a relay the
  session owns, under the session's id, with distinct ids when the factory's ids are distinct.  When
  admission is not deferred the leases together also fit the session's limit.  The daemon defers
  admission, so there the leases together may ask for more than the session has left (the lemma
  \<open>deferred_leases_may_exceed\<close> is such a case), and it is the daemon's admission check that refuses
  them (\<open>admission_never_overdraws\<close>).
\<close>

theorem granted_leases_fit:
  assumes "leases_for_plan fresh secs p s qs dir now job deferred = (ls, None)"
    and "distinct (map (\<lambda>a. pp_relay_device (pa_path a)) (relay_assignments (tpl_assignments p)))"
    and "ss_active_chunks s \<le> ss_max_inflight_chunks s" and "inj fresh"
  shows "(\<not> deferred \<longrightarrow> ss_active_chunks s + lease_chunks ls \<le> ss_max_inflight_chunks s) \<and>
    list_all (\<lambda>l. pl_session_id l = ss_session_id s \<and> pl_relay_device l \<in> set (ss_relay_gpus s) \<and>
      0 < pl_chunk_limit l \<and> ss_active_chunks s + pl_chunk_limit l \<le> ss_max_inflight_chunks s \<and>
      (case map_of qs (pl_relay_device l) of None \<Rightarrow> False
        | Some q \<Rightarrow> can_reserve q (relay_chunks (pl_relay_device l) ls))) ls \<and>
    map (\<lambda>l. (pl_relay_device l, pl_bytes_limit l)) ls =
      map (\<lambda>a. (pp_relay_device (pa_path a), chunk_total (pa_chunks a)))
        (relay_assignments (tpl_assignments p)) \<and>
    distinct (map pl_lease_id ls)"
proof -
  from assms(1) obtain specs where specs: "lease_specs s qs (tpl_assignments p) = Some specs"
    by (auto simp: leases_for_plan_def split: option.splits)
  note sp = lease_specs_Some [OF specs]
  show ?thesis
  proof (cases "specs = []")
    case True
    with assms(1,3) specs sp show ?thesis by (auto simp: leases_for_plan_def lease_chunks_def)
  next
    case False
    with assms(1) specs have total: "\<not> deferred \<longrightarrow>
        ss_active_chunks s + sum_list (map (\<lambda>(r, n, b). n) specs) \<le> ss_max_inflight_chunks s"
      and grant: "grant_leases fresh secs s qs dir now job deferred 0 specs = (ls, None)"
      by (auto simp: leases_for_plan_def split: if_splits)
    note gr = grant_leases_None [OF grant]
    have triples: "specs = map (\<lambda>l. (pl_relay_device l, pl_chunk_limit l, pl_bytes_limit l)) ls"
      using gr by simp
    have "map fst specs = map pl_relay_device ls" by (simp add: triples comp_def)
    with sp assms(2) have dist: "distinct (map pl_relay_device ls)" by simp
    have "sum_list (map (\<lambda>(r, n, b). n) specs) = lease_chunks ls"
      by (simp add: triples lease_chunks_def comp_def)
    moreover have "map (\<lambda>l. (pl_relay_device l, pl_bytes_limit l)) ls =
        zip (map fst specs) (map (\<lambda>(r, n, b). b) specs)"
      by (simp add: triples comp_def zip_map_map zip_same_conv_map)
    then have "map (\<lambda>l. (pl_relay_device l, pl_bytes_limit l)) ls =
        map (\<lambda>a. (pp_relay_device (pa_path a), chunk_total (pa_chunks a)))
          (relay_assignments (tpl_assignments p))"
      using sp by (simp add: zip_map_map zip_same_conv_map)
    moreover have "distinct (map pl_lease_id ls)"
      using gr assms(4) by (simp add: distinct_map inj_on_def inj_def)
    moreover have "0 < pl_chunk_limit l \<and> ss_active_chunks s + pl_chunk_limit l \<le> ss_max_inflight_chunks s \<and>
        (case map_of qs (pl_relay_device l) of None \<Rightarrow> False
        | Some q \<Rightarrow> can_reserve q (relay_chunks (pl_relay_device l) ls))" if l: "l \<in> set ls" for l
    proof -
      have "(pl_relay_device l, pl_chunk_limit l, pl_bytes_limit l) \<in> set specs"
        using l by (auto simp: triples)
      with sp show ?thesis
        by (auto simp: relay_chunks_distinct [OF dist l])
    qed
    ultimately show ?thesis using total gr by (auto simp: list_all_iff)
  qed
qed

definition sample_session :: Session where
  "sample_session = \<lparr>ss_session_id = ''s1'', ss_target_gpu = 0, ss_relay_gpus = [1],
     ss_max_inflight_chunks = 8, ss_worker_relay_capable = True, ss_active_chunks = 2, ss_active = True,
     ss_created_at = 1, ss_last_seen = 1, ss_closed_at = None\<rparr>"

definition sample_quota :: RelayQuota where
  "sample_quota = \<lparr>rq_relay_gpu = 1, rq_max_sessions = 1, rq_max_inflight_chunks = 4,
     rq_sessions = [''s1''], rq_active_chunks = 2\<rparr>"

definition sample_relay_plan :: PlannerTransferPlan where
  "sample_relay_plan = \<lparr>tpl_total_bytes = 12, tpl_chunk_bytes = 4,
     tpl_assignments = [\<lparr>pa_path = relay_path sample_profile ''h2d'' sample_relay,
       pa_chunks = [\<lparr>pc_src_offset = 0, pc_dst_offset = 0, pc_bytes = 4, pc_relay_device = None\<rparr>,
         \<lparr>pc_src_offset = 4, pc_dst_offset = 4, pc_bytes = 4, pc_relay_device = None\<rparr>,
         \<lparr>pc_src_offset = 8, pc_dst_offset = 8, pc_bytes = 4, pc_relay_device = None\<rparr>]\<rparr>],
     tpl_cost_metadata = None\<rparr>"

definition sample_ids :: "nat \<Rightarrow> string" where
  "sample_ids i = ''lease-'' @ int_str (int i)"

definition sample_leases :: "PlannerLease list" where
  "sample_leases = [\<lparr>pl_lease_id = sample_ids 0, pl_session_id = ''s1'', pl_relay_device = 1,
     pl_chunk_limit = 2, pl_bytes_limit = 12, pl_direction = ''h2d'', pl_granted_at = 5,
     pl_expires_at = 35, pl_job_id = Some ''job''\<rparr>]"

lemma sample_leases_granted:
  "leases_for_plan sample_ids 30 sample_relay_plan sample_session [(1, sample_quota)] ''h2d'' 5 (Some ''job'') deferred =
     (sample_leases, None)"
  by (simp add: leases_for_plan_def sample_relay_plan_def sample_session_def sample_quota_def
      relay_path_def sample_relay_def relay_reservation_chunks_def can_reserve_def sample_leases_def)

lemma inj_sample_ids: "inj sample_ids"
  by (simp add: inj_def sample_ids_def)

theorem granted_leases_fit_witness:
  "leases_for_plan sample_ids 30 sample_relay_plan sample_session [(1, sample_quota)] ''h2d'' 5 (Some ''job'') True =
     (sample_leases, None) \<and>
   ss_active_chunks sample_session + lease_chunks sample_leases \<le> 8 \<and>
   list_all (\<lambda>l. ss_active_chunks sample_session + pl_chunk_limit l \<le> 8) sample_leases \<and>
   distinct (map pl_lease_id sample_leases) \<and> lease_chunks sample_leases = 2"
proof -
  have dist: "distinct (map (\<lambda>a. pp_relay_device (pa_path a)) (relay_assignments (tpl_assignments sample_relay_plan)))"
    by (simp add: sample_relay_plan_def relay_assignments_def)
  have within: "ss_active_chunks sample_session \<le> ss_max_inflight_chunks sample_session"
    by (simp add: sample_session_def)
  from granted_leases_fit [OF sample_leases_granted [of False] dist within inj_sample_ids]
    granted_leases_fit [OF sample_leases_granted [of True] dist within inj_sample_ids]
    sample_leases_granted [of True]
  show ?thesis by (auto simp: sample_session_def lease_chunks_def sample_leases_def list_all_iff)
qed

text \<open>Two relay paths of three chunks each, for a session with four chunks left.\<close>

definition two_relay_plan :: PlannerTransferPlan where
  "two_relay_plan = sample_relay_plan\<lparr>tpl_total_bytes := 24,
     tpl_assignments := tpl_assignments sample_relay_plan @
       map (\<lambda>a. a\<lparr>pa_path := (pa_path a)\<lparr>pp_relay_device := 2\<rparr>\<rparr>) (tpl_assignments sample_relay_plan)\<rparr>"

lemma deferred_leases_may_exceed:
  defines "s \<equiv> sample_session\<lparr>ss_relay_gpus := [1, 2], ss_active_chunks := 4\<rparr>"
  defines "qs \<equiv> [(1, sample_quota\<lparr>rq_active_chunks := 0\<rparr>), (2, sample_quota\<lparr>rq_relay_gpu := 2, rq_active_chunks := 0\<rparr>)]"
  shows "\<exists>ls. leases_for_plan sample_ids 30 two_relay_plan s qs ''h2d'' 5 (Some ''job'') True = (ls, None) \<and>
      ss_active_chunks s + lease_chunks ls = 10 \<and> ss_max_inflight_chunks s = 8"
    and "leases_for_plan sample_ids 30 two_relay_plan s qs ''h2d'' 5 (Some ''job'') False =
      ([], Some ''session chunk quota is unavailable'')"
  by (simp_all add: s_def qs_def leases_for_plan_def two_relay_plan_def sample_relay_plan_def
      sample_session_def sample_quota_def relay_path_def sample_relay_def relay_reservation_chunks_def
      can_reserve_def lease_chunks_def)

end
