(* ===== verification/Daemon_State.thy ===== *)
theory Daemon_State
  imports Peer_Auth Block_Runtime Schema_Worker Scheduler_Leases
begin

text \<open>
  The state of the node daemon, \<open>turbobus/daemon/runtime_state.py\<close> and the constructor of
  \<open>turbobus/daemon/server.py\<close>, with its small lookups: what holds a transfer, who owns what, and
  what a tenant uses.  One lock serialises the handlers, so a handler is a function of the state;
  \<open>time.time()\<close> is its argument \<open>now\<close>.  Left out of the state: the queue records, the ring of
  terminal feedback and the version counter (views rebuilt for observers), the profile cache and
  the PCIe sampler.
\<close>

section \<open>Records\<close>

record StagingRecord =
  sr_transfer_id :: "string option"
  sr_job_id :: "string option"
  sr_buffer_ids :: "string list"
  sr_session_id :: string
  sr_relay_gpu :: int
  sr_direction :: string
  sr_ranges :: "TransferRange list"
  sr_requested_bytes :: int
  sr_created_at :: rat

record PlanRequest =
  pq_intent_id :: "string option"
  pq_fields :: mapping

text \<open>What remains of a removed session, job, buffer or reservation.\<close>

record RetiredTarget =
  rt_peer :: "PeerIdentity option"
  rt_reason :: "string option"
  rt_retired_at :: rat
  rt_transfer_ids :: "string list"
  rt_buffer_snapshot :: "BufferRegistration option"
  rt_retention :: "mapping option"

text \<open>An audit entry: the arguments of the call; the columns derived from the state are left out.\<close>

record AuditRecord =
  au_event_type :: string
  au_transfer_id :: "string option"
  au_session_id :: "string option"
  au_lease_id :: "string option"
  au_state :: TransferStatusState
  au_reason :: "string option"
  au_failure_reason :: "string option"
  au_cleanup_kind :: "string option"
  au_cleanup_target_id :: "string option"

text \<open>The archive of a transfer's receipt state, without the queue record.\<close>

record TransferArchive =
  ta_intent_id :: "string option"
  ta_intent :: TransferIntent
  ta_status :: TransferStatus
  ta_decision :: SchedulingDecision
  ta_ticket :: "ExecutionTicket option"
  ta_admission :: mapping
  ta_plan_generation :: int
  ta_plan_expires_at :: "rat option"
  ta_completion_source :: "string option"
  ta_completion_evidence :: mapping
  ta_block_runtime :: "BlockRuntimeRecord list"
  ta_buffer_snapshots :: mapping
  ta_reservations :: "(TransferReservation \<times> string option \<times> string option \<times> string list) list"
  ta_leases :: "(LeaseToken \<times> string option) list"
  ta_peer :: "PeerIdentity option"

record QuotaPolicy =
  qp_max_sessions_per_uid :: int
  qp_max_jobs_per_uid :: int
  qp_max_buffers_per_uid :: int
  qp_max_buffer_bytes_per_uid :: int

record Daemon =
  d_require_authenticated_peers :: bool
  d_session_timeout_seconds :: rat
  d_quota_policy :: QuotaPolicy
  d_relay_quotas :: "(int, RelayQuota) dict"
  d_quota_rejections :: "(string \<times> string \<times> rat) list"
  d_jobs :: "(string, JobIdentity) dict"
  d_job_peers :: "(string, PeerIdentity) dict"
  d_session_peers :: "(string, PeerIdentity) dict"
  d_buffers :: "(string, BufferRegistration) dict"
  d_sessions :: "(string, Session) dict"
  d_reservations :: "(string, TransferReservation) dict"
  d_reservation_transfers :: "(string, string) dict"
  d_transfer_intents :: "(string, TransferIntent) dict"
  d_intent_transfers :: "(string, string) dict"
  d_transfer_queue :: "string list"
  d_plan_requests :: "(string, PlanRequest) dict"
  d_plan_generations :: "(string, int) dict"
  d_plan_expirations :: "(string, rat) dict"
  d_admissions :: "(string, mapping) dict"
  d_lease_plan_generations :: "(string, int) dict"
  d_plans :: "(string, mapping) dict"
  d_block_runtime :: "(string, BlockRuntimeRecord list) dict"
  d_decisions :: "(string, SchedulingDecision) dict"
  d_execution_tickets :: "(string, ExecutionTicket) dict"
  d_transfer_tickets :: "(string, string) dict"
  d_completion_tickets :: "(string, ExecutionTicket) dict"
  d_lease_tokens :: "(string, LeaseToken) dict"
  d_statuses :: "(string, TransferStatus) dict"
  d_completion_sources :: "(string, string) dict"
  d_completion_evidence :: "(string, mapping) dict"
  d_buffer_snapshots :: "(string, mapping) dict"
  d_transfer_peers :: "(string, PeerIdentity) dict"
  d_receipt_archive :: "(string, TransferArchive) dict"
  d_archived_intents :: "(string, string) dict"
  d_retired_targets :: "(string \<times> string, RetiredTarget) dict"
  d_staging :: "(string, StagingRecord) dict"
  d_audit :: "AuditRecord list"
  d_connection_sessions :: "string list"
  d_session_connections :: "(string, string) dict"
  d_cleanup_events :: "CleanupRequest list"
  d_system_cleanup_events :: "CleanupRequest list"

definition new_quota :: "int \<Rightarrow> int \<Rightarrow> int \<Rightarrow> RelayQuota" where
  "new_quota max_sessions max_chunks gpu =
     \<lparr>rq_relay_gpu = gpu, rq_max_sessions = max_sessions, rq_max_inflight_chunks = max_chunks,
      rq_sessions = [], rq_active_chunks = 0\<rparr>"

definition initial_daemon ::
  "int list \<Rightarrow> int \<Rightarrow> int \<Rightarrow> rat \<Rightarrow> bool \<Rightarrow> QuotaPolicy \<Rightarrow> Daemon" where
  "initial_daemon relays max_sessions_per_relay max_chunks_per_relay timeout require_auth policy =
     \<lparr>d_require_authenticated_peers = require_auth, d_session_timeout_seconds = max 0 timeout,
      d_quota_policy =
        \<lparr>qp_max_sessions_per_uid = max 0 (qp_max_sessions_per_uid policy),
         qp_max_jobs_per_uid = max 0 (qp_max_jobs_per_uid policy),
         qp_max_buffers_per_uid = max 0 (qp_max_buffers_per_uid policy),
         qp_max_buffer_bytes_per_uid = max 0 (qp_max_buffer_bytes_per_uid policy)\<rparr>,
      d_relay_quotas = fold (\<lambda>gpu. AList.update gpu
        (new_quota max_sessions_per_relay max_chunks_per_relay gpu)) relays [],
      d_quota_rejections = [], d_jobs = [], d_job_peers = [], d_session_peers = [], d_buffers = [],
      d_sessions = [], d_reservations = [], d_reservation_transfers = [], d_transfer_intents = [],
      d_intent_transfers = [], d_transfer_queue = [], d_plan_requests = [], d_plan_generations = [],
      d_plan_expirations = [], d_admissions = [], d_lease_plan_generations = [], d_plans = [],
      d_block_runtime = [], d_decisions = [], d_execution_tickets = [], d_transfer_tickets = [],
      d_completion_tickets = [], d_lease_tokens = [], d_statuses = [], d_completion_sources = [],
      d_completion_evidence = [], d_buffer_snapshots = [], d_transfer_peers = [],
      d_receipt_archive = [], d_archived_intents = [], d_retired_targets = [], d_staging = [],
      d_audit = [], d_connection_sessions = [], d_session_connections = [], d_cleanup_events = [],
      d_system_cleanup_events = []\<rparr>"

definition terminal :: "TransferStatusState \<Rightarrow> bool" where
  "terminal s = (s \<in> {COMPLETE, FAILED, CANCELED})"

section \<open>Counting removals\<close>

record Removed =
  rm_jobs :: int
  rm_buffers :: int
  rm_sessions :: int
  rm_reservations :: int
  rm_staging_records :: int
  rm_transfers :: int

definition empty_removed :: Removed where
  "empty_removed = \<lparr>rm_jobs = 0, rm_buffers = 0, rm_sessions = 0, rm_reservations = 0,
     rm_staging_records = 0, rm_transfers = 0\<rparr>"

definition merge_removed :: "Removed \<Rightarrow> Removed \<Rightarrow> Removed" where
  "merge_removed a b = \<lparr>rm_jobs = rm_jobs a + rm_jobs b, rm_buffers = rm_buffers a + rm_buffers b,
     rm_sessions = rm_sessions a + rm_sessions b,
     rm_reservations = rm_reservations a + rm_reservations b,
     rm_staging_records = rm_staging_records a + rm_staging_records b,
     rm_transfers = rm_transfers a + rm_transfers b\<rparr>"

section \<open>Which transfers and leases touch what\<close>

definition set_tuple :: "string list \<Rightarrow> string list" where
  "set_tuple xs = sort (remdups xs)"

definition transfers_of_intents :: "(TransferIntent \<Rightarrow> bool) \<Rightarrow> Daemon \<Rightarrow> string list" where
  "transfers_of_intents P d =
     concat (map (\<lambda>(intent_id, intent). if P intent
        then (case map_of (d_intent_transfers d) intent_id of None \<Rightarrow> [] | Some t \<Rightarrow> [t]) else [])
      (d_transfer_intents d))"

definition transfers_of_leases :: "(LeaseToken \<Rightarrow> bool) \<Rightarrow> Daemon \<Rightarrow> string list" where
  "transfers_of_leases P d =
     concat (map (\<lambda>(lease_id, lease). if P lease
        then (case map_of (d_reservation_transfers d) lease_id of None \<Rightarrow> [] | Some t \<Rightarrow> [t]) else [])
      (d_lease_tokens d))"

definition transfers_of_statuses :: "(TransferStatus \<Rightarrow> bool) \<Rightarrow> Daemon \<Rightarrow> string list" where
  "transfers_of_statuses P d = map fst (filter (\<lambda>(t, s). P s) (d_statuses d))"

definition transfer_ids_for_job :: "string \<Rightarrow> Daemon \<Rightarrow> string list" where
  "transfer_ids_for_job job_id d = set_tuple
     (transfers_of_statuses (\<lambda>s. ts_job_id s = job_id) d @
      transfers_of_intents (\<lambda>i. ti_job_id i = job_id) d @
      transfers_of_leases (\<lambda>l. lt_job_id l = Some job_id) d)"

definition transfer_ids_for_session :: "string \<Rightarrow> Daemon \<Rightarrow> string list" where
  "transfer_ids_for_session session_id d = set_tuple
     (transfers_of_statuses (\<lambda>s. ts_session_id s = Some session_id) d @
      transfers_of_intents (\<lambda>i. ti_session_id i = session_id) d)"

text \<open>
  The archived transfers of a buffer are those whose archived ticket names it; the search through
  archived buffer snapshots is left out, as snapshots are opaque here.
\<close>

definition transfer_ids_for_buffer :: "string \<Rightarrow> Daemon \<Rightarrow> string list" where
  "transfer_ids_for_buffer buffer_id d = set_tuple
     (transfers_of_intents (\<lambda>i. buffer_id \<in> {ti_source_buffer_id i, ti_destination_buffer_id i}) d @
      transfers_of_leases (\<lambda>l. buffer_id \<in> set (lt_buffer_ids l)) d @
      map fst (filter (\<lambda>(t, a). case ta_ticket a of None \<Rightarrow> False
          | Some k \<Rightarrow> buffer_id \<in> {et_source_buffer_id k, et_destination_buffer_id k})
        (d_receipt_archive d)))"

definition transfer_has_reservations :: "string \<Rightarrow> Daemon \<Rightarrow> bool" where
  "transfer_has_reservations transfer_id d = list_ex (\<lambda>(r, t). t = transfer_id) (d_reservation_transfers d)"

definition active_buffer_lease_ids :: "string \<Rightarrow> Daemon \<Rightarrow> string list" where
  "active_buffer_lease_ids buffer_id d =
     map fst (filter (\<lambda>(l, lease). map_of (d_reservations d) l \<noteq> None \<and> buffer_id \<in> set (lt_buffer_ids lease))
       (sort_key fst (d_lease_tokens d)))"

definition ticket_transfer_is_active :: "ExecutionTicket \<Rightarrow> Daemon \<Rightarrow> bool" where
  "ticket_transfer_is_active ticket d =
     (case vget (et_metadata ticket) ''transfer_id'' VNone of
        VStr t \<Rightarrow> (case map_of (d_statuses d) t of None \<Rightarrow> True | Some s \<Rightarrow> \<not> terminal (ts_state s))
      | _ \<Rightarrow> True)"

definition active_buffer_ticket_ids :: "string \<Rightarrow> Daemon \<Rightarrow> string list" where
  "active_buffer_ticket_ids buffer_id d =
     map fst (filter (\<lambda>(i, k). buffer_id \<in> {et_source_buffer_id k, et_destination_buffer_id k} \<and>
         ticket_transfer_is_active k d) (sort_key fst (d_execution_tickets d)))"

text \<open>\<open>_buffer_ownership_record_locked\<close>: a retired buffer that is not registered counts as free.\<close>

definition buffer_protected :: "string \<Rightarrow> Daemon \<Rightarrow> bool" where
  "buffer_protected buffer_id d =
     (if map_of (d_buffers d) buffer_id = None \<and> map_of (d_retired_targets d) (''buffer'', buffer_id) \<noteq> None
      then False
      else active_buffer_lease_ids buffer_id d \<noteq> [] \<or> active_buffer_ticket_ids buffer_id d \<noteq> [])"

section \<open>Ownership checks\<close>

definition validate_peer_owns_job :: "string \<Rightarrow> PeerIdentity option \<Rightarrow> Daemon \<Rightarrow> unit result" where
  "validate_peer_owns_job job_id peer d =
     (if \<not> authenticated peer then Inr ()
      else raise_if (map_of (d_jobs d) job_id = None) (ValueError ''unknown job'') (
           case map_of (d_job_peers d) job_id of
             None \<Rightarrow> Inl (ValueError ''job owner identity is unavailable'')
           | Some owner \<Rightarrow> validate_peer_owner_match (Some owner) peer ''job''))"

definition validate_peer_owns_session :: "string \<Rightarrow> PeerIdentity option \<Rightarrow> Daemon \<Rightarrow> unit result" where
  "validate_peer_owns_session session_id peer d =
     (if \<not> authenticated peer then Inr ()
      else raise_if (map_of (d_sessions d) session_id = None) (ValueError ''unknown session'') (
           case map_of (d_session_peers d) session_id of
             None \<Rightarrow> Inl (ValueError ''session owner identity is unavailable'')
           | Some owner \<Rightarrow> validate_peer_owner_match (Some owner) peer ''session''))"

definition validate_peer_owns_buffer :: "string \<Rightarrow> PeerIdentity option \<Rightarrow> Daemon \<Rightarrow> unit result" where
  "validate_peer_owns_buffer buffer_id peer d =
     (if \<not> authenticated peer then Inr ()
      else case map_of (d_buffers d) buffer_id of
             None \<Rightarrow> Inl (ValueError ''unknown buffer'')
           | Some buffer \<Rightarrow>
               (case validate_peer_owns_job (br_job_id buffer) peer d of
                  Inr u \<Rightarrow> Inr u
                | Inl e \<Rightarrow>
                    if e = ValueError ''job owner does not match authenticated peer''
                    then Inl (ValueError ''buffer owner does not match authenticated peer'')
                    else Inl e))"

definition validate_peer_owns_lease :: "string \<Rightarrow> PeerIdentity option \<Rightarrow> Daemon \<Rightarrow> unit result" where
  "validate_peer_owns_lease lease_id peer d =
     (if \<not> authenticated peer then Inr ()
      else case map_of (d_lease_tokens d) lease_id of
             None \<Rightarrow> Inl (ValueError ''unknown lease'')
           | Some lease \<Rightarrow>
               rbind (case lt_job_id lease of None \<Rightarrow> Inr () | Some j \<Rightarrow> validate_peer_owns_job j peer d)
                 (\<lambda>_. rcheck (\<lambda>b. validate_peer_owns_buffer b peer d) (lt_buffer_ids lease)))"

definition validate_peer_owns_staging_record ::
  "StagingRecord \<Rightarrow> PeerIdentity option \<Rightarrow> Daemon \<Rightarrow> unit result" where
  "validate_peer_owns_staging_record staging peer d =
     (if \<not> authenticated peer then Inr ()
      else rbind (case sr_job_id staging of None \<Rightarrow> Inr () | Some j \<Rightarrow> validate_peer_owns_job j peer d)
             (\<lambda>_. rcheck (\<lambda>b. validate_peer_owns_buffer b peer d) (sr_buffer_ids staging)))"

end
