(* ===== verification/Daemon_Release.thy ===== *)
theory Daemon_Release
  imports Daemon_State
begin

text \<open>
  How the daemon (\<open>turbobus/daemon/server.py\<close>) gives resources back: archiving, ending and retiring
  transfers, releasing and committing reservations, reaping expired leases, and closing sessions
  with everything they own.
\<close>

section \<open>Archives and audit\<close>

definition dedup :: "'a list \<Rightarrow> 'a list" where
  "dedup xs = rev (remdups (rev xs))"

text \<open>\<open>_archive_cleanup_target_locked\<close>; no caller modelled here passes retention evidence.\<close>

definition archive_cleanup_target ::
  "string \<Rightarrow> string \<Rightarrow> PeerIdentity option \<Rightarrow> string option \<Rightarrow> string list \<Rightarrow> BufferRegistration option
     \<Rightarrow> rat \<Rightarrow> Daemon \<Rightarrow> Daemon" where
  "archive_cleanup_target kind i peer reason transfer_ids snapshot now d =
     (let existing = map_of (d_retired_targets d) (kind, i);
          target = \<lparr>rt_peer = or_else peer (Option.bind existing rt_peer), rt_reason = or_else reason (Option.bind existing rt_reason),
            rt_retired_at = now,
            rt_transfer_ids = dedup ((case existing of None \<Rightarrow> [] | Some e \<Rightarrow> rt_transfer_ids e) @ transfer_ids),
            rt_buffer_snapshot = or_else snapshot (Option.bind existing rt_buffer_snapshot),
            rt_retention = Option.bind existing rt_retention\<rparr>
      in d\<lparr>d_retired_targets := AList.update (kind, i) target (d_retired_targets d)\<rparr>)"

definition append_audit :: "AuditRecord \<Rightarrow> Daemon \<Rightarrow> Daemon" where
  "append_audit a d = d\<lparr>d_audit := d_audit d @ [a]\<rparr>"

definition append_system_cleanup_event :: "string \<Rightarrow> string \<Rightarrow> string \<Rightarrow> Daemon \<Rightarrow> Daemon" where
  "append_system_cleanup_event kind i reason d =
     d\<lparr>d_system_cleanup_events := d_system_cleanup_events d @
        [\<lparr>cr_target_kind = kind, cr_target_id = i, cr_reason = reason, cr_force = True,
          cr_owner_binding = None, cr_retention_evidence = None\<rparr>]\<rparr>"

definition receipt_execution_ticket :: "string \<Rightarrow> Daemon \<Rightarrow> ExecutionTicket option" where
  "receipt_execution_ticket t d =
     (case map_of (d_completion_tickets d) t of
        Some k \<Rightarrow> Some k
      | None \<Rightarrow>
          (case (case map_of (d_receipt_archive d) t of None \<Rightarrow> None | Some a \<Rightarrow> ta_ticket a) of
             Some k \<Rightarrow> Some k
           | None \<Rightarrow> (case map_of (d_transfer_tickets d) t of
                         None \<Rightarrow> None | Some i \<Rightarrow> map_of (d_execution_tickets d) i)))"

definition authenticated_or ::
  "PeerIdentity option \<Rightarrow> PeerIdentity option \<Rightarrow> PeerIdentity option" where
  "authenticated_or p q = (if authenticated p then p else q)"

definition transfer_peer_for_owner :: "string \<Rightarrow> string \<Rightarrow> PeerIdentity option \<Rightarrow> Daemon \<Rightarrow> PeerIdentity option" where
  "transfer_peer_for_owner job_id session_id peer d =
     authenticated_or peer (authenticated_or (map_of (d_job_peers d) job_id)
       (authenticated_or (map_of (d_session_peers d) session_id) None))"

definition transfer_owner_peer_for_archive ::
  "string \<Rightarrow> TransferStatus \<Rightarrow> TransferArchive option \<Rightarrow> Daemon \<Rightarrow> PeerIdentity option" where
  "transfer_owner_peer_for_archive t status existing d =
     authenticated_or (map_of (d_transfer_peers d) t)
       (authenticated_or (case existing of None \<Rightarrow> None | Some a \<Rightarrow> ta_peer a)
         (transfer_peer_for_owner (ts_job_id status)
           (case ts_session_id status of None \<Rightarrow> [] | Some s \<Rightarrow> s) None d))"

definition archive_transfer_receipt_state :: "string \<Rightarrow> Daemon \<Rightarrow> Daemon" where
  "archive_transfer_receipt_state t d =
     (let existing = map_of (d_receipt_archive d) t;
          intent_id = or_else (case map_of (d_plan_requests d) t of None \<Rightarrow> None | Some q \<Rightarrow> pq_intent_id q)
            (case existing of None \<Rightarrow> None | Some a \<Rightarrow> ta_intent_id a);
          intent = or_else (case intent_id of None \<Rightarrow> None | Some i \<Rightarrow> map_of (d_transfer_intents d) i)
            (map_option ta_intent existing);
          status = or_else (map_of (d_statuses d) t) (map_option ta_status existing);
          decision = or_else (map_of (d_decisions d) t) (map_option ta_decision existing)
      in case (status, decision, intent) of
           (Some s, Some dec, Some owner_intent) \<Rightarrow>
             (let a = \<lparr>ta_intent_id = intent_id, ta_intent = owner_intent, ta_status = s, ta_decision = dec,
                    ta_ticket = receipt_execution_ticket t d,
                    ta_admission = dget_default (d_admissions d) t [],
                    ta_plan_generation = dget_default (d_plan_generations d) t 0,
                    ta_plan_expires_at = map_of (d_plan_expirations d) t,
                    ta_completion_source = map_of (d_completion_sources d) t,
                    ta_completion_evidence = dget_default (d_completion_evidence d) t [],
                    ta_block_runtime = dget_default (d_block_runtime d) t [],
                    ta_buffer_snapshots = dget_default (d_buffer_snapshots d) t [],
                    ta_reservations = map (\<lambda>(i, r). (r, map_of (d_reservation_transfers d) i,
                        (case map_of (d_lease_tokens d) i of None \<Rightarrow> None | Some l \<Rightarrow> lt_job_id l),
                        (case map_of (d_lease_tokens d) i of None \<Rightarrow> [] | Some l \<Rightarrow> lt_buffer_ids l)))
                      (filter (\<lambda>(i, r). map_of (d_reservation_transfers d) i = Some t)
                        (sort_key fst (d_reservations d))),
                    ta_leases = map (\<lambda>(i, l). (l, map_of (d_reservation_transfers d) i))
                      (filter (\<lambda>(i, l). map_of (d_reservation_transfers d) i = Some t)
                        (sort_key fst (d_lease_tokens d))),
                    ta_peer = transfer_owner_peer_for_archive t s existing d\<rparr>
              in d\<lparr>d_archived_intents := (case intent_id of None \<Rightarrow> d_archived_intents d
                     | Some i \<Rightarrow> AList.update i t (d_archived_intents d)),
                   d_receipt_archive := AList.update t a (d_receipt_archive d)\<rparr>)
         | _ \<Rightarrow> d)"

section \<open>Ending and retiring a transfer\<close>

definition drop_execution_ticket :: "string \<Rightarrow> Daemon \<Rightarrow> Daemon" where
  "drop_execution_ticket t d =
     (case map_of (d_transfer_tickets d) t of
        None \<Rightarrow> d
      | Some i \<Rightarrow> d\<lparr>d_transfer_tickets := AList.delete t (d_transfer_tickets d),
                    d_execution_tickets := AList.delete i (d_execution_tickets d)\<rparr>)"

definition mark_admission_terminal ::
  "string \<Rightarrow> TransferStatusState \<Rightarrow> string option \<Rightarrow> rat \<Rightarrow> Daemon \<Rightarrow> Daemon" where
  "mark_admission_terminal t final_state reason now d =
     (if final_state \<notin> {CANCELED, FAILED} then d
      else case map_of (d_admissions d) t of
             None \<Rightarrow> d
           | Some admission \<Rightarrow>
               (let a1 = AList.update ''state''
                      (VStr (if final_state = CANCELED then ''canceled'' else ''failed'')) admission;
                    a2 = AList.update ''terminal_at'' (VFloat now) a1;
                    a3 = (case reason of None \<Rightarrow> a2 | Some r \<Rightarrow> AList.update ''terminal_reason'' (VStr r) a2)
                in d\<lparr>d_admissions := AList.update t a3 (d_admissions d)\<rparr>))"

text \<open>
  The common body of \<open>_mark_transfer_terminal_locked\<close> and its guarded variant; the refresh of the
  queue record and the terminal feedback are left out.
\<close>

definition ended_status :: "TransferStatusState \<Rightarrow> string option \<Rightarrow> TransferStatus \<Rightarrow> TransferStatus" where
  "ended_status final_state error s =
     s\<lparr>ts_state := final_state,
       ts_bytes_completed := (if final_state = COMPLETE then ts_bytes_total s else ts_bytes_completed s),
       ts_error := or_else error (ts_error s)\<rparr>"

definition end_transfer ::
  "string \<Rightarrow> TransferStatus \<Rightarrow> TransferStatusState \<Rightarrow> string option \<Rightarrow> rat \<Rightarrow> Daemon \<Rightarrow> Daemon" where
  "end_transfer t s final_state error now d =
     (let d1 = d\<lparr>d_statuses := AList.update t (ended_status final_state error s) (d_statuses d)\<rparr>;
          d2 = mark_admission_terminal t final_state error now d1
      in if final_state \<noteq> COMPLETE then drop_execution_ticket t d2 else d2)"

definition mark_transfer_terminal ::
  "string \<Rightarrow> TransferStatusState \<Rightarrow> string option \<Rightarrow> rat \<Rightarrow> Daemon \<Rightarrow> Daemon result" where
  "mark_transfer_terminal t final_state error now d =
     (case map_of (d_statuses d) t of
        None \<Rightarrow> Inl (ValueError ''unknown transfer'')
      | Some s \<Rightarrow> Inr (if terminal (ts_state s) then d else end_transfer t s final_state error now d))"

definition mark_transfer_terminal_if_unblocked ::
  "string \<Rightarrow> TransferStatusState \<Rightarrow> string option \<Rightarrow> rat \<Rightarrow> Daemon \<Rightarrow> Daemon" where
  "mark_transfer_terminal_if_unblocked t final_state error now d =
     (if transfer_has_reservations t d then d
      else case map_of (d_statuses d) t of
             None \<Rightarrow> d
           | Some s \<Rightarrow> if terminal (ts_state s) then d else end_transfer t s final_state error now d)"

definition pop_transfer_runtime_maps :: "string \<Rightarrow> Daemon \<Rightarrow> Daemon" where
  "pop_transfer_runtime_maps t d =
     d\<lparr>d_completion_tickets := AList.delete t (d_completion_tickets d),
       d_completion_sources := AList.delete t (d_completion_sources d),
       d_completion_evidence := AList.delete t (d_completion_evidence d),
       d_buffer_snapshots := AList.delete t (d_buffer_snapshots d),
       d_plan_requests := AList.delete t (d_plan_requests d),
       d_plan_generations := AList.delete t (d_plan_generations d),
       d_plan_expirations := AList.delete t (d_plan_expirations d),
       d_plans := AList.delete t (d_plans d),
       d_block_runtime := AList.delete t (d_block_runtime d),
       d_decisions := AList.delete t (d_decisions d),
       d_transfer_peers := AList.delete t (d_transfer_peers d)\<rparr>"

definition remove_transfer_intent_state :: "string \<Rightarrow> Daemon \<Rightarrow> Daemon" where
  "remove_transfer_intent_state t d =
     fold (\<lambda>i d. d\<lparr>d_intent_transfers := AList.delete i (d_intent_transfers d),
                   d_transfer_intents := AList.delete i (d_transfer_intents d)\<rparr>)
       (map fst (filter (\<lambda>(i, t'). t' = t) (d_intent_transfers d))) d"

definition retire_transfer_runtime_state :: "string \<Rightarrow> Daemon \<Rightarrow> Daemon" where
  "retire_transfer_runtime_state t d =
     (let d1 = archive_transfer_receipt_state t d;
          d2 = drop_execution_ticket t d1;
          d3 = pop_transfer_runtime_maps t d2;
          d4 = remove_transfer_intent_state t d3
      in d4\<lparr>d_admissions := AList.delete t (d_admissions d4),
           d_transfer_queue := filter (\<lambda>q. q \<noteq> t) (d_transfer_queue d4),
           d_statuses := AList.delete t (d_statuses d4)\<rparr>)"

definition retire_completed_transfer_lease_state ::
  "string \<Rightarrow> string option \<Rightarrow> rat \<Rightarrow> Daemon \<Rightarrow> Daemon" where
  "retire_completed_transfer_lease_state t reason now d =
     (let d1 = archive_transfer_receipt_state t d;
          d2 = drop_execution_ticket t d1;
          d3 = (case map_of (d_admissions d2) t of
                  None \<Rightarrow> d2
                | Some admission \<Rightarrow>
                    (let a1 = AList.update ''lease_ids'' (VList []) admission;
                         a2 = AList.update ''retired_at'' (VFloat now) a1;
                         a3 = (case reason of None \<Rightarrow> a2
                               | Some r \<Rightarrow> AList.update ''retired_reason'' (VStr r) a2)
                     in d2\<lparr>d_admissions := AList.update t a3 (d_admissions d2)\<rparr>))
      in d3\<lparr>d_transfer_queue := filter (\<lambda>q. q \<noteq> t) (d_transfer_queue d3)\<rparr>)"

section \<open>Reservations\<close>

definition cleanup_failure_reason :: "TransferStatusState \<Rightarrow> string option \<Rightarrow> string option" where
  "cleanup_failure_reason final_state reason = (if final_state \<in> {FAILED, CANCELED} then reason else None)"

definition drop_session_chunks :: "int \<Rightarrow> Session \<Rightarrow> Session" where
  "drop_session_chunks n s = s\<lparr>ss_active_chunks := max 0 (ss_active_chunks s - n)\<rparr>"

definition drop_quota_chunks :: "int \<Rightarrow> RelayQuota \<Rightarrow> RelayQuota" where
  "drop_quota_chunks n q = q\<lparr>rq_active_chunks := max 0 (rq_active_chunks q - n)\<rparr>"

text \<open>\<open>d.get(k)\<close> and, if there is one, its update in place.\<close>

definition modify :: "'k \<Rightarrow> ('v \<Rightarrow> 'v) \<Rightarrow> ('k, 'v) dict \<Rightarrow> ('k, 'v) dict" where
  "modify k f d = (case map_of d k of None \<Rightarrow> d | Some v \<Rightarrow> AList.update k (f v) d)"

definition drop_active_reservation_state :: "string \<Rightarrow> TransferReservation \<Rightarrow> Daemon \<Rightarrow> Daemon" where
  "drop_active_reservation_state key reservation d =
     d\<lparr>d_reservations := AList.delete key (d_reservations d),
       d_lease_tokens := AList.delete key (d_lease_tokens d),
       d_lease_plan_generations := AList.delete key (d_lease_plan_generations d),
       d_staging := AList.delete key (d_staging d),
       d_reservation_transfers := AList.delete key (d_reservation_transfers d),
       d_sessions := modify (rv_session_id reservation) (drop_session_chunks (rv_chunks reservation))
         (d_sessions d),
       d_relay_quotas := modify (rv_relay_gpu reservation) (drop_quota_chunks (rv_chunks reservation))
         (d_relay_quotas d)\<rparr>"

definition finalize_transfer_after_release ::
  "string \<Rightarrow> TransferStatusState \<Rightarrow> string option \<Rightarrow> rat \<Rightarrow> Daemon \<Rightarrow> Daemon" where
  "finalize_transfer_after_release t final_state reason now d =
     (let d1 = mark_transfer_terminal_if_unblocked t final_state
                 (cleanup_failure_reason final_state reason) now d
      in case map_of (d_statuses d1) t of
           None \<Rightarrow> d1
         | Some s \<Rightarrow>
             if \<not> terminal (ts_state s) \<or> transfer_has_reservations t d1 then d1
             else if ts_state s = COMPLETE
             then retire_completed_transfer_lease_state t reason now d1
             else retire_transfer_runtime_state t d1)"

definition staging_cleanup_peer :: "StagingRecord \<Rightarrow> Daemon \<Rightarrow> PeerIdentity option" where
  "staging_cleanup_peer staging d =
     or_else (case sr_job_id staging of None \<Rightarrow> None | Some j \<Rightarrow> map_of (d_job_peers d) j)
       (fold (\<lambda>b acc. or_else acc (case map_of (d_buffers d) b of None \<Rightarrow> None
                        | Some buffer \<Rightarrow> map_of (d_job_peers d) (br_job_id buffer)))
         (sr_buffer_ids staging) None)"

definition release_staging_only ::
  "string \<Rightarrow> TransferStatusState \<Rightarrow> string option \<Rightarrow> rat \<Rightarrow> Daemon \<Rightarrow> Daemon" where
  "release_staging_only key final_state reason now d =
     (case map_of (d_staging d) key of
        None \<Rightarrow> d
      | Some staging \<Rightarrow>
          (let d1 = d\<lparr>d_staging := AList.delete key (d_staging d)\<rparr>
           in case reason of
                None \<Rightarrow> d1
              | Some r \<Rightarrow>
                  append_system_cleanup_event ''reservation'' key r
                    (append_audit \<lparr>au_event_type = ''cleanup'', au_transfer_id = sr_transfer_id staging,
                         au_session_id = None, au_lease_id = None, au_state = final_state,
                         au_reason = reason, au_failure_reason = cleanup_failure_reason final_state reason,
                         au_cleanup_kind = Some ''reservation'', au_cleanup_target_id = Some key\<rparr>
                      (archive_cleanup_target ''reservation'' key (staging_cleanup_peer staging d1) reason
                        (case sr_transfer_id staging of None \<Rightarrow> [] | Some t \<Rightarrow> [t]) None now d1))))"

definition release_reservation ::
  "string \<Rightarrow> TransferStatusState \<Rightarrow> string option \<Rightarrow> bool \<Rightarrow> rat \<Rightarrow> Daemon
     \<Rightarrow> Daemon \<times> TransferReservation option" where
  "release_reservation key final_state reason mark_terminal now d =
     (case map_of (d_reservations d) key of
        None \<Rightarrow> (release_staging_only key final_state reason now d, None)
      | Some reservation \<Rightarrow>
          (let transfer = map_of (d_reservation_transfers d) key;
               lease = map_of (d_lease_tokens d) key;
               peer = (case (case lease of None \<Rightarrow> None | Some l \<Rightarrow> lt_job_id l) of
                         None \<Rightarrow> None | Some j \<Rightarrow> map_of (d_job_peers d) j);
               d1 = archive_cleanup_target ''reservation'' key peer reason
                      (case transfer of None \<Rightarrow> [] | Some t \<Rightarrow> [t]) None now d;
               d2 = (if reason = None then d1
                     else append_audit \<lparr>au_event_type = ''cleanup'', au_transfer_id = transfer,
                       au_session_id = Some (rv_session_id reservation),
                       au_lease_id = (case lease of None \<Rightarrow> None | Some l \<Rightarrow> Some (lt_lease_id l)),
                       au_state = final_state, au_reason = reason,
                       au_failure_reason = cleanup_failure_reason final_state reason,
                       au_cleanup_kind = Some ''reservation'', au_cleanup_target_id = Some key\<rparr> d1);
               d3 = drop_active_reservation_state key reservation d2;
               d4 = (case transfer of
                       None \<Rightarrow> d3
                     | Some t \<Rightarrow> if mark_terminal
                                 then finalize_transfer_after_release t final_state reason now d3 else d3);
               d5 = (case reason of None \<Rightarrow> d4
                     | Some r \<Rightarrow> append_system_cleanup_event ''reservation'' key r d4)
           in (d5, Some reservation)))"

definition release_and_count ::
  "string \<Rightarrow> TransferStatusState \<Rightarrow> string option \<Rightarrow> bool \<Rightarrow> rat \<Rightarrow> Daemon \<Rightarrow> Daemon \<times> Removed" where
  "release_and_count key final_state reason mark_terminal now d =
     (let before = (case map_of (d_reservation_transfers d) key of
                      None \<Rightarrow> None | Some t \<Rightarrow> map_of (d_statuses d) t);
          staged = map_of (d_staging d) key;
          (d', reservation) = release_reservation key final_state reason mark_terminal now d
      in (d', empty_removed
           \<lparr>rm_reservations := (if reservation = None then 0 else 1),
            rm_staging_records := (if staged = None then 0 else 1),
            rm_transfers := (case before of
                None \<Rightarrow> 0
              | Some s \<Rightarrow> if terminal (ts_state s) then 0
                          else (case map_of (d_statuses d') (ts_transfer_id s) of
                                  None \<Rightarrow> 1 | Some s' \<Rightarrow> if terminal (ts_state s') then 1 else 0))\<rparr>))"

text \<open>Releasing a list of reservations, adding up what was removed.\<close>

fun release_all ::
  "string list \<Rightarrow> TransferStatusState \<Rightarrow> string option \<Rightarrow> bool \<Rightarrow> rat \<Rightarrow> Daemon \<Rightarrow> Daemon \<times> Removed" where
  "release_all [] final_state reason mark_terminal now d = (d, empty_removed)"
| "release_all (k # ks) final_state reason mark_terminal now d =
     (let (d1, r1) = release_and_count k final_state reason mark_terminal now d;
          (d2, r2) = release_all ks final_state reason mark_terminal now d1
      in (d2, merge_removed r1 r2))"

definition release_reservations_for_transfer ::
  "string \<Rightarrow> TransferStatusState \<Rightarrow> string option \<Rightarrow> bool \<Rightarrow> rat \<Rightarrow> Daemon \<Rightarrow> Daemon \<times> Removed" where
  "release_reservations_for_transfer t final_state reason mark_terminal now d =
     release_all (map fst (filter (\<lambda>(r, t'). t' = t) (d_reservation_transfers d)))
       final_state reason mark_terminal now d"

definition release_expired_lease :: "rat \<Rightarrow> string \<Rightarrow> Daemon \<Rightarrow> Daemon" where
  "release_expired_lease now lease_id d =
     (let (d', reservation) = release_reservation lease_id CANCELED (Some ''lease_expired'') True now d
      in if reservation = None then d'\<lparr>d_lease_tokens := AList.delete lease_id (d_lease_tokens d')\<rparr> else d')"

definition expired_leases :: "rat \<Rightarrow> Daemon \<Rightarrow> string list" where
  "expired_leases now d =
     map fst (filter (\<lambda>(i, l). lt_expires_at l \<noteq> 0 \<and> now > lt_expires_at l) (d_lease_tokens d))"

definition reap_expired_leases :: "rat \<Rightarrow> Daemon \<Rightarrow> Daemon \<times> string list" where
  "reap_expired_leases now d =
     (fold (release_expired_lease now) (expired_leases now d) d, expired_leases now d)"

end
