(* ===== verification/Evidence.thy ===== *)
theory Evidence
  imports Schema_Worker Block_Plan
begin

text \<open>
  Completion evidence, \<open>turbobus/daemon/evidence.py\<close>: what a worker or backend must show before the
  daemon records a transfer as complete, how evidence is bound to the execution ticket, and how a
  later report is merged into an earlier one.  The text of floats and containers, which the code
  prints with \<open>str\<close>, is the argument \<open>str_of\<close>.
\<close>

section \<open>Values\<close>

definition py_str :: "(pyval \<Rightarrow> string) \<Rightarrow> pyval \<Rightarrow> string" where
  "py_str str_of v =
     (case v of VNone \<Rightarrow> ''None'' | VBool b \<Rightarrow> (if b then ''True'' else ''False'') | VInt i \<Rightarrow> int_str i
      | VStr s \<Rightarrow> s | _ \<Rightarrow> str_of v)"

text \<open>\<open>==\<close> on values: numbers compare across their types and the order of a mapping is irrelevant.\<close>

definition as_number :: "pyval \<Rightarrow> rat option" where
  "as_number v = (case v of VBool b \<Rightarrow> Some (if b then 1 else 0) | VInt i \<Rightarrow> Some (of_int i)
     | VFloat x \<Rightarrow> Some x | _ \<Rightarrow> None)"

fun py_eq :: "pyval \<Rightarrow> pyval \<Rightarrow> bool" where
  "py_eq (VStr s) w = (w = VStr s)"
| "py_eq VNone w = (w = VNone)"
| "py_eq (VList xs) w = (case w of VList ys \<Rightarrow> list_all2 py_eq xs ys | _ \<Rightarrow> False)"
| "py_eq (VDict m) w =
     (case w of
        VDict n \<Rightarrow> length m = length n \<and>
          list_all (\<lambda>(k, v). case map_of n k of None \<Rightarrow> False | Some u \<Rightarrow> py_eq v u) m
      | _ \<Rightarrow> False)"
| "py_eq v w = (as_number w = as_number v)"

text \<open>A value whose mappings have distinct keys, as every Python mapping has.\<close>

fun py_wf :: "pyval \<Rightarrow> bool" where
  "py_wf (VList xs) = list_all py_wf xs"
| "py_wf (VDict m) = (dict_wf m \<and> list_all (\<lambda>(k, v). py_wf v) m)"
| "py_wf v = True"

lemma py_eq_refl: "py_wf v \<Longrightarrow> py_eq v v"
proof (induction v rule: py_wf.induct)
  case (1 xs)
  then show ?case by (auto simp: list_all_iff list_all2_same)
next
  case (2 m)
  have "case map_of m k of None \<Rightarrow> False | Some u \<Rightarrow> py_eq v u" if "(k, v) \<in> set m" for k v
    using 2 that by (auto simp: list_all_iff dict_wf_def map_of_eq_Some_iff)
  then show ?case by (auto simp: list_all_iff)
qed auto

definition is_mapping :: "pyval \<Rightarrow> bool" where
  "is_mapping v = (case v of VDict m \<Rightarrow> True | _ \<Rightarrow> False)"

text \<open>\<open>if isinstance(value, Mapping): result[name] = dict(value)\<close>, and its like for sequences.\<close>

definition mapping_field :: "mapping \<Rightarrow> string \<Rightarrow> mapping" where
  "mapping_field evidence f = (case vget evidence f VNone of VDict m \<Rightarrow> [(f, VDict m)] | _ \<Rightarrow> [])"

definition sequence_field :: "mapping \<Rightarrow> string \<Rightarrow> mapping" where
  "sequence_field evidence f =
     (case vget evidence f VNone of VList xs \<Rightarrow> [(f, VList (filter is_mapping xs))] | _ \<Rightarrow> [])"

definition text_field :: "(pyval \<Rightarrow> string) \<Rightarrow> mapping \<Rightarrow> string \<Rightarrow> mapping" where
  "text_field str_of evidence f =
     (if vget evidence f VNone = VNone then [] else [(f, VStr (py_str str_of (vget evidence f VNone)))])"

definition int_field :: "mapping \<Rightarrow> string \<Rightarrow> mapping result" where
  "int_field evidence f =
     (if vget evidence f VNone = VNone then Inr []
      else rbind (py_int (vget evidence f VNone)) (\<lambda>i. Inr [(f, VInt i)]))"

section \<open>Execution paths\<close>

definition path_int_fields :: "string list" where
  "path_int_fields =
     [''direct_bytes'', ''direct_chunks'', ''relay_bytes'', ''relay_chunks'', ''target_device'', ''relay_gpu'']"

definition path_text_fields :: "string list" where
  "path_text_fields =
     [''executor'', ''path'', ''plan_source'', ''src_buffer_id'', ''dst_buffer_id'', ''staging_slot_id'']"

definition relay_gpus_field :: "mapping \<Rightarrow> mapping result" where
  "relay_gpus_field evidence =
     (let v = vget evidence ''relay_gpus'' VNone;
          ints = (\<lambda>xs. rbind (rmap py_int xs) (\<lambda>is. Inr [(''relay_gpus'', VList (map VInt is))]))
      in case v of
           VNone \<Rightarrow> Inr []
         | VList xs \<Rightarrow> ints xs
         | VDict m \<Rightarrow> ints (map VStr (dkeys m))
         | _ \<Rightarrow> Inl (ValueError ''execution path evidence relay_gpus must be iterable''))"

definition normalize_execution_path_evidence ::
  "(pyval \<Rightarrow> string) \<Rightarrow> mapping \<Rightarrow> int \<Rightarrow> bool \<Rightarrow> mapping result" where
  "normalize_execution_path_evidence str_of evidence expected_bytes require_total_match =
     rbind (rmap (int_field evidence) path_int_fields) (\<lambda>ints.
     rbind (relay_gpus_field evidence) (\<lambda>gpus.
     let result = concat ints @ gpus @ concat (map (text_field str_of evidence) path_text_fields) @
           mapping_field evidence ''path_level_evidence'' @
           sequence_field evidence ''native_path_stats'' @ sequence_field evidence ''relay_device_stats''
     in case (vget result ''direct_bytes'' VNone, vget result ''relay_bytes'' VNone) of
          (VInt direct, VInt relay) \<Rightarrow>
            raise_if (require_total_match \<and> direct + relay \<noteq> expected_bytes)
              (ValueError (''execution path byte evidence mismatch: '' @ int_str (direct + relay) @
                 '' != '' @ int_str expected_bytes)) (Inr result)
        | _ \<Rightarrow> Inr result))"

definition path_evidence_fields :: "string list" where
  "path_evidence_fields =
     [''executor'', ''path'', ''plan_source'', ''target_device'', ''relay_gpu'', ''relay_gpus'',
      ''src_buffer_id'', ''dst_buffer_id'', ''staging_slot_id'', ''direct_bytes'', ''direct_chunks'',
      ''relay_bytes'', ''relay_chunks'', ''path_level_evidence'', ''native_path_stats'',
      ''relay_device_stats'']"

definition explicit_path_evidence :: "mapping \<Rightarrow> mapping \<Rightarrow> mapping" where
  "explicit_path_evidence evidence explicit =
     explicit @ concat (map (\<lambda>f. case map_of evidence f of
         Some v \<Rightarrow> if map_of explicit f = None then [(f, v)] else []
       | None \<Rightarrow> []) path_evidence_fields)"

definition normalize_completion_path_evidence ::
  "(pyval \<Rightarrow> string) \<Rightarrow> mapping \<Rightarrow> int \<Rightarrow> mapping result" where
  "normalize_completion_path_evidence str_of evidence expected_bytes =
     (case vget evidence ''execution_path_evidence'' VNone of
        VDict m \<Rightarrow> normalize_execution_path_evidence str_of (explicit_path_evidence evidence m) expected_bytes True
      | _ \<Rightarrow> normalize_execution_path_evidence str_of evidence expected_bytes True)"

section \<open>Verified bytes\<close>

definition normalize_verified_completion_base ::
  "(pyval \<Rightarrow> string) \<Rightarrow> mapping \<Rightarrow> int \<Rightarrow> string \<Rightarrow> mapping result" where
  "normalize_verified_completion_base str_of evidence expected_bytes completion_source =
     (case rbind (vindex evidence ''verified_bytes'') py_int of
        Inl e \<Rightarrow> Inl (ValueError ''complete intent transfer requires verified byte evidence'')
      | Inr verified \<Rightarrow>
          (let source = vget evidence ''source_digest'' VNone;
               destination = vget evidence ''destination_digest'' VNone
           in raise_if (verified \<noteq> expected_bytes)
                (ValueError (''verified byte evidence mismatch: '' @ int_str verified @ '' != '' @ int_str expected_bytes)) (
              raise_if (\<not> truthy (vget evidence ''content_match'' (VBool False)))
                (ValueError ''complete intent transfer requires matching buffer evidence'') (
              raise_if (source \<noteq> VNone \<and> destination \<noteq> VNone \<and> py_str str_of source \<noteq> py_str str_of destination)
                (ValueError ''verified byte evidence digest mismatch'') (
              rbind (int_field evidence ''expected_bytes'') (\<lambda>expected.
              Inr ([(''verified'', VBool True), (''verified_bytes'', VInt verified)] @ expected @
                [(''content_match'', VBool True),
                 (''verification_source'', VStr (py_str str_of
                    (vor (vget evidence ''verification_source'' VNone) (VStr completion_source)))),
                 (''verification_method'', VStr (py_str str_of
                    (vor (vget evidence ''verification_method'' VNone) (VStr ''unknown''))))] @
                text_field str_of evidence ''source_digest'' @ text_field str_of evidence ''destination_digest'')))))))"

section \<open>Attachments\<close>

definition completion_mapping_fields :: "string list" where
  "completion_mapping_fields =
     [''resource_evidence'', ''direct_completion_evidence'', ''relay_completion_evidence'',
      ''worker_completion_evidence'', ''cleanup'', ''worker_startup'', ''worker_async_pool'',
      ''worker_runtime_feedback'', ''async_data_plane'', ''path_level_evidence'',
      ''failure_cleanup_contract'', ''block_runtime'']"

text \<open>The CUDA IPC record may sit inside the resource evidence.\<close>

definition cuda_ipc_lifecycle :: "mapping \<Rightarrow> mapping" where
  "cuda_ipc_lifecycle evidence =
     (case vget evidence ''cuda_ipc_lifecycle'' VNone of
        VDict m \<Rightarrow> [(''cuda_ipc_lifecycle'', VDict m)]
      | _ \<Rightarrow> (case vget evidence ''resource_evidence'' VNone of
                VDict r \<Rightarrow> mapping_field r ''cuda_ipc_lifecycle'' | _ \<Rightarrow> []))"

definition normalize_completion_optional_evidence :: "mapping \<Rightarrow> mapping" where
  "normalize_completion_optional_evidence evidence =
     concat (map (mapping_field evidence) completion_mapping_fields) @
     concat (map (sequence_field evidence) [''native_path_stats'', ''relay_device_stats'']) @
     cuda_ipc_lifecycle evidence"

section \<open>The ticket\<close>

definition sorted_ints :: "int list \<Rightarrow> int list" where
  "sorted_ints is = sort (remdups is)"

definition canonical_owner_binding :: "(pyval \<Rightarrow> string) \<Rightarrow> mapping \<Rightarrow> mapping result" where
  "canonical_owner_binding str_of owner =
     (case vget owner ''cleanup_scope'' VNone of
        VDict scope \<Rightarrow>
          rbind (vindex owner ''job_id'') (\<lambda>job.
          rbind (vindex owner ''session_id'') (\<lambda>session.
          rbind (vindex owner ''transfer_id'') (\<lambda>transfer.
          rbind (iterate_or_empty (vget owner ''lease_ids'' (VList []))) (\<lambda>leases.
          rbind (rbind (iterate_or_empty (vget owner ''relay_gpus'' (VList []))) (rmap py_int)) (\<lambda>relays.
          rbind (iterate_or_empty (vget scope ''target_ids'' (VList []))) (\<lambda>targets.
          Inr ([(''job_id'', VStr (py_str str_of job)), (''session_id'', VStr (py_str str_of session)),
                (''transfer_id'', VStr (py_str str_of transfer)),
                (''lease_ids'', VList (map (VStr \<circ> py_str str_of) leases)),
                (''relay_gpus'', VList (map VInt (sorted_ints relays))),
                (''cleanup_scope'', VDict
                  [(''target_kind'', VStr (lower (py_str str_of (vget scope ''target_kind'' (VStr []))))),
                   (''target_ids'', VList (map (VStr \<circ> py_str str_of) targets))])] @
               mapping_field owner ''peer_identity'')))))))
      | _ \<Rightarrow> Inl (ValueError ''owner_binding cleanup_scope is required''))"

definition normalize_evidence_owner_binding ::
  "(pyval \<Rightarrow> string) \<Rightarrow> mapping \<Rightarrow> ExecutionTicket \<Rightarrow> string \<Rightarrow> mapping option result" where
  "normalize_evidence_owner_binding str_of evidence ticket name =
     (case vget (et_metadata ticket) ''owner_binding'' VNone of
        VDict expected \<Rightarrow>
          (case vget evidence ''owner_binding'' VNone of
             VDict owner \<Rightarrow>
               rbind (canonical_owner_binding str_of expected) (\<lambda>e.
               rbind (canonical_owner_binding str_of owner) (\<lambda>o'.
               raise_if (\<not> py_eq (VDict e) (VDict o'))
                 (ValueError (name @ '' owner_binding does not match daemon ticket'')) (Inr (Some e))))
           | _ \<Rightarrow> Inl (ValueError (name @ '' owner_binding is required'')))
      | _ \<Rightarrow> Inr None)"

definition normalize_ticket_binding ::
  "(pyval \<Rightarrow> string) \<Rightarrow> mapping \<Rightarrow> ExecutionTicket \<Rightarrow> string \<Rightarrow> mapping result" where
  "normalize_ticket_binding str_of evidence ticket name =
     (let ticket_id = vget evidence ''ticket_id'' VNone;
          transfer = vget evidence ''transfer_id'' VNone;
          expected_transfer = vget (et_metadata ticket) ''transfer_id'' VNone;
          generation = vget evidence ''plan_generation'' VNone;
          expected_generation = vget (et_metadata ticket) ''plan_generation'' VNone;
          stale = ValueError (name @ '' plan_generation does not match daemon ticket'')
      in raise_if (ticket_id = VNone \<or> py_str str_of ticket_id \<noteq> et_ticket_id ticket)
           (ValueError (name @ '' ticket_id does not match daemon ticket'')) (
         raise_if (expected_transfer \<noteq> VNone \<and>
             (transfer = VNone \<or> py_str str_of transfer \<noteq> py_str str_of expected_transfer))
           (ValueError (name @ '' transfer_id does not match daemon ticket'')) (
         rbind (if expected_generation = VNone then Inr []
                else raise_if (generation = VNone) stale (
                     rbind (py_int generation) (\<lambda>g.
                     rbind (py_int expected_generation) (\<lambda>e.
                     raise_if (g \<noteq> e) stale (Inr [(''plan_generation'', VInt e)]))))) (\<lambda>generations.
         rbind (normalize_evidence_owner_binding str_of evidence ticket name) (\<lambda>owner.
         Inr ([(''ticket_id'', VStr (et_ticket_id ticket))] @
              (if expected_transfer = VNone then []
               else [(''transfer_id'', VStr (py_str str_of expected_transfer))]) @
              generations @
              (case owner of None \<Rightarrow> [] | Some b \<Rightarrow> [(''owner_binding'', VDict b)])))))))"

section \<open>The entry points\<close>

definition normalize_completion_evidence ::
  "(pyval \<Rightarrow> string) \<Rightarrow> pyval \<Rightarrow> int \<Rightarrow> string \<Rightarrow> ExecutionTicket option \<Rightarrow> mapping result" where
  "normalize_completion_evidence str_of evidence expected_bytes completion_source ticket =
     (case evidence of
        VDict ev \<Rightarrow>
          rbind (normalize_verified_completion_base str_of ev expected_bytes completion_source) (\<lambda>base.
          rbind (case ticket of None \<Rightarrow> Inr []
                 | Some k \<Rightarrow> normalize_ticket_binding str_of ev k ''completion evidence'') (\<lambda>binding.
          rbind (normalize_completion_path_evidence str_of ev expected_bytes) (\<lambda>path.
          Inr (base @ normalize_completion_optional_evidence ev @
               (if path = [] then [] else [(''execution_path_evidence'', VDict path)]) @ binding))))
      | _ \<Rightarrow> Inl (ValueError ''complete intent transfer requires verified byte evidence''))"

definition status_mapping_fields :: "string list" where
  "status_mapping_fields =
     [''cleanup'', ''direct_completion_evidence'', ''relay_completion_evidence'',
      ''worker_completion_evidence'', ''worker_startup'', ''worker_async_pool'',
      ''worker_runtime_feedback'', ''async_data_plane'', ''failure_cleanup_contract'', ''block_runtime'']"

definition status_text_fields :: "string list" where
  "status_text_fields =
     [''executor'', ''path'', ''plan_source'', ''verification_source'', ''verification_method'',
      ''source_digest'', ''destination_digest'', ''failure_source'']"

definition normalize_status_ticket_evidence ::
  "(pyval \<Rightarrow> string) \<Rightarrow> pyval \<Rightarrow> ExecutionTicket \<Rightarrow> mapping result" where
  "normalize_status_ticket_evidence str_of evidence ticket =
     (case evidence of
        VDict ev \<Rightarrow>
          rbind (normalize_ticket_binding str_of ev ticket ''status evidence'') (\<lambda>binding.
          rbind (py_int (vor (vget ev ''expected_bytes'' (VInt 0)) (VInt 0))) (\<lambda>expected.
          rbind (normalize_execution_path_evidence str_of ev expected False) (\<lambda>path.
          Inr (binding @ mapping_field ev ''resource_evidence'' @
               (if path = [] then [] else [(''execution_path_evidence'', VDict path)]) @
               concat (map (mapping_field ev) status_mapping_fields) @
               cuda_ipc_lifecycle ev @
               concat (map (text_field str_of ev) status_text_fields)))))
      | _ \<Rightarrow> Inl (ValueError ''intent transfer status update requires daemon ticket evidence''))"

definition merged_evidence_fields :: "string list" where
  "merged_evidence_fields =
     [''resource_evidence'', ''execution_path_evidence'', ''direct_completion_evidence'',
      ''relay_completion_evidence'', ''worker_completion_evidence'', ''cleanup'', ''worker_async_pool'',
      ''worker_runtime_feedback'', ''async_data_plane'', ''path_level_evidence'',
      ''failure_cleanup_contract'', ''cuda_ipc_lifecycle'', ''block_runtime'']"

definition merge_evidence_field :: "mapping \<Rightarrow> mapping \<Rightarrow> string \<Rightarrow> mapping \<Rightarrow> mapping" where
  "merge_evidence_field existing incoming f merged =
     (case vget existing f VNone of
        VDict previous \<Rightarrow>
          (case map_of incoming f of
             None \<Rightarrow> AList.update f (VDict previous) merged
           | Some (VDict current) \<Rightarrow> AList.update f (VDict (dict_merge previous current)) merged
           | Some _ \<Rightarrow> merged)
      | _ \<Rightarrow> merged)"

definition merge_completion_evidence :: "mapping option \<Rightarrow> mapping \<Rightarrow> mapping" where
  "merge_completion_evidence existing incoming =
     (case existing of
        None \<Rightarrow> incoming
      | Some e \<Rightarrow> fold (merge_evidence_field e incoming) merged_evidence_fields (dict_merge e incoming))"

section \<open>Lookups\<close>

named_theorems lookup_simps

lemma lookup_fields [lookup_simps]:
  "map_of (mapping_field ev f) k = (if k = f \<and> is_mapping (vget ev f VNone) then Some (vget ev f VNone) else None)"
  "map_of (text_field str_of ev f) k =
     (if k = f \<and> vget ev f VNone \<noteq> VNone then Some (VStr (py_str str_of (vget ev f VNone))) else None)"
  "map_of (sequence_field ev f) k = (case vget ev f VNone of
     VList xs \<Rightarrow> (if k = f then Some (VList (filter is_mapping xs)) else None) | _ \<Rightarrow> None)"
  by (auto simp: mapping_field_def text_field_def sequence_field_def is_mapping_def split: pyval.splits)

lemma lookup_concat [lookup_simps]:
  "map_of (concat (map (mapping_field ev) fs)) k = (if k \<in> set fs then map_of (mapping_field ev k) k else None)"
  "map_of (concat (map (text_field str_of ev) fs)) k = (if k \<in> set fs then map_of (text_field str_of ev k) k else None)"
  by (induction fs) (auto simp: lookup_fields map_add_def split: option.splits)

lemma vget_map_of: "vget m k v = (case map_of m k of None \<Rightarrow> v | Some x \<Rightarrow> x)"
  by (simp add: vget_def dget_default_def)

lemma lookup_cuda [lookup_simps]: "k \<noteq> ''cuda_ipc_lifecycle'' \<Longrightarrow> map_of (cuda_ipc_lifecycle ev) k = None"
  by (auto simp: cuda_ipc_lifecycle_def lookup_fields split: pyval.splits)

lemma lookup_sequences [lookup_simps]:
  "k \<notin> {''native_path_stats'', ''relay_device_stats''} \<Longrightarrow>
   map_of (sequence_field ev ''native_path_stats'') k = None \<and> map_of (sequence_field ev ''relay_device_stats'') k = None"
  by (auto simp: lookup_fields split: pyval.splits)

lemma lookup_optional:
  "k \<notin> set completion_mapping_fields \<union> {''native_path_stats'', ''relay_device_stats'', ''cuda_ipc_lifecycle''} \<Longrightarrow>
   map_of (normalize_completion_optional_evidence ev) k = None"
  by (auto simp: normalize_completion_optional_evidence_def lookup_simps map_add_def split: pyval.splits)

lemma int_field_lookup:
  "int_field ev f = Inr m \<Longrightarrow> map_of m k = (if k = f \<and> vget ev f VNone \<noteq> VNone
     then (case py_int (vget ev f VNone) of Inr i \<Rightarrow> Some (VInt i) | Inl e \<Rightarrow> None) else None)"
  by (auto simp: int_field_def rbind_def split: if_splits sum.splits)

text \<open>What the verified base says.\<close>

lemma base_Inr:
  assumes "normalize_verified_completion_base str_of ev n src = Inr b"
  shows "rbind (vindex ev ''verified_bytes'') py_int = Inr n" and "truthy (vget ev ''content_match'' (VBool False))"
    and "map_of b ''verified_bytes'' = Some (VInt n)" and "map_of b ''content_match'' = Some (VBool True)"
    and "map_of b ''source_digest'' = map_of (text_field str_of ev ''source_digest'') ''source_digest''"
    and "map_of b ''destination_digest'' = map_of (text_field str_of ev ''destination_digest'') ''destination_digest''"
    and "vget ev ''source_digest'' VNone = VNone \<or> vget ev ''destination_digest'' VNone = VNone \<or>
      py_str str_of (vget ev ''source_digest'' VNone) = py_str str_of (vget ev ''destination_digest'' VNone)"
    and "vget b ''expected_bytes'' VNone = VNone \<or> (\<exists>i. vget b ''expected_bytes'' VNone = VInt i)"
    and "k \<notin> {''verified'', ''verified_bytes'', ''expected_bytes'', ''content_match'', ''verification_source'',
       ''verification_method'', ''source_digest'', ''destination_digest''} \<Longrightarrow> map_of b k = None"
proof -
  obtain v where v: "rbind (vindex ev ''verified_bytes'') py_int = Inr v"
    using assms by (auto simp: normalize_verified_completion_base_def split: sum.splits)
  from assms obtain e where n: "v = n" and c: "truthy (vget ev ''content_match'' (VBool False))"
    and d: "vget ev ''source_digest'' VNone = VNone \<or> vget ev ''destination_digest'' VNone = VNone \<or>
      py_str str_of (vget ev ''source_digest'' VNone) = py_str str_of (vget ev ''destination_digest'' VNone)"
    and e: "int_field ev ''expected_bytes'' = Inr e"
    and b: "b = [(''verified'', VBool True), (''verified_bytes'', VInt v)] @ e @
       [(''content_match'', VBool True),
        (''verification_source'', VStr (py_str str_of (vor (vget ev ''verification_source'' VNone) (VStr src)))),
        (''verification_method'', VStr (py_str str_of (vor (vget ev ''verification_method'' VNone) (VStr ''unknown''))))] @
       text_field str_of ev ''source_digest'' @ text_field str_of ev ''destination_digest''"
    unfolding normalize_verified_completion_base_def v
    by (auto simp: Let_def result_simps)
  note el = int_field_lookup [OF e]
  show "rbind (vindex ev ''verified_bytes'') py_int = Inr n" using v n by simp
  show "truthy (vget ev ''content_match'' (VBool False))" by (rule c)
  show "map_of b ''verified_bytes'' = Some (VInt n)" "map_of b ''content_match'' = Some (VBool True)"
    "map_of b ''source_digest'' = map_of (text_field str_of ev ''source_digest'') ''source_digest''"
    "map_of b ''destination_digest'' = map_of (text_field str_of ev ''destination_digest'') ''destination_digest''"
    by (simp_all add: b n el lookup_fields map_add_def split: option.splits)
  show "vget b ''expected_bytes'' VNone = VNone \<or> (\<exists>i. vget b ''expected_bytes'' VNone = VInt i)"
    by (simp add: vget_map_of b el lookup_fields map_add_def split: option.splits sum.splits)
  show "vget ev ''source_digest'' VNone = VNone \<or> vget ev ''destination_digest'' VNone = VNone \<or>
      py_str str_of (vget ev ''source_digest'' VNone) = py_str str_of (vget ev ''destination_digest'' VNone)" by (rule d)
  show "map_of b k = None" if "k \<notin> {''verified'', ''verified_bytes'', ''expected_bytes'', ''content_match'',
      ''verification_source'', ''verification_method'', ''source_digest'', ''destination_digest''}"
    using that by (simp add: b el lookup_fields map_add_def)
qed

lemma base_total:
  assumes "map_of ev ''verified_bytes'' = Some (VInt n)" and "map_of ev ''content_match'' = Some (VBool True)"
    and "vget ev ''source_digest'' VNone = VNone \<or> vget ev ''destination_digest'' VNone = VNone \<or>
      py_str str_of (vget ev ''source_digest'' VNone) = py_str str_of (vget ev ''destination_digest'' VNone)"
    and "vget ev ''expected_bytes'' VNone = VNone \<or> (\<exists>i. vget ev ''expected_bytes'' VNone = VInt i)"
  shows "\<exists>b. normalize_verified_completion_base str_of ev n src = Inr b"
  using assms
  by (auto simp: normalize_verified_completion_base_def vindex_def vget_map_of [of ev "''content_match''"]
      int_field_def Let_def raise_if_def)

section \<open>Normalised paths normalise again\<close>

lemma int_fields_lookup:
  "rmap (int_field ev) fs = Inr ms \<Longrightarrow> map_of (concat ms) k = (if k \<in> set fs \<and> vget ev k VNone \<noteq> VNone
     then (case py_int (vget ev k VNone) of Inr i \<Rightarrow> Some (VInt i) | Inl e \<Rightarrow> None) else None)"
  by (induction fs arbitrary: ms)
     (auto simp: result_simps int_field_lookup map_add_def split: option.splits sum.splits)

definition settled_path :: "mapping \<Rightarrow> int \<Rightarrow> bool" where
  "settled_path p n =
     ((\<forall>f \<in> set path_int_fields. vget p f VNone = VNone \<or> (\<exists>i. vget p f VNone = VInt i)) \<and>
      (vget p ''relay_gpus'' VNone = VNone \<or> (\<exists>is. vget p ''relay_gpus'' VNone = VList (map VInt is))) \<and>
      (\<forall>a b. vget p ''direct_bytes'' VNone = VInt a \<and> vget p ''relay_bytes'' VNone = VInt b \<longrightarrow> a + b = n))"

lemma rmap_ints [simp]: "rmap py_int (map VInt is) = Inr is"
  by (induction "is") auto

lemma relay_gpus_lookup:
  assumes "relay_gpus_field ev = Inr m"
  shows "k \<noteq> ''relay_gpus'' \<Longrightarrow> map_of m k = None"
    and "vget m ''relay_gpus'' VNone = VNone \<or> (\<exists>is. vget m ''relay_gpus'' VNone = VList (map VInt is))"
  using assms by (auto simp: relay_gpus_field_def Let_def result_simps vget_map_of [of "[_]"] vget_map_of [of "[]"]
      split: pyval.splits if_splits)

definition path_fields :: "(pyval \<Rightarrow> string) \<Rightarrow> mapping \<Rightarrow> mapping list \<Rightarrow> mapping \<Rightarrow> mapping" where
  "path_fields str_of ev ints gpus = concat ints @ gpus @ concat (map (text_field str_of ev) path_text_fields) @
     mapping_field ev ''path_level_evidence'' @ sequence_field ev ''native_path_stats'' @
     sequence_field ev ''relay_device_stats''"

lemma path_evidence_eq:
  "normalize_execution_path_evidence str_of ev n total_match =
     rbind (rmap (int_field ev) path_int_fields) (\<lambda>ints. rbind (relay_gpus_field ev) (\<lambda>gpus.
     let result = path_fields str_of ev ints gpus
     in case (vget result ''direct_bytes'' VNone, vget result ''relay_bytes'' VNone) of
          (VInt direct, VInt relay) \<Rightarrow>
            raise_if (total_match \<and> direct + relay \<noteq> n)
              (ValueError (''execution path byte evidence mismatch: '' @ int_str (direct + relay) @
                 '' != '' @ int_str n)) (Inr result)
        | _ \<Rightarrow> Inr result))"
  by (simp only: normalize_execution_path_evidence_def path_fields_def)

lemma path_fields_lookup:
  assumes "rmap (int_field ev) path_int_fields = Inr ms" and "relay_gpus_field ev = Inr gs"
  shows "k \<in> set path_int_fields \<Longrightarrow> map_of (path_fields str_of ev ms gs) k = map_of (concat ms) k"
    and "map_of (path_fields str_of ev ms gs) ''relay_gpus'' = map_of gs ''relay_gpus''"
    and "map_of (path_fields str_of ev ms gs) ''block_progress'' = None"
proof -
  have rest: "map_of (concat (map (text_field str_of ev) path_text_fields) @ mapping_field ev ''path_level_evidence'' @
      sequence_field ev ''native_path_stats'' @ sequence_field ev ''relay_device_stats'') k = None"
    if "k \<in> set path_int_fields \<union> {''relay_gpus'', ''block_progress''}" for k
  proof -
    have "k \<notin> set path_text_fields \<union> {''path_level_evidence'', ''native_path_stats'', ''relay_device_stats''}"
      using that by (auto simp: path_int_fields_def path_text_fields_def)
    then show ?thesis by (auto simp: lookup_simps map_add_def split: pyval.splits)
  qed
  have gs: "map_of gs k = None" if "k \<in> set path_int_fields \<union> {''block_progress''}" for k
    by (rule relay_gpus_lookup [OF assms(2)]) (use that in \<open>auto simp: path_int_fields_def\<close>)
  have ms: "map_of (concat ms) k = None" if "k \<in> {''relay_gpus'', ''block_progress''}" for k
    using that by (auto simp: int_fields_lookup [OF assms(1)] path_int_fields_def)
  show "map_of (path_fields str_of ev ms gs) k = map_of (concat ms) k" if "k \<in> set path_int_fields"
    using rest [of k] gs [of k] that by (simp add: path_fields_def map_add_def split: option.splits)
  show "map_of (path_fields str_of ev ms gs) ''relay_gpus'' = map_of gs ''relay_gpus''"
    using rest [of "''relay_gpus''"] ms [of "''relay_gpus''"] by (simp add: path_fields_def map_add_def split: option.splits)
  show "map_of (path_fields str_of ev ms gs) ''block_progress'' = None"
    using rest [of "''block_progress''"] ms [of "''block_progress''"] gs [of "''block_progress''"]
    by (simp add: path_fields_def map_add_def split: option.splits)
qed

lemma path_Inr:
  assumes "normalize_execution_path_evidence str_of ev n m = Inr p"
  shows "m \<Longrightarrow> settled_path p n" and "map_of p ''block_progress'' = None"
proof -
  obtain ms gs where ms: "rmap (int_field ev) path_int_fields = Inr ms" and gs: "relay_gpus_field ev = Inr gs"
    using assms by (auto simp: path_evidence_eq result_simps)
  note look = path_fields_lookup [OF ms gs, where str_of = "str_of"]
  have p: "p = path_fields str_of ev ms gs" and sum: "m \<longrightarrow> (\<forall>a b. vget p ''direct_bytes'' VNone = VInt a \<and>
      vget p ''relay_bytes'' VNone = VInt b \<longrightarrow> a + b = n)"
    using assms by (auto simp: path_evidence_eq ms gs Let_def result_simps split: pyval.splits)
  have "vget p f VNone = VNone \<or> (\<exists>i. vget p f VNone = VInt i)" if "f \<in> set path_int_fields" for f
    using look(1) [OF that] by (simp add: p vget_map_of [of "path_fields _ _ _ _"] int_fields_lookup [OF ms] that split: sum.splits)
  moreover have "vget p ''relay_gpus'' VNone = VNone \<or> (\<exists>is. vget p ''relay_gpus'' VNone = VList (map VInt is))"
    using relay_gpus_lookup(2) [OF gs] look(2) by (simp add: p vget_map_of)
  ultimately show "m \<Longrightarrow> settled_path p n" using sum by (simp add: settled_path_def)
  show "map_of p ''block_progress'' = None" using look(3) by (simp add: p)
qed

lemma rmap_int_fields_total:
  "\<forall>f \<in> set fs. vget p f VNone = VNone \<or> (\<exists>i. vget p f VNone = VInt i) \<Longrightarrow> \<exists>ms. rmap (int_field p) fs = Inr ms"
  by (induction fs) (auto simp: int_field_def)

lemma path_total:
  assumes "settled_path p n"
  shows "\<exists>q. normalize_execution_path_evidence str_of p n True = Inr q"
proof -
  have ints: "\<forall>f \<in> set path_int_fields. vget p f VNone = VNone \<or> (\<exists>i. vget p f VNone = VInt i)"
    using assms by (simp add: settled_path_def)
  then obtain ms where ms: "rmap (int_field p) path_int_fields = Inr ms" using rmap_int_fields_total by blast
  obtain gs where gs: "relay_gpus_field p = Inr gs"
    using assms by (auto simp: settled_path_def relay_gpus_field_def)
  have same: "vget (path_fields str_of p ms gs) k VNone = vget p k VNone" if "k \<in> set path_int_fields" for k
    using path_fields_lookup(1) [OF ms gs that, of "str_of"] bspec [OF ints that]
    by (auto simp: vget_map_of [of "path_fields _ _ _ _"] int_fields_lookup [OF ms] that)
  have "vget (path_fields str_of p ms gs) ''direct_bytes'' VNone = vget p ''direct_bytes'' VNone"
    "vget (path_fields str_of p ms gs) ''relay_bytes'' VNone = vget p ''relay_bytes'' VNone"
    by (rule same, simp add: path_int_fields_def)+
  with assms show ?thesis
    by (auto simp: path_evidence_eq ms gs Let_def settled_path_def split: pyval.splits)
qed

section \<open>Bindings normalise again\<close>

lemma rmap_py_int_sorted: "sorted_ints (sorted_ints is) = sorted_ints is"
  by (simp add: sorted_ints_def sorted_sort_id remdups_id_iff_distinct)

lemma iterate_list [simp]: "iterate_or_empty (VList xs) = Inr xs"
  by (simp add: iterate_or_empty_def)

lemma py_str_VStr [simp]: "py_str str_of (VStr s) = s"
  by (simp add: py_str_def)

lemma map_py_str [simp]: "map (VStr \<circ> py_str str_of) (map (VStr \<circ> py_str str_of) xs) = map (VStr \<circ> py_str str_of) xs"
  by simp

lemma vget_wf: "py_wf (VDict m) \<Longrightarrow> py_wf (vget m k VNone)"
  by (auto simp: vget_map_of list_all_iff dest!: map_of_SomeD split: option.splits)

lemma canonical_again:
  assumes "canonical_owner_binding str_of owner = Inr e"
  shows "canonical_owner_binding str_of e = Inr e"
    and "py_wf (VDict owner) \<Longrightarrow> py_wf (VDict e)"
proof -
  obtain scope job session transfer leases relays targets where
    e: "e = [(''job_id'', VStr (py_str str_of job)), (''session_id'', VStr (py_str str_of session)),
                (''transfer_id'', VStr (py_str str_of transfer)),
                (''lease_ids'', VList (map (VStr \<circ> py_str str_of) leases)),
                (''relay_gpus'', VList (map VInt (sorted_ints relays))),
                (''cleanup_scope'', VDict
                  [(''target_kind'', VStr (lower (py_str str_of (vget scope ''target_kind'' (VStr []))))),
                   (''target_ids'', VList (map (VStr \<circ> py_str str_of) targets))])] @
               mapping_field owner ''peer_identity''"
    using assms by (auto simp: canonical_owner_binding_def result_simps split: pyval.splits)
  have get: "vget e ''cleanup_scope'' VNone = VDict
        [(''target_kind'', VStr (lower (py_str str_of (vget scope ''target_kind'' (VStr []))))),
         (''target_ids'', VList (map (VStr \<circ> py_str str_of) targets))]"
    "vindex e ''job_id'' = Inr (VStr (py_str str_of job))"
    "vindex e ''session_id'' = Inr (VStr (py_str str_of session))"
    "vindex e ''transfer_id'' = Inr (VStr (py_str str_of transfer))"
    "vget e ''lease_ids'' (VList []) = VList (map (VStr \<circ> py_str str_of) leases)"
    "vget e ''relay_gpus'' (VList []) = VList (map VInt (sorted_ints relays))"
    by (simp_all add: e vget_map_of vindex_def)
  have scope: "vget [(''target_kind'', v), (''target_ids'', VList ts)] ''target_kind'' (VStr []) = v"
    "vget [(''target_kind'', v), (''target_ids'', VList ts)] ''target_ids'' (VList []) = VList ts" for v ts
    by (simp_all add: vget_map_of)
  have peer: "mapping_field e ''peer_identity'' = mapping_field owner ''peer_identity''"
    by (auto simp: mapping_field_def e vget_map_of [of "_ # _"] split: pyval.splits)
  show "canonical_owner_binding str_of e = Inr e"
    by (simp add: canonical_owner_binding_def get scope peer rmap_py_int_sorted) (simp add: e)
  show "py_wf (VDict e)" if "py_wf (VDict owner)"
  proof -
    from that have "py_wf (vget owner ''peer_identity'' VNone)" by (rule vget_wf)
    then show ?thesis
      by (auto simp: e dict_wf_def mapping_field_def list_all_iff split: pyval.splits)
  qed
qed

text \<open>What a binding to a ticket says, and that evidence which says so is bound to the ticket.\<close>

definition bound_to :: "(pyval \<Rightarrow> string) \<Rightarrow> ExecutionTicket \<Rightarrow> mapping \<Rightarrow> bool" where
  "bound_to str_of k b =
     (vget b ''ticket_id'' VNone = VStr (et_ticket_id k) \<and>
      (vget (et_metadata k) ''transfer_id'' VNone \<noteq> VNone \<longrightarrow>
         vget b ''transfer_id'' VNone = VStr (py_str str_of (vget (et_metadata k) ''transfer_id'' VNone))) \<and>
      (vget (et_metadata k) ''plan_generation'' VNone \<noteq> VNone \<longrightarrow>
         (\<exists>g. py_int (vget (et_metadata k) ''plan_generation'' VNone) = Inr g \<and>
              vget b ''plan_generation'' VNone = VInt g)) \<and>
      (\<forall>o'. vget (et_metadata k) ''owner_binding'' VNone = VDict o' \<longrightarrow>
         (\<exists>e. canonical_owner_binding str_of o' = Inr e \<and> vget b ''owner_binding'' VNone = VDict e)))"

lemma binding_Inr:
  assumes "normalize_ticket_binding str_of ev k name = Inr b"
  shows "bound_to str_of k b"
    and "vget ev ''ticket_id'' VNone \<noteq> VNone" "py_str str_of (vget ev ''ticket_id'' VNone) = et_ticket_id k"
    and "f \<notin> {''ticket_id'', ''transfer_id'', ''plan_generation'', ''owner_binding''} \<Longrightarrow> map_of b f = None"
proof -
  from assms obtain gs ow where
    b: "b = [(''ticket_id'', VStr (et_ticket_id k))] @
              (if vget (et_metadata k) ''transfer_id'' VNone = VNone then []
               else [(''transfer_id'', VStr (py_str str_of (vget (et_metadata k) ''transfer_id'' VNone)))]) @
              gs @ (case ow of None \<Rightarrow> [] | Some b \<Rightarrow> [(''owner_binding'', VDict b)])"
    and ow: "normalize_evidence_owner_binding str_of ev k name = Inr ow"
    and gs: "vget (et_metadata k) ''plan_generation'' VNone = VNone \<and> gs = [] \<or>
       (\<exists>g. vget (et_metadata k) ''plan_generation'' VNone \<noteq> VNone \<and>
          py_int (vget (et_metadata k) ''plan_generation'' VNone) = Inr g \<and> gs = [(''plan_generation'', VInt g)])"
    and t: "vget ev ''ticket_id'' VNone \<noteq> VNone" "py_str str_of (vget ev ''ticket_id'' VNone) = et_ticket_id k"
    by (auto simp: normalize_ticket_binding_def Let_def result_simps split: if_splits)
  have own: "\<exists>e. canonical_owner_binding str_of o' = Inr e \<and> ow = Some e"
    if "vget (et_metadata k) ''owner_binding'' VNone = VDict o'" for o'
    using ow that by (auto simp: normalize_evidence_owner_binding_def result_simps split: pyval.splits)
  show "bound_to str_of k b"
    unfolding bound_to_def using gs own
    by (auto simp: b vget_map_of [of "_ # _"] vget_map_of [of "_ @ _"] map_add_def split: option.splits)
  show "vget ev ''ticket_id'' VNone \<noteq> VNone" "py_str str_of (vget ev ''ticket_id'' VNone) = et_ticket_id k"
    by (rule t)+
  show "map_of b f = None" if "f \<notin> {''ticket_id'', ''transfer_id'', ''plan_generation'', ''owner_binding''}"
    using that gs by (auto simp: b map_add_def split: option.splits)
qed

lemma binding_total:
  assumes "bound_to str_of k ev" and "py_wf (VDict (et_metadata k))"
  shows "\<exists>b. normalize_ticket_binding str_of ev k name = Inr b"
proof -
  have "\<exists>ow. normalize_evidence_owner_binding str_of ev k name = Inr ow"
  proof (cases "vget (et_metadata k) ''owner_binding'' VNone")
    case (VDict o')
    with assms(1) obtain e where e: "canonical_owner_binding str_of o' = Inr e" "vget ev ''owner_binding'' VNone = VDict e"
      by (auto simp: bound_to_def)
    have "py_wf (VDict e)" by (rule canonical_again(2) [OF e(1) vget_wf [OF assms(2), of "''owner_binding''", unfolded VDict]])
    then have "py_eq (VDict e) (VDict e)" by (rule py_eq_refl)
    with VDict e canonical_again(1) [OF e(1)] show ?thesis
      by (simp add: normalize_evidence_owner_binding_def del: py_eq.simps)
  qed (simp_all add: normalize_evidence_owner_binding_def)
  with assms(1) show ?thesis
    by (auto simp: normalize_ticket_binding_def Let_def bound_to_def raise_if_def)
qed

section \<open>Accepted evidence\<close>

lemma completion_Inr:
  assumes "normalize_completion_evidence str_of v n src tk = Inr e"
  obtains ev base binding path where "v = VDict ev" "normalize_verified_completion_base str_of ev n src = Inr base"
    "(case tk of None \<Rightarrow> Inr [] | Some k \<Rightarrow> normalize_ticket_binding str_of ev k ''completion evidence'') = Inr binding"
    "normalize_completion_path_evidence str_of ev n = Inr path"
    "e = base @ normalize_completion_optional_evidence ev @
       (if path = [] then [] else [(''execution_path_evidence'', VDict path)]) @ binding"
  using assms by (auto simp: normalize_completion_evidence_def result_simps split: pyval.splits)

lemma completion_path_settled:
  "normalize_completion_path_evidence str_of ev n = Inr p \<Longrightarrow> settled_path p n"
  by (auto simp: normalize_completion_path_evidence_def split: pyval.splits intro: path_Inr(1))

definition base_fields :: "string list" where
  "base_fields = [''verified'', ''verified_bytes'', ''expected_bytes'', ''content_match'', ''verification_source'',
     ''verification_method'', ''source_digest'', ''destination_digest'']"

definition binding_fields :: "string list" where
  "binding_fields = [''ticket_id'', ''transfer_id'', ''plan_generation'', ''owner_binding'']"

definition optional_fields :: "string list" where
  "optional_fields = completion_mapping_fields @ [''native_path_stats'', ''relay_device_stats'', ''cuda_ipc_lifecycle'']"

lemmas field_lists = base_fields_def binding_fields_def optional_fields_def completion_mapping_fields_def

text \<open>Each field of accepted evidence comes from one part.\<close>

lemma completion_lookup:
  assumes "normalize_completion_evidence str_of v n src tk = Inr e"
  obtains ev base binding path where "v = VDict ev" "normalize_verified_completion_base str_of ev n src = Inr base"
    "(case tk of None \<Rightarrow> Inr [] | Some k \<Rightarrow> normalize_ticket_binding str_of ev k ''completion evidence'') = Inr binding"
    "settled_path path n"
    "\<And>f. f \<in> set base_fields \<Longrightarrow> map_of e f = map_of base f"
    "\<And>f. f \<in> set binding_fields \<Longrightarrow> map_of e f = map_of binding f"
    "map_of e ''execution_path_evidence'' = (if path = [] then None else Some (VDict path))"
    "\<And>f. f \<notin> set (base_fields @ binding_fields @ optional_fields @ [''execution_path_evidence'']) \<Longrightarrow> map_of e f = None"
proof -
  from assms obtain ev base binding path where ev: "v = VDict ev"
    and base: "normalize_verified_completion_base str_of ev n src = Inr base"
    and binding: "(case tk of None \<Rightarrow> Inr [] | Some k \<Rightarrow> normalize_ticket_binding str_of ev k ''completion evidence'') = Inr binding"
    and path: "normalize_completion_path_evidence str_of ev n = Inr path"
    and e: "e = base @ normalize_completion_optional_evidence ev @
       (if path = [] then [] else [(''execution_path_evidence'', VDict path)]) @ binding"
    by (rule completion_Inr)
  have none: "f \<notin> set base_fields \<Longrightarrow> map_of base f = None" "f \<notin> set binding_fields \<Longrightarrow> map_of binding f = None"
    "f \<notin> set optional_fields \<Longrightarrow> map_of (normalize_completion_optional_evidence ev) f = None" for f
    using base_Inr(9) [OF base, of f] binding binding_Inr(4) [of str_of ev _ "''completion evidence''" binding f]
      lookup_optional [of f ev]
    by (auto simp: base_fields_def binding_fields_def optional_fields_def split: option.splits)
  have disjoint: "f \<notin> set binding_fields \<and> f \<notin> set optional_fields \<and> f \<noteq> ''execution_path_evidence''"
    if "f \<in> set base_fields" for f
    using that by (auto simp: field_lists)
  have disjoint': "f \<notin> set base_fields \<and> f \<notin> set optional_fields \<and> f \<noteq> ''execution_path_evidence''"
    if "f \<in> set binding_fields" for f
    using that by (auto simp: field_lists)
  have disjoint'': "''execution_path_evidence'' \<notin> set (base_fields @ binding_fields @ optional_fields)"
    by (simp add: field_lists)
  show thesis
  proof
    show "settled_path path n" by (rule completion_path_settled [OF path])
    show "map_of e f = map_of base f" if "f \<in> set base_fields" for f
      using disjoint [OF that] none(2,3) by (simp add: e map_add_def split: option.splits)
    show "map_of e f = map_of binding f" if "f \<in> set binding_fields" for f
      using disjoint' [OF that] none(1,3) by (simp add: e map_add_def split: option.splits)
    show "map_of e ''execution_path_evidence'' = (if path = [] then None else Some (VDict path))"
      using disjoint'' none by (simp add: e map_add_def)
    show "map_of e f = None"
      if "f \<notin> set (base_fields @ binding_fields @ optional_fields @ [''execution_path_evidence''])" for f
      using that none by (simp add: e map_add_def)
  qed (rule ev base binding)+
qed

lemma settled_path_cong:
  "(\<And>f. f \<in> set path_int_fields \<union> {''relay_gpus''} \<Longrightarrow> map_of p f = map_of q f) \<Longrightarrow> settled_path p n = settled_path q n"
  unfolding settled_path_def vget_map_of by (simp add: path_int_fields_def)

lemma explicit_lookup:
  assumes "map_of ev f = None"
  shows "map_of (explicit_path_evidence ev p) f = map_of p f"
proof -
  have "map_of (concat (map (\<lambda>g. case map_of ev g of Some v \<Rightarrow> if map_of p g = None then [(g, v)] else [] | None \<Rightarrow> []) gs)) f = None"
    for gs
    using assms by (induction gs) (auto simp: map_add_def split: option.splits)
  then show ?thesis by (simp add: explicit_path_evidence_def map_add_def split: option.splits)
qed

lemma completion_again:
  assumes "normalize_completion_evidence str_of v n src tk = Inr e"
    and "\<And>k. tk = Some k \<Longrightarrow> py_wf (VDict (et_metadata k))"
  shows "\<exists>e'. normalize_completion_evidence str_of (VDict e) n src' tk = Inr e'"
proof -
  from assms(1) obtain ev base binding path where v: "v = VDict ev"
    and base: "normalize_verified_completion_base str_of ev n src = Inr base"
    and binding: "(case tk of None \<Rightarrow> Inr [] | Some k \<Rightarrow> normalize_ticket_binding str_of ev k ''completion evidence'') = Inr binding"
    and path: "settled_path path n"
    and look: "\<And>f. f \<in> set base_fields \<Longrightarrow> map_of e f = map_of base f"
      "\<And>f. f \<in> set binding_fields \<Longrightarrow> map_of e f = map_of binding f"
      "map_of e ''execution_path_evidence'' = (if path = [] then None else Some (VDict path))"
      "\<And>f. f \<notin> set (base_fields @ binding_fields @ optional_fields @ [''execution_path_evidence'']) \<Longrightarrow> map_of e f = None"
    by (rule completion_lookup) blast
  have get: "vget e f x = vget base f x" if "f \<in> set base_fields" for f x
    using look(1) [OF that] by (simp add: vget_map_of)
  note bi = base_Inr [OF base]
  have digest: "vget e ''source_digest'' VNone = VNone \<or> vget e ''destination_digest'' VNone = VNone \<or>
      py_str str_of (vget e ''source_digest'' VNone) = py_str str_of (vget e ''destination_digest'' VNone)"
    using bi(5-7) by (auto simp: get base_fields_def vget_map_of [of base] lookup_fields)
  have "\<exists>b. normalize_verified_completion_base str_of e n src' = Inr b"
    by (rule base_total) (use bi(3,4,8) digest in \<open>simp_all add: look(1) get base_fields_def\<close>)
  then obtain b where b: "normalize_verified_completion_base str_of e n src' = Inr b" ..
  have "\<exists>x. (case tk of None \<Rightarrow> Inr [] | Some k \<Rightarrow> normalize_ticket_binding str_of e k ''completion evidence'') = Inr x"
  proof (cases tk)
    case (Some k)
    have "bound_to str_of k e = bound_to str_of k binding"
      unfolding bound_to_def vget_map_of by (simp add: look(2) binding_fields_def)
    with binding Some binding_Inr(1) have "bound_to str_of k e" by simp
    from binding_total [OF this assms(2) [OF Some]] show ?thesis by (simp add: Some)
  qed simp
  then obtain x where x: "(case tk of None \<Rightarrow> Inr [] | Some k \<Rightarrow> normalize_ticket_binding str_of e k ''completion evidence'') = Inr x" ..
  have none: "map_of e f = None" if "f \<in> set path_int_fields \<union> {''relay_gpus''}" for f
    by (rule look(4)) (use that in \<open>auto simp: path_int_fields_def field_lists\<close>)
  have "\<exists>q. normalize_completion_path_evidence str_of e n = Inr q"
  proof (cases "path = []")
    case True
    have "settled_path e n" using settled_path_cong [of e "[]"] none by (simp add: True settled_path_def vget_map_of)
    with path_total True look(3) show ?thesis
      by (simp add: normalize_completion_path_evidence_def vget_map_of)
  next
    case False
    have "settled_path (explicit_path_evidence e path) n"
      using settled_path_cong [of "explicit_path_evidence e path" path n] explicit_lookup [OF none] path by blast
    with path_total False look(3) show ?thesis
      by (simp add: normalize_completion_path_evidence_def vget_map_of)
  qed
  with b x show ?thesis by (auto simp: normalize_completion_evidence_def)
qed

section \<open>Worker progress inside evidence\<close>

lemma status_Inr:
  assumes "normalize_status_ticket_evidence str_of v k = Inr e"
  obtains ev where "v = VDict ev" "vget ev ''ticket_id'' VNone \<noteq> VNone"
    "py_str str_of (vget ev ''ticket_id'' VNone) = et_ticket_id k" "map_of e ''block_progress'' = None"
proof -
  from assms obtain ev b p m where v: "v = VDict ev" and b: "normalize_ticket_binding str_of ev k ''status evidence'' = Inr b"
    and e: "e = b @ mapping_field ev ''resource_evidence'' @
       (if p = [] then [] else [(''execution_path_evidence'', VDict p)]) @
       concat (map (mapping_field ev) status_mapping_fields) @
       cuda_ipc_lifecycle ev @ concat (map (text_field str_of ev) status_text_fields)"
    by (auto simp: normalize_status_ticket_evidence_def result_simps split: pyval.splits)
  note bi = binding_Inr [OF b]
  have "''block_progress'' \<notin> set status_mapping_fields" "''block_progress'' \<notin> set status_text_fields"
    by (simp_all add: status_mapping_fields_def status_text_fields_def)
  with bi(4) [of "''block_progress''"] have "map_of e ''block_progress'' = None"
    by (simp add: e map_add_def lookup_simps)
  with v bi(2,3) that show thesis by blast
qed

text \<open>
  What either normaliser returns has no field \<open>block_progress\<close>.  The daemon keeps other evidence too:
  where no execution evidence is required it keeps the mapping it was given when the normalisation
  fails.
\<close>

lemma normalised_evidence_drops_block_progress:
  "(case normalize_completion_evidence str_of v n src tk of Inl e \<Rightarrow> True | Inr e \<Rightarrow> vget e ''block_progress'' VNone = VNone) \<and>
   (case normalize_status_ticket_evidence str_of v k of Inl e \<Rightarrow> True | Inr e \<Rightarrow> vget e ''block_progress'' VNone = VNone)"
proof -
  have "''block_progress'' \<notin> set (base_fields @ binding_fields @ optional_fields @ [''execution_path_evidence''])"
    by (simp add: field_lists)
  then show ?thesis
    by (auto simp: vget_map_of split: sum.splits elim: completion_lookup status_Inr)
qed

end
