(* ===== verification/Transfer_Lifecycle.thy ===== *)
theory Transfer_Lifecycle
  imports Evidence Block_Runtime
begin

text \<open>
  What a status update entails, \<open>turbobus/daemon/transfer_lifecycle.py\<close>: which records it stores, and
  how a transfer that ends is finalised.  With it, the values the daemon files as evidence: the views
  of \<open>turbobus/daemon/block_runtime.py\<close> written out as mappings.
\<close>

section \<open>Actions\<close>

record PersistenceActions =
  px_store_completion_ticket :: bool
  px_mark_admission_terminal :: bool
  px_drop_active_ticket :: bool
  px_store_completion_source :: bool
  px_merge_completion_evidence :: bool

text \<open>The terminal feedback ring is left out, and with it the action that feeds it.\<close>

definition status_persistence_actions ::
  "TransferStatus \<Rightarrow> mapping option \<Rightarrow> ExecutionTicket option \<Rightarrow> PersistenceActions" where
  "status_persistence_actions status evidence ticket =
     (let failed_or_canceled = (ts_state status \<in> {FAILED, CANCELED});
          completed = (ts_state status = COMPLETE)
      in \<lparr>px_store_completion_ticket = (ticket \<noteq> None \<and> (failed_or_canceled \<or> completed)),
          px_mark_admission_terminal = failed_or_canceled,
          px_drop_active_ticket = (failed_or_canceled \<or> completed \<and> ticket \<noteq> None),
          px_store_completion_source = (completed \<or> evidence \<noteq> None),
          px_merge_completion_evidence = (evidence \<noteq> None)\<rparr>)"

datatype RefreshAdmission = Always | If_Transfer_Removed | Never

record FinalizationPlan =
  fp_event_type :: "string option"
  fp_reason :: "string option"
  fp_failure_reason :: "string option"
  fp_retire_reason :: "string option"
  fp_release_reservations :: bool
  fp_refresh_admission :: RefreshAdmission
  fp_record_failure_cleanup_contract :: bool

definition terminal_finalization_plan :: "TransferStatus \<Rightarrow> FinalizationPlan" where
  "terminal_finalization_plan status =
     (let failing = (\<lambda>event reason. \<lparr>fp_event_type = Some event, fp_reason = Some reason,
            fp_failure_reason = Some reason, fp_retire_reason = Some reason,
            fp_release_reservations = True, fp_refresh_admission = Always,
            fp_record_failure_cleanup_contract = True\<rparr>)
      in case ts_state status of
           COMPLETE \<Rightarrow> \<lparr>fp_event_type = Some ''worker_completion'', fp_reason = None, fp_failure_reason = None,
             fp_retire_reason = Some ''worker_complete'', fp_release_reservations = False,
             fp_refresh_admission = If_Transfer_Removed, fp_record_failure_cleanup_contract = False\<rparr>
         | FAILED \<Rightarrow> failing ''worker_failure'' (or_text (ts_error status) ''worker_failed'')
         | CANCELED \<Rightarrow> failing ''transfer_canceled'' (or_text (ts_error status) ''transfer_canceled'')
         | _ \<Rightarrow> \<lparr>fp_event_type = None, fp_reason = None, fp_failure_reason = None, fp_retire_reason = None,
             fp_release_reservations = False, fp_refresh_admission = Never,
             fp_record_failure_cleanup_contract = False\<rparr>)"

definition failure_cleanup_contract ::
  "string \<Rightarrow> TransferStatusState \<Rightarrow> string \<Rightarrow> (string, int) dict \<Rightarrow> mapping list \<Rightarrow> rat \<Rightarrow> bool \<Rightarrow> int \<Rightarrow> int \<Rightarrow> mapping" where
  "failure_cleanup_contract transfer_id final_state error removed promoted recorded_at
       active_ticket_retained active_reservation_count active_staging_count =
     [(''source'', VStr ''daemon_failure_cleanup_contract''), (''transfer_id'', VStr transfer_id),
      (''final_state'', VStr (state_value final_state)), (''error'', VStr error),
      (''removed'', VDict (map (\<lambda>(k, n). (k, VInt n)) removed)),
      (''promoted_transfers'', VList (map VDict promoted)), (''recorded_at'', VFloat recorded_at),
      (''active_ticket_retained'', VBool active_ticket_retained),
      (''active_reservation_count'', VInt active_reservation_count),
      (''active_staging_count'', VInt active_staging_count)]"

section \<open>Block records as mappings\<close>

definition opt_value :: "('a \<Rightarrow> pyval) \<Rightarrow> 'a option \<Rightarrow> pyval" where
  "opt_value f v = (case v of None \<Rightarrow> VNone | Some x \<Rightarrow> f x)"

definition block_record_value :: "BlockRuntimeRecord \<Rightarrow> mapping" where
  "block_record_value r =
     [(''transfer_id'', VStr (bk_transfer_id r)), (''plan_id'', VStr (bk_plan_id r)),
      (''block_id'', VStr (bk_block_id r)), (''path_id'', VStr (bk_path_id r)),
      (''path_kind'', VStr (bk_path_kind r)), (''direction'', VStr (bk_direction r)),
      (''target_device'', VInt (bk_target_device r)), (''relay_device'', opt_value VInt (bk_relay_device r)),
      (''state'', VStr (bk_state r)), (''attempt'', VInt (bk_attempt r)),
      (''src_offset'', VInt (bk_src_offset r)), (''dst_offset'', VInt (bk_dst_offset r)),
      (''bytes'', VInt (bk_bytes r)), (''allowed_path_ids'', VList (map VStr (bk_allowed_path_ids r))),
      (''lease_ids'', VList (map VStr (bk_lease_ids r))), (''plan_generation'', VInt (bk_plan_generation r)),
      (''ticket_id'', opt_value VStr (bk_ticket_id r)), (''issued_at'', opt_value VFloat (bk_issued_at r)),
      (''started_at'', opt_value VFloat (bk_started_at r)),
      (''completed_at'', opt_value VFloat (bk_completed_at r)), (''error'', opt_value VStr (bk_error r))]"

text \<open>\<open>_record_from_mapping\<close>; times are numbers in the records the daemon stores, and texts of numbers are not parsed.\<close>

definition vfloat :: "pyval \<Rightarrow> rat result" where
  "vfloat v = (case v of VFloat x \<Rightarrow> Inr x | VInt i \<Rightarrow> Inr (of_int i)
     | VBool b \<Rightarrow> Inr (if b then 1 else 0) | _ \<Rightarrow> Inl ConversionTypeError)"

definition optional :: "(pyval \<Rightarrow> 'a result) \<Rightarrow> pyval \<Rightarrow> 'a option result" where
  "optional f v = (if v = VNone then Inr None else rbind (f v) (\<lambda>x. Inr (Some x)))"

definition int_or_zero :: "mapping \<Rightarrow> string \<Rightarrow> int result" where
  "int_or_zero m k = py_int (vor (vget m k (VInt 0)) (VInt 0))"

definition strings_or_empty :: "(pyval \<Rightarrow> string) \<Rightarrow> mapping \<Rightarrow> string \<Rightarrow> string list result" where
  "strings_or_empty str_of m k =
     rbind (iterate_or_empty (vget m k (VList []))) (\<lambda>xs. Inr (map (py_str str_of) xs))"

definition record_from_mapping :: "(pyval \<Rightarrow> string) \<Rightarrow> mapping \<Rightarrow> BlockRuntimeRecord result" where
  "record_from_mapping str_of m =
     (let text = py_str str_of; opt_text = (\<lambda>k. optional (\<lambda>v. Inr (text v)) (vget m k VNone))
      in rbind (optional py_int (vget m ''relay_device'' VNone)) (\<lambda>relay.
         rbind (vindex m ''transfer_id'') (\<lambda>transfer_id.
         rbind (vindex m ''plan_id'') (\<lambda>plan_id.
         rbind (vindex m ''block_id'') (\<lambda>block_id.
         rbind (vindex m ''path_id'') (\<lambda>path_id.
         rbind (py_int (vget m ''target_device'' (VInt (-1)))) (\<lambda>target.
         rbind (int_or_zero m ''attempt'') (\<lambda>attempt.
         rbind (int_or_zero m ''src_offset'') (\<lambda>src.
         rbind (int_or_zero m ''dst_offset'') (\<lambda>dst.
         rbind (int_or_zero m ''bytes'') (\<lambda>n.
         rbind (strings_or_empty str_of m ''allowed_path_ids'') (\<lambda>allowed.
         rbind (strings_or_empty str_of m ''lease_ids'') (\<lambda>leases.
         rbind (int_or_zero m ''plan_generation'') (\<lambda>generation.
         rbind (opt_text ''ticket_id'') (\<lambda>ticket.
         rbind (optional vfloat (vget m ''issued_at'' VNone)) (\<lambda>issued.
         rbind (optional vfloat (vget m ''started_at'' VNone)) (\<lambda>started.
         rbind (optional vfloat (vget m ''completed_at'' VNone)) (\<lambda>completed.
         rbind (opt_text ''error'') (\<lambda>error.
         Inr \<lparr>bk_transfer_id = text transfer_id, bk_plan_id = text plan_id, bk_block_id = text block_id,
              bk_path_id = text path_id, bk_path_kind = text (vget m ''path_kind'' (VStr ''unknown'')),
              bk_direction = text (vget m ''direction'' (VStr ''unknown'')), bk_target_device = target,
              bk_relay_device = relay, bk_state = text (vget m ''state'' (VStr ''queued'')),
              bk_attempt = attempt, bk_src_offset = src, bk_dst_offset = dst, bk_bytes = n,
              bk_allowed_path_ids = allowed, bk_lease_ids = leases, bk_plan_generation = generation,
              bk_ticket_id = ticket, bk_issued_at = issued, bk_started_at = started,
              bk_completed_at = completed, bk_error = error\<rparr>)))))))))))))))))))"

definition counts_value :: "(string, int) dict \<Rightarrow> pyval" where
  "counts_value d = VDict (map (\<lambda>(k, n). (k, VInt n)) d)"

definition summary_value :: "RuntimeSummary \<Rightarrow> mapping" where
  "summary_value s =
     [(''source'', VStr ''daemon_block_runtime''), (''block_count'', VInt (rs_block_count s)),
      (''states'', counts_value (rs_states s)), (''bytes_by_state'', counts_value (rs_bytes_by_state s)),
      (''bytes_by_path_kind'', counts_value (rs_bytes_by_path_kind s)),
      (''lease_ids'', VList (map VStr (rs_lease_ids s))), (''ticket_ids'', VList (map VStr (rs_ticket_ids s)))]"

definition cleanup_value :: "int \<times> int \<times> CleanupTarget list \<Rightarrow> mapping" where
  "cleanup_value c =
     (case c of (blocks, target_count, targets) \<Rightarrow>
        [(''source'', VStr ''daemon_block_runtime_cleanup''), (''block_count'', VInt blocks),
         (''cleanup_target_count'', VInt target_count),
         (''cleanup_targets'', VList (map (\<lambda>t. VDict
           [(''block_id'', VStr (ct_block_id t)), (''target_kind'', VStr ''reservation''),
            (''target_id'', VStr (ct_target_id t)), (''path_id'', VStr (ct_path_id t)),
            (''relay_device'', opt_value VInt (ct_relay_device t))]) targets))])"

definition evidence_value :: "RuntimeEvidence \<Rightarrow> mapping" where
  "evidence_value e =
     [(''source'', VStr ''daemon_block_runtime''), (''available'', VBool (re_available e)),
      (''completion_source'', opt_value VStr (re_completion_source e)),
      (''summary'', VDict (summary_value (re_summary e))),
      (''records'', VList (map (VDict \<circ> block_record_value) (re_records e))),
      (''completion_observed'', opt_value VDict (re_completion_observed e)),
      (''cleanup'', VDict (cleanup_value (re_cleanup e)))]"

section \<open>The worker's progress report\<close>

definition evidence_view :: "(pyval \<Rightarrow> string) \<Rightarrow> mapping \<Rightarrow> CompletionEvidence" where
  "evidence_view str_of m =
     \<lparr>ce_error = (if vget m ''error'' VNone = VNone then None else Some (py_str str_of (vget m ''error'' VNone))),
      ce_failure_source = (if vget m ''failure_source'' VNone = VNone then None
                           else Some (py_str str_of (vget m ''failure_source'' VNone))),
      ce_fields = m\<rparr>"

definition progress_items :: "(pyval \<Rightarrow> string) \<Rightarrow> mapping \<Rightarrow> (string, mapping) dict result" where
  "progress_items str_of progress =
     rbind (iterate_or_empty (vget progress ''records'' (VList []))) (\<lambda>items.
     Inr (fold (\<lambda>i d. case i of
           VDict m \<Rightarrow> (if vget m ''block_id'' VNone = VNone then d
                       else AList.update (py_str str_of (vget m ''block_id'' VNone)) m d)
         | _ \<Rightarrow> d) items []))"

definition worker_progress :: "(pyval \<Rightarrow> string) \<Rightarrow> mapping \<Rightarrow> (string, mapping) dict \<Rightarrow> WorkerProgress result" where
  "worker_progress str_of progress items =
     rbind (int_or_zero progress ''bytes_completed'') (\<lambda>n.
     Inr \<lparr>wpg_records = map (\<lambda>(i, m). \<lparr>bg_block_id = i,
            bg_state = map_option (py_str str_of) (map_of m ''state'')\<rparr>) items,
          wpg_state = map_option (py_str str_of) (map_of progress ''state''), wpg_bytes_completed = n\<rparr>)"

definition worker_progress_value :: "mapping \<Rightarrow> (string, mapping) dict \<Rightarrow> int \<Rightarrow> mapping" where
  "worker_progress_value progress items n =
     [(''source'', vget progress ''source'' (VStr ''worker_block_progress'')),
      (''transfer_id'', vget progress ''transfer_id'' VNone), (''ticket_id'', vget progress ''ticket_id'' VNone),
      (''plan_generation'', vget progress ''plan_generation'' VNone), (''state'', vget progress ''state'' VNone),
      (''bytes_completed'', VInt n), (''block_count'', VInt (int (length items))),
      (''records'', VList (map (VDict \<circ> snd) items))]"

text \<open>The advance of the records with the evidence mapping it yields.\<close>

definition advance_with_evidence ::
  "(pyval \<Rightarrow> string) \<Rightarrow> BlockRuntimeRecord list \<Rightarrow> TransferStatus \<Rightarrow> string \<Rightarrow> mapping option \<Rightarrow> rat
     \<Rightarrow> (BlockRuntimeRecord list \<times> mapping) result" where
  "advance_with_evidence str_of records status source evidence now =
     (let view = map_option (evidence_view str_of) evidence;
          filed = (\<lambda>e. case e of None \<Rightarrow> [] | Some x \<Rightarrow> evidence_value x)
      in case (case evidence of None \<Rightarrow> VNone | Some m \<Rightarrow> vget m ''block_progress'' VNone) of
           VDict progress \<Rightarrow>
             rbind (progress_items str_of progress) (\<lambda>items.
             rbind (worker_progress str_of progress items) (\<lambda>report.
             rbind (advance_from_worker_progress records report (Some source) view now) (\<lambda>(updated, e).
             Inr (updated, filed e @ (if items = [] then []
                else [(''worker_block_progress'',
                       VDict (worker_progress_value progress items (wpg_bytes_completed report)))])))))
         | _ \<Rightarrow>
             rbind (advance_for_status records (state_value (ts_state status)) (ts_bytes_completed status)
                      (Some source) view now) (\<lambda>(updated, e). Inr (updated, filed e)))"

section \<open>Filing a record and reading it back\<close>

lemma optional_value [simp]:
  "(\<And>x. f x \<noteq> VNone \<and> g (f x) = Inr x) \<Longrightarrow> optional g (opt_value f v) = Inr v"
  by (cases v) (auto simp: optional_def opt_value_def)

text \<open>
  C35: the block records the daemon stores as mappings are the records it reads back: converting a
  record to its mapping and parsing the mapping gives the same record.
\<close>

theorem block_record_roundtrip:
  "record_from_mapping str_of (block_record_value r) = Inr r"
proof -
  have get: "vget ((k, v) # m) j x = (if j = k then v else vget m j x)"
    "vindex ((k, v) # m) j = (if j = k then Inr v else vindex m j)" for k v m j x
    by (simp_all add: vget_def dget_default_def vindex_def)
  have [simp]: "py_int (vor (VInt i) (VInt 0)) = Inr i" for i by (simp add: vor_def)
  have [simp]: "rbind (iterate_or_empty (VList (map VStr xs))) (\<lambda>xs. Inr (map (py_str str_of) xs)) = Inr xs" for xs
    by (simp add: comp_def)
  show ?thesis
    unfolding record_from_mapping_def block_record_value_def int_or_zero_def strings_or_empty_def Let_def get
    by (cases r) (simp add: vfloat_def comp_def)
qed

end
