(* ===== verification/Admission_Priority.thy ===== *)
theory Admission_Priority
  imports Transfer_Lifecycle
begin

text \<open>
  The order in which the daemon retries delayed transfers
  (\<open>turbobus/daemon/admission_priority.py\<close>): each delayed admission gets a score from its
  priority, its waiting time, its size, the load of the node and of its job and the fairness
  record of its admission, and the delayed queue is sorted by score, priority, age and transfer
  id.  A priority counts a thousand points; the lemmas bound what all the other terms together can
  add or take away, and the property says which differences of priority decide the order.
\<close>

record PriorityRecord =
  pr_transfer_id :: string
  pr_job_id :: "string option"
  pr_priority :: int
  pr_priority_score :: rat
  pr_delayed_at :: rat
  pr_wait_seconds :: rat
  pr_requested_chunks :: int
  pr_bytes_total :: int
  pr_job_active_bytes :: int
  pr_job_backlog_bytes :: int
  pr_job_running_count :: int
  pr_runtime_readiness_bonus :: rat
  pr_fairness_penalty :: rat

definition priority_record_value :: "PriorityRecord \<Rightarrow> mapping" where
  "priority_record_value r =
     [(''transfer_id'', VStr (pr_transfer_id r)),
      (''job_id'', opt_value VStr (pr_job_id r)),
      (''priority'', VInt (pr_priority r)),
      (''priority_score'', VFloat (pr_priority_score r)),
      (''delayed_at'', VFloat (pr_delayed_at r)),
      (''wait_seconds'', VFloat (pr_wait_seconds r)),
      (''requested_chunks'', VInt (pr_requested_chunks r)),
      (''bytes_total'', VInt (pr_bytes_total r)),
      (''job_active_bytes'', VInt (pr_job_active_bytes r)),
      (''job_backlog_bytes'', VInt (pr_job_backlog_bytes r)),
      (''job_running_count'', VInt (pr_job_running_count r)),
      (''runtime_readiness_bonus'', VFloat (pr_runtime_readiness_bonus r)),
      (''fairness_penalty'', VFloat (pr_fairness_penalty r)),
      (''source'', VStr ''daemon_admission_priority_queue'')]"

section \<open>The terms of the score\<close>

definition float_or_zero :: "pyval \<Rightarrow> rat result" where
  "float_or_zero v = vfloat (vor v (VFloat 0))"

definition job_delayed_backlog_bytes :: "mapping \<Rightarrow> int result" where
  "job_delayed_backlog_bytes job_record =
     (let delayed = vget job_record ''delayed_bytes_total'' VNone
      in if delayed \<noteq> VNone
         then rbind (py_int (vor delayed (VInt 0))) (\<lambda>b. Inr (max 0 b))
         else rbind (int_or_zero job_record ''queued_bytes_total'') (\<lambda>queued.
              rbind (int_or_zero job_record ''admitted_bytes_total'') (\<lambda>admitted.
              Inr (max 0 (queued - admitted)))))"

definition summary_count :: "mapping \<Rightarrow> string \<Rightarrow> int result" where
  "summary_count runtime_state k =
     (case vget runtime_state ''summary'' (VDict []) of
        VDict summary \<Rightarrow> py_int (vget summary k (VInt 0))
      | _ \<Rightarrow> Inr 0)"

definition admission_runtime_readiness_bonus :: "mapping \<Rightarrow> mapping \<Rightarrow> rat result" where
  "admission_runtime_readiness_bonus admission runtime_state =
     rbind (int_or_zero admission ''requested_chunks'') (\<lambda>requested_chunks.
     rbind (summary_count runtime_state ''active_lease_count'') (\<lambda>active_leases.
     rbind (summary_count runtime_state ''active_reservation_count'') (\<lambda>active_reservations.
     rbind (summary_count runtime_state ''delayed_transfer_count'') (\<lambda>delayed_count.
     Inr (25 - of_int (min active_leases 32) * (8 / 10)
             - of_int (min active_reservations 32) * (8 / 10)
             - of_int (min delayed_count 32) * (3 / 10)
             - of_int (min (max requested_chunks 0) 1024) * (5 / 100))))))"

definition admission_fairness_penalty :: "mapping \<Rightarrow> rat result" where
  "admission_fairness_penalty admission =
     (case vget admission ''fairness'' VNone of
        VDict fairness \<Rightarrow>
          rbind (float_or_zero (vget fairness ''fairness_threshold_bytes'' (VFloat 0))) (\<lambda>bytes.
          rbind (float_or_zero (vget fairness ''projected_weighted_fairness_bytes''
                  (vget fairness ''projected_weighted_active_bytes'' (VFloat 0)))) (\<lambda>projected.
          let threshold = max 1 bytes;
              overage = max 0 (projected - threshold);
              penalty = min (overage / threshold) 4 * 20
          in Inr (if vget fairness ''blocked_reason'' VNone \<noteq> VNone then penalty + 10 else penalty)))
      | _ \<Rightarrow> Inr 0)"

text \<open>The load of the transfer's job: its active bytes, its delayed bytes, its running transfers.\<close>

definition job_load :: "(pyval \<Rightarrow> string) \<Rightarrow> mapping \<Rightarrow> pyval \<Rightarrow> (int \<times> int \<times> int) result" where
  "job_load str_of runtime_state job_id =
     (case vget runtime_state ''job_runtime_state'' (VDict []) of
        VDict jobs \<Rightarrow>
          if job_id = VNone then Inr (0, 0, 0)
          else (case vget jobs (py_str str_of job_id) (VDict []) of
                  VDict job_record \<Rightarrow>
                    rbind (int_or_zero job_record ''active_bytes_remaining'') (\<lambda>active.
                    rbind (job_delayed_backlog_bytes job_record) (\<lambda>backlog.
                    rbind (int_or_zero job_record ''running_transfer_count'') (\<lambda>running.
                    Inr (active, backlog, running))))
                | _ \<Rightarrow> Inr (0, 0, 0))
      | _ \<Rightarrow> Inr (0, 0, 0))"

definition byte_units :: "int \<Rightarrow> rat" where
  "byte_units b = min (of_int b / (64 * 1024 * 1024)) 64"

definition priority_score ::
  "int \<Rightarrow> rat \<Rightarrow> int \<Rightarrow> rat \<Rightarrow> rat \<Rightarrow> int \<Rightarrow> int \<times> int \<times> int \<Rightarrow> rat" where
  "priority_score priority wait_seconds bytes_total readiness_bonus fairness_penalty requested_chunks load =
     (case load of (active_bytes, backlog_bytes, running_count) \<Rightarrow>
        of_int (max 0 priority) * 1000
          + min wait_seconds 3600 * (20 / 100)
          + byte_units bytes_total * (15 / 10)
          + readiness_bonus
          - fairness_penalty
          - of_int (min (max requested_chunks 0) 1024) * (35 / 100)
          - byte_units active_bytes * 2
          - byte_units backlog_bytes
          - of_int (min (max running_count 0) 32) * 3)"

section \<open>Records and their order\<close>

definition admission_priority_record ::
  "(pyval \<Rightarrow> string) \<Rightarrow> string \<Rightarrow> mapping \<Rightarrow> mapping \<Rightarrow> mapping \<Rightarrow> rat \<Rightarrow> PriorityRecord result" where
  "admission_priority_record str_of transfer_id admission queue_record runtime_state now =
     (let job_id = vget queue_record ''job_id'' VNone in
      rbind (int_or_zero queue_record ''priority'') (\<lambda>priority.
      rbind (int_or_zero admission ''requested_chunks'') (\<lambda>requested_chunks.
      rbind (int_or_zero queue_record ''bytes_total'') (\<lambda>bytes_total.
      rbind (vfloat (vor (vget admission ''delayed_at''
               (vget queue_record ''queued_at'' (VFloat now))) (VFloat now))) (\<lambda>delayed_at.
      rbind (job_load str_of runtime_state job_id) (\<lambda>load.
      rbind (admission_runtime_readiness_bonus admission runtime_state) (\<lambda>bonus.
      rbind (admission_fairness_penalty admission) (\<lambda>penalty.
      let wait_seconds = max 0 (now - delayed_at)
      in Inr \<lparr>pr_transfer_id = transfer_id,
               pr_job_id = (if job_id = VNone then None else Some (py_str str_of job_id)),
               pr_priority = priority,
               pr_priority_score = priority_score priority wait_seconds bytes_total bonus penalty
                                     requested_chunks load,
               pr_delayed_at = delayed_at, pr_wait_seconds = wait_seconds,
               pr_requested_chunks = requested_chunks, pr_bytes_total = bytes_total,
               pr_job_active_bytes = fst load, pr_job_backlog_bytes = fst (snd load),
               pr_job_running_count = snd (snd load),
               pr_runtime_readiness_bonus = bonus, pr_fairness_penalty = penalty\<rparr>))))))))"

definition admission_with_priority_evidence :: "mapping \<Rightarrow> mapping \<Rightarrow> mapping" where
  "admission_with_priority_evidence admission priority_order =
     (case vget admission ''multi_tenant_admission'' VNone of
        VDict evidence \<Rightarrow>
          AList.update ''multi_tenant_admission''
            (VDict (AList.update ''priority_order'' (VDict priority_order) evidence)) admission
      | _ \<Rightarrow> admission)"

lemma priority_evidence_keeps [simp]:
  "k \<noteq> ''multi_tenant_admission'' \<Longrightarrow>
   map_of (admission_with_priority_evidence admission priority_order) k = map_of admission k"
  by (simp add: admission_with_priority_evidence_def split: pyval.split)

definition delayed_admission :: "mapping \<Rightarrow> bool" where
  "delayed_admission admission = (vget admission ''state'' VNone = VStr ''delayed'')"

definition admission_key :: "PriorityRecord \<Rightarrow> rat \<times> int \<times> rat \<times> string" where
  "admission_key r = (- pr_priority_score r, - pr_priority r, pr_delayed_at r, pr_transfer_id r)"

definition ordered_delayed_admission_records ::
  "(pyval \<Rightarrow> string) \<Rightarrow> (string, mapping) dict \<Rightarrow> (string, mapping) dict \<Rightarrow> mapping \<Rightarrow> rat \<Rightarrow>
   PriorityRecord list result" where
  "ordered_delayed_admission_records str_of admissions queue_records runtime_state now =
     rbind (rmap (\<lambda>(t, admission). admission_priority_record str_of t admission
                    (dget_default queue_records t []) runtime_state now)
              (filter (\<lambda>(t, admission). delayed_admission admission) admissions))
       (\<lambda>records. Inr (sort_key admission_key records))"

section \<open>What the terms can add up to\<close>

lemma byte_units_le: "byte_units b \<le> 64"
  by (simp add: byte_units_def)

lemma byte_units_nonneg: "0 \<le> b \<Longrightarrow> 0 \<le> byte_units b"
  by (simp add: byte_units_def)

lemma capped_ratio: "0 \<le> x \<Longrightarrow> 0 < t \<Longrightarrow> 0 \<le> min (x / t) (4 :: rat) \<and> min (x / t) 4 \<le> 4"
  by simp

lemma penalty_step:
  "0 \<le> m \<Longrightarrow> m \<le> 4 \<Longrightarrow>
   0 \<le> (if c then m * 20 + 10 else m * 20 :: rat) \<and> (if c then m * 20 + 10 else m * 20) \<le> 90"
  by simp

lemma fairness_penalty_bounds:
  assumes "admission_fairness_penalty admission = Inr p"
  shows "0 \<le> p \<and> p \<le> 90"
proof (cases "\<exists>fairness. vget admission ''fairness'' VNone = VDict fairness")
  case True
  then obtain fairness where f: "vget admission ''fairness'' VNone = VDict fairness" by blast
  obtain b projected where p: "p = (let ratio = min (max 0 (projected - max 1 b) / max 1 b) 4 * 20
      in if vget fairness ''blocked_reason'' VNone \<noteq> VNone then ratio + 10 else ratio)"
    using assms by (auto simp: admission_fairness_penalty_def f Let_def result_simps)
  show ?thesis
    unfolding p Let_def using capped_ratio [of "max 0 (projected - max 1 b)" "max 1 b"]
    by (intro penalty_step) auto
next
  case False
  with assms show ?thesis by (auto simp: admission_fairness_penalty_def split: pyval.splits)
qed

lemma backlog_nonneg: "job_delayed_backlog_bytes job = Inr b \<Longrightarrow> 0 \<le> b"
  by (auto simp: job_delayed_backlog_bytes_def Let_def result_simps split: if_splits)

lemma job_load_backlog: "job_load str_of state job_id = Inr load \<Longrightarrow> 0 \<le> fst (snd load)"
  by (auto simp: job_load_def result_simps backlog_nonneg split: pyval.splits if_splits)

definition counts_ok :: "mapping \<Rightarrow> bool" where
  "counts_ok runtime_state =
     (\<forall>k \<in> {''active_lease_count'', ''active_reservation_count'', ''delayed_transfer_count''}.
        case summary_count runtime_state k of Inr n \<Rightarrow> 0 \<le> n | Inl _ \<Rightarrow> True)"

lemma readiness_bonus_bounds:
  assumes "admission_runtime_readiness_bonus admission runtime_state = Inr b" "counts_ok runtime_state"
  shows "- 87 \<le> b \<and> b \<le> 25"
proof -
  obtain q l r d where b: "b = 25 - of_int (min l 32) * (8 / 10) - of_int (min r 32) * (8 / 10)
      - of_int (min d 32) * (3 / 10) - of_int (min (max q 0) 1024) * (5 / 100)"
    and nonneg: "0 \<le> l" "0 \<le> r" "0 \<le> d"
    using assms by (auto simp: admission_runtime_readiness_bonus_def counts_ok_def result_simps)
  have unit: "0 \<le> (of_int (min n m) :: rat) \<and> (of_int (min n m) :: rat) \<le> of_int m"
    if "0 \<le> n" "0 \<le> m" for n m :: int
    using that by (auto simp: min_def)
  show ?thesis
    using unit [OF nonneg(1), of 32] unit [OF nonneg(2), of 32] unit [OF nonneg(3), of 32]
      unit [of "max q 0" 1024]
    unfolding b by linarith
qed

lemma priority_score_bounds:
  assumes "0 \<le> w" "0 \<le> volume" "- 87 \<le> bonus" "bonus \<le> 25" "0 \<le> penalty" "penalty \<le> 90"
    and "0 \<le> held" "0 \<le> waiting"
  shows "\<bar>priority_score p w volume bonus penalty chunks (held, waiting, moving) -
           of_int (max 0 p) * 1000 - 9\<bar> \<le> 833"
proof -
  have unit: "0 \<le> (of_int (min (max n 0) m) :: rat) \<and> (of_int (min (max n 0) m) :: rat) \<le> of_int m"
    if "0 \<le> m" for n m :: int
    using that by (auto simp: min_def)
  show ?thesis
    using assms unit [of 1024 chunks] unit [of 32 moving] byte_units_le [of volume]
      byte_units_le [of held] byte_units_le [of waiting] byte_units_nonneg [of volume]
      byte_units_nonneg [of held] byte_units_nonneg [of waiting]
    by (simp add: priority_score_def abs_le_iff min_def)
qed

lemma admission_priority_record_score:
  assumes "admission_priority_record str_of t admission queue_record runtime_state now = Inr r"
    and "counts_ok runtime_state" "0 \<le> pr_bytes_total r" "0 \<le> pr_job_active_bytes r"
  shows "\<bar>pr_priority_score r - of_int (max 0 (pr_priority r)) * 1000 - 9\<bar> \<le> 833"
proof -
  obtain p chunks volume since load bonus penalty
    where load: "job_load str_of runtime_state (vget queue_record ''job_id'' VNone) = Inr load"
      and bonus: "admission_runtime_readiness_bonus admission runtime_state = Inr bonus"
      and penalty: "admission_fairness_penalty admission = Inr penalty"
      and r: "pr_priority_score r = priority_score p (max 0 (now - since)) volume bonus penalty chunks load"
        "pr_priority r = p" "pr_bytes_total r = volume" "pr_job_active_bytes r = fst load"
    using assms(1) by (auto simp: admission_priority_record_def Let_def result_simps)
  obtain held waiting moving where l: "load = (held, waiting, moving)" by (cases load) auto
  show ?thesis
    unfolding r(1,2) l
    using assms(3,4) r l job_load_backlog [OF load] fairness_penalty_bounds [OF penalty]
      readiness_bonus_bounds [OF bonus assms(2)]
    by (intro priority_score_bounds) simp_all
qed

lemma priority_decides:
  assumes "\<bar>pr_priority_score r - of_int (max 0 (pr_priority r)) * 1000 - 9\<bar> \<le> 833"
    and "\<bar>pr_priority_score s - of_int (max 0 (pr_priority s)) * 1000 - 9\<bar> \<le> 833"
    and "max 0 (pr_priority s) + 2 \<le> pr_priority r"
  shows "admission_key r < admission_key s"
proof -
  have "(of_int (max 0 (pr_priority s)) + 2 :: rat) \<le> of_int (max 0 (pr_priority r))"
    using assms(3) by (metis max.coboundedI2 of_int_add of_int_le_iff of_int_numeral)
  then have "pr_priority_score s < pr_priority_score r"
    using assms(1,2) unfolding abs_le_iff by linarith
  then show ?thesis by (simp add: admission_key_def less_prod_simp)
qed

section \<open>The delayed queue\<close>

lemma record_transfer_id:
  "admission_priority_record str_of t admission queue_record runtime_state now = Inr r \<Longrightarrow>
   pr_transfer_id r = t"
  by (auto simp: admission_priority_record_def Let_def result_simps)

lemma rmap_Inr_D: "rmap f xs = Inr ys \<Longrightarrow> y \<in> set ys \<Longrightarrow> \<exists>x \<in> set xs. f x = Inr y"
  by (fastforce simp: rmap_Inr_iff list_all2_conv_all_nth in_set_conv_nth)

lemma records_transfer_ids:
  "rmap (\<lambda>(t, admission). admission_priority_record str_of t admission (queue t) runtime_state now) xs = Inr records \<Longrightarrow>
   map pr_transfer_id records = map fst xs"
  by (induction xs arbitrary: records) (auto simp: result_simps record_transfer_id)

definition sample_delayed :: "(string, mapping) dict" where
  "sample_delayed =
     [(''patient'', [(''state'', VStr ''delayed''), (''delayed_at'', VFloat 100)]),
      (''running'', [(''state'', VStr ''admitted'')]),
      (''greedy'', [(''state'', VStr ''delayed''), (''delayed_at'', VFloat 5000), (''requested_chunks'', VInt 1024)]),
      (''urgent'', [(''state'', VStr ''delayed''), (''delayed_at'', VFloat 5000)])]"

definition sample_queue :: "(string, mapping) dict" where
  "sample_queue =
     [(''patient'', [(''priority'', VInt 0), (''job_id'', VStr ''j'')]),
      (''greedy'', [(''priority'', VInt 1)]), (''urgent'', [(''priority'', VInt 2)])]"

definition sample_runtime :: mapping where
  "sample_runtime =
     [(''summary'', VDict [(''active_lease_count'', VInt 1)]),
      (''job_runtime_state'', VDict [(''j'', VDict [(''running_transfer_count'', VInt 2)])])]"

text \<open>
  C25:  When the delayed queue is ordered, it lists exactly the delayed admissions, each once, in
  ascending order of (score descending, priority descending, age, id); and, the counts of the
  runtime summary and the byte counts being non-negative as they are in the daemon, a transfer
  whose priority is at least two above another's, a negative priority of the other counting as 0
  as it does in the score, comes first, however long the other has waited and whatever the load of
  the node, the jobs and the fairness records are.  (Priority 1 need not come before priority -1.)
\<close>

theorem delayed_order_respects_priority:
  assumes "ordered_delayed_admission_records str_of admissions queue_records runtime_state now = Inr rs"
    and "counts_ok runtime_state"
    and "list_all (\<lambda>r. 0 \<le> pr_bytes_total r \<and> 0 \<le> pr_job_active_bytes r) rs"
  shows "mset (map pr_transfer_id rs) = mset (map fst (filter (\<lambda>(t, a). delayed_admission a) admissions)) \<and>
         sorted (map admission_key rs) \<and>
         (\<forall>i j. i < length rs \<longrightarrow> j < length rs \<longrightarrow>
            max 0 (pr_priority (rs ! j)) + 2 \<le> pr_priority (rs ! i) \<longrightarrow> i < j)"
proof -
  obtain records where records: "rmap (\<lambda>(t, admission). admission_priority_record str_of t admission
        (dget_default queue_records t []) runtime_state now)
        (filter (\<lambda>(t, admission). delayed_admission admission) admissions) = Inr records"
    and rs: "rs = sort_key admission_key records"
    using assms(1) by (auto simp: ordered_delayed_admission_records_def result_simps)
  have sorted: "sorted (map admission_key rs)" unfolding rs by (rule sorted_sort_key)
  have ids: "mset (map pr_transfer_id rs) = mset (map fst (filter (\<lambda>(t, a). delayed_admission a) admissions))"
    unfolding records_transfer_ids [OF records, symmetric] rs by (metis mset_map mset_sort)
  have score: "\<bar>pr_priority_score r - of_int (max 0 (pr_priority r)) * 1000 - 9\<bar> \<le> 833" if "r \<in> set rs" for r
  proof -
    have "r \<in> set records" using that by (simp add: rs)
    then obtain t admission where "admission_priority_record str_of t admission
        (dget_default queue_records t []) runtime_state now = Inr r"
      using rmap_Inr_D [OF records] by force
    then show ?thesis
      using assms(2,3) that by (intro admission_priority_record_score) (auto simp: list_all_iff)
  qed
  have "i < j" if "i < length rs" "j < length rs" "max 0 (pr_priority (rs ! j)) + 2 \<le> pr_priority (rs ! i)" for i j
  proof (rule ccontr)
    assume "\<not> i < j"
    then have "admission_key (rs ! j) \<le> admission_key (rs ! i)"
      using sorted that(1) by (simp add: sorted_iff_nth_mono)
    moreover have "admission_key (rs ! i) < admission_key (rs ! j)"
      by (rule priority_decides [OF score [OF nth_mem [OF that(1)]] score [OF nth_mem [OF that(2)]] that(3)])
    ultimately show False by simp
  qed
  with ids sorted show ?thesis by blast
qed

lemma sample_order:
  "\<exists>a b c. ordered_delayed_admission_records str_of sample_delayed sample_queue sample_runtime 5000 = Inr [a, b, c] \<and>
     map pr_transfer_id [a, b, c] = [''urgent'', ''patient'', ''greedy''] \<and> map pr_priority [a, b, c] = [2, 0, 1] \<and>
     list_all (\<lambda>r. 0 \<le> pr_bytes_total r \<and> 0 \<le> pr_job_active_bytes r) [a, b, c]"
  by (simp add: ordered_delayed_admission_records_def sample_delayed_def sample_queue_def sample_runtime_def
    admission_priority_record_def delayed_admission_def vget_def dget_default_def int_or_zero_def vor_def
    vfloat_def job_load_def py_str_def job_delayed_backlog_bytes_def admission_runtime_readiness_bonus_def
    summary_count_def admission_fairness_penalty_def float_or_zero_def priority_score_def byte_units_def
    admission_key_def less_eq_prod_def Let_def)

lemma sample_counts: "counts_ok sample_runtime"
  by (simp add: counts_ok_def summary_count_def sample_runtime_def vget_def dget_default_def)

text \<open>
  Three delayed transfers and a running one: the urgent one leads, and a transfer that has waited
  for more than an hour precedes one whose priority is only one above its own.
\<close>

theorem delayed_order_respects_priority_witness:
  "\<exists>rs. ordered_delayed_admission_records (\<lambda>_. []) sample_delayed sample_queue sample_runtime 5000 = Inr rs \<and>
     map pr_transfer_id rs = [''urgent'', ''patient'', ''greedy''] \<and> map pr_priority rs = [2, 0, 1] \<and>
     sorted (map admission_key rs)"
proof -
  obtain a b c where abc:
    "ordered_delayed_admission_records (\<lambda>_. []) sample_delayed sample_queue sample_runtime 5000 = Inr [a, b, c]"
    "map pr_transfer_id [a, b, c] = [''urgent'', ''patient'', ''greedy'']" "map pr_priority [a, b, c] = [2, 0, 1]"
    "list_all (\<lambda>r. 0 \<le> pr_bytes_total r \<and> 0 \<le> pr_job_active_bytes r) [a, b, c]"
    using sample_order [of "\<lambda>_. []"] by (elim exE conjE)
  show ?thesis
    using abc(1-3) delayed_order_respects_priority [OF abc(1) sample_counts abc(4)]
    by (intro exI [of _ "[a, b, c]"] conjI) simp_all
qed

end
