(* ===== verification/Daemon_Sessions.thy ===== *)
theory Daemon_Sessions
  imports Daemon_Release Admission_Priority
begin

text \<open>
  Sessions of the daemon (\<open>turbobus/daemon/server.py\<close>): committing the scheduler's leases, promoting
  delayed transfers, refreshing admission, closing a session with everything it owns, reaping stale
  sessions, cleaning up after a disconnect, and removing a job.
\<close>

section \<open>Committing leases\<close>

definition add_session_chunks :: "int \<Rightarrow> Session \<Rightarrow> Session" where
  "add_session_chunks n s = s\<lparr>ss_active_chunks := ss_active_chunks s + n\<rparr>"

definition add_quota_chunks :: "int \<Rightarrow> RelayQuota \<Rightarrow> RelayQuota" where
  "add_quota_chunks n q = q\<lparr>rq_active_chunks := rq_active_chunks q + n\<rparr>"

definition reservation_of :: "PlannerLease \<Rightarrow> TransferReservation" where
  "reservation_of l = \<lparr>rv_reservation_id = pl_lease_id l, rv_session_id = pl_session_id l,
     rv_relay_gpu = pl_relay_device l, rv_chunks = pl_chunk_limit l, rv_bytes = pl_bytes_limit l,
     rv_direction = pl_direction l\<rparr>"

text \<open>
  One lease of \<open>_commit_scheduler_leases_locked\<close>.  The token is a fresh \<open>uuid4\<close>, the argument
  \<open>token\<close>.  The session object is the one in the table, under \<open>session_id\<close>.
\<close>

definition commit_lease ::
  "(string \<Rightarrow> string) \<Rightarrow> string \<Rightarrow> string option \<Rightarrow> string list \<Rightarrow> PlannerLease \<Rightarrow> Daemon \<Rightarrow> Daemon" where
  "commit_lease token session_id transfer_id buffer_ids lease d =
     (let i = pl_lease_id lease; r = reservation_of lease
      in d\<lparr>d_reservations := AList.update i r (d_reservations d),
           d_lease_tokens := AList.update i
             \<lparr>lt_lease_id = i, lt_session_id = pl_session_id lease, lt_relay_gpu = pl_relay_device lease,
              lt_token = token i, lt_buffer_ids = buffer_ids, lt_job_id = pl_job_id lease,
              lt_issued_at = pl_granted_at lease, lt_expires_at = pl_expires_at lease\<rparr>
             (d_lease_tokens d),
           d_lease_plan_generations := (case transfer_id of None \<Rightarrow> d_lease_plan_generations d
             | Some t \<Rightarrow> AList.update i (dget_default (d_plan_generations d) t 0)
                          (d_lease_plan_generations d)),
           d_sessions := modify session_id (add_session_chunks (rv_chunks r)) (d_sessions d),
           d_relay_quotas := modify (rv_relay_gpu r) (add_quota_chunks (rv_chunks r)) (d_relay_quotas d),
           d_reservation_transfers := (case transfer_id of None \<Rightarrow> d_reservation_transfers d
             | Some t \<Rightarrow> AList.update i t (d_reservation_transfers d))\<rparr>)"

definition commit_scheduler_leases ::
  "(string \<Rightarrow> string) \<Rightarrow> string \<Rightarrow> PlannerLease list \<Rightarrow> string option \<Rightarrow> string list \<Rightarrow> Daemon
     \<Rightarrow> Daemon \<times> TransferReservation list" where
  "commit_scheduler_leases token session_id leases transfer_id buffer_ids d =
     (fold (commit_lease token session_id transfer_id buffer_ids) leases d, map reservation_of leases)"

definition touch_session :: "string \<Rightarrow> rat \<Rightarrow> Daemon \<Rightarrow> Daemon" where
  "touch_session session_id now d =
     d\<lparr>d_sessions := modify session_id (\<lambda>s. s\<lparr>ss_last_seen := now\<rparr>) (d_sessions d)\<rparr>"

text \<open>
  \<open>_register_block_runtime_records_locked\<close>: the block plan is the one inside the decision's plan;
  the leases of the transfer are grouped by relay.
\<close>

definition lease_ids_by_relay :: "string \<Rightarrow> Daemon \<Rightarrow> (int, string list) dict" where
  "lease_ids_by_relay t d =
     sort_key fst (fold (\<lambda>(i, t') m. if t' \<noteq> t then m
        else case map_of (d_lease_tokens d) i of None \<Rightarrow> m
             | Some l \<Rightarrow> AList.update (lt_relay_gpu l) (dget_default m (lt_relay_gpu l) [] @ [i]) m)
       (sort_key fst (d_reservation_transfers d)) [])"

definition register_block_runtime_records :: "string \<Rightarrow> BlockPlan option \<Rightarrow> Daemon \<Rightarrow> Daemon" where
  "register_block_runtime_records t block_plan d =
     (let records = runtime_records_for_block_plan t block_plan (dget_default (d_plan_generations d) t 0)
            (Some (lease_ids_by_relay t d))
      in if records = [] then d
         else d\<lparr>d_block_runtime := AList.update t records (d_block_runtime d)\<rparr>)"

text \<open>
  \<open>_relay_admission_blocked_reason_locked\<close>: whether the leases of a decision can be taken now.  What
  the load feedback says about fairness and about each lease's relay are arguments.
\<close>

fun lease_blocked_reason ::
  "(PlannerLease \<Rightarrow> string option) \<Rightarrow> Session \<Rightarrow> Daemon \<Rightarrow> PlannerLease list \<Rightarrow> string option" where
  "lease_blocked_reason runtime_blocked session d [] = None"
| "lease_blocked_reason runtime_blocked session d (l # ls) =
     (if pl_relay_device l \<notin> set (ss_relay_gpus session)
      then Some ''relay admission is delayed by session relay ownership''
      else case map_of (d_relay_quotas d) (pl_relay_device l) of
             None \<Rightarrow> Some ''relay admission is delayed by missing relay quota''
           | Some quota \<Rightarrow>
               if \<not> can_reserve quota (pl_chunk_limit l)
               then Some ''relay admission is delayed by relay chunk quota''
               else case runtime_blocked l of
                      Some reason \<Rightarrow> Some (''relay admission is delayed by '' @ reason)
                    | None \<Rightarrow> lease_blocked_reason runtime_blocked session d ls)"

definition relay_admission_blocked_reason ::
  "string option \<Rightarrow> (PlannerLease \<Rightarrow> string option) \<Rightarrow> Session \<Rightarrow> PlannerLease list \<Rightarrow> Daemon \<Rightarrow> string option" where
  "relay_admission_blocked_reason fairness_blocked runtime_blocked session leases d =
     (if ss_active_chunks session + lease_chunks leases > ss_max_inflight_chunks session
      then Some ''session relay admission is delayed by chunk quota''
      else case fairness_blocked of
             Some reason \<Rightarrow> Some reason
           | None \<Rightarrow> lease_blocked_reason runtime_blocked session d leases)"

section \<open>Promotion and admission refresh\<close>

text \<open>
  What the scheduler answers for a delayed transfer: an error, or its session, decision, leases and
  block plan, with the admission record, the plan's expiry and the execution ticket that follow.  A
  refresh is given the answers for the delayed transfers in priority order.  What the load feedback
  says of a relay is the argument \<open>pm_runtime_blocked\<close>.
\<close>

record Promotion =
  pm_transfer_id :: string
  pm_session_id :: string
  pm_error :: "string option"
  pm_runtime_blocked :: "PlannerLease \<Rightarrow> string option"
  pm_decision :: SchedulingDecision
  pm_leases :: "PlannerLease list"
  pm_block_plan :: "BlockPlan option"
  pm_buffer_ids :: "string list"
  pm_admission :: mapping
  pm_priority_order :: mapping
  pm_plan_expires_at :: rat
  pm_ticket :: "ExecutionTicket option"

definition commit_delayed_promotion ::
  "(string \<Rightarrow> string) \<Rightarrow> rat \<Rightarrow> Promotion \<Rightarrow> Daemon \<Rightarrow> Daemon" where
  "commit_delayed_promotion token now p d =
     (let t = pm_transfer_id p;
          generation = dget_default (d_plan_generations d) t 0 + 1;
          d1 = d\<lparr>d_plan_generations := AList.update t generation (d_plan_generations d),
                 d_plans := AList.update t (sd_plan (pm_decision p)) (d_plans d),
                 d_decisions := AList.update t (pm_decision p) (d_decisions d),
                 d_plan_expirations := AList.update t (pm_plan_expires_at p) (d_plan_expirations d)\<rparr>;
          d2 = drop_execution_ticket t d1;
          (d3, reservations) = commit_scheduler_leases token (pm_session_id p) (pm_leases p) (Some t)
                                 (pm_buffer_ids p) d2;
          d4 = register_block_runtime_records t (pm_block_plan p) d3;
          admission = admission_with_priority_evidence (dict_merge (pm_admission p)
            [(''lease_ids'', VList (map (\<lambda>r. VStr (rv_reservation_id r)) reservations)),
             (''plan_generation'', VInt generation), (''plan_expires_at'', VFloat (pm_plan_expires_at p)),
             (''promoted_at'', VFloat now), (''priority_order'', VDict (pm_priority_order p))])
            (pm_priority_order p);
          d5 = d4\<lparr>d_admissions := AList.update t admission (d_admissions d4)\<rparr>;
          d6 = (case pm_ticket p of None \<Rightarrow> d5
                | Some k \<Rightarrow> d5\<lparr>d_execution_tickets := AList.update (et_ticket_id k) k (d_execution_tickets d5),
                                d_transfer_tickets := AList.update t (et_ticket_id k) (d_transfer_tickets d5)\<rparr>);
          d7 = (case map_of (d_statuses d) t of None \<Rightarrow> d6
                | Some s \<Rightarrow> append_audit \<lparr>au_event_type = ''admission_promoted'', au_transfer_id = Some t,
                    au_session_id = None, au_lease_id = None, au_state = ts_state s,
                    au_reason = Some ''daemon_resource_state_available'', au_failure_reason = None,
                    au_cleanup_kind = None, au_cleanup_target_id = None\<rparr> d6)
      in touch_session (pm_session_id p) now d7)"

definition record_delayed_promotion_failure :: "string \<Rightarrow> string \<Rightarrow> mapping \<Rightarrow> rat \<Rightarrow> Daemon \<Rightarrow> Daemon" where
  "record_delayed_promotion_failure t error order now d =
     d\<lparr>d_admissions := AList.update t
         (dict_merge (dget_default (d_admissions d) t [])
           [(''state'', VStr ''delayed''), (''reason'', VStr error),
            (''promotion_failed_at'', VFloat now), (''priority_order'', VDict order)]) (d_admissions d)\<rparr>"

definition record_delayed_promotion_check :: "string \<Rightarrow> mapping \<Rightarrow> mapping \<Rightarrow> rat \<Rightarrow> Daemon \<Rightarrow> Daemon" where
  "record_delayed_promotion_check t admission order now d =
     d\<lparr>d_admissions := AList.update t
         (admission_with_priority_evidence (dict_merge admission
           [(''plan_generation'', VInt (dget_default (d_plan_generations d) t 0)),
            (''plan_expires_at'', (case map_of (d_plan_expirations d) t of None \<Rightarrow> VNone | Some x \<Rightarrow> VFloat x)),
            (''promotion_checked_at'', VFloat now), (''priority_order'', VDict order)]) order) (d_admissions d)\<rparr>"

text \<open>
  One round of \<open>_promote_delayed_transfers_locked\<close> with \<open>_promote_delayed_transfer_locked\<close>: a
  decision without leases is admitted, one with leases if nothing blocks them; fairness is not
  enforced on a promotion.
\<close>

definition promote_delayed :: "(string \<Rightarrow> string) \<Rightarrow> rat \<Rightarrow> Promotion \<Rightarrow> Daemon \<Rightarrow> Daemon" where
  "promote_delayed token now p d =
     (let t = pm_transfer_id p
      in if opt_holds (\<lambda>s. \<not> terminal (ts_state s)) (map_of (d_statuses d) t) \<and> map_of (d_plan_requests d) t \<noteq> None
         then (case map_of (d_sessions d) (pm_session_id p) of
             None \<Rightarrow> record_delayed_promotion_failure t ''unknown session'' (pm_priority_order p) now d
           | Some session \<Rightarrow>
               if \<not> ss_active session
               then record_delayed_promotion_failure t ''unknown session'' (pm_priority_order p) now d
               else case pm_error p of
                      Some e \<Rightarrow> record_delayed_promotion_failure t e (pm_priority_order p) now d
                    | None \<Rightarrow>
                        if pm_leases p \<noteq> [] \<and>
                           relay_admission_blocked_reason None (pm_runtime_blocked p) session (pm_leases p) d \<noteq> None
                        then record_delayed_promotion_check t (pm_admission p) (pm_priority_order p) now d
                        else commit_delayed_promotion token now p d)
         else d)"

definition refresh_admission_state ::
  "(string \<Rightarrow> string) \<Rightarrow> rat \<Rightarrow> Promotion list \<Rightarrow> Daemon \<Rightarrow> Daemon \<times> string list" where
  "refresh_admission_state token now promotions d =
     (let (d1, expired) = reap_expired_leases now d
      in (fold (promote_delayed token now) promotions d1, expired))"

section \<open>Closing a session\<close>

record OwnedTarget =
  ow_target_id :: string
  ow_peer :: "PeerIdentity option"
  ow_transfer_ids :: "string list"
  ow_buffer_snapshot :: "BufferRegistration option"

record OwnedTargets =
  ow_jobs :: "OwnedTarget list"
  ow_buffers :: "OwnedTarget list"

definition session_owned_cleanup_targets :: "string \<Rightarrow> Daemon \<Rightarrow> OwnedTargets" where
  "session_owned_cleanup_targets session_id d =
     (let session_peer = map_of (d_session_peers d) session_id;
          job_ids = sort (map fst (filter (\<lambda>(i, j). ji_session_id j = Some session_id) (d_jobs d)))
      in \<lparr>ow_jobs = map (\<lambda>i. \<lparr>ow_target_id = i, ow_peer = or_else (map_of (d_job_peers d) i) session_peer,
            ow_transfer_ids = transfer_ids_for_job i d, ow_buffer_snapshot = None\<rparr>) job_ids,
          ow_buffers = map (\<lambda>(i, b). \<lparr>ow_target_id = i,
            ow_peer = or_else (map_of (d_job_peers d) (br_job_id b)) session_peer,
            ow_transfer_ids = set_tuple (transfer_ids_for_buffer i d @
              concat (map (\<lambda>l. case map_of (d_reservation_transfers d) l of None \<Rightarrow> [] | Some t \<Rightarrow> [t])
                (active_buffer_lease_ids i d))),
            ow_buffer_snapshot = Some b\<rparr>)
            (filter (\<lambda>(i, b). br_job_id b \<in> set job_ids) (sort_key fst (d_buffers d)))\<rparr>)"

definition archive_owned :: "string \<Rightarrow> string \<Rightarrow> rat \<Rightarrow> OwnedTarget \<Rightarrow> Daemon \<Rightarrow> Daemon" where
  "archive_owned kind reason now target d =
     archive_cleanup_target kind (ow_target_id target) (ow_peer target) (Some reason)
       (ow_transfer_ids target) (ow_buffer_snapshot target) now d"

definition remove_session_jobs_and_buffers ::
  "string \<Rightarrow> string \<Rightarrow> OwnedTargets \<Rightarrow> rat \<Rightarrow> Daemon \<Rightarrow> Daemon \<times> Removed" where
  "remove_session_jobs_and_buffers session_id reason owned now d =
     (let d1 = fold (archive_owned ''job'' reason now) (ow_jobs owned) d;
          d2 = fold (archive_owned ''buffer'' reason now) (ow_buffers owned) d1;
          job_ids = (if ow_jobs owned = []
                     then map fst (filter (\<lambda>(i, j). ji_session_id j = Some session_id) (d_jobs d2))
                     else map ow_target_id (ow_jobs owned));
          d3 = fold (\<lambda>i d. d\<lparr>d_jobs := AList.delete i (d_jobs d),
                             d_job_peers := AList.delete i (d_job_peers d)\<rparr>) (set_tuple job_ids) d2;
          buffer_ids = (if ow_buffers owned = []
                        then map fst (filter (\<lambda>(i, b). br_job_id b \<in> set job_ids) (d_buffers d3))
                        else map ow_target_id (ow_buffers owned));
          d4 = fold (\<lambda>i d. d\<lparr>d_buffers := AList.delete i (d_buffers d)\<rparr>) (set_tuple buffer_ids) d3
      in (d4\<lparr>d_session_peers := AList.delete session_id (d_session_peers d4)\<rparr>,
          empty_removed
            \<lparr>rm_jobs := int (length (filter (\<lambda>i. map_of (d_jobs d2) i \<noteq> None) (set_tuple job_ids))),
             rm_buffers := int (length (filter (\<lambda>i. map_of (d_buffers d3) i \<noteq> None) (set_tuple buffer_ids)))\<rparr>))"

text \<open>The loop that cancels and retires the transfers of a session or job.\<close>

fun cancel_and_retire :: "string list \<Rightarrow> string \<Rightarrow> rat \<Rightarrow> Daemon \<Rightarrow> Daemon \<times> int" where
  "cancel_and_retire [] reason now d = (d, 0)"
| "cancel_and_retire (t # ts) reason now d =
     (let (d1, n) = (case map_of (d_statuses d) t of
            None \<Rightarrow> (d, 0)
          | Some s \<Rightarrow> if terminal (ts_state s) then (d, 0)
                      else (end_transfer t s CANCELED (Some reason) now d, 1));
          (d2, m) = cancel_and_retire ts reason now (retire_transfer_runtime_state t d1)
      in (d2, n + m))"

definition discard_quota_session :: "string \<Rightarrow> RelayQuota \<Rightarrow> RelayQuota" where
  "discard_quota_session session_id q = q\<lparr>rq_sessions := removeAll session_id (rq_sessions q)\<rparr>"

definition close_session_locked ::
  "string \<Rightarrow> string \<Rightarrow> OwnedTargets option \<Rightarrow> rat \<Rightarrow> Daemon \<Rightarrow> Daemon \<times> Removed \<times> Session option" where
  "close_session_locked session_id reason owned now d =
     (case map_of (d_sessions d) session_id of
        None \<Rightarrow> (d, empty_removed, None)
      | Some session \<Rightarrow>
          (let d0 = d\<lparr>d_sessions := AList.delete session_id (d_sessions d)\<rparr>;
               targets = (case owned of Some given \<Rightarrow> given | None \<Rightarrow> session_owned_cleanup_targets session_id d0);
               d1 = archive_cleanup_target ''session'' session_id (map_of (d_session_peers d0) session_id)
                      (Some reason) (transfer_ids_for_session session_id d0) None now d0;
               d2 = append_audit \<lparr>au_event_type = ''cleanup'', au_transfer_id = None,
                      au_session_id = Some session_id, au_lease_id = None, au_state = CANCELED,
                      au_reason = Some reason, au_failure_reason = Some reason,
                      au_cleanup_kind = Some ''session'', au_cleanup_target_id = Some session_id\<rparr> d1;
               d3 = append_system_cleanup_event ''session'' session_id reason d2;
               transfer_ids = transfer_ids_for_session session_id d3;
               (d4, released) = release_all
                 (map fst (filter (\<lambda>(i, r). rv_session_id r = session_id) (d_reservations d3)))
                 CANCELED (Some reason) True now d3;
               (d5, canceled) = cancel_and_retire transfer_ids reason now d4;
               d6 = d5\<lparr>d_relay_quotas := fold (\<lambda>g. modify g (discard_quota_session session_id))
                          (ss_relay_gpus session) (d_relay_quotas d5),
                       d_connection_sessions := removeAll session_id (d_connection_sessions d5),
                       d_session_connections := AList.delete session_id (d_session_connections d5)\<rparr>;
               (d7, owned_removed) = remove_session_jobs_and_buffers session_id reason targets now d6
           in (d7,
               merge_removed released (merge_removed owned_removed
                 (empty_removed\<lparr>rm_sessions := 1, rm_transfers := canceled\<rparr>)),
               Some (session\<lparr>ss_active := False, ss_closed_at := Some now\<rparr>))))"

section \<open>Reaping, disconnects and jobs\<close>

definition stale_sessions :: "rat \<Rightarrow> Daemon \<Rightarrow> string list" where
  "stale_sessions now d =
     map fst (filter (\<lambda>(i, s). ss_active s \<and> ss_last_seen s > 0 \<and>
                               now - ss_last_seen s > d_session_timeout_seconds d) (d_sessions d))"

definition reap_stale_sessions :: "rat \<Rightarrow> Daemon \<Rightarrow> Daemon \<times> string list" where
  "reap_stale_sessions now d =
     (if d_session_timeout_seconds d \<le> 0 then (d, [])
      else (fold (\<lambda>i d. fst (close_session_locked i ''stale_session_timeout'' None now d))
              (stale_sessions now d) d, stale_sessions now d))"

fun close_all :: "string list \<Rightarrow> string \<Rightarrow> rat \<Rightarrow> Daemon \<Rightarrow> Daemon \<times> Removed" where
  "close_all [] reason now d = (d, empty_removed)"
| "close_all (i # is) reason now d =
     (let (d1, r1, s) = close_session_locked i reason None now d;
          (d2, r2) = close_all is reason now d1
      in (d2, merge_removed r1 r2))"

definition cleanup_connection_scoped_sessions ::
  "PeerIdentity option \<Rightarrow> string option \<Rightarrow> string \<Rightarrow> rat \<Rightarrow> Daemon \<Rightarrow> Daemon \<times> Removed" where
  "cleanup_connection_scoped_sessions peer connection_id reason now d =
     (let by_connection = (case connection_id of None \<Rightarrow> []
            | Some c \<Rightarrow> filter (\<lambda>i. map_of (d_session_connections d) i = Some c)
                          (sort (d_connection_sessions d)));
          (d1, r1) = close_all by_connection reason now d
      in if peer = None then (d1, r1)
         else let by_peer = filter (\<lambda>i. i \<notin> set by_connection \<and>
                    (case connection_id of None \<Rightarrow> True
                     | Some c \<Rightarrow> map_of (d_session_connections d1) i = Some c) \<and>
                    peer_identity_same_connection (map_of (d_session_peers d1) i) peer)
                  (sort (d_connection_sessions d1));
                  (d2, r2) = close_all by_peer reason now d1
              in (d2, merge_removed r1 r2))"

definition cleanup_job :: "string \<Rightarrow> string \<Rightarrow> rat \<Rightarrow> Daemon \<Rightarrow> Daemon \<times> Removed" where
  "cleanup_job job_id reason now d =
     (let transfer_ids = transfer_ids_for_job job_id d;
          d1 = archive_cleanup_target ''job'' job_id (map_of (d_job_peers d) job_id) (Some reason)
                 transfer_ids None now d;
          d2 = d1\<lparr>d_jobs := AList.delete job_id (d_jobs d1),
                  d_job_peers := AList.delete job_id (d_job_peers d1)\<rparr>;
          (d3, released) = release_all
            (map fst (filter (\<lambda>(i, l). lt_job_id l = Some job_id) (d_lease_tokens d2)))
            CANCELED (Some reason) True now d2;
          (d4, canceled) = cancel_and_retire transfer_ids reason now d3;
          buffer_ids = map fst (filter (\<lambda>(i, b). br_job_id b = job_id) (d_buffers d4));
          d5 = fold (\<lambda>i d. d\<lparr>d_buffers := AList.delete i (d_buffers d)\<rparr>) buffer_ids d4
      in (d5, merge_removed released
            (empty_removed\<lparr>rm_jobs := (if map_of (d_jobs d1) job_id = None then 0 else 1),
               rm_transfers := canceled, rm_buffers := int (length buffer_ids)\<rparr>)))"

end
