(* ===== verification/Daemon_Ledger.thy ===== *)
theory Daemon_Ledger
  imports Daemon_Sessions
begin

text \<open>
  The daemon's ledger of relay chunks.  A session and a relay each keep a counter of the chunks
  reserved from them; the reservations are the entries.  The interface \<open>chunk_ledger\<close> says what a
  counter must do when an entry is added or dropped; both counters are interpretations of it, and
  the lemmas proved inside give the invariant that every handler keeps.
\<close>

section \<open>The ledger interface\<close>

definition owed :: "(TransferReservation \<Rightarrow> 'k) \<Rightarrow> 'k \<Rightarrow> (string, TransferReservation) dict \<Rightarrow> int" where
  "owed account k rs = dsum (\<lambda>r. if account r = k then rv_chunks r else 0) rs"

definition ledger_balanced ::
  "(TransferReservation \<Rightarrow> 'k) \<Rightarrow> ('c \<Rightarrow> int) \<Rightarrow> ('c \<Rightarrow> int) \<Rightarrow> (string, TransferReservation) dict
     \<Rightarrow> ('k, 'c) dict \<Rightarrow> bool" where
  "ledger_balanced account active limit rs cs =
     (\<forall>k c. map_of cs k = Some c \<longrightarrow> active c = owed account k rs \<and> owed account k rs \<le> max 0 (limit c))"

definition nonneg_chunks :: "(string, TransferReservation) dict \<Rightarrow> bool" where
  "nonneg_chunks rs = (\<forall>i r. map_of rs i = Some r \<longrightarrow> 0 \<le> rv_chunks r)"

lemma map_of_modify:
  "map_of (modify k f d) k' = (if k' = k then map_option f (map_of d k) else map_of d k')"
  by (auto simp: modify_def split: option.splits)

lemma dict_wf_modify [simp]: "dict_wf d \<Longrightarrow> dict_wf (modify k f d)"
  by (auto simp: modify_def split: option.splits)

lemma dom_modify [simp]: "map_of (modify k f d) k' = None \<longleftrightarrow> map_of d k' = None"
  by (auto simp: map_of_modify)

lemma owed_add: "map_of rs i = None \<Longrightarrow>
  owed account k (AList.update i r rs) = owed account k rs + (if account r = k then rv_chunks r else 0)"
  by (simp add: owed_def dsum_update_new)

lemma owed_drop: "dict_wf rs \<Longrightarrow> map_of rs i = Some r \<Longrightarrow>
  owed account k (AList.delete i rs) = owed account k rs - (if account r = k then rv_chunks r else 0)"
  by (simp add: owed_def dsum_delete)

lemma entries_nonneg:
  "dict_wf rs \<Longrightarrow> nonneg_chunks rs \<Longrightarrow> \<forall>p \<in> set rs. 0 \<le> (if account (snd p) = k then rv_chunks (snd p) else 0)"
  by (auto simp: nonneg_chunks_def dict_wf_def)

lemma owed_ge:
  assumes "dict_wf rs" and "nonneg_chunks rs" and "map_of rs i = Some r"
  shows "rv_chunks r \<le> owed account (account r) rs"
  using dsum_member_le [OF entries_nonneg [OF assms(1,2), of account "account r"], of i r] assms(3)
  by (simp add: owed_def map_of_SomeD)

lemma owed_nonneg: "dict_wf rs \<Longrightarrow> nonneg_chunks rs \<Longrightarrow> 0 \<le> owed account k rs"
  unfolding owed_def by (rule dsum_nonneg) (rule entries_nonneg)

lemma owed_none:
  "(\<And>i r. map_of rs i = Some r \<Longrightarrow> account r \<noteq> k) \<Longrightarrow> dict_wf rs \<Longrightarrow> owed account k rs = 0"
proof (induction rs)
  case Nil
  then show ?case by (simp add: owed_def)
next
  case (Cons p rs)
  obtain j r where p: "p = (j, r)" by (cases p)
  have notin: "map_of rs j = None" and wf: "dict_wf rs"
    using Cons.prems(2) p by (auto simp: dict_wf_def map_of_eq_None_iff)
  have "account r \<noteq> k" using Cons.prems(1) [of j r] p by simp
  moreover have "account x \<noteq> k" if "map_of rs i = Some x" for i x
    using Cons.prems(1) [of i x] that notin p by (cases "i = j") auto
  ultimately show ?case using Cons.IH [OF _ wf] p by (simp add: owed_def)
qed

locale chunk_ledger =
  fixes account :: "TransferReservation \<Rightarrow> 'k"
    and active :: "'c \<Rightarrow> int"
    and limit :: "'c \<Rightarrow> int"
    and add :: "int \<Rightarrow> 'c \<Rightarrow> 'c"
    and drop :: "int \<Rightarrow> 'c \<Rightarrow> 'c"
  assumes active_add: "active (add n c) = active c + n"
    and active_drop: "active (drop n c) = max 0 (active c - n)"
    and limit_add: "limit (add n c) = limit c"
    and limit_drop: "limit (drop n c) = limit c"
begin

lemma add_balanced:
  "ledger_balanced account active limit rs cs \<Longrightarrow> map_of rs i = None \<Longrightarrow>
   (\<And>c. map_of cs (account r) = Some c \<Longrightarrow> active c + rv_chunks r \<le> max 0 (limit c)) \<Longrightarrow>
   ledger_balanced account active limit (AList.update i r rs) (modify (account r) (add (rv_chunks r)) cs)"
  by (fastforce simp: ledger_balanced_def map_of_modify owed_add active_add limit_add split: if_splits)

text \<open>Dropping an entry never hits the clamp at zero.\<close>

lemma drop_exact:
  "ledger_balanced account active limit rs cs \<Longrightarrow> dict_wf rs \<Longrightarrow> nonneg_chunks rs \<Longrightarrow> map_of rs i = Some r \<Longrightarrow>
   map_of cs (account r) = Some c \<Longrightarrow> active (drop (rv_chunks r) c) = active c - rv_chunks r"
  using owed_ge [of rs i r account] by (auto simp: ledger_balanced_def active_drop)

lemma drop_balanced:
  "ledger_balanced account active limit rs cs \<Longrightarrow> dict_wf rs \<Longrightarrow> nonneg_chunks rs \<Longrightarrow> map_of rs i = Some r \<Longrightarrow>
   ledger_balanced account active limit (AList.delete i rs) (modify (account r) (drop (rv_chunks r)) cs)"
  using drop_exact [of rs cs i r]
  by (fastforce simp: ledger_balanced_def nonneg_chunks_def map_of_modify owed_drop limit_drop split: if_splits)

end

interpretation session_ledger: chunk_ledger rv_session_id ss_active_chunks ss_max_inflight_chunks
  add_session_chunks drop_session_chunks
  by unfold_locales (simp_all add: add_session_chunks_def drop_session_chunks_def)

interpretation relay_ledger: chunk_ledger rv_relay_gpu rq_active_chunks rq_max_inflight_chunks
  add_quota_chunks drop_quota_chunks
  by unfold_locales (simp_all add: add_quota_chunks_def drop_quota_chunks_def)

section \<open>What the transfer bookkeeping leaves alone\<close>

type_synonym core = "(string, TransferReservation) dict \<times> (string, LeaseToken) dict \<times>
  (string, Session) dict \<times> (int, RelayQuota) dict \<times> (string, JobIdentity) dict \<times>
  (string, PeerIdentity) dict \<times> (string, BufferRegistration) dict \<times> (string, PeerIdentity) dict \<times>
  (string, string) dict"

definition core :: "Daemon \<Rightarrow> core" where
  "core d = (d_reservations d, d_lease_tokens d, d_sessions d, d_relay_quotas d, d_jobs d,
     d_job_peers d, d_buffers d, d_session_peers d, d_reservation_transfers d)"

lemma coreD:
  assumes "core d = core d'"
  shows "d_reservations d = d_reservations d'" "d_lease_tokens d = d_lease_tokens d'"
    "d_sessions d = d_sessions d'" "d_relay_quotas d = d_relay_quotas d'" "d_jobs d = d_jobs d'"
    "d_job_peers d = d_job_peers d'" "d_buffers d = d_buffers d'"
    "d_session_peers d = d_session_peers d'" "d_reservation_transfers d = d_reservation_transfers d'"
  using assms by (simp_all add: core_def)

lemma core_archive [simp]: "core (archive_cleanup_target k i p r ts s now d) = core d"
  by (simp add: archive_cleanup_target_def core_def Let_def)

lemma core_audit [simp]: "core (append_audit a d) = core d"
  by (simp add: append_audit_def core_def)

lemma core_event [simp]: "core (append_system_cleanup_event k i r d) = core d"
  by (simp add: append_system_cleanup_event_def core_def)

lemma core_receipt [simp]: "core (archive_transfer_receipt_state t d) = core d"
  by (simp add: archive_transfer_receipt_state_def core_def Let_def split: option.splits)

lemma core_ticket [simp]: "core (drop_execution_ticket t d) = core d"
  by (simp add: drop_execution_ticket_def core_def split: option.splits)

lemma core_admission [simp]: "core (mark_admission_terminal t s r now d) = core d"
  by (simp add: mark_admission_terminal_def core_def Let_def split: option.splits)

lemma core_statuses [simp]: "core (d\<lparr>d_statuses := x\<rparr>) = core d"
  by (simp add: core_def)

lemma core_admissions [simp]: "core (d\<lparr>d_admissions := x\<rparr>) = core d"
  by (simp add: core_def)

lemma core_queue [simp]: "core (d\<lparr>d_transfer_queue := x\<rparr>) = core d"
  by (simp add: core_def)

lemma core_end [simp]: "core (end_transfer t s f e now d) = core d"
  by (simp add: end_transfer_def Let_def)

lemma core_mark [simp]: "core (mark_transfer_terminal_if_unblocked t f e now d) = core d"
  by (simp add: mark_transfer_terminal_if_unblocked_def split: option.splits)

lemma core_pop [simp]: "core (pop_transfer_runtime_maps t d) = core d"
  by (simp add: pop_transfer_runtime_maps_def core_def)

lemma core_intents [simp]: "core (remove_transfer_intent_state t d) = core d"
proof -
  have "core (fold (\<lambda>i d. d\<lparr>d_intent_transfers := AList.delete i (d_intent_transfers d),
      d_transfer_intents := AList.delete i (d_transfer_intents d)\<rparr>) is d) = core d" for "is"
    by (induction "is" arbitrary: d) (simp_all add: core_def)
  then show ?thesis by (simp add: remove_transfer_intent_state_def)
qed

lemma core_retire [simp]: "core (retire_transfer_runtime_state t d) = core d"
proof -
  have "core (d\<lparr>d_admissions := a, d_transfer_queue := q, d_statuses := s\<rparr>) = core d" for d a q s
    by (simp add: core_def)
  then show ?thesis by (simp add: retire_transfer_runtime_state_def Let_def)
qed

lemma core_retire_completed [simp]: "core (retire_completed_transfer_lease_state t r now d) = core d"
  by (simp add: retire_completed_transfer_lease_state_def Let_def split: option.splits)

lemma core_finalize [simp]: "core (finalize_transfer_after_release t f r now d) = core d"
  by (simp add: finalize_transfer_after_release_def Let_def split: option.splits)

lemma core_staging [simp]: "core (release_staging_only k f r now d) = core d"
proof -
  have "core (d\<lparr>d_staging := x\<rparr>) = core d" for x by (simp add: core_def)
  then show ?thesis by (simp add: release_staging_only_def Let_def split: option.splits)
qed

lemma core_drop_cong:
  "core d = core d' \<Longrightarrow> core (drop_active_reservation_state k r d) = core (drop_active_reservation_state k r d')"
  by (simp add: core_def drop_active_reservation_state_def)

lemma core_drop_simps [simp]:
  "core (drop_active_reservation_state k res (archive_cleanup_target a i p r ts s now d)) =
   core (drop_active_reservation_state k res d)"
  "core (drop_active_reservation_state k res (append_audit u d)) =
   core (drop_active_reservation_state k res d)"
  by (rule core_drop_cong, simp)+

lemma core_release:
  "core (fst (release_reservation k f r m now d)) =
     (case map_of (d_reservations d) k of None \<Rightarrow> core d
      | Some res \<Rightarrow> core (drop_active_reservation_state k res d))"
  by (simp add: release_reservation_def Let_def split: option.splits)

lemma core_release_and_count:
  "core (fst (release_and_count k f r m now d)) = core (fst (release_reservation k f r m now d))"
  by (simp add: release_and_count_def Let_def split: prod.splits)

section \<open>The invariant\<close>

text \<open>
  \<open>ledger_ok A d\<close>: keys are unique, counters balance and respect their limits, every reservation belongs to a session of the
  table or of \<open>A\<close>, lease tokens and reservations have the same ids, and a relay's attached sessions
  are distinct, within its limit, and sessions of the table (or of \<open>A\<close>) that list the relay.  \<open>A\<close>
  maps the session being closed, if any, to its relays.
\<close>

definition attached_ok :: "(string \<Rightarrow> int list option) \<Rightarrow> (string, Session) dict \<Rightarrow> (int, RelayQuota) dict \<Rightarrow> bool" where
  "attached_ok A ss qs =
     (\<forall>g q. map_of qs g = Some q \<longrightarrow>
        distinct (rq_sessions q) \<and> int (length (rq_sessions q)) \<le> max 0 (rq_max_sessions q) \<and>
        (\<forall>i \<in> set (rq_sessions q). (\<exists>gs. A i = Some gs \<and> g \<in> set gs) \<or>
           (\<exists>s. map_of ss i = Some s \<and> g \<in> set (ss_relay_gpus s))))"

definition ledger_ok :: "(string \<Rightarrow> int list option) \<Rightarrow> Daemon \<Rightarrow> bool" where
  "ledger_ok A d =
     (dict_wf (d_reservations d) \<and> dict_wf (d_lease_tokens d) \<and> dict_wf (d_sessions d) \<and>
      dict_wf (d_relay_quotas d) \<and> nonneg_chunks (d_reservations d) \<and>
      ledger_balanced rv_session_id ss_active_chunks ss_max_inflight_chunks (d_reservations d) (d_sessions d) \<and>
      ledger_balanced rv_relay_gpu rq_active_chunks rq_max_inflight_chunks (d_reservations d) (d_relay_quotas d) \<and>
      (\<forall>i r. map_of (d_reservations d) i = Some r \<longrightarrow>
         A (rv_session_id r) \<noteq> None \<or> map_of (d_sessions d) (rv_session_id r) \<noteq> None) \<and>
      (\<forall>i. map_of (d_lease_tokens d) i \<noteq> None \<longleftrightarrow> map_of (d_reservations d) i \<noteq> None) \<and>
      (\<forall>i s. map_of (d_sessions d) i = Some s \<longrightarrow> ss_session_id s = i) \<and>
      attached_ok A (d_sessions d) (d_relay_quotas d))"

lemma ledger_ok_core: "core d = core d' \<Longrightarrow> ledger_ok A d = ledger_ok A d'"
  by (auto simp: ledger_ok_def core_def)

text \<open>Operations that only touch counters keep what identifies a session or quota.\<close>

lemma lists_relay_modify:
  "(\<And>s. ss_relay_gpus (f s) = ss_relay_gpus s) \<Longrightarrow>
   (\<exists>s. map_of (modify k f ss) i = Some s \<and> g \<in> set (ss_relay_gpus s)) \<longleftrightarrow>
   (\<exists>s. map_of ss i = Some s \<and> g \<in> set (ss_relay_gpus s))"
  by (auto simp: map_of_modify)

lemma attached_modify_session:
  "(\<And>s. ss_relay_gpus (f s) = ss_relay_gpus s) \<Longrightarrow> attached_ok A ss qs \<Longrightarrow> attached_ok A (modify k f ss) qs"
  by (simp add: attached_ok_def lists_relay_modify)

lemma attached_modify_quota:
  assumes "\<And>q. rq_sessions (f q) = rq_sessions q \<and> rq_max_sessions (f q) = rq_max_sessions q"
    and "attached_ok A ss qs"
  shows "attached_ok A ss (modify k f qs)"
  unfolding attached_ok_def
proof (intro allI impI)
  fix g q
  assume "map_of (modify k f qs) g = Some q"
  then obtain p where "map_of qs g = Some p" "rq_sessions q = rq_sessions p"
      "rq_max_sessions q = rq_max_sessions p"
    using assms(1) by (auto simp: map_of_modify split: if_splits)
  with assms(2) show "distinct (rq_sessions q) \<and> int (length (rq_sessions q)) \<le> max 0 (rq_max_sessions q) \<and>
      (\<forall>i\<in>set (rq_sessions q). (\<exists>gs. A i = Some gs \<and> g \<in> set gs) \<or>
         (\<exists>s. map_of ss i = Some s \<and> g \<in> set (ss_relay_gpus s)))"
    by (simp add: attached_ok_def)
qed

lemma session_ids_modify:
  "(\<And>s. ss_session_id (f s) = ss_session_id s) \<Longrightarrow> \<forall>i s. map_of ss i = Some s \<longrightarrow> ss_session_id s = i \<Longrightarrow>
   \<forall>i s. map_of (modify k f ss) i = Some s \<longrightarrow> ss_session_id s = i"
  unfolding map_of_modify by (fastforce split: if_splits)

lemma ledger_ok_drop:
  assumes "ledger_ok A d" and "map_of (d_reservations d) k = Some r"
  shows "ledger_ok A (drop_active_reservation_state k r d)"
proof -
  have "nonneg_chunks (AList.delete k (d_reservations d))"
    using assms(1) by (auto simp: ledger_ok_def nonneg_chunks_def)
  moreover have "attached_ok A (modify (rv_session_id r) (drop_session_chunks (rv_chunks r)) (d_sessions d))
      (modify (rv_relay_gpu r) (drop_quota_chunks (rv_chunks r)) (d_relay_quotas d))"
    using assms(1) unfolding ledger_ok_def
    by (intro attached_modify_session attached_modify_quota)
       (simp_all add: drop_session_chunks_def drop_quota_chunks_def)
  moreover have "\<forall>i s. map_of (modify (rv_session_id r) (drop_session_chunks (rv_chunks r)) (d_sessions d)) i
      = Some s \<longrightarrow> ss_session_id s = i"
    using assms(1) unfolding ledger_ok_def
    by (intro session_ids_modify) (simp_all add: drop_session_chunks_def)
  ultimately show ?thesis
    using assms session_ledger.drop_balanced relay_ledger.drop_balanced
    by (auto simp: ledger_ok_def drop_active_reservation_state_def)
qed

lemma ledger_ok_release:
  "ledger_ok A d \<Longrightarrow> ledger_ok A (fst (release_reservation k f r m now d))"
  using core_release [of k f r m now d] ledger_ok_drop [of A d k]
  by (cases "map_of (d_reservations d) k") (auto dest: ledger_ok_core)

lemma ledger_ok_release_and_count:
  "ledger_ok A d \<Longrightarrow> ledger_ok A (fst (release_and_count k f r m now d))"
  using ledger_ok_release [of A d k f r m "now"] ledger_ok_core [OF core_release_and_count] by blast

lemma release_all_Cons:
  "fst (release_all (k # ks) f r m now d) = fst (release_all ks f r m now (fst (release_and_count k f r m now d)))"
  by (simp add: Let_def split: prod.splits)

lemma ledger_ok_release_all: "ledger_ok A d \<Longrightarrow> ledger_ok A (fst (release_all ks f r m now d))"
proof (induction ks arbitrary: d)
  case Nil
  then show ?case by simp
next
  case (Cons k ks)
  then show ?case by (simp only: release_all_Cons ledger_ok_release_and_count)
qed

lemma ledger_ok_release_expired:
  assumes "ledger_ok A d"
  shows "ledger_ok A (release_expired_lease now i d)"
proof (cases "map_of (d_reservations d) i")
  case (Some r)
  then have "release_expired_lease now i d = fst (release_reservation i CANCELED (Some ''lease_expired'') True now d)"
    by (simp add: release_expired_lease_def release_reservation_def Let_def)
  with ledger_ok_release [OF assms] show ?thesis by simp
next
  case None
  let ?d = "release_staging_only i CANCELED (Some ''lease_expired'') now d"
  have same: "core ?d = core d" by simp
  have "map_of (d_lease_tokens d) i \<noteq> None \<longleftrightarrow> map_of (d_reservations d) i \<noteq> None"
    using assms unfolding ledger_ok_def by blast
  with None coreD(2) [OF same] have "map_of (d_lease_tokens ?d) i = None" by simp
  then have "core (release_expired_lease now i d) = core d"
    using None same by (simp add: release_expired_lease_def release_reservation_def core_def)
  with assms ledger_ok_core show ?thesis by blast
qed

lemma ledger_ok_reap: "ledger_ok A d \<Longrightarrow> ledger_ok A (fst (reap_expired_leases now d))"
  unfolding reap_expired_leases_def fst_conv
  by (rule fold_keeps [where P = "ledger_ok A"]) (auto intro: ledger_ok_release_expired)

end
