(* ===== verification/Daemon_Close.thy ===== *)
theory Daemon_Close
  imports Daemon_Ledger
begin

text \<open>
  What closing a session does to the ledger and to the tables: the reservations, leases, jobs,
  buffers and relay attachments of the session go, everything of other sessions stays.
\<close>

section \<open>Releasing a list\<close>

lemma map_of_reservations_release:
  "map_of (d_reservations (fst (release_reservation k f r m now d))) =
   (map_of (d_reservations d))(k := None)"
proof (cases "map_of (d_reservations d) k")
  case None
  then show ?thesis using coreD(1) [OF core_release [of k f r m "now" d, simplified None option.case]] by auto
next
  case (Some res)
  then show ?thesis
    using coreD(1) [OF core_release [of k f r m "now" d, simplified Some option.case]]
    by (simp add: drop_active_reservation_state_def)
qed

lemma map_of_reservations_release_all:
  "map_of (d_reservations (fst (release_all ks f r m now d))) i =
   (if i \<in> set ks then None else map_of (d_reservations d) i)"
proof (induction ks arbitrary: d)
  case Nil
  then show ?case by simp
next
  case (Cons k ks)
  have "map_of (d_reservations (fst (release_and_count k f r m now d))) =
      (map_of (d_reservations d))(k := None)"
    using coreD(1) [OF core_release_and_count] by (metis map_of_reservations_release)
  then show ?case by (simp add: release_all_Cons Cons.IH del: release_all.simps)
qed

text \<open>Releasing touches neither jobs nor buffers nor owners, and no session but through its counter.\<close>

definition identities :: "Daemon \<Rightarrow> (string, JobIdentity) dict \<times> (string, PeerIdentity) dict \<times>
    (string, BufferRegistration) dict \<times> (string, PeerIdentity) dict" where
  "identities d = (d_jobs d, d_job_peers d, d_buffers d, d_session_peers d)"

lemma identities_core: "core d = core d' \<Longrightarrow> identities d = identities d'"
  by (simp add: core_def identities_def)

lemma identities_release: "identities (fst (release_reservation k f r m now d)) = identities d"
proof (cases "map_of (d_reservations d) k")
  case None
  show ?thesis by (rule identities_core) (simp add: core_release None)
next
  case (Some res)
  have "identities (fst (release_reservation k f r m now d)) =
      identities (drop_active_reservation_state k res d)"
    by (rule identities_core) (simp add: core_release Some)
  then show ?thesis by (simp add: identities_def drop_active_reservation_state_def)
qed

lemma identities_release_all: "identities (fst (release_all ks f r m now d)) = identities d"
proof (induction ks arbitrary: d)
  case Nil
  then show ?case by simp
next
  case (Cons k ks)
  have "identities (fst (release_and_count k f r m now d)) = identities d"
    using identities_core [OF core_release_and_count] identities_release by metis
  then show ?case by (simp add: release_all_Cons Cons.IH del: release_all.simps)
qed

lemma cancel_and_retire_Cons:
  "fst (cancel_and_retire (t # ts) r now d) =
   fst (cancel_and_retire ts r now (retire_transfer_runtime_state t
     (case map_of (d_statuses d) t of None \<Rightarrow> d
      | Some s \<Rightarrow> if terminal (ts_state s) then d else end_transfer t s CANCELED (Some r) now d)))"
  by (auto simp: Let_def split: prod.splits option.splits)

lemma core_cancel [simp]: "core (fst (cancel_and_retire ts r now d)) = core d"
proof (induction ts arbitrary: d)
  case Nil
  then show ?case by simp
next
  case (Cons t ts)
  then show ?case
    by (simp add: cancel_and_retire_Cons del: cancel_and_retire.simps split: option.splits)
qed

section \<open>Removing jobs and buffers\<close>

lemma fold_delete_field:
  assumes "\<And>i d. sel (upd i d) = AList.delete i (sel d)"
  shows "map_of (sel (fold upd is d)) j = (if j \<in> set is then None else map_of (sel d) j)"
  using assms by (induction "is" arbitrary: d) auto

text \<open>The part of the state the removal of jobs and buffers leaves alone.\<close>

definition ledger :: "Daemon \<Rightarrow> (string, TransferReservation) dict \<times> (string, LeaseToken) dict \<times>
    (string, Session) dict \<times> (int, RelayQuota) dict \<times> (string, string) dict" where
  "ledger d = (d_reservations d, d_lease_tokens d, d_sessions d, d_relay_quotas d, d_reservation_transfers d)"

lemma ledger_ok_ledger: "ledger d = ledger d' \<Longrightarrow> ledger_ok A d = ledger_ok A d'"
  by (auto simp: ledger_ok_def ledger_def)

lemma ledger_core: "core d = core d' \<Longrightarrow> ledger d = ledger d'"
  by (simp add: core_def ledger_def)

lemma fold_same: "(\<And>x d. g (f x d) = g d) \<Longrightarrow> g (fold f xs d) = g d"
  by (induction xs arbitrary: d) auto

lemma core_archive_owned [simp]: "core (fold (archive_owned k r now) os d) = core d"
  by (rule fold_same) (simp add: archive_owned_def)

lemma ledger_remove [simp]:
  "ledger (fst (remove_session_jobs_and_buffers i r os now d)) = ledger d"
proof -
  have jobs: "ledger (fold (\<lambda>i d. d\<lparr>d_jobs := AList.delete i (d_jobs d),
      d_job_peers := AList.delete i (d_job_peers d)\<rparr>) is d) = ledger d" for "is" d
    by (rule fold_same) (simp add: ledger_def)
  have buffers: "ledger (fold (\<lambda>i d. d\<lparr>d_buffers := AList.delete i (d_buffers d)\<rparr>) is d) = ledger d" for "is" d
    by (rule fold_same) (simp add: ledger_def)
  have peers: "ledger (d\<lparr>d_session_peers := x\<rparr>) = ledger d" for d x
    by (simp add: ledger_def)
  have owned: "ledger (fold (archive_owned k r now) os d) = ledger d" for k os d
    by (rule ledger_core) simp
  show ?thesis by (simp add: remove_session_jobs_and_buffers_def Let_def jobs buffers peers owned)
qed

section \<open>Closing\<close>

lemma discard_quota_session_idem [simp]:
  "discard_quota_session i (discard_quota_session i q) = discard_quota_session i q"
  by (simp add: discard_quota_session_def)

lemma fold_discard:
  "map_of (fold (\<lambda>g. modify g (discard_quota_session i)) gs qs) g =
   (if g \<in> set gs then map_option (discard_quota_session i) (map_of qs g) else map_of qs g)"
  by (induction gs arbitrary: qs) (auto simp: map_of_modify option.map_comp comp_def)

lemma dict_wf_fold_modify: "dict_wf qs \<Longrightarrow> dict_wf (fold (\<lambda>g. modify g f) gs qs)"
  by (rule fold_keeps [where P = dict_wf]) auto

text \<open>The state just before jobs and buffers are removed.\<close>

definition closing ::
  "string \<Rightarrow> string \<Rightarrow> rat \<Rightarrow> Session \<Rightarrow> Daemon \<Rightarrow> Daemon" where
  "closing session_id reason now session d =
     (let d0 = d\<lparr>d_sessions := AList.delete session_id (d_sessions d)\<rparr>;
          d1 = archive_cleanup_target ''session'' session_id (map_of (d_session_peers d0) session_id)
                 (Some reason) (transfer_ids_for_session session_id d0) None now d0;
          d2 = append_audit \<lparr>au_event_type = ''cleanup'', au_transfer_id = None,
                 au_session_id = Some session_id, au_lease_id = None, au_state = CANCELED,
                 au_reason = Some reason, au_failure_reason = Some reason,
                 au_cleanup_kind = Some ''session'', au_cleanup_target_id = Some session_id\<rparr> d1;
          d3 = append_system_cleanup_event ''session'' session_id reason d2;
          d4 = fst (release_all
            (map fst (filter (\<lambda>(i, r). rv_session_id r = session_id) (d_reservations d3)))
            CANCELED (Some reason) True now d3);
          d5 = fst (cancel_and_retire (transfer_ids_for_session session_id d3) reason now d4)
      in d5\<lparr>d_relay_quotas := fold (\<lambda>g. modify g (discard_quota_session session_id))
              (ss_relay_gpus session) (d_relay_quotas d5),
            d_connection_sessions := removeAll session_id (d_connection_sessions d5),
            d_session_connections := AList.delete session_id (d_session_connections d5)\<rparr>)"

lemma close_session_locked_eq:
  "map_of (d_sessions d) i = Some s \<Longrightarrow>
   fst (close_session_locked i reason owned now d) =
   fst (remove_session_jobs_and_buffers i reason
     (case owned of Some given \<Rightarrow> given
      | None \<Rightarrow> session_owned_cleanup_targets i (d\<lparr>d_sessions := AList.delete i (d_sessions d)\<rparr>))
     now (closing i reason now s d))"
  unfolding close_session_locked_def closing_def Let_def
  by (simp only: option.case case_prod_beta fst_conv)

lemma attached_delete:
  assumes "attached_ok Map.empty ss qs" and "map_of ss i = Some s"
  shows "attached_ok [i \<mapsto> ss_relay_gpus s] (AList.delete i ss) qs"
  unfolding attached_ok_def
proof (intro allI impI)
  fix g q
  assume "map_of qs g = Some q"
  with assms(1) have "distinct (rq_sessions q)" "int (length (rq_sessions q)) \<le> max 0 (rq_max_sessions q)"
    and at: "\<And>j. j \<in> set (rq_sessions q) \<Longrightarrow> \<exists>s. map_of ss j = Some s \<and> g \<in> set (ss_relay_gpus s)"
    by (auto simp: attached_ok_def)
  moreover have "(\<exists>gs. [i \<mapsto> ss_relay_gpus s] j = Some gs \<and> g \<in> set gs) \<or>
      (\<exists>s. map_of (AList.delete i ss) j = Some s \<and> g \<in> set (ss_relay_gpus s))"
    if "j \<in> set (rq_sessions q)" for j
    using at [OF that] assms(2) by (cases "j = i") auto
  ultimately show "distinct (rq_sessions q) \<and> int (length (rq_sessions q)) \<le> max 0 (rq_max_sessions q) \<and>
      (\<forall>j\<in>set (rq_sessions q). (\<exists>gs. [i \<mapsto> ss_relay_gpus s] j = Some gs \<and> g \<in> set gs) \<or>
         (\<exists>s. map_of (AList.delete i ss) j = Some s \<and> g \<in> set (ss_relay_gpus s)))"
    by blast
qed

lemma ledger_ok_delete_session:
  assumes "ledger_ok Map.empty d" and "map_of (d_sessions d) i = Some s"
  shows "ledger_ok [i \<mapsto> ss_relay_gpus s] (d\<lparr>d_sessions := AList.delete i (d_sessions d)\<rparr>)"
  using assms attached_delete [of "d_sessions d" "d_relay_quotas d" i s]
  by (auto simp: ledger_ok_def ledger_balanced_def)

lemma attached_discard:
  assumes "attached_ok [i \<mapsto> gs] ss qs" and "map_of ss i = None"
  shows "attached_ok Map.empty ss (fold (\<lambda>g. modify g (discard_quota_session i)) gs qs)"
  unfolding attached_ok_def
proof (intro allI impI)
  fix g q
  assume q: "map_of (fold (\<lambda>g. modify g (discard_quota_session i)) gs qs) g = Some q"
  then obtain p where p: "map_of qs g = Some p" and qp: "q = (if g \<in> set gs then discard_quota_session i p else p)"
    by (auto simp: fold_discard split: if_splits)
  have at: "distinct (rq_sessions p)" "int (length (rq_sessions p)) \<le> max 0 (rq_max_sessions p)"
    "\<And>j. j \<in> set (rq_sessions p) \<Longrightarrow> (j = i \<and> g \<in> set gs) \<or> (\<exists>s. map_of ss j = Some s \<and> g \<in> set (ss_relay_gpus s))"
    using assms(1) p by (auto simp: attached_ok_def split: if_splits)
  have len: "int (length (removeAll i (rq_sessions p))) \<le> max 0 (rq_max_sessions p)"
    using at(2) length_removeAll_less_eq [of i "rq_sessions p"] by linarith
  show "distinct (rq_sessions q) \<and> int (length (rq_sessions q)) \<le> max 0 (rq_max_sessions q) \<and>
      (\<forall>j\<in>set (rq_sessions q). (\<exists>gs. Map.empty j = Some gs \<and> g \<in> set gs) \<or>
         (\<exists>s. map_of ss j = Some s \<and> g \<in> set (ss_relay_gpus s)))"
    using at len by (auto simp: qp discard_quota_session_def distinct_removeAll)
qed

lemma modify_none [simp]: "map_of d k = None \<Longrightarrow> modify k f d = d"
  by (simp add: modify_def)

lemma sessions_release:
  assumes "\<And>r. map_of (d_reservations d) k = Some r \<Longrightarrow> rv_session_id r = i" and "map_of (d_sessions d) i = None"
  shows "d_sessions (fst (release_and_count k f r m now d)) = d_sessions d"
proof -
  have "d_sessions (fst (release_and_count k f r m now d)) = d_sessions (fst (release_reservation k f r m now d))"
    by (rule coreD(3) [OF core_release_and_count])
  also have "\<dots> = d_sessions d"
  proof (cases "map_of (d_reservations d) k")
    case None
    then show ?thesis using coreD(3) [OF core_release [of k f r m "now" d, simplified None option.case]] by simp
  next
    case (Some res)
    then show ?thesis
      using coreD(3) [OF core_release [of k f r m "now" d, simplified Some option.case]] assms
      by (simp add: drop_active_reservation_state_def)
  qed
  finally show ?thesis .
qed

lemma sessions_release_all:
  "(\<And>k r. k \<in> set ks \<Longrightarrow> map_of (d_reservations d) k = Some r \<Longrightarrow> rv_session_id r = i) \<Longrightarrow>
   map_of (d_sessions d) i = None \<Longrightarrow>
   d_sessions (fst (release_all ks f rs m now d)) = d_sessions d"
proof (induction ks arbitrary: d)
  case Nil
  then show ?case by simp
next
  case (Cons k ks)
  let ?d = "fst (release_and_count k f rs m now d)"
  have same: "d_sessions ?d = d_sessions d"
    by (rule sessions_release [where i = i]) (use Cons.prems in auto)
  have "map_of (d_reservations ?d) = (map_of (d_reservations d))(k := None)"
    using coreD(1) [OF core_release_and_count] by (metis map_of_reservations_release)
  then have "d_sessions (fst (release_all ks f rs m now ?d)) = d_sessions ?d"
    using Cons.prems same by (intro Cons.IH) (auto split: if_splits)
  with same show ?case by (simp add: release_all_Cons del: release_all.simps)
qed

lemma core_update_unused:
  "core (d\<lparr>d_connection_sessions := x\<rparr>) = core d" "core (d\<lparr>d_session_connections := y\<rparr>) = core d"
  by (simp_all add: core_def)

lemma closing_facts:
  assumes ok: "ledger_ok Map.empty d" and s: "map_of (d_sessions d) i = Some s"
  shows "ledger_ok Map.empty (closing i reason now s d)"
    and "d_sessions (closing i reason now s d) = AList.delete i (d_sessions d)"
    and "map_of (d_reservations (closing i reason now s d)) j =
      (case map_of (d_reservations d) j of None \<Rightarrow> None | Some r \<Rightarrow> if rv_session_id r = i then None else Some r)"
    and "identities (closing i reason now s d) = identities d"
proof -
  let ?gs = "ss_relay_gpus s"
  define d0 where "d0 = d\<lparr>d_sessions := AList.delete i (d_sessions d)\<rparr>"
  define d1 where "d1 = archive_cleanup_target ''session'' i (map_of (d_session_peers d0) i)
                 (Some reason) (transfer_ids_for_session i d0) None now d0"
  define d2 where "d2 = append_audit \<lparr>au_event_type = ''cleanup'', au_transfer_id = None,
                 au_session_id = Some i, au_lease_id = None, au_state = CANCELED,
                 au_reason = Some reason, au_failure_reason = Some reason,
                 au_cleanup_kind = Some ''session'', au_cleanup_target_id = Some i\<rparr> d1"
  define d3 where "d3 = append_system_cleanup_event ''session'' i reason d2"
  define ks where "ks = map fst (filter (\<lambda>(k, r). rv_session_id r = i) (d_reservations d3))"
  define d4 where "d4 = fst (release_all ks CANCELED (Some reason) True now d3)"
  define d5 where "d5 = fst (cancel_and_retire (transfer_ids_for_session i d3) reason now d4)"
  define d6 where "d6 = d5\<lparr>d_relay_quotas := fold (\<lambda>g. modify g (discard_quota_session i)) ?gs (d_relay_quotas d5),
            d_connection_sessions := removeAll i (d_connection_sessions d5),
            d_session_connections := AList.delete i (d_session_connections d5)\<rparr>"
  have d6: "closing i reason now s d = d6"
    unfolding closing_def Let_def d6_def d5_def d4_def ks_def d3_def d2_def d1_def d0_def ..
  have c3: "core d3 = core d0" by (simp add: d3_def d2_def d1_def)
  have c5: "core d5 = core d4" by (simp add: d5_def)
  have "ledger_ok [i \<mapsto> ?gs] d0" unfolding d0_def by (rule ledger_ok_delete_session [OF ok s])
  then have "ledger_ok [i \<mapsto> ?gs] d3" using ledger_ok_core [OF c3] by simp
  then have "ledger_ok [i \<mapsto> ?gs] d4" unfolding d4_def by (rule ledger_ok_release_all)
  then have ok5: "ledger_ok [i \<mapsto> ?gs] d5" using ledger_ok_core [OF c5] by simp
  have wf: "dict_wf (d_reservations d)" using ok by (simp add: ledger_ok_def)
  have res3: "d_reservations d3 = d_reservations d" using coreD(1) [OF c3] by (simp add: d0_def)
  have ks: "k \<in> set ks \<longleftrightarrow> (\<exists>r. map_of (d_reservations d) k = Some r \<and> rv_session_id r = i)" for k
    using wf by (force simp: ks_def res3 dict_wf_def map_of_eq_Some_iff)
  have res4: "map_of (d_reservations d4) j =
      (case map_of (d_reservations d) j of None \<Rightarrow> None | Some r \<Rightarrow> if rv_session_id r = i then None else Some r)" for j
    unfolding d4_def map_of_reservations_release_all res3 ks by (auto split: option.splits)
  have res5: "d_reservations d5 = d_reservations d4" by (rule coreD(1) [OF c5])
  have sess3: "d_sessions d3 = AList.delete i (d_sessions d)" using coreD(3) [OF c3] by (simp add: d0_def)
  have "d_sessions d4 = d_sessions d3"
    unfolding d4_def
    by (rule sessions_release_all [where i = i]) (use ks in \<open>auto simp: sess3 res3\<close>)
  with sess3 coreD(3) [OF c5] have sess5: "d_sessions d5 = AList.delete i (d_sessions d)" by simp
  have att: "attached_ok Map.empty (d_sessions d5) (fold (\<lambda>g. modify g (discard_quota_session i)) ?gs (d_relay_quotas d5))"
    using ok5 sess5 by (intro attached_discard) (simp_all add: ledger_ok_def)
  have quota: "ledger_balanced rv_relay_gpu rq_active_chunks rq_max_inflight_chunks (d_reservations d5)
      (fold (\<lambda>g. modify g (discard_quota_session i)) ?gs (d_relay_quotas d5))"
    using ok5 by (auto simp: ledger_ok_def ledger_balanced_def fold_discard discard_quota_session_def split: if_splits)
  have owner: "map_of (d_sessions d5) (rv_session_id r) \<noteq> None" if "map_of (d_reservations d5) k = Some r" for k r
    using ok5 that res4 [of k] res5 by (fastforce simp: ledger_ok_def split: option.splits if_splits)
  show "ledger_ok Map.empty (closing i reason now s d)"
    using ok5 att quota owner
    unfolding d6 by (simp add: ledger_ok_def d6_def dict_wf_fold_modify)
  show "d_sessions (closing i reason now s d) = AList.delete i (d_sessions d)"
    by (simp add: d6 d6_def sess5)
  show "map_of (d_reservations (closing i reason now s d)) j =
      (case map_of (d_reservations d) j of None \<Rightarrow> None | Some r \<Rightarrow> if rv_session_id r = i then None else Some r)"
    by (simp add: d6 d6_def res5 res4)
  have "identities d6 = identities d5" by (simp add: d6_def identities_def)
  also have "\<dots> = identities d4" by (rule identities_core [OF c5])
  also have "\<dots> = identities d3" unfolding d4_def by (rule identities_release_all)
  also have "\<dots> = identities d" using identities_core [OF c3] by (simp add: d0_def identities_def)
  finally show "identities (closing i reason now s d) = identities d" by (simp add: d6)
qed

end
