(* ===== verification/Daemon_Handlers.thy ===== *)
theory Daemon_Handlers
  imports Daemon_Sessions
begin

text \<open>
  The daemon's request handlers for sessions, jobs and buffers (\<open>turbobus/daemon/server.py\<close>), with
  the tenant quotas and the admission refresh they start with.  A response is refused with its
  error text or accepted with its payload; a constructor that raises leaves the handler with an
  exception instead.  Fresh ids, lease tokens, the clock, the scheduler's promotions and the
  topology provider's eligible relays are arguments.
\<close>

datatype 'a response = Refused string | Accepted 'a

definition error_text :: "py_error \<Rightarrow> string" where
  "error_text e = (case e of ValueError s \<Rightarrow> s | TypeError s \<Rightarrow> s | KeyError s \<Rightarrow> s
     | RuntimeError s \<Rightarrow> s | WorkerStagingPoolError s \<Rightarrow> s | _ \<Rightarrow> [])"

text \<open>\<open>try: check except ValueError as exc: return DaemonResponse(ok=False, error=str(exc))\<close>.\<close>

definition guarded :: "unit result \<Rightarrow> Daemon \<Rightarrow> Daemon \<times> 'a response \<Rightarrow> Daemon \<times> 'a response" where
  "guarded check d k = (case check of Inl e \<Rightarrow> (d, Refused (error_text e)) | Inr _ \<Rightarrow> k)"

section \<open>Tenant usage and quotas\<close>

record TenantUsage =
  tu_active_sessions :: int
  tu_registered_jobs :: int
  tu_registered_buffers :: int
  tu_registered_buffer_bytes :: int
  tu_active_leases :: int
  tu_active_transfers :: int

definition empty_usage :: TenantUsage where
  "empty_usage = \<lparr>tu_active_sessions = 0, tu_registered_jobs = 0, tu_registered_buffers = 0,
     tu_registered_buffer_bytes = 0, tu_active_leases = 0, tu_active_transfers = 0\<rparr>"

definition known_tenant_uids :: "Daemon \<Rightarrow> string list" where
  "known_tenant_uids d = remdups
     (concat (map (\<lambda>(i, p). case peer_uid (Some p) of None \<Rightarrow> [] | Some u \<Rightarrow> [u])
        (d_session_peers d @ d_job_peers d)) @
      concat (map (\<lambda>(i, j). case ji_user_id j of None \<Rightarrow> [] | Some u \<Rightarrow> [u]) (d_jobs d)))"

text \<open>\<open>peer_uid(...) or (None if job.user_id is None else str(job.user_id))\<close>.\<close>

definition job_uid :: "string \<Rightarrow> JobIdentity option \<Rightarrow> Daemon \<Rightarrow> string option" where
  "job_uid job_id job d =
     (case peer_uid (map_of (d_job_peers d) job_id) of
        Some u \<Rightarrow> if u \<noteq> [] then Some u else Option.bind job ji_user_id
      | None \<Rightarrow> Option.bind job ji_user_id)"

definition uid_for_job :: "string option \<Rightarrow> Daemon \<Rightarrow> string option" where
  "uid_for_job job_id d =
     (case job_id of
        None \<Rightarrow> None
      | Some j \<Rightarrow> or_else (peer_uid (map_of (d_job_peers d) j)) (Option.bind (map_of (d_jobs d) j) ji_user_id))"

definition charge :: "string option \<Rightarrow> (TenantUsage \<Rightarrow> TenantUsage) \<Rightarrow> (string, TenantUsage) dict
     \<Rightarrow> (string, TenantUsage) dict" where
  "charge uid f usage =
     (case uid of None \<Rightarrow> usage | Some u \<Rightarrow> AList.update u (f (dget_default usage u empty_usage)) usage)"

definition session_uid :: "string \<times> Session \<Rightarrow> Daemon \<Rightarrow> string option" where
  "session_uid x d = (case x of (i, s) \<Rightarrow> if ss_active s then peer_uid (map_of (d_session_peers d) i) else None)"

definition buffer_uid :: "BufferRegistration \<Rightarrow> Daemon \<Rightarrow> string option" where
  "buffer_uid b d = job_uid (br_job_id b) (map_of (d_jobs d) (br_job_id b)) d"

text \<open>
  \<open>_uid_for_transfer_locked\<close> prefers the job id of the transfer's queue record, which is written from
  the status when the transfer is planned and is the same one; the queue records are not modelled.
\<close>

definition uid_for_transfer :: "string \<Rightarrow> Daemon \<Rightarrow> string option" where
  "uid_for_transfer transfer_id d =
     (case map_of (d_statuses d) transfer_id of
        None \<Rightarrow> None | Some status \<Rightarrow> uid_for_job (Some (ts_job_id status)) d)"

definition tenant_usage_snapshot :: "Daemon \<Rightarrow> (string, TenantUsage) dict" where
  "tenant_usage_snapshot d =
     (let u0 = map (\<lambda>uid. (uid, empty_usage)) (known_tenant_uids d);
          u1 = fold (\<lambda>x. charge (session_uid x d)
                 (\<lambda>u. u\<lparr>tu_active_sessions := tu_active_sessions u + 1\<rparr>)) (d_sessions d) u0;
          u2 = fold (\<lambda>(i, j). charge (job_uid i (Some j) d)
                 (\<lambda>u. u\<lparr>tu_registered_jobs := tu_registered_jobs u + 1\<rparr>)) (d_jobs d) u1;
          u3 = fold (\<lambda>(i, b). charge (buffer_uid b d)
                 (\<lambda>u. u\<lparr>tu_registered_buffers := tu_registered_buffers u + 1,
                         tu_registered_buffer_bytes := tu_registered_buffer_bytes u + br_size_bytes b\<rparr>))
                 (d_buffers d) u2;
          u4 = fold (\<lambda>(i, l). if map_of (d_reservations d) i = None then id
                 else charge (uid_for_job (lt_job_id l) d)
                   (\<lambda>u. u\<lparr>tu_active_leases := tu_active_leases u + 1\<rparr>)) (d_lease_tokens d) u3
      in fold (\<lambda>(t, status). if terminal (ts_state status) then id
                 else charge (uid_for_transfer (ts_transfer_id status) d)
                   (\<lambda>u. u\<lparr>tu_active_transfers := tu_active_transfers u + 1\<rparr>)) (d_statuses d) u4)"

text \<open>\<open>self._quota_rejections[:] = self._quota_rejections[-128:]\<close>.\<close>

definition last_128 :: "'a list \<Rightarrow> 'a list" where
  "last_128 xs = drop (length xs - 128) xs"

definition tenant_quota_rejection :: "string \<Rightarrow> string \<Rightarrow> rat \<Rightarrow> Daemon \<Rightarrow> Daemon \<times> string option" where
  "tenant_quota_rejection uid field now d =
     (d\<lparr>d_quota_rejections := last_128 (d_quota_rejections d @ [(uid, field, now)])\<rparr>,
      Some (''tenant quota exceeded: '' @ field))"

definition over_limit :: "int \<Rightarrow> int \<Rightarrow> int \<Rightarrow> bool" where
  "over_limit limit current delta = (limit > 0 \<and> current + delta > limit)"

definition tenant_quota_precheck ::
  "PeerIdentity option \<Rightarrow> string \<Rightarrow> int \<Rightarrow> int \<Rightarrow> rat \<Rightarrow> Daemon \<Rightarrow> Daemon \<times> string option" where
  "tenant_quota_precheck peer field delta_count delta_bytes now d =
     (case peer_uid peer of
        None \<Rightarrow> (d, if d_require_authenticated_peers d
                    then Some (authenticated_peer_required_error peer) else None)
      | Some uid \<Rightarrow>
          (let current = dget_default (tenant_usage_snapshot d) uid empty_usage;
               policy = d_quota_policy d
           in if field = ''registered_buffers'' then
                (if over_limit (qp_max_buffers_per_uid policy) (tu_registered_buffers current) delta_count
                 then tenant_quota_rejection uid field now d
                 else if over_limit (qp_max_buffer_bytes_per_uid policy)
                           (tu_registered_buffer_bytes current) delta_bytes
                 then tenant_quota_rejection uid ''registered_buffer_bytes'' now d
                 else (d, None))
              else if field = ''active_sessions'' then
                (if over_limit (qp_max_sessions_per_uid policy) (tu_active_sessions current) delta_count
                 then tenant_quota_rejection uid field now d else (d, None))
              else if field = ''registered_jobs'' then
                (if over_limit (qp_max_jobs_per_uid policy) (tu_registered_jobs current) delta_count
                 then tenant_quota_rejection uid field now d else (d, None))
              else (d, None)))"

section \<open>Sessions\<close>

text \<open>
  The relays of a new session: all of them without a topology provider, else the ones the provider
  finds eligible (an argument), or its error.
\<close>

definition relays_for_new_session :: "int list result option \<Rightarrow> Daemon \<Rightarrow> int list result" where
  "relays_for_new_session eligible d =
     (case eligible of
        None \<Rightarrow> Inr (sort (dkeys (d_relay_quotas d)))
      | Some r \<Rightarrow> if d_relay_quotas d = [] then Inr [] else r)"

definition busy_relays :: "int list \<Rightarrow> Daemon \<Rightarrow> int list" where
  "busy_relays relays d =
     filter (\<lambda>g. case map_of (d_relay_quotas d) g of None \<Rightarrow> False | Some q \<Rightarrow> \<not> can_attach q) relays"

definition attach_session :: "string \<Rightarrow> RelayQuota \<Rightarrow> RelayQuota" where
  "attach_session i q = (if i \<in> set (rq_sessions q) then q else q\<lparr>rq_sessions := rq_sessions q @ [i]\<rparr>)"

definition int_list_str :: "int list \<Rightarrow> string" where
  "int_list_str xs = ''['' @ join '', '' (map int_str xs) @ '']''"

definition reap_and_refresh ::
  "(string \<Rightarrow> string) \<Rightarrow> rat \<Rightarrow> Promotion list \<Rightarrow> Daemon \<Rightarrow> Daemon" where
  "reap_and_refresh token now promotions d =
     fst (refresh_admission_state token now promotions (fst (reap_stale_sessions now d)))"

text \<open>The locked body of \<open>register_session\<close> after the refresh.\<close>

definition add_session ::
  "string \<Rightarrow> int \<Rightarrow> int \<Rightarrow> bool \<Rightarrow> PeerIdentity option \<Rightarrow> bool \<Rightarrow> string option \<Rightarrow> int list \<Rightarrow> rat
     \<Rightarrow> Daemon \<Rightarrow> Daemon \<times> Session" where
  "add_session session_id target max_inflight capable peer connection_scoped connection_id relays now d =
     (let session = \<lparr>ss_session_id = session_id, ss_target_gpu = target, ss_relay_gpus = relays,
            ss_max_inflight_chunks = max_inflight, ss_worker_relay_capable = capable,
            ss_active_chunks = 0, ss_active = True, ss_created_at = now, ss_last_seen = now,
            ss_closed_at = None\<rparr>
      in (d\<lparr>d_sessions := AList.update session_id session (d_sessions d),
            d_session_peers := (case peer of None \<Rightarrow> d_session_peers d
              | Some p \<Rightarrow> AList.update session_id p (d_session_peers d)),
            d_connection_sessions := (if connection_scoped \<and> session_id \<notin> set (d_connection_sessions d)
              then d_connection_sessions d @ [session_id] else d_connection_sessions d),
            d_session_connections := (case connection_id of None \<Rightarrow> d_session_connections d
              | Some c \<Rightarrow> if connection_scoped then AList.update session_id c (d_session_connections d)
                          else d_session_connections d),
            d_relay_quotas := (if capable
              then fold (\<lambda>g. modify g (attach_session session_id)) relays (d_relay_quotas d)
              else d_relay_quotas d)\<rparr>, session))"

definition register_session ::
  "(string \<Rightarrow> string) \<Rightarrow> Promotion list \<Rightarrow> int list result option \<Rightarrow> string \<Rightarrow> int \<Rightarrow> int \<Rightarrow> bool
     \<Rightarrow> PeerIdentity option \<Rightarrow> bool \<Rightarrow> string option \<Rightarrow> rat \<Rightarrow> Daemon \<Rightarrow> Daemon \<times> Session response" where
  "register_session token promotions eligible session_id target max_inflight capable peer
       connection_scoped connection_id now d =
     (if max_inflight \<le> 0 then (d, Refused ''max_inflight_chunks must be positive'')
      else let d1 = reap_and_refresh token now promotions d
           in case tenant_quota_precheck peer ''active_sessions'' 1 0 now d1 of
                (d2, Some e) \<Rightarrow> (d2, Refused e)
              | (d2, None) \<Rightarrow>
                  (case relays_for_new_session eligible d2 of
                     Inl e \<Rightarrow> (d2, Refused (error_text e))
                   | Inr relays \<Rightarrow>
                       (let busy = busy_relays relays d2
                        in if capable \<and> busy \<noteq> []
                           then (d2, Refused (''relay GPUs are unavailable: '' @ int_list_str busy))
                           else let (d3, s) = add_session session_id target max_inflight capable peer
                                      connection_scoped connection_id relays now d2
                                in (d3, Accepted s))))"

definition archived_transfer_owner_peer :: "string \<Rightarrow> Daemon \<Rightarrow> PeerIdentity option" where
  "archived_transfer_owner_peer t d =
     (case map_of (d_receipt_archive d) t of
        None \<Rightarrow> None
      | Some a \<Rightarrow>
          authenticated_or (ta_peer a)
            (authenticated_or (map_of (d_job_peers d) (ts_job_id (ta_status a)))
              (authenticated_or (map_of (d_session_peers d) (ti_session_id (ta_intent a))) None)))"

definition validate_owner_peer :: "PeerIdentity option \<Rightarrow> PeerIdentity option \<Rightarrow> unit result" where
  "validate_owner_peer owner peer =
     (if \<not> authenticated owner then Inl (ValueError ''transfer owner identity is unavailable'')
      else validate_peer_owner_match owner peer ''transfer'')"

definition validate_peer_owns_receipt_transfer ::
  "string \<Rightarrow> string \<Rightarrow> PeerIdentity option \<Rightarrow> Daemon \<Rightarrow> unit result" where
  "validate_peer_owns_receipt_transfer t job_id peer d =
     (if \<not> authenticated peer then Inr ()
      else if map_of (d_jobs d) job_id \<noteq> None then validate_peer_owns_job job_id peer d
      else validate_owner_peer
             (or_else (map_of (d_transfer_peers d) t) (archived_transfer_owner_peer t d)) peer)"

definition residual_transfer_ids :: "string \<Rightarrow> string \<Rightarrow> Daemon \<Rightarrow> string list" where
  "residual_transfer_ids kind i d =
     (if kind = ''job'' then transfer_ids_for_job i d
      else if kind = ''buffer''
      then set_tuple (transfer_ids_for_buffer i d @
             concat (map (\<lambda>l. case map_of (d_reservation_transfers d) l of None \<Rightarrow> [] | Some t \<Rightarrow> [t])
               (active_buffer_lease_ids i d)))
      else if kind = ''session'' then transfer_ids_for_session i d else [])"

definition validate_peer_owns_missing_cleanup_target ::
  "string \<Rightarrow> string \<Rightarrow> PeerIdentity option \<Rightarrow> Daemon \<Rightarrow> unit result" where
  "validate_peer_owns_missing_cleanup_target kind i peer d =
     (if \<not> authenticated peer then Inr ()
      else let transfer_ids = residual_transfer_ids kind i d
           in if transfer_ids = []
              then (case map_of (d_retired_targets d) (kind, i) of
                      None \<Rightarrow> Inl (ValueError (''unknown '' @ kind))
                    | Some target \<Rightarrow>
                        if authenticated (rt_peer target)
                        then validate_peer_owner_match (rt_peer target) peer kind
                        else Inl (ValueError (kind @ '' owner identity is unavailable'')))
              else rcheck (\<lambda>t. case map_of (d_statuses d) t of
                     Some s \<Rightarrow> validate_peer_owns_receipt_transfer t (ts_job_id s) peer d
                   | None \<Rightarrow> validate_owner_peer
                       (or_else (map_of (d_transfer_peers d) t) (archived_transfer_owner_peer t d)) peer)
                   transfer_ids)"

definition close_session ::
  "string \<Rightarrow> PeerIdentity option \<Rightarrow> rat \<Rightarrow> Daemon \<Rightarrow> Daemon \<times> Removed response" where
  "close_session session_id peer now d =
     (let d1 = fst (reap_stale_sessions now d);
          known = (map_of (d_sessions d1) session_id \<noteq> None);
          owned = (if known then Some (session_owned_cleanup_targets session_id d1) else None);
          archived = map_of (d_retired_targets d1) (''session'', session_id)
      in guarded (if known then validate_peer_owns_session session_id peer d1
                  else if archived \<noteq> None
                  then validate_peer_owns_missing_cleanup_target ''session'' session_id peer d1
                  else Inr ()) d1
           (let (d2, removed, session) = close_session_locked session_id ''session_closed'' owned now d1
            in if session = None \<and> archived = None then (d2, Refused ''unknown session'')
               else (d2, Accepted removed)))"

section \<open>Jobs and buffers\<close>

definition job_identity_conflicts :: "JobIdentity \<Rightarrow> JobIdentity \<Rightarrow> bool" where
  "job_identity_conflicts old new =
     (ji_job_id old \<noteq> ji_job_id new \<or> ji_user_id old \<noteq> ji_user_id new \<or>
      ji_session_id old \<noteq> ji_session_id new \<or> ji_container_id old \<noteq> ji_container_id new \<or>
      ji_process_id old \<noteq> ji_process_id new)"

definition buffer_registration_conflicts :: "BufferRegistration \<Rightarrow> BufferRegistration \<Rightarrow> bool" where
  "buffer_registration_conflicts old new =
     (br_buffer_id old \<noteq> br_buffer_id new \<or> br_job_id old \<noteq> br_job_id new \<or>
      br_kind old \<noteq> br_kind new \<or> br_size_bytes old \<noteq> br_size_bytes new \<or>
      br_device_index old \<noteq> br_device_index new \<or> br_address old \<noteq> br_address new \<or>
      br_pinned old \<noteq> br_pinned new \<or> br_handle_type old \<noteq> br_handle_type new \<or>
      br_metadata old \<noteq> br_metadata new)"

text \<open>The locked body of \<open>register_job\<close>, on the job built from the bound identity.\<close>

definition register_job_locked ::
  "JobIdentity \<Rightarrow> PeerIdentity option \<Rightarrow> rat \<Rightarrow> Daemon \<Rightarrow> Daemon \<times> JobIdentity response" where
  "register_job_locked job peer now d =
     (if opt_holds (\<lambda>s. map_of (d_sessions d) s = None) (ji_session_id job)
      then (d, Refused ''unknown session'')
      else case tenant_quota_precheck peer ''registered_jobs''
                  (if map_of (d_jobs d) (ji_job_id job) = None then 1 else 0) 0 now d of
             (d1, Some e) \<Rightarrow> (d1, Refused e)
           | (d1, None) \<Rightarrow>
               guarded (validate_peer_owner_match
                          (Option.bind (ji_session_id job) (map_of (d_session_peers d1))) peer ''session'') d1
                 (let store = (d1\<lparr>d_jobs := AList.update (ji_job_id job) job (d_jobs d1),
                        d_job_peers := (case peer of None \<Rightarrow> d_job_peers d1
                          | Some p \<Rightarrow> AList.update (ji_job_id job) p (d_job_peers d1))\<rparr>, Accepted job)
                  in case map_of (d_jobs d1) (ji_job_id job) of
                       None \<Rightarrow> store
                     | Some old \<Rightarrow>
                         guarded (validate_peer_owns_job (ji_job_id job) peer d1) d1
                           (if job_identity_conflicts old job
                            then (d1, Refused ''job_id is already bound to a different production identity'')
                            else store)))"

definition register_job ::
  "JobIdentity \<Rightarrow> PeerIdentity option \<Rightarrow> rat \<Rightarrow> Daemon \<Rightarrow> (Daemon \<times> JobIdentity response) result" where
  "register_job raw peer now d =
     (case bind_job_identity_to_peer (ji_user_id raw) (ji_process_id raw) (ji_container_id raw) peer of
        Inl e \<Rightarrow> Inr (d, Refused (error_text e))
      | Inr (user, process, container) \<Rightarrow>
          rbind (mk_JobIdentity (raw\<lparr>ji_user_id := user, ji_process_id := process,
                                     ji_container_id := container\<rparr>))
            (\<lambda>job. Inr (register_job_locked job peer now d)))"

definition register_buffer_locked ::
  "BufferRegistration \<Rightarrow> PeerIdentity option \<Rightarrow> rat \<Rightarrow> Daemon \<Rightarrow> Daemon \<times> BufferRegistration response" where
  "register_buffer_locked buffer peer now d =
     (if map_of (d_jobs d) (br_job_id buffer) = None then (d, Refused ''unknown job'')
      else let fresh = (map_of (d_buffers d) (br_buffer_id buffer) = None)
           in case tenant_quota_precheck peer ''registered_buffers'' (if fresh then 1 else 0)
                     (if fresh then br_size_bytes buffer else 0) now d of
                (d1, Some e) \<Rightarrow> (d1, Refused e)
              | (d1, None) \<Rightarrow>
                  guarded (validate_peer_owns_job (br_job_id buffer) peer d1) d1
                    (case map_of (d_buffers d1) (br_buffer_id buffer) of
                       Some old \<Rightarrow>
                         guarded (validate_peer_owns_buffer (br_buffer_id buffer) peer d1) d1
                           (if buffer_registration_conflicts old buffer
                            then (d1, Refused ''buffer_id is already bound to a different production registration'')
                            else (d1, Accepted old))
                     | None \<Rightarrow>
                         if buffer_protected (br_buffer_id buffer) d1
                         then (d1, Refused ''buffer has active daemon-issued execution'')
                         else (d1\<lparr>d_buffers := AList.update (br_buffer_id buffer) buffer (d_buffers d1)\<rparr>,
                               Accepted buffer)))"

definition register_buffer ::
  "(string \<Rightarrow> string) \<Rightarrow> Promotion list \<Rightarrow> BufferRegistration \<Rightarrow> PeerIdentity option \<Rightarrow> rat \<Rightarrow> Daemon
     \<Rightarrow> (Daemon \<times> BufferRegistration response) result" where
  "register_buffer token promotions raw peer now d =
     rbind (mk_BufferRegistration raw)
       (\<lambda>buffer. Inr (register_buffer_locked buffer peer now (reap_and_refresh token now promotions d)))"

section \<open>Cleanup requests\<close>

definition finalize_cleanup ::
  "(string \<Rightarrow> string) \<Rightarrow> Promotion list \<Rightarrow> CleanupRequest \<Rightarrow> Removed \<Rightarrow> rat \<Rightarrow> Daemon
     \<Rightarrow> Daemon \<times> Removed response" where
  "finalize_cleanup token promotions cleanup removed now d =
     (fst (refresh_admission_state token now promotions
        (d\<lparr>d_cleanup_events := d_cleanup_events d @ [cleanup]\<rparr>)), Accepted removed)"

definition cleanup_job_target ::
  "(string \<Rightarrow> string) \<Rightarrow> Promotion list \<Rightarrow> CleanupRequest \<Rightarrow> PeerIdentity option \<Rightarrow> rat \<Rightarrow> Daemon
     \<Rightarrow> Daemon \<times> Removed response" where
  "cleanup_job_target token promotions cleanup peer now d =
     (let i = cr_target_id cleanup;
          known = (map_of (d_jobs d) i \<noteq> None);
          missing = validate_peer_owns_missing_cleanup_target ''job'' i peer d
      in if \<not> known \<and> \<not> cr_force cleanup
         then (if map_of (d_retired_targets d) (''job'', i) = None then (d, Refused ''unknown job'')
               else guarded missing d (d, Accepted empty_removed))
         else guarded (if known then validate_peer_owns_job i peer d else missing) d
                (let (d1, removed) = cleanup_job i (cr_reason cleanup) now d
                 in finalize_cleanup token promotions cleanup removed now d1))"

definition cleanup_session_target ::
  "(string \<Rightarrow> string) \<Rightarrow> Promotion list \<Rightarrow> CleanupRequest \<Rightarrow> PeerIdentity option \<Rightarrow> rat \<Rightarrow> Daemon
     \<Rightarrow> Daemon \<times> Removed response" where
  "cleanup_session_target token promotions cleanup peer now d =
     (let i = cr_target_id cleanup;
          known = (map_of (d_sessions d) i \<noteq> None);
          owned = (if known then Some (session_owned_cleanup_targets i d) else None);
          missing = validate_peer_owns_missing_cleanup_target ''session'' i peer d
      in guarded (if known then validate_peer_owns_session i peer d
                  else if cr_force cleanup then missing else Inr ()) d
           (if \<not> known \<and> \<not> cr_force cleanup
            then (if map_of (d_retired_targets d) (''session'', i) = None
                  then (d, Refused ''unknown session'')
                  else guarded missing d (d, Accepted empty_removed))
            else let (d1, removed, session) = close_session_locked i (cr_reason cleanup) owned now d
                 in if session = None \<and> \<not> cr_force cleanup then (d1, Refused ''unknown session'')
                    else finalize_cleanup token promotions cleanup removed now d1))"

end
