(* ===== verification/Daemon_Planning.thy ===== *)
theory Daemon_Planning
  imports Daemon_Handlers
begin

text \<open>
  Planning a transfer in the daemon (\<open>turbobus/daemon/server.py\<close>): checking the buffers it names,
  admitting or delaying the scheduler's decision, registering the transfer with its reservations,
  and what later requests check before they use its plan or one of its leases.  The scheduler's
  answer, the load feedback and the evidence attached to an admission record are arguments.
\<close>

section \<open>Ranges and buffers of a request\<close>

text \<open>The ranges of a request are triples \<open>(src_offset, dst_offset, bytes)\<close> of integers.\<close>

definition normalize_transfer_ranges :: "(int \<times> int \<times> int) list option \<Rightarrow> (int \<times> int \<times> int) list option result" where
  "normalize_transfer_ranges ranges =
     (case ranges of
        None \<Rightarrow> Inr None
      | Some rs \<Rightarrow> rbind (rmap (\<lambda>(src, dst, n).
            raise_if (src < 0 \<or> dst < 0) (ValueError ''range offsets must be non-negative'') (
            raise_if (n \<le> 0) (ValueError ''range bytes must be positive'') (Inr (src, dst, n)))) rs)
          (\<lambda>ns. Inr (Some ns)))"

fun validate_each_buffer ::
  "PeerIdentity option \<Rightarrow> Daemon \<Rightarrow> string list \<Rightarrow> string option \<Rightarrow> string option result" where
  "validate_each_buffer peer d [] owner = Inr owner"
| "validate_each_buffer peer d (b # bs) owner =
     (case map_of (d_buffers d) b of
        None \<Rightarrow> Inl (ValueError (''unknown buffer: '' @ b))
      | Some buffer \<Rightarrow>
          (let owner' = (case owner of None \<Rightarrow> br_job_id buffer | Some j \<Rightarrow> j)
           in raise_if (br_job_id buffer \<noteq> owner') (ValueError ''buffer owner does not match job'') (
              rbind (validate_peer_owns_buffer b peer d) (\<lambda>_.
              validate_each_buffer peer d bs (Some owner')))))"

definition validate_transfer_buffers ::
  "string list option \<Rightarrow> string option \<Rightarrow> string \<Rightarrow> PeerIdentity option \<Rightarrow> Daemon
     \<Rightarrow> (string list \<times> string option) result" where
  "validate_transfer_buffers buffer_ids job_id session_id peer d =
     (case buffer_ids of
        None \<Rightarrow> Inr ([], None)
      | Some [] \<Rightarrow> Inr ([], None)
      | Some bs \<Rightarrow>
          raise_if (list_ex blank bs) (ValueError ''buffer_ids must be non-empty'') (
          raise_if (\<not> distinct bs) (ValueError ''buffer_ids must be unique'') (
          rbind (validate_each_buffer peer d bs job_id) (\<lambda>owner.
          case owner of
            None \<Rightarrow> Inl (ValueError ''job_id is required when buffer_ids are provided'')
          | Some j \<Rightarrow>
              (case map_of (d_jobs d) j of
                 None \<Rightarrow> Inl (ValueError ''unknown job'')
               | Some job \<Rightarrow>
                   raise_if (ji_session_id job \<noteq> Some session_id)
                     (ValueError ''job session does not match transfer session'') (
                   rbind (validate_peer_owns_job j peer d) (\<lambda>_. Inr (bs, Some j))))))))"

section \<open>Admission\<close>

definition admission_record ::
  "string \<Rightarrow> string \<Rightarrow> SchedulingDecision \<Rightarrow> nat \<Rightarrow> int \<Rightarrow> string \<Rightarrow> mapping \<Rightarrow> rat \<Rightarrow> mapping" where
  "admission_record state reason decision leases chunks stamp evidence now =
     [(''state'', VStr state), (''reason'', VStr reason),
      (''decision_state'', VStr (decision_value (sd_state decision))),
      (''fallback_reason'', (case sd_fallback_reason decision of None \<Rightarrow> VNone | Some r \<Rightarrow> VStr r)),
      (''requested_lease_count'', VInt (int leases)), (''requested_chunks'', VInt chunks),
      (''lease_ids'', VList []), (stamp, VFloat now)] @ evidence"

text \<open>\<open>evidence\<close> holds the \<open>fairness\<close> and \<open>multi_tenant_admission\<close> records.\<close>

definition admission_for_decision ::
  "SchedulingDecision \<Rightarrow> PlannerLease list \<Rightarrow> string option \<Rightarrow> bool \<Rightarrow> mapping \<Rightarrow> rat \<Rightarrow> mapping" where
  "admission_for_decision decision leases blocked allow_delayed evidence now =
     (if leases = []
      then admission_record ''admitted''
             (case sd_fallback_reason decision of
                Some r \<Rightarrow> if r = [] then ''direct_or_fallback_plan'' else r | None \<Rightarrow> ''direct_or_fallback_plan'')
             decision 0 0 ''admitted_at'' evidence now
      else case blocked of
             None \<Rightarrow> admission_record ''admitted'' ''relay_resources_available'' decision (length leases)
                       (lease_chunks leases) ''admitted_at'' evidence now
           | Some reason \<Rightarrow>
               if allow_delayed
               then admission_record ''delayed'' reason decision (length leases) (lease_chunks leases)
                      ''delayed_at'' evidence now
               else admission_record ''admitted'' ''scheduler_fallback_or_rejection'' decision
                      (length leases) 0 ''admitted_at'' evidence now)"

text \<open>\<open>_DEFAULT_PLAN_TTL_SECONDS\<close> is 30 seconds.\<close>

definition plan_expires_at :: "PlannerLease list \<Rightarrow> rat \<Rightarrow> rat" where
  "plan_expires_at leases now =
     (let live = filter (\<lambda>t. t > now) (map pl_expires_at leases)
      in if live = [] then now + 30 else Min (set live))"

section \<open>Registering a planned transfer\<close>

record PlannedTransfer =
  pt_transfer_id :: string
  pt_decision :: SchedulingDecision
  pt_leases :: "PlannerLease list"
  pt_block_plan :: "BlockPlan option"
  pt_intent_id :: "string option"
  pt_job_id :: "string option"
  pt_buffer_ids :: "string list"
  pt_total_bytes :: int
  pt_request_fields :: mapping
  pt_allow_delayed :: bool
  pt_fairness_blocked :: "string option"
  pt_runtime_blocked :: "PlannerLease \<Rightarrow> string option"
  pt_evidence :: mapping
  pt_priority_order :: mapping
  pt_snapshots :: mapping
  pt_direct_ticket :: "ExecutionTicket option"

text \<open>\<open>str(job_id or session.session_id)\<close>: a transfer without a job is filed under its session.\<close>

definition planned_status :: "PlannedTransfer \<Rightarrow> string \<Rightarrow> TransferStatus" where
  "planned_status p session_id =
     \<lparr>ts_transfer_id = pt_transfer_id p,
      ts_job_id = (case pt_job_id p of None \<Rightarrow> session_id | Some j \<Rightarrow> if j = [] then session_id else j),
      ts_state = SUBMITTED, ts_bytes_total = pt_total_bytes p, ts_bytes_completed = 0,
      ts_session_id = Some session_id, ts_error = None\<rparr>"

definition admission_reason :: "PlannedTransfer \<Rightarrow> Session \<Rightarrow> Daemon \<Rightarrow> string option" where
  "admission_reason p session d =
     relay_admission_blocked_reason (pt_fairness_blocked p) (pt_runtime_blocked p) session (pt_leases p) d"

text \<open>
  The records of a planned transfer: its status, owner, plan contract, block runtime, queue entry
  and buffer snapshots.
\<close>

definition register_plan_contract :: "PlannedTransfer \<Rightarrow> mapping \<Rightarrow> rat \<Rightarrow> Daemon \<Rightarrow> Daemon" where
  "register_plan_contract p admission now d =
     (let t = pt_transfer_id p; expires = plan_expires_at (pt_leases p) now
      in d\<lparr>d_plans := AList.update t (sd_plan (pt_decision p)) (d_plans d),
           d_decisions := AList.update t (pt_decision p) (d_decisions d),
           d_plan_requests := AList.update t
             \<lparr>pq_intent_id = pt_intent_id p, pq_fields =
                AList.update ''buffer_ids'' (VList (map VStr (pt_buffer_ids p))) (pt_request_fields p)\<rparr> (d_plan_requests d),
           d_plan_expirations := AList.update t expires (d_plan_expirations d),
           d_admissions := AList.update t (admission_with_priority_evidence (dict_merge admission
             [(''plan_generation'', VInt (dget_default (d_plan_generations d) t 0)),
              (''plan_expires_at'', VFloat expires),
              (''priority_order'', VDict (pt_priority_order p))]) (pt_priority_order p)) (d_admissions d)\<rparr>)"

definition file_planned_transfer ::
  "PlannedTransfer \<Rightarrow> string \<Rightarrow> PeerIdentity option \<Rightarrow> mapping \<Rightarrow> rat \<Rightarrow> Daemon \<Rightarrow> Daemon" where
  "file_planned_transfer p session_id peer admission now d =
     (let t = pt_transfer_id p; status = planned_status p session_id;
          d1 = d\<lparr>d_statuses := AList.update t status (d_statuses d)\<rparr>;
          d2 = (case transfer_peer_for_owner (ts_job_id status) session_id peer d1 of
                  None \<Rightarrow> d1
                | Some owner \<Rightarrow> d1\<lparr>d_transfer_peers := AList.update t owner (d_transfer_peers d1)\<rparr>);
          d3 = register_plan_contract p admission now d2;
          d4 = register_block_runtime_records t (pt_block_plan p) d3
      in d4\<lparr>d_transfer_queue := d_transfer_queue d4 @ [t],
            d_buffer_snapshots := AList.update t (pt_snapshots p) (d_buffer_snapshots d4)\<rparr>)"

text \<open>\<open>pt_direct_ticket\<close> is \<open>None\<close> unless the plan is direct only.\<close>

definition issue_direct_plan_ticket :: "PlannedTransfer \<Rightarrow> TransferReservation list \<Rightarrow> Daemon \<Rightarrow> Daemon" where
  "issue_direct_plan_ticket p reservations d =
     (if reservations \<noteq> [] \<or> length (pt_buffer_ids p) < 2 then d
      else case pt_direct_ticket p of
             None \<Rightarrow> d
           | Some k \<Rightarrow> d\<lparr>d_execution_tickets := AList.update (et_ticket_id k) k (d_execution_tickets d),
                         d_transfer_tickets := AList.update (pt_transfer_id p) (et_ticket_id k) (d_transfer_tickets d)\<rparr>)"

text \<open>\<open>_admitted_transfer_reservations_locked\<close>, returning the admission record too.\<close>

definition admitted_transfer_reservations ::
  "(string \<Rightarrow> string) \<Rightarrow> string \<Rightarrow> PlannedTransfer \<Rightarrow> mapping \<Rightarrow> Daemon
     \<Rightarrow> Daemon \<times> TransferReservation list \<times> mapping" where
  "admitted_transfer_reservations token session_id p admission d =
     (if vget admission ''state'' VNone \<noteq> VStr ''admitted'' then (d, [], admission)
      else let (d', reservations) = commit_scheduler_leases token session_id (pt_leases p)
                 (Some (pt_transfer_id p)) (pt_buffer_ids p) d
           in (d', reservations, AList.update ''lease_ids''
                 (VList (map (\<lambda>r. VStr (rv_reservation_id r)) reservations)) admission))"

text \<open>\<open>_register_planned_transfer_state_locked\<close>.\<close>

definition register_planned_transfer ::
  "(string \<Rightarrow> string) \<Rightarrow> Session \<Rightarrow> PlannedTransfer \<Rightarrow> PeerIdentity option \<Rightarrow> rat \<Rightarrow> Daemon
     \<Rightarrow> Daemon \<times> TransferReservation list" where
  "register_planned_transfer token session p peer now d =
     (let i = ss_session_id session;
          d1 = d\<lparr>d_plan_generations := AList.update (pt_transfer_id p) 1 (d_plan_generations d)\<rparr>;
          admission = admission_for_decision (pt_decision p) (pt_leases p) (admission_reason p session d1)
                        (pt_allow_delayed p) (pt_evidence p) now;
          (d2, reservations, admission') = admitted_transfer_reservations token i p admission d1;
          d3 = file_planned_transfer p i peer admission' now d2
      in (issue_direct_plan_ticket p reservations (touch_session i now d3), reservations))"

text \<open>
  \<open>_plan_transfer\<close>, up to the payload of its answer.  The scheduler is the argument \<open>schedule\<close>: given the state, the session and
  the owner of the buffers it answers with an error or a planned transfer.
\<close>

definition plan_transfer ::
  "(string \<Rightarrow> string) \<Rightarrow> Promotion list \<Rightarrow> (Daemon \<Rightarrow> Session \<Rightarrow> string option \<Rightarrow> PlannedTransfer result)
     \<Rightarrow> string \<Rightarrow> int \<Rightarrow> (int \<times> int \<times> int) list option \<Rightarrow> string option \<Rightarrow> string list option
     \<Rightarrow> PeerIdentity option \<Rightarrow> rat \<Rightarrow> Daemon \<Rightarrow> Daemon \<times> (string \<times> TransferReservation list) response" where
  "plan_transfer token promotions schedule session_id total_bytes ranges job_id buffer_ids peer now d =
     (case normalize_transfer_ranges ranges of
        Inl e \<Rightarrow> (d, Refused (error_text e))
      | Inr normalized \<Rightarrow>
          if opt_holds (\<lambda>rs. sum_list (map (\<lambda>(s, t, n). n) rs) \<noteq> total_bytes) normalized
          then (d, Refused ''range bytes must match total_bytes'')
          else let d1 = reap_and_refresh token now promotions d
               in case map_of (d_sessions d1) session_id of
                    None \<Rightarrow> (d1, Refused ''unknown session'')
                  | Some session \<Rightarrow>
                      if \<not> ss_active session then (d1, Refused ''unknown session'')
                      else case validate_transfer_buffers buffer_ids job_id session_id peer d1 of
                             Inl e \<Rightarrow> (d1, Refused (error_text e))
                           | Inr (bs, owner_job) \<Rightarrow>
                               guarded (case job_id of
                                   Some j \<Rightarrow> if bs = [] then validate_peer_owns_job j peer d1 else Inr ()
                                 | None \<Rightarrow> Inr ()) d1
                                 (case schedule d1 session (or_else owner_job job_id) of
                                    Inl e \<Rightarrow> (d1, Refused (error_text e))
                                  | Inr p \<Rightarrow>
                                      (let (d2, rs) = register_planned_transfer token session
                                             (p\<lparr>pt_job_id := or_else owner_job job_id, pt_buffer_ids := bs,
                                                pt_total_bytes := total_bytes\<rparr>) peer now d1
                                       in (d2, Accepted (pt_transfer_id p, rs)))))"

section \<open>Using a plan\<close>

text \<open>An expired plan is marked so in its admission record.\<close>

definition validate_transfer_admission ::
  "string \<Rightarrow> string option \<Rightarrow> rat \<Rightarrow> Daemon \<Rightarrow> Daemon \<times> string option" where
  "validate_transfer_admission t lease_id now d =
     (case map_of (d_admissions d) t of
        None \<Rightarrow> (d, Some ''transfer admission state is unavailable'')
      | Some admission \<Rightarrow>
          (let state = vget admission ''state'' VNone
           in if state = VStr ''delayed'' then (d, Some ''transfer admission is delayed'')
              else if state = VStr ''expired'' then (d, Some ''transfer plan expired'')
              else if state = VStr ''canceled'' then (d, Some ''transfer admission is canceled'')
              else if state = VStr ''failed'' then (d, Some ''transfer admission failed'')
              else if opt_holds (\<lambda>e. now > e) (map_of (d_plan_expirations d) t)
              then (d\<lparr>d_admissions := AList.update t (AList.update ''expired_at'' (VFloat now)
                       (AList.update ''state'' (VStr ''expired'') admission)) (d_admissions d)\<rparr>,
                    Some ''transfer plan expired'')
              else case lease_id of
                     None \<Rightarrow> (d, None)
                   | Some l \<Rightarrow>
                       (case map_of (d_lease_plan_generations d) l of
                          None \<Rightarrow> (d, Some ''lease plan generation is unavailable'')
                        | Some g \<Rightarrow> if map_of (d_plan_generations d) t \<noteq> Some g
                                    then (d, Some ''stale execution plan'') else (d, None))))"

definition intent_requires_execution_evidence :: "string \<Rightarrow> Daemon \<Rightarrow> bool" where
  "intent_requires_execution_evidence t d =
     opt_holds (\<lambda>i. map_of (d_transfer_intents d) i \<noteq> None \<or> map_of (d_archived_intents d) i \<noteq> None)
       (or_else (Option.bind (map_of (d_plan_requests d) t) pq_intent_id)
         (Option.bind (map_of (d_receipt_archive d) t) ta_intent_id))"

definition status_update_blocked_reason ::
  "string \<Rightarrow> TransferStatusState \<Rightarrow> rat \<Rightarrow> Daemon \<Rightarrow> Daemon \<times> string option" where
  "status_update_blocked_reason t requested now d =
     (if requested \<notin> {RUNNING, COMPLETE} then (d, None)
      else case validate_transfer_admission t None now d of
             (d1, Some e) \<Rightarrow> (d1, Some e)
           | (d1, None) \<Rightarrow>
               if \<not> intent_requires_execution_evidence t d1 then (d1, None)
               else if opt_holds (\<lambda>k. map_of (d_execution_tickets d1) k \<noteq> None) (map_of (d_transfer_tickets d1) t)
               then (d1, None)
               else (d1, Some ''intent transfer status update requires daemon-issued execution ticket''))"

section \<open>Validating a lease\<close>

definition check_lease_buffer :: "LeaseToken \<Rightarrow> PeerIdentity option \<Rightarrow> Daemon \<Rightarrow> string \<Rightarrow> unit result" where
  "check_lease_buffer lease peer d b =
     (case map_of (d_buffers d) b of
        None \<Rightarrow> Inl (ValueError ''unknown buffer'')
      | Some buffer \<Rightarrow>
          raise_if (opt_holds (\<lambda>j. br_job_id buffer \<noteq> j) (lt_job_id lease))
            (ValueError ''lease buffer owner mismatch'') (validate_peer_owns_buffer b peer d))"

text \<open>The checks of \<open>validate_lease\<close> before it looks at the clock.\<close>

definition check_lease_claim ::
  "LeaseToken \<Rightarrow> string \<Rightarrow> string option \<Rightarrow> int option \<Rightarrow> string option \<Rightarrow> string list option
     \<Rightarrow> PeerIdentity option \<Rightarrow> Daemon \<Rightarrow> unit result" where
  "check_lease_claim lease token session_id relay job_id buffer_ids peer d =
     raise_if (lt_token lease \<noteq> token) (ValueError ''invalid lease token'') (
     raise_if (opt_holds (\<lambda>s. lt_session_id lease \<noteq> s) session_id) (ValueError ''lease session mismatch'') (
     raise_if (opt_holds (\<lambda>g. lt_relay_gpu lease \<noteq> g) relay) (ValueError ''lease relay mismatch'') (
     raise_if (opt_holds (\<lambda>j. lt_job_id lease \<noteq> Some j) job_id) (ValueError ''lease job mismatch'') (
     rbind (case or_else (lt_job_id lease) job_id of None \<Rightarrow> Inr () | Some j \<Rightarrow> validate_peer_owns_job j peer d) (\<lambda>_.
     case buffer_ids of
       None \<Rightarrow> Inr ()
     | Some bs \<Rightarrow> raise_if (bs \<noteq> lt_buffer_ids lease) (ValueError ''lease buffer mismatch'')
                    (rcheck (check_lease_buffer lease peer d) bs))))))"

definition validate_lease ::
  "string \<Rightarrow> string \<Rightarrow> string option \<Rightarrow> int option \<Rightarrow> string option \<Rightarrow> string list option
     \<Rightarrow> PeerIdentity option \<Rightarrow> rat \<Rightarrow> Daemon \<Rightarrow> Daemon \<times> LeaseToken response" where
  "validate_lease lease_id token session_id relay job_id buffer_ids peer now d =
     (let d1 = fst (reap_stale_sessions now d)
      in case map_of (d_lease_tokens d1) lease_id of
           None \<Rightarrow> (d1, Refused ''unknown lease'')
         | Some lease \<Rightarrow>
             guarded (check_lease_claim lease token session_id relay job_id buffer_ids peer d1) d1
               (if lt_expires_at lease \<noteq> 0 \<and> now > lt_expires_at lease
                then (release_expired_lease now (lt_lease_id lease) d1, Refused ''lease expired'')
                else if map_of (d_reservations d1) (lt_lease_id lease) = None
                then (d1, Refused ''lease is not active'')
                else case map_of (d_reservation_transfers d1) (lt_lease_id lease) of
                       None \<Rightarrow> (d1, Accepted lease)
                     | Some t \<Rightarrow>
                         if opt_holds (\<lambda>k. now > et_expires_at k)
                              (Option.bind (map_of (d_transfer_tickets d1) t) (map_of (d_execution_tickets d1)))
                         then (d1, Refused ''execution ticket expired'')
                         else case validate_transfer_admission t (Some (lt_lease_id lease)) now d1 of
                                (d2, Some e) \<Rightarrow> (d2, Refused e)
                              | (d2, None) \<Rightarrow>
                                  if opt_holds (\<lambda>s. terminal (ts_state s)) (map_of (d_statuses d2) t)
                                  then (d2, Refused ''transfer is terminal'')
                                  else (d2, Accepted lease)))"

end
