(* ===== verification/Daemon_Invariant.thy ===== *)
theory Daemon_Invariant
  imports Daemon_Close Daemon_Planning
begin

text \<open>
  The invariant of the node daemon and that every operation keeps it: the ledger of relay chunks
  (\<open>Daemon_Ledger\<close>) and the references between the tables of sessions, jobs and buffers.
\<close>

section \<open>References between tables\<close>

definition tables_ok :: "Daemon \<Rightarrow> bool" where
  "tables_ok d =
     (dict_wf (d_jobs d) \<and> dict_wf (d_buffers d) \<and>
      (\<forall>i j s. map_of (d_jobs d) i = Some j \<longrightarrow> ji_session_id j = Some s \<longrightarrow> map_of (d_sessions d) s \<noteq> None) \<and>
      (\<forall>i b. map_of (d_buffers d) i = Some b \<longrightarrow> map_of (d_jobs d) (br_job_id b) \<noteq> None))"

definition daemon_ok :: "Daemon \<Rightarrow> bool" where
  "daemon_ok d = (ledger_ok Map.empty d \<and> tables_ok d)"

text \<open>What \<open>tables_ok\<close> depends on.\<close>

definition tables :: "Daemon \<Rightarrow> (string, JobIdentity) dict \<times> (string, BufferRegistration) dict \<times> (string \<Rightarrow> bool)" where
  "tables d = (d_jobs d, d_buffers d, \<lambda>i. map_of (d_sessions d) i = None)"

lemma tables_ok_cong:
  assumes "tables d = tables d'"
  shows "tables_ok d = tables_ok d'"
proof -
  have "d_jobs d = d_jobs d'" "d_buffers d = d_buffers d'"
    "\<And>i. (map_of (d_sessions d) i = None) = (map_of (d_sessions d') i = None)"
    using assms by (auto simp: tables_def fun_eq_iff)
  then show ?thesis by (simp add: tables_ok_def)
qed

lemma tables_core: "core d = core d' \<Longrightarrow> tables d = tables d'"
  by (simp add: core_def tables_def)

lemma tables_drop [simp]: "tables (drop_active_reservation_state k r d) = tables d"
  by (simp add: tables_def drop_active_reservation_state_def)

lemma core_release_cases:
  obtains "map_of (d_reservations d) k = None" "core (fst (release_reservation k f r m now d)) = core d"
  | res where "map_of (d_reservations d) k = Some res"
      "core (fst (release_reservation k f r m now d)) = core (drop_active_reservation_state k res d)"
  using core_release [of k f r m "now" d] by (cases "map_of (d_reservations d) k") auto

lemma tables_release [simp]: "tables (fst (release_reservation k f r m now d)) = tables d"
  by (rule core_release_cases [of d k f r m "now"]) (auto dest: tables_core)

lemma tables_release_and_count [simp]: "tables (fst (release_and_count k f r m now d)) = tables d"
  using tables_core [OF core_release_and_count] by simp

lemma tables_release_all [simp]: "tables (fst (release_all ks f r m now d)) = tables d"
  by (induction ks arbitrary: d) (simp_all add: release_all_Cons del: release_all.simps(2))

lemma tables_release_expired [simp]: "tables (release_expired_lease now i d) = tables d"
proof -
  have "tables (d\<lparr>d_lease_tokens := x\<rparr>) = tables d" for d x by (simp add: tables_def)
  then show ?thesis
    using tables_release [of i CANCELED "Some ''lease_expired''" True "now" d]
    by (simp add: release_expired_lease_def case_prod_beta Let_def del: tables_release)
qed

lemma tables_reap_leases [simp]: "tables (fst (reap_expired_leases now d)) = tables d"
  by (simp add: reap_expired_leases_def) (rule fold_same, simp)

section \<open>Shrinking reservations\<close>

text \<open>Releasing, reaping and closing only remove reservations.\<close>

definition shrinks :: "Daemon \<Rightarrow> Daemon \<Rightarrow> bool" where
  "shrinks d d' = (\<forall>k r. map_of (d_reservations d') k = Some r \<longrightarrow> map_of (d_reservations d) k = Some r)"

lemma shrinks_refl [simp]: "shrinks d d"
  by (simp add: shrinks_def)

lemma shrinks_trans [trans]: "shrinks a b \<Longrightarrow> shrinks b c \<Longrightarrow> shrinks a c"
  by (simp add: shrinks_def)

lemma shrinks_fold: "(\<And>x d. shrinks d (f x d)) \<Longrightarrow> shrinks d (fold f xs d)"
  by (induction xs arbitrary: d) (auto intro: shrinks_trans)

lemma shrinks_core: "core d = core d' \<Longrightarrow> shrinks d d'"
  by (simp add: shrinks_def core_def)

lemma shrinks_release: "shrinks d (fst (release_reservation k f r m now d))"
  by (simp add: shrinks_def map_of_reservations_release)

lemma shrinks_release_all: "shrinks d (fst (release_all ks f r m now d))"
  by (simp add: shrinks_def map_of_reservations_release_all)

lemma shrinks_release_expired: "shrinks d (release_expired_lease now i d)"
proof -
  have "shrinks d (e\<lparr>d_lease_tokens := x\<rparr>)" if "shrinks d e" for e x
    using that by (simp add: shrinks_def)
  then show ?thesis
    using shrinks_release [of d i CANCELED "Some ''lease_expired''" True "now"]
    by (simp add: release_expired_lease_def case_prod_beta Let_def)
qed

lemma shrinks_reap_leases: "shrinks d (fst (reap_expired_leases now d))"
  by (simp add: reap_expired_leases_def shrinks_fold shrinks_release_expired)

lemma fresh_shrinks: "shrinks d d' \<Longrightarrow> map_of (d_reservations d) k = None \<Longrightarrow> map_of (d_reservations d') k = None"
  unfolding shrinks_def by (metis not_None_eq)

section \<open>Releases\<close>

lemma daemon_ok_core:
  assumes "core d = core d'"
  shows "daemon_ok d = daemon_ok d'"
  unfolding daemon_ok_def ledger_ok_core [OF assms] tables_ok_cong [OF tables_core [OF assms]] ..

lemma daemon_ok_release: "daemon_ok d \<Longrightarrow> daemon_ok (fst (release_reservation k f r m now d))"
  using tables_ok_cong [OF tables_release] by (simp add: daemon_ok_def ledger_ok_release)

lemma daemon_ok_release_all: "daemon_ok d \<Longrightarrow> daemon_ok (fst (release_all ks f r m now d))"
  using tables_ok_cong [OF tables_release_all] by (simp add: daemon_ok_def ledger_ok_release_all)

lemma daemon_ok_reap_leases: "daemon_ok d \<Longrightarrow> daemon_ok (fst (reap_expired_leases now d))"
  using tables_ok_cong [OF tables_reap_leases] by (simp add: daemon_ok_def ledger_ok_reap)

section \<open>Removing the jobs and buffers of a session\<close>

definition session_jobs :: "string \<Rightarrow> Daemon \<Rightarrow> string list" where
  "session_jobs i d = map fst (filter (\<lambda>(k, j). ji_session_id j = Some i) (d_jobs d))"

lemma dict_entry: "dict_wf d \<Longrightarrow> map_of d k = Some v \<longleftrightarrow> (k, v) \<in> set d"
  by (simp add: dict_wf_def map_of_eq_Some_iff)

lemma in_session_jobs:
  assumes "dict_wf (d_jobs d)"
  shows "k \<in> set (session_jobs i d) \<longleftrightarrow> (\<exists>j. map_of (d_jobs d) k = Some j \<and> ji_session_id j = Some i)"
  unfolding dict_entry [OF assms] session_jobs_def set_map set_filter by (auto intro!: rev_image_eqI)

lemma fold_delete_jobs:
  defines "f \<equiv> (\<lambda>i d. d\<lparr>d_jobs := AList.delete i (d_jobs d), d_job_peers := AList.delete i (d_job_peers d)\<rparr>)"
  shows "map_of (d_jobs (fold f is d)) j = (if j \<in> set is then None else map_of (d_jobs d) j)"
    and "d_buffers (fold f is d) = d_buffers d"
    and "dict_wf (d_jobs d) \<Longrightarrow> dict_wf (d_jobs (fold f is d))"
  unfolding f_def
  by (rule fold_delete_field, simp) (rule fold_same, simp, rule fold_keeps [where P = "\<lambda>d. dict_wf (d_jobs d)"], auto)

lemma fold_delete_buffers:
  defines "f \<equiv> (\<lambda>i d. d\<lparr>d_buffers := AList.delete i (d_buffers d)\<rparr>)"
  shows "map_of (d_buffers (fold f is d)) j = (if j \<in> set is then None else map_of (d_buffers d) j)"
    and "d_jobs (fold f is d) = d_jobs d"
    and "dict_wf (d_buffers d) \<Longrightarrow> dict_wf (d_buffers (fold f is d))"
  unfolding f_def
  by (rule fold_delete_field, simp) (rule fold_same, simp, rule fold_keeps [where P = "\<lambda>d. dict_wf (d_buffers d)"], auto)

lemma set_set_tuple [simp]: "set (set_tuple xs) = set xs"
  by (simp add: set_tuple_def)

lemma owned_ids:
  assumes "identities d' = identities d"
  shows "map ow_target_id (ow_jobs (session_owned_cleanup_targets i d')) = sort (session_jobs i d)"
    and "set (map ow_target_id (ow_buffers (session_owned_cleanup_targets i d'))) =
      fst ` {p \<in> set (d_buffers d). br_job_id (snd p) \<in> set (session_jobs i d)}"
proof -
  have same: "d_jobs d' = d_jobs d" "d_buffers d' = d_buffers d"
    using assms by (simp_all add: identities_def)
  show "map ow_target_id (ow_jobs (session_owned_cleanup_targets i d')) = sort (session_jobs i d)"
    by (simp add: session_owned_cleanup_targets_def Let_def session_jobs_def same comp_def)
  show "set (map ow_target_id (ow_buffers (session_owned_cleanup_targets i d'))) =
      fst ` {p \<in> set (d_buffers d). br_job_id (snd p) \<in> set (session_jobs i d)}"
    by (auto simp: session_owned_cleanup_targets_def Let_def session_jobs_def same image_iff split: prod.splits)
       blast+
qed

lemma remove_facts:
  fixes i reason "now"
  assumes wf: "dict_wf (d_jobs d)" "dict_wf (d_buffers d)" and same: "identities d' = identities d"
  defines "e \<equiv> fst (remove_session_jobs_and_buffers i reason (session_owned_cleanup_targets i d') now d)"
  shows "map_of (d_jobs e) j = (if j \<in> set (session_jobs i d) then None else map_of (d_jobs d) j)"
    and "map_of (d_buffers e) b = (case map_of (d_buffers d) b of None \<Rightarrow> None
      | Some x \<Rightarrow> if br_job_id x \<in> set (session_jobs i d) then None else Some x)"
    and "dict_wf (d_jobs e)" "dict_wf (d_buffers e)"
proof -
  define os where "os = session_owned_cleanup_targets i d'"
  define d1 where "d1 = fold (archive_owned ''job'' reason now) (ow_jobs os) d"
  define d2 where "d2 = fold (archive_owned ''buffer'' reason now) (ow_buffers os) d1"
  define js where "js = (if ow_jobs os = []
     then map fst (filter (\<lambda>(k, j). ji_session_id j = Some i) (d_jobs d2)) else map ow_target_id (ow_jobs os))"
  define d3 where "d3 = fold (\<lambda>i d. d\<lparr>d_jobs := AList.delete i (d_jobs d),
     d_job_peers := AList.delete i (d_job_peers d)\<rparr>) (set_tuple js) d2"
  define bs where "bs = (if ow_buffers os = []
     then map fst (filter (\<lambda>(i, b). br_job_id b \<in> set js) (d_buffers d3)) else map ow_target_id (ow_buffers os))"
  define d4 where "d4 = fold (\<lambda>i d. d\<lparr>d_buffers := AList.delete i (d_buffers d)\<rparr>) (set_tuple bs) d3"
  have e: "e = d4\<lparr>d_session_peers := AList.delete i (d_session_peers d4)\<rparr>"
    unfolding e_def remove_session_jobs_and_buffers_def Let_def d4_def bs_def d3_def js_def d2_def d1_def os_def by simp
  have c2: "core d2 = core d" by (simp add: d2_def d1_def)
  note same2 = coreD(5) [OF c2] coreD(7) [OF c2]
  have js: "set js = set (session_jobs i d)"
    using owned_ids(1) [OF same, of i, folded os_def]
    by (auto simp: js_def same2 session_jobs_def simp flip: set_map)
  have b3: "d_buffers d3 = d_buffers d" by (simp add: d3_def fold_delete_jobs same2)
  have bs: "set bs = fst ` {p \<in> set (d_buffers d). br_job_id (snd p) \<in> set (session_jobs i d)}"
    using owned_ids(2) [OF same, of i, folded os_def]
    by (auto simp: bs_def b3 js image_iff split: prod.splits)
  then have "b \<in> set bs \<longleftrightarrow> (\<exists>x. map_of (d_buffers d) b = Some x \<and> br_job_id x \<in> set (session_jobs i d))"
    unfolding dict_entry [OF wf(2)] by (auto intro: rev_image_eqI)
  then show "map_of (d_buffers e) b = (case map_of (d_buffers d) b of None \<Rightarrow> None
      | Some x \<Rightarrow> if br_job_id x \<in> set (session_jobs i d) then None else Some x)"
    by (auto simp: e d4_def fold_delete_buffers b3 split: option.splits)
  show "map_of (d_jobs e) j = (if j \<in> set (session_jobs i d) then None else map_of (d_jobs d) j)"
    by (simp add: e d4_def fold_delete_buffers d3_def fold_delete_jobs js same2)
  show "dict_wf (d_jobs e)"
    using wf(1) by (simp add: e d4_def fold_delete_buffers d3_def fold_delete_jobs same2)
  show "dict_wf (d_buffers e)"
    using wf(2) by (simp add: e d4_def fold_delete_buffers b3)
qed

section \<open>Closing a session\<close>

text \<open>The targets a caller may hand over are those of a state with the same jobs and buffers.\<close>

definition owned_for :: "string \<Rightarrow> OwnedTargets option \<Rightarrow> Daemon \<Rightarrow> bool" where
  "owned_for i owned d = (owned = None \<or>
     (\<exists>d'. owned = Some (session_owned_cleanup_targets i d') \<and> identities d' = identities d))"

lemma close_facts:
  fixes reason "now"
  assumes ok: "daemon_ok d" and s: "map_of (d_sessions d) i = Some s" and owned: "owned_for i owned d"
  defines "e \<equiv> fst (close_session_locked i reason owned now d)"
  shows "daemon_ok e"
    and "d_sessions e = AList.delete i (d_sessions d)"
    and "map_of (d_reservations e) k = (case map_of (d_reservations d) k of None \<Rightarrow> None
      | Some r \<Rightarrow> if rv_session_id r = i then None else Some r)"
    and "map_of (d_jobs e) j = (if j \<in> set (session_jobs i d) then None else map_of (d_jobs d) j)"
    and "map_of (d_buffers e) b = (case map_of (d_buffers d) b of None \<Rightarrow> None
      | Some x \<Rightarrow> if br_job_id x \<in> set (session_jobs i d) then None else Some x)"
proof -
  define c where "c = closing i reason now s d"
  have led: "ledger_ok Map.empty d" and tab: "tables_ok d" using ok by (simp_all add: daemon_ok_def)
  note cf = closing_facts [OF led s, of reason "now", folded c_def]
  obtain d' where d': "identities d' = identities d" and e: "e = fst (remove_session_jobs_and_buffers i reason
      (session_owned_cleanup_targets i d') now c)"
  proof (cases owned)
    case None
    have "identities (d\<lparr>d_sessions := AList.delete i (d_sessions d)\<rparr>) = identities d"
      by (simp add: identities_def)
    with that show thesis unfolding e_def close_session_locked_eq [OF s] c_def None by simp
  next
    case (Some t)
    with owned obtain d' where "t = session_owned_cleanup_targets i d'" "identities d' = identities d"
      by (auto simp: owned_for_def)
    with that show thesis unfolding e_def close_session_locked_eq [OF s] c_def Some by simp
  qed
  have same: "identities d' = identities c" using d' cf(4) by simp
  have jobs: "d_jobs c = d_jobs d" and buffers: "d_buffers c = d_buffers d"
    using cf(4) by (simp_all add: identities_def)
  have "dict_wf (d_jobs c)" "dict_wf (d_buffers c)" using tab jobs buffers by (simp_all add: tables_ok_def)
  note rf = remove_facts [OF this same, of i reason "now", folded e]
  have sj: "session_jobs i c = session_jobs i d" by (simp add: session_jobs_def jobs)
  have "ledger e = ledger c" by (simp add: e)
  then have led_e: "ledger_ok Map.empty e" using cf(1) ledger_ok_ledger by blast
  have le: "d_sessions e = d_sessions c" "d_reservations e = d_reservations c"
    using \<open>ledger e = ledger c\<close> by (simp_all add: ledger_def)
  show sess: "d_sessions e = AList.delete i (d_sessions d)" using le cf(2) by simp
  show "map_of (d_reservations e) k = (case map_of (d_reservations d) k of None \<Rightarrow> None
      | Some r \<Rightarrow> if rv_session_id r = i then None else Some r)" using le cf(3) by simp
  show je: "map_of (d_jobs e) j = (if j \<in> set (session_jobs i d) then None else map_of (d_jobs d) j)" for j
    using rf(1) by (simp add: jobs sj)
  show be: "map_of (d_buffers e) b = (case map_of (d_buffers d) b of None \<Rightarrow> None
      | Some x \<Rightarrow> if br_job_id x \<in> set (session_jobs i d) then None else Some x)" for b
    unfolding rf(2) buffers sj ..
  have wfj: "dict_wf (d_jobs d)" using tab by (simp add: tables_ok_def)
  have "map_of (d_sessions e) t \<noteq> None" if "map_of (d_jobs e) j = Some x" "ji_session_id x = Some t" for j x t
    using that tab in_session_jobs [OF wfj, of j i]
    by (auto simp: je sess tables_ok_def split: if_splits)
  moreover have "map_of (d_jobs e) (br_job_id x) \<noteq> None" if "map_of (d_buffers e) b = Some x" for b x
    using that tab by (auto simp: je be tables_ok_def split: if_splits option.splits)
  ultimately have "tables_ok e" using rf(3,4) by (auto simp: tables_ok_def)
  with led_e show "daemon_ok e" by (simp add: daemon_ok_def)
qed

lemma daemon_ok_close:
  assumes "daemon_ok d" and "owned_for i owned d"
  shows "daemon_ok (fst (close_session_locked i reason owned now d))"
  using assms close_facts(1) [of d i _ owned reason "now"]
  by (cases "map_of (d_sessions d) i") (auto simp: close_session_locked_def)

lemma shrinks_close:
  assumes "daemon_ok d" and "owned_for i owned d"
  shows "shrinks d (fst (close_session_locked i reason owned now d))"
proof (cases "map_of (d_sessions d) i")
  case None
  then show ?thesis by (simp add: close_session_locked_def)
next
  case (Some s)
  show ?thesis
    unfolding shrinks_def close_facts(3) [OF assms(1) Some assms(2)] by (auto split: option.splits if_splits)
qed

lemma owned_for_None [simp]: "owned_for i None d"
  by (simp add: owned_for_def)

lemma owned_for_here [simp]: "owned_for i (Some (session_owned_cleanup_targets i d)) d"
  by (auto simp: owned_for_def)

text \<open>A loop whose steps keep the invariant and shrink the reservations does both.\<close>

lemma fold_ok_shrinks:
  assumes "\<And>x d. daemon_ok d \<Longrightarrow> daemon_ok (f x d) \<and> shrinks d (f x d)" and "daemon_ok d"
  shows "daemon_ok (fold f xs d) \<and> shrinks d (fold f xs d)"
  using assms(2)
proof (induction xs arbitrary: d)
  case Nil
  then show ?case by simp
next
  case (Cons x xs)
  then show ?case using assms(1) [of d x] shrinks_trans by fastforce
qed

lemma reap_stale_ok:
  "daemon_ok d \<Longrightarrow> daemon_ok (fst (reap_stale_sessions now d)) \<and> shrinks d (fst (reap_stale_sessions now d))"
  by (simp add: reap_stale_sessions_def fold_ok_shrinks daemon_ok_close shrinks_close)

lemma reap_leases_ok:
  "daemon_ok d \<Longrightarrow> daemon_ok (fst (reap_expired_leases now d)) \<and> shrinks d (fst (reap_expired_leases now d))"
  by (simp add: daemon_ok_reap_leases shrinks_reap_leases)

lemma close_all_Cons:
  "fst (close_all (i # is) reason now d) =
   fst (close_all is reason now (fst (close_session_locked i reason None now d)))"
  by (simp add: case_prod_beta Let_def)

lemma close_all_ok:
  "daemon_ok d \<Longrightarrow> daemon_ok (fst (close_all is reason now d)) \<and> shrinks d (fst (close_all is reason now d))"
proof (induction "is" arbitrary: d)
  case Nil
  then show ?case by simp
next
  case (Cons i "is")
  then show ?case
    using shrinks_close [of d i None reason "now"] daemon_ok_close [of d i None reason "now"] shrinks_trans
    by (simp only: close_all_Cons owned_for_None) blast
qed

lemma cleanup_connection_ok:
  "daemon_ok d \<Longrightarrow> daemon_ok (fst (cleanup_connection_scoped_sessions peer c reason now d))"
  unfolding cleanup_connection_scoped_sessions_def Let_def case_prod_beta
  by (cases "peer = None") (simp_all add: close_all_ok)

end
