(* ===== verification/Daemon_Commit.thy ===== *)
theory Daemon_Commit
  imports Daemon_Invariant
begin

text \<open>
  Admission keeps the ledger within its limits: what the daemon's admission check promises about
  the leases it lets through, and that committing them, promoting delayed transfers, registering
  planned transfers, sessions, jobs and buffers, and the cleanup handlers keep the invariant.
\<close>

section \<open>Leases that may be committed\<close>

text \<open>
  What the scheduler promises of the leases it answers with: one per relay, under distinct ids, for
  the session.  \<open>granted_answer_ok\<close> in \<open>Daemon_Leases\<close> derives it for leases granted on a plan over a
  profile whose relays are unique, as the daemon checks before it keeps a profile.
\<close>

definition answer_ok :: "string \<Rightarrow> PlannerLease list \<Rightarrow> bool" where
  "answer_ok i ls =
     (distinct (map pl_lease_id ls) \<and> distinct (map pl_relay_device ls) \<and>
      list_all (\<lambda>l. pl_session_id l = i \<and> 0 \<le> pl_chunk_limit l) ls)"

definition leases_fresh :: "PlannerLease list \<Rightarrow> Daemon \<Rightarrow> bool" where
  "leases_fresh ls d = list_all (\<lambda>l. map_of (d_reservations d) (pl_lease_id l) = None) ls"

definition leases_admissible :: "string \<Rightarrow> PlannerLease list \<Rightarrow> Daemon \<Rightarrow> bool" where
  "leases_admissible i ls d =
     (distinct (map pl_lease_id ls) \<and> leases_fresh ls d \<and>
      list_all (\<lambda>l. pl_session_id l = i \<and> 0 \<le> pl_chunk_limit l) ls \<and>
      opt_holds (\<lambda>s. ss_active_chunks s + lease_chunks ls \<le> max 0 (ss_max_inflight_chunks s)) (map_of (d_sessions d) i) \<and>
      (\<forall>g q. map_of (d_relay_quotas d) g = Some q \<longrightarrow>
         rq_active_chunks q + relay_chunks g ls \<le> max 0 (rq_max_inflight_chunks q)))"

lemma lease_chunks_Cons [simp]: "lease_chunks (l # ls) = pl_chunk_limit l + lease_chunks ls"
  by (simp add: lease_chunks_def)

lemma lease_chunks_Nil [simp]: "lease_chunks [] = 0"
  by (simp add: lease_chunks_def)

lemma relay_chunks_Nil [simp]: "relay_chunks g [] = 0"
  by (simp add: relay_chunks_def)

lemma relay_chunks_Cons:
  "relay_chunks g (l # ls) = (if pl_relay_device l = g then pl_chunk_limit l else 0) + relay_chunks g ls"
  by (simp add: relay_chunks_def)

lemma lease_chunks_nonneg: "list_all (\<lambda>l. pl_session_id l = i \<and> 0 \<le> pl_chunk_limit l) ls \<Longrightarrow> 0 \<le> lease_chunks ls"
  by (induction ls) auto

lemma relay_chunks_nonneg: "list_all (\<lambda>l. pl_session_id l = i \<and> 0 \<le> pl_chunk_limit l) ls \<Longrightarrow> 0 \<le> relay_chunks g ls"
  by (induction ls) (auto simp: relay_chunks_Cons)

lemma relay_chunks_single:
  assumes "distinct (map pl_relay_device ls)"
  shows "relay_chunks g ls = (case find (\<lambda>l. pl_relay_device l = g) ls of None \<Rightarrow> 0 | Some l \<Rightarrow> pl_chunk_limit l)"
  using assms
proof (induction ls)
  case Nil
  then show ?case by simp
next
  case (Cons l ls)
  have "find (\<lambda>k. pl_relay_device k = pl_relay_device l) ls = None"
    using Cons.prems by (auto simp: find_None_iff image_iff)
  with Cons show ?case by (auto simp: relay_chunks_Cons)
qed

section \<open>The admission check\<close>

lemma lease_blocked_reason_None:
  "lease_blocked_reason rb s d ls = None \<longleftrightarrow>
     list_all (\<lambda>l. pl_relay_device l \<in> set (ss_relay_gpus s) \<and> rb l = None \<and>
       opt_holds (\<lambda>q. can_reserve q (pl_chunk_limit l)) (map_of (d_relay_quotas d) (pl_relay_device l))) ls"
  by (induction ls) (auto split: option.splits)

lemma admission_admissible:
  assumes ok: "ledger_ok Map.empty d" and s: "map_of (d_sessions d) i = Some s"
    and answer: "answer_ok i ls" and fresh: "leases_fresh ls d"
    and free: "relay_admission_blocked_reason f rb s ls d = None"
  shows "leases_admissible i ls d"
proof -
  have total: "ss_active_chunks s + lease_chunks ls \<le> ss_max_inflight_chunks s"
    and each: "list_all (\<lambda>l. opt_holds (\<lambda>q. can_reserve q (pl_chunk_limit l))
      (map_of (d_relay_quotas d) (pl_relay_device l))) ls"
    using free lease_blocked_reason_None [of rb s d ls]
    by (auto simp: relay_admission_blocked_reason_def list_all_iff split: if_splits option.splits)
  have "rq_active_chunks q + relay_chunks g ls \<le> max 0 (rq_max_inflight_chunks q)"
    if q: "map_of (d_relay_quotas d) g = Some q" for g q
  proof (cases "find (\<lambda>l. pl_relay_device l = g) ls")
    case None
    then have "relay_chunks g ls = 0" using answer by (simp add: answer_ok_def relay_chunks_single)
    moreover have "rq_active_chunks q \<le> max 0 (rq_max_inflight_chunks q)"
      using ok q by (simp add: ledger_ok_def ledger_balanced_def)
    ultimately show ?thesis by simp
  next
    case (Some l)
    then have "l \<in> set ls" "pl_relay_device l = g" by (auto simp: find_Some_iff)
    moreover have "relay_chunks g ls = pl_chunk_limit l"
      using answer Some by (simp add: answer_ok_def relay_chunks_single)
    ultimately show ?thesis using each q by (auto simp: list_all_iff can_reserve_def)
  qed
  with total s answer fresh show ?thesis by (simp add: leases_admissible_def answer_ok_def)
qed

section \<open>Committing\<close>

lemma commit_lease_fields:
  "d_reservations (commit_lease token i t bs l d) = AList.update (pl_lease_id l) (reservation_of l) (d_reservations d)"
  "d_sessions (commit_lease token i t bs l d) = modify i (add_session_chunks (pl_chunk_limit l)) (d_sessions d)"
  "d_relay_quotas (commit_lease token i t bs l d) =
     modify (pl_relay_device l) (add_quota_chunks (pl_chunk_limit l)) (d_relay_quotas d)"
  by (simp_all add: commit_lease_def reservation_of_def Let_def)

lemma commit_lease_tokens:
  "(map_of (d_lease_tokens (commit_lease token i t bs l d)) k = None) =
   (k \<noteq> pl_lease_id l \<and> map_of (d_lease_tokens d) k = None)"
  "dict_wf (d_lease_tokens d) \<Longrightarrow> dict_wf (d_lease_tokens (commit_lease token i t bs l d))"
  by (simp_all add: commit_lease_def Let_def)

lemma tables_commit_lease [simp]: "tables (commit_lease token i t bs l d) = tables d"
  by (simp add: tables_def commit_lease_def Let_def)

lemma ledger_ok_commit_lease:
  assumes ok: "ledger_ok Map.empty d" and adm: "leases_admissible i (l # ls) d"
  shows "ledger_ok Map.empty (commit_lease token i t bs l d)"
proof -
  let ?r = "reservation_of l" and ?c = "commit_lease token i t bs l d"
  have l: "pl_session_id l = i" "0 \<le> pl_chunk_limit l" "map_of (d_reservations d) (pl_lease_id l) = None"
    and nonneg: "list_all (\<lambda>l. pl_session_id l = i \<and> 0 \<le> pl_chunk_limit l) ls"
    using adm by (auto simp: leases_admissible_def leases_fresh_def)
  obtain s where s: "map_of (d_sessions d) i = Some s"
    and sfit: "ss_active_chunks s + (pl_chunk_limit l + lease_chunks ls) \<le> max 0 (ss_max_inflight_chunks s)"
    using adm by (auto simp: leases_admissible_def opt_holds_def split: option.splits)
  have qfit: "rq_active_chunks q + pl_chunk_limit l \<le> max 0 (rq_max_inflight_chunks q)"
    if "map_of (d_relay_quotas d) (pl_relay_device l) = Some q" for q
  proof -
    have "rq_active_chunks q + relay_chunks (pl_relay_device l) (l # ls) \<le> max 0 (rq_max_inflight_chunks q)"
      using adm that unfolding leases_admissible_def by blast
    with relay_chunks_nonneg [OF nonneg, of "pl_relay_device l"] show ?thesis by (simp add: relay_chunks_Cons)
  qed
  have r [simp]: "rv_session_id ?r = i" "rv_relay_gpu ?r = pl_relay_device l" "rv_chunks ?r = pl_chunk_limit l"
    using l by (simp_all add: reservation_of_def)
  have "ledger_balanced rv_session_id ss_active_chunks ss_max_inflight_chunks (d_reservations ?c) (d_sessions ?c)"
    using session_ledger.add_balanced [of "d_reservations d" "d_sessions d" "pl_lease_id l" ?r] ok l s sfit
      lease_chunks_nonneg [OF nonneg]
    by (simp add: ledger_ok_def commit_lease_fields)
  moreover have "ledger_balanced rv_relay_gpu rq_active_chunks rq_max_inflight_chunks (d_reservations ?c) (d_relay_quotas ?c)"
    using relay_ledger.add_balanced [of "d_reservations d" "d_relay_quotas d" "pl_lease_id l" ?r] ok l qfit
    by (simp add: ledger_ok_def commit_lease_fields)
  moreover have "attached_ok Map.empty (d_sessions ?c) (d_relay_quotas ?c)"
    using ok unfolding ledger_ok_def commit_lease_fields
    by (intro attached_modify_session attached_modify_quota)
       (simp_all add: add_session_chunks_def add_quota_chunks_def)
  moreover have "\<forall>i s. map_of (d_sessions ?c) i = Some s \<longrightarrow> ss_session_id s = i"
    using ok unfolding ledger_ok_def commit_lease_fields
    by (intro session_ids_modify) (simp_all add: add_session_chunks_def)
  moreover have "nonneg_chunks (d_reservations ?c)"
    using ok l by (auto simp: ledger_ok_def nonneg_chunks_def commit_lease_fields)
  moreover have "map_of (d_sessions ?c) (rv_session_id x) \<noteq> None" if "map_of (d_reservations ?c) k = Some x" for k x
    using that ok s by (auto simp: ledger_ok_def commit_lease_fields split: if_splits)
  moreover have "map_of (d_lease_tokens ?c) k \<noteq> None \<longleftrightarrow> map_of (d_reservations ?c) k \<noteq> None" for k
    using ok by (auto simp: ledger_ok_def commit_lease_tokens commit_lease_fields)
  ultimately show ?thesis
    using ok by (simp add: ledger_ok_def commit_lease_fields commit_lease_tokens)
qed

lemma admissible_commit_lease:
  assumes "leases_admissible i (l # ls) d"
  shows "leases_admissible i ls (commit_lease token i t bs l d)"
proof -
  have "pl_lease_id l \<notin> pl_lease_id ` set ls" "leases_fresh ls d"
    using assms by (simp_all add: leases_admissible_def leases_fresh_def)
  then have "leases_fresh ls (commit_lease token i t bs l d)"
    by (auto simp: leases_fresh_def list_all_iff commit_lease_fields) (metis imageI)
  moreover have "opt_holds (\<lambda>s. ss_active_chunks s + lease_chunks ls \<le> max 0 (ss_max_inflight_chunks s))
      (map_of (d_sessions (commit_lease token i t bs l d)) i)"
    using assms
    by (auto simp: leases_admissible_def commit_lease_fields map_of_modify opt_holds_def add_session_chunks_def
        split: option.splits)
  moreover have "rq_active_chunks q + relay_chunks g ls \<le> max 0 (rq_max_inflight_chunks q)"
    if q: "map_of (d_relay_quotas (commit_lease token i t bs l d)) g = Some q" for g q
  proof -
    obtain p where p: "map_of (d_relay_quotas d) g = Some p"
      "q = (if pl_relay_device l = g then add_quota_chunks (pl_chunk_limit l) p else p)"
      using q by (auto simp: commit_lease_fields map_of_modify split: if_splits)
    have "rq_active_chunks p + relay_chunks g (l # ls) \<le> max 0 (rq_max_inflight_chunks p)"
      using assms p(1) unfolding leases_admissible_def by blast
    with p(2) show ?thesis by (auto simp: relay_chunks_Cons add_quota_chunks_def split: if_splits)
  qed
  ultimately show ?thesis using assms by (simp add: leases_admissible_def)
qed

lemma commit_leases_ok:
  "daemon_ok d \<Longrightarrow> leases_admissible i ls d \<Longrightarrow>
   daemon_ok (fst (commit_scheduler_leases token i ls t bs d))"
proof -
  have "daemon_ok d \<Longrightarrow> leases_admissible i ls d \<Longrightarrow> daemon_ok (fold (commit_lease token i t bs) ls d)"
  proof (induction ls arbitrary: d)
    case Nil
    then show ?case by simp
  next
    case (Cons l ls)
    have "tables_ok (commit_lease token i t bs l d)"
      using Cons.prems(1) tables_ok_cong [OF tables_commit_lease] by (simp add: daemon_ok_def)
    with Cons.prems have "daemon_ok (commit_lease token i t bs l d)"
      by (simp add: daemon_ok_def ledger_ok_commit_lease)
    with Cons show ?case by (simp add: admissible_commit_lease)
  qed
  then show "daemon_ok d \<Longrightarrow> leases_admissible i ls d \<Longrightarrow> ?thesis"
    by (simp add: commit_scheduler_leases_def)
qed

lemma commit_leases_reservations:
  "(map_of (d_reservations (fst (commit_scheduler_leases token i ls t bs d))) k = None) =
   (k \<notin> set (map pl_lease_id ls) \<and> map_of (d_reservations d) k = None)"
proof -
  have "(map_of (d_reservations (fold (commit_lease token i t bs) ls d)) k = None) =
     (k \<notin> set (map pl_lease_id ls) \<and> map_of (d_reservations d) k = None)"
    by (induction ls arbitrary: d) (auto simp: commit_lease_fields)
  then show ?thesis by (simp add: commit_scheduler_leases_def)
qed

end
