(* ===== verification/Daemon_Keeps.thy ===== *)
theory Daemon_Keeps
  imports Daemon_Commit
begin

text \<open>
  The remaining operations of the daemon keep the invariant: promotions and the admission refresh,
  the registration of planned transfers, sessions, jobs and buffers, the cleanup handlers and the
  validation of a lease.
\<close>

section \<open>Touching a session\<close>

lemma daemon_ok_touch [simp]: "daemon_ok d \<Longrightarrow> daemon_ok (touch_session i now d)"
proof -
  assume ok: "daemon_ok d"
  let ?f = "\<lambda>s. s\<lparr>ss_last_seen := now\<rparr>"
  have led: "ledger_ok Map.empty d" and tab: "tables_ok d" using ok by (simp_all add: daemon_ok_def)
  have "tables (touch_session i now d) = tables d" by (simp add: tables_def touch_session_def)
  with tab have "tables_ok (touch_session i now d)" using tables_ok_cong by blast
  moreover have "attached_ok Map.empty (modify i ?f (d_sessions d)) (d_relay_quotas d)"
    using led by (intro attached_modify_session) (simp_all add: ledger_ok_def)
  moreover have "\<forall>j s. map_of (modify i ?f (d_sessions d)) j = Some s \<longrightarrow> ss_session_id s = j"
    using led by (intro session_ids_modify) (simp_all add: ledger_ok_def)
  moreover have "ledger_balanced rv_session_id ss_active_chunks ss_max_inflight_chunks (d_reservations d)
      (modify i ?f (d_sessions d))"
    using led by (auto simp: ledger_ok_def ledger_balanced_def map_of_modify split: if_splits)
  ultimately show ?thesis using led by (simp add: daemon_ok_def ledger_ok_def touch_session_def)
qed

lemma reservations_touch [simp]: "d_reservations (touch_session i now d) = d_reservations d"
  by (simp add: touch_session_def)

section \<open>Promotions\<close>

definition promotions_ok :: "Promotion list \<Rightarrow> Daemon \<Rightarrow> bool" where
  "promotions_ok ps d =
     (distinct (concat (map (\<lambda>p. map pl_lease_id (pm_leases p)) ps)) \<and>
      list_all (\<lambda>p. answer_ok (pm_session_id p) (pm_leases p) \<and> leases_fresh (pm_leases p) d) ps)"

lemma leases_admissible_core:
  assumes "core d = core d'"
  shows "leases_admissible i ls d = leases_admissible i ls d'"
  using assms by (simp add: leases_admissible_def leases_fresh_def core_def)

lemma admissible_Nil:
  assumes "daemon_ok d" and "map_of (d_sessions d) i = Some s"
  shows "leases_admissible i [] d"
  using assms by (auto simp: leases_admissible_def leases_fresh_def daemon_ok_def ledger_ok_def ledger_balanced_def)

lemma core_block_records [simp]: "core (register_block_runtime_records t bp d) = core d"
  by (simp add: register_block_runtime_records_def core_def Let_def)

lemma core_more [simp]:
  "core (d\<lparr>d_plan_generations := a, d_plans := b, d_decisions := c, d_plan_expirations := e\<rparr>) = core d"
  "core (d\<lparr>d_execution_tickets := f, d_transfer_tickets := g\<rparr>) = core d"
  "core (d\<lparr>d_plan_generations := a\<rparr>) = core d"
  "core (d\<lparr>d_transfer_peers := h, d_plans := b, d_decisions := c, d_plan_requests := j,
     d_plan_expirations := e, d_admissions := k\<rparr>) = core d"
  "core (d\<lparr>d_transfer_queue := l, d_buffer_snapshots := m\<rparr>) = core d"
  "core (d\<lparr>d_quota_rejections := n\<rparr>) = core d"
  "core (d\<lparr>d_cleanup_events := x\<rparr>) = core d"
  by (simp_all add: core_def)

lemma commit_delayed_eq:
  obtains d2 e where "core d2 = core d"
    "core e = core (fst (commit_scheduler_leases token (pm_session_id p) (pm_leases p)
       (Some (pm_transfer_id p)) (pm_buffer_ids p) d2))"
    "commit_delayed_promotion token now p d = touch_session (pm_session_id p) now e"
proof -
  let ?d1 = "d\<lparr>d_plan_generations := AList.update (pm_transfer_id p)
        (dget_default (d_plan_generations d) (pm_transfer_id p) 0 + 1) (d_plan_generations d),
      d_plans := AList.update (pm_transfer_id p) (sd_plan (pm_decision p)) (d_plans d),
      d_decisions := AList.update (pm_transfer_id p) (pm_decision p) (d_decisions d),
      d_plan_expirations := AList.update (pm_transfer_id p) (pm_plan_expires_at p) (d_plan_expirations d)\<rparr>"
  let ?d2 = "drop_execution_ticket (pm_transfer_id p) ?d1"
  have "core ?d2 = core d" by simp
  moreover have "\<exists>e. core e = core (fst (commit_scheduler_leases token (pm_session_id p) (pm_leases p)
       (Some (pm_transfer_id p)) (pm_buffer_ids p) ?d2)) \<and>
      commit_delayed_promotion token now p d = touch_session (pm_session_id p) now e"
    unfolding commit_delayed_promotion_def Let_def case_prod_beta
    by (rule exI, rule conjI [OF _ refl]) (simp split: option.splits)
  ultimately show thesis using that by blast
qed

lemma commit_delayed_ok:
  assumes "daemon_ok d" and "leases_admissible (pm_session_id p) (pm_leases p) d"
  shows "daemon_ok (commit_delayed_promotion token now p d)"
    and "(map_of (d_reservations (commit_delayed_promotion token now p d)) k = None) =
      (k \<notin> set (map pl_lease_id (pm_leases p)) \<and> map_of (d_reservations d) k = None)"
proof -
  obtain d2 e where e: "core d2 = core d"
    "core e = core (fst (commit_scheduler_leases token (pm_session_id p) (pm_leases p)
       (Some (pm_transfer_id p)) (pm_buffer_ids p) d2))"
    "commit_delayed_promotion token now p d = touch_session (pm_session_id p) now e"
    by (rule commit_delayed_eq)
  have "daemon_ok d2" "leases_admissible (pm_session_id p) (pm_leases p) d2"
    using assms daemon_ok_core [OF e(1)] leases_admissible_core [OF e(1)] by simp_all
  then have "daemon_ok e" using commit_leases_ok daemon_ok_core [OF e(2)] by blast
  then show "daemon_ok (commit_delayed_promotion token now p d)" by (simp add: e(3))
  show "(map_of (d_reservations (commit_delayed_promotion token now p d)) k = None) =
      (k \<notin> set (map pl_lease_id (pm_leases p)) \<and> map_of (d_reservations d) k = None)"
    by (simp add: e(3) coreD(1) [OF e(2)] commit_leases_reservations coreD(1) [OF e(1)])
qed

lemma core_failure [simp]: "core (record_delayed_promotion_failure t e x now d) = core d"
  by (simp add: record_delayed_promotion_failure_def)

lemma core_check [simp]: "core (record_delayed_promotion_check t a x now d) = core d"
  by (simp add: record_delayed_promotion_check_def)

lemma promote_cases:
  assumes ok: "daemon_ok d" and answer: "answer_ok (pm_session_id p) (pm_leases p)" and fresh: "leases_fresh (pm_leases p) d"
  obtains "core (promote_delayed token now p d) = core d"
  | "leases_admissible (pm_session_id p) (pm_leases p) d"
    "promote_delayed token now p d = commit_delayed_promotion token now p d"
proof (cases "core (promote_delayed token now p d) = core d")
  case True
  with that show thesis by blast
next
  case False
  then obtain s where s: "map_of (d_sessions d) (pm_session_id p) = Some s"
    and free: "pm_leases p = [] \<or> relay_admission_blocked_reason None (pm_runtime_blocked p) s (pm_leases p) d = None"
    and eq: "promote_delayed token now p d = commit_delayed_promotion token now p d"
    by (auto simp: promote_delayed_def Let_def split: if_splits option.splits)
  have "leases_admissible (pm_session_id p) (pm_leases p) d"
  proof (cases "pm_leases p = []")
    case True
    with admissible_Nil [OF ok s] show ?thesis by simp
  next
    case False
    with admission_admissible [OF _ s answer fresh] ok free show ?thesis by (auto simp: daemon_ok_def)
  qed
  with eq that show thesis by blast
qed

lemma promote_ok:
  assumes "daemon_ok d" and "answer_ok (pm_session_id p) (pm_leases p)" and "leases_fresh (pm_leases p) d"
  shows "daemon_ok (promote_delayed token now p d)"
    and "k \<notin> set (map pl_lease_id (pm_leases p)) \<Longrightarrow> map_of (d_reservations d) k = None \<Longrightarrow>
      map_of (d_reservations (promote_delayed token now p d)) k = None"
proof -
  show "daemon_ok (promote_delayed token now p d)"
    using assms
    by (rule promote_cases [of d p token "now"]) (use assms(1) daemon_ok_core in blast, simp add: commit_delayed_ok assms(1))
  show "map_of (d_reservations (promote_delayed token now p d)) k = None"
    if "k \<notin> set (map pl_lease_id (pm_leases p))" "map_of (d_reservations d) k = None"
    using assms
  proof (rule promote_cases [of d p token "now"])
    assume "core (promote_delayed token now p d) = core d"
    then show ?thesis using that coreD(1) by metis
  next
    assume "leases_admissible (pm_session_id p) (pm_leases p) d"
      "promote_delayed token now p d = commit_delayed_promotion token now p d"
    then show ?thesis using that commit_delayed_ok(2) [OF assms(1)] by simp
  qed
qed

lemma promotions_ok_promote:
  assumes "daemon_ok d" and "promotions_ok (p # ps) d"
  shows "promotions_ok ps (promote_delayed token now p d)"
proof -
  have "leases_fresh (pm_leases q) (promote_delayed token now p d)" if q: "q \<in> set ps" for q
    unfolding leases_fresh_def list_all_iff
  proof
    fix l
    assume l: "l \<in> set (pm_leases q)"
    have "pl_lease_id l \<notin> set (map pl_lease_id (pm_leases p))"
      using assms(2) l q by (auto simp: promotions_ok_def)
    moreover have "map_of (d_reservations d) (pl_lease_id l) = None"
      using assms(2) l q by (auto simp: promotions_ok_def leases_fresh_def list_all_iff)
    ultimately show "map_of (d_reservations (promote_delayed token now p d)) (pl_lease_id l) = None"
      using assms by (intro promote_ok(2)) (simp_all add: promotions_ok_def)
  qed
  with assms(2) show ?thesis by (auto simp: promotions_ok_def list_all_iff)
qed

lemma promotions_fold_ok:
  "daemon_ok d \<Longrightarrow> promotions_ok ps d \<Longrightarrow> daemon_ok (fold (promote_delayed token now) ps d)"
proof (induction ps arbitrary: d)
  case Nil
  then show ?case by simp
next
  case (Cons p ps)
  have "daemon_ok (promote_delayed token now p d)"
    using Cons.prems by (intro promote_ok) (simp_all add: promotions_ok_def)
  with Cons show ?case by (simp add: promotions_ok_promote)
qed

lemma promotions_ok_shrinks: "shrinks d d' \<Longrightarrow> promotions_ok ps d \<Longrightarrow> promotions_ok ps d'"
  using fresh_shrinks unfolding promotions_ok_def leases_fresh_def list_all_iff by blast

lemma refresh_ok:
  "daemon_ok d \<Longrightarrow> promotions_ok ps d \<Longrightarrow> daemon_ok (fst (refresh_admission_state token now ps d))"
  unfolding refresh_admission_state_def case_prod_beta fst_conv Let_def
  using reap_leases_ok [of d "now"] by (intro promotions_fold_ok) (auto intro: promotions_ok_shrinks)

lemma reap_and_refresh_ok:
  "daemon_ok d \<Longrightarrow> promotions_ok ps d \<Longrightarrow> daemon_ok (reap_and_refresh token now ps d)"
  unfolding reap_and_refresh_def
  using reap_stale_ok [of d "now"] by (intro refresh_ok) (auto intro: promotions_ok_shrinks)

section \<open>Planned transfers\<close>

text \<open>
  A transfer the scheduler answers with may be registered: its leases are well formed and fresh,
  and unless its admission may be delayed the scheduler has checked the limits itself.
\<close>

definition planned_ok :: "Session \<Rightarrow> PlannedTransfer \<Rightarrow> Daemon \<Rightarrow> bool" where
  "planned_ok s p d =
     (answer_ok (ss_session_id s) (pt_leases p) \<and> leases_fresh (pt_leases p) d \<and>
      (pt_allow_delayed p \<or> leases_admissible (ss_session_id s) (pt_leases p) d))"

lemma admission_admitted:
  "vget (admission_for_decision dec ls blocked allow ev now) ''state'' VNone = VStr ''admitted'' \<longleftrightarrow>
     ls = [] \<or> blocked = None \<or> \<not> allow"
  by (auto simp: admission_for_decision_def admission_record_def vget_def dget_default_def split: option.splits)

lemma planned_admissible:
  assumes ok: "daemon_ok d" and s: "map_of (d_sessions d) (ss_session_id s) = Some s" and p: "planned_ok s p d"
    and admitted: "pt_leases p = [] \<or> admission_reason p s d = None \<or> \<not> pt_allow_delayed p"
  shows "leases_admissible (ss_session_id s) (pt_leases p) d"
proof (cases "pt_leases p = []")
  case True
  with admissible_Nil [OF ok s] show ?thesis by simp
next
  case False
  show ?thesis
  proof (cases "pt_allow_delayed p")
    case True
    with False admitted have "admission_reason p s d = None" by simp
    with ok p s show ?thesis
      unfolding admission_reason_def by (intro admission_admissible) (simp_all add: daemon_ok_def planned_ok_def)
  next
    case False
    with p show ?thesis by (simp add: planned_ok_def)
  qed
qed

lemma admission_reason_core:
  "core d = core d' \<Longrightarrow> admission_reason p s d = admission_reason p s d'"
proof -
  assume "core d = core d'"
  then have q: "d_relay_quotas d = d_relay_quotas d'" by (rule coreD)
  have "lease_blocked_reason rb s d ls = lease_blocked_reason rb s d' ls" for rb ls
    by (induction ls) (simp_all add: q split: option.splits)
  then show ?thesis by (simp add: admission_reason_def relay_admission_blocked_reason_def split: option.splits)
qed

lemma core_file_planned [simp]: "core (file_planned_transfer p i peer a now d) = core d"
proof -
  have "core (register_plan_contract p a now d) = core d" for d
    by (simp add: register_plan_contract_def core_def Let_def)
  moreover have "core (d\<lparr>d_transfer_peers := x\<rparr>) = core d" for d x by (simp add: core_def)
  ultimately show ?thesis by (simp add: file_planned_transfer_def Let_def split: option.splits)
qed

lemma core_direct_ticket [simp]: "core (issue_direct_plan_ticket p rs d) = core d"
  by (simp add: issue_direct_plan_ticket_def split: option.splits)

lemma register_planned_ok:
  assumes ok: "daemon_ok d" and s: "map_of (d_sessions d) (ss_session_id s) = Some s" and p: "planned_ok s p d"
  shows "daemon_ok (fst (register_planned_transfer token s p peer now d))"
proof -
  define d1 where "d1 = d\<lparr>d_plan_generations := AList.update (pt_transfer_id p) 1 (d_plan_generations d)\<rparr>"
  define a where "a = admission_for_decision (pt_decision p) (pt_leases p) (admission_reason p s d1)
    (pt_allow_delayed p) (pt_evidence p) now"
  obtain d2 rs a' where d2: "admitted_transfer_reservations token (ss_session_id s) p a d1 = (d2, rs, a')"
    by (cases "admitted_transfer_reservations token (ss_session_id s) p a d1") auto
  have same: "core d1 = core d" by (simp add: d1_def)
  have ok1: "daemon_ok d1" using ok daemon_ok_core [OF same] by simp
  have "daemon_ok d2"
  proof (cases "vget a ''state'' VNone = VStr ''admitted''")
    case True
    then have "leases_admissible (ss_session_id s) (pt_leases p) d"
      using planned_admissible [OF ok s p]
      by (auto simp: a_def admission_admitted admission_reason_core [OF same])
    then have "leases_admissible (ss_session_id s) (pt_leases p) d1"
      using leases_admissible_core [OF same] by simp
    then have "daemon_ok (fst (commit_scheduler_leases token (ss_session_id s) (pt_leases p)
        (Some (pt_transfer_id p)) (pt_buffer_ids p) d1))"
      by (rule commit_leases_ok [OF ok1])
    with True d2 show ?thesis by (auto simp: admitted_transfer_reservations_def split: prod.splits)
  next
    case False
    with d2 ok1 show ?thesis by (simp add: admitted_transfer_reservations_def)
  qed
  then have "daemon_ok (touch_session (ss_session_id s) now (file_planned_transfer p (ss_session_id s) peer a' now d2))"
    using daemon_ok_core [OF core_file_planned] by simp
  then have "daemon_ok (issue_direct_plan_ticket p rs
      (touch_session (ss_session_id s) now (file_planned_transfer p (ss_session_id s) peer a' now d2)))"
    using daemon_ok_core [OF core_direct_ticket] by blast
  moreover have "fst (register_planned_transfer token s p peer now d) = issue_direct_plan_ticket p rs
      (touch_session (ss_session_id s) now (file_planned_transfer p (ss_session_id s) peer a' now d2))"
    using d2 unfolding register_planned_transfer_def Let_def d1_def [symmetric] a_def [symmetric] by simp
  ultimately show ?thesis by simp
qed

end
