(* ===== verification/Daemon_Requests.thy ===== *)
theory Daemon_Requests
  imports Daemon_Keeps
begin

text \<open>
  The request handlers keep the daemon's invariant, the step relation of the daemon, and the
  properties of every state it can reach.
\<close>

section \<open>Handlers\<close>

lemma guarded_keeps: "P d \<Longrightarrow> P (fst k) \<Longrightarrow> P (fst (guarded c d k))"
  by (simp add: guarded_def split: sum.splits)

lemma core_precheck [simp]: "core (fst (tenant_quota_precheck peer field n b now d)) = core d"
proof -
  have "core (fst (tenant_quota_rejection u f now d)) = core d" for u f
    by (simp add: tenant_quota_rejection_def)
  then show ?thesis by (simp add: tenant_quota_precheck_def Let_def split: option.splits)
qed

lemma precheck_core:
  assumes "tenant_quota_precheck peer field n b now d = (d', e)"
  shows "core d' = core d"
  using core_precheck [of peer field n b "now" d] by (simp add: assms)

lemma attach_session_idem [simp]: "attach_session i (attach_session i q) = attach_session i q"
  by (simp add: attach_session_def)

lemma fold_attach:
  "map_of (fold (\<lambda>g. modify g (attach_session i)) gs qs) g =
   (if g \<in> set gs then map_option (attach_session i) (map_of qs g) else map_of qs g)"
  by (induction gs arbitrary: qs) (auto simp: map_of_modify option.map_comp comp_def)

lemma busy_relays_Nil:
  "busy_relays gs d = [] \<longleftrightarrow> (\<forall>g q. g \<in> set gs \<longrightarrow> map_of (d_relay_quotas d) g = Some q \<longrightarrow> can_attach q)"
  by (auto simp: busy_relays_def filter_empty_conv split: option.splits)

lemma attached_add:
  assumes old: "attached_ok Map.empty ss qs" and new: "map_of ss i = None"
    and s: "ss_relay_gpus s = gs" and room: "\<And>g q. g \<in> set gs \<Longrightarrow> map_of qs g = Some q \<Longrightarrow> can_attach q"
  shows "attached_ok Map.empty (AList.update i s ss) (fold (\<lambda>g. modify g (attach_session i)) gs qs)"
  unfolding attached_ok_def
proof (intro allI impI)
  fix g q
  assume "map_of (fold (\<lambda>g. modify g (attach_session i)) gs qs) g = Some q"
  then obtain p where p: "map_of qs g = Some p" and q: "q = (if g \<in> set gs then attach_session i p else p)"
    by (auto simp: fold_attach split: if_splits)
  have at: "distinct (rq_sessions p)" "int (length (rq_sessions p)) \<le> max 0 (rq_max_sessions p)"
    "\<And>j. j \<in> set (rq_sessions p) \<Longrightarrow> \<exists>s. map_of ss j = Some s \<and> g \<in> set (ss_relay_gpus s)"
    using old p by (auto simp: attached_ok_def)
  have notin: "i \<notin> set (rq_sessions p)" using at(3) [of i] new by auto
  have "\<exists>t. map_of (AList.update i s ss) j = Some t \<and> g \<in> set (ss_relay_gpus t)" if "j \<in> set (rq_sessions p)" for j
    using at(3) [OF that] notin that by auto
  moreover have "can_attach p" if "g \<in> set gs" using room [OF that p] .
  ultimately show "distinct (rq_sessions q) \<and> int (length (rq_sessions q)) \<le> max 0 (rq_max_sessions q) \<and>
      (\<forall>j\<in>set (rq_sessions q). (\<exists>gs. Map.empty j = Some gs \<and> g \<in> set gs) \<or>
         (\<exists>t. map_of (AList.update i s ss) j = Some t \<and> g \<in> set (ss_relay_gpus t)))"
    using at(1,2) notin s by (auto simp: q attach_session_def can_attach_def)
qed

lemma attached_more:
  assumes "attached_ok Map.empty ss qs" and "map_of ss i = None"
  shows "attached_ok Map.empty (AList.update i s ss) qs"
  using attached_add [OF assms(1,2), of "s\<lparr>ss_relay_gpus := []\<rparr>" "[]"] assms
  unfolding attached_ok_def by (auto simp: fun_upd_def) (metis option.distinct(1))

lemma add_session_ok:
  assumes ok: "daemon_ok d" and new: "map_of (d_sessions d) i = None" and room: "capable \<Longrightarrow> busy_relays gs d = []"
  shows "daemon_ok (fst (add_session i target m capable peer scoped c gs now d))"
proof -
  let ?e = "fst (add_session i target m capable peer scoped c gs now d)"
  define s where "s = \<lparr>ss_session_id = i, ss_target_gpu = target, ss_relay_gpus = gs,
    ss_max_inflight_chunks = m, ss_worker_relay_capable = capable, ss_active_chunks = 0, ss_active = True,
    ss_created_at = now, ss_last_seen = now, ss_closed_at = None\<rparr>"
  define qs where "qs = (if capable then fold (\<lambda>g. modify g (attach_session i)) gs (d_relay_quotas d) else d_relay_quotas d)"
  have led: "ledger_ok Map.empty d" and tab: "tables_ok d" using ok by (simp_all add: daemon_ok_def)
  have fields: "d_sessions ?e = AList.update i s (d_sessions d)" "d_relay_quotas ?e = qs"
    "d_reservations ?e = d_reservations d" "d_lease_tokens ?e = d_lease_tokens d"
    "d_jobs ?e = d_jobs d" "d_buffers ?e = d_buffers d"
    by (simp_all add: add_session_def Let_def s_def qs_def)
  have "tables_ok ?e" using tab by (auto simp: tables_ok_def fields)
  moreover have "\<forall>k r. map_of (d_reservations d) k = Some r \<longrightarrow> map_of (d_sessions d) (rv_session_id r) \<noteq> None"
    "dict_wf (d_reservations d)"
    using led by (simp_all add: ledger_ok_def)
  with new have "owed rv_session_id i (d_reservations d) = 0"
    by (intro owed_none) metis+
  then have "ledger_balanced rv_session_id ss_active_chunks ss_max_inflight_chunks (d_reservations d)
      (AList.update i s (d_sessions d))"
    using led by (auto simp: ledger_ok_def ledger_balanced_def s_def)
  moreover have "ledger_balanced rv_relay_gpu rq_active_chunks rq_max_inflight_chunks (d_reservations d) qs"
    using led by (auto simp: ledger_ok_def ledger_balanced_def qs_def fold_attach attach_session_def split: if_splits)
  moreover have "attached_ok Map.empty (AList.update i s (d_sessions d)) qs"
  proof -
    have at: "attached_ok Map.empty (d_sessions d) (d_relay_quotas d)" using led by (simp add: ledger_ok_def)
    show ?thesis
    proof (cases capable)
      case True
      have "attached_ok Map.empty (AList.update i s (d_sessions d))
          (fold (\<lambda>g. modify g (attach_session i)) gs (d_relay_quotas d))"
        by (rule attached_add [OF at new]) (use room True busy_relays_Nil in \<open>auto simp: s_def\<close>)
      with True show ?thesis by (simp add: qs_def)
    next
      case False
      then show ?thesis using attached_more [OF at new] by (simp add: qs_def)
    qed
  qed
  moreover have "dict_wf qs" using led by (simp add: qs_def ledger_ok_def dict_wf_fold_modify)
  ultimately show ?thesis using led by (auto simp: daemon_ok_def ledger_ok_def fields s_def)
qed

lemma register_session_ok:
  assumes "daemon_ok d" and "promotions_ok ps d" and "map_of (d_sessions (reap_and_refresh token now ps d)) i = None"
  shows "daemon_ok (fst (register_session token ps eligible i target m capable peer scoped c now d))"
proof -
  let ?d1 = "reap_and_refresh token now ps d"
  obtain d2 e where d2: "tenant_quota_precheck peer ''active_sessions'' 1 0 now ?d1 = (d2, e)" by force
  note same = precheck_core [OF d2]
  have ok2: "daemon_ok d2" using reap_and_refresh_ok [OF assms(1,2)] daemon_ok_core [OF same] by simp
  have new: "map_of (d_sessions d2) i = None" using assms(3) coreD(3) [OF same] by simp
  show ?thesis
    using assms(1) ok2 add_session_ok [OF ok2 new]
    by (auto simp: register_session_def Let_def d2 case_prod_beta split: option.splits sum.splits)
qed

lemma close_session_ok:
  assumes "daemon_ok d"
  shows "daemon_ok (fst (close_session i peer now d))"
proof -
  let ?d1 = "fst (reap_stale_sessions now d)"
  define owned where "owned = (if map_of (d_sessions ?d1) i \<noteq> None
    then Some (session_owned_cleanup_targets i ?d1) else None)"
  have ok: "daemon_ok ?d1" using reap_stale_ok [OF assms] by simp
  have "owned_for i owned ?d1" by (auto simp: owned_def owned_for_def)
  from daemon_ok_close [OF ok this, of "''session_closed''" "now"]
  have "daemon_ok (fst (let (d2, removed, session) = close_session_locked i ''session_closed'' owned now ?d1
      in if session = None \<and> map_of (d_retired_targets ?d1) (''session'', i) = None
         then (d2, Refused ''unknown session'') else (d2, Accepted removed)))"
    by (simp add: case_prod_beta Let_def)
  with ok show ?thesis
    unfolding close_session_def Let_def owned_def by (intro guarded_keeps [where P = daemon_ok])
qed

lemma ledger_keeps: "ledger e = ledger d \<Longrightarrow> ledger_ok A d \<Longrightarrow> ledger_ok A e"
  using ledger_ok_ledger by blast

lemma register_job_locked_ok:
  assumes "daemon_ok d"
  shows "daemon_ok (fst (register_job_locked job peer now d))"
proof -
  obtain d1 e where d1: "tenant_quota_precheck peer ''registered_jobs''
      (if map_of (d_jobs d) (ji_job_id job) = None then 1 else 0) 0 now d = (d1, e)" by force
  note same = precheck_core [OF d1]
  have ok1: "daemon_ok d1" using assms daemon_ok_core [OF same] by simp
  have store: "daemon_ok (d1\<lparr>d_jobs := AList.update (ji_job_id job) job (d_jobs d1), d_job_peers := x\<rparr>)"
    if "\<not> opt_holds (\<lambda>s. map_of (d_sessions d) s = None) (ji_session_id job)" for x
  proof -
    let ?e = "d1\<lparr>d_jobs := AList.update (ji_job_id job) job (d_jobs d1), d_job_peers := x\<rparr>"
    have "ledger ?e = ledger d1" by (simp add: ledger_def)
    then have "ledger_ok Map.empty ?e" by (rule ledger_keeps) (use ok1 in \<open>simp add: daemon_ok_def\<close>)
    moreover have "tables_ok ?e"
      using ok1 that coreD(3) [OF same] by (auto simp: daemon_ok_def tables_ok_def)
    ultimately show ?thesis by (simp add: daemon_ok_def)
  qed
  with assms ok1 store [of "d_job_peers d1"] show ?thesis
    by (auto simp: register_job_locked_def Let_def d1 intro!: guarded_keeps [where P = daemon_ok]
        split: option.splits)
qed

lemma register_buffer_locked_ok:
  assumes "daemon_ok d"
  shows "daemon_ok (fst (register_buffer_locked b peer now d))"
proof (cases "map_of (d_jobs d) (br_job_id b) = None")
  case True
  with assms show ?thesis by (simp add: register_buffer_locked_def)
next
  case False
  let ?fresh = "map_of (d_buffers d) (br_buffer_id b) = None"
  obtain d1 e where d1: "tenant_quota_precheck peer ''registered_buffers'' (if ?fresh then 1 else 0)
      (if ?fresh then br_size_bytes b else 0) now d = (d1, e)" by force
  note same = precheck_core [OF d1]
  have ok1: "daemon_ok d1" using assms daemon_ok_core [OF same] by simp
  let ?e = "d1\<lparr>d_buffers := AList.update (br_buffer_id b) b (d_buffers d1)\<rparr>"
  have "ledger ?e = ledger d1" by (simp add: ledger_def)
  then have "ledger_ok Map.empty ?e" by (rule ledger_keeps) (use ok1 in \<open>simp add: daemon_ok_def\<close>)
  moreover have "tables_ok ?e"
    using ok1 False coreD(5) [OF same] by (auto simp: daemon_ok_def tables_ok_def)
  ultimately have "daemon_ok ?e" by (simp add: daemon_ok_def)
  with False ok1 show ?thesis
    by (auto simp: register_buffer_locked_def Let_def d1 intro!: guarded_keeps [where P = daemon_ok]
        split: option.splits)
qed

section \<open>Cleanup\<close>

text \<open>The tables after a job is cleaned up.\<close>

lemma cleanup_job_facts:
  fixes i reason "now"
  assumes "daemon_ok d"
  defines "e \<equiv> fst (cleanup_job i reason now d)"
  shows "daemon_ok e" and "shrinks d e" and "d_jobs e = AList.delete i (d_jobs d)"
    and "map_of (d_buffers e) b = (case map_of (d_buffers d) b of None \<Rightarrow> None
      | Some x \<Rightarrow> if br_job_id x = i then None else Some x)"
    and "map_of (d_reservations e) k = (case map_of (d_lease_tokens d) k of
        Some l \<Rightarrow> if lt_job_id l = Some i then None else map_of (d_reservations d) k
      | None \<Rightarrow> map_of (d_reservations d) k)"
proof -
  define d1 where "d1 = archive_cleanup_target ''job'' i (map_of (d_job_peers d) i) (Some reason)
    (transfer_ids_for_job i d) None now d"
  define d2 where "d2 = d1\<lparr>d_jobs := AList.delete i (d_jobs d1), d_job_peers := AList.delete i (d_job_peers d1)\<rparr>"
  define ks where "ks = map fst (filter (\<lambda>(k, l). lt_job_id l = Some i) (d_lease_tokens d2))"
  define d3 where "d3 = fst (release_all ks CANCELED (Some reason) True now d2)"
  define d4 where "d4 = fst (cancel_and_retire (transfer_ids_for_job i d) reason now d3)"
  define bs where "bs = map fst (filter (\<lambda>(k, b). br_job_id b = i) (d_buffers d4))"
  have e: "e = fold (\<lambda>i d. d\<lparr>d_buffers := AList.delete i (d_buffers d)\<rparr>) bs d4"
    unfolding e_def cleanup_job_def Let_def case_prod_beta fst_conv bs_def d4_def d3_def ks_def d2_def d1_def ..
  have c1: "core d1 = core d" by (simp add: d1_def)
  have led: "ledger_ok Map.empty d" and tab: "tables_ok d" using assms by (simp_all add: daemon_ok_def)
  have l2: "ledger d2 = ledger d" using ledger_core [OF c1] by (simp add: ledger_def d2_def)
  then have "ledger_ok Map.empty d2" by (rule ledger_keeps [OF _ led])
  then have "ledger_ok Map.empty d3" by (simp add: d3_def ledger_ok_release_all)
  then have led4: "ledger_ok Map.empty d4" using ledger_ok_core [OF core_cancel] by (simp add: d4_def)
  have le: "ledger e = ledger d4" unfolding e by (rule fold_same) (simp add: ledger_def)
  then have led_e: "ledger_ok Map.empty e" by (rule ledger_keeps [OF _ led4])
  have t4: "tables d4 = tables d2" by (simp add: d4_def d3_def tables_core [OF core_cancel])
  then have jobs4: "d_jobs d4 = AList.delete i (d_jobs d)" and buffers4: "d_buffers d4 = d_buffers d"
    and sess4: "\<And>j. map_of (d_sessions d4) j = None \<longleftrightarrow> map_of (d_sessions d) j = None"
    using coreD(3,5,7) [OF c1] by (auto simp: tables_def d2_def fun_eq_iff)
  show je: "d_jobs e = AList.delete i (d_jobs d)" by (simp add: e fold_delete_buffers jobs4)
  have wfb: "dict_wf (d_buffers d)" using tab by (simp add: tables_ok_def)
  have bs: "b \<in> set bs \<longleftrightarrow> (\<exists>x. map_of (d_buffers d) b = Some x \<and> br_job_id x = i)" for b
    unfolding dict_entry [OF wfb] bs_def buffers4 set_map set_filter by (auto intro!: rev_image_eqI)
  show be: "map_of (d_buffers e) b = (case map_of (d_buffers d) b of None \<Rightarrow> None
      | Some x \<Rightarrow> if br_job_id x = i then None else Some x)" for b
    by (auto simp: e fold_delete_buffers bs buffers4 split: option.splits)
  have "d_sessions e = d_sessions d4" using le by (simp add: ledger_def)
  moreover have "dict_wf (d_buffers e)" using wfb by (simp add: e fold_delete_buffers buffers4)
  moreover have "map_of (d_jobs e) (br_job_id x) \<noteq> None" if "map_of (d_buffers e) b = Some x" for b x
    using that tab by (auto simp: be je tables_ok_def split: option.splits if_splits)
  moreover have "map_of (d_sessions d4) t \<noteq> None" if "map_of (d_jobs e) j = Some x" "ji_session_id x = Some t" for j x t
    using that tab unfolding sess4 by (auto simp: je tables_ok_def split: if_splits)
  ultimately have "tables_ok e" using tab unfolding tables_ok_def by (auto simp: je)
  with led_e show "daemon_ok e" by (simp add: daemon_ok_def)
  have "d_reservations e = d_reservations d3"
    using le coreD(1) [OF core_cancel] by (simp add: ledger_def d4_def)
  moreover have "d_reservations d2 = d_reservations d" "d_lease_tokens d2 = d_lease_tokens d"
    using l2 by (simp_all add: ledger_def)
  ultimately have res: "map_of (d_reservations e) k = (if k \<in> set ks then None else map_of (d_reservations d) k)"
    and ks_eq: "ks = map fst (filter (\<lambda>(k, l). lt_job_id l = Some i) (d_lease_tokens d))" for k
    by (simp_all add: d3_def map_of_reservations_release_all ks_def)
  show "shrinks d e" by (simp add: shrinks_def res)
  have wfl: "dict_wf (d_lease_tokens d)" using led by (simp add: ledger_ok_def)
  have "k \<in> set ks \<longleftrightarrow> (\<exists>l. map_of (d_lease_tokens d) k = Some l \<and> lt_job_id l = Some i)"
    unfolding dict_entry [OF wfl] ks_eq set_map set_filter by (auto intro!: rev_image_eqI)
  then show "map_of (d_reservations e) k = (case map_of (d_lease_tokens d) k of
        Some l \<Rightarrow> if lt_job_id l = Some i then None else map_of (d_reservations d) k
      | None \<Rightarrow> map_of (d_reservations d) k)"
    by (auto simp: res split: option.splits)
qed

lemma finalize_cleanup_ok:
  assumes "daemon_ok d" and "promotions_ok ps d"
  shows "daemon_ok (fst (finalize_cleanup token ps c removed now d))"
proof -
  let ?d = "d\<lparr>d_cleanup_events := d_cleanup_events d @ [c]\<rparr>"
  have same: "core ?d = core d" by simp
  have "daemon_ok ?d" "promotions_ok ps ?d"
    using assms daemon_ok_core [OF same] by (simp_all add: promotions_ok_def leases_fresh_def)
  then show ?thesis by (simp add: finalize_cleanup_def refresh_ok)
qed

lemma cleanup_job_target_ok:
  assumes "daemon_ok d" and "promotions_ok ps d"
  shows "daemon_ok (fst (cleanup_job_target token ps c peer now d))"
proof -
  let ?d = "fst (cleanup_job (cr_target_id c) (cr_reason c) now d)"
  have "daemon_ok ?d" "promotions_ok ps ?d"
    using cleanup_job_facts(1,2) [OF assms(1)] promotions_ok_shrinks assms(2) by blast+
  then have "daemon_ok (fst (finalize_cleanup token ps c removed now ?d))" for removed
    by (rule finalize_cleanup_ok)
  then show ?thesis
    using assms(1) unfolding cleanup_job_target_def Let_def case_prod_beta
    by (auto intro!: guarded_keeps [where P = daemon_ok])
qed

lemma cleanup_session_target_ok:
  assumes "daemon_ok d" and "promotions_ok ps d"
  shows "daemon_ok (fst (cleanup_session_target token ps c peer now d))"
proof -
  define owned where "owned = (if map_of (d_sessions d) (cr_target_id c) \<noteq> None
    then Some (session_owned_cleanup_targets (cr_target_id c) d) else None)"
  let ?d = "fst (close_session_locked (cr_target_id c) (cr_reason c) owned now d)"
  have "owned_for (cr_target_id c) owned d" by (auto simp: owned_def owned_for_def)
  then have ok: "daemon_ok ?d" and "promotions_ok ps ?d"
    using daemon_ok_close shrinks_close promotions_ok_shrinks assms by blast+
  then have "daemon_ok (fst (finalize_cleanup token ps c removed now ?d))" for removed
    by (rule finalize_cleanup_ok)
  with ok show ?thesis
    using assms(1) unfolding cleanup_session_target_def Let_def case_prod_beta owned_def [symmetric]
    by (auto intro!: guarded_keeps [where P = daemon_ok])
qed

section \<open>Plans and leases\<close>

lemma plan_transfer_ok:
  assumes ok: "daemon_ok d" and ps: "promotions_ok ps d"
    and answers: "\<And>s owner p. schedule (reap_and_refresh token now ps d) s owner = Inr p \<Longrightarrow>
      planned_ok s p (reap_and_refresh token now ps d)"
  shows "daemon_ok (fst (plan_transfer token ps schedule i n ranges job bs peer now d))"
proof -
  let ?d = "reap_and_refresh token now ps d"
  have ok1: "daemon_ok ?d" using reap_and_refresh_ok [OF ok ps] .
  have "daemon_ok (fst (register_planned_transfer token s (p\<lparr>pt_job_id := a, pt_buffer_ids := b, pt_total_bytes := m\<rparr>)
      peer now ?d))"
    if "map_of (d_sessions ?d) i = Some s" "schedule ?d s owner = Inr p" for s owner p a b m
  proof (rule register_planned_ok [OF ok1])
    have "ss_session_id s = i" using ok1 that(1) by (simp add: daemon_ok_def ledger_ok_def)
    with that(1) show "map_of (d_sessions ?d) (ss_session_id s) = Some s" by simp
    show "planned_ok s (p\<lparr>pt_job_id := a, pt_buffer_ids := b, pt_total_bytes := m\<rparr>) ?d"
      using answers [OF that(2)] by (simp add: planned_ok_def)
  qed
  with ok ok1 show ?thesis
    unfolding plan_transfer_def Let_def
    by (auto simp: case_prod_beta intro!: guarded_keeps [where P = daemon_ok] split: sum.splits option.splits)
qed

lemma release_expired_ok:
  "daemon_ok d \<Longrightarrow> daemon_ok (release_expired_lease now i d)"
  using tables_ok_cong [OF tables_release_expired] by (simp add: daemon_ok_def ledger_ok_release_expired)

lemma core_admission_check [simp]: "core (fst (validate_transfer_admission t l now d)) = core d"
  by (simp add: validate_transfer_admission_def Let_def split: option.splits)

lemma validate_lease_ok:
  assumes "daemon_ok d"
  shows "daemon_ok (fst (validate_lease i token s g j bs peer now d))"
proof -
  let ?d = "fst (reap_stale_sessions now d)"
  have ok: "daemon_ok ?d" using reap_stale_ok [OF assms] by simp
  have "daemon_ok d'" if "validate_transfer_admission t l now ?d = (d', e)" for t l d' e
    using core_admission_check [of t l "now" ?d] that ok daemon_ok_core by (metis fst_conv)
  with ok show ?thesis
    unfolding validate_lease_def Let_def
    by (auto simp: release_expired_ok intro!: guarded_keeps [where P = daemon_ok] split: option.splits prod.splits)
qed

end
