(* ===== verification/Daemon_Status.thy ===== *)
theory Daemon_Status
  imports Daemon_Planning Transfer_Lifecycle
begin

text \<open>
  Status updates of a transfer (\<open>transfer_status\<close> in \<open>turbobus/daemon/server.py\<close> and the operations it
  calls): who may report, what evidence a report needs, how the block records advance, what is
  stored, and how a transfer that ends is finalised.  An exception that leaves the handler is an
  \<open>Inl\<close> answer, beside the state it leaves behind; the operations whose result is an error or a pair
  raise before they change the state.  One clock reading serves a request.  A \<open>cleanup\<close> entry of an
  update's evidence that is no mapping counts as none.
\<close>

section \<open>Errors the handler catches\<close>

definition is_value_error :: "py_error \<Rightarrow> bool" where
  "is_value_error e = (case e of ValueError _ \<Rightarrow> True | IntLiteralError \<Rightarrow> True | _ \<Rightarrow> False)"

definition except_value_error :: "'a result \<Rightarrow> (string \<Rightarrow> 'b result) \<Rightarrow> ('a \<Rightarrow> 'b result) \<Rightarrow> 'b result" where
  "except_value_error m handler k =
     (case m of Inr x \<Rightarrow> k x | Inl e \<Rightarrow> if is_value_error e then handler (error_text e) else Inl e)"

definition is_execution_completion_source :: "string \<Rightarrow> bool" where
  "is_execution_completion_source s = (lower s \<in> {''worker'', ''backend''})"

definition status_bytes_match :: "TransferStatus \<Rightarrow> int option \<Rightarrow> bool" where
  "status_bytes_match status bytes_completed =
     (case bytes_completed of None \<Rightarrow> True | Some n \<Rightarrow> n = ts_bytes_completed status)"

section \<open>Tickets and evidence of an update\<close>

definition current_execution_ticket :: "string \<Rightarrow> Daemon \<Rightarrow> ExecutionTicket result" where
  "current_execution_ticket t d =
     (case Option.bind (map_of (d_transfer_tickets d) t) (map_of (d_execution_tickets d)) of
        None \<Rightarrow> Inl (ValueError ''intent transfer completion requires daemon-issued execution ticket'')
      | Some k \<Rightarrow> Inr k)"

definition completion_ticket_for_transfer :: "string \<Rightarrow> Daemon \<Rightarrow> ExecutionTicket result" where
  "completion_ticket_for_transfer t d =
     (case or_else (map_of (d_completion_tickets d) t) (Option.bind (map_of (d_receipt_archive d) t) ta_ticket) of
        None \<Rightarrow> Inl (ValueError ''intent transfer completion requires archived execution ticket'')
      | Some k \<Rightarrow> Inr k)"

record EvidenceUpdate =
  eu_source :: string
  eu_evidence :: "mapping option"
  eu_ticket :: "ExecutionTicket option"

text \<open>\<open>_normalize_transfer_status_evidence_update_locked\<close>; a refusal is an \<open>Inr (Refused ...)\<close>.\<close>

definition normalize_evidence_update ::
  "(pyval \<Rightarrow> string) \<Rightarrow> TransferStatus \<Rightarrow> string option \<Rightarrow> pyval \<Rightarrow> Daemon \<Rightarrow> EvidenceUpdate response result" where
  "normalize_evidence_update str_of updated completion_source evidence d =
     (let source = lower (case completion_source of None \<Rightarrow> [] | Some s \<Rightarrow> s);
          required = intent_requires_execution_evidence (ts_transfer_id updated) d;
          accept = (\<lambda>ev k. Inr (Accepted \<lparr>eu_source = source, eu_evidence = ev, eu_ticket = k\<rparr>));
          refuse = (\<lambda>e. Inr (Refused e))
      in if ts_state updated = COMPLETE
         then (if required
               then (if \<not> is_execution_completion_source source
                     then refuse ''intent transfer completion requires worker/backend execution evidence''
                     else except_value_error (current_execution_ticket (ts_transfer_id updated) d) refuse (\<lambda>k.
                          except_value_error (normalize_completion_evidence str_of evidence
                              (ts_bytes_total updated) source (Some k)) refuse (\<lambda>ev. accept (Some ev) (Some k))))
               else (case evidence of
                       VNone \<Rightarrow> accept None None
                     | VDict m \<Rightarrow> except_value_error
                         (normalize_completion_evidence str_of evidence (ts_bytes_total updated) source None)
                         (\<lambda>e. accept (Some m) None) (\<lambda>ev. accept (Some ev) None)
                     | _ \<Rightarrow> accept (Some [(''raw_completion_evidence'', VStr (py_str str_of evidence))]) None))
         else if required \<and> ts_state updated \<in> {RUNNING, FAILED, CANCELED}
         then (if \<not> is_execution_completion_source source
               then refuse ''intent transfer status update requires worker/backend execution evidence''
               else except_value_error (current_execution_ticket (ts_transfer_id updated) d) refuse (\<lambda>k.
                    except_value_error (normalize_status_ticket_evidence str_of evidence k) refuse (\<lambda>ev.
                    accept (Some ev) (if ts_state updated \<in> {FAILED, CANCELED} then Some k else None))))
         else accept None None)"

section \<open>Block records\<close>

definition advance_block_runtime_for_status ::
  "(pyval \<Rightarrow> string) \<Rightarrow> TransferStatus \<Rightarrow> string \<Rightarrow> mapping option \<Rightarrow> rat \<Rightarrow> Daemon
     \<Rightarrow> (Daemon \<times> mapping option) result" where
  "advance_block_runtime_for_status str_of status source evidence now d =
     (let t = ts_transfer_id status; records = dget_default (d_block_runtime d) t []
      in if records = [] then Inr (d, None)
         else rbind (advance_with_evidence str_of records status source evidence now) (\<lambda>(updated, value).
              Inr (d\<lparr>d_block_runtime := AList.update t updated (d_block_runtime d)\<rparr>, Some value)))"

definition completion_evidence_with_block_cleanup :: "string \<Rightarrow> mapping \<Rightarrow> Daemon \<Rightarrow> mapping" where
  "completion_evidence_with_block_cleanup t evidence d =
     (let records = dget_default (d_block_runtime d) t []
      in if records = [] then evidence
         else AList.update ''cleanup'' (VDict
                (AList.update ''block_runtime_cleanup'' (VDict (cleanup_value (block_cleanup_summary records)))
                  (case vget evidence ''cleanup'' VNone of VDict m \<Rightarrow> m | _ \<Rightarrow> []))) evidence)"

text \<open>The evidence with the block runtime's record merged in, when there is one.\<close>

definition with_block_progress :: "string \<Rightarrow> mapping option \<Rightarrow> mapping option \<Rightarrow> Daemon \<Rightarrow> mapping option" where
  "with_block_progress t evidence progress d =
     (case progress of
        None \<Rightarrow> evidence
      | Some p \<Rightarrow> Some (completion_evidence_with_block_cleanup t
                    (merge_completion_evidence evidence [(''block_runtime'', VDict p)]) d))"

section \<open>Storing an update\<close>

definition persist_transfer_status_update ::
  "TransferStatus \<Rightarrow> string \<Rightarrow> mapping option \<Rightarrow> ExecutionTicket option \<Rightarrow> rat \<Rightarrow> Daemon \<Rightarrow> Daemon" where
  "persist_transfer_status_update updated source evidence ticket now d =
     (let t = ts_transfer_id updated; px = status_persistence_actions updated evidence ticket;
          d1 = d\<lparr>d_statuses := AList.update t updated (d_statuses d)\<rparr>;
          d2 = (case ticket of
                  Some k \<Rightarrow> if px_store_completion_ticket px
                           then d1\<lparr>d_completion_tickets := AList.update t k (d_completion_tickets d1)\<rparr> else d1
                | None \<Rightarrow> d1);
          d3 = (if px_mark_admission_terminal px
                then mark_admission_terminal t (ts_state updated) (ts_error updated) now d2 else d2);
          d4 = (if px_drop_active_ticket px then drop_execution_ticket t d3 else d3);
          d5 = (if px_store_completion_source px
                then d4\<lparr>d_completion_sources := AList.update t source (d_completion_sources d4)\<rparr> else d4)
      in case evidence of
           Some ev \<Rightarrow> if px_merge_completion_evidence px
                     then d5\<lparr>d_completion_evidence := AList.update t
                            (merge_completion_evidence (map_of (d_completion_evidence d5) t) ev)
                            (d_completion_evidence d5)\<rparr> else d5
         | None \<Rightarrow> d5)"

section \<open>Finalising\<close>

text \<open>\<open>_append_transfer_audit_records_locked\<close>: one entry per reservation of the transfer, or one without.\<close>

definition append_transfer_audit ::
  "string \<Rightarrow> string \<Rightarrow> TransferStatusState \<Rightarrow> string option \<Rightarrow> string option \<Rightarrow> Daemon \<Rightarrow> Daemon" where
  "append_transfer_audit event t state reason failure d =
     (let entry = (\<lambda>session lease. \<lparr>au_event_type = event, au_transfer_id = Some t, au_session_id = session,
            au_lease_id = lease, au_state = state, au_reason = reason, au_failure_reason = failure,
            au_cleanup_kind = None, au_cleanup_target_id = None\<rparr>);
          held = concat (map (\<lambda>(i, t'). if t' = t
                   then (case map_of (d_reservations d) i of None \<Rightarrow> [] | Some r \<Rightarrow> [r]) else [])
                 (sort_key fst (d_reservation_transfers d)))
      in if held = [] then append_audit (entry None None) d
         else fold (\<lambda>r. append_audit (entry (Some (rv_session_id r))
                (map_option lt_lease_id (map_of (d_lease_tokens d) (rv_reservation_id r))))) held d)"

text \<open>A transfer is live while it is queued; the queue records are left out.\<close>

definition retire_terminal_without_reservations ::
  "string \<Rightarrow> string option \<Rightarrow> rat \<Rightarrow> Daemon \<Rightarrow> Daemon \<times> Removed" where
  "retire_terminal_without_reservations t reason now d =
     (case map_of (d_statuses d) t of
        None \<Rightarrow> (d, empty_removed)
      | Some s \<Rightarrow>
          if \<not> terminal (ts_state s) \<or> transfer_has_reservations t d then (d, empty_removed)
          else (if ts_state s = COMPLETE then retire_completed_transfer_lease_state t reason now d
                else retire_transfer_runtime_state t d,
                empty_removed\<lparr>rm_transfers := (if t \<in> set (d_transfer_queue d) then 1 else 0)\<rparr>))"

text \<open>Which delayed transfers a refresh promotes, and the records it reports for them.\<close>

definition promotion_committed :: "Promotion \<Rightarrow> Daemon \<Rightarrow> bool" where
  "promotion_committed p d =
     (let t = pm_transfer_id p
      in opt_holds (\<lambda>s. \<not> terminal (ts_state s)) (map_of (d_statuses d) t) \<and>
         map_of (d_plan_requests d) t \<noteq> None \<and> pm_error p = None \<and>
         opt_holds (\<lambda>s. ss_active s \<and> (pm_leases p = [] \<or>
             relay_admission_blocked_reason None (pm_runtime_blocked p) s (pm_leases p) d = None))
           (map_of (d_sessions d) (pm_session_id p)))"

definition promoted_record :: "Promotion \<Rightarrow> Daemon \<Rightarrow> mapping" where
  "promoted_record p d =
     [(''transfer_id'', VStr (pm_transfer_id p)),
      (''plan_generation'', VInt (dget_default (d_plan_generations d) (pm_transfer_id p) 0 + 1)),
      (''lease_ids'', VList (map (VStr \<circ> pl_lease_id) (pm_leases p))),
      (''ticket_id'', opt_value (VStr \<circ> et_ticket_id) (pm_ticket p)),
      (''priority_order'', VDict (pm_priority_order p))]"

fun promoted_transfers :: "(string \<Rightarrow> string) \<Rightarrow> rat \<Rightarrow> Promotion list \<Rightarrow> Daemon \<Rightarrow> mapping list" where
  "promoted_transfers token now [] d = []"
| "promoted_transfers token now (p # ps) d =
     (if promotion_committed p d then [promoted_record p d] else []) @
     promoted_transfers token now ps (promote_delayed token now p d)"

definition removed_counts :: "Removed \<Rightarrow> (string, int) dict" where
  "removed_counts r =
     [(''jobs'', rm_jobs r), (''buffers'', rm_buffers r), (''sessions'', rm_sessions r),
      (''reservations'', rm_reservations r), (''staging_records'', rm_staging_records r),
      (''transfers'', rm_transfers r)]"

definition contract_in_evidence :: "mapping \<Rightarrow> mapping \<Rightarrow> mapping" where
  "contract_in_evidence contract evidence =
     (let e1 = AList.update ''failure_cleanup_contract'' (VDict contract) evidence;
          cleanup = (case vget e1 ''cleanup'' VNone of VDict m \<Rightarrow> m | _ \<Rightarrow> []);
          cleanup' = AList.update ''failure_cleanup_contract'' (VDict contract)
                       (setdefault ''ok'' (VBool True) cleanup)
      in AList.update ''cleanup'' (VDict cleanup') e1)"

definition merge_failure_cleanup_contract :: "string \<Rightarrow> mapping \<Rightarrow> Daemon \<Rightarrow> Daemon" where
  "merge_failure_cleanup_contract t contract d =
     (case map_of (d_completion_evidence d) t of
        Some e \<Rightarrow> d\<lparr>d_completion_evidence := AList.update t (contract_in_evidence contract e)
                    (d_completion_evidence d)\<rparr>
      | None \<Rightarrow>
          (case map_of (d_receipt_archive d) t of
             None \<Rightarrow> d
           | Some a \<Rightarrow> d\<lparr>d_receipt_archive := AList.update t
                 (a\<lparr>ta_completion_evidence := contract_in_evidence contract (ta_completion_evidence a)\<rparr>)
                 (d_receipt_archive d)\<rparr>))"

definition record_failure_cleanup_contract ::
  "string \<Rightarrow> TransferStatusState \<Rightarrow> string \<Rightarrow> Removed \<Rightarrow> mapping list \<Rightarrow> rat \<Rightarrow> Daemon \<Rightarrow> Daemon" where
  "record_failure_cleanup_contract t final_state error removed promoted now d =
     (let contract = failure_cleanup_contract t final_state error (removed_counts removed) promoted now
            (map_of (d_transfer_tickets d) t \<noteq> None)
            (int (length (filter (\<lambda>(r, t'). t' = t) (d_reservation_transfers d))))
            (int (length (filter (\<lambda>(i, s). sr_transfer_id s = Some t) (d_staging d))))
      in archive_transfer_receipt_state t (merge_failure_cleanup_contract t contract d))"

record StatusReply =
  sy_status :: TransferStatus
  sy_removed :: Removed
  sy_promoted :: "mapping list"

definition finalize_transfer_status_update ::
  "(string \<Rightarrow> string) \<Rightarrow> Promotion list \<Rightarrow> TransferStatus \<Rightarrow> rat \<Rightarrow> Daemon \<Rightarrow> Daemon \<times> StatusReply" where
  "finalize_transfer_status_update token promotions updated now d =
     (let t = ts_transfer_id updated; plan = terminal_finalization_plan updated;
          d1 = (case fp_event_type plan of
                  None \<Rightarrow> d
                | Some event \<Rightarrow> append_transfer_audit event t (ts_state updated) (fp_reason plan)
                                  (fp_failure_reason plan) d);
          (d2, r2) = (if fp_release_reservations plan
                      then release_reservations_for_transfer t (ts_state updated) (fp_reason plan) True now d1
                      else (d1, empty_removed));
          (d3, r3) = (case fp_retire_reason plan of
                        None \<Rightarrow> (d2, empty_removed)
                      | Some reason \<Rightarrow> retire_terminal_without_reservations t (Some reason) now d2);
          removed = merge_removed r2 r3;
          refresh = (case fp_refresh_admission plan of Always \<Rightarrow> True
                     | If_Transfer_Removed \<Rightarrow> rm_transfers removed > 0 | Never \<Rightarrow> False);
          d4 = (if refresh then fold (promote_delayed token now) promotions d3 else d3);
          promoted = (if refresh then promoted_transfers token now promotions d3 else []);
          d5 = (if fp_record_failure_cleanup_contract plan
                then record_failure_cleanup_contract t (ts_state updated)
                       (case fp_reason plan of None \<Rightarrow> ''None'' | Some r \<Rightarrow> r) removed promoted now d4
                else d4)
      in (d5, \<lparr>sy_status = updated, sy_removed = removed, sy_promoted = promoted\<rparr>))"

text \<open>A completion whose byte counts contradict the transfer fails it.\<close>

definition handle_transfer_status_mismatch ::
  "(string \<Rightarrow> string) \<Rightarrow> Promotion list \<Rightarrow> TransferStatus \<Rightarrow> string \<Rightarrow> rat \<Rightarrow> Daemon
     \<Rightarrow> (Daemon \<times> StatusReply response) result" where
  "handle_transfer_status_mismatch token promotions status mismatch now d =
     (let t = ts_transfer_id status
      in rbind (mark_transfer_terminal t FAILED (Some mismatch) now d) (\<lambda>d1.
         let d2 = append_transfer_audit ''detected_mismatch'' t FAILED (Some ''transfer_status_mismatch'')
                (Some mismatch) d1;
             d3 = fst (release_reservations_for_transfer t FAILED (Some ''transfer_status_mismatch'') True now d2);
             d4 = fst (retire_terminal_without_reservations t (Some ''transfer_status_mismatch'') now d3)
         in Inr (fold (promote_delayed token now) promotions d4, Refused mismatch)))"

section \<open>Reports about a transfer that has ended\<close>

text \<open>
  \<open>_supplement_terminal_completion_evidence_locked\<close>.  The missing ticket raises before the branch
  that would refuse for it, so that branch is never taken and the exception leaves the handler.
\<close>

definition supplement_terminal_evidence ::
  "(pyval \<Rightarrow> string) \<Rightarrow> TransferStatus \<Rightarrow> string option \<Rightarrow> pyval \<Rightarrow> rat \<Rightarrow> Daemon
     \<Rightarrow> (Daemon \<times> unit response) result" where
  "supplement_terminal_evidence str_of status completion_source evidence now d =
     (let t = ts_transfer_id status; source = lower (case completion_source of None \<Rightarrow> [] | Some s \<Rightarrow> s)
      in if evidence = VNone then Inr (d, Accepted ())
         else if \<not> is_execution_completion_source source
         then Inr (d, Refused ''terminal evidence update requires worker/backend source'')
         else if \<not> intent_requires_execution_evidence t d then Inr (d, Accepted ())
         else rbind (completion_ticket_for_transfer t d) (\<lambda>k.
              except_value_error
                (if ts_state status = COMPLETE
                 then normalize_completion_evidence str_of evidence (ts_bytes_total status) source (Some k)
                 else normalize_status_ticket_evidence str_of evidence k)
                (\<lambda>e. Inr (d, Refused e)) (\<lambda>supplemental.
              rbind (advance_block_runtime_for_status str_of status source (Some supplemental) now d)
                (\<lambda>(d1, progress).
              let existing = dget_default (d_completion_evidence d1) t [];
                  filed = (case with_block_progress t (Some supplemental) progress d1 of
                             None \<Rightarrow> supplemental | Some e \<Rightarrow> e);
                  d2 = d1\<lparr>d_completion_sources := AList.update t source (d_completion_sources d1),
                          d_completion_evidence := AList.update t
                            (merge_completion_evidence (Some existing) filed) (d_completion_evidence d1)\<rparr>
              in Inr (archive_transfer_receipt_state t d2, Accepted ())))))"

definition completion_release_blocked_reason ::
  "(pyval \<Rightarrow> string) \<Rightarrow> string \<Rightarrow> Daemon \<Rightarrow> string option result" where
  "completion_release_blocked_reason str_of t d =
     (let archived = map_of (d_receipt_archive d) t
      in if \<not> intent_requires_execution_evidence t d then Inr None
         else case or_else (map_of (d_statuses d) t) (map_option ta_status archived) of
                None \<Rightarrow> Inr (Some ''unknown transfer'')
              | Some status \<Rightarrow>
                  (case or_else (map_of (d_completion_evidence d) t) (map_option ta_completion_evidence archived) of
                     None \<Rightarrow> Inr (Some ''intent transfer release requires verified completion evidence'')
                   | Some evidence \<Rightarrow>
                       (let stored = (case map_of (d_completion_sources d) t of Some s \<Rightarrow> s
                              | None \<Rightarrow> (case archived of None \<Rightarrow> ''worker''
                                         | Some a \<Rightarrow> (case ta_completion_source a of None \<Rightarrow> ''None'' | Some s \<Rightarrow> s)));
                            source = (if stored = [] then ''worker'' else stored)
                        in except_value_error
                             (rbind (completion_ticket_for_transfer t d) (\<lambda>k.
                              normalize_completion_evidence str_of (VDict evidence) (ts_bytes_total status)
                                source (Some k)))
                             (\<lambda>e. Inr (Some e)) (\<lambda>_. Inr None))))"

text \<open>An operation that raises leaves the state as it found it.\<close>

definition raising :: "Daemon \<Rightarrow> (Daemon \<times> 'a) result \<Rightarrow> Daemon \<times> 'a result" where
  "raising d m = (case m of Inl e \<Rightarrow> (d, Inl e) | Inr (d', x) \<Rightarrow> (d', Inr x))"

definition handle_terminal_status_update ::
  "(pyval \<Rightarrow> string) \<Rightarrow> TransferStatus \<Rightarrow> TransferStatusState \<Rightarrow> int option \<Rightarrow> string option \<Rightarrow> string option
     \<Rightarrow> pyval \<Rightarrow> rat \<Rightarrow> Daemon \<Rightarrow> Daemon \<times> StatusReply response result" where
  "handle_terminal_status_update str_of status requested bytes_completed error completion_source evidence now d =
     (let ok = Accepted \<lparr>sy_status = status, sy_removed = empty_removed, sy_promoted = []\<rparr>
      in if requested = ts_state status \<and> status_bytes_match status bytes_completed \<and>
            (error = None \<or> error = ts_error status)
         then (case supplement_terminal_evidence str_of status completion_source evidence now d of
                 Inl e \<Rightarrow> (d, Inl e)
               | Inr (d1, Refused e) \<Rightarrow> (d1, Inr (Refused e))
               | Inr (d1, Accepted _) \<Rightarrow>
                   (d1, if ts_state status = COMPLETE
                        then rbind (completion_release_blocked_reason str_of (ts_transfer_id status) d1)
                               (\<lambda>blocked. Inr (case blocked of None \<Rightarrow> ok | Some e \<Rightarrow> Refused e))
                        else Inr ok))
         else (d, Inr (Refused ''terminal transfer status cannot be updated'')))"

section \<open>The handler\<close>

definition known_status :: "string \<Rightarrow> Daemon \<Rightarrow> TransferStatus option" where
  "known_status t d = or_else (map_of (d_statuses d) t) (map_option ta_status (map_of (d_receipt_archive d) t))"

definition updated_status ::
  "TransferStatus \<Rightarrow> TransferStatusState \<Rightarrow> int option \<Rightarrow> string option \<Rightarrow> TransferStatus" where
  "updated_status status requested bytes_completed error =
     status\<lparr>ts_state := requested,
       ts_bytes_completed := (case bytes_completed of None \<Rightarrow> ts_bytes_completed status
         | Some n \<Rightarrow> max (ts_bytes_completed status) n),
       ts_error := or_else error (ts_error status)\<rparr>"

text \<open>The part of \<open>transfer_status\<close> that applies an update which the admission and the byte counts allow.\<close>

definition apply_status_update ::
  "(pyval \<Rightarrow> string) \<Rightarrow> (string \<Rightarrow> string) \<Rightarrow> Promotion list \<Rightarrow> TransferStatus \<Rightarrow> string option \<Rightarrow> pyval \<Rightarrow> rat
     \<Rightarrow> Daemon \<Rightarrow> (Daemon \<times> StatusReply response) result" where
  "apply_status_update str_of token promotions updated completion_source evidence now d =
     rbind (normalize_evidence_update str_of updated completion_source evidence d) (\<lambda>answer.
     case answer of
       Refused e \<Rightarrow> Inr (d, Refused e)
     | Accepted u \<Rightarrow>
         rbind (advance_block_runtime_for_status str_of updated (eu_source u) (eu_evidence u) now d)
           (\<lambda>(d1, progress).
         let filed = with_block_progress (ts_transfer_id updated) (eu_evidence u) progress d1;
             d2 = persist_transfer_status_update updated (eu_source u) filed (eu_ticket u) now d1;
             (d3, reply) = finalize_transfer_status_update token promotions updated now d2
         in Inr (d3, Accepted reply)))"

definition transfer_status ::
  "(pyval \<Rightarrow> string) \<Rightarrow> (string \<Rightarrow> string) \<Rightarrow> Promotion list \<Rightarrow> string \<Rightarrow> string option \<Rightarrow> int option
     \<Rightarrow> string option \<Rightarrow> string option \<Rightarrow> pyval \<Rightarrow> PeerIdentity option \<Rightarrow> rat \<Rightarrow> Daemon
     \<Rightarrow> Daemon \<times> StatusReply response result" where
  "transfer_status str_of token promotions t state bytes_completed error completion_source evidence peer now d =
     (case known_status t d of
        None \<Rightarrow> (d, Inr (Refused ''unknown transfer''))
      | Some status \<Rightarrow>
          (case (if map_of (d_jobs d) (ts_job_id status) \<noteq> None
                 then validate_peer_owns_job (ts_job_id status) peer d
                 else validate_peer_owns_receipt_transfer (ts_transfer_id status) (ts_job_id status) peer d) of
             Inl e \<Rightarrow> (d, Inr (Refused (error_text e)))
           | Inr _ \<Rightarrow>
               if state = None \<and> bytes_completed = None \<and> error = None
               then (d, Inr (Accepted \<lparr>sy_status = status, sy_removed = empty_removed, sy_promoted = []\<rparr>))
               else (case (case state of None \<Rightarrow> Inr (ts_state status) | Some s \<Rightarrow> TransferStatusState_of s) of
                       Inl e \<Rightarrow> (d, Inr (Refused (error_text e)))
                     | Inr requested \<Rightarrow>
                         if terminal (ts_state status)
                         then handle_terminal_status_update str_of status requested bytes_completed error
                                completion_source evidence now d
                         else case status_update_blocked_reason (ts_transfer_id status) requested now d of
                                (d1, Some e) \<Rightarrow> (d1, Inr (Refused e))
                              | (d1, None) \<Rightarrow>
                                  (case mk_TransferStatus (updated_status status requested bytes_completed error) of
                                     Inl e \<Rightarrow>
                                       if requested = COMPLETE
                                       then raising d1 (handle_transfer_status_mismatch token promotions status
                                              (error_text e) now d1)
                                       else (d1, Inr (Refused (error_text e)))
                                   | Inr updated \<Rightarrow>
                                       raising d1 (apply_status_update str_of token promotions updated
                                         completion_source evidence now d1)))))"

end
