(* ===== verification/Daemon_Cleanup.thy ===== *)
theory Daemon_Cleanup
  imports Daemon_Status
begin

text \<open>
  The cleanup request of the daemon (\<open>cleanup\<close> in \<open>turbobus/daemon/server.py\<close>): the owner binding a
  worker may present for a reservation, the cleanup of reservations and of buffers, and the dispatch
  over the kinds of target.  An answer carries the counts of what was removed; the rest of its payload
  repeats the request.
\<close>

section \<open>Retention evidence\<close>

definition merge_retention_entry :: "string \<times> pyval \<Rightarrow> mapping \<Rightarrow> mapping" where
  "merge_retention_entry kv merged =
     (let (k, v) = kv
      in AList.update k (case (v, map_of merged k) of
           (VDict new, Some (VDict old)) \<Rightarrow> VDict (dict_merge old new) | _ \<Rightarrow> v) merged)"

definition merge_retention_evidence :: "mapping option \<Rightarrow> mapping option \<Rightarrow> mapping option" where
  "merge_retention_evidence existing incoming =
     (let e = (case existing of None \<Rightarrow> [] | Some m \<Rightarrow> m); i = (case incoming of None \<Rightarrow> [] | Some m \<Rightarrow> m)
      in if e = [] \<and> i = [] then None else Some (fold merge_retention_entry i e))"

text \<open>What the archived buffer snapshots of a transfer take over from the buffer's retention evidence.\<close>

definition copy_mapping :: "string \<Rightarrow> mapping \<Rightarrow> mapping \<Rightarrow> mapping" where
  "copy_mapping k from to = (case vget from k VNone of VDict m \<Rightarrow> AList.update k (VDict m) to | _ \<Rightarrow> to)"

definition as_mapping :: "pyval \<Rightarrow> mapping option" where
  "as_mapping v = (case v of VDict m \<Rightarrow> Some m | _ \<Rightarrow> None)"

definition buffer_snapshot_with_retention :: "mapping \<Rightarrow> mapping option \<Rightarrow> mapping \<Rightarrow> mapping" where
  "buffer_snapshot_with_retention retention archived snapshot =
     (let s1 = (case archived of
                  Some a \<Rightarrow> if map_of snapshot ''metadata'' = None then copy_mapping ''metadata'' a snapshot
                            else snapshot
                | None \<Rightarrow> snapshot)
      in case merge_retention_evidence (as_mapping (vget s1 ''retention_evidence'' VNone)) (Some retention) of
           None \<Rightarrow> s1
         | Some merged \<Rightarrow>
             copy_mapping ''owned_cpu_buffer_release'' merged
               (copy_mapping ''local_cpu_buffer_cleanup'' merged
                 (AList.update ''retention_evidence'' (VDict merged) s1)))"

definition peer_value :: "PeerIdentity \<Rightarrow> mapping" where
  "peer_value p =
     [(''authenticated'', VBool (pi_authenticated p)), (''source'', VStr (pi_source p)),
      (''user_id'', opt_value VStr (pi_user_id p)), (''process_id'', opt_value VInt (pi_process_id p)),
      (''group_id'', opt_value VInt (pi_group_id p)), (''container_id'', opt_value VStr (pi_container_id p)),
      (''unsupported_reason'', opt_value VStr (pi_unsupported_reason p))]"

definition buffer_snapshot_record :: "BufferRegistration \<Rightarrow> mapping" where
  "buffer_snapshot_record b =
     [(''buffer_id'', VStr (br_buffer_id b)), (''job_id'', VStr (br_job_id b)), (''kind'', VStr (br_kind b)),
      (''size_bytes'', VInt (br_size_bytes b)), (''device_index'', opt_value VInt (br_device_index b)),
      (''address'', opt_value VInt (br_address b)), (''pinned'', VBool (br_pinned b)),
      (''handle_type'', VStr (br_handle_type b)), (''metadata'', VDict (br_metadata b))]"

text \<open>\<open>_merge_buffer_retention_into_transfer_archive_locked\<close>.\<close>

definition merge_retention_into_archive ::
  "string \<Rightarrow> mapping \<Rightarrow> mapping option \<Rightarrow> string \<Rightarrow> Daemon \<Rightarrow> Daemon" where
  "merge_retention_into_archive buffer_id retention archived t d =
     (case map_of (d_receipt_archive d) t of
        None \<Rightarrow> d
      | Some a \<Rightarrow>
          d\<lparr>d_receipt_archive := AList.update t (a\<lparr>ta_buffer_snapshots :=
              map (\<lambda>(role, v). case v of
                  VDict s \<Rightarrow> if vget s ''buffer_id'' VNone = VStr buffer_id
                             then (role, VDict (buffer_snapshot_with_retention retention archived s))
                             else (role, v)
                | _ \<Rightarrow> (role, v)) (ta_buffer_snapshots a)\<rparr>) (d_receipt_archive d)\<rparr>)"

definition record_cleanup_retention ::
  "string \<Rightarrow> string \<Rightarrow> mapping option \<Rightarrow> Daemon \<Rightarrow> Daemon" where
  "record_cleanup_retention kind i retention d =
     (case (retention, map_of (d_retired_targets d) (kind, i)) of
        (Some m, Some r) \<Rightarrow>
          (case merge_retention_evidence (rt_retention r) (Some m) of
             None \<Rightarrow> d
           | Some merged \<Rightarrow>
               (let d1 = d\<lparr>d_retired_targets :=
                      AList.update (kind, i) (r\<lparr>rt_retention := Some merged\<rparr>) (d_retired_targets d)\<rparr>
                in if kind = ''buffer''
                   then fold (merge_retention_into_archive i merged
                          (map_option buffer_snapshot_record (rt_buffer_snapshot r))) (rt_transfer_ids r) d1
                   else d1))
      | _ \<Rightarrow> d)"

section \<open>The owner binding of a reservation\<close>

record OwnerBinding =
  ob_job_id :: string
  ob_session_id :: string
  ob_transfer_id :: string
  ob_lease_ids :: "string list"
  ob_peer :: "PeerIdentity option"

text \<open>An iterable that is not text, as the texts of its elements.\<close>

definition text_items :: "(pyval \<Rightarrow> string) \<Rightarrow> pyval \<Rightarrow> string list option" where
  "text_items str_of v = (case v of VList xs \<Rightarrow> Some (map (py_str str_of) xs) | VDict m \<Rightarrow> Some (dkeys m) | _ \<Rightarrow> None)"

text \<open>\<open>PeerIdentity(**mapping)\<close>; an unexpected or a missing argument is a TypeError.\<close>

definition peer_fields :: "string list" where
  "peer_fields = [''authenticated'', ''source'', ''user_id'', ''process_id'', ''group_id'', ''container_id'',
     ''unsupported_reason'']"

definition peer_from_mapping :: "(pyval \<Rightarrow> string) \<Rightarrow> mapping \<Rightarrow> PeerIdentity result" where
  "peer_from_mapping str_of m =
     (let opt_text = (\<lambda>k. if vget m k VNone = VNone then None else Some (py_str str_of (vget m k VNone)))
      in raise_if (\<not> set (dkeys m) \<subseteq> set peer_fields \<or> map_of m ''authenticated'' = None \<or> map_of m ''source'' = None)
           (TypeError ''PeerIdentity() arguments'') (
         rbind (optional py_int (vget m ''process_id'' VNone)) (\<lambda>process.
         rbind (optional py_int (vget m ''group_id'' VNone)) (\<lambda>group_id.
         mk_PeerIdentity \<lparr>pi_authenticated = truthy (vget m ''authenticated'' VNone),
           pi_source = py_str str_of (vget m ''source'' VNone), pi_user_id = opt_text ''user_id'',
           pi_process_id = process, pi_group_id = group_id, pi_container_id = opt_text ''container_id'',
           pi_unsupported_reason = opt_text ''unsupported_reason''\<rparr>))))"

definition normalized_cleanup_owner_binding ::
  "(pyval \<Rightarrow> string) \<Rightarrow> CleanupRequest \<Rightarrow> mapping \<Rightarrow> OwnerBinding result" where
  "normalized_cleanup_owner_binding str_of cleanup owner =
     (let text = (\<lambda>k. py_str str_of (vget owner k (VStr [])));
          error = (\<lambda>e. ValueError (''cleanup owner_binding '' @ e))
      in raise_if (blank (text ''job_id'')) (error ''job_id must be non-empty'') (
         raise_if (blank (text ''session_id'')) (error ''session_id must be non-empty'') (
         raise_if (blank (text ''transfer_id'')) (error ''transfer_id must be non-empty'') (
         case text_items str_of (vget owner ''lease_ids'' VNone) of
           None \<Rightarrow> Inl (error ''lease_ids must be iterable'')
         | Some leases \<Rightarrow>
             raise_if (leases = [] \<or> list_ex blank leases) (error ''lease_ids must be non-empty'') (
             case vget owner ''cleanup_scope'' VNone of
               VDict scope \<Rightarrow>
                 raise_if (lower (py_str str_of (vget scope ''target_kind'' (VStr []))) \<noteq> ''reservation'')
                   (error ''cleanup_scope must target reservations'') (
                 case text_items str_of (vget scope ''target_ids'' VNone) of
                   None \<Rightarrow> Inl (error ''cleanup_scope target_ids must be iterable'')
                 | Some targets \<Rightarrow>
                     raise_if (targets = [] \<or> list_ex blank targets)
                       (error ''cleanup_scope target_ids must be non-empty'') (
                     raise_if (targets \<noteq> leases) (error ''cleanup_scope does not match lease_ids'') (
                     raise_if (cr_target_id cleanup \<notin> set targets)
                       (ValueError ''cleanup target escaped daemon-issued cleanup scope'') (
                     rbind (case vget owner ''peer_identity'' VNone of
                              VDict m \<Rightarrow> rbind (peer_from_mapping str_of m) (\<lambda>p. Inr (Some p))
                            | _ \<Rightarrow> Inr None) (\<lambda>peer.
                     Inr \<lparr>ob_job_id = text ''job_id'', ob_session_id = text ''session_id'',
                          ob_transfer_id = text ''transfer_id'', ob_lease_ids = leases, ob_peer = peer\<rparr>)))))
             | _ \<Rightarrow> Inl (error ''cleanup_scope must be a mapping''))))))"

text \<open>\<open>int(item)\<close> of every relay of the binding, when they can be iterated.\<close>

definition relay_gpus_of_binding :: "mapping \<Rightarrow> int list result" where
  "relay_gpus_of_binding owner =
     (case vget owner ''relay_gpus'' VNone of
        VList xs \<Rightarrow> rmap py_int xs
      | VDict m \<Rightarrow> rmap (py_int \<circ> VStr) (dkeys m)
      | _ \<Rightarrow> Inr [])"

definition binding_matches_reservation ::
  "OwnerBinding \<Rightarrow> string \<Rightarrow> TransferReservation \<Rightarrow> PeerIdentity option \<Rightarrow> Daemon \<Rightarrow> unit result" where
  "binding_matches_reservation b i reservation peer d =
     raise_if (rv_session_id reservation \<noteq> ob_session_id b)
       (ValueError ''cleanup owner_binding session does not match reservation'') (
     case map_of (d_lease_tokens d) i of
       None \<Rightarrow> Inl (ValueError ''cleanup owner_binding lease token is unavailable'')
     | Some lease \<Rightarrow>
         raise_if (opt_holds (\<lambda>j. j \<noteq> ob_job_id b) (lt_job_id lease))
           (ValueError ''cleanup owner_binding job does not match lease'') (
         raise_if (map_of (d_reservation_transfers d) i \<noteq> Some (ob_transfer_id b))
           (ValueError ''cleanup owner_binding transfer does not match reservation'')
           (validate_peer_owns_lease i peer d)))"

definition binding_matches_staging ::
  "OwnerBinding \<Rightarrow> StagingRecord \<Rightarrow> PeerIdentity option \<Rightarrow> Daemon \<Rightarrow> unit result" where
  "binding_matches_staging b staging peer d =
     raise_if (sr_session_id staging \<noteq> ob_session_id b)
       (ValueError ''cleanup owner_binding session does not match staging record'') (
     raise_if (str_opt (sr_job_id staging) \<noteq> ob_job_id b)
       (ValueError ''cleanup owner_binding job does not match staging record'') (
     raise_if (str_opt (sr_transfer_id staging) \<noteq> ob_transfer_id b)
       (ValueError ''cleanup owner_binding transfer does not match staging record'')
       (validate_peer_owns_staging_record staging peer d)))"

text \<open>A reservation that is gone: the owner is the binding's, or else that of an archived transfer.\<close>

fun first_archived_owner :: "string list \<Rightarrow> Daemon \<Rightarrow> PeerIdentity option" where
  "first_archived_owner [] d = None"
| "first_archived_owner (t # ts) d = or_else (archived_transfer_owner_peer t d) (first_archived_owner ts d)"

definition binding_matches_archive ::
  "OwnerBinding \<Rightarrow> string \<Rightarrow> PeerIdentity option \<Rightarrow> PeerIdentity option \<Rightarrow> Daemon \<Rightarrow> PeerIdentity option result" where
  "binding_matches_archive b i owner peer d =
     (case map_of (d_retired_targets d) (''reservation'', i) of
        None \<Rightarrow> Inl (ValueError ''cleanup owner_binding references unknown reservation'')
      | Some target \<Rightarrow>
          (let ts = rt_transfer_ids target
           in raise_if (ts \<noteq> [] \<and> ob_transfer_id b \<notin> set ts)
                (ValueError ''cleanup owner_binding transfer does not match archived reservation'') (
              rbind (if ts = [] then Inr ()
                     else validate_peer_owns_receipt_transfer (ob_transfer_id b) (ob_job_id b) peer d) (\<lambda>_.
              case owner of
                Some p \<Rightarrow>
                  if authenticated (rt_peer target)
                  then rbind (validate_peer_owner_match (rt_peer target) owner ''reservation'') (\<lambda>_. Inr owner)
                  else Inr owner
              | None \<Rightarrow>
                  (let found = first_archived_owner ts d
                   in if found \<noteq> None \<and> authenticated peer
                      then rbind (validate_peer_owner_match found peer ''cleanup owner_binding'') (\<lambda>_. Inr found)
                      else Inr found)))))"

fun binding_matches_targets ::
  "OwnerBinding \<Rightarrow> string list \<Rightarrow> PeerIdentity option \<Rightarrow> PeerIdentity option \<Rightarrow> Daemon \<Rightarrow> unit result" where
  "binding_matches_targets b [] owner peer d = Inr ()"
| "binding_matches_targets b (i # is) owner peer d =
     (case map_of (d_reservations d) i of
        Some r \<Rightarrow> rbind (binding_matches_reservation b i r peer d) (\<lambda>_. binding_matches_targets b is owner peer d)
      | None \<Rightarrow>
          (case map_of (d_staging d) i of
             Some s \<Rightarrow> rbind (binding_matches_staging b s peer d) (\<lambda>_. binding_matches_targets b is owner peer d)
           | None \<Rightarrow> rbind (binding_matches_archive b i owner peer d)
                       (\<lambda>owner'. binding_matches_targets b is owner' peer d)))"

text \<open>Whether a binding was given and holds; a binding that does not hold raises out of the handler.\<close>

definition validate_cleanup_owner_binding ::
  "(pyval \<Rightarrow> string) \<Rightarrow> CleanupRequest \<Rightarrow> PeerIdentity option \<Rightarrow> Daemon \<Rightarrow> bool result" where
  "validate_cleanup_owner_binding str_of cleanup peer d =
     (case cr_owner_binding cleanup of
        None \<Rightarrow> Inr False
      | Some owner \<Rightarrow>
          raise_if (cr_target_kind cleanup \<noteq> ''reservation'')
            (ValueError ''cleanup owner_binding is only supported for reservations'') (
          rbind (normalized_cleanup_owner_binding str_of cleanup owner) (\<lambda>b.
          rbind (if ob_peer b \<noteq> None \<and> authenticated peer
                 then validate_peer_owner_match (ob_peer b) peer ''cleanup owner_binding'' else Inr ()) (\<lambda>_.
          rbind (binding_matches_targets b (ob_lease_ids b) (ob_peer b) peer d) (\<lambda>_.
          rbind (relay_gpus_of_binding owner) (\<lambda>_. Inr True))))))"

section \<open>Reservations\<close>

text \<open>Who may clean a reservation up without a binding; True asks for nothing to be done.\<close>

definition validate_reservation_cleanup_owner ::
  "CleanupRequest \<Rightarrow> PeerIdentity option \<Rightarrow> Daemon \<Rightarrow> bool result" where
  "validate_reservation_cleanup_owner c peer d =
     (let i = cr_target_id c
      in case validate_peer_owns_lease i peer d of
           Inr _ \<Rightarrow> Inr False
         | Inl e \<Rightarrow>
             if error_text e \<noteq> ''unknown lease'' then Inl e
             else case (if cr_force c then map_of (d_staging d) i else None) of
                    Some s \<Rightarrow> rbind (validate_peer_owns_staging_record s peer d) (\<lambda>_. Inr False)
                  | None \<Rightarrow>
                      if map_of (d_retired_targets d) (''reservation'', i) = None then Inl e
                      else if cr_force c then Inr False
                      else rbind (validate_peer_owns_missing_cleanup_target ''reservation'' i peer d)
                             (\<lambda>_. Inr True))"

definition cleanup_existing_reservation :: "CleanupRequest \<Rightarrow> rat \<Rightarrow> Daemon \<Rightarrow> Daemon \<times> Removed" where
  "cleanup_existing_reservation c now d =
     (let marks = (cr_reason c \<noteq> ''worker_complete'')
      in release_and_count (cr_target_id c) (if marks then CANCELED else COMPLETE) (Some (cr_reason c)) marks
           now d)"

definition release_is_empty :: "Removed \<Rightarrow> bool" where
  "release_is_empty r = (rm_reservations r = 0 \<and> rm_staging_records r = 0)"

text \<open>The argument \<open>bound\<close> says that an owner binding was given and holds.\<close>

definition cleanup_reservation_target ::
  "(string \<Rightarrow> string) \<Rightarrow> Promotion list \<Rightarrow> CleanupRequest \<Rightarrow> bool \<Rightarrow> PeerIdentity option \<Rightarrow> rat \<Rightarrow> Daemon
     \<Rightarrow> Daemon \<times> Removed response" where
  "cleanup_reservation_target token promotions c bound peer now d =
     (let i = cr_target_id c;
          file_retention = record_cleanup_retention (cr_target_kind c) i (cr_retention_evidence c)
      in case (if bound then Inr False else validate_reservation_cleanup_owner c peer d) of
           Inl e \<Rightarrow> (d, Refused (error_text e))
         | Inr True \<Rightarrow> (d, Accepted empty_removed)
         | Inr False \<Rightarrow>
             if map_of (d_reservations d) i = None \<and> map_of (d_staging d) i = None
             then (if map_of (d_retired_targets d) (cr_target_kind c, i) = None
                   then (d, Refused ''unknown reservation'')
                   else guarded (if bound then Inr ()
                                 else validate_peer_owns_missing_cleanup_target (cr_target_kind c) i peer d) d
                          (file_retention d, Accepted empty_removed))
             else let (d1, removed) = cleanup_existing_reservation c now d
                  in if release_is_empty removed \<and> \<not> cr_force c then (d1, Refused ''unknown reservation'')
                     else finalize_cleanup token promotions c removed now (file_retention d1))"

section \<open>Buffers\<close>

definition retired_target_value :: "string \<Rightarrow> string \<Rightarrow> RetiredTarget \<Rightarrow> mapping" where
  "retired_target_value kind i r =
     [(''target_kind'', VStr kind), (''target_id'', VStr i),
      (''peer_identity'', opt_value (VDict \<circ> peer_value) (rt_peer r)),
      (''reason'', opt_value VStr (rt_reason r)), (''retired_at'', VFloat (rt_retired_at r)),
      (''transfer_ids'', VList (map VStr (rt_transfer_ids r)))] @
     (case rt_buffer_snapshot r of None \<Rightarrow> []
      | Some b \<Rightarrow> [(''buffer_snapshot'', VDict (buffer_snapshot_record b))]) @
     (case rt_retention r of None \<Rightarrow> [] | Some m \<Rightarrow> [(''retention_evidence'', VDict m)])"

text \<open>\<open>_buffer_ownership_record_locked\<close>.\<close>

definition buffer_ownership_record :: "string \<Rightarrow> Daemon \<Rightarrow> mapping" where
  "buffer_ownership_record i d =
     (case (map_of (d_buffers d) i, map_of (d_retired_targets d) (''buffer'', i)) of
        (None, Some r) \<Rightarrow>
          [(''buffer_id'', VStr i), (''state'', VStr ''retired''),
           (''job_id'', opt_value (VStr \<circ> br_job_id) (rt_buffer_snapshot r)),
           (''transfer_ids'', VList (map VStr (rt_transfer_ids r))), (''active_lease_ids'', VList []),
           (''active_ticket_ids'', VList []), (''protected'', VBool False),
           (''retired_target'', VDict (retired_target_value ''buffer'' i r))]
      | (buffer, _) \<Rightarrow>
          (let job_id = map_option br_job_id buffer; job = Option.bind job_id (map_of (d_jobs d))
           in [(''buffer_id'', VStr i), (''state'', VStr (if buffer = None then ''unknown'' else ''registered'')),
               (''job_id'', opt_value VStr job_id),
               (''session_id'', opt_value VStr (Option.bind job ji_session_id)),
               (''active_lease_ids'', VList (map VStr (active_buffer_lease_ids i d))),
               (''active_ticket_ids'', VList (map VStr (active_buffer_ticket_ids i d))),
               (''transfer_ids'', VList (map VStr (transfer_ids_for_buffer i d))),
               (''protected'', VBool (active_buffer_lease_ids i d \<noteq> [] \<or> active_buffer_ticket_ids i d \<noteq> [])),
               (''peer_identity'', opt_value (VDict \<circ> peer_value) (Option.bind job_id (map_of (d_job_peers d))))]))"

definition buffer_cleanup_evidence :: "string \<Rightarrow> string \<Rightarrow> rat \<Rightarrow> Daemon \<Rightarrow> mapping" where
  "buffer_cleanup_evidence i reason now d =
     [(''daemon_buffer_ownership'', VDict (buffer_ownership_record i d)), (''cleanup_reason'', VStr reason),
      (''cleanup_recorded_at'', VFloat now)]"

definition removed_buffer_evidence :: "string \<Rightarrow> string \<Rightarrow> rat \<Rightarrow> Daemon \<Rightarrow> mapping" where
  "removed_buffer_evidence i reason now d =
     buffer_cleanup_evidence i reason now d @
     [(''retired_target'', opt_value (VDict \<circ> retired_target_value ''buffer'' i)
        (map_of (d_retired_targets d) (''buffer'', i)))]"

text \<open>\<open>_protect_active_buffer_cleanup_locked\<close>, for a registered buffer that is not protected.\<close>

definition archive_cleaned_buffer ::
  "CleanupRequest \<Rightarrow> BufferRegistration \<Rightarrow> PeerIdentity option \<Rightarrow> rat \<Rightarrow> Daemon \<Rightarrow> Daemon" where
  "archive_cleaned_buffer c buffer peer now d =
     (let i = cr_target_id c;
          incoming = merge_retention_evidence (Some (buffer_cleanup_evidence i (cr_reason c) now d))
            (cr_retention_evidence c);
          d1 = archive_cleanup_target (cr_target_kind c) i peer (Some (cr_reason c))
            (transfer_ids_for_buffer i d) (Some buffer) now d
      in d1\<lparr>d_retired_targets := modify (cr_target_kind c, i)
             (\<lambda>r. r\<lparr>rt_retention := merge_retention_evidence (rt_retention r) incoming\<rparr>) (d_retired_targets d1)\<rparr>)"

definition remove_buffer_cleanup_state ::
  "CleanupRequest \<Rightarrow> string list \<Rightarrow> rat \<Rightarrow> Daemon \<Rightarrow> Daemon \<times> Removed" where
  "remove_buffer_cleanup_state c transfer_ids now d =
     (let i = cr_target_id c;
          (d1, canceled) = cancel_and_retire transfer_ids (cr_reason c) now
            (d\<lparr>d_buffers := AList.delete i (d_buffers d)\<rparr>)
      in (d1, empty_removed\<lparr>rm_buffers := (if map_of (d_buffers d) i = None then 0 else 1),
                            rm_transfers := canceled\<rparr>))"

definition cleanup_buffer_target ::
  "(string \<Rightarrow> string) \<Rightarrow> Promotion list \<Rightarrow> CleanupRequest \<Rightarrow> PeerIdentity option \<Rightarrow> rat \<Rightarrow> Daemon
     \<Rightarrow> Daemon \<times> Removed response" where
  "cleanup_buffer_target token promotions c peer now d =
     (let i = cr_target_id c; buffer = map_of (d_buffers d) i;
          missing = validate_peer_owns_missing_cleanup_target (cr_target_kind c) i peer d
      in if buffer = None \<and> \<not> cr_force c
         then (if map_of (d_retired_targets d) (cr_target_kind c, i) = None then (d, Refused ''unknown buffer'')
               else guarded missing d
                      (record_cleanup_retention (cr_target_kind c) i (cr_retention_evidence c) d,
                       Accepted empty_removed))
         else guarded (if buffer = None then missing else validate_peer_owns_buffer i peer d) d
                (if buffer \<noteq> None \<and> buffer_protected i d
                 then (d, Refused ''buffer has active daemon-issued execution'')
                 else let d1 = (case buffer of None \<Rightarrow> d | Some b \<Rightarrow> archive_cleaned_buffer c b peer now d);
                          transfer_ids = transfer_ids_for_buffer i d1;
                          (d2, r2) = release_all (active_buffer_lease_ids i d1) CANCELED
                                       (Some (cr_reason c)) True now d1;
                          (d3, r3) = remove_buffer_cleanup_state c transfer_ids now d2;
                          d4 = record_cleanup_retention (cr_target_kind c) i
                                 (merge_retention_evidence (Some (removed_buffer_evidence i (cr_reason c) now d3))
                                   (cr_retention_evidence c)) d3
                      in finalize_cleanup token promotions c (merge_removed r2 r3) now d4))"

section \<open>The handler\<close>

definition cleanup ::
  "(pyval \<Rightarrow> string) \<Rightarrow> (string \<Rightarrow> string) \<Rightarrow> Promotion list \<Rightarrow> CleanupRequest \<Rightarrow> PeerIdentity option \<Rightarrow> rat
     \<Rightarrow> Daemon \<Rightarrow> (Daemon \<times> Removed response) result" where
  "cleanup str_of token promotions raw peer now d =
     rbind (mk_CleanupRequest raw) (\<lambda>c.
     rbind (validate_cleanup_owner_binding str_of c peer d) (\<lambda>bound.
     Inr (if cr_target_kind c = ''job'' then cleanup_job_target token promotions c peer now d
          else if cr_target_kind c = ''buffer'' then cleanup_buffer_target token promotions c peer now d
          else if cr_target_kind c = ''session'' then cleanup_session_target token promotions c peer now d
          else if cr_target_kind c = ''reservation''
          then cleanup_reservation_target token promotions c bound peer now d
          else (d, Refused ''unsupported cleanup target''))))"

end
