(* ===== verification/Daemon_Updates.thy ===== *)
theory Daemon_Updates
  imports Daemon_Requests Daemon_Cleanup
begin

text \<open>
  Status updates and cleanup requests keep the daemon's invariant: they touch its ledger only by
  releasing reservations, by promoting delayed transfers and by removing a buffer.
\<close>

section \<open>What the bookkeeping of an update leaves alone\<close>

lemma core_fields [simp]:
  "core (d\<lparr>d_completion_evidence := a\<rparr>) = core d"
  "core (d\<lparr>d_receipt_archive := b\<rparr>) = core d"
  "core (d\<lparr>d_completion_tickets := c\<rparr>) = core d"
  "core (d\<lparr>d_completion_sources := e\<rparr>) = core d"
  "core (d\<lparr>d_block_runtime := f\<rparr>) = core d"
  "core (d\<lparr>d_retired_targets := g\<rparr>) = core d"
  "core (d\<lparr>d_completion_sources := e, d_completion_evidence := a\<rparr>) = core d"
  by (simp_all add: core_def)

lemma core_fold_audit [simp]: "core (fold (\<lambda>x. append_audit (g x)) xs d) = core d"
  by (induction xs arbitrary: d) auto

lemma core_transfer_audit [simp]: "core (append_transfer_audit event t s r f d) = core d"
  by (simp add: append_transfer_audit_def Let_def)

lemma core_advance: "advance_block_runtime_for_status str_of st src ev now d = Inr (d', p) \<Longrightarrow> core d' = core d"
  by (auto simp: advance_block_runtime_for_status_def Let_def result_simps split: if_splits)

lemma core_persist [simp]: "core (persist_transfer_status_update u src ev k now d) = core d"
  by (simp add: persist_transfer_status_update_def Let_def split: option.splits)

lemma core_retire_terminal [simp]: "core (fst (retire_terminal_without_reservations t r now d)) = core d"
  by (simp add: retire_terminal_without_reservations_def split: option.splits)

lemma core_contract [simp]: "core (record_failure_cleanup_contract t s e r p now d) = core d"
  by (simp add: record_failure_cleanup_contract_def merge_failure_cleanup_contract_def Let_def split: option.splits)

lemma core_mark_transfer: "mark_transfer_terminal t s e now d = Inr d' \<Longrightarrow> core d' = core d"
  by (auto simp: mark_transfer_terminal_def split: option.splits if_splits)

lemma core_supplement: "supplement_terminal_evidence str_of st src ev now d = Inr (d', r) \<Longrightarrow> core d' = core d"
  by (auto simp: supplement_terminal_evidence_def except_value_error_def Let_def result_simps core_advance
      split: if_splits sum.splits)

lemma core_status_check [simp]: "core (fst (status_update_blocked_reason t s now d)) = core d"
  by (cases "validate_transfer_admission t None now d")
     (use core_admission_check [of t None "now" d] in
       \<open>auto simp: status_update_blocked_reason_def simp del: core_admission_check split: option.splits\<close>)

section \<open>Releasing\<close>

lemma ok_same:
  assumes "core d' = core d"
  shows "daemon_ok d \<Longrightarrow> daemon_ok d'" and "promotions_ok ps d \<Longrightarrow> promotions_ok ps d'"
  using daemon_ok_core [OF assms] promotions_ok_shrinks [OF shrinks_core [OF assms [symmetric]]] by simp_all

lemma release_transfer_ok:
  assumes "daemon_ok d"
  shows "daemon_ok (fst (release_reservations_for_transfer t s r m now d))"
    and "promotions_ok ps d \<Longrightarrow> promotions_ok ps (fst (release_reservations_for_transfer t s r m now d))"
  using assms daemon_ok_release_all promotions_ok_shrinks [OF shrinks_release_all]
  by (simp_all add: release_reservations_for_transfer_def)

section \<open>Status updates\<close>

lemma finalize_status_ok:
  assumes ok: "daemon_ok d" and ps: "promotions_ok ps d"
  shows "daemon_ok (fst (finalize_transfer_status_update token ps u now d))"
proof -
  define t where "t = ts_transfer_id u"
  define plan where "plan = terminal_finalization_plan u"
  define d1 where "d1 = (case fp_event_type plan of None \<Rightarrow> d
    | Some event \<Rightarrow> append_transfer_audit event t (ts_state u) (fp_reason plan) (fp_failure_reason plan) d)"
  define d2 where "d2 = (if fp_release_reservations plan
    then release_reservations_for_transfer t (ts_state u) (fp_reason plan) True now d1 else (d1, empty_removed))"
  define d3 where "d3 = (case fp_retire_reason plan of None \<Rightarrow> (fst d2, empty_removed)
    | Some reason \<Rightarrow> retire_terminal_without_reservations t (Some reason) now (fst d2))"
  have "core d1 = core d" by (simp add: d1_def split: option.split)
  then have 1: "daemon_ok d1" "promotions_ok ps d1" using ok_same ok ps by blast+
  then have 2: "daemon_ok (fst d2)" "promotions_ok ps (fst d2)" by (auto simp: d2_def release_transfer_ok)
  have "core (fst d3) = core (fst d2)" by (simp add: d3_def split: option.split)
  then have 3: "daemon_ok (fst d3)" "promotions_ok ps (fst d3)" using ok_same 2 by blast+
  then have 4: "daemon_ok (fold (promote_delayed token now) ps (fst d3))" by (rule promotions_fold_ok)
  have contract: "daemon_ok (record_failure_cleanup_contract t s e r p now d')" if "daemon_ok d'" for s e r p d'
    using that ok_same(1) [OF core_contract] by blast
  show ?thesis
    using 3 4 contract
    unfolding finalize_transfer_status_update_def Let_def t_def [symmetric] plan_def [symmetric]
      d1_def [symmetric] d2_def [symmetric] case_prod_beta d3_def [symmetric]
    by simp
qed

lemma mismatch_ok:
  assumes "daemon_ok d" and "promotions_ok ps d"
    and "handle_transfer_status_mismatch token ps st e now d = Inr (d', r)"
  shows "daemon_ok d'"
proof -
  define t where "t = ts_transfer_id st"
  obtain d1 where d1: "mark_transfer_terminal t FAILED (Some e) now d = Inr d1"
    and d': "d' = fold (promote_delayed token now) ps (fst (retire_terminal_without_reservations t
      (Some ''transfer_status_mismatch'') now (fst (release_reservations_for_transfer t FAILED
        (Some ''transfer_status_mismatch'') True now (append_transfer_audit ''detected_mismatch'' t FAILED
          (Some ''transfer_status_mismatch'') (Some e) d1)))))"
    using assms(3) by (auto simp: handle_transfer_status_mismatch_def Let_def t_def result_simps)
  let ?d2 = "append_transfer_audit ''detected_mismatch'' t FAILED (Some ''transfer_status_mismatch'') (Some e) d1"
  have "core ?d2 = core d" using core_mark_transfer [OF d1] by simp
  then have "daemon_ok ?d2" "promotions_ok ps ?d2" using ok_same assms by blast+
  then have "daemon_ok (fst (release_reservations_for_transfer t FAILED (Some ''transfer_status_mismatch'') True now ?d2))"
    "promotions_ok ps (fst (release_reservations_for_transfer t FAILED (Some ''transfer_status_mismatch'') True now ?d2))"
    by (simp_all add: release_transfer_ok)
  then show ?thesis
    unfolding d' by (intro promotions_fold_ok) (use ok_same [OF core_retire_terminal] in blast)+
qed

lemma apply_status_update_cases:
  assumes "apply_status_update str_of token ps u src ev now d = Inr (d', r)"
  obtains (refused) e where "d' = d" "r = Refused e"
      "normalize_evidence_update str_of u src ev d = Inr (Refused e)"
  | (accepted) v d1 p d2 where
      "normalize_evidence_update str_of u src ev d = Inr (Accepted v)"
      "advance_block_runtime_for_status str_of u (eu_source v) (eu_evidence v) now d = Inr (d1, p)"
      "d2 = persist_transfer_status_update u (eu_source v)
         (with_block_progress (ts_transfer_id u) (eu_evidence v) p d1) (eu_ticket v) now d1"
      "d' = fst (finalize_transfer_status_update token ps u now d2)"
      "r = Accepted (snd (finalize_transfer_status_update token ps u now d2))"
proof -
  obtain ans where n: "normalize_evidence_update str_of u src ev d = Inr ans"
    using assms by (auto simp: apply_status_update_def result_simps)
  show thesis
  proof (cases ans)
    case (Refused e)
    with assms n show thesis by (intro that(1)) (simp_all add: apply_status_update_def)
  next
    case (Accepted v)
    with assms n obtain d1 p where a: "advance_block_runtime_for_status str_of u (eu_source v) (eu_evidence v) now d = Inr (d1, p)"
      by (auto simp: apply_status_update_def result_simps)
    show thesis
      by (rule that(2) [OF _ a refl])
         (use assms n Accepted a in \<open>simp_all add: apply_status_update_def Let_def case_prod_beta\<close>)
  qed
qed

lemma apply_update_ok:
  assumes "daemon_ok d" and "promotions_ok ps d"
    and "apply_status_update str_of token ps u src ev now d = Inr (d', r)"
  shows "daemon_ok d'"
  using assms(3)
proof (cases rule: apply_status_update_cases)
  case (accepted v d1 p d2)
  have "core d2 = core d" using core_advance [OF accepted(2)] by (simp add: accepted(3))
  then have "daemon_ok d2" "promotions_ok ps d2" using ok_same assms(1,2) by blast+
  then show ?thesis unfolding accepted(4) by (rule finalize_status_ok)
qed (simp add: assms(1))

lemma raising_ok: "daemon_ok d \<Longrightarrow> (\<And>d' x. m = Inr (d', x) \<Longrightarrow> daemon_ok d') \<Longrightarrow> daemon_ok (fst (raising d m))"
  by (auto simp: raising_def split: sum.splits)

lemma terminal_update_ok:
  "daemon_ok d \<Longrightarrow> daemon_ok (fst (handle_terminal_status_update str_of st req n e src ev now d))"
  using ok_same(1) [OF core_supplement]
  by (auto simp: handle_terminal_status_update_def Let_def split: sum.splits prod.splits response.splits)

text \<open>How a status request can go.\<close>

definition may_update :: "TransferStatus \<Rightarrow> PeerIdentity option \<Rightarrow> Daemon \<Rightarrow> unit result" where
  "may_update st peer d =
     (if map_of (d_jobs d) (ts_job_id st) \<noteq> None then validate_peer_owns_job (ts_job_id st) peer d
      else validate_peer_owns_receipt_transfer (ts_transfer_id st) (ts_job_id st) peer d)"

lemma transfer_status_cases:
  obtains (unchanged) "fst (transfer_status str_of token ps t state n e src ev peer now d) = d"
      "\<And>y. snd (transfer_status str_of token ps t state n e src ev peer now d) = Inr (Accepted y) \<Longrightarrow>
       y = \<lparr>sy_status = the (known_status t d), sy_removed = empty_removed, sy_promoted = []\<rparr>"
  | (ended) st req where "known_status t d = Some st" "may_update st peer d = Inr ()" "terminal (ts_state st)"
      "(case state of None \<Rightarrow> Inr (ts_state st) | Some x \<Rightarrow> TransferStatusState_of x) = Inr req"
      "transfer_status str_of token ps t state n e src ev peer now d =
         handle_terminal_status_update str_of st req n e src ev now d"
  | (blocked) st req x d1 where "known_status t d = Some st" "\<not> terminal (ts_state st)"
      "status_update_blocked_reason (ts_transfer_id st) req now d = (d1, x)"
      "fst (transfer_status str_of token ps t state n e src ev peer now d) = d1"
      "\<exists>x. snd (transfer_status str_of token ps t state n e src ev peer now d) = Inr (Refused x)"
  | (mismatch) st d1 x where "known_status t d = Some st" "\<not> terminal (ts_state st)"
      "status_update_blocked_reason (ts_transfer_id st) COMPLETE now d = (d1, None)"
      "transfer_status str_of token ps t state n e src ev peer now d =
         raising d1 (handle_transfer_status_mismatch token ps st x now d1)"
  | (applied) st req d1 u where "known_status t d = Some st" "may_update st peer d = Inr ()" "\<not> terminal (ts_state st)"
      "(case state of None \<Rightarrow> Inr (ts_state st) | Some x \<Rightarrow> TransferStatusState_of x) = Inr req"
      "status_update_blocked_reason (ts_transfer_id st) req now d = (d1, None)"
      "mk_TransferStatus (updated_status st req n e) = Inr u"
      "transfer_status str_of token ps t state n e src ev peer now d =
         raising d1 (apply_status_update str_of token ps u src ev now d1)"
proof (cases "known_status t d")
  case None
  then show thesis by (intro unchanged) (simp_all add: transfer_status_def)
next
  case (Some st)
  note S = Some
  show thesis
  proof (cases "may_update st peer d")
    case (Inl x)
    with S show thesis by (intro unchanged) (simp_all add: transfer_status_def may_update_def)
  next
    case (Inr x)
    then have own: "may_update st peer d = Inr ()" by simp
    show thesis
    proof (cases "state = None \<and> n = None \<and> e = None")
      case True
      with S own show thesis by (intro unchanged) (simp_all add: transfer_status_def may_update_def)
    next
      case asks: False
      define which where "which = (case state of None \<Rightarrow> Inr (ts_state st) | Some x \<Rightarrow> TransferStatusState_of x)"
      have eq: "transfer_status str_of token ps t state n e src ev peer now d = (case which of
             Inl x \<Rightarrow> (d, Inr (Refused (error_text x)))
           | Inr req \<Rightarrow>
               if terminal (ts_state st) then handle_terminal_status_update str_of st req n e src ev now d
               else case status_update_blocked_reason (ts_transfer_id st) req now d of
                      (d1, Some x) \<Rightarrow> (d1, Inr (Refused x))
                    | (d1, None) \<Rightarrow>
                        (case mk_TransferStatus (updated_status st req n e) of
                           Inl x \<Rightarrow> if req = COMPLETE
                                   then raising d1 (handle_transfer_status_mismatch token ps st (error_text x) now d1)
                                   else (d1, Inr (Refused (error_text x)))
                         | Inr u \<Rightarrow> raising d1 (apply_status_update str_of token ps u src ev now d1)))"
        unfolding transfer_status_def may_update_def [symmetric] which_def [symmetric] S option.case own sum.case
          if_not_P [OF asks] ..
      show thesis
      proof (cases which)
        case (Inl x)
        then show thesis by (intro unchanged) (simp_all add: eq)
      next
        case w: (Inr req)
        obtain d1 b where blocked: "status_update_blocked_reason (ts_transfer_id st) req now d = (d1, b)"
          by (cases "status_update_blocked_reason (ts_transfer_id st) req now d")
        show thesis
        proof (cases "terminal (ts_state st)")
          case True
          then show thesis using S own w by (intro ended [of st req]) (simp_all add: eq which_def)
        next
          case live: False
          show thesis
          proof (cases b)
            case (Some x)
            then show thesis using S w blocked live
              by (intro that(3) [OF _ _ blocked]) (simp_all add: eq)
          next
            case None
            show thesis
            proof (cases "mk_TransferStatus (updated_status st req n e)")
              case (Inl x)
              show thesis
              proof (cases "req = COMPLETE")
                case True
                then show thesis using S w blocked live None Inl
                  by (intro mismatch [of st d1 "error_text x"]) (simp_all add: eq)
              next
                case False
                then show thesis using S w blocked live None Inl
                  by (intro that(3) [OF _ _ blocked]) (simp_all add: eq)
              qed
            next
              case (Inr u)
              then show thesis using S own w blocked live None
                by (intro applied [of st req d1 u]) (simp_all add: eq which_def)
            qed
          qed
        qed
      qed
    qed
  qed
qed

lemma transfer_status_ok:
  assumes ok: "daemon_ok d" and ps: "promotions_ok ps d"
  shows "daemon_ok (fst (transfer_status str_of token ps t state n e src ev peer now d))"
proof -
  have checked: "daemon_ok d1" "promotions_ok ps d1"
    if "status_update_blocked_reason i req now d = (d1, b)" for i req b d1
  proof -
    have "core d1 = core d" using core_status_check [of i req "now" d] that by simp
    then show "daemon_ok d1" "promotions_ok ps d1" using ok_same ok ps by blast+
  qed
  show ?thesis
  proof (cases rule: transfer_status_cases [of str_of token ps t state n e src ev peer "now" d])
    case (mismatch st d1 x)
    then show ?thesis using checked [OF mismatch(3)] by (auto intro!: raising_ok intro: mismatch_ok)
  next
    case (applied st req d1 u)
    then show ?thesis using checked [OF applied(5)] by (auto intro!: raising_ok intro: apply_update_ok)
  qed (simp_all add: ok terminal_update_ok checked)
qed

section \<open>Cleanup\<close>

lemma core_retention [simp]: "core (record_cleanup_retention k i m d) = core d"
proof -
  have "core (fold (\<lambda>t. merge_retention_into_archive b r a t) ts d) = core d" for b r a ts and d :: Daemon
    by (induction ts arbitrary: d) (auto simp: merge_retention_into_archive_def split: option.splits)
  then show ?thesis by (simp add: record_cleanup_retention_def Let_def split: option.splits)
qed

lemma core_archive_buffer [simp]: "core (archive_cleaned_buffer c b peer now d) = core d"
  by (simp add: archive_cleaned_buffer_def Let_def)

lemma delete_buffer_ok: "daemon_ok d \<Longrightarrow> daemon_ok (d\<lparr>d_buffers := AList.delete i (d_buffers d)\<rparr>)"
  by (auto simp: daemon_ok_def ledger_ok_def tables_ok_def)

lemma cleanup_reservation_ok:
  assumes "daemon_ok d" and "promotions_ok ps d"
  shows "daemon_ok (fst (cleanup_reservation_target token ps c bound peer now d))"
proof -
  let ?d = "fst (cleanup_existing_reservation c now d)"
  have "daemon_ok ?d" "promotions_ok ps ?d"
    using daemon_ok_release_all [OF assms(1), of "[cr_target_id c]"]
      promotions_ok_shrinks [OF shrinks_release_all [of d "[cr_target_id c]"] assms(2)]
    by (simp_all add: cleanup_existing_reservation_def Let_def case_prod_beta)
  then have "daemon_ok ?d"
    "daemon_ok (fst (finalize_cleanup token ps c removed now (record_cleanup_retention k i m ?d)))" for removed k i m
    using ok_same [OF core_retention] finalize_cleanup_ok by blast+
  then show ?thesis
    using assms(1) ok_same(1) [OF core_retention]
    unfolding cleanup_reservation_target_def Let_def case_prod_beta
    by (auto intro!: guarded_keeps [where P = daemon_ok] split: sum.splits bool.splits)
qed

lemma cleanup_buffer_ok:
  assumes "daemon_ok d" and "promotions_ok ps d"
  shows "daemon_ok (fst (cleanup_buffer_target token ps c peer now d))"
proof -
  define d1 where "d1 = (case map_of (d_buffers d) (cr_target_id c) of None \<Rightarrow> d
    | Some b \<Rightarrow> archive_cleaned_buffer c b peer now d)"
  define d2 where "d2 = fst (release_all (active_buffer_lease_ids (cr_target_id c) d1) CANCELED (Some (cr_reason c)) True now d1)"
  define d3 where "d3 = fst (remove_buffer_cleanup_state c (transfer_ids_for_buffer (cr_target_id c) d1) now d2)"
  have "core d1 = core d" by (simp add: d1_def split: option.split)
  then have "daemon_ok d1" "promotions_ok ps d1" using ok_same assms by blast+
  then have 2: "daemon_ok d2" "promotions_ok ps d2"
    unfolding d2_def using daemon_ok_release_all promotions_ok_shrinks [OF shrinks_release_all] by blast+
  let ?e = "d2\<lparr>d_buffers := AList.delete (cr_target_id c) (d_buffers d2)\<rparr>"
  have "daemon_ok ?e" "promotions_ok ps ?e"
    using 2 by (simp_all add: delete_buffer_ok promotions_ok_def leases_fresh_def)
  moreover have "core d3 = core ?e"
    by (simp add: d3_def remove_buffer_cleanup_state_def Let_def case_prod_beta core_cancel)
  ultimately have "daemon_ok d3" "promotions_ok ps d3" using ok_same by blast+
  then have "daemon_ok (fst (finalize_cleanup token ps c removed now (record_cleanup_retention k i m d3)))"
    for removed k i m
    using ok_same [OF core_retention] finalize_cleanup_ok by blast
  moreover have "daemon_ok (record_cleanup_retention k i m d)" for k i m
    using ok_same(1) [OF core_retention] assms(1) by blast
  ultimately show ?thesis
    using assms(1)
    unfolding cleanup_buffer_target_def Let_def case_prod_beta d1_def [symmetric] d2_def [symmetric] d3_def [symmetric]
    by (auto intro!: guarded_keeps [where P = daemon_ok])
qed

lemma cleanup_ok:
  "daemon_ok d \<Longrightarrow> promotions_ok ps d \<Longrightarrow> cleanup str_of token ps raw peer now d = Inr (d', r) \<Longrightarrow> daemon_ok d'"
  using cleanup_reservation_ok [of d ps token] cleanup_buffer_ok [of d ps token]
    cleanup_job_target_ok [of d ps token] cleanup_session_target_ok [of d ps token]
  by (auto simp: cleanup_def result_simps split: if_splits) (metis fst_conv)+

end
