(* ===== verification/Daemon_Intents.thy ===== *)
theory Daemon_Intents
  imports Daemon_Updates
begin

text \<open>
  Transfer intents: the ticket the daemon issues for a plan (\<open>turbobus/daemon/receipts.py\<close> and
  \<open>turbobus/daemon/server.py\<close>) and the two critical sections of \<open>_submit_transfer_intent_impl\<close>, before and
  after the transfer is planned.  The daemon gives its lock up in between, so they are separate
  operations.  Receipts and reply payloads are reduced to the ids they are about.
\<close>

section \<open>Tickets\<close>

definition direction_of_path :: "(pyval \<Rightarrow> string) \<Rightarrow> mapping \<Rightarrow> string" where
  "direction_of_path str_of path = lower (py_str str_of (vget path ''direction'' (VStr [])))"

fun first_direction :: "(pyval \<Rightarrow> string) \<Rightarrow> pyval list \<Rightarrow> string result" where
  "first_direction str_of [] = Inl (ValueError ''scheduling decision plan has no direction'')"
| "first_direction str_of (VDict a # as) =
     (case vget a ''path'' VNone of
        VDict path \<Rightarrow> if direction_of_path str_of path \<in> {''h2d'', ''d2h''} then Inr (direction_of_path str_of path)
                      else first_direction str_of as
      | _ \<Rightarrow> first_direction str_of as)"
| "first_direction str_of (a # as) = first_direction str_of as"

definition decision_direction :: "(pyval \<Rightarrow> string) \<Rightarrow> SchedulingDecision \<Rightarrow> string result" where
  "decision_direction str_of decision =
     rbind (iterate_or_empty (vget (sd_plan decision) ''assignments'' (VList []))) (first_direction str_of)"

definition chunk_range :: "pyval \<Rightarrow> TransferRange result" where
  "chunk_range chunk =
     (case chunk of
        VDict c \<Rightarrow> range_of_mapping c
      | _ \<Rightarrow> Inl (ValueError ''transfer plan chunk must be an object''))"

fun assignment_ranges :: "(pyval \<Rightarrow> string) \<Rightarrow> string \<Rightarrow> pyval list \<Rightarrow> TransferRange list result" where
  "assignment_ranges str_of direction [] = Inr []"
| "assignment_ranges str_of direction (VDict a # as) =
     (case vget a ''path'' VNone of
        VDict path \<Rightarrow>
          if direction_of_path str_of path \<noteq> direction then assignment_ranges str_of direction as
          else rbind (iterate_or_empty (vget a ''chunks'' (VList []))) (\<lambda>chunks.
               rbind (rmap chunk_range chunks) (\<lambda>ranges.
               rbind (assignment_ranges str_of direction as) (\<lambda>more. Inr (ranges @ more))))
      | _ \<Rightarrow> Inl (ValueError ''transfer plan assignment path must be an object''))"
| "assignment_ranges str_of direction (a # as) =
     Inl (ValueError ''transfer plan assignment must be an object'')"

definition ticket_ranges_for_plan :: "(pyval \<Rightarrow> string) \<Rightarrow> mapping \<Rightarrow> string \<Rightarrow> TransferRange list result" where
  "ticket_ranges_for_plan str_of transfer_plan direction =
     rbind (iterate_or_empty (vget transfer_plan ''assignments'' (VList []))) (\<lambda>assignments.
     rbind (assignment_ranges str_of (lower direction) assignments) (\<lambda>ranges.
     raise_if (ranges = []) (ValueError ''daemon plan has no authorized chunks'') (Inr ranges)))"

definition execution_ticket_for_plan ::
  "(pyval \<Rightarrow> string) \<Rightarrow> string \<Rightarrow> SchedulingDecision \<Rightarrow> string \<Rightarrow> string \<Rightarrow> rat \<Rightarrow> int \<Rightarrow> rat \<Rightarrow> rat option
     \<Rightarrow> string list \<Rightarrow> mapping \<Rightarrow> ExecutionTicket result" where
  "execution_ticket_for_plan str_of t decision src dst now generation default_expires_at expires_at lease_ids metadata =
     rbind (decision_direction str_of decision) (\<lambda>direction.
     rbind (ticket_ranges_for_plan str_of (sd_plan decision) direction) (\<lambda>ranges.
     let asked = (case expires_at of None \<Rightarrow> default_expires_at | Some x \<Rightarrow> x);
         expires = (if asked \<le> now then default_expires_at else asked)
     in mk_ExecutionTicket
          \<lparr>et_ticket_id = ''ticket-'' @ t, et_decision_id = sd_decision_id decision,
           et_intent_id = sd_intent_id decision, et_topology_snapshot_id = sd_topology_snapshot_id decision,
           et_job_id = sd_job_id decision, et_session_id = sd_session_id decision,
           et_source_buffer_id = src, et_destination_buffer_id = dst, et_direction = direction,
           et_total_bytes = range_total ranges, et_ranges = ranges, et_plan = sd_plan decision,
           et_issued_at = now, et_expires_at = expires, et_lease_ids = lease_ids,
           et_metadata = dict_merge
             [(''issuer'', VStr ''turbobus-daemon''), (''transfer_id'', VStr t), (''plan_generation'', VInt generation)]
             metadata\<rparr>))"

section \<open>What a ticket says of its owner\<close>

definition worker_owner_binding :: "string \<Rightarrow> string \<Rightarrow> string \<Rightarrow> string list \<Rightarrow> Daemon \<Rightarrow> mapping" where
  "worker_owner_binding t job_id session_id lease_ids d =
     (let relays = concat (map (\<lambda>l. case map_of (d_lease_tokens d) l of None \<Rightarrow> [] | Some k \<Rightarrow> [lt_relay_gpu k]) lease_ids);
          ids = VList (map VStr lease_ids);
          owner = or_else (map_of (d_transfer_peers d) t)
            (or_else (map_of (d_job_peers d) job_id) (map_of (d_session_peers d) session_id))
      in [(''job_id'', VStr job_id), (''session_id'', VStr session_id), (''transfer_id'', VStr t),
          (''lease_ids'', ids), (''relay_gpus'', VList (map VInt (sorted_ints relays))),
          (''cleanup_scope'', VDict [(''target_kind'', VStr ''reservation''), (''target_ids'', ids)])] @
         (case owner of None \<Rightarrow> []
          | Some p \<Rightarrow> if pi_authenticated p then [(''peer_identity'', VDict (peer_value p))] else []))"

definition ticket_metadata_value :: "BlockRuntimeRecord list \<Rightarrow> mapping option" where
  "ticket_metadata_value records =
     (if records = [] then None
      else Some [(''source'', VStr ''daemon_block_runtime''),
                 (''summary'', VDict (summary_value (runtime_summary records))),
                 (''records'', VList (map (VDict \<circ> block_record_value) records))])"

definition ticket_owner_metadata ::
  "(pyval \<Rightarrow> string) \<Rightarrow> string \<Rightarrow> SchedulingDecision \<Rightarrow> string list \<Rightarrow> Daemon \<Rightarrow> mapping" where
  "ticket_owner_metadata str_of t decision lease_ids d =
     [(''owner_binding'', VDict (worker_owner_binding t (sd_job_id decision) (sd_session_id decision) lease_ids d))] @
     (case ticket_metadata_value (dget_default (d_block_runtime d) t []) of
        None \<Rightarrow> [] | Some v \<Rightarrow> [(''block_runtime'', VDict v)]) @
     (case map_of (d_transfer_intents d) (sd_intent_id decision) of
        None \<Rightarrow> []
      | Some intent \<Rightarrow>
          (case map_of (ti_policy_hints intent) ''transfer_mode'' of
             None \<Rightarrow> [] | Some v \<Rightarrow> [(''transfer_mode'', VStr (py_str str_of v))]) @
          (case map_of (ti_policy_hints intent) ''skip_verification'' of
             None \<Rightarrow> [] | Some v \<Rightarrow> [(''skip_verification'', VBool (truthy v))]))"

definition mark_block_runtime_ticket :: "string \<Rightarrow> ExecutionTicket \<Rightarrow> rat \<Rightarrow> Daemon \<Rightarrow> Daemon" where
  "mark_block_runtime_ticket t ticket now d =
     (let records = dget_default (d_block_runtime d) t []
      in if records = [] then d
         else d\<lparr>d_block_runtime := AList.update t (mark_ticket_issued records (et_ticket_id ticket) now)
                (d_block_runtime d)\<rparr>)"

text \<open>The lease ids of a transfer, and the expiry its ticket takes from them or from its plan.\<close>

definition lease_ids_for_transfer :: "string \<Rightarrow> Daemon \<Rightarrow> string list" where
  "lease_ids_for_transfer t d =
     map fst (filter (\<lambda>(i, t'). t' = t) (sort_key fst (d_reservation_transfers d)))"

definition plan_expiry :: "string \<Rightarrow> rat \<Rightarrow> Daemon \<Rightarrow> rat" where
  "plan_expiry t now d = dget_default (d_plan_expirations d) t (now + 30)"

definition intent_ticket_expiry :: "string \<Rightarrow> string list \<Rightarrow> rat \<Rightarrow> Daemon \<Rightarrow> rat" where
  "intent_ticket_expiry t lease_ids now d =
     (let live = concat (map (\<lambda>l. case map_of (d_lease_tokens d) l of
            None \<Rightarrow> [] | Some k \<Rightarrow> if lt_expires_at k > now then [lt_expires_at k] else []) lease_ids)
      in if live = [] then plan_expiry t now d else Min (set live))"

text \<open>\<open>_execution_ticket_for_plan_locked\<close>: the ticket, and the block records marked with it.\<close>

definition ticket_for_plan ::
  "(pyval \<Rightarrow> string) \<Rightarrow> string \<Rightarrow> SchedulingDecision \<Rightarrow> string \<Rightarrow> string \<Rightarrow> rat \<Rightarrow> rat option \<Rightarrow> string list
     \<Rightarrow> Daemon \<Rightarrow> (Daemon \<times> ExecutionTicket) result" where
  "ticket_for_plan str_of t decision src dst now expires_at lease_ids d =
     rbind (execution_ticket_for_plan str_of t decision src dst now (dget_default (d_plan_generations d) t 0)
              (plan_expiry t now d) expires_at lease_ids (ticket_owner_metadata str_of t decision lease_ids d))
       (\<lambda>ticket. Inr (mark_block_runtime_ticket t ticket now d, ticket))"

definition execution_ticket_for_intent ::
  "(pyval \<Rightarrow> string) \<Rightarrow> TransferIntent \<Rightarrow> string \<Rightarrow> SchedulingDecision \<Rightarrow> rat \<Rightarrow> Daemon
     \<Rightarrow> (Daemon \<times> ExecutionTicket) result" where
  "execution_ticket_for_intent str_of intent t decision now d =
     (let lease_ids = lease_ids_for_transfer t d
      in ticket_for_plan str_of t decision (ti_source_buffer_id intent) (ti_destination_buffer_id intent) now
           (Some (intent_ticket_expiry t lease_ids now d)) lease_ids d)"

definition file_ticket :: "string \<Rightarrow> ExecutionTicket \<Rightarrow> Daemon \<Rightarrow> Daemon" where
  "file_ticket t k d =
     d\<lparr>d_execution_tickets := AList.update (et_ticket_id k) k (d_execution_tickets d),
       d_transfer_tickets := AList.update t (et_ticket_id k) (d_transfer_tickets d)\<rparr>"

text \<open>
  The ticket an answer shows for an admitted transfer: the current one, or a new one when it is of an
  old plan or has expired.  The code also looks for the buffers in the queue record, which is left out.
\<close>

definition buffer_ids_for_transfer :: "(pyval \<Rightarrow> string) \<Rightarrow> string \<Rightarrow> Daemon \<Rightarrow> string list" where
  "buffer_ids_for_transfer str_of t d =
     (case Option.bind (map_of (d_plan_requests d) t) (\<lambda>q. map_of (pq_fields q) ''buffer_ids'') of
        Some (VList xs) \<Rightarrow> map (py_str str_of) xs
      | _ \<Rightarrow>
          (case or_else (Option.bind (map_of (d_receipt_archive d) t) ta_ticket)
                  (if map_of (d_decisions d) t = None then None else receipt_execution_ticket t d) of
             None \<Rightarrow> [] | Some k \<Rightarrow> [et_source_buffer_id k, et_destination_buffer_id k]))"

definition active_execution_ticket ::
  "(pyval \<Rightarrow> string) \<Rightarrow> string \<Rightarrow> SchedulingDecision \<Rightarrow> rat \<Rightarrow> Daemon \<Rightarrow> (Daemon \<times> ExecutionTicket option) result" where
  "active_execution_ticket str_of t decision now d =
     (let ticket = Option.bind (map_of (d_transfer_tickets d) t) (map_of (d_execution_tickets d));
          issue = (\<lambda>r. rbind r (\<lambda>(d', k). Inr (file_ticket t k d', Some k)))
      in if vget (dget_default (d_admissions d) t []) ''state'' VNone \<noteq> VStr ''admitted'' then Inr (d, None)
         else rbind (case ticket of
                       None \<Rightarrow> Inr False
                     | Some k \<Rightarrow> rbind (py_int (vor (vget (et_metadata k) ''plan_generation'' (VInt 0)) (VInt 0))) (\<lambda>g.
                         Inr (g = dget_default (d_plan_generations d) t 0 \<and> et_expires_at k > now))) (\<lambda>current.
              if current then Inr (d, ticket)
              else case Option.bind (Option.bind (map_of (d_plan_requests d) t) pq_intent_id)
                          (map_of (d_transfer_intents d)) of
                     Some intent \<Rightarrow> issue (execution_ticket_for_intent str_of intent t decision now d)
                   | None \<Rightarrow>
                       (case buffer_ids_for_transfer str_of t d of
                          src # dst # _ \<Rightarrow> issue (ticket_for_plan str_of t decision src dst now None
                                            (lease_ids_for_transfer t d) d)
                        | _ \<Rightarrow> Inr (d, ticket))))"

text \<open>\<open>_plan_transfer\<close> with the payload of its answer, under one lock; \<open>plan_transfer\<close> is all before it.\<close>

definition answer_plan ::
  "(pyval \<Rightarrow> string) \<Rightarrow> rat \<Rightarrow> Daemon \<times> (string \<times> TransferReservation list) response
     \<Rightarrow> Daemon \<times> (string \<times> TransferReservation list \<times> ExecutionTicket option) response result" where
  "answer_plan str_of now planned =
     (case planned of
        (d, Refused e) \<Rightarrow> (d, Inr (Refused e))
      | (d, Accepted (t, reservations)) \<Rightarrow>
          (case map_of (d_decisions d) t of
             None \<Rightarrow> (d, Inr (Accepted (t, reservations, None)))
           | Some decision \<Rightarrow>
               apsnd (\<lambda>r. rbind r (\<lambda>k. Inr (Accepted (t, reservations, k))))
                 (raising d (active_execution_ticket str_of t decision now d))))"

section \<open>Before planning\<close>

definition intent_chunk_bytes :: "TransferIntent \<Rightarrow> int result" where
  "intent_chunk_bytes intent =
     (case filter (\<lambda>v. v \<noteq> VNone) [vget (ti_policy_hints intent) ''chunk_bytes'' VNone,
                                   vget (ti_metadata intent) ''chunk_bytes'' VNone] of
        [] \<Rightarrow> Inr (max 1 (ti_total_bytes intent))
      | v # _ \<Rightarrow> rbind (py_int v) (\<lambda>n.
                  raise_if (n \<le> 0) (ValueError ''chunk_bytes must be positive'') (Inr n)))"

definition intent_transfer_mode :: "(pyval \<Rightarrow> string) \<Rightarrow> TransferIntent \<Rightarrow> string result" where
  "intent_transfer_mode str_of intent =
     (case filter (\<lambda>v. v \<noteq> VNone) [vget (ti_policy_hints intent) ''transfer_mode'' VNone,
                                   vget (ti_metadata intent) ''transfer_mode'' VNone] of
        [] \<Rightarrow> Inr ''auto''
      | v # _ \<Rightarrow>
          (let given = lower (py_str str_of v);
               mode = (if given = ''pooled'' then ''pool'' else if given = ''direct-only'' then ''direct'' else given)
           in raise_if (mode \<notin> {''auto'', ''pool'', ''direct'', ''relay''})
                (ValueError ''transfer_mode must be one of auto, pool, direct, relay'') (Inr mode)))"

text \<open>What \<open>_receipt_for_intent_locked\<close> needs to write a receipt: the transfer, and that its records are there.\<close>

definition transfer_of_intent :: "string \<Rightarrow> Daemon \<Rightarrow> string option" where
  "transfer_of_intent i d = or_else (map_of (d_intent_transfers d) i) (map_of (d_archived_intents d) i)"

definition known_intent :: "string \<Rightarrow> string \<Rightarrow> Daemon \<Rightarrow> TransferIntent option" where
  "known_intent i t d =
     or_else (map_of (d_transfer_intents d) i) (map_option ta_intent (map_of (d_receipt_archive d) t))"

definition receipt_for_intent :: "string \<Rightarrow> Daemon \<Rightarrow> string result" where
  "receipt_for_intent i d =
     (case transfer_of_intent i d of
        None \<Rightarrow> Inl (ValueError ''unknown transfer intent'')
      | Some t \<Rightarrow>
          raise_if (known_intent i t d = None) (ValueError ''transfer intent is unavailable'') (
          raise_if (known_status t d = None) (ValueError ''transfer status is unavailable'') (
          raise_if (or_else (map_of (d_decisions d) t) (map_option ta_decision (map_of (d_receipt_archive d) t)) = None)
            (ValueError ''scheduling decision is unavailable'') (Inr t))))"

text \<open>What the first section finds: an answer, a transfer to show, or nothing, so that one is planned.\<close>

datatype submission = Refuse string | Show_Receipt string | Show_Plan string | Plan_Anew

definition terminal_receipt :: "TransferIntent \<Rightarrow> PeerIdentity option \<Rightarrow> Daemon \<Rightarrow> submission option" where
  "terminal_receipt intent peer d =
     (let i = ti_intent_id intent
      in case transfer_of_intent i d of
           None \<Rightarrow> None
         | Some t \<Rightarrow>
             if known_intent i t d \<noteq> Some intent
             then Some (Refuse ''intent_id already belongs to a different transfer intent'')
             else if \<not> opt_holds (\<lambda>s. terminal (ts_state s)) (known_status t d) then None
             else Some (case rbind (validate_peer_owns_receipt_transfer t (ti_job_id intent) peer d)
                                (\<lambda>_. receipt_for_intent i d) of
                          Inl e \<Rightarrow> Refuse (error_text e) | Inr t \<Rightarrow> Show_Receipt t))"

definition submit_precheck :: "TransferIntent \<Rightarrow> PeerIdentity option \<Rightarrow> Daemon \<Rightarrow> submission" where
  "submit_precheck intent peer d =
     (case terminal_receipt intent peer d of
        Some answer \<Rightarrow> answer
      | None \<Rightarrow>
          (case map_of (d_intent_transfers d) (ti_intent_id intent) of
             None \<Rightarrow> Plan_Anew
           | Some t \<Rightarrow>
               if map_of (d_transfer_intents d) (ti_intent_id intent) \<noteq> Some intent
               then Refuse ''intent_id already belongs to a different transfer intent''
               else case validate_transfer_buffers (Some [ti_source_buffer_id intent, ti_destination_buffer_id intent])
                           (Some (ti_job_id intent)) (ti_session_id intent) peer d of
                      Inl e \<Rightarrow> Refuse (error_text e) | Inr _ \<Rightarrow> Show_Plan t))"

text \<open>\<open>_intent_execution_payload_response_locked\<close>: a delayed transfer refreshes the admissions first.\<close>

definition show_ticket ::
  "(pyval \<Rightarrow> string) \<Rightarrow> string \<Rightarrow> rat \<Rightarrow> Daemon \<Rightarrow> Daemon \<times> string response result" where
  "show_ticket str_of t now d =
     (if map_of (d_statuses d) t = None then (d, Inr (Refused ''transfer status is unavailable''))
      else case map_of (d_decisions d) t of
             None \<Rightarrow> (d, Inr (Refused ''scheduling decision is unavailable''))
           | Some decision \<Rightarrow>
               apsnd (\<lambda>r. rbind r (\<lambda>_. Inr (Accepted t))) (raising d (active_execution_ticket str_of t decision now d)))"

definition show_plan ::
  "(pyval \<Rightarrow> string) \<Rightarrow> (string \<Rightarrow> string) \<Rightarrow> Promotion list \<Rightarrow> TransferIntent \<Rightarrow> string \<Rightarrow> rat \<Rightarrow> Daemon
     \<Rightarrow> Daemon \<times> string response result" where
  "show_plan str_of token promotions intent t now d =
     (case receipt_for_intent (ti_intent_id intent) d of
        Inl e \<Rightarrow> (d, Inr (Refused (error_text e)))
      | Inr _ \<Rightarrow>
          if map_of (d_statuses d) t = None then (d, Inr (Refused ''transfer status is unavailable''))
          else if map_of (d_decisions d) t = None then (d, Inr (Refused ''scheduling decision is unavailable''))
          else if map_of (d_sessions d) (ti_session_id intent) = None
          then (d, Inr (Refused ''transfer session is unavailable''))
          else if vget (dget_default (d_admissions d) t []) ''state'' VNone \<noteq> VStr ''delayed''
          then show_ticket str_of t now d
          else let d1 = fst (refresh_admission_state token now promotions d)
               in case receipt_for_intent (ti_intent_id intent) d1 of
                    Inl e \<Rightarrow> (d1, Inl e)
                  | Inr _ \<Rightarrow> show_ticket str_of t now d1)"

text \<open>The first critical section; None goes on to plan.  No quota is kept for \<open>active_transfers\<close>.\<close>

definition submit_intent ::
  "(pyval \<Rightarrow> string) \<Rightarrow> (string \<Rightarrow> string) \<Rightarrow> Promotion list \<Rightarrow> TransferIntent \<Rightarrow> PeerIdentity option \<Rightarrow> rat
     \<Rightarrow> Daemon \<Rightarrow> Daemon \<times> string response result option" where
  "submit_intent str_of token promotions intent peer now d =
     (case rbind (intent_chunk_bytes intent) (\<lambda>_. intent_transfer_mode str_of intent) of
        Inl e \<Rightarrow> (d, Some (Inr (Refused (error_text e))))
      | Inr _ \<Rightarrow>
          (case tenant_quota_precheck peer ''active_transfers'' 1 0 now d of
             (d1, Some e) \<Rightarrow> (d1, Some (Inr (Refused e)))
           | (d1, None) \<Rightarrow>
               (case submit_precheck intent peer d1 of
                  Refuse e \<Rightarrow> (d1, Some (Inr (Refused e)))
                | Show_Receipt t \<Rightarrow> (d1, Some (Inr (Accepted t)))
                | Show_Plan t \<Rightarrow> apsnd Some (show_plan str_of token promotions intent t now d1)
                | Plan_Anew \<Rightarrow> (d1, None))))"

section \<open>After planning\<close>

text \<open>
  The second critical section: the intent is recorded for the planned transfer and, if its admission
  is admitted, its ticket issued.  A plan no ticket can be made of raises with the intent recorded.
\<close>

definition record_submitted_intent ::
  "(pyval \<Rightarrow> string) \<Rightarrow> TransferIntent \<Rightarrow> string \<Rightarrow> rat \<Rightarrow> Daemon \<Rightarrow> Daemon \<times> ExecutionTicket option response result" where
  "record_submitted_intent str_of intent t now d =
     (case map_of (d_decisions d) t of
        None \<Rightarrow> (d, Inr (Refused ''scheduling decision is unavailable''))
      | Some decision \<Rightarrow>
          (let d1 = d\<lparr>d_transfer_intents := AList.update (ti_intent_id intent) intent (d_transfer_intents d),
                      d_intent_transfers := AList.update (ti_intent_id intent) t (d_intent_transfers d)\<rparr>
           in if vget (dget_default (d_admissions d1) t []) ''state'' VNone \<noteq> VStr ''admitted''
              then (d1, rbind (receipt_for_intent (ti_intent_id intent) d1) (\<lambda>_. Inr (Accepted None)))
              else case execution_ticket_for_intent str_of intent t decision now d1 of
                     Inl e \<Rightarrow> (d1, Inl e)
                   | Inr (d2, k) \<Rightarrow>
                       (let d3 = file_ticket t k d2
                        in (d3, rbind (receipt_for_intent (ti_intent_id intent) d3) (\<lambda>_. Inr (Accepted (Some k)))))))"

section \<open>They keep the invariant\<close>

lemma core_mark_ticket [simp]: "core (mark_block_runtime_ticket t k now d) = core d"
  by (simp add: mark_block_runtime_ticket_def Let_def)

lemma plan_ticket_state:
  "ticket_for_plan str_of t dec src dst now x ls d = Inr (d', k) \<Longrightarrow> d' = mark_block_runtime_ticket t k now d"
  by (auto simp: ticket_for_plan_def result_simps)

lemma intent_ticket_state:
  "execution_ticket_for_intent str_of intent t dec now d = Inr (d', k) \<Longrightarrow> d' = mark_block_runtime_ticket t k now d"
  by (auto simp: execution_ticket_for_intent_def Let_def dest: plan_ticket_state)

text \<open>Issuing a ticket touches the tickets and the block records only.\<close>

definition ticketed :: "Daemon \<Rightarrow> Daemon \<Rightarrow> bool" where
  "ticketed d d' = (\<exists>ks ts bs. d' = d\<lparr>d_execution_tickets := ks, d_transfer_tickets := ts, d_block_runtime := bs\<rparr>)"

lemma ticketed_refl [simp]: "ticketed d d"
  unfolding ticketed_def by (intro exI [of _ "d_execution_tickets d"] exI [of _ "d_transfer_tickets d"]
      exI [of _ "d_block_runtime d"]) simp

lemma ticketed_marked [simp]: "ticketed d (mark_block_runtime_ticket t k now d)"
proof -
  have "ticketed d (d\<lparr>d_block_runtime := b\<rparr>)" for b
    unfolding ticketed_def by (intro exI [of _ "d_execution_tickets d"] exI [of _ "d_transfer_tickets d"] exI [of _ b]) simp
  then show ?thesis by (simp add: mark_block_runtime_ticket_def Let_def)
qed

lemma ticketed_filed [simp]:
  assumes "ticketed d e"
  shows "ticketed d (file_ticket t k e)"
proof -
  obtain ks ts bs where e: "e = d\<lparr>d_execution_tickets := ks, d_transfer_tickets := ts, d_block_runtime := bs\<rparr>"
    using assms by (auto simp: ticketed_def)
  show ?thesis
    unfolding ticketed_def
    by (rule exI [of _ "AList.update (et_ticket_id k) k ks"], rule exI [of _ "AList.update t (et_ticket_id k) ts"],
        rule exI [of _ bs]) (simp add: e file_ticket_def)
qed

lemma ticketed_same:
  assumes "ticketed d d'"
  shows "core d' = core d" and "d_statuses d' = d_statuses d" and "d_receipt_archive d' = d_receipt_archive d"
    and "d_decisions d' = d_decisions d"
  using assms by (auto simp: ticketed_def core_def)

lemma ticketed_active: "active_execution_ticket str_of t dec now d = Inr (d', k) \<Longrightarrow> ticketed d d'"
  by (auto simp: active_execution_ticket_def Let_def result_simps dest!: plan_ticket_state intent_ticket_state
      split: if_splits option.splits list.splits)

lemma ticketed_raising: "ticketed d (fst (raising d (active_execution_ticket str_of t dec now d)))"
  by (auto simp: raising_def dest: ticketed_active split: sum.split)

lemma ticketed_answer: "ticketed (fst planned) (fst (answer_plan str_of now planned))"
  using ticketed_raising
  by (auto simp: answer_plan_def split: prod.split response.split option.split)

lemma ticketed_shown: "ticketed d (fst (show_ticket str_of t now d))"
  using ticketed_raising by (auto simp: show_ticket_def split: option.split)

lemma core_record_intent [simp]: "core (fst (record_submitted_intent str_of intent t now d)) = core d"
proof -
  have intents: "core (d\<lparr>d_transfer_intents := a, d_intent_transfers := b\<rparr>) = core d" for a b by (simp add: core_def)
  show ?thesis
    by (auto simp: record_submitted_intent_def file_ticket_def Let_def intents dest!: intent_ticket_state split: option.split sum.split)
qed

lemma submit_intent_cases:
  obtains (ticketed) "ticketed d (fst (submit_intent str_of token ps intent peer now d))"
  | (refreshed) "ticketed (fst (refresh_admission_state token now ps d)) (fst (submit_intent str_of token ps intent peer now d))"
proof -
  obtain d1 e where q: "tenant_quota_precheck peer ''active_transfers'' 1 0 now d = (d1, e)" by force
  have same: "d1 = d" using q by (auto simp: tenant_quota_precheck_def Let_def split: option.splits)
  have shown: "ticketed d (fst (show_plan str_of token ps intent t now d)) \<or>
      ticketed (fst (refresh_admission_state token now ps d)) (fst (show_plan str_of token ps intent t now d))" for t
    using ticketed_shown by (auto simp: show_plan_def Let_def split: sum.split)
  have "ticketed d (fst (submit_intent str_of token ps intent peer now d)) \<or>
      ticketed (fst (refresh_admission_state token now ps d)) (fst (submit_intent str_of token ps intent peer now d))"
    using shown by (auto simp: submit_intent_def q same split: sum.split option.split submission.split)
  with that show thesis by auto
qed

lemma submit_intent_ok:
  assumes "daemon_ok d" and "promotions_ok ps d"
  shows "daemon_ok (fst (submit_intent str_of token ps intent peer now d))"
proof (cases rule: submit_intent_cases [of d str_of token ps intent peer "now"])
  case ticketed
  then show ?thesis using ok_same(1) ticketed_same(1) assms(1) by blast
next
  case refreshed
  then show ?thesis using ok_same(1) ticketed_same(1) refresh_ok [OF assms] by blast
qed

lemma answer_plan_ok: "daemon_ok (fst planned) \<Longrightarrow> daemon_ok (fst (answer_plan str_of now planned))"
  using ok_same(1) ticketed_same(1) ticketed_answer by blast

end
