(* ===== verification/Daemon_Authorize.thy ===== *)
theory Daemon_Authorize
  imports Daemon_Intents
begin

text \<open>
  Authorizing a worker (\<open>authorize_worker_transfer\<close> in \<open>turbobus/daemon/server.py\<close>): the checks on the
  request, its lease and the other leases of the plan, the ranges the plan gives the relays, and the
  ticket and staging records issued for the copy.  Of the answer's payload the profile, the relay
  eligibility and the views of records that the answer repeats are left out.
\<close>

section \<open>What a plan sends over the relays\<close>

definition is_relay_path :: "(pyval \<Rightarrow> string) \<Rightarrow> string \<Rightarrow> mapping \<Rightarrow> bool" where
  "is_relay_path str_of direction path =
     (lower (py_str str_of (vget path ''kind'' (VStr []))) = ''relay'' \<and> direction_of_path str_of path = direction)"

definition relay_device_of :: "mapping \<Rightarrow> int result" where
  "relay_device_of path = py_int (vget path ''relay_device'' (VInt (-1)))"

fun relay_ranges :: "(pyval \<Rightarrow> string) \<Rightarrow> int list \<Rightarrow> string \<Rightarrow> pyval list \<Rightarrow> TransferRange list result" where
  "relay_ranges str_of relays direction [] = Inr []"
| "relay_ranges str_of relays direction (VDict a # as) =
     (case vget a ''path'' VNone of
        VDict path \<Rightarrow>
          if \<not> is_relay_path str_of direction path then relay_ranges str_of relays direction as
          else rbind (relay_device_of path) (\<lambda>g.
               if g \<notin> set relays then relay_ranges str_of relays direction as
               else rbind (iterate_or_empty (vget a ''chunks'' (VList []))) (\<lambda>chunks.
                    rbind (rmap chunk_range chunks) (\<lambda>ranges.
                    rbind (relay_ranges str_of relays direction as) (\<lambda>more. Inr (ranges @ more)))))
      | _ \<Rightarrow> Inl (ValueError ''transfer plan assignment path must be an object''))"
| "relay_ranges str_of relays direction (a # as) = Inl (ValueError ''transfer plan assignment must be an object'')"

definition relay_ranges_from_plan ::
  "(pyval \<Rightarrow> string) \<Rightarrow> mapping \<Rightarrow> int list \<Rightarrow> string \<Rightarrow> TransferRange list result" where
  "relay_ranges_from_plan str_of transfer_plan relays direction =
     raise_if (relays = []) (ValueError ''daemon plan has no authorized relay chunks'') (
     rbind (iterate_or_empty (vget transfer_plan ''assignments'' (VList []))) (\<lambda>assignments.
     rbind (relay_ranges str_of relays (lower direction) assignments) (\<lambda>ranges.
     raise_if (ranges = []) (ValueError ''daemon plan has no authorized relay chunks'') (Inr ranges))))"

fun relay_devices :: "(pyval \<Rightarrow> string) \<Rightarrow> string \<Rightarrow> pyval list \<Rightarrow> int list result" where
  "relay_devices str_of direction [] = Inr []"
| "relay_devices str_of direction (VDict a # as) =
     (case vget a ''path'' VNone of
        VDict path \<Rightarrow>
          if is_relay_path str_of direction path \<and> truthy (vget a ''chunks'' VNone)
          then rbind (relay_device_of path) (\<lambda>g.
               rbind (relay_devices str_of direction as) (\<lambda>gs. Inr (List.insert g gs)))
          else relay_devices str_of direction as
      | _ \<Rightarrow> Inl (ValueError ''transfer plan assignment path must be an object''))"
| "relay_devices str_of direction (a # as) = Inl (ValueError ''transfer plan assignment must be an object'')"

definition relay_devices_from_plan :: "(pyval \<Rightarrow> string) \<Rightarrow> mapping \<Rightarrow> string \<Rightarrow> int list result" where
  "relay_devices_from_plan str_of transfer_plan direction =
     rbind (iterate_or_empty (vget transfer_plan ''assignments'' (VList []))) (relay_devices str_of (lower direction))"

section \<open>The leases of the worker\<close>

definition leases_for_worker_plan ::
  "(pyval \<Rightarrow> string) \<Rightarrow> WorkerTransferAuthorizationRequest \<Rightarrow> LeaseToken \<Rightarrow> Daemon \<Rightarrow> LeaseToken list result" where
  "leases_for_worker_plan str_of q primary d =
     (if wq_ranges q \<noteq> [] then Inr [primary]
      else case map_of (d_plans d) (wq_transfer_id q) of
             None \<Rightarrow> Inr [primary]
           | Some transfer_plan \<Rightarrow>
               rbind (relay_devices_from_plan str_of transfer_plan (wq_direction q)) (\<lambda>devices.
               if devices = [] \<or> lt_relay_gpu primary \<notin> set devices then Inr [primary]
               else let found = concat (map (\<lambda>(i, t). if t \<noteq> wq_transfer_id q then []
                          else case map_of (d_lease_tokens d) i of
                                 None \<Rightarrow> [] | Some l \<Rightarrow> if lt_relay_gpu l \<in> set devices then [l] else [])
                        (sort_key fst (d_reservation_transfers d)));
                        related = (if lt_lease_id primary \<in> lt_lease_id ` set found then found else found @ [primary])
                    in raise_if (lt_relay_gpu ` set related \<noteq> set devices)
                         (ValueError ''worker relay lease set mismatch'')
                         (Inr (sort_key (\<lambda>l. (lt_relay_gpu l, lt_lease_id l)) related))))"

definition expired_at :: "rat \<Rightarrow> LeaseToken \<Rightarrow> bool" where
  "expired_at now lease = (lt_expires_at lease \<noteq> 0 \<and> now > lt_expires_at lease)"

fun check_related_leases ::
  "WorkerTransferAuthorizationRequest \<Rightarrow> LeaseToken \<Rightarrow> LeaseToken list \<Rightarrow> rat \<Rightarrow> Daemon \<Rightarrow> Daemon \<times> string option" where
  "check_related_leases q primary [] now d = (d, None)"
| "check_related_leases q primary (l # ls) now d =
     (if lt_lease_id l = lt_lease_id primary then check_related_leases q primary ls now d
      else case validate_transfer_admission (wq_transfer_id q) (Some (lt_lease_id l)) now d of
             (d1, Some e) \<Rightarrow> (d1, Some e)
           | (d1, None) \<Rightarrow>
               if expired_at now l then (release_expired_lease now (lt_lease_id l) d1, Some ''lease expired'')
               else if map_of (d_reservations d1) (lt_lease_id l) = None then (d1, Some ''lease is not active'')
               else if lt_session_id l \<noteq> wq_session_id q then (d1, Some ''lease session mismatch'')
               else if lt_job_id l \<noteq> Some (wq_job_id q) then (d1, Some ''lease job mismatch'')
               else if lt_buffer_ids l \<noteq> lt_buffer_ids primary then (d1, Some ''lease buffer mismatch'')
               else check_related_leases q primary ls now d1)"

definition admission_lease_ids :: "(pyval \<Rightarrow> string) \<Rightarrow> string \<Rightarrow> Daemon \<Rightarrow> string list result" where
  "admission_lease_ids str_of t d =
     rbind (iterate_or_empty (vget (dget_default (d_admissions d) t []) ''lease_ids'' (VList []))) (\<lambda>xs.
     Inr (map (py_str str_of) xs))"

definition authorize_related_leases ::
  "(pyval \<Rightarrow> string) \<Rightarrow> WorkerTransferAuthorizationRequest \<Rightarrow> LeaseToken \<Rightarrow> rat \<Rightarrow> Daemon
     \<Rightarrow> Daemon \<times> LeaseToken list response result" where
  "authorize_related_leases str_of q primary now d =
     (case leases_for_worker_plan str_of q primary d of
        Inl e \<Rightarrow> (d, Inl e)
      | Inr related \<Rightarrow>
          if length related \<le> 1 then (d, Inr (Accepted [primary]))
          else case validate_transfer_admission (wq_transfer_id q) None now d of
                 (d1, Some e) \<Rightarrow> (d1, Inr (Refused e))
               | (d1, None) \<Rightarrow>
                   (case check_related_leases q primary related now d1 of
                      (d2, Some e) \<Rightarrow> (d2, Inr (Refused e))
                    | (d2, None) \<Rightarrow>
                        (d2, rbind (admission_lease_ids str_of (wq_transfer_id q) d2) (\<lambda>ids.
                             Inr (if ids \<noteq> [] \<and> set ids \<noteq> lt_lease_id ` set related
                                  then Refused ''worker lease set mismatch'' else Accepted related)))))"

section \<open>Ranges and buffers\<close>

definition worker_authorized_ranges ::
  "(pyval \<Rightarrow> string) \<Rightarrow> WorkerTransferAuthorizationRequest \<Rightarrow> mapping \<Rightarrow> LeaseToken list \<Rightarrow> Daemon
     \<Rightarrow> TransferRange list response result" where
  "worker_authorized_ranges str_of q transfer_plan leases d =
     except_value_error (relay_ranges_from_plan str_of transfer_plan (map lt_relay_gpu leases) (wq_direction q))
       (\<lambda>e. Inr (Refused e)) (\<lambda>ranges.
     let held = sum_list (concat (map (\<lambda>l. case map_of (d_reservations d) (lt_lease_id l) of
            None \<Rightarrow> [] | Some r \<Rightarrow> [rv_bytes r]) leases))
     in Inr (if wq_ranges q \<noteq> [] \<and> wq_ranges q \<noteq> ranges then Refused ''worker ranges do not match daemon relay plan''
             else if range_total ranges > held then Refused ''authorization exceeds reservation bytes''
             else Accepted ranges))"

definition worker_authorization_buffers ::
  "WorkerTransferAuthorizationRequest \<Rightarrow> LeaseToken \<Rightarrow> PeerIdentity option \<Rightarrow> Daemon
     \<Rightarrow> (BufferRegistration \<times> BufferRegistration) response" where
  "worker_authorization_buffers q lease peer d =
     (if [wq_src_buffer_id q, wq_dst_buffer_id q] \<noteq> lt_buffer_ids lease then Refused ''lease buffer mismatch''
      else case (map_of (d_buffers d) (wq_src_buffer_id q), map_of (d_buffers d) (wq_dst_buffer_id q)) of
             (Some src, Some dst) \<Rightarrow>
               (case rbind (validate_peer_owns_buffer (br_buffer_id src) peer d)
                       (\<lambda>_. validate_peer_owns_buffer (br_buffer_id dst) peer d) of
                  Inl e \<Rightarrow> Refused (error_text e) | Inr _ \<Rightarrow> Accepted (src, dst))
           | _ \<Rightarrow> Refused ''unknown buffer'')"

section \<open>The context of an authorization\<close>

record AuthorizationContext =
  ax_reservation :: TransferReservation
  ax_plan :: mapping
  ax_leases :: "LeaseToken list"
  ax_ranges :: "TransferRange list"
  ax_src_buffer :: BufferRegistration
  ax_dst_buffer :: BufferRegistration

definition worker_authorization_context ::
  "(pyval \<Rightarrow> string) \<Rightarrow> WorkerTransferAuthorizationRequest \<Rightarrow> LeaseToken \<Rightarrow> PeerIdentity option \<Rightarrow> rat \<Rightarrow> Daemon
     \<Rightarrow> Daemon \<times> AuthorizationContext response result" where
  "worker_authorization_context str_of q lease peer now d =
     (case validate_transfer_admission (wq_transfer_id q) (Some (lt_lease_id lease)) now d of
        (d1, Some e) \<Rightarrow> (d1, Inr (Refused e))
      | (d1, None) \<Rightarrow>
          (case (map_of (d_reservations d1) (lt_lease_id lease), map_of (d_plans d1) (wq_transfer_id q)) of
             (None, _) \<Rightarrow> (d1, Inl (KeyError (lt_lease_id lease)))
           | (Some reservation, transfer_plan) \<Rightarrow>
               if rv_direction reservation \<notin> {''unknown'', wq_direction q}
               then (d1, Inr (Refused ''reservation direction mismatch''))
               else case transfer_plan of
                      None \<Rightarrow> (d1, Inr (Refused ''transfer plan is unavailable''))
                    | Some p \<Rightarrow>
                        (case authorize_related_leases str_of q lease now d1 of
                           (d2, Inl e) \<Rightarrow> (d2, Inl e)
                         | (d2, Inr (Refused e)) \<Rightarrow> (d2, Inr (Refused e))
                         | (d2, Inr (Accepted leases)) \<Rightarrow>
                             (d2, rbind (worker_authorized_ranges str_of q p leases d2) (\<lambda>r. case r of
                                Refused e \<Rightarrow> Inr (Refused e)
                              | Accepted ranges \<Rightarrow>
                                  (case worker_authorization_buffers q lease peer d2 of
                                     Refused e \<Rightarrow> Inr (Refused e)
                                   | Accepted (src, dst) \<Rightarrow>
                                       Inr (if map_of (d_sessions d2) (wq_session_id q) = None
                                            then Refused ''transfer session is unavailable''
                                            else Accepted \<lparr>ax_reservation = reservation, ax_plan = p,
                                              ax_leases = leases, ax_ranges = ranges, ax_src_buffer = src,
                                              ax_dst_buffer = dst\<rparr>)))))))"

section \<open>Issuing\<close>

definition execution_ticket_for_worker ::
  "(pyval \<Rightarrow> string) \<Rightarrow> WorkerTransferAuthorization \<Rightarrow> LeaseToken list \<Rightarrow> string \<Rightarrow> rat \<Rightarrow> Daemon
     \<Rightarrow> (Daemon \<times> ExecutionTicket) result" where
  "execution_ticket_for_worker str_of a leases t now d =
     (case map_of (d_decisions d) t of
        None \<Rightarrow> Inl (ValueError ''scheduling decision is unavailable'')
      | Some decision \<Rightarrow>
          raise_if (leases = []) (ValueError ''worker ticket requires at least one lease'') (
          let expires = Min (set (map (\<lambda>l. if lt_expires_at l = 0 then now + 30 else lt_expires_at l) leases))
          in raise_if (expires \<le> now) (ValueError ''lease expired'')
               (ticket_for_plan str_of t decision (br_buffer_id (wa_src_buffer a)) (br_buffer_id (wa_dst_buffer a))
                  now (Some expires) (map lt_lease_id leases) d)))"

definition staging_record ::
  "LeaseToken \<Rightarrow> string \<Rightarrow> string \<Rightarrow> TransferRange list \<Rightarrow> rat \<Rightarrow> StagingRecord" where
  "staging_record lease t direction ranges now =
     \<lparr>sr_transfer_id = Some t, sr_job_id = lt_job_id lease, sr_buffer_ids = lt_buffer_ids lease,
      sr_session_id = lt_session_id lease, sr_relay_gpu = lt_relay_gpu lease, sr_direction = lower direction,
      sr_ranges = ranges, sr_requested_bytes = range_total ranges, sr_created_at = now\<rparr>"

fun register_worker_staging ::
  "(pyval \<Rightarrow> string) \<Rightarrow> LeaseToken list \<Rightarrow> string \<Rightarrow> string \<Rightarrow> mapping \<Rightarrow> rat \<Rightarrow> Daemon
     \<Rightarrow> Daemon \<times> (string, StagingRecord) dict result" where
  "register_worker_staging str_of [] t direction transfer_plan now d = (d, Inr [])"
| "register_worker_staging str_of (l # ls) t direction transfer_plan now d =
     (case relay_ranges_from_plan str_of transfer_plan [lt_relay_gpu l] direction of
        Inl e \<Rightarrow> (d, Inl e)
      | Inr ranges \<Rightarrow>
          (let s = staging_record l t direction ranges now;
               (d', rest) = register_worker_staging str_of ls t direction transfer_plan now
                 (d\<lparr>d_staging := AList.update (lt_lease_id l) s (d_staging d)\<rparr>)
           in (d', rbind rest (\<lambda>rs. Inr ((lt_lease_id l, s) # rs)))))"

definition audit_authorized :: "WorkerTransferAuthorizationRequest \<Rightarrow> TransferStatus \<Rightarrow> LeaseToken \<Rightarrow> Daemon \<Rightarrow> Daemon" where
  "audit_authorized q status lease d =
     (case map_of (d_reservations d) (lt_lease_id lease) of
        None \<Rightarrow> d
      | Some r \<Rightarrow> append_audit \<lparr>au_event_type = ''relay_authorized'', au_transfer_id = Some (wq_transfer_id q),
            au_session_id = Some (rv_session_id r), au_lease_id = Some (lt_lease_id lease),
            au_state = ts_state status, au_reason = Some ''worker_authorized'', au_failure_reason = None,
            au_cleanup_kind = None, au_cleanup_target_id = None\<rparr> d)"

record WorkerExecution =
  wx_ticket :: ExecutionTicket
  wx_leases :: "LeaseToken list"
  wx_ranges :: "TransferRange list"
  wx_src_buffer :: BufferRegistration
  wx_dst_buffer :: BufferRegistration
  wx_staging :: "(string, StagingRecord) dict"

text \<open>An exception while the staging records are written leaves the ticket issued.\<close>

definition issue_worker_execution ::
  "(pyval \<Rightarrow> string) \<Rightarrow> WorkerTransferAuthorizationRequest \<Rightarrow> TransferStatus \<Rightarrow> AuthorizationContext \<Rightarrow> rat \<Rightarrow> Daemon
     \<Rightarrow> Daemon \<times> WorkerExecution result" where
  "issue_worker_execution str_of q status x now d =
     (let t = wq_transfer_id q
      in case rbind (mk_WorkerTransferAuthorization
                \<lparr>wa_transfer_id = t, wa_lease_id = wq_lease_id q, wa_session_id = wq_session_id q,
                 wa_job_id = wq_job_id q, wa_src_buffer = ax_src_buffer x, wa_dst_buffer = ax_dst_buffer x,
                 wa_direction = wq_direction q, wa_ranges = ax_ranges x,
                 wa_relay_gpu = Some (rv_relay_gpu (ax_reservation x)), wa_plan = ax_plan x\<rparr>) (\<lambda>a.
              execution_ticket_for_worker str_of a (ax_leases x) t now d) of
           Inl e \<Rightarrow> (d, Inl e)
         | Inr (d1, k) \<Rightarrow>
             (case register_worker_staging str_of (ax_leases x) t (wq_direction q) (ax_plan x) now (file_ticket t k d1) of
                (d2, Inl e) \<Rightarrow> (d2, Inl e)
              | (d2, Inr staging) \<Rightarrow>
                  (fold (audit_authorized q status) (ax_leases x) d2,
                   Inr \<lparr>wx_ticket = k, wx_leases = ax_leases x, wx_ranges = ax_ranges x,
                        wx_src_buffer = ax_src_buffer x, wx_dst_buffer = ax_dst_buffer x,
                        wx_staging = staging\<rparr>)))"

section \<open>The handler\<close>

definition authorization_cleanup_payload ::
  "(pyval \<Rightarrow> string) \<Rightarrow> string \<Rightarrow> string \<Rightarrow> string \<Rightarrow> string \<Rightarrow> Daemon \<Rightarrow> mapping result" where
  "authorization_cleanup_payload str_of t job_id session_id lease_id d =
     rbind (admission_lease_ids str_of t d) (\<lambda>ids.
     let lease_ids = (if lease_id \<in> set ids then ids else lease_id # ids);
         held = concat (map (\<lambda>l. case map_of (d_lease_tokens d) l of None \<Rightarrow> [] | Some k \<Rightarrow> [(l, lt_relay_gpu k)]) lease_ids)
     in Inr [(''transfer_id'', VStr t), (''job_id'', VStr job_id), (''session_id'', VStr session_id),
             (''lease_id'', VStr lease_id), (''lease_ids'', VList (map VStr lease_ids)),
             (''relay_gpu'', opt_value VInt (map_of held lease_id)),
             (''relay_gpus'', VList (map VInt (sorted_ints (map snd held)))),
             (''plan_generation'', VInt (dget_default (d_plan_generations d) t 0)),
             (''owner_binding'', VDict (worker_owner_binding t job_id session_id lease_ids d))])"

definition check_authorization_claim ::
  "WorkerTransferAuthorizationRequest \<Rightarrow> PeerIdentity option \<Rightarrow> Daemon \<Rightarrow> (TransferStatus \<times> LeaseToken) result" where
  "check_authorization_claim q peer d =
     (case map_of (d_statuses d) (wq_transfer_id q) of
        None \<Rightarrow> Inl (ValueError ''unknown transfer'')
      | Some status \<Rightarrow>
          raise_if (ts_session_id status \<noteq> Some (wq_session_id q)) (ValueError ''transfer session mismatch'') (
          raise_if (ts_job_id status \<noteq> wq_job_id q) (ValueError ''transfer job mismatch'') (
          rbind (validate_peer_owns_job (wq_job_id q) peer d) (\<lambda>_.
          raise_if (terminal (ts_state status)) (ValueError ''transfer is terminal'') (
          case map_of (d_lease_tokens d) (wq_lease_id q) of
            None \<Rightarrow> Inl (ValueError ''unknown lease'')
          | Some lease \<Rightarrow>
              raise_if (lt_token lease \<noteq> wq_token q) (ValueError ''invalid lease token'') (
              raise_if (lt_session_id lease \<noteq> wq_session_id q) (ValueError ''lease session mismatch'') (
              raise_if (lt_job_id lease \<noteq> Some (wq_job_id q)) (ValueError ''lease job mismatch'') (
              raise_if (opt_holds (\<lambda>g. lt_relay_gpu lease \<noteq> g) (wq_relay_gpu q)) (ValueError ''lease relay mismatch'')
                (Inr (status, lease))))))))))"

text \<open>A refusal after the preflight carries what the worker needs to clean up.\<close>

datatype authorization = Denied string "mapping option" | Authorized WorkerExecution

definition authorize_worker_transfer ::
  "(pyval \<Rightarrow> string) \<Rightarrow> WorkerTransferAuthorizationRequest \<Rightarrow> PeerIdentity option \<Rightarrow> rat \<Rightarrow> Daemon
     \<Rightarrow> Daemon \<times> authorization result" where
  "authorize_worker_transfer str_of q peer now d =
     (let d1 = fst (reap_stale_sessions now d)
      in case check_authorization_claim q peer d1 of
           Inl e \<Rightarrow> (d1, Inr (Denied (error_text e) None))
         | Inr (status, lease) \<Rightarrow>
             if expired_at now lease
             then (release_expired_lease now (lt_lease_id lease) d1, Inr (Denied ''lease expired'' None))
             else if map_of (d_reservations d1) (lt_lease_id lease) = None
             then (d1, Inr (Denied ''lease is not active'' None))
             else case authorization_cleanup_payload str_of (wq_transfer_id q) (wq_job_id q) (wq_session_id q)
                         (wq_lease_id q) d1 of
                    Inl e \<Rightarrow> (d1, Inl e)
                  | Inr payload \<Rightarrow>
                      (case worker_authorization_context str_of q lease peer now d1 of
                         (d2, Inl e) \<Rightarrow> (d2, Inl e)
                       | (d2, Inr (Refused e)) \<Rightarrow> (d2, Inr (Denied e (Some payload)))
                       | (d2, Inr (Accepted x)) \<Rightarrow>
                           apsnd (\<lambda>r. rbind r (\<lambda>w. Inr (Authorized w)))
                             (issue_worker_execution str_of q status x now d2)))"

section \<open>What a request may change\<close>

text \<open>States that agree on the accounts and on the transfers' statuses.\<close>

definition alike :: "Daemon \<Rightarrow> Daemon \<Rightarrow> bool" where
  "alike d e = (core e = core d \<and> d_statuses e = d_statuses d \<and> d_receipt_archive e = d_receipt_archive d)"

lemma alike_refl [simp]: "alike d d"
  by (simp add: alike_def)

lemma alike_trans [trans]: "alike d e \<Longrightarrow> alike e f \<Longrightarrow> alike d f"
  by (simp add: alike_def)

lemma alike_ticketed: "ticketed d e \<Longrightarrow> alike d e"
  using ticketed_same by (simp add: alike_def)

lemma alike_admission: "alike d (fst (validate_transfer_admission t l now d))"
  by (simp add: alike_def) (simp add: validate_transfer_admission_def Let_def split: option.splits)

lemma alike_staging: "alike d (fst (register_worker_staging str_of ls t direction p now d))"
proof (induction str_of ls t direction p "now" d rule: register_worker_staging.induct)
  case (2 str_of l ls t direction p "now" d)
  have "alike d (d\<lparr>d_staging := x\<rparr>)" for x by (simp add: alike_def core_def)
  from alike_trans [OF this 2] show ?case by (auto simp: Let_def case_prod_beta split: sum.split)
qed simp

lemma alike_audit: "alike d (fold (audit_authorized q status) ls d)"
proof (induction ls arbitrary: d)
  case (Cons l ls)
  have "alike d (audit_authorized q status l d)"
    by (simp add: alike_def audit_authorized_def split: option.split) (simp add: append_audit_def)
  from alike_trans [OF this Cons] show ?case by simp
qed simp

lemma worker_ticket_state:
  "execution_ticket_for_worker str_of a ls t now d = Inr (d', k) \<Longrightarrow> d' = mark_block_runtime_ticket t k now d"
  by (auto simp: execution_ticket_for_worker_def Let_def result_simps dest: plan_ticket_state split: option.splits)

lemma alike_issue: "alike d (fst (issue_worker_execution str_of q status x now d))"
proof -
  have "alike d (file_ticket t k (mark_block_runtime_ticket t k now d))" for t k by (rule alike_ticketed) simp
  then have staged: "alike d (fst (register_worker_staging str_of ls t r p now (file_ticket t k (mark_block_runtime_ticket t k now d))))"
    for ls t r p k by (rule alike_trans) (rule alike_staging)
  show ?thesis
    using staged alike_trans [OF staged alike_audit]
    by (auto simp: issue_worker_execution_def Let_def result_simps dest!: worker_ticket_state split: sum.split prod.split)
      (metis fst_conv)+
qed

text \<open>A property that reaping and the lease checks keep is kept by an authorization.\<close>

locale request_invariant =
  fixes P :: "Daemon \<Rightarrow> bool"
  assumes reap: "P d \<Longrightarrow> P (fst (reap_stale_sessions now d))"
    and release: "P d \<Longrightarrow> P (release_expired_lease now i d)"
    and alike: "P d \<Longrightarrow> alike d e \<Longrightarrow> P e"
begin

lemma admission: "P d \<Longrightarrow> validate_transfer_admission t l now d = (d1, r) \<Longrightarrow> P d1"
  using alike [OF _ alike_admission] by (metis fst_conv)

lemma related: "P d \<Longrightarrow> P (fst (check_related_leases q primary ls now d))"
  by (induction q primary ls "now" d rule: check_related_leases.induct)
    (auto dest: admission intro: release split: prod.split option.split)

lemma related_leases: "P d \<Longrightarrow> P (fst (authorize_related_leases str_of q primary now d))"
  using related by (auto simp: authorize_related_leases_def dest: admission split: sum.split prod.split option.split)
    (metis fst_conv admission)+

lemma authorization_context: "P d \<Longrightarrow> P (fst (worker_authorization_context str_of q lease peer now d))"
  unfolding worker_authorization_context_def
  by (auto dest: admission split: prod.split option.split sum.split response.split)
    (metis fst_conv admission related_leases)+

lemma authorize: "P d \<Longrightarrow> P (fst (authorize_worker_transfer str_of q peer now d))"
  unfolding authorize_worker_transfer_def Let_def
  by (auto intro: reap release alike [OF _ alike_issue] split: prod.split option.split sum.split response.split)
    (metis fst_conv reap authorization_context alike alike_issue)+

end

interpretation accounts: request_invariant daemon_ok
  by unfold_locales (auto simp: reap_stale_ok release_expired_ok alike_def intro: ok_same(1))

end
