(* ===== verification/Daemon_Steps.thy ===== *)
theory Daemon_Steps
  imports Daemon_Authorize
begin

text \<open>
  The daemon as a state machine: its step relation, the states it can reach from a fresh start, and
  what holds in all of them.
\<close>

section \<open>Steps\<close>

text \<open>
  A step is one request handler or reaper, run under the daemon's lock.  Fresh ids are really fresh,
  and the scheduler's answers satisfy \<open>promotions_ok\<close> and \<open>planned_ok\<close>, which the leases of
  \<open>leases_for_plan\<close> do for plans over a profile without a relay twice (\<open>granted_answer_ok\<close> in
  \<open>Daemon_Leases\<close>); it answers for no negative byte count.
\<close>

inductive daemon_step :: "Daemon \<Rightarrow> Daemon \<Rightarrow> bool" where
  step_register_session:
    "promotions_ok ps d \<Longrightarrow> map_of (d_sessions (reap_and_refresh token now ps d)) i = None \<Longrightarrow>
     daemon_step d (fst (register_session token ps eligible i target m capable peer scoped c now d))"
| step_close_session: "daemon_step d (fst (close_session i peer now d))"
| step_register_job: "register_job raw peer now d = Inr (d', r) \<Longrightarrow> daemon_step d d'"
| step_register_buffer:
    "promotions_ok ps d \<Longrightarrow> register_buffer token ps b peer now d = Inr (d', r) \<Longrightarrow> daemon_step d d'"
| step_plan_transfer:
    "promotions_ok ps d \<Longrightarrow>
     (\<And>s owner p. schedule (reap_and_refresh token now ps d) s owner = Inr p \<Longrightarrow>
        planned_ok s p (reap_and_refresh token now ps d) \<and> 0 \<le> n \<and>
        known_status (pt_transfer_id p) d = None) \<Longrightarrow>
     daemon_step d (fst (answer_plan str_of now (plan_transfer token ps schedule i n ranges job bs peer now d)))"
| step_submit_intent:
    "promotions_ok ps d \<Longrightarrow> daemon_step d (fst (submit_intent str_of token ps intent peer now d))"
| step_record_intent: "daemon_step d (fst (record_submitted_intent str_of intent t now d))"
| step_validate_lease: "daemon_step d (fst (validate_lease i tok s g j bs peer now d))"
| step_authorize: "daemon_step d (fst (authorize_worker_transfer str_of q peer now d))"
| step_transfer_status:
    "promotions_ok ps d \<Longrightarrow>
     daemon_step d (fst (transfer_status str_of token ps t state n e src ev peer now d))"
| step_cleanup:
    "promotions_ok ps d \<Longrightarrow> cleanup str_of token ps raw peer now d = Inr (d', r) \<Longrightarrow> daemon_step d d'"
| step_disconnect: "daemon_step d (fst (cleanup_connection_scoped_sessions peer c' reason now d))"
| step_reap_sessions: "daemon_step d (fst (reap_stale_sessions now d))"
| step_refresh: "promotions_ok ps d \<Longrightarrow> daemon_step d (fst (refresh_admission_state token now ps d))"

inductive_cases daemon_stepE: "daemon_step d d'"

lemma register_job_ok: "daemon_ok d \<Longrightarrow> register_job raw peer now d = Inr (d', r) \<Longrightarrow> daemon_ok d'"
  unfolding register_job_def
  by (auto simp: rbind_def register_job_locked_ok fst_def [symmetric] split: sum.splits prod.splits)
     (metis fst_conv register_job_locked_ok)+

lemma register_buffer_ok:
  "daemon_ok d \<Longrightarrow> promotions_ok ps d \<Longrightarrow> register_buffer token ps b peer now d = Inr (d', r) \<Longrightarrow> daemon_ok d'"
  unfolding register_buffer_def
  by (auto simp: rbind_def split: sum.splits) (metis fst_conv reap_and_refresh_ok register_buffer_locked_ok)

lemma record_intent_ok: "daemon_ok d \<Longrightarrow> daemon_ok (fst (record_submitted_intent str_of intent t now d))"
  using ok_same(1) [OF core_record_intent] .

lemmas handler_ok = register_session_ok close_session_ok register_job_ok register_buffer_ok
  plan_transfer_ok submit_intent_ok record_intent_ok validate_lease_ok accounts.authorize transfer_status_ok cleanup_ok
  cleanup_connection_ok refresh_ok

lemma daemon_step_ok: "daemon_step d d' \<Longrightarrow> daemon_ok d \<Longrightarrow> daemon_ok d'"
proof (induction rule: daemon_step.induct)
  case step_plan_transfer
  then show ?case by (intro answer_plan_ok plan_transfer_ok) blast+
next
  case (step_reap_sessions d "now")
  then show ?case using reap_stale_ok by blast
qed (auto intro: handler_ok)

lemma initial_quotas:
  "map_of (d_relay_quotas (initial_daemon relays ms mc timeout auth policy)) g =
   (if g \<in> set relays then Some (new_quota ms mc g) else None)"
proof -
  have "map_of (fold (\<lambda>g. AList.update g (new_quota ms mc g)) relays qs) g =
      (if g \<in> set relays then Some (new_quota ms mc g) else map_of qs g)" for qs
    by (induction relays arbitrary: qs) auto
  then show ?thesis by (simp add: initial_daemon_def)
qed

lemma initial_daemon_ok: "daemon_ok (initial_daemon relays ms mc timeout auth policy)"
proof -
  let ?d = "initial_daemon relays ms mc timeout auth policy"
  have "dict_wf (d_relay_quotas ?d)"
    unfolding initial_daemon_def by simp (rule fold_keeps [where P = dict_wf], auto)
  moreover have "attached_ok Map.empty (d_sessions ?d) (d_relay_quotas ?d)"
    by (auto simp: attached_ok_def new_quota_def initial_quotas split: if_splits)
  moreover have "ledger_balanced rv_relay_gpu rq_active_chunks rq_max_inflight_chunks (d_reservations ?d) (d_relay_quotas ?d)"
    by (auto simp: ledger_balanced_def new_quota_def owed_def initial_quotas split: if_splits)
       (simp_all add: initial_daemon_def)
  ultimately show ?thesis
    by (simp add: daemon_ok_def ledger_ok_def tables_ok_def initial_daemon_def ledger_balanced_def nonneg_chunks_def)
qed

definition daemon_reachable :: "Daemon \<Rightarrow> Daemon \<Rightarrow> bool" where
  "daemon_reachable = rtranclp daemon_step"

lemma reachable_daemon_ok:
  assumes "daemon_reachable (initial_daemon relays ms mc timeout auth policy) d"
  shows "daemon_ok d"
  using assms unfolding daemon_reachable_def
  by (induction rule: rtranclp_induct) (auto intro: initial_daemon_ok daemon_step_ok)

end
