(* ===== verification/Daemon_Properties.thy ===== *)
theory Daemon_Properties
  imports Daemon_Steps
begin

text \<open>
  Properties of the daemon: its ledger and references in every reachable state, what closing a
  session and reaping leases do, the tenant quotas, ownership, and what an accepted lease is.
\<close>

section \<open>A sample run\<close>

text \<open>A daemon with one relay; a user registers a session, then plans a transfer over the relay.\<close>

definition sample_policy :: QuotaPolicy where
  "sample_policy = \<lparr>qp_max_sessions_per_uid = 1, qp_max_jobs_per_uid = 0, qp_max_buffers_per_uid = 0,
     qp_max_buffer_bytes_per_uid = 0\<rparr>"

definition sample_start :: Daemon where
  "sample_start = initial_daemon [1] 1 4 60 True sample_policy"

definition sample_peer :: PeerIdentity where
  "sample_peer = \<lparr>pi_authenticated = True, pi_source = ''unix'', pi_user_id = Some ''1000'',
     pi_process_id = Some 7, pi_group_id = Some 100, pi_container_id = None, pi_unsupported_reason = None\<rparr>"

definition sample_open :: "Daemon \<times> Session response" where
  "sample_open = register_session id [] None ''s1'' 0 8 True (Some sample_peer) False None 10 sample_start"

definition sample_decision :: SchedulingDecision where
  "sample_decision = \<lparr>sd_decision_id = ''d'', sd_intent_id = ''i'', sd_topology_snapshot_id = ''t'',
     sd_job_id = ''job'', sd_session_id = ''s1'', sd_state = PLANNED, sd_plan = [], sd_path_summary = [],
     sd_fallback_reason = None, sd_rejection_reason = None, sd_issued_at = 10, sd_metadata = []\<rparr>"

definition sample_planned :: PlannedTransfer where
  "sample_planned = \<lparr>pt_transfer_id = ''t1'', pt_decision = sample_decision, pt_leases = sample_leases,
     pt_block_plan = None, pt_intent_id = None, pt_job_id = None, pt_buffer_ids = [], pt_total_bytes = 12,
     pt_request_fields = [], pt_allow_delayed = True, pt_fairness_blocked = None,
     pt_runtime_blocked = (\<lambda>_. None), pt_evidence = [], pt_priority_order = [], pt_snapshots = [],
     pt_direct_ticket = None\<rparr>"

definition sample_schedule :: "Daemon \<Rightarrow> Session \<Rightarrow> string option \<Rightarrow> PlannedTransfer result" where
  "sample_schedule d s owner =
     (if ss_session_id s = ''s1'' \<and> leases_fresh sample_leases d then Inr sample_planned
      else Inl (ValueError ''no plan''))"

definition no_text :: "pyval \<Rightarrow> string" where
  "no_text v = []"

definition sample_busy ::
  "Daemon \<times> (string \<times> TransferReservation list \<times> ExecutionTicket option) response result" where
  "sample_busy = answer_plan no_text 20
     (plan_transfer id [] sample_schedule ''s1'' 12 None None None (Some sample_peer) 20 (fst sample_open))"

lemma sample_reachable:
  "daemon_reachable sample_start (fst sample_open)"
  "daemon_reachable sample_start (fst sample_busy)"
proof -
  have none: "promotions_ok [] d" for d by (simp add: promotions_ok_def)
  have fresh: "map_of (d_sessions (reap_and_refresh id 10 [] sample_start)) ''s1'' = None" by code_simp
  have first: "daemon_step sample_start (fst sample_open)"
    unfolding sample_open_def by (rule step_register_session [OF none fresh])
  have "daemon_step (fst sample_open) (fst sample_busy)"
    unfolding sample_busy_def
  proof (rule step_plan_transfer [OF none])
    fix s owner p
    assume "sample_schedule (reap_and_refresh id 20 [] (fst sample_open)) s owner = Inr p"
    then have "ss_session_id s = ''s1''" "leases_fresh sample_leases (reap_and_refresh id 20 [] (fst sample_open))"
      "p = sample_planned"
      by (simp_all add: sample_schedule_def split: if_splits)
    moreover have "known_status ''t1'' (fst sample_open) = None" by code_simp
    ultimately show "planned_ok s p (reap_and_refresh id 20 [] (fst sample_open)) \<and> 0 \<le> (12::int) \<and>
        known_status (pt_transfer_id p) (fst sample_open) = None"
      by (simp add: planned_ok_def sample_planned_def answer_ok_def sample_leases_def)
  qed
  with first show "daemon_reachable sample_start (fst sample_open)"
    "daemon_reachable sample_start (fst sample_busy)"
    by (auto simp: daemon_reachable_def)
qed

section \<open>The ledger\<close>

text \<open>
  C1: in every state the daemon can reach, a session's and a relay's count of active chunks is the
  sum of the reservations outstanding against it and never exceeds its limit; a relay's attached
  sessions are distinct and within its session limit.  (The steps assume that a scheduler's answer
  holds at most one lease per relay, under fresh ids; see \<open>Daemon_Steps\<close>.)
\<close>

theorem reachable_ledger:
  assumes "daemon_reachable (initial_daemon relays ms mc timeout auth policy) d"
  shows "(\<forall>i s. map_of (d_sessions d) i = Some s \<longrightarrow>
      ss_active_chunks s = owed rv_session_id i (d_reservations d) \<and>
      ss_active_chunks s \<le> max 0 (ss_max_inflight_chunks s)) \<and>
    (\<forall>g q. map_of (d_relay_quotas d) g = Some q \<longrightarrow>
      rq_active_chunks q = owed rv_relay_gpu g (d_reservations d) \<and>
      rq_active_chunks q \<le> max 0 (rq_max_inflight_chunks q) \<and>
      distinct (rq_sessions q) \<and> int (length (rq_sessions q)) \<le> max 0 (rq_max_sessions q))"
  using reachable_daemon_ok [OF assms]
  by (auto simp: daemon_ok_def ledger_ok_def ledger_balanced_def attached_ok_def)

theorem reachable_ledger_witness:
  "map_option ss_active_chunks (map_of (d_sessions (fst sample_busy)) ''s1'') = Some 2 \<and>
   owed rv_session_id ''s1'' (d_reservations (fst sample_busy)) = 2"
proof -
  have two: "map_option ss_active_chunks (map_of (d_sessions (fst sample_busy)) ''s1'') = Some 2" by code_simp
  then obtain s where "map_of (d_sessions (fst sample_busy)) ''s1'' = Some s" "ss_active_chunks s = 2" by auto
  with reachable_ledger [OF sample_reachable(2) [unfolded sample_start_def]] have
    "owed rv_session_id ''s1'' (d_reservations (fst sample_busy)) = 2" by metis
  with two show ?thesis by simp
qed

text \<open>
  C16: in every reachable state the tables refer to each other properly: a reservation belongs to a
  registered session and has its lease token (and no token is without its reservation), a job's
  session and a buffer's job are registered, and a session attached to a relay is registered and
  lists that relay.
\<close>

theorem reachable_references:
  assumes "daemon_reachable (initial_daemon relays ms mc timeout auth policy) d"
  shows "(\<forall>k r. map_of (d_reservations d) k = Some r \<longrightarrow> map_of (d_sessions d) (rv_session_id r) \<noteq> None) \<and>
    (\<forall>k. map_of (d_lease_tokens d) k \<noteq> None \<longleftrightarrow> map_of (d_reservations d) k \<noteq> None) \<and>
    (\<forall>i j s. map_of (d_jobs d) i = Some j \<longrightarrow> ji_session_id j = Some s \<longrightarrow> map_of (d_sessions d) s \<noteq> None) \<and>
    (\<forall>i b. map_of (d_buffers d) i = Some b \<longrightarrow> map_of (d_jobs d) (br_job_id b) \<noteq> None) \<and>
    (\<forall>g q i. map_of (d_relay_quotas d) g = Some q \<longrightarrow> i \<in> set (rq_sessions q) \<longrightarrow>
       (\<exists>s. map_of (d_sessions d) i = Some s \<and> g \<in> set (ss_relay_gpus s)))"
  using reachable_daemon_ok [OF assms]
  by (simp add: daemon_ok_def ledger_ok_def tables_ok_def attached_ok_def)

theorem reachable_references_witness:
  "map_of (d_lease_tokens (fst sample_busy)) (sample_ids 0) \<noteq> None \<and>
   map_of (d_reservations (fst sample_busy)) (sample_ids 0) \<noteq> None"
proof -
  have "map_of (d_reservations (fst sample_busy)) (sample_ids 0) \<noteq> None" by code_simp
  with reachable_references [OF sample_reachable(2) [unfolded sample_start_def]] show ?thesis by blast
qed

section \<open>Closing a session\<close>

text \<open>
  C13: closing a session takes away exactly what it owns: the session itself, its reservations, its
  jobs and their buffers, and its place on every relay, whose active chunks are then the sum of the
  other sessions' reservations; all other sessions, reservations, jobs and buffers stay as they are.
\<close>

theorem close_session_takes_what_it_owns:
  assumes "daemon_reachable (initial_daemon relays ms mc timeout auth policy) d"
    and "close_session i peer now d = (e, Accepted removed)"
    and "map_of (d_sessions (fst (reap_stale_sessions now d))) i = Some s"
  shows "(let d1 = fst (reap_stale_sessions now d);
       owns = (\<lambda>j. \<exists>x. map_of (d_jobs d1) j = Some x \<and> ji_session_id x = Some i)
     in map_of (d_sessions e) = (map_of (d_sessions d1))(i := None) \<and>
        (\<forall>k. map_of (d_reservations e) k = (case map_of (d_reservations d1) k of None \<Rightarrow> None
           | Some r \<Rightarrow> if rv_session_id r = i then None else Some r)) \<and>
        (\<forall>j. map_of (d_jobs e) j = (if owns j then None else map_of (d_jobs d1) j)) \<and>
        (\<forall>b. map_of (d_buffers e) b = (case map_of (d_buffers d1) b of None \<Rightarrow> None
           | Some x \<Rightarrow> if owns (br_job_id x) then None else Some x)) \<and>
        (\<forall>g q. map_of (d_relay_quotas e) g = Some q \<longrightarrow>
           i \<notin> set (rq_sessions q) \<and> rq_active_chunks q = owed rv_relay_gpu g (d_reservations e)))"
proof -
  define d1 where "d1 = fst (reap_stale_sessions now d)"
  have ok: "daemon_ok d1" using reap_stale_ok [OF reachable_daemon_ok [OF assms(1)]] by (simp add: d1_def)
  have s: "map_of (d_sessions d1) i = Some s" using assms(3) by (simp add: d1_def)
  have e: "e = fst (close_session_locked i ''session_closed'' (Some (session_owned_cleanup_targets i d1)) now d1)"
    using assms(2) s
    by (auto simp: close_session_def Let_def d1_def [symmetric] guarded_def case_prod_beta split: sum.splits if_splits)
  note facts = close_facts [OF ok s owned_for_here, of "''session_closed''" "now", folded e]
  have owns: "j \<in> set (session_jobs i d1) \<longleftrightarrow> (\<exists>x. map_of (d_jobs d1) j = Some x \<and> ji_session_id x = Some i)" for j
    using ok by (intro in_session_jobs) (simp add: daemon_ok_def tables_ok_def)
  have "i \<notin> set (rq_sessions q) \<and> rq_active_chunks q = owed rv_relay_gpu g (d_reservations e)"
    if q: "map_of (d_relay_quotas e) g = Some q" for g q
  proof -
    have "attached_ok Map.empty (d_sessions e) (d_relay_quotas e)"
      "ledger_balanced rv_relay_gpu rq_active_chunks rq_max_inflight_chunks (d_reservations e) (d_relay_quotas e)"
      using facts(1) by (simp_all add: daemon_ok_def ledger_ok_def)
    moreover have "map_of (d_sessions e) i = None" by (simp add: facts(2))
    ultimately show ?thesis using q by (fastforce simp: attached_ok_def ledger_balanced_def)
  qed
  then show ?thesis
    unfolding Let_def d1_def [symmetric] owns [symmetric] facts(3,4,5) by (simp add: facts(2))
qed

definition sample_closed :: "Daemon \<times> Removed response" where
  "sample_closed = close_session ''s1'' (Some sample_peer) 30 (fst sample_busy)"

theorem close_session_takes_what_it_owns_witness:
  "map_of (d_sessions (fst sample_closed)) ''s1'' = None \<and>
   map_of (d_reservations (fst sample_closed)) (sample_ids 0) = None"
proof -
  have ids: "map_option rv_session_id (map_of (d_reservations (fst (reap_stale_sessions 30 (fst sample_busy)))) (sample_ids 0)) = Some ''s1''"
    by code_simp
  obtain r where acc: "close_session ''s1'' (Some sample_peer) 30 (fst sample_busy) = (fst sample_closed, Accepted r)"
  proof -
    have "(case snd sample_closed of Accepted r \<Rightarrow> True | Refused e \<Rightarrow> False)" by code_simp
    with that show thesis unfolding sample_closed_def by (cases "close_session ''s1'' (Some sample_peer) 30 (fst sample_busy)")
      (auto split: response.splits)
  qed
  obtain s where s: "map_of (d_sessions (fst (reap_stale_sessions 30 (fst sample_busy)))) ''s1'' = Some s"
  proof -
    have "map_of (d_sessions (fst (reap_stale_sessions 30 (fst sample_busy)))) ''s1'' \<noteq> None" by code_simp
    with that show thesis by blast
  qed
  show ?thesis
    using close_session_takes_what_it_owns [OF sample_reachable(2) [unfolded sample_start_def] acc s] ids
    by (auto simp: Let_def split: option.splits)
qed

end
