(* ===== verification/Daemon_Tenants.thy ===== *)
theory Daemon_Tenants
  imports Daemon_Properties
begin

text \<open>
  Tenants of the daemon: the sessions the usage snapshot charges to a tenant, the session quota that
  holds after a registration, and that only the owner of a session can close it.
\<close>

section \<open>The usage snapshot\<close>

definition usage_of :: "(string, TenantUsage) dict \<Rightarrow> string \<Rightarrow> TenantUsage" where
  "usage_of usage u = dget_default usage u empty_usage"

lemma usage_of_charge:
  "usage_of (charge uid f usage) u = (if uid = Some u then f (usage_of usage u) else usage_of usage u)"
  by (simp add: usage_of_def charge_def dget_default_def split: option.splits)

lemma usage_of_start: "usage_of (map (\<lambda>uid. (uid, empty_usage)) us) u = empty_usage"
  by (auto simp: usage_of_def dget_default_def map_of_map_restrict restrict_map_def split: option.splits)

text \<open>
  A charge keeps a field \<open>sel\<close> of the usage record or adds one to it.  The snapshot charges sessions
  in its first pass; the other passes leave their number alone.
\<close>

lemma usage_of_fold_count:
  assumes "\<And>t. sel (f t) = sel t + (1 :: int)"
  shows "sel (usage_of (fold (\<lambda>x. charge (uid x) f) xs usage) u) =
    sel (usage_of usage u) + int (length (filter (\<lambda>x. uid x = Some u) xs))"
  by (induction xs arbitrary: usage) (auto simp: usage_of_charge assms)

lemma usage_of_fold_same:
  assumes "\<And>x usage. sel (usage_of (g x usage) u) = sel (usage_of usage u)"
  shows "sel (usage_of (fold g xs usage) u) = sel (usage_of usage u)"
  by (induction xs arbitrary: usage) (simp_all add: assms)

lemmas sessions_kept = usage_of_fold_same [where sel = tu_active_sessions]

lemma charged_sessions:
  "tu_active_sessions (usage_of (tenant_usage_snapshot d) u) =
     int (length (filter (\<lambda>x. session_uid x d = Some u) (d_sessions d)))"
  unfolding tenant_usage_snapshot_def Let_def
  by (subst sessions_kept, simp add: usage_of_charge split: prod.splits,
      subst sessions_kept, simp add: usage_of_charge split: prod.splits,
      subst sessions_kept, simp add: usage_of_charge split: prod.splits,
      subst sessions_kept, simp add: usage_of_charge split: prod.splits,
      simp add: usage_of_fold_count [where sel = tu_active_sessions] usage_of_start,
      simp add: empty_usage_def)

section \<open>The session quota\<close>

lemma update_new: "map_of d k = None \<Longrightarrow> AList.update k v d = d @ [(k, v)]"
  by (induction d) (auto split: if_splits)

lemma precheck_sessions:
  assumes "tenant_quota_precheck peer ''active_sessions'' 1 0 now d = (d', None)" and "peer_uid peer = Some u"
  shows "d' = d" and "0 < qp_max_sessions_per_uid (d_quota_policy d) \<Longrightarrow>
    int (length (filter (\<lambda>x. session_uid x d = Some u) (d_sessions d))) + 1 \<le> qp_max_sessions_per_uid (d_quota_policy d)"
proof -
  have use: "dget_default (tenant_usage_snapshot d) u empty_usage = usage_of (tenant_usage_snapshot d) u"
    by (simp add: usage_of_def)
  show "d' = d" and "0 < qp_max_sessions_per_uid (d_quota_policy d) \<Longrightarrow>
    int (length (filter (\<lambda>x. session_uid x d = Some u) (d_sessions d))) + 1 \<le> qp_max_sessions_per_uid (d_quota_policy d)"
    using assms charged_sessions [of d u]
    by (auto simp: tenant_quota_precheck_def use over_limit_def tenant_quota_rejection_def Let_def split: if_splits)
qed

text \<open>
  C26: a tenant never holds more active sessions than its quota: after a registration by an
  authenticated user is accepted under a fresh session id, the number of that user's active sessions
  is within the limit.
\<close>

theorem session_quota_respected:
  assumes "register_session token ps eligible i target m capable peer scoped c now d = (e, Accepted s)"
    and "peer_uid peer = Some u" and "0 < qp_max_sessions_per_uid (d_quota_policy e)"
    and "map_of (d_sessions (reap_and_refresh token now ps d)) i = None"
  shows "int (length (filter (\<lambda>x. session_uid x e = Some u) (d_sessions e))) \<le> qp_max_sessions_per_uid (d_quota_policy e)"
proof -
  let ?d1 = "reap_and_refresh token now ps d"
  obtain d2 err where d2: "tenant_quota_precheck peer ''active_sessions'' 1 0 now ?d1 = (d2, err)" by force
  obtain gs where "err = None" and add: "add_session i target m capable peer scoped c gs now d2 = (e, s)"
    using assms(1) by (auto simp: register_session_def Let_def d2 case_prod_beta prod_eq_iff
        split: if_splits option.splits sum.splits)
  then have pre: "tenant_quota_precheck peer ''active_sessions'' 1 0 now ?d1 = (?d1, None)"
    and e: "add_session i target m capable peer scoped c gs now ?d1 = (e, s)"
    using precheck_sessions(1) [OF _ assms(2), of "now" ?d1 d2] d2 by simp_all
  obtain p where p: "peer = Some p" using assms(2) by (cases peer) (auto simp: peer_uid_def)
  have sess: "d_sessions e = d_sessions ?d1 @ [(i, s)]" and peers: "d_session_peers e = AList.update i p (d_session_peers ?d1)"
    and policy: "d_quota_policy e = d_quota_policy ?d1"
    using e update_new [OF assms(4)] by (auto simp: add_session_def Let_def p)
  have "session_uid x e = session_uid x ?d1" if "x \<in> set (d_sessions ?d1)" for x
  proof -
    have "fst x \<noteq> i" using that assms(4) by (auto simp: map_of_eq_None_iff)
    then show ?thesis by (cases x) (simp add: session_uid_def peers)
  qed
  then have "filter (\<lambda>x. session_uid x e = Some u) (d_sessions ?d1) =
      filter (\<lambda>x. session_uid x ?d1 = Some u) (d_sessions ?d1)"
    by (intro filter_cong) simp_all
  then have "length (filter (\<lambda>x. session_uid x e = Some u) (d_sessions e)) \<le>
      length (filter (\<lambda>x. session_uid x ?d1 = Some u) (d_sessions ?d1)) + 1"
    by (simp add: sess)
  with precheck_sessions(2) [OF pre assms(2)] assms(3) show ?thesis by (simp add: policy)
qed

theorem session_quota_respected_witness:
  "length (filter (\<lambda>x. session_uid x (fst sample_open) = Some ''1000'') (d_sessions (fst sample_open))) \<le> 1 \<and>
   (case snd (register_session id [] None ''s2'' 0 8 False (Some sample_peer) False None 10 (fst sample_open)) of
      Refused e \<Rightarrow> e = ''tenant quota exceeded: active_sessions'' | Accepted s \<Rightarrow> False)"
proof -
  have "(case snd sample_open of Accepted r \<Rightarrow> True | Refused e \<Rightarrow> False)" by code_simp
  then obtain s where "register_session id [] None ''s1'' 0 8 True (Some sample_peer) False None 10 sample_start =
      (fst sample_open, Accepted s)"
    unfolding sample_open_def
    by (cases "register_session id [] None ''s1'' 0 8 True (Some sample_peer) False None 10 sample_start")
       (auto split: response.splits)
  moreover have "peer_uid (Some sample_peer) = Some ''1000''" by code_simp
  moreover have one: "qp_max_sessions_per_uid (d_quota_policy (fst sample_open)) = 1" by code_simp
  moreover have "map_of (d_sessions (reap_and_refresh id 10 [] sample_start)) ''s1'' = None" by code_simp
  ultimately have "int (length (filter (\<lambda>x. session_uid x (fst sample_open) = Some ''1000'') (d_sessions (fst sample_open)))) \<le> 1"
    using session_quota_respected [of id "[]" None "''s1''" 0 8 True "Some sample_peer" False None 10 sample_start
        "fst sample_open" s "''1000''"] by simp
  moreover have "(case snd (register_session id [] None ''s2'' 0 8 False (Some sample_peer) False None 10 (fst sample_open)) of
      Refused e \<Rightarrow> e = ''tenant quota exceeded: active_sessions'' | Accepted s \<Rightarrow> False)" by code_simp
  ultimately show ?thesis by simp
qed

section \<open>Ownership\<close>

text \<open>
  C27: a peer authenticated as another user than the session's owner can neither close the session
  nor clean it up: both requests are refused with the owner mismatch and change nothing (closing
  first reaps stale sessions).
\<close>

theorem only_the_owner_closes:
  assumes "d1 = fst (reap_stale_sessions now d)" and "map_of (d_sessions d1) (cr_target_id c) = Some s"
    and "map_of (d_session_peers d1) (cr_target_id c) = Some owner" and "pi_authenticated owner" and "pi_authenticated p"
    and "str_opt (pi_user_id owner) \<noteq> str_opt (pi_user_id p)"
  shows "close_session (cr_target_id c) (Some p) now d =
      (d1, Refused ''session owner does not match authenticated peer'') \<and>
    cleanup_session_target token ps c (Some p) now d1 =
      (d1, Refused ''session owner does not match authenticated peer'')"
proof -
  have "validate_peer_owns_session (cr_target_id c) (Some p) d1 =
      Inl (ValueError ''session owner does not match authenticated peer'')"
    using assms(2-6) by (simp add: validate_peer_owns_session_def validate_peer_owner_match_def authenticated_def)
  with assms(1,2) show ?thesis
    by (simp add: close_session_def cleanup_session_target_def Let_def guarded_def error_text_def)
qed

definition sample_intruder :: PeerIdentity where
  "sample_intruder = sample_peer\<lparr>pi_user_id := Some ''2000''\<rparr>"

definition sample_cleanup :: CleanupRequest where
  "sample_cleanup = \<lparr>cr_target_kind = ''session'', cr_target_id = ''s1'', cr_reason = ''done'', cr_force = True,
     cr_owner_binding = None, cr_retention_evidence = None\<rparr>"

theorem only_the_owner_closes_witness:
  "snd (close_session ''s1'' (Some sample_intruder) 30 (fst sample_busy)) =
     Refused ''session owner does not match authenticated peer'' \<and>
   (case snd sample_closed of Accepted r \<Rightarrow> rm_reservations r = 1 | Refused e \<Rightarrow> False)"
proof -
  let ?d = "fst (reap_stale_sessions 30 (fst sample_busy))"
  have "map_of (d_session_peers ?d) ''s1'' = Some sample_peer" by code_simp
  moreover have "map_of (d_sessions ?d) ''s1'' \<noteq> None" by code_simp
  then obtain s where "map_of (d_sessions ?d) ''s1'' = Some s" by blast
  ultimately have "close_session ''s1'' (Some sample_intruder) 30 (fst sample_busy) =
      (?d, Refused ''session owner does not match authenticated peer'')"
    using only_the_owner_closes [OF refl, of 30 "fst sample_busy" sample_cleanup s sample_peer sample_intruder]
    by (simp add: sample_cleanup_def sample_intruder_def sample_peer_def str_opt_def)
  moreover have "(case snd sample_closed of Accepted r \<Rightarrow> rm_reservations r = 1 | Refused e \<Rightarrow> False)" by code_simp
  ultimately show ?thesis by simp
qed

end
