(* ===== verification/Daemon_Leases.thy ===== *)
theory Daemon_Leases
  imports Daemon_Properties
begin

text \<open>
  Leases of the daemon: admission never overdraws, a registration reserves what it was admitted for
  and nothing else, and reaping is exact.
\<close>

section \<open>Admission\<close>

lemma committed_leases_fit:
  assumes "daemon_reachable (initial_daemon relays ms mc timeout auth policy) d"
    and "map_of (d_sessions d) i = Some s" and "answer_ok i ls" and "leases_fresh ls d"
    and "relay_admission_blocked_reason f rb s ls d = None"
    and "e = fst (commit_scheduler_leases token i ls t bs d)"
  shows "(\<exists>s'. map_of (d_sessions e) i = Some s' \<and> ss_active_chunks s' = ss_active_chunks s + lease_chunks ls \<and>
      ss_active_chunks s' \<le> ss_max_inflight_chunks s') \<and>
    (\<forall>g q. map_of (d_relay_quotas e) g = Some q \<longrightarrow>
      (\<exists>q0. map_of (d_relay_quotas d) g = Some q0 \<and> rq_active_chunks q = rq_active_chunks q0 + relay_chunks g ls) \<and>
      rq_active_chunks q \<le> max 0 (rq_max_inflight_chunks q))"
proof -
  have ok: "daemon_ok d" using reachable_daemon_ok [OF assms(1)] .
  then have "leases_admissible i ls d"
    using admission_admissible [OF _ assms(2-5)] by (simp add: daemon_ok_def)
  then have "daemon_ok e" unfolding assms(6) by (rule commit_leases_ok [OF ok])
  then have bal: "\<forall>g q. map_of (d_relay_quotas e) g = Some q \<longrightarrow> rq_active_chunks q \<le> max 0 (rq_max_inflight_chunks q)"
    by (simp add: daemon_ok_def ledger_ok_def ledger_balanced_def)
  have e: "e = fold (commit_lease token i t bs) ls d" by (simp add: assms(6) commit_scheduler_leases_def)
  have sessions: "\<exists>s'. map_of (d_sessions (fold (commit_lease token i t bs) ls d)) i = Some s' \<and>
      ss_active_chunks s' = ss_active_chunks s + lease_chunks ls \<and> ss_max_inflight_chunks s' = ss_max_inflight_chunks s"
    if "map_of (d_sessions d) i = Some s" for d s
    using that
  proof (induction ls arbitrary: d s)
    case Nil
    then show ?case by simp
  next
    case (Cons l ls)
    have "map_of (d_sessions (commit_lease token i t bs l d)) i = Some (add_session_chunks (pl_chunk_limit l) s)"
      using Cons.prems by (simp add: commit_lease_fields map_of_modify)
    from Cons.IH [OF this] show ?case by (simp add: add_session_chunks_def algebra_simps)
  qed
  have quotas: "\<exists>q0. map_of (d_relay_quotas d) g = Some q0 \<and> rq_active_chunks q = rq_active_chunks q0 + relay_chunks g ls"
    if "map_of (d_relay_quotas (fold (commit_lease token i t bs) ls d)) g = Some q" for d g q
    using that
  proof (induction ls arbitrary: d)
    case Nil
    then show ?case by simp
  next
    case (Cons l ls)
    from Cons.IH [of "commit_lease token i t bs l d"] Cons.prems show ?case
      by (auto simp: commit_lease_fields map_of_modify relay_chunks_Cons add_quota_chunks_def split: if_splits)
  qed
  have "ss_active_chunks s + lease_chunks ls \<le> ss_max_inflight_chunks s"
    using assms(5) by (simp add: relay_admission_blocked_reason_def split: if_splits)
  with sessions [OF assms(2)] quotas bal show ?thesis unfolding e by fastforce
qed

text \<open>
  What the invariant needs of the scheduler's leases is what \<open>leases_for_plan\<close> grants for a plan of
  the planner over a checked profile: no relay occurs twice, because no profile has one twice.
\<close>

lemma granted_answer_ok:
  assumes planned: "plan options n cb profile mode direction = Inr p \<or>
      plan_ranges options ranges cb profile mode direction = Inr p"
    and profile: "check_profile_relays relays profile = Inr u"
    and granted: "leases_for_plan fresh secs p s qs direction start job deferred = (ls, None)"
    and ids: "inj fresh"
  shows "answer_ok (ss_session_id s) ls \<and> (\<forall>l \<in> set ls. pl_lease_id l \<in> range fresh)"
proof -
  from granted obtain specs where specs: "lease_specs s qs (tpl_assignments p) = Some specs"
    by (auto simp: leases_for_plan_def split: option.splits)
  note sp = lease_specs_Some [OF specs]
  have "relay_assignments (tpl_assignments p) =
      filter (\<lambda>a. pa_chunks a \<noteq> []) (filter (\<lambda>a. goes_by_relay (pa_path a)) (tpl_assignments p))"
    by (auto simp: relay_assignments_def goes_by_relay_def intro: filter_cong)
  moreover have "distinct (map (\<lambda>a. pp_relay_device (pa_path a)) (filter (\<lambda>a. pa_chunks a \<noteq> [])
      (filter (\<lambda>a. goes_by_relay (pa_path a)) (tpl_assignments p))))"
    by (rule distinct_map_filter [OF planned_relays [OF planned profile]])
  ultimately have dist: "distinct (map fst specs)" using sp by presburger
  show ?thesis
  proof (cases "specs = []")
    case True
    with granted specs show ?thesis by (auto simp: leases_for_plan_def answer_ok_def)
  next
    case False
    with granted specs have "grant_leases fresh secs s qs direction start job deferred 0 specs = (ls, None)"
      by (auto simp: leases_for_plan_def split: if_splits)
    note gr = grant_leases_None [OF this]
    have triples: "specs = map (\<lambda>l. (pl_relay_device l, pl_chunk_limit l, pl_bytes_limit l)) ls"
      using gr by simp
    have "map fst specs = map pl_relay_device ls" by (simp add: triples comp_def)
    with dist have "distinct (map pl_relay_device ls)" by simp
    moreover have "distinct (map pl_lease_id ls)"
      using gr ids by (simp add: distinct_map inj_on_def inj_def)
    moreover have "pl_lease_id l \<in> range fresh" if "l \<in> set ls" for l
    proof -
      have "pl_lease_id l \<in> set (map pl_lease_id ls)" using that by simp
      also have "map pl_lease_id ls = map fresh [0..<0 + length specs]" using gr by blast
      finally show ?thesis by auto
    qed
    moreover have "0 \<le> pl_chunk_limit l" if "l \<in> set ls" for l
    proof -
      have "(pl_relay_device l, pl_chunk_limit l, pl_bytes_limit l) \<in> set specs"
        using that by (auto simp: triples)
      with sp show ?thesis by auto
    qed
    ultimately show ?thesis using gr by (auto simp: answer_ok_def list_all_iff)
  qed
qed

text \<open>
  C22: admission never overdraws.  In a reachable daemon, take a plan the planner made, for a byte
  count or for ranges, over a profile whose relays passed the check made when the daemon keeps a profile, and
  leases the scheduler granted for it for the session (whose chunks and quotas may have changed
  since), deferred or not, under ids that are distinct and in no reservation (the scheduler draws them with \<open>uuid4\<close>).
  When the admission check lets the leases through, committing them all grows the session's active
  chunks by the leases' total and each relay's by its share, and leaves the session within its chunk
  limit and every relay within its own.
\<close>

theorem admission_never_overdraws:
  assumes "daemon_reachable (initial_daemon relays ms mc timeout auth policy) d"
    and "map_of (d_sessions d) (ss_session_id s0) = Some s"
    and "plan options n cb profile mode direction = Inr p \<or>
      plan_ranges options ranges cb profile mode direction = Inr p"
    and "check_profile_relays gpus profile = Inr u"
    and "leases_for_plan fresh secs p s0 qs direction start job deferred = (ls, None)"
    and "inj fresh" and "\<forall>k. map_of (d_reservations d) (fresh k) = None"
    and "relay_admission_blocked_reason f rb s ls d = None"
    and "e = fst (commit_scheduler_leases token (ss_session_id s0) ls t bs d)"
  shows "(\<exists>s'. map_of (d_sessions e) (ss_session_id s0) = Some s' \<and>
      ss_active_chunks s' = ss_active_chunks s + lease_chunks ls \<and>
      ss_active_chunks s' \<le> ss_max_inflight_chunks s') \<and>
    (\<forall>g q. map_of (d_relay_quotas e) g = Some q \<longrightarrow>
      (\<exists>q0. map_of (d_relay_quotas d) g = Some q0 \<and> rq_active_chunks q = rq_active_chunks q0 + relay_chunks g ls) \<and>
      rq_active_chunks q \<le> max 0 (rq_max_inflight_chunks q))"
proof -
  note answer = granted_answer_ok [OF assms(3-6)]
  then have "leases_fresh ls d"
    using assms(7) by (auto simp: leases_fresh_def list_all_iff)
  with answer show ?thesis
    by (intro committed_leases_fit [OF assms(1,2) _ _ assms(8,9)]) simp_all
qed

definition sample_committed :: Daemon where
  "sample_committed = fst (commit_scheduler_leases id ''s1'' sample_leases (Some ''t1'') [] (fst sample_open))"

lemma relay_plan_granted:
  "\<exists>p. plan default_options 12 4 sample_profile RELAY ''h2d'' = Inr p \<and>
     leases_for_plan sample_ids 30 p sample_session [(1, sample_quota)] ''h2d'' 5 (Some ''job'') True =
       (sample_leases, None)"
proof -
  let ?r = "plan default_options 12 4 sample_profile RELAY ''h2d''"
  have "case ?r of Inr p \<Rightarrow> leases_for_plan sample_ids 30 p sample_session [(1, sample_quota)] ''h2d'' 5
      (Some ''job'') True = (sample_leases, None) | Inl _ \<Rightarrow> False" by code_simp
  then show ?thesis by (cases ?r) simp_all
qed

theorem admission_never_overdraws_witness:
  "map_option ss_active_chunks (map_of (d_sessions sample_committed) ''s1'') = Some 2 \<and>
   map_option rq_active_chunks (map_of (d_relay_quotas sample_committed) 1) = Some 2"
proof -
  let ?s = "the (map_of (d_sessions (fst sample_open)) ''s1'')"
  have s: "map_of (d_sessions (fst sample_open)) (ss_session_id sample_session) = Some ?s" by code_simp
  have zero: "ss_active_chunks ?s = 0" by code_simp
  have chunks: "lease_chunks sample_leases = 2" "relay_chunks 1 sample_leases = 2" by code_simp+
  obtain p where p: "plan default_options 12 4 sample_profile RELAY ''h2d'' = Inr p"
    and granted: "leases_for_plan sample_ids 30 p sample_session [(1, sample_quota)] ''h2d'' 5 (Some ''job'') True =
      (sample_leases, None)"
    using relay_plan_granted by blast
  have profile: "check_profile_relays [1] sample_profile = Inr ()" by code_simp
  have unused: "\<forall>k. map_of (d_reservations (fst sample_open)) (sample_ids k) = None"
  proof -
    have "d_reservations (fst sample_open) = []" by code_simp
    then show ?thesis by simp
  qed
  have free: "relay_admission_blocked_reason None (\<lambda>_. None) ?s sample_leases (fst sample_open) = None" by code_simp
  have committed: "sample_committed =
      fst (commit_scheduler_leases id (ss_session_id sample_session) sample_leases (Some ''t1'') [] (fst sample_open))"
    by (simp add: sample_committed_def sample_session_def)
  have s1: "ss_session_id sample_session = ''s1''" by (simp add: sample_session_def)
  note all = admission_never_overdraws [OF sample_reachable(1) [unfolded sample_start_def] s disjI1 [OF p]
      profile granted inj_sample_ids unused free committed, unfolded s1]
  have q0: "map_option rq_active_chunks (map_of (d_relay_quotas (fst sample_open)) 1) = Some 0"
    "map_of (d_relay_quotas sample_committed) 1 \<noteq> None" by code_simp+
  then obtain q where q: "map_of (d_relay_quotas sample_committed) 1 = Some q" by blast
  from all q q0 have "rq_active_chunks q = 2" by (fastforce simp: chunks)
  with all q zero show ?thesis by (auto simp: chunks)
qed

section \<open>Registration\<close>

lemma vget_update_other: "k \<noteq> k' \<Longrightarrow> vget (AList.update k' v m) k x = vget m k x"
  by (simp add: vget_def dget_default_def)

lemma admission_state:
  "vget (admission_for_decision dec ls blocked allow ev now) ''state'' VNone =
     VStr (if ls = [] \<or> blocked = None \<or> \<not> allow then ''admitted'' else ''delayed'')"
  by (auto simp: admission_for_decision_def admission_record_def vget_def dget_default_def split: option.splits)

lemma register_block_runtime_frame:
  "d_statuses (register_block_runtime_records t bp d) = d_statuses d"
  "d_transfer_queue (register_block_runtime_records t bp d) = d_transfer_queue d"
  "d_admissions (register_block_runtime_records t bp d) = d_admissions d"
  by (simp_all add: register_block_runtime_records_def Let_def)

lemma commit_leases_frame:
  "d_transfer_queue (fst (commit_scheduler_leases token i ls t bs d)) = d_transfer_queue d"
  "d_reservations (fst (commit_scheduler_leases token i ls t bs d)) =
     fold (\<lambda>l. AList.update (pl_lease_id l) (reservation_of l)) ls (d_reservations d)"
proof -
  have "d_transfer_queue (fold (commit_lease token i t bs) ls d) = d_transfer_queue d"
    by (rule fold_same) (simp add: commit_lease_def Let_def)
  moreover have "d_reservations (fold (commit_lease token i t bs) ls d) =
     fold (\<lambda>l. AList.update (pl_lease_id l) (reservation_of l)) ls (d_reservations d)"
    by (induction ls arbitrary: d) (simp_all add: commit_lease_fields)
  ultimately show "d_transfer_queue (fst (commit_scheduler_leases token i ls t bs d)) = d_transfer_queue d"
    "d_reservations (fst (commit_scheduler_leases token i ls t bs d)) =
       fold (\<lambda>l. AList.update (pl_lease_id l) (reservation_of l)) ls (d_reservations d)"
    by (simp_all add: commit_scheduler_leases_def)
qed

lemma file_planned_fields:
  "map_of (d_statuses (file_planned_transfer p i peer a now d)) (pt_transfer_id p) = Some (planned_status p i)"
  "d_transfer_queue (file_planned_transfer p i peer a now d) = d_transfer_queue d @ [pt_transfer_id p]"
  "vget (dget_default (d_admissions (file_planned_transfer p i peer a now d)) (pt_transfer_id p) []) ''state'' VNone =
     vget a ''state'' VNone"
  by (auto simp: file_planned_transfer_def register_plan_contract_def Let_def register_block_runtime_frame
      dget_default_def vget_def dict_merge_def split: option.splits)

lemma issue_direct_frame:
  "d_statuses (issue_direct_plan_ticket p rs d) = d_statuses d"
  "d_transfer_queue (issue_direct_plan_ticket p rs d) = d_transfer_queue d"
  "d_admissions (issue_direct_plan_ticket p rs d) = d_admissions d"
  "d_reservations (issue_direct_plan_ticket p rs d) = d_reservations d"
  by (simp_all add: issue_direct_plan_ticket_def split: option.splits)

lemma touch_frame:
  "d_statuses (touch_session i now d) = d_statuses d"
  "d_transfer_queue (touch_session i now d) = d_transfer_queue d"
  "d_admissions (touch_session i now d) = d_admissions d"
  by (simp_all add: touch_session_def)

text \<open>
  C23: registering a planned transfer reserves exactly its decision's leases when it is admitted and
  nothing when it is delayed; either way the transfer is queued as submitted with no bytes done, and
  its admission record says which.  A decision is delayed only if it has leases, something blocks
  them and delaying is allowed.
\<close>

theorem registration_reserves_when_admitted:
  "(let delayed = (pt_leases p \<noteq> [] \<and> admission_reason p s d \<noteq> None \<and> pt_allow_delayed p);
        e = fst (register_planned_transfer token s p peer now d);
        t = pt_transfer_id p
    in snd (register_planned_transfer token s p peer now d) = (if delayed then [] else map reservation_of (pt_leases p)) \<and>
       d_reservations e = (if delayed then d_reservations d
         else fold (\<lambda>l. AList.update (pl_lease_id l) (reservation_of l)) (pt_leases p) (d_reservations d)) \<and>
       map_of (d_statuses e) t = Some (planned_status p (ss_session_id s)) \<and>
       d_transfer_queue e = d_transfer_queue d @ [t] \<and>
       vget (dget_default (d_admissions e) t []) ''state'' VNone = VStr (if delayed then ''delayed'' else ''admitted''))"
proof -
  define d1 where "d1 = d\<lparr>d_plan_generations := AList.update (pt_transfer_id p) 1 (d_plan_generations d)\<rparr>"
  define a where "a = admission_for_decision (pt_decision p) (pt_leases p) (admission_reason p s d1)
    (pt_allow_delayed p) (pt_evidence p) now"
  define delayed where "delayed = (pt_leases p \<noteq> [] \<and> admission_reason p s d \<noteq> None \<and> pt_allow_delayed p)"
  obtain d2 rs a' where d2: "admitted_transfer_reservations token (ss_session_id s) p a d1 = (d2, rs, a')"
    by (cases "admitted_transfer_reservations token (ss_session_id s) p a d1") auto
  have same: "core d1 = core d" by (simp add: d1_def)
  have state: "vget a ''state'' VNone = VStr (if delayed then ''delayed'' else ''admitted'')"
    by (auto simp: a_def admission_state admission_reason_core [OF same] delayed_def)
  have d2_facts: "rs = (if delayed then [] else map reservation_of (pt_leases p))"
    "d_reservations d2 = (if delayed then d_reservations d
       else fold (\<lambda>l. AList.update (pl_lease_id l) (reservation_of l)) (pt_leases p) (d_reservations d))"
    "d_transfer_queue d2 = d_transfer_queue d" "vget a' ''state'' VNone = vget a ''state'' VNone"
    using d2 state coreD(1) [OF same] commit_leases_frame [of token "ss_session_id s" "pt_leases p" "Some (pt_transfer_id p)" "pt_buffer_ids p" d1]
    by (auto simp: admitted_transfer_reservations_def case_prod_beta commit_scheduler_leases_def vget_update_other
        d1_def split: if_splits)
  have e: "register_planned_transfer token s p peer now d = (issue_direct_plan_ticket p rs
      (touch_session (ss_session_id s) now (file_planned_transfer p (ss_session_id s) peer a' now d2)), rs)"
    using d2 unfolding register_planned_transfer_def Let_def d1_def [symmetric] a_def [symmetric] by simp
  show ?thesis
    unfolding Let_def delayed_def [symmetric] e fst_conv snd_conv
    using d2_facts state coreD(1) [OF core_file_planned]
    by (simp add: issue_direct_frame touch_frame file_planned_fields)
qed

section \<open>Reaping\<close>

lemma map_of_tokens_release_expired:
  "map_of (d_lease_tokens (release_expired_lease now i d)) = (map_of (d_lease_tokens d))(i := None)"
proof (cases "map_of (d_reservations d) i")
  case None
  then show ?thesis
    using coreD(2) [OF core_staging [of i CANCELED "Some ''lease_expired''" "now" d]]
    by (simp add: release_expired_lease_def release_reservation_def)
next
  case (Some r)
  then have "release_expired_lease now i d = fst (release_reservation i CANCELED (Some ''lease_expired'') True now d)"
    by (simp add: release_expired_lease_def release_reservation_def Let_def)
  moreover have "core (fst (release_reservation i CANCELED (Some ''lease_expired'') True now d)) =
      core (drop_active_reservation_state i r d)"
    by (simp add: core_release Some)
  ultimately have "d_lease_tokens (release_expired_lease now i d) =
      d_lease_tokens (drop_active_reservation_state i r d)"
    by (metis coreD(2))
  then show ?thesis by (simp add: drop_active_reservation_state_def)
qed

lemma map_of_reservations_release_expired:
  "map_of (d_reservations (release_expired_lease now i d)) = (map_of (d_reservations d))(i := None)"
  using map_of_reservations_release [of i CANCELED "Some ''lease_expired''" True "now" d]
  by (simp add: release_expired_lease_def case_prod_beta Let_def)

lemma fold_remove:
  assumes "\<And>i d. map_of (sel (f i d)) = (map_of (sel d))(i := None)"
  shows "map_of (sel (fold f is d)) k = (if k \<in> set is then None else map_of (sel d) k)"
  by (induction "is" arbitrary: d) (auto simp: assms)

text \<open>
  C24: reaping removes exactly the expired leases: a lease with an expiry before the given time loses
  its token and its reservation, every other lease keeps both.
\<close>

theorem reaping_leases_is_exact:
  assumes "daemon_reachable (initial_daemon relays ms mc timeout auth policy) d"
  shows "(let e = fst (reap_expired_leases now d);
       expired = (\<lambda>k. \<exists>l. map_of (d_lease_tokens d) k = Some l \<and> lt_expires_at l \<noteq> 0 \<and> lt_expires_at l < now)
     in (\<forall>k. map_of (d_lease_tokens e) k = (if expired k then None else map_of (d_lease_tokens d) k)) \<and>
        (\<forall>k. map_of (d_reservations e) k = (if expired k then None else map_of (d_reservations d) k)))"
proof -
  have wf: "dict_wf (d_lease_tokens d)"
    using reachable_daemon_ok [OF assms] by (simp add: daemon_ok_def ledger_ok_def)
  have "k \<in> set (expired_leases now d) \<longleftrightarrow>
      (\<exists>l. map_of (d_lease_tokens d) k = Some l \<and> lt_expires_at l \<noteq> 0 \<and> lt_expires_at l < now)" for k
    unfolding dict_entry [OF wf] expired_leases_def set_map set_filter by (auto intro!: rev_image_eqI)
  then show ?thesis
    unfolding Let_def reap_expired_leases_def fst_conv
    by (simp add: fold_remove [where sel = d_lease_tokens, OF map_of_tokens_release_expired]
        fold_remove [where sel = d_reservations, OF map_of_reservations_release_expired])
qed

theorem reaping_leases_is_exact_witness:
  "map_of (d_lease_tokens (fst (reap_expired_leases 36 (fst sample_busy)))) (sample_ids 0) = None \<and>
   map_of (d_lease_tokens (fst (reap_expired_leases 35 (fst sample_busy)))) (sample_ids 0) \<noteq> None"
proof -
  have "map_option lt_expires_at (map_of (d_lease_tokens (fst sample_busy)) (sample_ids 0)) = Some 35" by code_simp
  with reaping_leases_is_exact [OF sample_reachable(2) [unfolded sample_start_def], of 36]
    reaping_leases_is_exact [OF sample_reachable(2) [unfolded sample_start_def], of 35]
  show ?thesis by (auto simp: Let_def)
qed

end
