(* ===== verification/Daemon_Progress.thy ===== *)
theory Daemon_Progress
  imports Daemon_Updates
begin

text \<open>
  How the status of a transfer moves.  Every operation of the daemon but a status update leaves the
  statuses alone, ends transfers as failed or canceled, or retires ended ones; \<open>settles\<close> states this,
  and the lemmas here show it operation by operation.
\<close>

section \<open>Settling\<close>

text \<open>
  \<open>settles P d d'\<close>: a transfer known in \<open>d'\<close> was known in \<open>d\<close> with the same status, or has ended since,
  in a state that \<open>P\<close> allows.
\<close>

definition settles :: "(string \<Rightarrow> TransferStatusState \<Rightarrow> bool) \<Rightarrow> Daemon \<Rightarrow> Daemon \<Rightarrow> bool" where
  "settles P d d' =
     (\<forall>t s'. known_status t d' = Some s' \<longrightarrow> (\<exists>s. known_status t d = Some s \<and>
        (s' = s \<or> \<not> terminal (ts_state s) \<and> (\<exists>f e. terminal f \<and> P t f \<and> s' = ended_status f e s))))"

definition quiet :: "string \<Rightarrow> TransferStatusState \<Rightarrow> bool" where
  "quiet t f = (f \<in> {FAILED, CANCELED})"

lemma ended_state [simp]: "ts_state (ended_status f e s) = f"
  by (simp add: ended_status_def)

lemma or_else_simps [simp]: "or_else None y = y" "or_else (Some x) y = Some x"
  by (simp_all add: or_else_def)

lemma settles_refl [simp]: "settles P d d"
  by (auto simp: settles_def)

lemma settles_trans [trans]:
  assumes "settles P a b" and "settles P b c"
  shows "settles P a c"
  unfolding settles_def
proof (intro allI impI)
  fix t s'
  assume "known_status t c = Some s'"
  then obtain s where s: "known_status t b = Some s"
    and bc: "s' = s \<or> \<not> terminal (ts_state s) \<and> (\<exists>f e. terminal f \<and> P t f \<and> s' = ended_status f e s)"
    using assms(2) unfolding settles_def by blast
  from s obtain r where r: "known_status t a = Some r"
    and ab: "s = r \<or> \<not> terminal (ts_state r) \<and> (\<exists>f e. terminal f \<and> P t f \<and> s = ended_status f e r)"
    using assms(1) unfolding settles_def by blast
  from ab bc show "\<exists>s. known_status t a = Some s \<and>
      (s' = s \<or> \<not> terminal (ts_state s) \<and> (\<exists>f e. terminal f \<and> P t f \<and> s' = ended_status f e s))"
    using r by auto
qed

lemma settles_ended:
  assumes "settles P d d'" and "\<And>t f s. P t f \<Longrightarrow> known_status t d = Some s \<Longrightarrow> \<not> terminal (ts_state s) \<Longrightarrow> Q t f"
  shows "settles Q d d'"
  using assms unfolding settles_def by metis

lemma settles_fold: "(\<And>x d. settles P d (f x d)) \<Longrightarrow> settles P d (fold f xs d)"
  by (induction xs arbitrary: d) (auto intro: settles_trans)

definition records :: "Daemon \<Rightarrow> (string, TransferStatus) dict \<times> (string, TransferArchive) dict" where
  "records d = (d_statuses d, d_receipt_archive d)"

lemma records_known: "records d' = records d \<Longrightarrow> known_status t d' = known_status t d"
  by (simp add: records_def known_status_def)

lemma settles_records: "records d' = records d \<Longrightarrow> settles P d d'"
  using records_known [of d' d] by (auto simp: settles_def records_def)

lemma settles_known:
  assumes "\<And>t. known_status t d' = known_status t d \<or> known_status t d' = None"
  shows "settles P d d'"
  unfolding settles_def using assms by (metis option.discI)

section \<open>Operations that leave the statuses alone\<close>

lemma records_simple [simp]:
  "records (archive_cleanup_target k i p r ts b now d) = records d"
  "records (append_audit a d) = records d"
  "records (append_system_cleanup_event k i x d) = records d"
  "records (drop_execution_ticket t d) = records d"
  "records (mark_admission_terminal t s r now d) = records d"
  "records (pop_transfer_runtime_maps t d) = records d"
  "records (release_staging_only k s r now d) = records d"
  "records (touch_session i now d) = records d"
  "records (register_block_runtime_records t bp d) = records d"
  "records (record_delayed_promotion_failure t x pv now d) = records d"
  "records (record_delayed_promotion_check t am pv now d) = records d"
  by (simp_all add: records_def archive_cleanup_target_def append_audit_def append_system_cleanup_event_def
      drop_execution_ticket_def mark_admission_terminal_def pop_transfer_runtime_maps_def
      release_staging_only_def touch_session_def register_block_runtime_records_def Let_def
      record_delayed_promotion_failure_def record_delayed_promotion_check_def split: option.splits)

lemma records_intents [simp]: "records (remove_transfer_intent_state t d) = records d"
  unfolding remove_transfer_intent_state_def by (rule fold_same) (simp add: records_def)

text \<open>Archiving a transfer files its known status, if it files anything.\<close>

lemma archive_cases:
  obtains (none) "archive_transfer_receipt_state t d = d" "map_of (d_receipt_archive d) t = None"
  | (filed) a x where "known_status t d = Some (ta_status a)"
      "archive_transfer_receipt_state t d =
         d\<lparr>d_archived_intents := x, d_receipt_archive := AList.update t a (d_receipt_archive d)\<rparr>"
proof -
  define intent_id where "intent_id = or_else (case map_of (d_plan_requests d) t of None \<Rightarrow> None | Some q \<Rightarrow> pq_intent_id q)
    (case map_of (d_receipt_archive d) t of None \<Rightarrow> None | Some a \<Rightarrow> ta_intent_id a)"
  define intent where "intent = or_else (case intent_id of None \<Rightarrow> None | Some i \<Rightarrow> map_of (d_transfer_intents d) i)
    (map_option ta_intent (map_of (d_receipt_archive d) t))"
  define decision where "decision = or_else (map_of (d_decisions d) t) (map_option ta_decision (map_of (d_receipt_archive d) t))"
  note unfolded = archive_transfer_receipt_state_def Let_def intent_id_def [symmetric] intent_def [symmetric]
    decision_def [symmetric] known_status_def [symmetric]
  show thesis
  proof (cases "known_status t d = None \<or> decision = None \<or> intent = None")
    case True
    then have "map_of (d_receipt_archive d) t = None"
      by (auto simp: known_status_def decision_def intent_def or_else_def split: option.splits)
    moreover have "archive_transfer_receipt_state t d = d"
      using True unfolding unfolded by (auto split: option.splits)
    ultimately show thesis by (rule none [rotated])
  next
    case False
    then obtain s dec i where all: "known_status t d = Some s" "decision = Some dec" "intent = Some i" by auto
    have "\<exists>a x. ta_status a = s \<and> archive_transfer_receipt_state t d =
         d\<lparr>d_archived_intents := x, d_receipt_archive := AList.update t a (d_receipt_archive d)\<rparr>"
      unfolding unfolded all prod.case option.case by (rule exI, rule exI, rule conjI [rotated], rule refl, simp)
    with all(1) filed show thesis by blast
  qed
qed

lemma known_archive [simp]: "known_status u (archive_transfer_receipt_state t d) = known_status u d"
proof (cases rule: archive_cases [of t d])
  case (filed a x)
  then show ?thesis by (cases "u = t") (simp_all add: known_status_def or_else_def split: option.splits)
qed simp

lemma archived_is_known:
  "map_of (d_receipt_archive (archive_transfer_receipt_state t d)) t = Some a \<Longrightarrow> known_status t d = Some (ta_status a)"
  by (rule archive_cases [of t d]) auto

section \<open>Ending and retiring\<close>

lemma settles_end:
  assumes "map_of (d_statuses d) t = Some s" and "\<not> terminal (ts_state s)" and "terminal f" and "P t f"
  shows "settles P d (end_transfer t s f e now d)"
proof -
  let ?d = "d\<lparr>d_statuses := AList.update t (ended_status f e s) (d_statuses d)\<rparr>"
  have "records (end_transfer t s f e now d) = records ?d" by (simp add: end_transfer_def Let_def)
  then have "settles P ?d (end_transfer t s f e now d)" by (rule settles_records)
  moreover have "known_status t ?d = Some (ended_status f e s)" "known_status t d = Some s"
    "\<And>u. u \<noteq> t \<Longrightarrow> known_status u ?d = known_status u d"
    using assms(1) by (simp_all add: known_status_def or_else_def)
  then have k: "known_status u ?d = (if u = t then Some (ended_status f e s) else known_status u d)"
    "known_status t d = Some s" for u by simp_all
  have "settles P d ?d" unfolding settles_def k(1) using assms(2-) k(2) by auto
  ultimately show ?thesis using settles_trans by blast
qed

lemma settles_mark:
  assumes "terminal f" and "P t f"
  shows "settles P d (mark_transfer_terminal_if_unblocked t f e now d)"
    and "mark_transfer_terminal t f e now d = Inr d' \<Longrightarrow> settles P d d'"
  using assms settles_end
  by (auto simp: mark_transfer_terminal_if_unblocked_def mark_transfer_terminal_def split: option.splits if_splits)

lemma settles_retire: "settles P d (retire_transfer_runtime_state t d)"
proof -
  define d4 where "d4 = remove_transfer_intent_state t (pop_transfer_runtime_maps t
    (drop_execution_ticket t (archive_transfer_receipt_state t d)))"
  have r: "records d4 = records (archive_transfer_receipt_state t d)" by (simp add: d4_def)
  have "known_status u d4 = known_status u d" for u using records_known [OF r] by simp
  moreover have "map_of (d_receipt_archive d4) t = Some a \<Longrightarrow> known_status t d = Some (ta_status a)" for a
    using r archived_is_known by (simp add: records_def)
  ultimately show ?thesis
    unfolding retire_transfer_runtime_state_def Let_def d4_def [symmetric]
    by (intro settles_known) (auto simp: known_status_def)
qed

lemma settles_retire_completed: "settles P d (retire_completed_transfer_lease_state t r now d)"
proof -
  let ?d = "archive_transfer_receipt_state t d"
  have same: "records (retire_completed_transfer_lease_state t r now d) = records ?d"
    by (simp add: retire_completed_transfer_lease_state_def Let_def records_def drop_execution_ticket_def split: option.splits)
  show ?thesis using records_known [OF same] by (intro settles_known) simp
qed

lemma settles_finalize:
  assumes "terminal f" and "P t f"
  shows "settles P d (finalize_transfer_after_release t f r now d)"
proof -
  let ?d = "mark_transfer_terminal_if_unblocked t f (cleanup_failure_reason f r) now d"
  have 1: "settles P d ?d" using assms by (rule settles_mark)
  note 2 = settles_trans [OF 1 settles_retire] settles_trans [OF 1 settles_retire_completed]
  show ?thesis unfolding finalize_transfer_after_release_def Let_def by (simp add: 1 2 split: option.split)
qed

section \<open>Releasing\<close>

lemma settles_release:
  assumes "\<And>t. m \<Longrightarrow> map_of (d_reservation_transfers d) k = Some t \<Longrightarrow> terminal f \<and> P t f"
  shows "settles P d (fst (release_reservation k f r m now d))"
proof (cases "map_of (d_reservations d) k")
  case None
  then show ?thesis by (auto simp: release_reservation_def intro: settles_records)
next
  case (Some res)
  have drop: "settles P d (drop_active_reservation_state k res e)" if "records e = records d" for e
    using that by (intro settles_records) (simp add: drop_active_reservation_state_def records_def)
  have fin: "settles P d (finalize_transfer_after_release t f r' now (drop_active_reservation_state k res e))"
    if "records e = records d" "map_of (d_reservation_transfers d) k = Some t" m for e t r'
    using settles_trans [OF drop [OF that(1)] settles_finalize] assms [OF that(3,2)] by simp
  have event: "settles P d (append_system_cleanup_event k' i x e)" if "settles P d e" for e k' i x
    using settles_trans [OF that settles_records [OF records_simple(3)]] .
  show ?thesis
    using Some by (auto simp: release_reservation_def Let_def drop fin intro!: event split: option.split)
qed

lemma fst_release_and_count: "fst (release_and_count k f r m now d) = fst (release_reservation k f r m now d)"
  by (simp add: release_and_count_def Let_def case_prod_beta)

lemma settles_release_all:
  assumes "\<And>t. m \<Longrightarrow> terminal f \<and> P t f"
  shows "settles P d (fst (release_all ks f r m now d))"
proof (induction ks arbitrary: d)
  case (Cons k ks)
  have "settles P d (fst (release_and_count k f r m now d))"
    unfolding fst_release_and_count using assms by (intro settles_release) blast
  with Cons.IH show ?case by (simp add: Let_def case_prod_beta) (blast intro: settles_trans)
qed simp

lemma settles_quiet_release_all [simp]:
  "f \<in> {FAILED, CANCELED} \<Longrightarrow> settles quiet d (fst (release_all ks f r m now d))"
  by (rule settles_release_all) (auto simp: quiet_def terminal_def)

lemma settles_reap_leases [simp]: "settles quiet d (fst (reap_expired_leases now d))"
proof -
  have "settles quiet d (release_expired_lease now i d)" for i d
  proof -
    let ?d = "fst (release_reservation i CANCELED (Some ''lease_expired'') True now d)"
    have "settles quiet d ?d" by (rule settles_release) (auto simp: quiet_def terminal_def)
    moreover have "records (?d\<lparr>d_lease_tokens := x\<rparr>) = records ?d" for x by (simp add: records_def)
    then have "settles quiet ?d (?d\<lparr>d_lease_tokens := x\<rparr>)" for x by (rule settles_records)
    ultimately show ?thesis
      unfolding release_expired_lease_def Let_def case_prod_beta by (auto intro: settles_trans)
  qed
  then show ?thesis by (simp add: reap_expired_leases_def settles_fold)
qed

section \<open>Closing and cancelling\<close>

lemma settles_cancel [simp]: "settles quiet d (fst (cancel_and_retire ts r now d))"
proof (induction ts arbitrary: d)
  case (Cons t ts)
  define d1 where "d1 = fst (case map_of (d_statuses d) t of None \<Rightarrow> (d, 0::int)
    | Some s \<Rightarrow> if terminal (ts_state s) then (d, 0) else (end_transfer t s CANCELED (Some r) now d, 1))"
  have "settles quiet d d1"
    by (auto simp: d1_def quiet_def terminal_def intro!: settles_end split: option.split)
  then have "settles quiet d (retire_transfer_runtime_state t d1)" by (rule settles_trans [OF _ settles_retire])
  then show ?case
    using Cons.IH settles_trans by (fastforce simp: Let_def case_prod_beta d1_def)
qed simp

lemma records_more [simp]:
  "records (d\<lparr>d_sessions := a\<rparr>) = records d"
  "records (d\<lparr>d_jobs := b, d_job_peers := c\<rparr>) = records d"
  "records (d\<lparr>d_buffers := e\<rparr>) = records d"
  "records (d\<lparr>d_session_peers := f\<rparr>) = records d"
  "records (d\<lparr>d_relay_quotas := g, d_connection_sessions := h, d_session_connections := j\<rparr>) = records d"
  by (simp_all add: records_def)

lemma records_remove [simp]: "records (fst (remove_session_jobs_and_buffers i r os now d)) = records d"
proof -
  have 1: "records (fold (archive_owned k r now) xs d) = records d" for k xs d
    by (rule fold_same) (simp add: archive_owned_def)
  have 2: "records (fold (\<lambda>i d. d\<lparr>d_jobs := AList.delete i (d_jobs d),
      d_job_peers := AList.delete i (d_job_peers d)\<rparr>) is d) = records d" for "is" d
    by (rule fold_same) simp
  have 3: "records (fold (\<lambda>i d. d\<lparr>d_buffers := AList.delete i (d_buffers d)\<rparr>) is d) = records d" for "is" d
    by (rule fold_same) simp
  show ?thesis by (simp add: remove_session_jobs_and_buffers_def Let_def 1 2 3)
qed

text \<open>The middle part that closing a session and cleaning a job up share.\<close>

lemma settles_release_cancel:
  assumes "records e = records d" and "records e' = records (fst (cancel_and_retire ts r now
    (fst (release_all ks CANCELED (Some r) True now e))))"
  shows "settles quiet d e'"
proof -
  have "settles quiet d (fst (release_all ks CANCELED (Some r) True now e))"
    using settles_trans [OF settles_records [OF assms(1)] settles_quiet_release_all] by simp
  then have "settles quiet d (fst (cancel_and_retire ts r now (fst (release_all ks CANCELED (Some r) True now e))))"
    by (rule settles_trans [OF _ settles_cancel])
  then show ?thesis by (rule settles_trans [OF _ settles_records [OF assms(2)]])
qed

lemma settles_close [simp]: "settles quiet d (fst (close_session_locked i r os now d))"
proof (cases "map_of (d_sessions d) i")
  case None
  then show ?thesis by (simp add: close_session_locked_def)
next
  case (Some s)
  show ?thesis
    unfolding close_session_locked_def Let_def case_prod_beta Some option.case fst_conv
    by (rule settles_release_cancel [rotated]) (simp only: records_remove records_more, simp)
qed

lemma settles_reap [simp]: "settles quiet d (fst (reap_stale_sessions now d))"
  by (simp add: reap_stale_sessions_def settles_fold)

lemma settles_close_all [simp]: "settles quiet d (fst (close_all is r now d))"
proof (induction "is" arbitrary: d)
  case (Cons i "is")
  show ?case
    using settles_trans [OF settles_close Cons.IH] by (simp add: Let_def case_prod_beta)
qed simp

lemma settles_disconnect: "settles quiet d (fst (cleanup_connection_scoped_sessions p c r now d))"
  unfolding cleanup_connection_scoped_sessions_def Let_def case_prod_beta
  using settles_trans [OF settles_close_all settles_close_all] by simp

lemma settles_cleanup_job: "settles quiet d (fst (cleanup_job i r now d))"
proof -
  have 2: "records (fold (\<lambda>i d. d\<lparr>d_buffers := AList.delete i (d_buffers d)\<rparr>) is d) = records d" for "is" d
    by (rule fold_same) simp
  show ?thesis
    unfolding cleanup_job_def Let_def case_prod_beta fst_conv
    by (rule settles_release_cancel [OF _ 2]) simp
qed

end
