(* ===== verification/Daemon_Moves.thy ===== *)
theory Daemon_Moves
  imports Daemon_Steps Daemon_Progress
begin

text \<open>
  The requests of the daemon settle the statuses (\<open>settles quiet\<close>), except for planning, which files
  a new transfer, and a status update, which moves one forward.
\<close>

section \<open>Committing and promoting\<close>

lemma settles_commit [simp]: "settles P d (fst (commit_scheduler_leases token i ls t bs d))"
  unfolding commit_scheduler_leases_def fst_conv
  by (rule settles_fold, rule settles_records) (simp add: commit_lease_def records_def Let_def)

lemma settles_then:
  "settles P d e \<Longrightarrow> records e' = records e \<Longrightarrow> settles P d e'"
  using settles_trans [OF _ settles_records] .

lemma settles_first:
  "records e = records d \<Longrightarrow> settles P e e' \<Longrightarrow> settles P d e'"
  using settles_trans [OF settles_records] .

lemma records_promotion [simp]:
  "records (d\<lparr>d_plan_generations := a, d_plans := b, d_decisions := c, d_plan_expirations := f\<rparr>) = records d"
  "records (d\<lparr>d_admissions := g\<rparr>) = records d"
  "records (d\<lparr>d_execution_tickets := h, d_transfer_tickets := j\<rparr>) = records d"
  "records (d\<lparr>d_plan_generations := a\<rparr>) = records d"
  "records (d\<lparr>d_quota_rejections := x\<rparr>) = records d"
  "records (d\<lparr>d_cleanup_events := y\<rparr>) = records d"
  by (simp_all add: records_def)

lemma settles_commit_delayed: "settles P d (commit_delayed_promotion token now p d)"
proof -
  define d2 where "d2 = drop_execution_ticket (pm_transfer_id p)
    (d\<lparr>d_plan_generations := AList.update (pm_transfer_id p)
        (dget_default (d_plan_generations d) (pm_transfer_id p) 0 + 1) (d_plan_generations d),
      d_plans := AList.update (pm_transfer_id p) (sd_plan (pm_decision p)) (d_plans d),
      d_decisions := AList.update (pm_transfer_id p) (pm_decision p) (d_decisions d),
      d_plan_expirations := AList.update (pm_transfer_id p) (pm_plan_expires_at p) (d_plan_expirations d)\<rparr>)"
  have "settles P d (fst (commit_scheduler_leases token (pm_session_id p) (pm_leases p)
      (Some (pm_transfer_id p)) (pm_buffer_ids p) d2))"
    by (rule settles_first [OF _ settles_commit]) (simp add: d2_def)
  then show ?thesis
    unfolding commit_delayed_promotion_def Let_def case_prod_beta d2_def [symmetric]
    by (rule settles_then) (simp split: option.split)
qed

lemma settles_promote [simp]: "settles P d (promote_delayed token now p d)"
  by (auto simp: promote_delayed_def Let_def settles_commit_delayed intro: settles_records split: option.split)

lemma settles_promotions [simp]: "settles P d (fold (promote_delayed token now) ps d)"
  by (simp add: settles_fold)

lemma settles_refresh [simp]: "settles quiet d (fst (refresh_admission_state token now ps d))"
  unfolding refresh_admission_state_def Let_def case_prod_beta fst_conv
  by (rule settles_trans [OF settles_reap_leases settles_promotions])

lemma settles_reap_refresh [simp]: "settles quiet d (reap_and_refresh token now ps d)"
  unfolding reap_and_refresh_def by (rule settles_trans [OF settles_reap settles_refresh])

section \<open>Sessions, jobs and buffers\<close>

lemma settles_guarded: "settles P e d \<Longrightarrow> settles P e (fst k) \<Longrightarrow> settles P e (fst (guarded c d k))"
  by (simp add: guarded_def split: sum.splits)

lemma records_precheck [simp]: "records (fst (tenant_quota_precheck peer field n b now d)) = records d"
proof -
  have "records (fst (tenant_quota_rejection u f now d)) = records d" for u f
    by (simp add: tenant_quota_rejection_def)
  then show ?thesis by (simp add: tenant_quota_precheck_def Let_def split: option.splits)
qed

lemma precheck_records: "tenant_quota_precheck peer field n b now d = (d', e) \<Longrightarrow> records d' = records d"
  using records_precheck [of peer field n b "now" d] by simp

lemma settles_register_session: "settles quiet d (fst (register_session token ps el i target m capable peer scoped c now d))"
proof -
  let ?d = "reap_and_refresh token now ps d"
  have same: "settles quiet d e" if "records e = records ?d" for e
    using settles_then [OF settles_reap_refresh that] .
  have add: "records (fst (add_session i target m capable peer scoped c relays now e)) = records e" for relays e
    by (simp add: add_session_def Let_def records_def)
  show ?thesis
    unfolding register_session_def Let_def case_prod_beta
    by (auto simp: same add precheck_records split: prod.split option.split sum.split)
qed

lemma settles_close_session: "settles quiet d (fst (close_session i peer now d))"
  unfolding close_session_def Let_def case_prod_beta
  using settles_trans [OF settles_reap settles_close] by (auto intro!: settles_guarded)

lemma settles_register_job_locked: "settles quiet d (fst (register_job_locked job peer now d))"
proof -
  obtain d1 e where d1: "tenant_quota_precheck peer ''registered_jobs''
      (if map_of (d_jobs d) (ji_job_id job) = None then 1 else 0) 0 now d = (d1, e)" by force
  have "settles quiet d d1" using precheck_records [OF d1] by (rule settles_records)
  moreover have "settles quiet d (d1\<lparr>d_jobs := x, d_job_peers := y\<rparr>)" "settles quiet d (d1\<lparr>d_jobs := x\<rparr>)" for x y
    using precheck_records [OF d1] by (auto intro!: settles_records simp: records_def)
  ultimately show ?thesis
    by (auto simp: register_job_locked_def Let_def d1 intro!: settles_guarded split: option.splits)
qed

lemma settles_register_job:
  assumes "register_job raw peer now d = Inr (d', r)"
  shows "settles quiet d d'"
  using assms settles_register_job_locked [of d _ peer "now"]
  by (auto simp: register_job_def result_simps split: sum.splits prod.splits) (metis fst_conv)

lemma settles_register_buffer_locked: "settles quiet d (fst (register_buffer_locked b peer now d))"
proof -
  let ?fresh = "map_of (d_buffers d) (br_buffer_id b) = None"
  obtain d1 e where d1: "tenant_quota_precheck peer ''registered_buffers'' (if ?fresh then 1 else 0)
      (if ?fresh then br_size_bytes b else 0) now d = (d1, e)" by force
  have "settles quiet d d1" using precheck_records [OF d1] by (rule settles_records)
  moreover have "settles quiet d (d1\<lparr>d_buffers := x\<rparr>)" for x
    using precheck_records [OF d1] by (intro settles_records) simp
  ultimately show ?thesis
    by (auto simp: register_buffer_locked_def Let_def d1 intro!: settles_guarded split: option.splits)
qed

lemma settles_register_buffer:
  assumes "register_buffer token ps raw peer now d = Inr (d', r)"
  shows "settles quiet d d'"
proof -
  have "settles quiet d (fst (register_buffer_locked b peer now (reap_and_refresh token now ps d)))" for b
    by (rule settles_trans [OF settles_reap_refresh settles_register_buffer_locked])
  with assms show ?thesis
    by (auto simp: register_buffer_def result_simps) (metis fst_conv)
qed

section \<open>Cleanup\<close>

lemma settles_finalize_cleanup [simp]: "settles quiet d (fst (finalize_cleanup token ps c removed now d))"
  unfolding finalize_cleanup_def fst_conv by (rule settles_first [OF _ settles_refresh]) simp

lemma settles_cleanup_job_target: "settles quiet d (fst (cleanup_job_target token ps c peer now d))"
  unfolding cleanup_job_target_def Let_def case_prod_beta
  using settles_trans [OF settles_cleanup_job settles_finalize_cleanup] by (auto intro!: settles_guarded)

lemma settles_cleanup_session_target: "settles quiet d (fst (cleanup_session_target token ps c peer now d))"
  unfolding cleanup_session_target_def Let_def case_prod_beta
  using settles_trans [OF settles_close settles_finalize_cleanup] by (auto intro!: settles_guarded)

lemma settles_retention [simp]: "settles P d (record_cleanup_retention k i m d)"
proof (rule settles_known)
  have one: "known_status u (merge_retention_into_archive b r a t d) = known_status u d" for u b r a t d
    by (auto simp: merge_retention_into_archive_def known_status_def split: option.splits)
  have all: "known_status u (fold (merge_retention_into_archive b r a) ts d) = known_status u d" for u b r a ts d
    by (induction ts arbitrary: d) (simp_all add: one)
  show "known_status u (record_cleanup_retention k i m d) = known_status u d \<or>
      known_status u (record_cleanup_retention k i m d) = None" for u
    by (simp add: record_cleanup_retention_def Let_def all split: option.splits) (simp add: known_status_def)
qed

lemma settles_cleanup_reservation: "settles quiet d (fst (cleanup_reservation_target token ps c bound peer now d))"
proof -
  have 1: "settles quiet d (fst (cleanup_existing_reservation c now d))"
    unfolding cleanup_existing_reservation_def Let_def fst_release_and_count
    by (rule settles_release) (auto simp: quiet_def terminal_def)
  note 2 = settles_trans [OF settles_trans [OF 1 settles_retention] settles_finalize_cleanup]
  show ?thesis
    unfolding cleanup_reservation_target_def Let_def case_prod_beta
    by (auto simp: 1 2 intro!: settles_guarded split: sum.split bool.split)
qed

lemma settles_cleanup_buffer: "settles quiet d (fst (cleanup_buffer_target token ps c peer now d))"
proof -
  define d1 where "d1 = (case map_of (d_buffers d) (cr_target_id c) of None \<Rightarrow> d
    | Some b \<Rightarrow> archive_cleaned_buffer c b peer now d)"
  define d2 where "d2 = fst (release_all (active_buffer_lease_ids (cr_target_id c) d1) CANCELED (Some (cr_reason c)) True now d1)"
  define d3 where "d3 = fst (remove_buffer_cleanup_state c (transfer_ids_for_buffer (cr_target_id c) d1) now d2)"
  have "records (archive_cleaned_buffer c b peer now d) = records d" for b
    by (simp add: archive_cleaned_buffer_def Let_def) (simp add: records_def archive_cleanup_target_def Let_def)
  then have "records d1 = records d" by (simp add: d1_def split: option.split)
  then have "settles quiet d d2" unfolding d2_def by (rule settles_first) simp
  moreover have "settles quiet d2 d3"
    unfolding d3_def remove_buffer_cleanup_state_def Let_def case_prod_beta fst_conv
    by (rule settles_first [OF _ settles_cancel]) simp
  ultimately have "settles quiet d d3" by (rule settles_trans)
  note finish = settles_trans [OF settles_trans [OF this settles_retention] settles_finalize_cleanup]
  show ?thesis
    unfolding cleanup_buffer_target_def Let_def case_prod_beta d1_def [symmetric] d2_def [symmetric] d3_def [symmetric]
    by (auto simp: finish intro!: settles_guarded)
qed

lemma settles_cleanup: "cleanup str_of token ps raw peer now d = Inr (d', r) \<Longrightarrow> settles quiet d d'"
  using settles_cleanup_reservation [of d token ps] settles_cleanup_buffer [of d token ps]
    settles_cleanup_job_target [of d token ps] settles_cleanup_session_target [of d token ps]
  by (auto simp: cleanup_def result_simps split: if_splits) (metis fst_conv)+

section \<open>Intents and leases\<close>

lemma settles_record_intent: "settles P d (fst (record_submitted_intent str_of intent t now d))"
proof -
  have filed: "records (file_ticket t k d) = records d" for k d by (simp add: file_ticket_def records_def)
  have mark: "records (mark_block_runtime_ticket t k now d) = records d" for k d
    by (simp add: mark_block_runtime_ticket_def records_def Let_def)
  have "records (fst (record_submitted_intent str_of intent t now d)) = records d"
    by (auto simp: record_submitted_intent_def Let_def mark records_def [of "d\<lparr>d_transfer_intents := _, d_intent_transfers := _\<rparr>"]
        filed records_def [of d] dest!: intent_ticket_state split: option.split sum.split)
  then show ?thesis by (rule settles_records)
qed

lemma records_ticketed: "ticketed d d' \<Longrightarrow> records d' = records d"
  using ticketed_same by (simp add: records_def)

lemma settles_submit_intent: "settles quiet d (fst (submit_intent str_of token ps intent peer now d))"
proof (cases rule: submit_intent_cases [of d str_of token ps intent peer "now"])
  case ticketed
  then show ?thesis by (intro settles_records records_ticketed)
next
  case refreshed
  then show ?thesis by (rule settles_then [OF settles_refresh records_ticketed])
qed

lemma records_admission_check [simp]: "records (fst (validate_transfer_admission t l now d)) = records d"
  by (simp add: validate_transfer_admission_def Let_def split: option.splits)

lemma settles_release_expired: "settles quiet d (release_expired_lease now i d)"
proof -
  let ?d = "fst (release_reservation i CANCELED (Some ''lease_expired'') True now d)"
  have "settles quiet d ?d" by (rule settles_release) (auto simp: quiet_def terminal_def)
  moreover have "settles quiet d (?d\<lparr>d_lease_tokens := x\<rparr>)" for x
    using calculation by (rule settles_then) (simp add: records_def)
  ultimately show ?thesis unfolding release_expired_lease_def Let_def case_prod_beta by auto
qed

lemma settles_validate_lease: "settles quiet d (fst (validate_lease i tok s g j bs peer now d))"
proof -
  let ?d = "fst (reap_stale_sessions now d)"
  have checked: "settles quiet d d1" if "validate_transfer_admission t l now ?d = (d1, e)" for t l d1 e
    using settles_then [OF settles_reap, of d1] records_admission_check [of t l "now" ?d] that by simp
  show ?thesis
    unfolding validate_lease_def Let_def
    by (auto simp: checked settles_trans [OF settles_reap settles_release_expired]
        intro!: settles_guarded split: option.split prod.split)
qed

interpretation settled: request_invariant "settles quiet d" for d
proof
  fix e i and "now" :: rat
  assume kept: "settles quiet d e"
  show "settles quiet d (fst (reap_stale_sessions now e))" using settles_trans [OF kept settles_reap] .
  show "settles quiet d (release_expired_lease now i e)" using settles_trans [OF kept settles_release_expired] .
  show "settles quiet d f" if "alike e f" for f
    using settles_then [OF kept] that by (simp add: alike_def records_def)
qed

lemma settles_authorize: "settles quiet d (fst (authorize_worker_transfer str_of q peer now d))"
  by (rule settled.authorize) simp

section \<open>Finalising a status update\<close>

lemma records_fold_audit [simp]: "records (fold (\<lambda>x. append_audit (g x)) xs d) = records d"
  by (induction xs arbitrary: d) auto

lemma records_transfer_audit [simp]: "records (append_transfer_audit event t s r f d) = records d"
  by (simp add: append_transfer_audit_def Let_def)

lemma settles_retire_terminal: "settles P d (fst (retire_terminal_without_reservations t r now d))"
  by (simp add: retire_terminal_without_reservations_def settles_retire settles_retire_completed split: option.split)

lemma settles_archive: "settles P d (archive_transfer_receipt_state t d)"
  by (rule settles_known) simp_all

lemma settles_contract: "settles P d (record_failure_cleanup_contract t s e r p now d)"
proof -
  have "settles P d (merge_failure_cleanup_contract t c d)" for c
    by (rule settles_known) (auto simp: merge_failure_cleanup_contract_def known_status_def split: option.split)
  then show ?thesis
    unfolding record_failure_cleanup_contract_def Let_def by (rule settles_trans [OF _ settles_archive])
qed

end
