(* ===== verification/Daemon_Transfers.thy ===== *)
theory Daemon_Transfers
  imports Daemon_Moves
begin

text \<open>
  The life of a transfer: what a status update does to it, what its status satisfies in every
  reachable state, that it only moves forward and stays as it is once it has ended, and what it takes
  to complete.
\<close>

section \<open>Status updates\<close>

lemma settles_finalize_update: "settles quiet d (fst (finalize_transfer_status_update token ps u now d))"
proof -
  define t where "t = ts_transfer_id u"
  define plan where "plan = terminal_finalization_plan u"
  define d1 where "d1 = (case fp_event_type plan of None \<Rightarrow> d
    | Some event \<Rightarrow> append_transfer_audit event t (ts_state u) (fp_reason plan) (fp_failure_reason plan) d)"
  define d2 where "d2 = (if fp_release_reservations plan
    then release_reservations_for_transfer t (ts_state u) (fp_reason plan) True now d1 else (d1, empty_removed))"
  define d3 where "d3 = (case fp_retire_reason plan of None \<Rightarrow> (fst d2, empty_removed)
    | Some reason \<Rightarrow> retire_terminal_without_reservations t (Some reason) now (fst d2))"
  have "settles quiet d d1" by (rule settles_records) (simp add: d1_def split: option.split)
  moreover have "fp_release_reservations plan \<Longrightarrow> ts_state u \<in> {FAILED, CANCELED}"
    by (auto simp: plan_def terminal_finalization_plan_def Let_def split: TransferStatusState.splits)
  then have "settles quiet d1 (fst d2)" by (simp add: d2_def release_reservations_for_transfer_def)
  moreover have "settles quiet (fst d2) (fst d3)" by (simp add: d3_def settles_retire_terminal split: option.split)
  ultimately have 3: "settles quiet d (fst d3)" by (blast intro: settles_trans)
  note 4 = settles_trans [OF this settles_promotions]
  have contract: "settles quiet d (record_failure_cleanup_contract t' s e r p now e')" if "settles quiet d e'" for t' s e r p e'
    using settles_trans [OF that settles_contract] .
  show ?thesis
    unfolding finalize_transfer_status_update_def Let_def t_def [symmetric] plan_def [symmetric]
      d1_def [symmetric] d2_def [symmetric] case_prod_beta d3_def [symmetric]
    by (simp add: 3 4 contract)
qed

lemma settles_mismatch:
  assumes "handle_transfer_status_mismatch token ps st e now d = Inr (d', r)"
  shows "settles quiet d d'"
proof -
  obtain d1 where d1: "mark_transfer_terminal (ts_transfer_id st) FAILED (Some e) now d = Inr d1"
    and d': "d' = fold (promote_delayed token now) ps (fst (retire_terminal_without_reservations (ts_transfer_id st)
      (Some ''transfer_status_mismatch'') now (fst (release_reservations_for_transfer (ts_transfer_id st) FAILED
        (Some ''transfer_status_mismatch'') True now (append_transfer_audit ''detected_mismatch'' (ts_transfer_id st) FAILED
          (Some ''transfer_status_mismatch'') (Some e) d1)))))"
    using assms by (auto simp: handle_transfer_status_mismatch_def Let_def result_simps)
  have "settles quiet d d1" using settles_mark(2) [OF _ _ d1] by (simp add: quiet_def terminal_def)
  then have "settles quiet d (append_transfer_audit ''detected_mismatch'' (ts_transfer_id st) FAILED
      (Some ''transfer_status_mismatch'') (Some e) d1)" by (rule settles_then) simp
  then have "settles quiet d (fst (release_reservations_for_transfer (ts_transfer_id st) FAILED
      (Some ''transfer_status_mismatch'') True now (append_transfer_audit ''detected_mismatch'' (ts_transfer_id st) FAILED
        (Some ''transfer_status_mismatch'') (Some e) d1)))"
    by (rule settles_trans) (simp add: release_reservations_for_transfer_def)
  then show ?thesis
    unfolding d' by (rule settles_trans [OF settles_trans [OF _ settles_retire_terminal] settles_promotions])
qed

lemma records_advance:
  "advance_block_runtime_for_status str_of st src ev now d = Inr (d', p) \<Longrightarrow> records d' = records d"
  by (auto simp: advance_block_runtime_for_status_def Let_def result_simps records_def split: if_splits)

lemma settles_supplement:
  assumes "supplement_terminal_evidence str_of st src ev now d = Inr (d', r)"
  shows "settles P d d'"
proof -
  have filed: "settles P d (archive_transfer_receipt_state t (e\<lparr>d_completion_sources := x, d_completion_evidence := y\<rparr>))"
    if "records e = records d" for t e x y
    by (rule settles_trans [OF settles_records settles_archive]) (use that in \<open>simp add: records_def\<close>)
  have adv: "settles P d (archive_transfer_receipt_state t (fst z\<lparr>d_completion_sources := x, d_completion_evidence := y\<rparr>))"
    if "advance_block_runtime_for_status str_of st so e now d = Inr z" for so e z t x y
    by (rule filed) (use that records_advance [of str_of st so e "now" d "fst z" "snd z"] in simp)
  show ?thesis
    using assms adv
    by (auto simp: supplement_terminal_evidence_def except_value_error_def Let_def result_simps
        split: if_splits sum.splits)
qed

lemma settles_terminal_update: "settles P d (fst (handle_terminal_status_update str_of st req n e src ev now d))"
  using settles_supplement
  by (fastforce simp: handle_terminal_status_update_def Let_def split: sum.splits prod.splits response.splits)

lemma records_completion [simp]:
  "records (d\<lparr>d_completion_tickets := a\<rparr>) = records d"
  "records (d\<lparr>d_completion_sources := b\<rparr>) = records d"
  "records (d\<lparr>d_completion_evidence := c\<rparr>) = records d"
  by (simp_all add: records_def)

lemma records_persist:
  "records (persist_transfer_status_update u src ev k now d) =
   records (d\<lparr>d_statuses := AList.update (ts_transfer_id u) u (d_statuses d)\<rparr>)"
  by (simp add: persist_transfer_status_update_def Let_def if_distrib [of records] option.case_distrib [of records]
      split: option.split)

lemma settles_apply:
  assumes "apply_status_update str_of token ps u src ev now d = Inr (d', r)" and "r = Accepted y"
  shows "settles quiet (d\<lparr>d_statuses := AList.update (ts_transfer_id u) u (d_statuses d)\<rparr>) d'"
  using assms(1)
proof (cases rule: apply_status_update_cases)
  case (accepted v d1 p d2)
  have "records d2 = records (d\<lparr>d_statuses := AList.update (ts_transfer_id u) u (d_statuses d)\<rparr>)"
    using records_advance [OF accepted(2)] by (simp add: accepted(3) records_persist) (simp add: records_def)
  then show ?thesis unfolding accepted(4) by (rule settles_first [OF _ settles_finalize_update])
qed (use assms(2) in simp)

lemma records_status_check: "status_update_blocked_reason t s now d = (d1, b) \<Longrightarrow> records d1 = records d"
proof -
  have "records (fst (status_update_blocked_reason t s now d)) = records d"
    by (cases "validate_transfer_admission t None now d")
       (use records_admission_check [of t None "now" d] in
         \<open>auto simp: status_update_blocked_reason_def simp del: records_admission_check split: option.splits\<close>)
  then show "status_update_blocked_reason t s now d = (d1, b) \<Longrightarrow> records d1 = records d" by simp
qed

text \<open>A status request settles the statuses, except that one the daemon applies first files the update.\<close>

lemma transfer_status_settles:
  obtains (settled) "settles quiet d (fst (transfer_status str_of token ps t state n e src ev peer now d))"
  | (updated) st req u d1 v where "known_status t d = Some st" "may_update st peer d = Inr ()" "\<not> terminal (ts_state st)"
      "status_update_blocked_reason (ts_transfer_id st) req now d = (d1, None)"
      "mk_TransferStatus (updated_status st req n e) = Inr u"
      "normalize_evidence_update str_of u src ev d1 = Inr (Accepted v)"
      "settles quiet (d\<lparr>d_statuses := AList.update (ts_transfer_id u) u (d_statuses d)\<rparr>)
         (fst (transfer_status str_of token ps t state n e src ev peer now d))"
proof (cases rule: transfer_status_cases [of str_of token ps t state n e src ev peer "now" d])
  case unchanged
  then show thesis by (intro settled) simp
next
  case (ended st req)
  then show thesis by (intro settled) (simp add: settles_terminal_update)
next
  case (blocked st req x d1)
  then show thesis by (intro settled) (simp add: settles_records [OF records_status_check])
next
  case (mismatch st d1 x)
  have d1: "settles quiet d d1" using records_status_check [OF mismatch(3)] by (rule settles_records)
  have "settles quiet d (fst (raising d1 (handle_transfer_status_mismatch token ps st x now d1)))"
    using d1 settles_trans [OF d1 settles_mismatch]
    by (auto simp: raising_def split: sum.split)
  with mismatch(4) show thesis by (intro settled) simp
next
  case (applied st req d1 u)
  have same: "records d1 = records d" using applied(5) by (rule records_status_check)
  show thesis
  proof (cases "apply_status_update str_of token ps u src ev now d1")
    case (Inl x)
    with applied(7) same show thesis by (intro settled) (simp add: raising_def settles_records)
  next
    case (Inr z)
    obtain d' r where z: "z = (d', r)" by (cases z)
    have result: "fst (transfer_status str_of token ps t state n e src ev peer now d) = d'"
      using applied(7) by (simp add: raising_def Inr z)
    show thesis using Inr [unfolded z]
    proof (cases rule: apply_status_update_cases)
      case (refused x)
      then show thesis using same by (intro settled) (simp add: result settles_records)
    next
      case (accepted v d1' p d2)
      have "settles quiet (d1\<lparr>d_statuses := AList.update (ts_transfer_id u) u (d_statuses d1)\<rparr>) d'"
        by (rule settles_apply [OF Inr [unfolded z] accepted(5)])
      then have "settles quiet (d\<lparr>d_statuses := AList.update (ts_transfer_id u) u (d_statuses d)\<rparr>) d'"
        by (rule settles_first [rotated]) (use same in \<open>simp add: records_def\<close>)
      with accepted(1) show thesis
        by (intro that(2) [OF applied(1-3,5,6)]) (simp_all add: result)
    qed
  qed
qed

section \<open>Statuses that fit, and how they move\<close>

text \<open>A status is filed under its own id, and its byte counts agree with its state.\<close>

definition status_fits :: "string \<Rightarrow> TransferStatus \<Rightarrow> bool" where
  "status_fits t s =
     (ts_transfer_id s = t \<and> 0 \<le> ts_bytes_completed s \<and> ts_bytes_completed s \<le> ts_bytes_total s \<and>
      (ts_state s = COMPLETE \<longrightarrow> ts_bytes_completed s = ts_bytes_total s))"

definition statuses_fit :: "Daemon \<Rightarrow> bool" where
  "statuses_fit d = (\<forall>t s. known_status t d = Some s \<longrightarrow> status_fits t s)"

text \<open>A transfer that has not ended may report more bytes and change its state.\<close>

definition moves :: "TransferStatus \<Rightarrow> TransferStatus \<Rightarrow> bool" where
  "moves s s' =
     (s' = s \<or> \<not> terminal (ts_state s) \<and> ts_transfer_id s' = ts_transfer_id s \<and> ts_job_id s' = ts_job_id s \<and>
        ts_session_id s' = ts_session_id s \<and> ts_bytes_total s' = ts_bytes_total s \<and>
        ts_bytes_completed s \<le> ts_bytes_completed s')"

definition just_filed :: "TransferStatus \<Rightarrow> bool" where
  "just_filed s = (ts_state s = SUBMITTED \<and> ts_bytes_completed s = 0)"

definition moves_on :: "Daemon \<Rightarrow> Daemon \<Rightarrow> bool" where
  "moves_on d d' =
     (\<forall>t s'. known_status t d' = Some s' \<longrightarrow> status_fits t s' \<and>
        (case known_status t d of None \<Rightarrow> just_filed s' | Some s \<Rightarrow> moves s s'))"

lemma moves_ended:
  assumes "status_fits t s" and "\<not> terminal (ts_state s)"
  shows "moves s (ended_status f e s)" and "status_fits t (ended_status f e s)"
  using assms by (auto simp: moves_def status_fits_def ended_status_def)

lemma settles_moves:
  assumes "statuses_fit d" and "settles P d d'"
  shows "moves_on d d'"
  unfolding moves_on_def
proof (intro allI impI)
  fix t s'
  assume "known_status t d' = Some s'"
  then obtain s where s: "known_status t d = Some s"
    and eq: "s' = s \<or> \<not> terminal (ts_state s) \<and> (\<exists>f e. terminal f \<and> P t f \<and> s' = ended_status f e s)"
    using assms(2) unfolding settles_def by blast
  have "status_fits t s" using assms(1) s by (simp add: statuses_fit_def)
  with s eq moves_ended show "status_fits t s' \<and> (case known_status t d of None \<Rightarrow> just_filed s' | Some s \<Rightarrow> moves s s')"
    by (auto simp: moves_def [of s s])
qed

lemma updated_moves:
  assumes st: "known_status t d = Some st" "\<not> terminal (ts_state st)" and fits: "statuses_fit d"
    and u: "mk_TransferStatus (updated_status st req n e) = Inr u"
    and next_step: "settles quiet (d\<lparr>d_statuses := AList.update (ts_transfer_id u) u (d_statuses d)\<rparr>) d'"
  shows "moves_on d d'"
proof -
  let ?d = "d\<lparr>d_statuses := AList.update (ts_transfer_id u) u (d_statuses d)\<rparr>"
  have eq: "u = updated_status st req n e" and ok: "TransferStatus_ok u"
    using u by (simp_all add: transfer_status.mk_iff)
  have t: "ts_transfer_id st = t" and "status_fits t st" using fits st by (auto simp: statuses_fit_def status_fits_def)
  have id: "ts_transfer_id u = t" using t by (simp add: eq updated_status_def)
  have fu: "status_fits t u" using ok id by (simp add: TransferStatus_ok_def status_fits_def)
  have mu: "moves st u"
    using st(2) by (auto simp: moves_def eq updated_status_def split: option.split)
  have known: "known_status t' ?d = (if t' = t then Some u else known_status t' d)" for t'
    by (simp add: known_status_def id)
  have "statuses_fit ?d" using fits fu by (simp add: statuses_fit_def known)
  then have later: "moves_on ?d d'" using next_step by (rule settles_moves)
  show ?thesis
    unfolding moves_on_def
  proof (intro allI impI)
    fix t' s'
    assume s': "known_status t' d' = Some s'"
    with later have f: "status_fits t' s'" and m: "case known_status t' ?d of None \<Rightarrow> just_filed s' | Some s \<Rightarrow> moves s s'"
      by (auto simp: moves_on_def)
    show "status_fits t' s' \<and> (case known_status t' d of None \<Rightarrow> just_filed s' | Some s \<Rightarrow> moves s s')"
    proof (cases "t' = t")
      case True
      with m st(1) have "moves u s'" by (simp add: known)
      with mu have "moves st s'" by (auto simp: moves_def)
      with f True st(1) show ?thesis by simp
    next
      case False
      with f m show ?thesis by (simp add: known)
    qed
  qed
qed

section \<open>Planning\<close>

lemma known_planned:
  "known_status t (fst (register_planned_transfer token s p peer now d)) =
     (if t = pt_transfer_id p then Some (planned_status p (ss_session_id s)) else known_status t d)"
proof -
  define d1 where "d1 = d\<lparr>d_plan_generations := AList.update (pt_transfer_id p) 1 (d_plan_generations d)\<rparr>"
  define a where "a = admission_for_decision (pt_decision p) (pt_leases p) (admission_reason p s d1)
    (pt_allow_delayed p) (pt_evidence p) now"
  obtain d2 rs a' where d2: "admitted_transfer_reservations token (ss_session_id s) p a d1 = (d2, rs, a')"
    by (cases "admitted_transfer_reservations token (ss_session_id s) p a d1") auto
  have commit: "records (fold (commit_lease token i t' bs) ls e) = records e" for i t' bs ls e
    by (rule fold_same) (simp add: commit_lease_def records_def Let_def)
  have "records d1 = records d" by (simp add: d1_def)
  then have r2: "records d2 = records d"
    using d2 by (auto simp: admitted_transfer_reservations_def commit_scheduler_leases_def commit split: if_splits)
  have filed: "records (file_planned_transfer p i peer x now e) =
      records (e\<lparr>d_statuses := AList.update (pt_transfer_id p) (planned_status p i) (d_statuses e)\<rparr>)" for i x e
    by (simp add: file_planned_transfer_def register_plan_contract_def register_block_runtime_records_def records_def
        Let_def split: option.split)
  have ticket: "records (issue_direct_plan_ticket p rs e) = records e" for e
    by (simp add: issue_direct_plan_ticket_def split: option.split)
  have "records (fst (register_planned_transfer token s p peer now d)) =
      records (d2\<lparr>d_statuses := AList.update (pt_transfer_id p) (planned_status p (ss_session_id s)) (d_statuses d2)\<rparr>)"
    using d2 unfolding register_planned_transfer_def Let_def d1_def [symmetric] a_def [symmetric]
    by (simp add: ticket filed)
  from records_known [OF this, of t] r2 show ?thesis by (simp add: known_status_def records_def)
qed

lemma plan_moves:
  assumes fits: "statuses_fit d"
    and answers: "\<And>s owner p. schedule (reap_and_refresh token now ps d) s owner = Inr p \<Longrightarrow>
      0 \<le> n \<and> known_status (pt_transfer_id p) d = None"
  shows "moves_on d (fst (plan_transfer token ps schedule i n ranges job bs peer now d))"
proof -
  let ?d = "reap_and_refresh token now ps d"
  have here: "moves_on d d" by (rule settles_moves [OF fits settles_refl])
  have on: "moves_on d ?d" by (rule settles_moves [OF fits settles_reap_refresh])
  have "moves_on d (fst (register_planned_transfer token s (p\<lparr>pt_job_id := a, pt_buffer_ids := b, pt_total_bytes := n\<rparr>)
      peer now ?d))" if "schedule ?d s owner = Inr p" for s owner p a b
  proof -
    let ?p = "p\<lparr>pt_job_id := a, pt_buffer_ids := b, pt_total_bytes := n\<rparr>"
    have "status_fits (pt_transfer_id p) (planned_status ?p j)" "just_filed (planned_status ?p j)" for j
      using answers [OF that] by (simp_all add: status_fits_def just_filed_def planned_status_def)
    with on answers [OF that] show ?thesis by (auto simp: moves_on_def known_planned)
  qed
  with here on show ?thesis
    unfolding plan_transfer_def Let_def
    by (auto simp: case_prod_beta intro!: guarded_keeps [where P = "moves_on d"] split: sum.splits option.splits)
qed

lemma answered_moves: "moves_on d (fst planned) \<Longrightarrow> moves_on d (fst (answer_plan str_of now planned))"
  using records_known [OF records_ticketed [OF ticketed_answer]] by (simp add: moves_on_def)

section \<open>Every step moves transfers on\<close>

lemma transfer_status_moves:
  assumes "statuses_fit d"
  shows "moves_on d (fst (transfer_status str_of token ps t state n e src ev peer now d))"
proof (cases rule: transfer_status_settles [of d str_of token ps t state n e src ev peer "now"])
  case settled
  with assms show ?thesis by (rule settles_moves)
next
  case (updated st req u d1 v)
  show ?thesis by (rule updated_moves [OF updated(1,3) assms updated(5,7)])
qed

lemma step_moves:
  assumes "daemon_step d d'" and "statuses_fit d"
  shows "moves_on d d'"
  using assms
proof (induction rule: daemon_step.induct)
  case step_register_session
  then show ?case by (blast intro: settles_moves settles_register_session)
next
  case step_plan_transfer
  then show ?case by (intro answered_moves plan_moves) blast+
next
  case step_transfer_status
  then show ?case by (blast intro: transfer_status_moves)
qed (blast intro: settles_moves settles_close_session settles_register_job settles_register_buffer
    settles_validate_lease settles_authorize settles_record_intent settles_submit_intent settles_cleanup settles_disconnect settles_reap settles_refresh)+

lemma moves_on_fits: "moves_on d d' \<Longrightarrow> statuses_fit d'"
  by (auto simp: moves_on_def statuses_fit_def)

lemma initial_fits: "statuses_fit (initial_daemon relays ms mc timeout auth policy)"
  by (simp add: statuses_fit_def known_status_def initial_daemon_def)

lemma reachable_fits:
  assumes "daemon_reachable (initial_daemon relays ms mc timeout auth policy) d"
  shows "statuses_fit d"
  using assms unfolding daemon_reachable_def
  by (induction rule: rtranclp_induct) (auto intro: initial_fits moves_on_fits step_moves)

end
