(* ===== verification/Daemon_Outcomes.thy ===== *)
theory Daemon_Outcomes
  imports Daemon_Transfers Daemon_Properties
begin

text \<open>
  Properties of transfers under the daemon: what their statuses satisfy, how they move, what completes
  an intent's transfer, what its ticket allows, and what cleanup gives back.
\<close>

section \<open>A sample run with an intent\<close>

text \<open>
  The sample user's job registers two buffers, submits an intent to copy 12 bytes between them over
  the relay, and a worker reports the copy done with the evidence the daemon asks for.
\<close>

definition sample_job :: JobIdentity where
  "sample_job = \<lparr>ji_job_id = ''job'', ji_user_id = None, ji_session_id = Some ''s1'', ji_container_id = None,
     ji_process_id = None, ji_weight = 1\<rparr>"

definition sample_buffer :: "string \<Rightarrow> BufferRegistration" where
  "sample_buffer i = \<lparr>br_buffer_id = i, br_job_id = ''job'', br_kind = ''cpu'', br_size_bytes = 64, br_device_index = None,
     br_address = None, br_pinned = False, br_handle_type = ''opaque'', br_metadata = []\<rparr>"

definition sample_intent :: TransferIntent where
  "sample_intent = \<lparr>ti_intent_id = ''i'', ti_job_id = ''job'', ti_session_id = ''s1'', ti_source_buffer_id = ''b1'',
     ti_destination_buffer_id = ''b2'', ti_direction = ''h2d'', ti_total_bytes = 12,
     ti_ranges = [\<lparr>src_offset = 0, dst_offset = 0, bytes = 12\<rparr>], ti_workload_kind = GENERIC, ti_priority = 0,
     ti_policy_hints = [], ti_metadata = []\<rparr>"

definition sample_run_decision :: SchedulingDecision where
  "sample_run_decision = sample_decision\<lparr>sd_plan := [(''assignments'', VList [VDict
     [(''path'', VDict [(''kind'', VStr ''relay''), (''relay_device'', VInt 1), (''direction'', VStr ''h2d'')]),
      (''chunks'', VList [VDict (range_as_dict \<lparr>src_offset = 0, dst_offset = 0, bytes = 12\<rparr>)])]])]\<rparr>"

definition sample_run_schedule :: "Daemon \<Rightarrow> Session \<Rightarrow> string option \<Rightarrow> PlannedTransfer result" where
  "sample_run_schedule d s owner =
     (if ss_session_id s = ''s1'' \<and> leases_fresh sample_leases d
      then Inr (sample_planned\<lparr>pt_decision := sample_run_decision, pt_intent_id := Some ''i''\<rparr>)
      else Inl (ValueError ''no plan''))"

definition state_of :: "(Daemon \<times> 'a) result \<Rightarrow> Daemon" where
  "state_of r = (case r of Inr (d, x) \<Rightarrow> d | Inl e \<Rightarrow> sample_start)"

definition sample_job_state :: Daemon where
  "sample_job_state = state_of (register_job sample_job (Some sample_peer) 11 (fst sample_open))"

definition sample_buffers_state :: Daemon where
  "sample_buffers_state = state_of (register_buffer id [] (sample_buffer ''b2'') (Some sample_peer) 13
     (state_of (register_buffer id [] (sample_buffer ''b1'') (Some sample_peer) 12 sample_job_state)))"

definition sample_planned_state :: Daemon where
  "sample_planned_state = fst (answer_plan no_text 20 (plan_transfer id [] sample_run_schedule ''s1'' 12 None (Some ''job'')
     (Some [''b1'', ''b2'']) (Some sample_peer) 20 sample_buffers_state))"

definition sample_issued :: Daemon where
  "sample_issued = fst (record_submitted_intent no_text sample_intent ''t1'' 21 sample_planned_state)"

text \<open>The state after the intent is recorded, written out; the reports below start from it.\<close>

definition sample_owner :: mapping where
  "sample_owner = [(''job_id'', VStr ''job''), (''session_id'', VStr ''s1''), (''transfer_id'', VStr ''t1''),
     (''lease_ids'', VList [VStr ''lease-0'']), (''relay_gpus'', VList [VInt 1]),
     (''cleanup_scope'', VDict [(''target_kind'', VStr ''reservation''), (''target_ids'', VList [VStr ''lease-0''])]),
     (''peer_identity'', VDict (peer_value sample_peer))]"

definition sample_ticket :: ExecutionTicket where
  "sample_ticket = \<lparr>et_ticket_id = ''ticket-t1'', et_decision_id = ''d'', et_intent_id = ''i'',
     et_topology_snapshot_id = ''t'', et_job_id = ''job'', et_session_id = ''s1'', et_source_buffer_id = ''b1'',
     et_destination_buffer_id = ''b2'', et_direction = ''h2d'', et_total_bytes = 12,
     et_ranges = [\<lparr>src_offset = 0, dst_offset = 0, bytes = 12\<rparr>], et_plan = sd_plan sample_run_decision,
     et_issued_at = 21, et_expires_at = 35, et_lease_ids = [''lease-0''],
     et_metadata = [(''issuer'', VStr ''turbobus-daemon''), (''transfer_id'', VStr ''t1''),
       (''plan_generation'', VInt 1), (''owner_binding'', VDict sample_owner)]\<rparr>"

lemma sample_issued_value [code]:
  "sample_issued = sample_start\<lparr>
     d_relay_quotas := [(1, \<lparr>rq_relay_gpu = 1, rq_max_sessions = 1, rq_max_inflight_chunks = 4,
       rq_sessions = [''s1''], rq_active_chunks = 2\<rparr>)],
     d_jobs := [(''job'', sample_job\<lparr>ji_user_id := Some ''1000'', ji_process_id := Some 7\<rparr>)],
     d_job_peers := [(''job'', sample_peer)], d_session_peers := [(''s1'', sample_peer)],
     d_buffers := [(''b1'', sample_buffer ''b1''), (''b2'', sample_buffer ''b2'')],
     d_sessions := [(''s1'', \<lparr>ss_session_id = ''s1'', ss_target_gpu = 0, ss_relay_gpus = [1],
       ss_max_inflight_chunks = 8, ss_worker_relay_capable = True, ss_active_chunks = 2, ss_active = True,
       ss_created_at = 10, ss_last_seen = 20, ss_closed_at = None\<rparr>)],
     d_reservations := [(''lease-0'', \<lparr>rv_reservation_id = ''lease-0'', rv_session_id = ''s1'', rv_relay_gpu = 1,
       rv_chunks = 2, rv_bytes = 12, rv_direction = ''h2d''\<rparr>)],
     d_reservation_transfers := [(''lease-0'', ''t1'')], d_transfer_intents := [(''i'', sample_intent)],
     d_intent_transfers := [(''i'', ''t1'')], d_transfer_queue := [''t1''],
     d_plan_requests := [(''t1'', \<lparr>pq_intent_id = Some ''i'', pq_fields = [(''buffer_ids'', VList [VStr ''b1'', VStr ''b2''])]\<rparr>)],
     d_plan_generations := [(''t1'', 1)], d_plan_expirations := [(''t1'', 35)],
     d_admissions := [(''t1'', [(''state'', VStr ''admitted''), (''reason'', VStr ''relay_resources_available''),
       (''decision_state'', VStr ''planned''), (''fallback_reason'', VNone), (''requested_lease_count'', VInt 1),
       (''requested_chunks'', VInt 2), (''lease_ids'', VList [VStr ''lease-0'']), (''admitted_at'', VFloat 20),
       (''plan_generation'', VInt 1), (''plan_expires_at'', VFloat 35), (''priority_order'', VDict [])])],
     d_lease_plan_generations := [(''lease-0'', 1)], d_plans := [(''t1'', sd_plan sample_run_decision)],
     d_decisions := [(''t1'', sample_run_decision)], d_execution_tickets := [(''ticket-t1'', sample_ticket)],
     d_transfer_tickets := [(''t1'', ''ticket-t1'')],
     d_lease_tokens := [(''lease-0'', \<lparr>lt_lease_id = ''lease-0'', lt_session_id = ''s1'', lt_relay_gpu = 1,
       lt_token = ''lease-0'', lt_buffer_ids = [''b1'', ''b2''], lt_job_id = Some ''job'', lt_issued_at = 5,
       lt_expires_at = 35\<rparr>)],
     d_statuses := [(''t1'', \<lparr>ts_transfer_id = ''t1'', ts_job_id = ''job'', ts_state = SUBMITTED, ts_bytes_total = 12,
       ts_bytes_completed = 0, ts_session_id = Some ''s1'', ts_error = None\<rparr>)],
     d_buffer_snapshots := [(''t1'', [])], d_transfer_peers := [(''t1'', sample_peer)]\<rparr>"
  by code_simp

definition sample_evidence :: mapping where
  "sample_evidence = [(''verified_bytes'', VInt 12), (''content_match'', VBool True),
     (''ticket_id'', VStr ''ticket-t1''), (''transfer_id'', VStr ''t1''), (''plan_generation'', VInt 1),
     (''owner_binding'', VDict sample_owner)]"

definition sample_report :: "string \<Rightarrow> Daemon \<times> StatusReply response result" where
  "sample_report state = transfer_status no_text id [] ''t1'' (Some state) (Some 12) None (Some ''worker'')
     (VDict sample_evidence) (Some sample_peer) 22 sample_issued"

text \<open>Every state of the run is reachable.\<close>

lemma no_promotions: "promotions_ok [] d"
  by (simp add: promotions_ok_def)

lemma state_of_step:
  "(\<And>d' x. r = Inr (d', x) \<Longrightarrow> daemon_step d d') \<Longrightarrow> daemon_reachable sample_start d \<Longrightarrow> daemon_reachable sample_start (state_of r)"
  by (auto simp: state_of_def daemon_reachable_def split: sum.splits)

lemma reach_step: "daemon_reachable s d \<Longrightarrow> daemon_step d d' \<Longrightarrow> daemon_reachable s d'"
  by (simp add: daemon_reachable_def)

lemma sample_report_step: "daemon_step sample_issued (fst (sample_report state))"
  unfolding sample_report_def by (rule step_transfer_status [OF no_promotions])

lemma sample_run_reachable:
  "daemon_reachable sample_start sample_planned_state" "daemon_reachable sample_start sample_issued"
  "daemon_reachable sample_start (fst (sample_report state))"
proof -
  have job: "daemon_reachable sample_start sample_job_state"
    unfolding sample_job_state_def by (rule state_of_step [OF step_register_job sample_reachable(1)])
  have buffer: "daemon_reachable sample_start (state_of (register_buffer id [] b (Some sample_peer) x d))"
    if "daemon_reachable sample_start d" for b x d
    by (rule state_of_step [OF step_register_buffer [OF no_promotions] that])
  have buffers: "daemon_reachable sample_start sample_buffers_state"
    unfolding sample_buffers_state_def by (rule buffer [OF buffer [OF job]])
  have fresh: "known_status ''t1'' sample_buffers_state = None" by code_simp
  have "daemon_step sample_buffers_state sample_planned_state"
    unfolding sample_planned_state_def
    by (rule step_plan_transfer [OF no_promotions])
       (auto simp: sample_run_schedule_def sample_planned_def planned_ok_def answer_ok_def sample_leases_def fresh
          split: if_splits)
  then show planned: "daemon_reachable sample_start sample_planned_state" by (rule reach_step [OF buffers])
  have "daemon_step sample_planned_state sample_issued" unfolding sample_issued_def by (rule step_record_intent)
  then show issued: "daemon_reachable sample_start sample_issued" by (rule reach_step [OF planned])
  show "daemon_reachable sample_start (fst (sample_report state))" by (rule reach_step [OF issued sample_report_step])
qed

text \<open>
  The complete report, followed through the handler one call at a time.
\<close>

definition sample_filed :: TransferStatus where
  "sample_filed = \<lparr>ts_transfer_id = ''t1'', ts_job_id = ''job'', ts_state = SUBMITTED, ts_bytes_total = 12,
     ts_bytes_completed = 0, ts_session_id = Some ''s1'', ts_error = None\<rparr>"

definition sample_update :: TransferStatus where
  "sample_update = sample_filed\<lparr>ts_state := COMPLETE, ts_bytes_completed := 12\<rparr>"

lemma sample_report_applied:
  "sample_report ''complete'' = raising sample_issued
     (apply_status_update no_text id [] sample_update (Some ''worker'') (VDict sample_evidence) 22 sample_issued)"
proof -
  have "known_status ''t1'' sample_issued = Some sample_filed"
    "validate_peer_owns_job ''job'' (Some sample_peer) sample_issued = Inr ()"
    "map_of (d_jobs sample_issued) ''job'' \<noteq> None"
    "status_update_blocked_reason ''t1'' COMPLETE 22 sample_issued = (sample_issued, None)"
    "TransferStatusState_of ''complete'' = Inr COMPLETE"
    "mk_TransferStatus (updated_status sample_filed COMPLETE (Some 12) None) = Inr sample_update"
    "\<not> terminal SUBMITTED"
    by code_simp+
  then show ?thesis by (simp add: sample_report_def transfer_status_def sample_filed_def)
qed

definition sample_verified :: mapping where
  "sample_verified = [(''verified'', VBool True), (''verified_bytes'', VInt 12), (''content_match'', VBool True),
     (''verification_source'', VStr ''worker''), (''verification_method'', VStr ''unknown''),
     (''ticket_id'', VStr ''ticket-t1''), (''transfer_id'', VStr ''t1''), (''plan_generation'', VInt 1),
     (''owner_binding'', VDict sample_owner)]"

definition sample_persisted :: Daemon where
  "sample_persisted = persist_transfer_status_update sample_update ''worker'' (Some sample_verified)
     (Some sample_ticket) 22 sample_issued"

lemma sample_report_complete:
  "sample_report ''complete'' =
     (case finalize_transfer_status_update id [] sample_update 22 sample_persisted of (d, y) \<Rightarrow> (d, Inr (Accepted y)))"
proof -
  have "normalize_evidence_update no_text sample_update (Some ''worker'') (VDict sample_evidence) sample_issued =
      Inr (Accepted \<lparr>eu_source = ''worker'', eu_evidence = Some sample_verified, eu_ticket = Some sample_ticket\<rparr>)"
    "advance_block_runtime_for_status no_text sample_update ''worker'' (Some sample_verified) 22 sample_issued =
      Inr (sample_issued, None)"
    "with_block_progress (ts_transfer_id sample_update) (Some sample_verified) None sample_issued = Some sample_verified"
    by code_simp+
  then show ?thesis
    by (simp add: sample_report_applied apply_status_update_def raising_def sample_persisted_def case_prod_beta Let_def)
qed

lemma sample_outcome: "known_status ''t1'' (fst (sample_report ''complete'')) = Some sample_update"
proof -
  have "known_status ''t1'' (fst (finalize_transfer_status_update id [] sample_update 22 sample_persisted)) = Some sample_update"
    by code_simp
  then show ?thesis by (simp add: sample_report_complete case_prod_beta)
qed

lemma sample_before: "known_status ''t1'' sample_issued = Some sample_filed"
  by code_simp

section \<open>Statuses\<close>

text \<open>
  C6: in every reachable state the status known of a transfer, live or archived, is filed under the
  transfer's own id, its completed bytes lie between 0 and its total, and a complete transfer has
  moved all of them.
\<close>

theorem reachable_statuses_fit:
  assumes "daemon_reachable (initial_daemon relays ms mc timeout auth policy) d" and "known_status t d = Some s"
  shows "ts_transfer_id s = t \<and> 0 \<le> ts_bytes_completed s \<and> ts_bytes_completed s \<le> ts_bytes_total s \<and>
    (ts_state s = COMPLETE \<longrightarrow> ts_bytes_completed s = ts_bytes_total s)"
  using reachable_fits [OF assms(1)] assms(2) by (simp add: statuses_fit_def status_fits_def)

theorem reachable_statuses_fit_witness:
  "ts_transfer_id sample_update = ''t1'' \<and> ts_bytes_completed sample_update = ts_bytes_total sample_update"
  using reachable_statuses_fit [OF sample_run_reachable(3) [unfolded sample_start_def] sample_outcome]
  by (simp add: sample_update_def)

text \<open>
  C5: no step of the daemon takes a transfer back.  A transfer that has ended keeps its status for as
  long as the daemon knows it; one that has not keeps its identity, owner and size, and its completed
  bytes never decrease; one the daemon did not know starts as submitted with no bytes moved.
\<close>

theorem transfers_move_forward:
  assumes "daemon_reachable (initial_daemon relays ms mc timeout auth policy) d"
    and "daemon_step d d'" and "known_status t d' = Some s'"
  shows "case known_status t d of
      None \<Rightarrow> ts_state s' = SUBMITTED \<and> ts_bytes_completed s' = 0
    | Some s \<Rightarrow> s' = s \<or> \<not> terminal (ts_state s) \<and> ts_transfer_id s' = ts_transfer_id s \<and> ts_job_id s' = ts_job_id s \<and>
        ts_session_id s' = ts_session_id s \<and> ts_bytes_total s' = ts_bytes_total s \<and>
        ts_bytes_completed s \<le> ts_bytes_completed s'"
proof -
  have "moves_on d d'" by (rule step_moves [OF assms(2) reachable_fits [OF assms(1)]])
  then have "case known_status t d of None \<Rightarrow> just_filed s' | Some s \<Rightarrow> moves s s'"
    using assms(3) unfolding moves_on_def by blast
  then show ?thesis by (cases "known_status t d") (simp_all add: moves_def just_filed_def)
qed

theorem transfers_move_forward_witness:
  "ts_bytes_total sample_update = 12 \<and> 0 \<le> ts_bytes_completed sample_update"
  using transfers_move_forward [OF sample_run_reachable(2) [unfolded sample_start_def] sample_report_step sample_outcome]
  by (auto simp: sample_before sample_filed_def sample_update_def)

end
