(* ===== verification/Daemon_Evidence.thy ===== *)
theory Daemon_Evidence
  imports Daemon_Outcomes
begin

text \<open>
  What completes a transfer that an intent asked for: only a worker's or a backend's report of the
  verified copy, bound to the ticket the daemon issued.
\<close>

section \<open>Steps that complete nothing\<close>

definition completes_nothing :: "Daemon \<Rightarrow> Daemon \<Rightarrow> bool" where
  "completes_nothing d d' =
     (\<forall>t s'. known_status t d' = Some s' \<and> ts_state s' = COMPLETE \<longrightarrow>
        (\<exists>s. known_status t d = Some s \<and> ts_state s = COMPLETE))"

lemma settled_completes_nothing: "settles quiet d d' \<Longrightarrow> completes_nothing d d'"
  unfolding completes_nothing_def settles_def quiet_def by fastforce

lemma plan_completes_nothing: "completes_nothing d (fst (plan_transfer token ps schedule i n ranges job bs peer now d))"
proof -
  let ?d = "reap_and_refresh token now ps d"
  have here: "completes_nothing d d" by (rule settled_completes_nothing) simp
  have on: "completes_nothing d ?d" by (rule settled_completes_nothing) simp
  have "completes_nothing d (fst (register_planned_transfer token s p peer now ?d))" for s p
    using on by (auto simp: completes_nothing_def known_planned planned_status_def)
  with here on show ?thesis
    unfolding plan_transfer_def Let_def
    by (auto simp: case_prod_beta intro!: guarded_keeps [where P = "completes_nothing d"] split: sum.splits option.splits)
qed

lemma answer_completes_nothing: "completes_nothing d (fst planned) \<Longrightarrow> completes_nothing d (fst (answer_plan str_of now planned))"
  using records_known [OF records_ticketed [OF ticketed_answer]] by (simp add: completes_nothing_def)

section \<open>The report that completes\<close>

text \<open>Evidence that all \<open>n\<close> bytes were copied and compared, given under the ticket \<open>k\<close>.\<close>

definition verified_under :: "(pyval \<Rightarrow> string) \<Rightarrow> ExecutionTicket \<Rightarrow> int \<Rightarrow> mapping \<Rightarrow> bool" where
  "verified_under str_of k n m =
     (rbind (vindex m ''verified_bytes'') py_int = Inr n \<and> truthy (vget m ''content_match'' (VBool False)) \<and>
      (vget m ''source_digest'' VNone = VNone \<or> vget m ''destination_digest'' VNone = VNone \<or>
       py_str str_of (vget m ''source_digest'' VNone) = py_str str_of (vget m ''destination_digest'' VNone)) \<and>
      vget m ''ticket_id'' VNone \<noteq> VNone \<and> py_str str_of (vget m ''ticket_id'' VNone) = et_ticket_id k)"

lemma completion_verified:
  assumes "normalize_completion_evidence str_of v n src (Some k) = Inr e"
  shows "\<exists>m. v = VDict m \<and> verified_under str_of k n m"
  using assms
proof (rule completion_Inr)
  fix ev base binding path
  assume v: "v = VDict ev" and base: "normalize_verified_completion_base str_of ev n src = Inr base"
    and "(case Some k of None \<Rightarrow> Inr [] | Some k \<Rightarrow> normalize_ticket_binding str_of ev k ''completion evidence'') = Inr binding"
  then have "normalize_ticket_binding str_of ev k ''completion evidence'' = Inr binding" by simp
  with base_Inr(1,2,7) [OF base] binding_Inr(2,3) [OF this] v show ?thesis
    by (simp add: verified_under_def)
qed

lemma accepted_completion:
  assumes "normalize_evidence_update str_of u src ev d = Inr (Accepted v)"
    and "ts_state u = COMPLETE" and "intent_requires_execution_evidence (ts_transfer_id u) d"
  obtains k m where "current_execution_ticket (ts_transfer_id u) d = Inr k" "ev = VDict m"
    "verified_under str_of k (ts_bytes_total u) m"
    "is_execution_completion_source (lower (case src of None \<Rightarrow> [] | Some s \<Rightarrow> s))"
  using assms completion_verified [of str_of ev "ts_bytes_total u"]
  by (fastforce simp: normalize_evidence_update_def except_value_error_def Let_def split: if_splits sum.splits)

lemma admission_unchanged: "validate_transfer_admission t None now d = (d1, None) \<Longrightarrow> d1 = d"
  by (auto simp: validate_transfer_admission_def Let_def split: option.splits if_splits)

lemma status_check_unchanged: "status_update_blocked_reason t s now d = (d1, None) \<Longrightarrow> d1 = d"
  by (auto simp: status_update_blocked_reason_def dest: admission_unchanged split: if_splits prod.splits option.splits)

lemma completing_step:
  assumes "daemon_step d d'"
  obtains (nothing) "completes_nothing d d'"
  | (report) str_of token ps t state n e src ev peer "now"
      where "d' = fst (transfer_status str_of token ps t state n e src ev peer now d)"
  using assms
proof (cases rule: daemon_step.cases)
  case step_plan_transfer
  then have "completes_nothing d d'" by (simp only: answer_completes_nothing plan_completes_nothing)
  then show thesis by (rule nothing)
qed (blast intro: nothing report settled_completes_nothing settles_register_session settles_close_session
    settles_register_job settles_register_buffer settles_validate_lease settles_authorize settles_record_intent settles_submit_intent
    settles_cleanup settles_disconnect settles_reap settles_refresh)+

text \<open>
  C3: in a reachable state, a step that completes a transfer of an intent is a status report that its
  owner may make, from a worker or a backend, with evidence that every byte of the transfer was copied
  and matched, under the ticket the daemon currently holds for the transfer.
\<close>

theorem completion_needs_evidence:
  assumes reachable: "daemon_reachable (initial_daemon relays ms mc timeout auth policy) d"
    and step: "daemon_step d d'" and "known_status t d' = Some s'" and "ts_state s' = COMPLETE"
    and before: "known_status t d = Some s" "ts_state s \<noteq> COMPLETE"
    and intent: "intent_requires_execution_evidence t d"
  shows "\<exists>str_of token ps state n e src m peer now k.
    d' = fst (transfer_status str_of token ps t state n e (Some src) (VDict m) peer now d) \<and>
    may_update s peer d = Inr () \<and> is_execution_completion_source src \<and>
    current_execution_ticket t d = Inr k \<and> verified_under str_of k (ts_bytes_total s) m"
proof -
  have completes: "\<not> completes_nothing d d'" using assms(3-6) by (auto simp: completes_nothing_def)
  have fits: "statuses_fit d" by (rule reachable_fits [OF reachable])
  from step show ?thesis
  proof (cases rule: completing_step)
    case nothing
    with completes show ?thesis by blast
  next
    case (report str_of token ps t' state n e src ev peer "now")
    show ?thesis
    proof (cases rule: transfer_status_settles [of d str_of token ps t' state n e src ev peer "now"])
      case settled
      with completes report show ?thesis by (blast intro: settled_completes_nothing)
    next
      case (updated st req u d1 v)
      let ?d = "d\<lparr>d_statuses := AList.update (ts_transfer_id u) u (d_statuses d)\<rparr>"
      have d1: "d1 = d" using updated(4) by (rule status_check_unchanged)
      have u: "u = updated_status st req n e" using updated(5) by (simp add: transfer_status.mk_iff)
      have "ts_transfer_id st = t'" using fits updated(1) by (simp add: statuses_fit_def status_fits_def)
      then have id: "ts_transfer_id u = t'" "ts_bytes_total u = ts_bytes_total st" by (simp_all add: u updated_status_def)
      have known: "known_status x ?d = (if x = t' then Some u else known_status x d)" for x
        by (simp add: known_status_def id)
      have "completes_nothing ?d d'"
        unfolding report using updated(7) by (rule settled_completes_nothing)
      then obtain s0 where "known_status t ?d = Some s0" "ts_state s0 = COMPLETE"
        using assms(3,4) by (auto simp: completes_nothing_def)
      with before have t: "t = t'" and complete: "ts_state u = COMPLETE" by (auto simp: known split: if_splits)
      have st: "st = s" using before(1) updated(1) t by simp
      obtain k m where k: "current_execution_ticket t d = Inr k" "ev = VDict m" "verified_under str_of k (ts_bytes_total s) m"
        and source: "is_execution_completion_source (lower (case src of None \<Rightarrow> [] | Some s \<Rightarrow> s))"
        by (rule accepted_completion [OF updated(6) complete]) (use intent t st id d1 in auto)
      from source obtain a where "src = Some a" "is_execution_completion_source a"
        by (cases src) (auto simp: is_execution_completion_source_def lower_def)
      with k report updated(2) st t show ?thesis by blast
    qed
  qed
qed

theorem completion_needs_evidence_witness:
  "\<exists>str_of k m. current_execution_ticket ''t1'' sample_issued = Inr k \<and> verified_under str_of k 12 m"
proof -
  have "intent_requires_execution_evidence ''t1'' sample_issued" by code_simp
  from completion_needs_evidence [OF sample_run_reachable(2) [unfolded sample_start_def] sample_report_step sample_outcome
      _ sample_before _ this]
  show ?thesis by (auto simp: sample_update_def sample_filed_def)
qed

end
