(* ===== verification/Daemon_Workers.thy ===== *)
theory Daemon_Workers
  imports Daemon_Evidence
begin

text \<open>
  What tickets and authorizations allow: a ticket stays within the leases it was issued on, and an
  authorized worker copies no more than the reservations of its transfer cover.
\<close>

section \<open>Tickets\<close>

lemma ticket_Inr:
  assumes "mk_ExecutionTicket k = Inr k'"
  shows "ExecutionTicket_ok k'" and "et_lease_ids k' = et_lease_ids k" and "et_expires_at k' = et_expires_at k"
    and "et_issued_at k' = et_issued_at k" and "et_ticket_id k' = et_ticket_id k" and "et_ranges k' = et_ranges k"
    and "et_total_bytes k' = et_total_bytes k" and "et_metadata k' = et_metadata k"
  using assms execution_ticket.mk_wf [OF assms] by (auto simp: mk_ExecutionTicket_def result_simps)

lemma plan_ticket:
  assumes "ticket_for_plan str_of t decision src dst now expires lease_ids d = Inr (d', k)"
  shows "ExecutionTicket_ok k" and "et_lease_ids k = lease_ids" and "et_issued_at k = now"
    and "et_ticket_id k = ''ticket-'' @ t"
    and "et_expires_at k = (case expires of Some x \<Rightarrow> if x > now then x else plan_expiry t now d | None \<Rightarrow> plan_expiry t now d)"
    and "\<exists>direction. decision_direction str_of decision = Inr direction \<and>
      ticket_ranges_for_plan str_of (sd_plan decision) direction = Inr (et_ranges k)"
  using assms
  by (auto simp: ticket_for_plan_def execution_ticket_for_plan_def Let_def result_simps ticket_Inr not_less split: option.splits)

text \<open>
  C36: the ticket issued for an intent is well formed, is current when it is issued, names exactly the
  leases reserved for the transfer, covers the ranges the scheduler's plan gives the transfer's
  direction, and expires no later than any lease that is still live.
\<close>

theorem issued_ticket_follows_leases:
  assumes "execution_ticket_for_intent str_of intent t decision now d = Inr (d', k)"
  shows "ExecutionTicket_ok k \<and> et_issued_at k = now \<and> now < et_expires_at k \<and>
    et_lease_ids k = lease_ids_for_transfer t d \<and>
    (\<forall>l \<in> set (et_lease_ids k). case map_of (d_lease_tokens d) l of
       Some token \<Rightarrow> lt_expires_at token \<le> now \<or> et_expires_at k \<le> lt_expires_at token | None \<Rightarrow> True) \<and>
    (\<exists>direction. decision_direction str_of decision = Inr direction \<and>
      ticket_ranges_for_plan str_of (sd_plan decision) direction = Inr (et_ranges k))"
proof -
  let ?ids = "lease_ids_for_transfer t d"
  define live where "live = concat (map (\<lambda>l. case map_of (d_lease_tokens d) l of
    None \<Rightarrow> [] | Some k \<Rightarrow> if lt_expires_at k > now then [lt_expires_at k] else []) ?ids)"
  note k = plan_ticket [OF assms [unfolded execution_ticket_for_intent_def Let_def]]
  have alive: "now < x" if "x \<in> set live" for x
    using that by (auto simp: live_def split: option.splits if_splits)
  have "et_expires_at k \<le> lt_expires_at token"
    if "l \<in> set ?ids" "map_of (d_lease_tokens d) l = Some token" "now < lt_expires_at token" for l token
  proof -
    have "lt_expires_at token \<in> set live" using that by (auto simp: live_def intro!: bexI [of _ l])
    moreover from this have "now < Min (set live)" using alive by (metis Min_in empty_iff finite_set)
    ultimately show ?thesis
      using k(5) by (auto simp: intent_ticket_expiry_def live_def [symmetric] Let_def)
  qed
  then have "\<forall>l \<in> set (et_lease_ids k). case map_of (d_lease_tokens d) l of
       Some token \<Rightarrow> lt_expires_at token \<le> now \<or> et_expires_at k \<le> lt_expires_at token | None \<Rightarrow> True"
    by (force simp: k(2) split: option.split)
  with k(1-4,6) show ?thesis by (simp add: ExecutionTicket_ok_def)
qed

theorem issued_ticket_follows_leases_witness:
  "\<exists>d' k. execution_ticket_for_intent no_text sample_intent ''t1'' sample_run_decision 21 sample_issued = Inr (d', k) \<and>
     et_lease_ids k = [''lease-0''] \<and> et_expires_at k \<le> 35"
proof -
  have "execution_ticket_for_intent no_text sample_intent ''t1'' sample_run_decision 21 sample_issued =
      Inr (sample_issued, sample_ticket)" "lease_ids_for_transfer ''t1'' sample_issued = [''lease-0'']"
    "map_option lt_expires_at (map_of (d_lease_tokens sample_issued) ''lease-0'') = Some 35" by code_simp+
  with issued_ticket_follows_leases [OF this(1)] show ?thesis by auto
qed

section \<open>Authorizations\<close>

lemma lease_admission_unchanged: "validate_transfer_admission t l now d = (d1, None) \<Longrightarrow> d1 = d"
  by (auto simp: validate_transfer_admission_def Let_def split: option.splits if_splits)

definition lease_active :: "Daemon \<Rightarrow> LeaseToken \<Rightarrow> bool" where
  "lease_active d l = (map_of (d_reservations d) (lt_lease_id l) \<noteq> None)"

lemma related_checked:
  "check_related_leases q primary ls now d = (d1, None) \<Longrightarrow>
   d1 = d \<and> (\<forall>l \<in> set ls. lt_lease_id l = lt_lease_id primary \<or> lease_active d l)"
  by (induction q primary ls "now" d rule: check_related_leases.induct)
    (auto simp: lease_active_def split: if_splits prod.splits option.splits dest!: lease_admission_unchanged)

lemma related_accepted:
  assumes "authorize_related_leases str_of q primary now d = (d1, Inr (Accepted ls))" and "lease_active d primary"
  shows "d1 = d" and "\<forall>l \<in> set ls. lease_active d l"
  using assms
  by (auto simp: authorize_related_leases_def lease_active_def result_simps
      dest!: lease_admission_unchanged related_checked split: sum.splits if_splits prod.splits option.splits)

definition reserved_bytes :: "Daemon \<Rightarrow> LeaseToken list \<Rightarrow> int" where
  "reserved_bytes d ls = sum_list (concat (map (\<lambda>l. case map_of (d_reservations d) (lt_lease_id l) of
     None \<Rightarrow> [] | Some r \<Rightarrow> [rv_bytes r]) ls))"

lemma ranges_accepted:
  "worker_authorized_ranges str_of q p ls d = Inr (Accepted rs) \<Longrightarrow>
   relay_ranges_from_plan str_of p (map lt_relay_gpu ls) (wq_direction q) = Inr rs \<and> range_total rs \<le> reserved_bytes d ls"
  by (auto simp: worker_authorized_ranges_def except_value_error_def reserved_bytes_def Let_def not_less
      split: sum.splits if_splits)

lemma buffers_accepted:
  "worker_authorization_buffers q lease peer d = Accepted (src, dst) \<Longrightarrow>
   map_of (d_buffers d) (wq_src_buffer_id q) = Some src \<and> map_of (d_buffers d) (wq_dst_buffer_id q) = Some dst"
  by (auto simp: worker_authorization_buffers_def split: if_splits option.splits sum.splits)

lemma context_accepted:
  assumes "worker_authorization_context str_of q lease peer now d = (d1, Inr (Accepted x))"
  shows "d1 = d" and "\<forall>l \<in> set (ax_leases x). lease_active d l"
    and "map_of (d_plans d) (wq_transfer_id q) = Some (ax_plan x)"
    and "relay_ranges_from_plan str_of (ax_plan x) (map lt_relay_gpu (ax_leases x)) (wq_direction q) = Inr (ax_ranges x)"
    and "range_total (ax_ranges x) \<le> reserved_bytes d (ax_leases x)"
    and "map_of (d_buffers d) (wq_src_buffer_id q) = Some (ax_src_buffer x)"
    and "map_of (d_buffers d) (wq_dst_buffer_id q) = Some (ax_dst_buffer x)"
proof -
  obtain r p ls where r: "map_of (d_reservations d) (lt_lease_id lease) = Some r"
    and p: "map_of (d_plans d) (wq_transfer_id q) = Some p"
    and ls: "authorize_related_leases str_of q lease now d = (d1, Inr (Accepted ls))"
    and rest: "rbind (worker_authorized_ranges str_of q p ls d1) (\<lambda>a. case a of Refused e \<Rightarrow> Inr (Refused e)
      | Accepted ranges \<Rightarrow> (case worker_authorization_buffers q lease peer d1 of Refused e \<Rightarrow> Inr (Refused e)
        | Accepted (src, dst) \<Rightarrow> Inr (if map_of (d_sessions d1) (wq_session_id q) = None
            then Refused ''transfer session is unavailable''
            else Accepted \<lparr>ax_reservation = r, ax_plan = p, ax_leases = ls, ax_ranges = ranges, ax_src_buffer = src,
              ax_dst_buffer = dst\<rparr>))) = Inr (Accepted x)"
    using assms
    by (auto simp: worker_authorization_context_def dest!: lease_admission_unchanged
        split: prod.splits option.splits if_splits sum.split_asm response.split_asm)
  then obtain rs src dst where rs: "worker_authorized_ranges str_of q p ls d1 = Inr (Accepted rs)"
    and b: "worker_authorization_buffers q lease peer d1 = Accepted (src, dst)"
    and x: "ax_leases x = ls" "ax_plan x = p" "ax_ranges x = rs" "ax_src_buffer x = src" "ax_dst_buffer x = dst"
    by (cases "worker_authorized_ranges str_of q p ls d1") (auto split: response.splits if_splits)
  have "lease_active d lease" using r by (simp add: lease_active_def)
  note related = related_accepted [OF ls this]
  show "d1 = d" "\<forall>l \<in> set (ax_leases x). lease_active d l" using related x by simp_all
  show "map_of (d_plans d) (wq_transfer_id q) = Some (ax_plan x)" using p x by simp
  show "relay_ranges_from_plan str_of (ax_plan x) (map lt_relay_gpu (ax_leases x)) (wq_direction q) = Inr (ax_ranges x)"
    "range_total (ax_ranges x) \<le> reserved_bytes d (ax_leases x)"
    using ranges_accepted [OF rs] x related(1) by simp_all
  show "map_of (d_buffers d) (wq_src_buffer_id q) = Some (ax_src_buffer x)"
    "map_of (d_buffers d) (wq_dst_buffer_id q) = Some (ax_dst_buffer x)"
    using buffers_accepted [OF b] x related(1) by simp_all
qed

text \<open>Issuing: the ticket of the execution is the transfer's current one and ends with the first lease.\<close>

lemma worker_ticket:
  assumes "execution_ticket_for_worker str_of a ls t now d = Inr (d', k)"
  shows "now < et_expires_at k" and "et_lease_ids k = map lt_lease_id ls" and "ls \<noteq> []"
    and "\<And>l. l \<in> set ls \<Longrightarrow> lt_expires_at l = 0 \<or> now < lt_expires_at l \<and> et_expires_at k \<le> lt_expires_at l"
proof -
  let ?f = "\<lambda>l. if lt_expires_at l = 0 then now + 30 else lt_expires_at l"
  obtain decision where ticket: "ticket_for_plan str_of t decision (br_buffer_id (wa_src_buffer a)) (br_buffer_id (wa_dst_buffer a))
      now (Some (Min (set (map ?f ls)))) (map lt_lease_id ls) d = Inr (d', k)" and ls: "ls \<noteq> []"
    and later: "now < Min (set (map ?f ls))"
    using assms by (auto simp: execution_ticket_for_worker_def Let_def result_simps not_le split: option.splits)
  note k = plan_ticket [OF ticket]
  have expires: "et_expires_at k = Min (set (map ?f ls))" using k(5) later by simp
  show "now < et_expires_at k" "et_lease_ids k = map lt_lease_id ls" "ls \<noteq> []"
    using expires later k(2) ls by simp_all
  show "lt_expires_at l = 0 \<or> now < lt_expires_at l \<and> et_expires_at k \<le> lt_expires_at l" if "l \<in> set ls" for l
  proof -
    have "Min (set (map ?f ls)) \<le> ?f l" using that by (intro Min_le) auto
    with later expires show ?thesis by auto
  qed
qed

lemma staging_registered:
  "register_worker_staging str_of ls t direction p now d = (d', Inr rs) \<Longrightarrow>
   map fst rs = map lt_lease_id ls \<and> (\<exists>s. d' = d\<lparr>d_staging := s\<rparr>) \<and>
   (\<forall>i. map_of (d_staging d') i = None \<longrightarrow> map_of (d_staging d) i = None \<and> i \<notin> lt_lease_id ` set ls)"
proof (induction str_of ls t direction p "now" d arbitrary: d' rs rule: register_worker_staging.induct)
  case (1 str_of t direction p "now" d)
  then show ?case by (auto intro: exI [of _ "d_staging d"])
next
  case (2 str_of l ls t direction p "now" d)
  obtain ranges rs' where ranges: "relay_ranges_from_plan str_of p [lt_relay_gpu l] direction = Inr ranges"
    and rest: "register_worker_staging str_of ls t direction p now
        (d\<lparr>d_staging := AList.update (lt_lease_id l) (staging_record l t direction ranges now) (d_staging d)\<rparr>) = (d', Inr rs')"
    and rs: "map fst rs = lt_lease_id l # map fst rs'"
    using 2(2) by (auto simp: Let_def result_simps split: sum.split_asm prod.split_asm)
  note IH = 2(1) [OF ranges refl rest]
  from IH obtain s where "d' = d\<lparr>d_staging := s\<rparr>" by auto
  moreover have "map_of (d_staging d') i = None \<longrightarrow> map_of (d_staging d) i = None \<and> i \<notin> lt_lease_id ` set (l # ls)" for i
    using IH [THEN conjunct2, THEN conjunct2, THEN spec, of i]
    by (auto split: if_splits)
  ultimately show ?case using IH rs by auto
qed

lemma audited: "\<exists>a. fold (audit_authorized q status) ls d = d\<lparr>d_audit := a\<rparr>"
proof (induction ls arbitrary: d)
  case Nil
  show ?case by (rule exI [of _ "d_audit d"]) simp
next
  case (Cons l ls)
  obtain a where "audit_authorized q status l d = d\<lparr>d_audit := a\<rparr>"
    by (cases "map_of (d_reservations d) (lt_lease_id l)")
      (auto simp: audit_authorized_def append_audit_def intro: that [of "d_audit d"])
  with Cons [of "d\<lparr>d_audit := a\<rparr>"] show ?case by auto
qed

lemma issued:
  assumes "issue_worker_execution str_of q status x now d = (d', Inr w)"
  shows "now < et_expires_at (wx_ticket w)" and "et_lease_ids (wx_ticket w) = map lt_lease_id (ax_leases x)"
    and "\<And>l. l \<in> set (ax_leases x) \<Longrightarrow>
      lt_expires_at l = 0 \<or> now < lt_expires_at l \<and> et_expires_at (wx_ticket w) \<le> lt_expires_at l"
    and "current_execution_ticket (wq_transfer_id q) d' = Inr (wx_ticket w)"
    and "d_reservations d' = d_reservations d" and "d_statuses d' = d_statuses d" and "d_plans d' = d_plans d"
    and "wx_leases w = ax_leases x" and "wx_ranges w = ax_ranges x"
    and "br_job_id (ax_src_buffer x) = wq_job_id q" and "br_job_id (ax_dst_buffer x) = wq_job_id q"
    and "map fst (wx_staging w) = map lt_lease_id (ax_leases x)"
    and "\<And>l. l \<in> set (ax_leases x) \<Longrightarrow> map_of (d_staging d') (lt_lease_id l) \<noteq> None"
proof -
  let ?t = "wq_transfer_id q"
  let ?a = "\<lparr>wa_transfer_id = ?t, wa_lease_id = wq_lease_id q, wa_session_id = wq_session_id q,
    wa_job_id = wq_job_id q, wa_src_buffer = ax_src_buffer x, wa_dst_buffer = ax_dst_buffer x,
    wa_direction = wq_direction q, wa_ranges = ax_ranges x, wa_relay_gpu = Some (rv_relay_gpu (ax_reservation x)),
    wa_plan = ax_plan x\<rparr>"
  obtain a d1 k d2 staging where a: "mk_WorkerTransferAuthorization ?a = Inr a"
    and k: "execution_ticket_for_worker str_of a (ax_leases x) ?t now d = Inr (d1, k)"
    and staged: "register_worker_staging str_of (ax_leases x) ?t (wq_direction q) (ax_plan x) now (file_ticket ?t k d1) =
      (d2, Inr staging)"
    and d': "d' = fold (audit_authorized q status) (ax_leases x) d2"
    and w: "wx_ticket w = k" "wx_leases w = ax_leases x" "wx_ranges w = ax_ranges x" "wx_staging w = staging"
    using assms by (auto simp: issue_worker_execution_def Let_def result_simps split: sum.split_asm prod.split_asm)
  obtain au where au: "d' = d2\<lparr>d_audit := au\<rparr>" using audited d' by metis
  note st = staging_registered [OF staged]
  then obtain s where d2: "d2 = (file_ticket ?t k d1)\<lparr>d_staging := s\<rparr>" by blast
  have d1: "d1 = mark_block_runtime_ticket ?t k now d" by (rule worker_ticket_state [OF k])
  note ticket = worker_ticket [OF k]
  show "now < et_expires_at (wx_ticket w)" "et_lease_ids (wx_ticket w) = map lt_lease_id (ax_leases x)"
    using ticket(1,2) w by simp_all
  show "lt_expires_at l = 0 \<or> now < lt_expires_at l \<and> et_expires_at (wx_ticket w) \<le> lt_expires_at l"
    if "l \<in> set (ax_leases x)" for l using ticket(4) [OF that] w by simp
  show "current_execution_ticket ?t d' = Inr (wx_ticket w)"
    by (simp add: current_execution_ticket_def au d2 file_ticket_def w)
  have "ticketed d d1" by (simp add: d1)
  then show "d_reservations d' = d_reservations d" "d_statuses d' = d_statuses d" "d_plans d' = d_plans d"
    by (auto simp: au d2 file_ticket_def ticketed_def)
  show "wx_leases w = ax_leases x" "wx_ranges w = ax_ranges x" by (rule w)+
  show "br_job_id (ax_src_buffer x) = wq_job_id q" "br_job_id (ax_dst_buffer x) = wq_job_id q"
    using a by (auto simp: mk_WorkerTransferAuthorization_def result_simps)
  show "map fst (wx_staging w) = map lt_lease_id (ax_leases x)" using st w by simp
  show "map_of (d_staging d') (lt_lease_id l) \<noteq> None" if "l \<in> set (ax_leases x)" for l
    using st that by (auto simp: au)
qed

text \<open>
  C4: an authorized worker is covered.  Its transfer is known, has not ended and belongs to the session
  and job of the request; the buffers belong to that job; the ticket it is given becomes the
  transfer's current one, names exactly the leases granted, is current and expires no later than any
  of them; every such lease is reserved and has a staging record; and the bytes it may copy, which the
  plan assigns to the relays of those leases, do not exceed what is reserved for them.
\<close>

theorem authorized_worker_is_covered:
  assumes "authorize_worker_transfer str_of q peer now d = (d', Inr (Authorized w))"
  shows "(\<exists>status. map_of (d_statuses d') (wq_transfer_id q) = Some status \<and> \<not> terminal (ts_state status) \<and>
      ts_session_id status = Some (wq_session_id q) \<and> ts_job_id status = wq_job_id q) \<and>
    br_job_id (wx_src_buffer w) = wq_job_id q \<and> br_job_id (wx_dst_buffer w) = wq_job_id q \<and>
    current_execution_ticket (wq_transfer_id q) d' = Inr (wx_ticket w) \<and> now < et_expires_at (wx_ticket w) \<and>
    et_lease_ids (wx_ticket w) = map lt_lease_id (wx_leases w) \<and>
    (\<forall>l \<in> set (wx_leases w).
       (lt_expires_at l = 0 \<or> now < lt_expires_at l \<and> et_expires_at (wx_ticket w) \<le> lt_expires_at l) \<and>
       map_of (d_reservations d') (lt_lease_id l) \<noteq> None \<and> map_of (d_staging d') (lt_lease_id l) \<noteq> None) \<and>
    (\<exists>p. map_of (d_plans d') (wq_transfer_id q) = Some p \<and>
       relay_ranges_from_plan str_of p (map lt_relay_gpu (wx_leases w)) (wq_direction q) = Inr (wx_ranges w)) \<and>
    range_total (wx_ranges w) \<le> reserved_bytes d' (wx_leases w)"
proof -
  let ?d = "fst (reap_stale_sessions now d)"
  obtain status lease d2 x where claim: "check_authorization_claim q peer ?d = Inr (status, lease)"
    and ready: "worker_authorization_context str_of q lease peer now ?d = (d2, Inr (Accepted x))"
    and execution: "issue_worker_execution str_of q status x now d2 = (d', Inr w)"
    using assms
    by (auto simp: authorize_worker_transfer_def Let_def result_simps apsnd_def map_prod_def
        split: sum.split_asm prod.split_asm if_splits response.split_asm)
  note ctx = context_accepted [OF ready] and ex = issued [OF execution]
  have d2: "d2 = ?d" by (rule ctx(1))
  have status: "map_of (d_statuses ?d) (wq_transfer_id q) = Some status" "\<not> terminal (ts_state status)"
    "ts_session_id status = Some (wq_session_id q)" "ts_job_id status = wq_job_id q"
    using claim by (auto simp: check_authorization_claim_def result_simps split: option.splits)
  have buffers: "wx_src_buffer w = ax_src_buffer x" "wx_dst_buffer w = ax_dst_buffer x"
    using execution by (auto simp: issue_worker_execution_def Let_def split: sum.split_asm prod.split_asm)
  have held: "reserved_bytes d' ls = reserved_bytes ?d ls" for ls by (simp add: reserved_bytes_def ex(5) d2)
  show ?thesis
    using status ctx(2-5) ex d2 buffers held by (auto simp: lease_active_def)
qed

definition sample_request :: WorkerTransferAuthorizationRequest where
  "sample_request = \<lparr>wq_transfer_id = ''t1'', wq_lease_id = ''lease-0'', wq_token = ''lease-0'', wq_session_id = ''s1'',
     wq_job_id = ''job'', wq_src_buffer_id = ''b1'', wq_dst_buffer_id = ''b2'', wq_direction = ''h2d'', wq_ranges = [],
     wq_relay_gpu = Some 1\<rparr>"

definition sample_lease :: LeaseToken where
  "sample_lease = \<lparr>lt_lease_id = ''lease-0'', lt_session_id = ''s1'', lt_relay_gpu = 1, lt_token = ''lease-0'',
     lt_buffer_ids = [''b1'', ''b2''], lt_job_id = Some ''job'', lt_issued_at = 5, lt_expires_at = 35\<rparr>"

definition sample_context :: AuthorizationContext where
  "sample_context = \<lparr>ax_reservation = \<lparr>rv_reservation_id = ''lease-0'', rv_session_id = ''s1'', rv_relay_gpu = 1,
       rv_chunks = 2, rv_bytes = 12, rv_direction = ''h2d''\<rparr>,
     ax_plan = sd_plan sample_run_decision, ax_leases = [sample_lease],
     ax_ranges = [\<lparr>src_offset = 0, dst_offset = 0, bytes = 12\<rparr>],
     ax_src_buffer = sample_buffer ''b1'', ax_dst_buffer = sample_buffer ''b2''\<rparr>"

theorem authorized_worker_is_covered_witness:
  "\<exists>d' w. authorize_worker_transfer no_text sample_request (Some sample_peer) 22 sample_issued = (d', Inr (Authorized w)) \<and>
     et_lease_ids (wx_ticket w) = map lt_lease_id (wx_leases w)"
proof -
  have run: "fst (reap_stale_sessions 22 sample_issued) = sample_issued"
    "check_authorization_claim sample_request (Some sample_peer) sample_issued = Inr (sample_filed, sample_lease)"
    "\<not> expired_at 22 sample_lease" "map_of (d_reservations sample_issued) ''lease-0'' \<noteq> None"
    "worker_authorization_context no_text sample_request sample_lease (Some sample_peer) 22 sample_issued =
      (sample_issued, Inr (Accepted sample_context))"
    by code_simp+
  have "case authorization_cleanup_payload no_text ''t1'' ''job'' ''s1'' ''lease-0'' sample_issued of Inr x \<Rightarrow> True | Inl e \<Rightarrow> False"
    "case snd (issue_worker_execution no_text sample_request sample_filed sample_context 22 sample_issued) of
      Inr x \<Rightarrow> True | Inl e \<Rightarrow> False"
    by code_simp+
  then obtain payload d' w
    where payload: "authorization_cleanup_payload no_text ''t1'' ''job'' ''s1'' ''lease-0'' sample_issued = Inr payload"
    and "issue_worker_execution no_text sample_request sample_filed sample_context 22 sample_issued = (d', Inr w)"
    by (auto split: sum.splits) (metis prod.collapse)
  with run payload have "authorize_worker_transfer no_text sample_request (Some sample_peer) 22 sample_issued = (d', Inr (Authorized w))"
    by (simp add: authorize_worker_transfer_def sample_request_def sample_lease_def)
  with authorized_worker_is_covered [OF this] show ?thesis by blast
qed

end
