(* ===== verification/Daemon_Wait.thy ===== *)
theory Daemon_Wait
  imports Daemon_Workers
begin

text \<open>
  Waiting for a receipt (\<open>wait_transfer_receipt\<close> in \<open>turbobus/daemon/server.py\<close>): a loop that takes the
  lock, looks at the receipt and sleeps.  What other requests do meanwhile is the argument \<open>view\<close>, the
  state found at each look; \<open>clock\<close> is the time read there.
\<close>

definition poll_receipt :: "string \<Rightarrow> PeerIdentity option \<Rightarrow> Daemon \<Rightarrow> TransferStatus response" where
  "poll_receipt i peer d =
     (case rbind (receipt_for_intent i d) (\<lambda>t.
            case known_status t d of
              None \<Rightarrow> Inl (ValueError ''transfer status is unavailable'')
            | Some s \<Rightarrow> rbind (validate_peer_owns_receipt_transfer t (ts_job_id s) peer d) (\<lambda>_. Inr s)) of
        Inl e \<Rightarrow> Refused (error_text e)
      | Inr s \<Rightarrow> Accepted s)"

text \<open>The loop; without a deadline it need not end, which is \<open>None\<close>.\<close>

partial_function (option) wait_transfer_receipt ::
  "(nat \<Rightarrow> Daemon) \<Rightarrow> (nat \<Rightarrow> rat) \<Rightarrow> string \<Rightarrow> PeerIdentity option \<Rightarrow> rat option \<Rightarrow> nat \<Rightarrow> TransferStatus response option" where
  "wait_transfer_receipt view clock i peer deadline n =
     (case poll_receipt i peer (view n) of
        Refused e \<Rightarrow> Some (Refused e)
      | Accepted s \<Rightarrow>
          if terminal (ts_state s) \<or> (case deadline of None \<Rightarrow> False | Some x \<Rightarrow> x \<le> clock n)
          then Some (Accepted s)
          else wait_transfer_receipt view clock i peer deadline (Suc n))"

definition deadline_after :: "rat \<Rightarrow> rat option \<Rightarrow> rat option" where
  "deadline_after start timeout = map_option (\<lambda>t. start + max 0 t) timeout"

text \<open>\<open>time.sleep(min(0.01, max(0.0, deadline - time.time())))\<close> sleeps at least that long.\<close>

definition pause :: "rat \<Rightarrow> rat \<Rightarrow> rat" where
  "pause deadline now = min (1 / 100) (max 0 (deadline - now))"

section \<open>When it answers\<close>

definition answers :: "TransferStatus response \<Rightarrow> rat option \<Rightarrow> rat \<Rightarrow> bool" where
  "answers r deadline now = (case r of Refused e \<Rightarrow> True
     | Accepted s \<Rightarrow> terminal (ts_state s) \<or> (case deadline of None \<Rightarrow> False | Some x \<Rightarrow> x \<le> now))"

lemma wait_step:
  "wait_transfer_receipt view clock i peer deadline n =
     (if answers (poll_receipt i peer (view n)) deadline (clock n) then Some (poll_receipt i peer (view n))
      else wait_transfer_receipt view clock i peer deadline (Suc n))"
  by (subst wait_transfer_receipt.simps) (auto simp: answers_def split: response.split)

lemma wait_first_answer:
  assumes "answers (poll_receipt i peer (view (n + k))) deadline (clock (n + k))"
    and "\<And>m. m < k \<Longrightarrow> \<not> answers (poll_receipt i peer (view (n + m))) deadline (clock (n + m))"
  shows "wait_transfer_receipt view clock i peer deadline n = Some (poll_receipt i peer (view (n + k)))"
  using assms
proof (induction k arbitrary: n)
  case 0
  then show ?case by (simp add: wait_step)
next
  case (Suc k)
  have "wait_transfer_receipt view clock i peer deadline (Suc n) = Some (poll_receipt i peer (view (Suc n + k)))"
    using Suc.prems(2) [of "Suc _"] Suc.prems(1) by (intro Suc.IH) auto
  with Suc.prems(2) [of 0] show ?case by (simp add: wait_step [of _ _ _ _ _ n])
qed

lemma clock_reaches:
  assumes "\<And>n. clock n + pause deadline (clock n) \<le> clock (Suc n)"
  shows "min deadline (clock 0 + of_nat n / 100) \<le> clock n"
proof (induction n)
  case (Suc n)
  have step: "min deadline (x + 1 / 100) \<le> c + pause deadline c" if "min deadline x \<le> c" for x c :: rat
    using that by (simp add: pause_def min_def max_def split: if_splits)
  from step [OF Suc] have "min deadline (clock 0 + of_nat (Suc n) / 100) \<le> clock n + pause deadline (clock n)"
    by (simp add: add_divide_distrib add.assoc add.commute)
  also have "... \<le> clock (Suc n)" by (rule assms)
  finally show ?case .
qed simp

text \<open>
  C37: waiting with a timeout ends.  If sleeping takes at least as long as asked, then whatever the
  other requests do, the loop answers after at most 100 looks per second of the timeout and one more,
  with what its last look found: a refusal, a transfer that has ended, or one that has not at the
  deadline.  At every earlier look the transfer had not ended and the deadline was ahead.
\<close>

theorem waiting_ends_by_the_deadline:
  assumes "deadline_after start (Some timeout) = Some deadline" and "start \<le> clock 0"
    and "\<And>n. clock n + pause deadline (clock n) \<le> clock (Suc n)"
  shows "\<exists>n. wait_transfer_receipt view clock i peer (deadline_after start (Some timeout)) 0 =
      Some (poll_receipt i peer (view n)) \<and>
    of_nat n \<le> 100 * max 0 timeout + 1 \<and>
    answers (poll_receipt i peer (view n)) (Some deadline) (clock n) \<and>
    (\<forall>m<n. \<exists>s. poll_receipt i peer (view m) = Accepted s \<and> \<not> terminal (ts_state s) \<and> clock m < deadline)"
proof -
  let ?answers = "\<lambda>n. answers (poll_receipt i peer (view n)) (Some deadline) (clock n)"
  have deadline: "deadline = start + max 0 timeout" using assms(1) by (simp add: deadline_after_def)
  define k where "k = nat \<lceil>100 * max 0 timeout\<rceil>"
  have k: "100 * max 0 timeout \<le> of_nat k" "of_nat k \<le> 100 * max 0 timeout + 1"
    unfolding k_def by (simp_all add: le_of_int_ceiling of_int_ceiling_le_add_one)
  have "deadline \<le> clock 0 + of_nat k / 100" using k(1) assms(2) by (simp add: deadline field_simps)
  with clock_reaches [of clock deadline k, OF assms(3)] have "deadline \<le> clock k" by (simp add: min_def split: if_splits)
  then have last: "?answers k" by (auto simp: answers_def split: response.split)
  define n where "n = (LEAST n. ?answers n)"
  have n: "?answers n" "n \<le> k" unfolding n_def using last by (auto intro: LeastI Least_le)
  have early: "\<not> ?answers m" if "m < n" for m using that unfolding n_def by (rule not_less_Least)
  have "wait_transfer_receipt view clock i peer (Some deadline) 0 = Some (poll_receipt i peer (view n))"
    using wait_first_answer [of i peer view 0 n "Some deadline" clock] n(1) early by simp
  moreover have "of_nat n \<le> 100 * max 0 timeout + 1" using n(2) k(2) by (meson of_nat_mono order_trans)
  moreover have "\<exists>s. poll_receipt i peer (view m) = Accepted s \<and> \<not> terminal (ts_state s) \<and> clock m < deadline"
    if "m < n" for m using early [OF that] by (auto simp: answers_def not_le split: response.splits)
  ultimately show ?thesis using n(1) assms(1) by auto
qed

theorem waiting_ends_by_the_deadline_witness:
  "\<exists>s. wait_transfer_receipt (\<lambda>n. sample_issued) (\<lambda>n. of_nat n / 100) ''i'' (Some sample_peer)
     (deadline_after 0 (Some (1 / 50))) 0 = Some (Accepted s)"
proof -
  have found: "poll_receipt ''i'' (Some sample_peer) sample_issued = Accepted sample_filed" by code_simp
  have clock: "of_nat n / 100 + pause (1 / 50) (of_nat n / 100) \<le> of_nat (Suc n) / 100" for n
    by (simp add: pause_def field_simps min_def)
  from waiting_ends_by_the_deadline [of 0 "1 / 50" "1 / 50" "\<lambda>n. of_nat n / 100" "\<lambda>n. sample_issued" "''i''"
      "Some sample_peer", OF _ _ clock]
  show ?thesis by (auto simp: found deadline_after_def max_def)
qed

end
