(* ===== verification/Daemon_Buffers.thy ===== *)
theory Daemon_Buffers
  imports Daemon_Outcomes
begin

text \<open>What the cleanup of a registered buffer does: all or nothing, and to that buffer only.\<close>

section \<open>The refresh keeps jobs and buffers\<close>

lemma tables_same:
  "d_jobs e = d_jobs d \<Longrightarrow> d_buffers e = d_buffers d \<Longrightarrow> d_sessions e = d_sessions d \<Longrightarrow> tables e = tables d"
  by (simp add: tables_def)

lemma tables_touch [simp]: "tables (touch_session i now d) = tables d"
  by (simp add: tables_def touch_session_def)

lemma tables_commit_leases [simp]: "tables (fst (commit_scheduler_leases token i ls t bs d)) = tables d"
  unfolding commit_scheduler_leases_def fst_conv by (rule fold_same) simp

lemma tables_commit_delayed [simp]: "tables (commit_delayed_promotion token now p d) = tables d"
proof -
  obtain d2 e where "core d2 = core d" and e: "core e = core (fst (commit_scheduler_leases token (pm_session_id p)
      (pm_leases p) (Some (pm_transfer_id p)) (pm_buffer_ids p) d2))"
    and "commit_delayed_promotion token now p d = touch_session (pm_session_id p) now e"
    by (rule commit_delayed_eq)
  then show ?thesis using tables_core [OF e] tables_core [of d2 d] by simp
qed

lemma tables_promote [simp]: "tables (promote_delayed token now p d) = tables d"
  by (auto simp: promote_delayed_def Let_def record_delayed_promotion_failure_def record_delayed_promotion_check_def
      intro: tables_same split: option.split)

lemma tables_refresh [simp]: "tables (fst (refresh_admission_state token now ps d)) = tables d"
proof -
  have "tables (fold (promote_delayed token now) ps e) = tables e" for e by (rule fold_same) simp
  then show ?thesis by (simp add: refresh_admission_state_def Let_def case_prod_beta)
qed

section \<open>The buffer's cleanup\<close>

lemma cleanup_free_buffer:
  assumes "map_of (d_buffers d) (cr_target_id c) = Some b" and free: "\<not> buffer_protected (cr_target_id c) d"
    and owned: "validate_peer_owns_buffer (cr_target_id c) peer d = Inr ()"
    and idle: "active_buffer_lease_ids (cr_target_id c) (archive_cleaned_buffer c b peer now d) = []"
  shows "cleanup_buffer_target token ps c peer now d =
    (let d1 = archive_cleaned_buffer c b peer now d;
         (d3, r) = remove_buffer_cleanup_state c (transfer_ids_for_buffer (cr_target_id c) d1) now d1
     in finalize_cleanup token ps c (merge_removed empty_removed r) now
          (record_cleanup_retention (cr_target_kind c) (cr_target_id c)
            (merge_retention_evidence (Some (removed_buffer_evidence (cr_target_id c) (cr_reason c) now d3))
              (cr_retention_evidence c)) d3))"
  unfolding cleanup_buffer_target_def Let_def case_prod_beta assms(1) option.case
  by ((simp only: option.distinct simp_thms if_True if_False free idle), (simp only: release_all.simps fst_conv snd_conv),
      (simp only: guarded_def owned), (simp only: sum.case))

lemma core_remove_buffer:
  "core (fst (remove_buffer_cleanup_state c ts now d)) = core (d\<lparr>d_buffers := AList.delete (cr_target_id c) (d_buffers d)\<rparr>)"
  by (simp add: remove_buffer_cleanup_state_def Let_def case_prod_beta core_cancel)

text \<open>
  C38: the cleanup of a registered buffer is all or nothing.  It is refused, changing nothing, if the peer
  does not own the buffer or a lease or ticket still uses it; otherwise that buffer and no other is
  removed, every job stays, no reservation is released by it and the answer counts the one buffer.
\<close>

theorem buffer_cleanup_is_exact:
  assumes "map_of (d_buffers d) (cr_target_id c) = Some b"
  shows "case cleanup_buffer_target token ps c peer now d of
      (d', Refused e) \<Rightarrow> d' = d \<and>
        (buffer_protected (cr_target_id c) d \<or> (\<exists>x. validate_peer_owns_buffer (cr_target_id c) peer d = Inl x))
    | (d', Accepted r) \<Rightarrow> \<not> buffer_protected (cr_target_id c) d \<and>
        validate_peer_owns_buffer (cr_target_id c) peer d = Inr () \<and>
        d_buffers d' = AList.delete (cr_target_id c) (d_buffers d) \<and> d_jobs d' = d_jobs d \<and>
        rm_buffers r = 1 \<and> rm_reservations r = 0"
proof (cases "buffer_protected (cr_target_id c) d \<or> validate_peer_owns_buffer (cr_target_id c) peer d \<noteq> Inr ()")
  case True
  then show ?thesis
    using assms by (cases "validate_peer_owns_buffer (cr_target_id c) peer d")
      (auto simp: cleanup_buffer_target_def guarded_def Let_def)
next
  case False
  let ?i = "cr_target_id c"
  let ?d1 = "archive_cleaned_buffer c b peer now d"
  have frame: "core ?d1 = core d" by simp
  have "active_buffer_lease_ids ?i d = []" using False assms by (simp add: buffer_protected_def)
  then have idle: "active_buffer_lease_ids ?i ?d1 = []"
    using coreD(1,2) [OF frame] by (simp add: active_buffer_lease_ids_def)
  define ts where "ts = transfer_ids_for_buffer ?i ?d1"
  define d3 where "d3 = fst (remove_buffer_cleanup_state c ts now ?d1)"
  have d3: "tables d3 = tables (?d1\<lparr>d_buffers := AList.delete ?i (d_buffers ?d1)\<rparr>)"
    unfolding d3_def by (rule tables_core [OF core_remove_buffer])
  have buffers: "d_buffers ?d1 = d_buffers d" "d_jobs ?d1 = d_jobs d" using coreD(5,7) [OF frame] by simp_all
  define m where "m = merge_retention_evidence (Some (removed_buffer_evidence ?i (cr_reason c) now d3)) (cr_retention_evidence c)"
  have owned: "validate_peer_owns_buffer ?i peer d = Inr ()" and free: "\<not> buffer_protected ?i d" using False by simp_all
  have result: "cleanup_buffer_target token ps c peer now d =
      finalize_cleanup token ps c (merge_removed empty_removed (snd (remove_buffer_cleanup_state c ts now ?d1))) now
        (record_cleanup_retention (cr_target_kind c) ?i m d3)"
    unfolding cleanup_free_buffer [OF assms free owned idle] Let_def case_prod_beta ts_def d3_def m_def ..
  have kept: "tables (record_cleanup_retention (cr_target_kind c) ?i m d3) = tables d3"
    by (rule tables_core) (rule core_retention)
  have finalized: "tables (fst (finalize_cleanup token ps c r now e)) = tables e" for r e
    unfolding finalize_cleanup_def fst_conv tables_refresh by (rule tables_same) simp_all
  have "tables (fst (cleanup_buffer_target token ps c peer now d)) = tables d3"
    unfolding result finalized by (rule kept)
  with d3 buffers have "d_buffers (fst (cleanup_buffer_target token ps c peer now d)) = AList.delete ?i (d_buffers d)"
    "d_jobs (fst (cleanup_buffer_target token ps c peer now d)) = d_jobs d"
    by (simp_all add: tables_def)
  moreover have "snd (cleanup_buffer_target token ps c peer now d) =
      Accepted (merge_removed empty_removed (snd (remove_buffer_cleanup_state c ts now ?d1)))"
    by (simp add: result finalize_cleanup_def)
  ultimately show ?thesis
    using owned free assms buffers(1)
    by (simp add: case_prod_beta remove_buffer_cleanup_state_def Let_def merge_removed_def empty_removed_def)
qed

definition sample_buffer_cleanup :: CleanupRequest where
  "sample_buffer_cleanup = \<lparr>cr_target_kind = ''buffer'', cr_target_id = ''b1'', cr_reason = ''done'', cr_force = True,
     cr_owner_binding = None, cr_retention_evidence = None\<rparr>"

theorem buffer_cleanup_is_exact_witness:
  "fst (cleanup_buffer_target id [] sample_buffer_cleanup (Some sample_peer) 22 sample_issued) = sample_issued"
proof -
  have "map_of (d_buffers sample_issued) (cr_target_id sample_buffer_cleanup) = Some (sample_buffer ''b1'')"
    and "buffer_protected (cr_target_id sample_buffer_cleanup) sample_issued" by code_simp+
  with buffer_cleanup_is_exact [where token = id and ps = "[]" and peer = "Some sample_peer" and now = 22, OF this(1)] show ?thesis
    by (auto split: prod.splits response.splits)
qed

end
