(* ===== verification/Effects.thy ===== *)
theory Effects
  imports Prelude
begin

text \<open>
  Client-side code that raises, catches and cleans up while it mutates its objects: an effect takes
  the state to a result and the state after it, so what an exception leaves behind is part of the
  model.  \<open>ecatch\<close> is \<open>try/except Exception\<close>, \<open>efinally\<close> is \<open>try/finally\<close> (an exception of the
  final part replaces the earlier outcome), \<open>efor\<close> is a loop over a sequence computed beforehand.
  \<open>keeps\<close> is the rule of consequence for an invariant, with one introduction rule per combinator.
\<close>

type_synonym ('s, 'a) eff = "'s \<Rightarrow> 'a result \<times> 's"

named_theorems keeps_rules

definition eret :: "'a \<Rightarrow> ('s, 'a) eff" where
  "eret x s = (Inr x, s)"

definition eraise :: "py_error \<Rightarrow> ('s, 'a) eff" where
  "eraise e s = (Inl e, s)"

definition ebind :: "('s, 'a) eff \<Rightarrow> ('a \<Rightarrow> ('s, 'b) eff) \<Rightarrow> ('s, 'b) eff" where
  "ebind m f s = (case m s of (Inl e, t) \<Rightarrow> (Inl e, t) | (Inr x, t) \<Rightarrow> f x t)"

definition eseq :: "('s, 'a) eff \<Rightarrow> ('s, 'b) eff \<Rightarrow> ('s, 'b) eff" where
  "eseq m n = ebind m (\<lambda>_. n)"

definition ecatch :: "('s, 'a) eff \<Rightarrow> (py_error \<Rightarrow> ('s, 'a) eff) \<Rightarrow> ('s, 'a) eff" where
  "ecatch m h s = (case m s of (Inl e, t) \<Rightarrow> h e t | (Inr x, t) \<Rightarrow> (Inr x, t))"

definition efinally :: "('s, 'a) eff \<Rightarrow> ('s, unit) eff \<Rightarrow> ('s, 'a) eff" where
  "efinally m n s = (case m s of (r, t) \<Rightarrow>
     (case n t of (Inl e, u) \<Rightarrow> (Inl e, u) | (Inr _, u) \<Rightarrow> (r, u)))"

text \<open>The outcome of a block as a value: what \<open>except Exception as exc\<close> stores in a variable.\<close>

definition eoutcome :: "('s, 'a) eff \<Rightarrow> ('s, 'a result) eff" where
  "eoutcome m s = (case m s of (r, t) \<Rightarrow> (Inr r, t))"

text \<open>\<open>except Exception: pass\<close>.\<close>

definition eignore :: "('s, 'a) eff \<Rightarrow> ('s, unit) eff" where
  "eignore m s = (Inr (), snd (m s))"

definition eget :: "('s \<Rightarrow> 'a) \<Rightarrow> ('s, 'a) eff" where
  "eget f s = (Inr (f s), s)"

definition emodify :: "('s \<Rightarrow> 's) \<Rightarrow> ('s, unit) eff" where
  "emodify f s = (Inr (), f s)"

definition elift :: "'a result \<Rightarrow> ('s, 'a) eff" where
  "elift r s = (r, s)"

definition eraise_if :: "bool \<Rightarrow> py_error \<Rightarrow> ('s, unit) eff" where
  "eraise_if c e = (if c then eraise e else eret ())"

definition ewhen :: "bool \<Rightarrow> ('s, unit) eff \<Rightarrow> ('s, unit) eff" where
  "ewhen c m = (if c then m else eret ())"

primrec efor :: "('x \<Rightarrow> ('s, unit) eff) \<Rightarrow> 'x list \<Rightarrow> ('s, unit) eff" where
  "efor f [] = eret ()"
| "efor f (x # xs) = eseq (f x) (efor f xs)"

primrec emap :: "('x \<Rightarrow> ('s, 'a) eff) \<Rightarrow> 'x list \<Rightarrow> ('s, 'a list) eff" where
  "emap f [] = eret []"
| "emap f (x # xs) = ebind (f x) (\<lambda>y. ebind (emap f xs) (\<lambda>ys. eret (y # ys)))"

lemmas effect_defs = eret_def eraise_def ebind_def eseq_def ecatch_def efinally_def eoutcome_def eignore_def eget_def
  emodify_def elift_def eraise_if_def ewhen_def

lemma ebind_eret [simp]: "ebind (eret x) f = f x"
  by (rule ext) (simp add: effect_defs)

lemma ebind_eraise [simp]: "ebind (eraise e) f = eraise e"
  by (rule ext) (simp add: effect_defs)

lemma ebind_eget: "ebind (eget f) g s = g (f s) s"
  by (simp add: effect_defs)

lemma ebind_Inr_iff:
  "ebind m f s = (Inr y, u) \<longleftrightarrow> (\<exists>x t. m s = (Inr x, t) \<and> f x t = (Inr y, u))"
  by (auto simp: ebind_def split: prod.splits sum.splits)

lemma eseq_Inr_iff: "eseq m n s = (Inr y, u) \<longleftrightarrow> (\<exists>x t. m s = (Inr x, t) \<and> n t = (Inr y, u))"
  by (simp add: eseq_def ebind_Inr_iff)

lemma eret_Inr_iff: "eret x s = (Inr y, t) \<longleftrightarrow> x = y \<and> t = s"
  by (auto simp: eret_def)

lemma eraise_Inr_iff: "eraise e s = (Inr y, t) \<longleftrightarrow> False"
  by (simp add: eraise_def)

lemma eraise_if_Inr_iff: "eraise_if c e s = (Inr y, t) \<longleftrightarrow> \<not> c \<and> t = s"
  by (auto simp: effect_defs)

lemma eget_Inr_iff: "eget f s = (Inr y, t) \<longleftrightarrow> y = f s \<and> t = s"
  by (auto simp: eget_def)

lemma emodify_Inr_iff: "emodify f s = (Inr y, t) \<longleftrightarrow> t = f s"
  by (auto simp: emodify_def)

lemma elift_Inr_iff: "elift r s = (Inr y, t) \<longleftrightarrow> r = Inr y \<and> t = s"
  by (auto simp: elift_def)

lemmas effect_iffs = ebind_Inr_iff eseq_Inr_iff eret_Inr_iff eraise_Inr_iff eraise_if_Inr_iff eget_Inr_iff
  emodify_Inr_iff elift_Inr_iff

section \<open>Invariants\<close>

definition keeps :: "('s \<Rightarrow> bool) \<Rightarrow> ('s, 'a) eff \<Rightarrow> bool" where
  "keeps I m = (\<forall>s. I s \<longrightarrow> I (snd (m s)))"

lemma keepsD: "keeps I m \<Longrightarrow> I s \<Longrightarrow> m s = (r, t) \<Longrightarrow> I t"
  by (metis keeps_def snd_conv)

lemma keeps_snd: "keeps I m \<Longrightarrow> I s \<Longrightarrow> I (snd (m s))"
  by (simp add: keeps_def)

lemma keeps_eret [keeps_rules]: "keeps I (eret x)"
  by (simp add: keeps_def eret_def)

lemma keeps_eraise [keeps_rules]: "keeps I (eraise e)"
  by (simp add: keeps_def eraise_def)

lemma keeps_eget [keeps_rules]: "keeps I (eget f)"
  by (simp add: keeps_def eget_def)

lemma keeps_elift [keeps_rules]: "keeps I (elift r)"
  by (simp add: keeps_def elift_def)

lemma keeps_emodify [keeps_rules]: "(\<And>s. I s \<Longrightarrow> I (f s)) \<Longrightarrow> keeps I (emodify f)"
  by (simp add: keeps_def emodify_def)

lemma keeps_ebind [keeps_rules]: "keeps I m \<Longrightarrow> (\<And>x. keeps I (f x)) \<Longrightarrow> keeps I (ebind m f)"
  by (auto simp: keeps_def ebind_def split: prod.split sum.split)

lemma keeps_eseq [keeps_rules]: "keeps I m \<Longrightarrow> keeps I n \<Longrightarrow> keeps I (eseq m n)"
  unfolding eseq_def by (rule keeps_ebind)

lemma keeps_ecatch [keeps_rules]: "keeps I m \<Longrightarrow> (\<And>e. keeps I (h e)) \<Longrightarrow> keeps I (ecatch m h)"
  by (auto simp: keeps_def ecatch_def split: prod.split sum.split)

lemma keeps_efinally [keeps_rules]: "keeps I m \<Longrightarrow> keeps I n \<Longrightarrow> keeps I (efinally m n)"
  by (auto simp: keeps_def efinally_def split: prod.split sum.split)

lemma keeps_eoutcome [keeps_rules]: "keeps I m \<Longrightarrow> keeps I (eoutcome m)"
  by (auto simp: keeps_def eoutcome_def split: prod.split)

lemma keeps_eignore [keeps_rules]: "keeps I m \<Longrightarrow> keeps I (eignore m)"
  by (simp add: keeps_def eignore_def)

lemma keeps_eraise_if [keeps_rules]: "keeps I (eraise_if c e)"
  by (simp add: eraise_if_def keeps_rules)

lemma keeps_ewhen [keeps_rules]: "(c \<Longrightarrow> keeps I m) \<Longrightarrow> keeps I (ewhen c m)"
  by (simp add: ewhen_def keeps_rules)

lemma keeps_if [keeps_rules]: "(c \<Longrightarrow> keeps I m) \<Longrightarrow> (\<not> c \<Longrightarrow> keeps I n) \<Longrightarrow> keeps I (if c then m else n)"
  by simp

lemma keeps_option [keeps_rules]:
  "(x = None \<Longrightarrow> keeps I m) \<Longrightarrow> (\<And>y. x = Some y \<Longrightarrow> keeps I (f y)) \<Longrightarrow> keeps I (case x of None \<Rightarrow> m | Some y \<Rightarrow> f y)"
  by (cases x) auto

lemma keeps_efor [keeps_rules]: "(\<And>x. x \<in> set xs \<Longrightarrow> keeps I (f x)) \<Longrightarrow> keeps I (efor f xs)"
  by (induction xs) (auto intro!: keeps_rules)

lemma keeps_emap [keeps_rules]: "(\<And>x. x \<in> set xs \<Longrightarrow> keeps I (f x)) \<Longrightarrow> keeps I (emap f xs)"
  by (induction xs) (auto intro!: keeps_rules)

section \<open>Effects that always answer\<close>

text \<open>An effect that never raises, and what holds after one that started in a given set of states.\<close>

definition answers :: "('s, 'a) eff \<Rightarrow> bool" where
  "answers m = (\<forall>s. \<exists>x. fst (m s) = Inr x)"

named_theorems answers_rules

lemma answersD: "answers m \<Longrightarrow> \<exists>x t. m s = (Inr x, t)"
  unfolding answers_def by (metis prod.collapse)

lemma answers_eret [answers_rules]: "answers (eret x)"
  by (simp add: answers_def eret_def)

lemma answers_eget [answers_rules]: "answers (eget f)"
  by (simp add: answers_def eget_def)

lemma answers_emodify [answers_rules]: "answers (emodify f)"
  by (simp add: answers_def emodify_def)

lemma answers_eoutcome [answers_rules]: "answers (eoutcome m)"
  by (simp add: answers_def eoutcome_def split: prod.split)

lemma answers_ebind [answers_rules]: "answers m \<Longrightarrow> (\<And>x. answers (f x)) \<Longrightarrow> answers (ebind m f)"
  unfolding answers_def ebind_def by (metis (no_types, lifting) fst_conv old.sum.simps(6) prod.case_eq_if)

lemma answers_eseq [answers_rules]: "answers m \<Longrightarrow> answers n \<Longrightarrow> answers (eseq m n)"
  unfolding eseq_def by (rule answers_ebind)

lemma answers_emap [answers_rules]: "(\<And>x. answers (f x)) \<Longrightarrow> answers (emap f xs)"
  by (induction xs) (auto intro!: answers_rules)

definition leads :: "('s \<Rightarrow> bool) \<Rightarrow> ('s, 'a) eff \<Rightarrow> ('s \<Rightarrow> bool) \<Rightarrow> bool" where
  "leads I m J = (\<forall>s. I s \<longrightarrow> J (snd (m s)))"

lemma leads_keeps: "keeps I m \<Longrightarrow> leads I m I"
  by (simp add: leads_def keeps_def)

lemma leads_eret: "(\<And>s. I s \<Longrightarrow> J s) \<Longrightarrow> leads I (eret x) J"
  by (simp add: leads_def eret_def)

lemma leads_ebind:
  assumes "answers m" "leads I m K" "\<And>x. leads K (f x) J"
  shows "leads I (ebind m f) J"
  unfolding leads_def
proof (intro allI impI)
  fix s assume "I s"
  moreover obtain x t where "m s = (Inr x, t)" using answersD [OF assms(1)] by blast
  ultimately show "J (snd (ebind m f s))" using assms(2,3) by (auto simp: leads_def ebind_def)
qed

lemma leads_eseq: "answers m \<Longrightarrow> leads I m K \<Longrightarrow> leads K n J \<Longrightarrow> leads I (eseq m n) J"
  unfolding eseq_def by (rule leads_ebind)

end
