(* ===== verification/Shared_Buffers.thy ===== *)
theory Shared_Buffers
  imports Effects Transfer_Lifecycle "HOL-Library.Word"
begin

text \<open>
  The buffers an application moves data between (\<open>turbobus/client.py\<close>): pinned CPU buffers over
  POSIX shared memory and CUDA IPC device buffers.  A shared memory segment is a list of bytes; a
  name refers to a segment until it is unlinked, while the mappings of open buffers keep the segment
  itself.  Python objects are indices into \<open>mm_buffers\<close>, so two buffers opened on one segment alias
  as they do in the code.  A view is released before the call that made it returns, so closing a
  segment does not fail on exported views; the resource tracker of the interpreter is left out.
\<close>

type_synonym byte = "8 word"

record SharedPinnedCpuBuffer =
  cb_buffer_id :: string
  cb_job_id :: string
  cb_size_bytes :: int
  cb_shared_memory_name :: string
  cb_shared_memory_size_bytes :: int
  cb_shared_memory :: nat
  cb_offset_bytes :: int
  cb_owner :: bool
  cb_cuda_registered :: bool
  cb_cuda_registered_address :: "int option"
  cb_closed :: bool
  cb_unlinked :: bool

record Memory =
  mm_names :: "(string, nat) dict"
  mm_segments :: "byte list list"
  mm_buffers :: "SharedPinnedCpuBuffer list"

text \<open>The CUDA runtime, native code: where a segment is mapped, and the error of a call, if any.\<close>

record Backend =
  be_base_address :: "nat \<Rightarrow> int"
  be_register_host_memory :: "int \<Rightarrow> int \<Rightarrow> string option"
  be_unregister_host_memory :: "int \<Rightarrow> string option"

section \<open>Shared memory\<close>

definition shm_create :: "string \<Rightarrow> int \<Rightarrow> (Memory, nat) eff" where
  "shm_create name n =
     ebind (eget (\<lambda>m. map_of (mm_names m) name)) (\<lambda>known.
     eseq (eraise_if (known \<noteq> None) (OSError ''File exists'')) (
     ebind (eget (\<lambda>m. length (mm_segments m))) (\<lambda>segment.
     eseq (emodify (\<lambda>m. m\<lparr>mm_names := AList.update name segment (mm_names m),
                          mm_segments := mm_segments m @ [replicate (nat n) 0]\<rparr>)) (
     eret segment))))"

definition shm_open :: "string \<Rightarrow> (Memory, nat) eff" where
  "shm_open name =
     ebind (eget (\<lambda>m. map_of (mm_names m) name)) (\<lambda>known.
     case known of None \<Rightarrow> eraise (OSError ''No such file or directory'') | Some segment \<Rightarrow> eret segment)"

definition shm_unlink :: "string \<Rightarrow> (Memory, unit) eff" where
  "shm_unlink name =
     ebind (eget (\<lambda>m. map_of (mm_names m) name)) (\<lambda>known.
     eseq (eraise_if (known = None) (OSError ''No such file or directory'')) (
     emodify (\<lambda>m. m\<lparr>mm_names := AList.delete name (mm_names m)\<rparr>)))"

text \<open>Slices of a buffer: negative indices count from the end, large ones are clipped.\<close>

definition slice_index :: "int \<Rightarrow> int \<Rightarrow> int" where
  "slice_index n i = (if i < 0 then max 0 (i + n) else min i n)"

definition py_slice :: "'a list \<Rightarrow> int \<Rightarrow> int \<Rightarrow> 'a list" where
  "py_slice xs i j =
     (let n = int (length xs); a = nat (slice_index n i); b = nat (slice_index n j)
      in take (b - a) (drop a xs))"

definition splice :: "nat \<Rightarrow> 'a list \<Rightarrow> 'a list \<Rightarrow> 'a list" where
  "splice a data xs = take a xs @ data @ drop (a + length data) xs"

section \<open>Pinned CPU buffers\<close>

definition cpu_at :: "nat \<Rightarrow> (Memory, SharedPinnedCpuBuffer) eff" where
  "cpu_at r = eget (\<lambda>m. mm_buffers m ! r)"

definition set_cpu :: "nat \<Rightarrow> (SharedPinnedCpuBuffer \<Rightarrow> SharedPinnedCpuBuffer) \<Rightarrow> (Memory, unit) eff" where
  "set_cpu r f = emodify (\<lambda>m. m\<lparr>mm_buffers := (mm_buffers m)[r := f (mm_buffers m ! r)]\<rparr>)"

definition new_cpu :: "SharedPinnedCpuBuffer \<Rightarrow> (Memory, nat) eff" where
  "new_cpu b =
     ebind (eget (\<lambda>m. length (mm_buffers m))) (\<lambda>r.
     eseq (emodify (\<lambda>m. m\<lparr>mm_buffers := mm_buffers m @ [b]\<rparr>)) (eret r))"

text \<open>\<open>_shared_memory_name\<close>; the digits of the fresh UUID are an argument.\<close>

definition is_alnum :: "char \<Rightarrow> bool" where
  "is_alnum c = (let n = (of_char c :: nat) in
     (48 \<le> n \<and> n \<le> 57) \<or> (65 \<le> n \<and> n \<le> 90) \<or> (97 \<le> n \<and> n \<le> 122) \<or>
     n \<in> {170, 178, 179, 181, 185, 186, 188, 189, 190} \<or> (192 \<le> n \<and> n \<le> 255 \<and> n \<noteq> 215 \<and> n \<noteq> 247))"

definition strip_underscores :: "string \<Rightarrow> string" where
  "strip_underscores s =
     (let drop_left = dropWhile (\<lambda>c. c = CHR ''_'') in rev (drop_left (rev (drop_left s))))"

definition shared_memory_name :: "string \<Rightarrow> string \<Rightarrow> string" where
  "shared_memory_name uuid prefix =
     (let normalized = strip_underscores
            (map (\<lambda>c. if is_alnum c \<or> c = CHR ''_'' \<or> c = CHR ''-'' then c else CHR ''_'') prefix)
      in (if normalized = [] then ''turbobus'' else normalized) @ ''_'' @ uuid)"

definition cpu_allocate :: "string \<Rightarrow> string \<Rightarrow> string \<Rightarrow> int \<Rightarrow> string \<Rightarrow> (Memory, nat) eff" where
  "cpu_allocate uuid buffer_id job_id n prefix =
     eseq (eraise_if (n \<le> 0) (ValueError ''size_bytes must be positive'')) (
     ebind (shm_create (shared_memory_name uuid prefix) n) (\<lambda>segment.
     new_cpu \<lparr>cb_buffer_id = buffer_id, cb_job_id = job_id, cb_size_bytes = n,
              cb_shared_memory_name = shared_memory_name uuid prefix, cb_shared_memory_size_bytes = n,
              cb_shared_memory = segment, cb_offset_bytes = 0, cb_owner = True, cb_cuda_registered = False,
              cb_cuda_registered_address = None, cb_closed = False, cb_unlinked = False\<rparr>))"

definition validate_shared_memory_backing :: "int \<Rightarrow> int \<Rightarrow> int \<Rightarrow> int \<Rightarrow> unit result" where
  "validate_shared_memory_backing offset n declared actual =
     raise_if (declared < offset + n)
       (ValueError ''shared_pinned_cpu shared_memory_size_bytes is smaller than buffer span'') (
     raise_if (actual < offset + n)
       (ValueError ''shared_pinned_cpu backing is smaller than authorized buffer span'') (
     raise_if (actual < declared)
       (ValueError ''shared_pinned_cpu backing is smaller than declared shared memory size'') (
     Inr ())))"

definition cpu_open_from_registration :: "(pyval \<Rightarrow> string) \<Rightarrow> BufferRegistration \<Rightarrow> (Memory, nat) eff" where
  "cpu_open_from_registration str_of registration =
     eseq (eraise_if (br_handle_type registration \<noteq> ''shared_pinned_cpu'')
       (ValueError ''registration must be a shared_pinned_cpu buffer'')) (
     ebind (elift (vindex (br_metadata registration) ''shared_memory_name'')) (\<lambda>name_value.
     ebind (elift (index_int (br_metadata registration) ''offset_bytes'')) (\<lambda>offset.
     eseq (eraise_if (map_of (br_metadata registration) ''shared_memory_size_bytes'' = None)
       (ValueError ''shared_pinned_cpu metadata requires shared_memory_size_bytes'')) (
     ebind (elift (index_int (br_metadata registration) ''shared_memory_size_bytes'')) (\<lambda>shared_size.
     let name = py_str str_of name_value in
     ebind (shm_open name) (\<lambda>segment.
     ebind (eget (\<lambda>m. int (length (mm_segments m ! segment)))) (\<lambda>actual.
     eseq (elift (validate_shared_memory_backing offset (br_size_bytes registration) shared_size actual)) (
     new_cpu \<lparr>cb_buffer_id = br_buffer_id registration, cb_job_id = br_job_id registration,
              cb_size_bytes = br_size_bytes registration, cb_shared_memory_name = name,
              cb_shared_memory_size_bytes = shared_size, cb_shared_memory = segment,
              cb_offset_bytes = offset, cb_owner = False, cb_cuda_registered = False,
              cb_cuda_registered_address = None, cb_closed = False, cb_unlinked = False\<rparr>))))))))"

definition cpu_metadata :: "SharedPinnedCpuBuffer \<Rightarrow> mapping" where
  "cpu_metadata b =
     [(''shared_memory_name'', VStr (cb_shared_memory_name b)),
      (''offset_bytes'', VInt (cb_offset_bytes b)),
      (''shared_memory_size_bytes'', VInt (cb_shared_memory_size_bytes b))]"

definition cpu_registration :: "SharedPinnedCpuBuffer \<Rightarrow> BufferRegistration result" where
  "cpu_registration b =
     mk_BufferRegistration
       \<lparr>br_buffer_id = cb_buffer_id b, br_job_id = cb_job_id b, br_kind = ''cpu_pinned'',
        br_size_bytes = cb_size_bytes b, br_device_index = None, br_address = None, br_pinned = True,
        br_handle_type = ''shared_pinned_cpu'', br_metadata = cpu_metadata b\<rparr>"

text \<open>Where the buffer's bytes start in its segment.\<close>

definition view_start :: "SharedPinnedCpuBuffer \<Rightarrow> Memory \<Rightarrow> nat" where
  "view_start b m =
     nat (slice_index (int (length (mm_segments m ! cb_shared_memory b))) (cb_offset_bytes b))"

definition cpu_view :: "nat \<Rightarrow> (Memory, byte list) eff" where
  "cpu_view r =
     ebind (cpu_at r) (\<lambda>b.
     eseq (eraise_if (cb_closed b) (RuntimeError ''shared CPU buffer is closed'')) (
     eget (\<lambda>m. py_slice (mm_segments m ! cb_shared_memory b) (cb_offset_bytes b)
                  (cb_offset_bytes b + cb_size_bytes b))))"

definition cpu_address :: "Backend \<Rightarrow> nat \<Rightarrow> (Memory, int) eff" where
  "cpu_address backend r =
     ebind (cpu_view r) (\<lambda>view.
     eseq (eraise_if (view = []) (ValueError ''Buffer size too small'')) (
     ebind (cpu_at r) (\<lambda>b.
     eget (\<lambda>m. be_base_address backend (cb_shared_memory b) + int (view_start b m)))))"

definition cpu_write :: "nat \<Rightarrow> byte list \<Rightarrow> int \<Rightarrow> (Memory, unit) eff" where
  "cpu_write r payload offset =
     eseq (eraise_if (offset < 0) (ValueError ''offset must be non-negative'')) (
     ebind (cpu_at r) (\<lambda>b.
     eseq (eraise_if (cb_size_bytes b < offset + int (length payload))
       (ValueError ''write exceeds shared CPU buffer'')) (
     ebind (cpu_view r) (\<lambda>view.
     eseq (eraise_if (length (py_slice view offset (offset + int (length payload))) \<noteq> length payload)
       (ValueError ''memoryview assignment: lvalue and rvalue have different structures'')) (
     emodify (\<lambda>m. let s = cb_shared_memory b
       in m\<lparr>mm_segments := (mm_segments m)[s := splice (view_start b m + nat offset) payload (mm_segments m ! s)]\<rparr>))))))"

definition cpu_read :: "nat \<Rightarrow> int option \<Rightarrow> int \<Rightarrow> (Memory, byte list) eff" where
  "cpu_read r requested offset =
     eseq (eraise_if (offset < 0) (ValueError ''offset must be non-negative'')) (
     ebind (cpu_at r) (\<lambda>b.
     let n = (case requested of None \<Rightarrow> cb_size_bytes b - offset | Some k \<Rightarrow> k) in
     eseq (eraise_if (n < 0) (ValueError ''size must be non-negative'')) (
     eseq (eraise_if (cb_size_bytes b < offset + n) (ValueError ''read exceeds shared CPU buffer'')) (
     ebind (cpu_view r) (\<lambda>view. eret (py_slice view offset (offset + n)))))))"

section \<open>CUDA registration, closing and releasing\<close>

definition native :: "string option \<Rightarrow> (Memory, unit) eff" where
  "native failure = (case failure of None \<Rightarrow> eret () | Some e \<Rightarrow> eraise (RuntimeError e))"

definition register_for_cuda :: "Backend \<Rightarrow> nat \<Rightarrow> (Memory, unit) eff" where
  "register_for_cuda backend r =
     ebind (cpu_at r) (\<lambda>b.
     ewhen (\<not> cb_cuda_registered b) (
     ebind (cpu_address backend r) (\<lambda>address.
     eseq (native (be_register_host_memory backend address (cb_size_bytes b))) (
     set_cpu r (\<lambda>b. b\<lparr>cb_cuda_registered_address := Some address, cb_cuda_registered := True\<rparr>)))))"

definition unregister_from_cuda :: "Backend \<Rightarrow> nat \<Rightarrow> (Memory, unit) eff" where
  "unregister_from_cuda backend r =
     ebind (cpu_at r) (\<lambda>b.
     ewhen (cb_cuda_registered b) (
     eseq (case cb_cuda_registered_address b of
             None \<Rightarrow> eraise ConversionTypeError
           | Some address \<Rightarrow> native (be_unregister_host_memory backend address)) (
     set_cpu r (\<lambda>b. b\<lparr>cb_cuda_registered := False, cb_cuda_registered_address := None\<rparr>))))"

definition cpu_close :: "Backend \<Rightarrow> nat \<Rightarrow> (Memory, unit) eff" where
  "cpu_close backend r =
     ebind (cpu_at r) (\<lambda>b.
     ewhen (\<not> cb_closed b) (
     eseq (unregister_from_cuda backend r) (set_cpu r (\<lambda>b. b\<lparr>cb_closed := True\<rparr>))))"

definition cpu_unlink :: "nat \<Rightarrow> (Memory, unit) eff" where
  "cpu_unlink r =
     ebind (cpu_at r) (\<lambda>b.
     ewhen (\<not> cb_unlinked b) (
     eseq (shm_unlink (cb_shared_memory_name b)) (set_cpu r (\<lambda>b. b\<lparr>cb_unlinked := True\<rparr>))))"

definition cpu_release :: "Backend \<Rightarrow> nat \<Rightarrow> (Memory, unit) eff" where
  "cpu_release backend r =
     efinally (cpu_close backend r)
       (ebind (cpu_at r) (\<lambda>b. ewhen (cb_owner b) (cpu_unlink r)))"

section \<open>CUDA IPC device buffers\<close>

record CudaIpcDeviceBuffer =
  gb_buffer_id :: string
  gb_job_id :: string
  gb_device_index :: int
  gb_size_bytes :: int
  gb_cuda_ipc_handle :: "nat list"
  gb_device_offset_bytes :: int
  gb_allocation_base_ptr :: "int option"
  gb_allocation_size_bytes :: "int option"
  gb_device_ptr :: "int option"

definition mk_CudaIpcDeviceBuffer :: "CudaIpcDeviceBuffer \<Rightarrow> CudaIpcDeviceBuffer result" where
  "mk_CudaIpcDeviceBuffer b =
     raise_if (gb_size_bytes b \<le> 0) (ValueError ''size_bytes must be positive'') (
     raise_if (gb_device_offset_bytes b < 0) (ValueError ''device_offset_bytes must be non-negative'') (
     raise_if (opt_holds (\<lambda>p. p \<le> 0) (gb_allocation_base_ptr b))
       (ValueError ''allocation_base_ptr must be positive'') (
     raise_if (opt_holds (\<lambda>n. n \<le> 0) (gb_allocation_size_bytes b))
       (ValueError ''allocation_size_bytes must be positive'') (
     raise_if (opt_holds (\<lambda>n. n < gb_device_offset_bytes b + gb_size_bytes b) (gb_allocation_size_bytes b))
       (ValueError ''cuda IPC device view exceeds allocation span'') (Inr b)))))"

definition cuda_metadata :: "CudaIpcDeviceBuffer \<Rightarrow> mapping" where
  "cuda_metadata b =
     [(''cuda_ipc_handle'', VStr (tohex (gb_cuda_ipc_handle b))),
      (''device_offset_bytes'', VInt (gb_device_offset_bytes b)),
      (''allocation_base_ptr'', opt_value VInt (gb_allocation_base_ptr b)),
      (''allocation_size_bytes'', opt_value VInt (gb_allocation_size_bytes b))]"

definition cuda_registration :: "CudaIpcDeviceBuffer \<Rightarrow> BufferRegistration result" where
  "cuda_registration b =
     mk_BufferRegistration
       \<lparr>br_buffer_id = gb_buffer_id b, br_job_id = gb_job_id b, br_kind = ''gpu'',
        br_size_bytes = gb_size_bytes b, br_device_index = Some (gb_device_index b),
        br_address = gb_device_ptr b, br_pinned = False, br_handle_type = ''cuda_ipc_device'',
        br_metadata = cuda_metadata b\<rparr>"

section \<open>Slices and splices\<close>

lemma py_slice_all: "py_slice xs 0 (int (length xs)) = xs"
  by (simp add: py_slice_def slice_index_def)

lemma py_slice_nat:
  "0 \<le> i \<Longrightarrow> i \<le> j \<Longrightarrow> j \<le> int (length xs) \<Longrightarrow> py_slice xs i j = take (nat (j - i)) (drop (nat i) xs)"
  by (simp add: py_slice_def slice_index_def Let_def nat_diff_distrib)

lemma length_splice [simp]: "a + length d \<le> length xs \<Longrightarrow> length (splice a d xs) = length xs"
  by (simp add: splice_def)

lemma read_back:
  "a + length d \<le> length xs \<Longrightarrow> take (length d) (drop a (splice a d xs)) = d"
  by (simp add: splice_def)

lemma cpu_read_eq:
  assumes "mm_buffers m ! r = b" "\<not> cb_closed b" "cb_offset_bytes b = 0"
    and "int (length (mm_segments m ! cb_shared_memory b)) = cb_size_bytes b"
    and "0 \<le> offset" "offset + int k \<le> cb_size_bytes b"
  shows "cpu_read r (Some (int k)) offset m =
           (Inr (take k (drop (nat offset) (mm_segments m ! cb_shared_memory b))), m)"
  using assms by (simp add: cpu_read_def cpu_view_def cpu_at_def effect_defs py_slice_nat Let_def)

lemma cpu_read_all:
  assumes "mm_buffers m ! r = b" "\<not> cb_closed b" "cb_offset_bytes b = 0"
    and "int (length (mm_segments m ! cb_shared_memory b)) = cb_size_bytes b"
  shows "cpu_read r None 0 m = (Inr (mm_segments m ! cb_shared_memory b), m)"
proof -
  have "0 \<le> cb_size_bytes b" using assms(4) by linarith
  with assms show ?thesis
    by (simp add: cpu_read_def cpu_view_def cpu_at_def effect_defs Let_def py_slice_def slice_index_def)
qed

lemma cpu_write_eq:
  assumes "mm_buffers m ! r = b" "\<not> cb_closed b" "cb_offset_bytes b = 0"
    and "int (length (mm_segments m ! cb_shared_memory b)) = cb_size_bytes b"
  shows "cpu_write r d offset m = (Inr (), m') \<longleftrightarrow>
     0 \<le> offset \<and> offset + int (length d) \<le> cb_size_bytes b \<and>
     m' = m\<lparr>mm_segments := (mm_segments m)[cb_shared_memory b :=
            splice (nat offset) d (mm_segments m ! cb_shared_memory b)]\<rparr>"
proof -
  have "0 \<le> cb_size_bytes b" using assms(4) by linarith
  moreover have "view_start b m = 0" using assms(3) by (simp add: view_start_def slice_index_def)
  ultimately show ?thesis
    using assms
    by (auto simp: cpu_write_def cpu_view_def cpu_at_def effect_iffs py_slice_nat Let_def)
qed

section \<open>From the application to the worker\<close>

definition mapped :: "SharedPinnedCpuBuffer \<Rightarrow> Memory \<Rightarrow> nat \<Rightarrow> bool" where
  "mapped b m s =
     (s < length (mm_segments m) \<and> \<not> cb_closed b \<and> cb_offset_bytes b = 0 \<and> cb_shared_memory b = s \<and>
      cb_size_bytes b = int (length (mm_segments m ! s)))"

lemma cpu_allocate_Inr:
  assumes "cpu_allocate uuid buffer_id job_id n prefix m = (Inr r, m1)"
  shows "r = length (mm_buffers m) \<and> 0 < n \<and>
     mm_segments m1 = mm_segments m @ [replicate (nat n) 0] \<and>
     map_of (mm_names m1) (shared_memory_name uuid prefix) = Some (length (mm_segments m)) \<and>
     (\<exists>b. mm_buffers m1 = mm_buffers m @ [b] \<and> mapped b m1 (length (mm_segments m)) \<and> cb_size_bytes b = n \<and>
        cb_shared_memory_size_bytes b = n \<and> cb_shared_memory_name b = shared_memory_name uuid prefix)"
  using assms
  by (auto simp: cpu_allocate_def shm_create_def new_cpu_def effect_iffs mapped_def nth_append)

text \<open>The registration of a CPU buffer keeps its metadata.\<close>

lemma cpu_registration_Inr:
  "cpu_registration b = Inr reg \<Longrightarrow>
     br_handle_type reg = ''shared_pinned_cpu'' \<and> br_metadata reg = cpu_metadata b \<and>
     br_size_bytes reg = cb_size_bytes b \<and> br_buffer_id reg = cb_buffer_id b \<and> br_job_id reg = cb_job_id b"
  by (auto simp: cpu_registration_def mk_BufferRegistration_def normalize_buffer_handle_metadata_def
      normalize_shared_pinned_Inr result_simps Let_def lower_def lower_char_def split: if_splits)

lemma open_registered:
  assumes "cpu_registration b = Inr reg" "mapped b m s" "cb_shared_memory_size_bytes b = cb_size_bytes b"
    and "map_of (mm_names m) (cb_shared_memory_name b) = Some s"
  shows "\<exists>w m'. cpu_open_from_registration str_of reg m = (Inr (length (mm_buffers m)), m') \<and>
     m' = m\<lparr>mm_buffers := mm_buffers m @ [w]\<rparr> \<and> mapped w m s \<and> cb_size_bytes w = cb_size_bytes b \<and> \<not> cb_owner w"
  using assms cpu_registration_Inr [OF assms(1)]
  apply (simp add: cpu_open_from_registration_def effect_defs cpu_metadata_def vindex_def index_int_def py_str_def
      shm_open_def new_cpu_def validate_shared_memory_backing_def mapped_def Let_def)
  apply (rule exI, rule conjI, rule refl)
  apply simp
  done

lemma write_mapped:
  assumes "mm_buffers m ! r = b" "mapped b m s" "cpu_write r d offset m = (Inr (), m')"
  shows "0 \<le> offset \<and> nat offset + length d \<le> length (mm_segments m ! s) \<and> mm_buffers m' = mm_buffers m \<and>
     mm_names m' = mm_names m \<and> length (mm_segments m') = length (mm_segments m) \<and>
     mm_segments m' ! s = splice (nat offset) d (mm_segments m ! s) \<and>
     (\<forall>t. t \<noteq> s \<longrightarrow> mm_segments m' ! t = mm_segments m ! t)"
  using assms cpu_write_eq [of m r b d offset m'] by (auto simp: mapped_def)

lemma read_mapped:
  assumes "mm_buffers m ! r = b" "mapped b m s" "mm_segments m ! s = splice (nat offset) d seg"
    and "0 \<le> offset" "nat offset + length d \<le> length seg"
  shows "cpu_read r (Some (int (length d))) offset m = (Inr d, m)"
  using assms cpu_read_eq [of m r b offset "length d"] by (simp add: mapped_def read_back)

lemma mapped_cong:
  "mapped b m s \<Longrightarrow> length (mm_segments m') = length (mm_segments m) \<Longrightarrow>
   length (mm_segments m' ! s) = length (mm_segments m ! s) \<Longrightarrow> mapped b m' s"
  by (simp add: mapped_def)

text \<open>
  C10:  What the application writes is what the worker reads.  When a pinned CPU buffer has been
  allocated, registered with the daemon and written, opening the registration in the worker
  succeeds; the worker's buffer holds the zero-filled allocation with the payload at its offset and
  nothing else changed; and whatever the worker writes back at any offset is what the application
  reads there.
\<close>

theorem worker_shares_the_bytes:
  assumes "cpu_allocate uuid buffer_id job_id n prefix m = (Inr r, m1)"
    and "cpu_registration (mm_buffers m1 ! r) = Inr reg"
    and "cpu_write r d offset m1 = (Inr (), m2)"
  shows "\<exists>w m3. cpu_open_from_registration str_of reg m2 = (Inr w, m3) \<and>
     cpu_read w None 0 m3 = (Inr (splice (nat offset) d (replicate (nat n) 0)), m3) \<and>
     cpu_read w (Some (int (length d))) offset m3 = (Inr d, m3) \<and>
     (\<forall>d' offset' m4. cpu_write w d' offset' m3 = (Inr (), m4) \<longrightarrow>
        cpu_read r (Some (int (length d'))) offset' m4 = (Inr d', m4))"
proof -
  let ?s = "length (mm_segments m)"
  obtain b where r: "r = length (mm_buffers m)" and b: "mm_buffers m1 = mm_buffers m @ [b]" "mapped b m1 ?s"
      "cb_shared_memory_size_bytes b = cb_size_bytes b"
    and seg: "mm_segments m1 = mm_segments m @ [replicate (nat n) 0]"
    and name: "map_of (mm_names m1) (cb_shared_memory_name b) = Some ?s"
    using cpu_allocate_Inr [OF assms(1)] by force
  have at: "mm_buffers m1 ! r = b" by (simp add: b r)
  have w2: "0 \<le> offset" "nat offset + length d \<le> length (replicate (nat n) (0 :: byte))"
      "mm_buffers m2 = mm_buffers m1" "mm_names m2 = mm_names m1"
      "length (mm_segments m2) = length (mm_segments m1)"
      "mm_segments m2 ! ?s = splice (nat offset) d (replicate (nat n) 0)"
    using write_mapped [OF at b(2) assms(3)] by (simp_all add: seg)
  have mapped2: "mapped b m2 ?s" by (rule mapped_cong [OF b(2)]) (use w2 in \<open>simp_all add: seg\<close>)
  obtain w m3 where opened: "cpu_open_from_registration str_of reg m2 = (Inr (length (mm_buffers m2)), m3)"
      and m3: "m3 = m2\<lparr>mm_buffers := mm_buffers m2 @ [w]\<rparr>" and w: "mapped w m2 ?s"
    using open_registered [OF assms(2) [unfolded at] mapped2 b(3), of str_of] name w2 by metis
  let ?w = "length (mm_buffers m2)"
  have wm: "mapped w m3 ?s" and bm: "mapped b m3 ?s" using w mapped2 by (simp_all add: mapped_def m3)
  have at3: "mm_buffers m3 ! ?w = w" "mm_buffers m3 ! r = b" by (simp_all add: m3 w2 b r nth_append)
  have seg3: "mm_segments m3 ! ?s = splice (nat offset) d (replicate (nat n) 0)" by (simp add: m3 w2)
  have whole: "cpu_read ?w None 0 m3 = (Inr (splice (nat offset) d (replicate (nat n) 0)), m3)"
    using cpu_read_all [OF at3(1)] wm seg3 by (simp add: mapped_def)
  have part: "cpu_read ?w (Some (int (length d))) offset m3 = (Inr d, m3)"
    by (rule read_mapped [OF at3(1) wm seg3 w2(1,2)])
  have reply: "cpu_read r (Some (int (length d'))) offset' m4 = (Inr d', m4)"
    if "cpu_write ?w d' offset' m3 = (Inr (), m4)" for d' offset' m4
  proof -
    note w4 = write_mapped [OF at3(1) wm that]
    have "mapped b m4 ?s" by (rule mapped_cong [OF bm]) (use w4 in simp_all)
    then show ?thesis
      using read_mapped [of m4 r b ?s offset' d' "mm_segments m3 ! ?s"] w4 at3(2) by simp
  qed
  from opened whole part reply show ?thesis by blast
qed

definition sample_memory :: Memory where
  "sample_memory = \<lparr>mm_names = [], mm_segments = [], mm_buffers = []\<rparr>"

definition sample_buffer :: SharedPinnedCpuBuffer where
  "sample_buffer = \<lparr>cb_buffer_id = ''b'', cb_job_id = ''j'', cb_size_bytes = 8,
     cb_shared_memory_name = ''tb_0f'', cb_shared_memory_size_bytes = 8, cb_shared_memory = 0,
     cb_offset_bytes = 0, cb_owner = True, cb_cuda_registered = False,
     cb_cuda_registered_address = None, cb_closed = False, cb_unlinked = False\<rparr>"

definition sample_registration :: BufferRegistration where
  "sample_registration = \<lparr>br_buffer_id = ''b'', br_job_id = ''j'', br_kind = ''cpu_pinned'', br_size_bytes = 8,
     br_device_index = None, br_address = None, br_pinned = True, br_handle_type = ''shared_pinned_cpu'',
     br_metadata = cpu_metadata sample_buffer\<rparr>"

definition sample_shared :: "byte list \<Rightarrow> SharedPinnedCpuBuffer list \<Rightarrow> Memory" where
  "sample_shared content buffers =
     \<lparr>mm_names = [(''tb_0f'', 0)], mm_segments = [content], mm_buffers = buffers\<rparr>"

lemma sample_allocated:
  "cpu_allocate ''0f'' ''b'' ''j'' 8 ''tb'' sample_memory =
     (Inr 0, sample_shared [0, 0, 0, 0, 0, 0, 0, 0] [sample_buffer])"
  by code_simp

lemma sample_registered: "cpu_registration sample_buffer = Inr sample_registration"
  by code_simp

lemma sample_written:
  "cpu_write 0 [7, 8, 9] 2 (sample_shared [0, 0, 0, 0, 0, 0, 0, 0] [sample_buffer]) =
     (Inr (), sample_shared [0, 0, 7, 8, 9, 0, 0, 0] [sample_buffer])"
  by code_simp

lemma sample_opened:
  "cpu_open_from_registration (\<lambda>_. []) sample_registration (sample_shared [0, 0, 7, 8, 9, 0, 0, 0] [sample_buffer]) =
     (Inr 1, sample_shared [0, 0, 7, 8, 9, 0, 0, 0] [sample_buffer, sample_buffer\<lparr>cb_owner := False\<rparr>])"
  by code_simp

lemma sample_answered:
  "cpu_write 1 [1] 7 (sample_shared [0, 0, 7, 8, 9, 0, 0, 0] [sample_buffer, sample_buffer\<lparr>cb_owner := False\<rparr>]) =
     (Inr (), sample_shared [0, 0, 7, 8, 9, 0, 0, 1] [sample_buffer, sample_buffer\<lparr>cb_owner := False\<rparr>])"
  by code_simp

text \<open>An eight-byte buffer, three bytes written at offset two, one byte written back by the worker.\<close>

theorem worker_shares_the_bytes_witness:
  "\<exists>w m3 m4. cpu_open_from_registration (\<lambda>_. []) sample_registration
       (sample_shared [0, 0, 7, 8, 9, 0, 0, 0] [sample_buffer]) = (Inr w, m3) \<and>
     cpu_read w (Some 3) 2 m3 = (Inr [7, 8, 9], m3) \<and>
     cpu_write w [1] 7 m3 = (Inr (), m4) \<and> cpu_read 0 (Some 1) 7 m4 = (Inr [1], m4)"
proof -
  have "mm_buffers (sample_shared [0, 0, 0, 0, 0, 0, 0, 0] [sample_buffer]) ! 0 = sample_buffer"
    by (simp add: sample_shared_def)
  then show ?thesis
    using worker_shares_the_bytes [OF sample_allocated _ sample_written, of sample_registration "\<lambda>_. []"]
      sample_registered sample_opened sample_answered
    by fastforce
qed

end
