(* ===== verification/Runtime_Buffers.thy ===== *)
theory Runtime_Buffers
  imports Shared_Buffers
begin

text \<open>
  The runtime session an application holds (\<open>turbobus/runtime_session.py\<close>): opening the daemon
  session, registering buffers with it and cleaning them up, with the buffer lifecycle records of
  \<open>turbobus/runtime/lifecycle_records.py\<close>.  The state contains the objects of the process (the
  shared memory of \<^theory_text>\<open>Shared_Buffers\<close>) and, as a component of any type, the daemon at
  the other end of the client; a client call is an effect on it that may also raise.  Sets are lists
  without duplicates; the order in which Python walks a set is not specified, here it is insertion
  order.  The evidence the session appends to its entrypoint record is write-only and left out, as
  are the services a managed session starts itself.
\<close>

section \<open>State\<close>

datatype ExecutableBuffer = CpuBuffer nat | CudaBuffer nat CudaIpcDeviceBuffer

record DaemonResponse =
  rp_ok :: bool
  rp_error :: "string option"
  rp_payload :: mapping

record 'd DaemonClient =
  dc_register_session :: "int \<Rightarrow> int \<Rightarrow> bool \<Rightarrow> bool \<Rightarrow> ('d, DaemonResponse) eff"
  dc_close_session :: "string \<Rightarrow> ('d, DaemonResponse) eff"
  dc_register_job :: "string \<Rightarrow> string option \<Rightarrow> string \<Rightarrow> ('d, DaemonResponse) eff"
  dc_register_buffer :: "BufferRegistration \<Rightarrow> ('d, DaemonResponse) eff"
  dc_cleanup_buffer :: "string \<Rightarrow> string \<Rightarrow> bool \<Rightarrow> mapping option \<Rightarrow> ('d, DaemonResponse) eff"
  dc_bootstrap_profile :: "int \<Rightarrow> int list \<Rightarrow> ('d, unit) eff"

record Fingerprint =
  fp_registration :: BufferRegistration
  fp_metadata :: "(string \<times> string) list"
  fp_session_id :: string
  fp_runtime_owned :: bool

record 'd Runtime =
  rt_job_id :: string
  rt_user_id :: "string option"
  rt_max_inflight_chunks :: int
  rt_control_connection_owned :: bool
  rt_has_worker_client :: bool
  rt_profile_on_first_transfer :: bool
  rt_target_gpu :: "int option"
  rt_relay_gpus :: "int list option"
  rt_session_id :: "string option"
  rt_profile_bootstrapped :: bool
  rt_buffers :: "(string, ExecutableBuffer) dict"
  rt_registered_buffer_ids :: "string list"
  rt_fingerprints :: "(string, Fingerprint) dict"
  rt_owned_cpu_buffer_ids :: "string list"
  rt_submitted_intent_ids :: "string list"
  rt_submitted_intent_buffers :: "(string, string \<times> string) dict"
  rt_lifecycle_records :: "(string, mapping) dict"
  rt_active_intent_ids :: "string list"
  rt_closed :: bool
  rt_memory :: Memory
  rt_daemon :: 'd

definition on_memory :: "(Memory, 'a) eff \<Rightarrow> ('d Runtime, 'a) eff" where
  "on_memory m s = (case m (rt_memory s) of (r, t) \<Rightarrow> (r, s\<lparr>rt_memory := t\<rparr>))"

definition on_daemon :: "('d, 'a) eff \<Rightarrow> ('d Runtime, 'a) eff" where
  "on_daemon m s = (case m (rt_daemon s) of (r, t) \<Rightarrow> (r, s\<lparr>rt_daemon := t\<rparr>))"

text \<open>The text of an exception; those of conversion errors are abbreviated.\<close>

definition error_text :: "py_error \<Rightarrow> string" where
  "error_text e =
     (case e of ValueError t \<Rightarrow> t | TypeError t \<Rightarrow> t | KeyError k \<Rightarrow> CHR 0x27 # k @ [CHR 0x27]
      | RuntimeError t \<Rightarrow> t | OSError t \<Rightarrow> t | WorkerStagingPoolError t \<Rightarrow> t
      | WorkerDataPlaneResourceError t \<Rightarrow> t | IntLiteralError \<Rightarrow> ''invalid literal for int()''
      | ConversionTypeError \<Rightarrow> ''int() argument'')"

definition require_open :: "('d Runtime, unit) eff" where
  "require_open = ebind (eget rt_closed) (\<lambda>closed.
     eraise_if closed (RuntimeError ''TurboBus runtime session is closed''))"

definition session_id :: "('d Runtime, string) eff" where
  "session_id = ebind (eget rt_session_id) (\<lambda>sid.
     case sid of None \<Rightarrow> eraise (RuntimeError ''TurboBus runtime session is not open'') | Some i \<Rightarrow> eret i)"

definition require_ok :: "string \<Rightarrow> DaemonResponse \<Rightarrow> ('s, unit) eff" where
  "require_ok message r =
     eraise_if (\<not> rp_ok r)
       (RuntimeError (case rp_error r of None \<Rightarrow> message | Some e \<Rightarrow> if e = [] then message else e))"

definition set_add :: "string \<Rightarrow> string list \<Rightarrow> string list" where
  "set_add x xs = (if x \<in> set xs then xs else xs @ [x])"

section \<open>Opening the daemon session\<close>

definition session_answer :: "(pyval \<Rightarrow> string) \<Rightarrow> DaemonResponse \<Rightarrow> (string \<times> mapping) result" where
  "session_answer str_of r =
     rbind (vindex (rp_payload r) ''session'') (\<lambda>v.
       case v of
         VDict session \<Rightarrow> rbind (vindex session ''session_id'') (\<lambda>i. Inr (py_str str_of i, session))
       | _ \<Rightarrow> Inl (TypeError ''session payload is not subscriptable''))"

definition session_relays :: "mapping \<Rightarrow> int list result" where
  "session_relays session =
     rbind (iterate_or_empty (vget session ''relay_gpus'' (VList []))) (\<lambda>gpus. rmap py_int gpus)"

definition open_session :: "(pyval \<Rightarrow> string) \<Rightarrow> 'd DaemonClient \<Rightarrow> ('d Runtime, string) eff" where
  "open_session str_of client =
     eseq require_open (
     ebind (eget rt_session_id) (\<lambda>current.
     case current of Some i \<Rightarrow> eret i | None \<Rightarrow>
     ebind (eget rt_target_gpu) (\<lambda>target.
     case target of None \<Rightarrow> eraise (RuntimeError ''target GPU is not known; register a CUDA buffer before opening the daemon session'')
     | Some gpu \<Rightarrow>
     let forget = emodify (\<lambda>s. s\<lparr>rt_relay_gpus := None, rt_profile_bootstrapped := False\<rparr>) in
     ebind (ecatch
       (ebind (eget (\<lambda>s. s)) (\<lambda>s.
        ebind (on_daemon (dc_register_session client gpu (rt_max_inflight_chunks s)
                (rt_control_connection_owned s) (rt_has_worker_client s))) (\<lambda>response.
        eseq (require_ok ''daemon session registration failed'' response) (
        elift (session_answer str_of response)))))
       (\<lambda>e. eseq forget (eraise e))) (\<lambda>(sid, session).
     ebind (ecatch
       (ebind (elift (session_relays session)) (\<lambda>relays.
        ebind (eget (\<lambda>s. s)) (\<lambda>s.
        ebind (on_daemon (dc_register_job client (rt_job_id s) (rt_user_id s) sid)) (\<lambda>response.
        eseq (require_ok ''daemon job registration failed'' response) (
        eseq (ewhen (rt_profile_on_first_transfer s)
          (eseq (on_daemon (dc_bootstrap_profile client gpu relays))
                (emodify (\<lambda>s. s\<lparr>rt_profile_bootstrapped := True\<rparr>)))) (
        eret relays))))))
       (\<lambda>e. eseq (eignore (on_daemon (dc_close_session client sid))) (eseq forget (eraise e)))) (\<lambda>relays.
     eseq (emodify (\<lambda>s. s\<lparr>rt_relay_gpus := Some relays, rt_session_id := Some sid\<rparr>)) (
     eret sid))))))"

definition bind_target_gpu :: "int \<Rightarrow> ('d Runtime, unit) eff" where
  "bind_target_gpu device =
     eseq require_open (
     ebind (eget rt_target_gpu) (\<lambda>target.
     case target of
       None \<Rightarrow> emodify (\<lambda>s. s\<lparr>rt_target_gpu := Some device\<rparr>)
     | Some gpu \<Rightarrow> eraise_if (gpu \<noteq> device)
         (ValueError ''CUDA buffer device_index must match runtime target_gpu'')))"

section \<open>Buffers of the session\<close>

definition buffer_ids_of :: "ExecutableBuffer \<Rightarrow> Memory \<Rightarrow> string \<times> string" where
  "buffer_ids_of b m =
     (case b of CpuBuffer r \<Rightarrow> (cb_buffer_id (mm_buffers m ! r), cb_job_id (mm_buffers m ! r))
      | CudaBuffer _ g \<Rightarrow> (gb_buffer_id g, gb_job_id g))"

abbreviation buffer_id_of :: "ExecutableBuffer \<Rightarrow> Memory \<Rightarrow> string" where
  "buffer_id_of b m \<equiv> fst (buffer_ids_of b m)"

abbreviation job_id_of :: "ExecutableBuffer \<Rightarrow> Memory \<Rightarrow> string" where
  "job_id_of b m \<equiv> snd (buffer_ids_of b m)"

definition runtime_buffer_kind :: "ExecutableBuffer \<Rightarrow> string" where
  "runtime_buffer_kind b = (case b of CpuBuffer _ \<Rightarrow> ''shared_pinned_cpu'' | CudaBuffer _ _ \<Rightarrow> ''cuda_ipc_device'')"

definition buffer_registration :: "ExecutableBuffer \<Rightarrow> ('d Runtime, BufferRegistration) eff" where
  "buffer_registration b =
     (case b of
        CpuBuffer r \<Rightarrow> ebind (on_memory (cpu_at r)) (\<lambda>c. elift (cpu_registration c))
      | CudaBuffer _ g \<Rightarrow> elift (cuda_registration g))"

definition validate_runtime_buffer_backing :: "Backend \<Rightarrow> ExecutableBuffer \<Rightarrow> ('d Runtime, unit) eff" where
  "validate_runtime_buffer_backing backend b =
     (case b of
        CpuBuffer r \<Rightarrow>
          ebind (on_memory (cpu_at r)) (\<lambda>c.
          eseq (eraise_if (cb_closed c) (ValueError ''shared CPU buffer is closed'')) (
          eseq (on_memory (cpu_address backend r)) (eret ())))
      | CudaBuffer _ g \<Rightarrow>
          eraise_if (\<not> opt_holds (\<lambda>p. 0 < p) (gb_device_ptr g)) (ValueError ''CUDA buffer must have a live device_ptr''))"

definition registration_fingerprint ::
  "(pyval \<Rightarrow> string) \<Rightarrow> BufferRegistration \<Rightarrow> string \<Rightarrow> bool \<Rightarrow> Fingerprint" where
  "registration_fingerprint str_of registration sid owned =
     \<lparr>fp_registration = registration\<lparr>br_metadata := []\<rparr>,
      fp_metadata = sort (map (\<lambda>(k, v). (k, py_str str_of v)) (br_metadata registration)),
      fp_session_id = sid, fp_runtime_owned = owned\<rparr>"

definition runtime_session_buffer_metadata ::
  "ExecutableBuffer \<Rightarrow> BufferRegistration \<Rightarrow> string \<Rightarrow> bool \<Rightarrow> mapping" where
  "runtime_session_buffer_metadata b registration sid owned =
     AList.update ''runtime_lifecycle_pool'' (VBool True)
       (AList.update ''runtime_buffer_kind'' (VStr (runtime_buffer_kind b))
         (AList.update ''runtime_owned'' (VBool owned)
           (AList.update ''runtime_session_id'' (VStr sid) (br_metadata registration))))"

section \<open>Lifecycle records\<close>

definition copy_lifecycle_mapping :: "pyval \<Rightarrow> mapping" where
  "copy_lifecycle_mapping v = (case v of VDict d \<Rightarrow> d | _ \<Rightarrow> [])"

definition copy_lifecycle_sequence :: "pyval \<Rightarrow> pyval list" where
  "copy_lifecycle_sequence v = (case v of VList xs \<Rightarrow> xs | _ \<Rightarrow> [])"

definition runtime_buffer_lifecycle_registration ::
  "ExecutableBuffer \<Rightarrow> BufferRegistration \<Rightarrow> string \<Rightarrow> bool \<Rightarrow> rat \<Rightarrow> int \<Rightarrow> mapping" where
  "runtime_buffer_lifecycle_registration b registration sid owned registered_at n =
     [(''buffer_id'', VStr (br_buffer_id registration)), (''job_id'', VStr (br_job_id registration)),
      (''session_id'', VStr sid), (''runtime_buffer_kind'', VStr (runtime_buffer_kind b)),
      (''kind'', VStr (br_kind registration)), (''size_bytes'', VInt (br_size_bytes registration)),
      (''device_index'', opt_value VInt (br_device_index registration)),
      (''pinned'', VBool (br_pinned registration)), (''handle_type'', VStr (br_handle_type registration)),
      (''runtime_owned'', VBool owned), (''registered_at'', VFloat registered_at),
      (''registration_count'', VInt n), (''state'', VStr ''registered''),
      (''metadata'', VDict (runtime_session_buffer_metadata b registration sid owned))]"

definition carry_over :: "string \<Rightarrow> pyval \<Rightarrow> mapping \<Rightarrow> mapping" where
  "carry_over k v m = (if truthy v then AList.update k v m else m)"

definition record_buffer_lifecycle_registration ::
  "ExecutableBuffer \<Rightarrow> BufferRegistration \<Rightarrow> string \<Rightarrow> bool \<Rightarrow> rat \<Rightarrow> (string, mapping) dict \<Rightarrow>
   (string, mapping) dict result" where
  "record_buffer_lifecycle_registration b registration sid owned now records =
     (let key = br_buffer_id registration; existing = dget_default records key [] in
      rbind (int_or_zero existing ''registration_count'') (\<lambda>n.
      Inr (AList.update key
        (carry_over ''cleanup_history'' (VList (copy_lifecycle_sequence (vget existing ''cleanup_history'' VNone)))
          (carry_over ''terminal_uses'' (VList (copy_lifecycle_sequence (vget existing ''terminal_uses'' VNone)))
            (carry_over ''active_uses'' (VDict (copy_lifecycle_mapping (vget existing ''active_uses'' VNone)))
              (runtime_buffer_lifecycle_registration b registration sid owned now (n + 1))))) records)))"

definition cleanup_record_value ::
  "string \<Rightarrow> string \<Rightarrow> bool \<Rightarrow> rat \<Rightarrow> DaemonResponse \<Rightarrow> mapping option \<Rightarrow> mapping option \<Rightarrow> string option \<Rightarrow> mapping" where
  "cleanup_record_value buffer_id reason ok now response local retention error =
     [(''buffer_id'', VStr buffer_id), (''reason'', VStr reason), (''ok'', VBool ok), (''cleaned_at'', VFloat now)]
     @ (case rp_error response of None \<Rightarrow> [] | Some e \<Rightarrow> [(''daemon_error'', VStr e)])
     @ [(''daemon_payload'', VDict (rp_payload response))]
     @ (case local of None \<Rightarrow> [] | Some l \<Rightarrow> [(''local_cpu_buffer_cleanup'', VDict l)])
     @ (case retention of None \<Rightarrow> [] | Some r \<Rightarrow> [(''runtime_buffer_retention'', VDict r)])
     @ (case error of None \<Rightarrow> [] | Some e \<Rightarrow> [(''error'', VStr e)])"

definition record_buffer_lifecycle_cleanup ::
  "string \<Rightarrow> bool \<Rightarrow> mapping \<Rightarrow> (string, mapping) dict \<Rightarrow> (string, mapping) dict" where
  "record_buffer_lifecycle_cleanup buffer_id ok cleanup_record records =
     (let current = dget_default records buffer_id [(''buffer_id'', VStr buffer_id)];
          history = copy_lifecycle_sequence (vget current ''cleanup_history'' VNone) @ [VDict cleanup_record]
      in AList.update buffer_id
           (AList.update ''state'' (VStr (if ok then ''cleaned'' else ''cleanup_failed''))
             (AList.update ''last_cleanup'' (VDict cleanup_record)
               (AList.update ''cleanup_history'' (VList history) current))) records)"

section \<open>Cleaning a buffer up\<close>

text \<open>
  \<open>_cleanup_local_cpu_buffer\<close>: the evidence of closing the buffer or, when the runtime owns it,
  releasing it; an exception ends up in the evidence.
\<close>

definition cleanup_local_cpu_buffer ::
  "Backend \<Rightarrow> string \<Rightarrow> nat \<Rightarrow> string \<Rightarrow> bool \<Rightarrow> ('d Runtime, mapping) eff" where
  "cleanup_local_cpu_buffer backend buffer_id r reason owned =
     ebind (on_memory (cpu_at r)) (\<lambda>prior.
     ebind (eoutcome (on_memory (if owned then cpu_release backend r else cpu_close backend r))) (\<lambda>outcome.
     ebind (on_memory (cpu_at r)) (\<lambda>after.
     eret ([(''buffer_id'', VStr buffer_id), (''job_id'', VStr (cb_job_id prior)), (''reason'', VStr reason),
            (''runtime_owned'', VBool owned), (''owner'', VBool (cb_owner prior)),
            (''mode'', VStr (if owned then ''release'' else ''close'')),
            (''shared_memory_name'', VStr (cb_shared_memory_name prior)),
            (''closed_before_release'', VBool (cb_closed prior)),
            (''unlinked_before_release'', VBool (cb_unlinked prior)),
            (''ok'', VBool (case outcome of Inl _ \<Rightarrow> False | Inr _ \<Rightarrow> True))]
           @ (case outcome of Inl e \<Rightarrow> [(''error'', VStr (error_text e))] | Inr _ \<Rightarrow> [])
           @ [(''closed_after_release'', VBool (cb_closed after)),
              (''unlinked_after_release'', VBool (cb_unlinked after))]))))"

definition evidence_ok :: "mapping \<Rightarrow> bool" where
  "evidence_ok m = truthy (vget m ''ok'' (VBool False))"

definition evidence_error :: "(pyval \<Rightarrow> string) \<Rightarrow> string \<Rightarrow> mapping \<Rightarrow> py_error" where
  "evidence_error str_of fallback m = RuntimeError (py_str str_of (vor (vget m ''error'' VNone) (VStr fallback)))"

definition cleanup_local_buffer_for_release ::
  "Backend \<Rightarrow> string \<Rightarrow> ExecutableBuffer option \<Rightarrow> string \<Rightarrow> bool \<Rightarrow> ('d Runtime, mapping option) eff" where
  "cleanup_local_buffer_for_release backend buffer_id b reason owned =
     (case b of
        Some (CpuBuffer r) \<Rightarrow>
          ebind (cleanup_local_cpu_buffer backend buffer_id r reason owned) (\<lambda>evidence. eret (Some evidence))
      | _ \<Rightarrow> eret None)"

definition forget_runtime_buffer :: "string \<Rightarrow> ('d Runtime, unit) eff" where
  "forget_runtime_buffer i =
     emodify (\<lambda>s. s\<lparr>rt_registered_buffer_ids := removeAll i (rt_registered_buffer_ids s),
                    rt_fingerprints := AList.delete i (rt_fingerprints s),
                    rt_buffers := AList.delete i (rt_buffers s),
                    rt_owned_cpu_buffer_ids := removeAll i (rt_owned_cpu_buffer_ids s)\<rparr>)"

definition cleanup_daemon_registered_buffer ::
  "'d DaemonClient \<Rightarrow> string \<Rightarrow> string \<Rightarrow> bool \<Rightarrow> ('d Runtime, DaemonResponse) eff" where
  "cleanup_daemon_registered_buffer client i reason force =
     ebind (on_daemon (dc_cleanup_buffer client i reason force None)) (\<lambda>response.
     eseq (require_ok ''daemon buffer cleanup failed'' response) (eret response))"

definition runtime_buffer_retention_evidence ::
  "string \<Rightarrow> ExecutableBuffer option \<Rightarrow> string \<Rightarrow> bool \<Rightarrow> mapping option \<Rightarrow> mapping option \<Rightarrow> mapping" where
  "runtime_buffer_retention_evidence i b reason owned local lifecycle =
     [(''buffer_id'', VStr i), (''reason'', VStr reason), (''runtime_owned'', VBool owned),
      (''runtime_lifecycle_pool'', VBool True)]
     @ (case lifecycle of None \<Rightarrow> [] | Some l \<Rightarrow> [(''runtime_buffer_lifecycle'', VDict l)])
     @ (case b of
          Some (CpuBuffer _) \<Rightarrow> (''runtime_buffer_kind'', VStr ''shared_pinned_cpu'') #
            (case local of None \<Rightarrow> []
             | Some l \<Rightarrow> (''local_cpu_buffer_cleanup'', VDict l) #
                 (if truthy (vget l ''runtime_owned'' (VBool False)) then [(''owned_cpu_buffer_release'', VDict l)] else []))
        | Some (CudaBuffer _ _) \<Rightarrow> [(''runtime_buffer_kind'', VStr ''cuda_ipc_device'')]
        | None \<Rightarrow> [(''runtime_buffer_kind'', VStr ''unknown'')])"

text \<open>\<open>_record_buffer_cleanup_retention\<close>: the second call, which tells the daemon what was released.\<close>

definition record_buffer_cleanup_retention ::
  "(pyval \<Rightarrow> string) \<Rightarrow> 'd DaemonClient \<Rightarrow> string \<Rightarrow> mapping \<Rightarrow> ('d Runtime, mapping) eff" where
  "record_buffer_cleanup_retention str_of client i retention =
     (let reason = py_str str_of (vor (vget retention ''reason'' VNone) (VStr ''runtime_buffer_released''));
          base = [(''buffer_id'', VStr i), (''reason'', VStr reason)]
      in ebind (eoutcome
           (ebind (on_daemon (dc_cleanup_buffer client i reason False (Some retention))) (\<lambda>response.
            eseq (require_ok ''daemon buffer retention update failed'' response) (eret response)))) (\<lambda>outcome.
         eret (case outcome of
             Inl e \<Rightarrow> base @ [(''ok'', VBool False), (''error'', VStr (error_text e))]
           | Inr response \<Rightarrow> base @ [(''ok'', VBool True), (''payload'', VDict (rp_payload response))])))"

definition cleanup_buffer_response ::
  "DaemonResponse \<Rightarrow> mapping option \<Rightarrow> mapping option \<Rightarrow> DaemonResponse" where
  "cleanup_buffer_response response local retention =
     response\<lparr>rp_payload :=
       (case retention of None \<Rightarrow> (\<lambda>p. p) | Some r \<Rightarrow> AList.update ''runtime_buffer_retention'' (VDict r))
         ((case local of None \<Rightarrow> (\<lambda>p. p)
           | Some l \<Rightarrow> (\<lambda>p. (if truthy (vget l ''runtime_owned'' (VBool False))
                 then AList.update ''owned_cpu_buffer_release'' (VDict l) else (\<lambda>p. p))
               (AList.update ''local_cpu_buffer_cleanup'' (VDict l) p))) (rp_payload response))\<rparr>"

text \<open>\<open>_cleanup_buffer_impl\<close> with \<open>_raise_buffer_cleanup_error_if_needed\<close>.\<close>

definition skipped_response :: DaemonResponse where
  "skipped_response = \<lparr>rp_ok = True, rp_error = None, rp_payload = [(''cleanup_skipped'', VBool True)]\<rparr>"

definition evidence_failure :: "(pyval \<Rightarrow> string) \<Rightarrow> string \<Rightarrow> mapping option \<Rightarrow> py_error option" where
  "evidence_failure str_of fallback evidence =
     (case evidence of None \<Rightarrow> None
      | Some m \<Rightarrow> if evidence_ok m then None else Some (evidence_error str_of fallback m))"

definition record_cleanup ::
  "string \<Rightarrow> bool \<Rightarrow> mapping \<Rightarrow> ('d Runtime, unit) eff" where
  "record_cleanup i ok cleanup_record =
     emodify (\<lambda>s. s\<lparr>rt_lifecycle_records :=
       record_buffer_lifecycle_cleanup i ok cleanup_record (rt_lifecycle_records s)\<rparr>)"

definition settle_cleanup ::
  "(pyval \<Rightarrow> string) \<Rightarrow> rat \<Rightarrow> string \<Rightarrow> string \<Rightarrow> DaemonResponse result \<Rightarrow> mapping option \<Rightarrow> mapping option \<Rightarrow>
   ('d Runtime, DaemonResponse) eff" where
  "settle_cleanup str_of now i reason daemon local retention =
     (let response = (case daemon of Inl _ \<Rightarrow> skipped_response | Inr r \<Rightarrow> r);
          local_error = evidence_failure str_of ''local CPU buffer cleanup failed'' local;
          retention_error = evidence_failure str_of ''daemon buffer retention update failed'' retention;
          failed = (\<lambda>e. record_cleanup i False
            (cleanup_record_value i reason False now response local retention (Some (error_text e))))
      in case daemon of
           Inl e \<Rightarrow> eseq (failed e) (eraise (case local_error of None \<Rightarrow> e
             | Some l \<Rightarrow> RuntimeError (error_text e @ ''; local CPU buffer cleanup failed: '' @ error_text l)))
         | Inr _ \<Rightarrow>
           (case local_error of Some e \<Rightarrow> eseq (failed e) (eraise e)
            | None \<Rightarrow>
              (case retention_error of Some e \<Rightarrow> eseq (failed e) (eraise e)
               | None \<Rightarrow>
                 eseq (record_cleanup i True (cleanup_record_value i reason True now response local retention None)) (
                 eret (cleanup_buffer_response response local retention)))))"

definition retain_runtime_buffer_cleanup ::
  "(pyval \<Rightarrow> string) \<Rightarrow> 'd DaemonClient \<Rightarrow> string \<Rightarrow> ExecutableBuffer option \<Rightarrow> string \<Rightarrow> bool \<Rightarrow> mapping option \<Rightarrow>
   ('d Runtime, mapping option) eff" where
  "retain_runtime_buffer_cleanup str_of client i b reason owned local =
     ebind (eget (\<lambda>s. map_of (rt_lifecycle_records s) i)) (\<lambda>lifecycle.
     ebind (record_buffer_cleanup_retention str_of client i
              (runtime_buffer_retention_evidence i b reason owned local lifecycle)) (\<lambda>retention.
     eret (Some retention)))"

definition cleanup_runtime_buffer ::
  "(pyval \<Rightarrow> string) \<Rightarrow> Backend \<Rightarrow> 'd DaemonClient \<Rightarrow> rat \<Rightarrow> string \<Rightarrow> string \<Rightarrow> bool \<Rightarrow>
   ('d Runtime, DaemonResponse) eff" where
  "cleanup_runtime_buffer str_of backend client now i reason force =
     eseq require_open (
     ebind (eget (\<lambda>s. (map_of (rt_buffers s) i, i \<in> set (rt_owned_cpu_buffer_ids s),
                        i \<in> set (rt_registered_buffer_ids s)))) (\<lambda>(b, owned, registered).
     ebind (if registered then eoutcome (cleanup_daemon_registered_buffer client i reason force)
            else eret (Inr skipped_response)) (\<lambda>daemon.
     eseq (forget_runtime_buffer i) (
     ebind (cleanup_local_buffer_for_release backend i b reason owned) (\<lambda>local.
     ebind (case daemon of
              Inl _ \<Rightarrow> eret None
            | Inr _ \<Rightarrow> if registered then retain_runtime_buffer_cleanup str_of client i b reason owned local
                      else eret None) (\<lambda>retention.
     settle_cleanup str_of now i reason daemon local retention))))))"

section \<open>Registering buffers\<close>

text \<open>
  One turn of \<open>_register_pending_buffers\<close>: a buffer whose fingerprint is new is registered with the
  daemon; from then on it counts as registered in this round, and the session takes note of it.
\<close>

record Registered =
  rg_registration :: BufferRegistration
  rg_fingerprint :: Fingerprint
  rg_session_id :: string
  rg_owned :: bool

definition register_pending_buffer ::
  "(pyval \<Rightarrow> string) \<Rightarrow> 'd DaemonClient \<Rightarrow> string \<times> ExecutableBuffer \<Rightarrow> ('d Runtime, Registered option) eff" where
  "register_pending_buffer str_of client entry =
     (case entry of (i, b) \<Rightarrow>
      ebind session_id (\<lambda>sid.
      ebind (eget (\<lambda>s. (i \<in> set (rt_owned_cpu_buffer_ids s), map_of (rt_fingerprints s) i))) (\<lambda>(owned, known).
      ebind (buffer_registration b) (\<lambda>registration.
      let fingerprint = registration_fingerprint str_of registration sid owned in
      if known = Some fingerprint then eret None
      else
        ebind (elift (mk_BufferRegistration
          (registration\<lparr>br_metadata := runtime_session_buffer_metadata b registration sid owned\<rparr>))) (\<lambda>annotated.
        ebind (on_daemon (dc_register_buffer client annotated)) (\<lambda>response.
        eseq (require_ok ''daemon buffer registration failed'' response) (
        eret (Some \<lparr>rg_registration = registration, rg_fingerprint = fingerprint, rg_session_id = sid,
                    rg_owned = owned\<rparr>))))))))"

definition note_registered ::
  "rat \<Rightarrow> string \<times> ExecutableBuffer \<Rightarrow> Registered \<Rightarrow> ('d Runtime, unit) eff" where
  "note_registered now entry g =
     (case entry of (i, b) \<Rightarrow>
      eseq (emodify (\<lambda>s. s\<lparr>rt_registered_buffer_ids := set_add i (rt_registered_buffer_ids s),
              rt_fingerprints := AList.update i (rg_fingerprint g) (rt_fingerprints s)\<rparr>)) (
      ebind (eget rt_lifecycle_records) (\<lambda>records.
      ebind (elift (record_buffer_lifecycle_registration b (rg_registration g) (rg_session_id g) (rg_owned g)
               now records)) (\<lambda>updated.
      emodify (\<lambda>s. s\<lparr>rt_lifecycle_records := updated\<rparr>)))))"

primrec register_pending_loop ::
  "(pyval \<Rightarrow> string) \<Rightarrow> 'd DaemonClient \<Rightarrow> rat \<Rightarrow> (string \<times> ExecutableBuffer) list \<Rightarrow> string list \<Rightarrow>
   ('d Runtime, string list \<times> py_error option) eff" where
  "register_pending_loop str_of client now [] registered_now = eret (registered_now, None)"
| "register_pending_loop str_of client now (entry # entries) registered_now =
     ebind (eoutcome (register_pending_buffer str_of client entry)) (\<lambda>outcome.
     case outcome of
       Inl e \<Rightarrow> eret (registered_now, Some e)
     | Inr None \<Rightarrow> register_pending_loop str_of client now entries registered_now
     | Inr (Some g) \<Rightarrow>
         ebind (eoutcome (note_registered now entry g)) (\<lambda>noted.
         case noted of
           Inl e \<Rightarrow> eret (registered_now @ [fst entry], Some e)
         | Inr _ \<Rightarrow> register_pending_loop str_of client now entries (registered_now @ [fst entry])))"

definition register_pending_buffers ::
  "(pyval \<Rightarrow> string) \<Rightarrow> Backend \<Rightarrow> 'd DaemonClient \<Rightarrow> rat \<Rightarrow> ('d Runtime, unit) eff" where
  "register_pending_buffers str_of backend client now =
     eseq require_open (
     eseq session_id (
     ebind (eget rt_buffers) (\<lambda>entries.
     ebind (register_pending_loop str_of client now entries []) (\<lambda>(registered_now, failure).
     case failure of
       None \<Rightarrow> eret ()
     | Some e \<Rightarrow>
         eseq (efor (\<lambda>i. eignore (cleanup_runtime_buffer str_of backend client now i
                 ''runtime_buffer_registration_failed'' True)) (rev registered_now)) (
         eraise e)))))"

text \<open>\<open>_register_buffer\<close>: an exception restores the buffer that had the id before, if any.\<close>

definition restore_buffer :: "string \<Rightarrow> ExecutableBuffer option \<Rightarrow> ('d Runtime, unit) eff" where
  "restore_buffer i existing =
     emodify (\<lambda>s. s\<lparr>rt_buffers := (case existing of None \<Rightarrow> AList.delete i (rt_buffers s)
                                  | Some b \<Rightarrow> AList.update i b (rt_buffers s))\<rparr>)"

definition check_runtime_buffer ::
  "Backend \<Rightarrow> ExecutableBuffer \<Rightarrow> ('d Runtime, string \<times> ExecutableBuffer option) eff" where
  "check_runtime_buffer backend b =
     eseq require_open (
     eseq (validate_runtime_buffer_backing backend b) (
     ebind (eget (\<lambda>s. s)) (\<lambda>s.
     let i = buffer_id_of b (rt_memory s); existing = map_of (rt_buffers s) i in
     eseq (eraise_if (job_id_of b (rt_memory s) \<noteq> rt_job_id s)
       (ValueError ''buffer job_id must match the runtime session job_id'')) (
     eseq (eraise_if (existing \<noteq> None \<and> existing \<noteq> Some b \<and> i \<in> set (rt_owned_cpu_buffer_ids s))
       (ValueError ''runtime-owned CPU buffer must be cleaned up before reusing buffer_id'')) (
     eret (i, existing))))))"

definition try_register ::
  "(pyval \<Rightarrow> string) \<Rightarrow> Backend \<Rightarrow> 'd DaemonClient \<Rightarrow> rat \<Rightarrow> ('d Runtime, unit) eff" where
  "try_register str_of backend client now =
     ebind (eget rt_target_gpu) (\<lambda>target.
     ewhen (target \<noteq> None) (
     eseq (open_session str_of client) (register_pending_buffers str_of backend client now)))"

definition register_runtime_buffer ::
  "(pyval \<Rightarrow> string) \<Rightarrow> Backend \<Rightarrow> 'd DaemonClient \<Rightarrow> rat \<Rightarrow> ExecutableBuffer \<Rightarrow> ('d Runtime, unit) eff" where
  "register_runtime_buffer str_of backend client now b =
     ebind (check_runtime_buffer backend b) (\<lambda>(i, existing).
     eseq (case b of CudaBuffer _ g \<Rightarrow> bind_target_gpu (gb_device_index g) | CpuBuffer _ \<Rightarrow> eret ()) (
     eseq (emodify (\<lambda>s. s\<lparr>rt_buffers := AList.update i b (rt_buffers s)\<rparr>)) (
     ecatch (try_register str_of backend client now)
       (\<lambda>e. eseq (restore_buffer i existing) (eraise e)))))"

definition undo_cpu_registration ::
  "Backend \<Rightarrow> string \<Rightarrow> nat \<Rightarrow> bool \<Rightarrow> bool \<Rightarrow> ('d Runtime, unit) eff" where
  "undo_cpu_registration backend i r owned_added release =
     eseq (ewhen owned_added
       (emodify (\<lambda>s. s\<lparr>rt_owned_cpu_buffer_ids := removeAll i (rt_owned_cpu_buffer_ids s)\<rparr>))) (
     ewhen release (eignore (on_memory (cpu_release backend r))))"

definition register_cpu_buffer ::
  "(pyval \<Rightarrow> string) \<Rightarrow> Backend \<Rightarrow> 'd DaemonClient \<Rightarrow> rat \<Rightarrow> nat \<Rightarrow> bool \<Rightarrow> ('d Runtime, nat) eff" where
  "register_cpu_buffer str_of backend client now r runtime_owned =
     eseq require_open (
     ebind (on_memory (cpu_at r)) (\<lambda>c.
     eseq (eraise_if (runtime_owned \<and> \<not> cb_owner c)
       (ValueError ''runtime-owned CPU buffers must own their shared memory'')) (
     ebind (eget (\<lambda>s. runtime_owned \<and> cb_buffer_id c \<notin> set (rt_owned_cpu_buffer_ids s))) (\<lambda>owned_added.
     eseq (ewhen runtime_owned
       (emodify (\<lambda>s. s\<lparr>rt_owned_cpu_buffer_ids := set_add (cb_buffer_id c) (rt_owned_cpu_buffer_ids s)\<rparr>))) (
     eseq (ecatch (register_runtime_buffer str_of backend client now (CpuBuffer r))
       (\<lambda>e. eseq (undo_cpu_registration backend (cb_buffer_id c) r owned_added (runtime_owned \<or> cb_owner c)) (
             eraise e))) (
     eret r))))))"

definition allocate_cpu_buffer ::
  "(pyval \<Rightarrow> string) \<Rightarrow> Backend \<Rightarrow> 'd DaemonClient \<Rightarrow> rat \<Rightarrow> string \<Rightarrow> string \<Rightarrow> int \<Rightarrow> string \<Rightarrow> ('d Runtime, nat) eff" where
  "allocate_cpu_buffer str_of backend client now uuid i n name_prefix =
     eseq require_open (
     ebind (eget rt_job_id) (\<lambda>job.
     ebind (on_memory (cpu_allocate uuid i job n name_prefix)) (\<lambda>r.
     ecatch (register_cpu_buffer str_of backend client now r True)
       (\<lambda>e. eseq (on_memory (cpu_release backend r)) (eraise e)))))"

definition register_cuda_buffer ::
  "(pyval \<Rightarrow> string) \<Rightarrow> Backend \<Rightarrow> 'd DaemonClient \<Rightarrow> rat \<Rightarrow> nat \<Rightarrow> CudaIpcDeviceBuffer \<Rightarrow> ('d Runtime, unit) eff" where
  "register_cuda_buffer str_of backend client now ref g =
     eseq require_open (register_runtime_buffer str_of backend client now (CudaBuffer ref g))"

text \<open>\<open>_rollback_transfer_context_buffer\<close>.\<close>

definition rollback_transfer_context_buffer ::
  "(pyval \<Rightarrow> string) \<Rightarrow> Backend \<Rightarrow> 'd DaemonClient \<Rightarrow> rat \<Rightarrow> string \<Rightarrow> bool \<Rightarrow> ('d Runtime, unit) eff" where
  "rollback_transfer_context_buffer str_of backend client now i was_registered =
     (let reason = ''runtime_transfer_context_creation_failed'' in
      ewhen (i \<noteq> [] \<and> \<not> was_registered) (
      ebind (eget (\<lambda>s. rt_session_id s \<noteq> None \<and> i \<in> set (rt_registered_buffer_ids s))) (\<lambda>known.
      ebind (if known then eoutcome (cleanup_runtime_buffer str_of backend client now i reason True)
             else eret (Inl (RuntimeError []))) (\<lambda>outcome.
      case outcome of
        Inr _ \<Rightarrow> eret ()
      | Inl _ \<Rightarrow>
          ebind (eget (\<lambda>s. (map_of (rt_buffers s) i, i \<in> set (rt_owned_cpu_buffer_ids s)))) (\<lambda>(b, owned).
          eseq (forget_runtime_buffer i) (
          eseq (cleanup_local_buffer_for_release backend i b reason owned) (eret ())))))))"

text \<open>\<open>_cleanup_local_cpu_buffers\<close>, when the session closes.\<close>

definition cleanup_local_cpu_buffers :: "Backend \<Rightarrow> string \<Rightarrow> ('d Runtime, mapping list) eff" where
  "cleanup_local_cpu_buffers backend reason =
     ebind (eget rt_buffers) (\<lambda>entries.
     ebind (emap (\<lambda>(i, b). case b of
          CudaBuffer _ _ \<Rightarrow> eret None
        | CpuBuffer r \<Rightarrow>
            ebind (eget (\<lambda>s. i \<in> set (rt_owned_cpu_buffer_ids s))) (\<lambda>owned.
            eseq (emodify (\<lambda>s. s\<lparr>rt_owned_cpu_buffer_ids := removeAll i (rt_owned_cpu_buffer_ids s)\<rparr>)) (
            ebind (cleanup_local_cpu_buffer backend i r reason owned) (\<lambda>evidence. eret (Some evidence))))) entries)
       (\<lambda>answers. eret (List.map_filter (\<lambda>x. x) answers)))"

end
