(* ===== verification/Runtime_Receipts.thy ===== *)
theory Runtime_Receipts
  imports Runtime_Buffers
begin

text \<open>
  What a runtime session demands of a transfer receipt before it hands it to the application
  (\<open>turbobus/runtime/validation.py\<close>): the receipt is terminal, bound to the intent, the session and the
  daemon's ticket, and carries the evidence that a worker or a backend really carried the transfer out.
\<close>

definition require_mapping :: "pyval \<Rightarrow> string \<Rightarrow> mapping result" where
  "require_mapping v message = (case v of VDict m \<Rightarrow> Inr m | _ \<Rightarrow> Inl (ValueError message))"

lemma require_mapping_Inr [result_simps]: "require_mapping v message = Inr m \<longleftrightarrow> v = VDict m"
  by (cases v) (simp_all add: require_mapping_def)

definition terminal_receipt_state :: "TransferStatusState \<Rightarrow> bool" where
  "terminal_receipt_state s = (s \<in> {COMPLETE, FAILED, CANCELED})"

section \<open>Ranges of an intent\<close>

primrec ranges_fit :: "TransferRange list \<Rightarrow> int \<Rightarrow> int \<Rightarrow> int \<Rightarrow> int result" where
  "ranges_fit [] source_bytes target_bytes total_bytes = Inr total_bytes"
| "ranges_fit (r # rs) source_bytes target_bytes total_bytes =
     raise_if (src_offset r < 0 \<or> dst_offset r < 0) (ValueError ''intent range offsets must be non-negative'') (
     raise_if (bytes r \<le> 0) (ValueError ''intent range bytes must be positive'') (
     raise_if (src_offset r + bytes r > source_bytes) (ValueError ''intent range exceeds runtime source buffer'') (
     raise_if (dst_offset r + bytes r > target_bytes)
       (ValueError ''intent range exceeds runtime destination buffer'') (
     ranges_fit rs source_bytes target_bytes (total_bytes + bytes r)))))"

definition validate_intent_ranges_fit_buffers :: "TransferIntent \<Rightarrow> int \<Rightarrow> int \<Rightarrow> unit result" where
  "validate_intent_ranges_fit_buffers intent source_bytes target_bytes =
     rbind (ranges_fit (ti_ranges intent) source_bytes target_bytes 0) (\<lambda>total.
     raise_if (total \<noteq> ti_total_bytes intent)
       (ValueError ''intent total_bytes must match runtime buffer ranges'') (Inr ()))"

section \<open>The binding of a receipt to its ticket\<close>

definition require_same_ticket :: "(pyval \<Rightarrow> string) \<Rightarrow> TransferReceipt \<Rightarrow> mapping \<Rightarrow> string \<Rightarrow> unit result" where
  "require_same_ticket str_of receipt metadata key =
     (let ticket_id = vget metadata key VNone in
      raise_if (ticket_id \<noteq> VNone \<and> py_str str_of ticket_id \<noteq> tr_ticket_id receipt)
        (ValueError (''runtime receipt '' @ key @ '' does not match receipt ticket_id'')) (Inr ()))"

definition require_receipt_ticket_binding :: "(pyval \<Rightarrow> string) \<Rightarrow> TransferReceipt \<Rightarrow> mapping \<Rightarrow> unit result" where
  "require_receipt_ticket_binding str_of receipt metadata =
     rbind (require_same_ticket str_of receipt metadata ''execution_ticket_id'') (\<lambda>_.
     rbind (require_same_ticket str_of receipt metadata ''evidence_ticket_id'') (\<lambda>_.
     let metadata_transfer_id = vget metadata ''transfer_id'' VNone;
         evidence_transfer_id = vget metadata ''evidence_transfer_id'' VNone;
         plan_generation = vget metadata ''plan_generation'' VNone;
         evidence_generation = vget metadata ''evidence_plan_generation'' VNone
     in raise_if (metadata_transfer_id \<noteq> VNone \<and> evidence_transfer_id \<noteq> VNone \<and>
          py_str str_of evidence_transfer_id \<noteq> py_str str_of metadata_transfer_id)
          (ValueError ''runtime receipt evidence_transfer_id does not match transfer_id'') (
        if plan_generation \<noteq> VNone \<and> evidence_generation \<noteq> VNone
        then rbind (py_int evidence_generation) (\<lambda>e.
             rbind (py_int plan_generation) (\<lambda>p.
             raise_if (e \<noteq> p)
               (ValueError ''runtime receipt evidence_plan_generation does not match plan_generation'') (Inr ())))
        else Inr ())))"

definition require_complete_receipt_evidence :: "TransferReceipt \<Rightarrow> unit result" where
  "require_complete_receipt_evidence receipt =
     (if tr_state receipt \<noteq> COMPLETE then Inr ()
      else require_complete_receipt_metadata_evidence (tr_metadata receipt) (tr_bytes_total receipt))"

definition require_failed_receipt_evidence :: "TransferReceipt \<Rightarrow> unit result" where
  "require_failed_receipt_evidence receipt =
     (let metadata = tr_metadata receipt in
      if tr_state receipt \<notin> {FAILED, CANCELED} then Inr ()
      else
        raise_if (\<not> str_lower_in (vget metadata ''completion_source'' (VStr [])) [''worker'', ''backend''])
          (ValueError ''failed or canceled receipt missing worker/backend execution source'') (
        raise_if (\<not> truthy (vget metadata ''executed'' (VBool False)))
          (ValueError ''failed or canceled receipt missing execution evidence'') (
        raise_if (missing_reason (tr_error receipt)) (ValueError ''failed or canceled receipt missing error'') (
        raise_if (vget metadata ''evidence_ticket_id'' VNone = VNone)
          (ValueError ''failed or canceled receipt missing daemon ticket evidence'') (
        raise_if (vget metadata ''evidence_transfer_id'' VNone = VNone)
          (ValueError ''failed or canceled receipt missing transfer evidence'') (
        raise_if (vget metadata ''evidence_plan_generation'' VNone = VNone)
          (ValueError ''failed or canceled receipt missing plan generation evidence'') (Inr ())))))))"

section \<open>The reproduction evidence\<close>

definition require_bound_text ::
  "(pyval \<Rightarrow> string) \<Rightarrow> mapping \<Rightarrow> string \<times> string \<Rightarrow> unit result" where
  "require_bound_text str_of transfer field =
     (case field of (name, expected) \<Rightarrow>
      let observed = vget transfer name VNone in
      raise_if (observed = VNone \<or> py_str str_of observed \<noteq> expected)
        (ValueError (''runtime receipt reproduction_evidence '' @ name @ '' does not match receipt'')) (Inr ()))"

definition require_bound_bytes :: "mapping \<Rightarrow> string \<times> int \<Rightarrow> unit result" where
  "require_bound_bytes transfer field =
     (case field of (name, expected) \<Rightarrow>
      let observed = vget transfer name VNone;
          mismatch = ValueError (''runtime receipt reproduction_evidence '' @ name @ '' does not match receipt'')
      in raise_if (observed = VNone) mismatch (
         rbind (py_int observed) (\<lambda>n. raise_if (n \<noteq> expected) mismatch (Inr ()))))"

definition receipt_texts :: "TransferReceipt \<Rightarrow> (string \<times> string) list" where
  "receipt_texts receipt =
     [(''intent_id'', tr_intent_id receipt), (''decision_id'', tr_decision_id receipt),
      (''topology_snapshot_id'', tr_topology_snapshot_id receipt), (''ticket_id'', tr_ticket_id receipt),
      (''job_id'', tr_job_id receipt), (''session_id'', tr_session_id receipt),
      (''state'', state_value (tr_state receipt))]"

definition require_reproduction_receipt_binding ::
  "(pyval \<Rightarrow> string) \<Rightarrow> TransferReceipt \<Rightarrow> mapping \<Rightarrow> unit result" where
  "require_reproduction_receipt_binding str_of receipt reproduction =
     rbind (require_mapping (vget reproduction ''transfer'' VNone)
       ''runtime receipt reproduction_evidence missing transfer view'') (\<lambda>transfer.
     rbind (rmap (require_bound_text str_of transfer) (receipt_texts receipt)) (\<lambda>_.
     rbind (rmap (require_bound_bytes transfer)
       [(''bytes_total'', tr_bytes_total receipt), (''bytes_completed'', tr_bytes_completed receipt)]) (\<lambda>_. Inr ())))"

definition require_not_fake :: "mapping \<Rightarrow> string \<Rightarrow> unit result" where
  "require_not_fake reproduction key =
     raise_if (truthy (vget reproduction key (VBool False)))
       (ValueError (''runtime receipt reproduction_evidence uses '' @ key)) (Inr ())"

definition require_reproduction_evidence ::
  "(pyval \<Rightarrow> string) \<Rightarrow> mapping \<Rightarrow> TransferReceipt option \<Rightarrow> mapping result" where
  "require_reproduction_evidence str_of metadata receipt =
     rbind (require_mapping (vget metadata ''reproduction_evidence'' VNone)
       ''runtime receipt missing reproduction_evidence'') (\<lambda>reproduction.
     raise_if (vget reproduction ''schema'' VNone \<noteq> VStr ''turbobus.reproduction_evidence.v1'')
       (ValueError ''runtime receipt reproduction_evidence has wrong schema'') (
     raise_if (vget reproduction ''source'' VNone \<noteq> VStr ''TransferReceipt'')
       (ValueError ''runtime receipt reproduction_evidence must come from TransferReceipt'') (
     rbind (rmap (require_not_fake reproduction) [''fake_receipt'', ''synthetic_evidence'', ''dry_run'']) (\<lambda>_.
     rbind (require_mapping (vget reproduction ''transfer'' VNone)
       ''runtime receipt reproduction_evidence missing transfer view'') (\<lambda>transfer.
     rbind (require_mapping (vget reproduction ''execution'' VNone)
       ''runtime receipt reproduction_evidence missing execution view'') (\<lambda>_.
     raise_if (vget reproduction ''route_policy_source'' VNone \<noteq> VStr ''daemon_scheduler'')
       (ValueError ''runtime receipt reproduction_evidence route policy is not daemon-owned'') (
     rbind (require_mapping (vget reproduction ''completion_contract'' VNone)
       ''runtime receipt reproduction_evidence missing completion contract'') (\<lambda>_.
     rbind (require_mapping (vget reproduction ''buffer_lifetime'' VNone)
       ''runtime receipt reproduction_evidence missing buffer lifetime'') (\<lambda>_.
     let metadata_transfer_id = vget metadata ''transfer_id'' VNone;
         transfer_id = vget transfer ''transfer_id'' VNone
     in raise_if (metadata_transfer_id \<noteq> VNone \<and>
          (transfer_id = VNone \<or> py_str str_of transfer_id \<noteq> py_str str_of metadata_transfer_id))
          (ValueError ''runtime receipt reproduction_evidence transfer_id does not match metadata'') (
        rbind (case receipt of None \<Rightarrow> Inr ()
               | Some r \<Rightarrow> require_reproduction_receipt_binding str_of r reproduction) (\<lambda>_.
        Inr reproduction)))))))))))"

definition require_contract_field :: "mapping \<Rightarrow> string \<Rightarrow> unit result" where
  "require_contract_field contract name =
     raise_if (vget contract name VNone = VNone)
       (ValueError (''real-execution evidence completion contract missing '' @ name)) (Inr ())"

definition require_real_execution_view ::
  "(pyval \<Rightarrow> string) \<Rightarrow> TransferReceipt \<Rightarrow> mapping \<Rightarrow> unit result" where
  "require_real_execution_view str_of receipt reproduction =
     rbind (require_mapping (vget reproduction ''execution'' VNone)
       ''real-execution evidence missing execution view'') (\<lambda>execution.
     raise_if (\<not> str_lower_in (vget execution ''completion_source'' (VStr [])) [''worker'', ''backend''])
       (ValueError ''real-execution evidence missing worker/backend source'') (
     raise_if (\<not> truthy (vget execution ''executed'' (VBool False)))
       (ValueError ''real-execution evidence was not executed'') (
     raise_if (\<not> str_lower_in (vget execution ''mode'' (VStr [])) [''direct_only'', ''relay_only'', ''mixed_pooled''])
       (ValueError ''real-execution evidence has no validated path mode'') (
     rbind (require_mapping (vget execution ''path'' VNone)
       ''real-execution evidence missing path view'') (\<lambda>_.
     rbind (require_mapping (vget reproduction ''completion_contract'' VNone)
       ''real-execution evidence missing completion contract'') (\<lambda>contract.
     rbind (rmap (require_contract_field contract) [''ticket_id'', ''transfer_id'', ''plan_generation'']) (\<lambda>_.
     raise_if (py_str str_of (vget contract ''ticket_id'' VNone) \<noteq> tr_ticket_id receipt)
       (ValueError ''real-execution evidence ticket_id does not match receipt'') (
     rbind (require_mapping (vget reproduction ''transfer'' VNone)
       ''real-execution evidence missing transfer view'') (\<lambda>transfer.
     raise_if (py_str str_of (vget contract ''transfer_id'' VNone) \<noteq>
               py_str str_of (vget transfer ''transfer_id'' VNone))
       (ValueError ''real-execution evidence transfer_id does not match reproduction view'') (
     rbind (if tr_state receipt = COMPLETE
       then
         raise_if (\<not> truthy (vget execution ''verified'' (VBool False)))
           (ValueError ''real-execution evidence missing verification'') (
         rbind (py_int (vor (vget execution ''verified_bytes'' (VInt 0)) (VInt 0))) (\<lambda>n.
         raise_if (n \<noteq> tr_bytes_total receipt)
           (ValueError ''real-execution evidence verified bytes mismatch'') (
         raise_if (\<not> truthy (vget execution ''content_match'' (VBool False)))
           (ValueError ''real-execution evidence missing content match'') (Inr ()))))
       else Inr ()) (\<lambda>_.
     raise_if (tr_state receipt \<in> {FAILED, CANCELED} \<and> vget reproduction ''cleanup'' VNone = VNone \<and>
               vget reproduction ''failure_cleanup_contract'' VNone = VNone)
       (ValueError ''failed real-execution evidence missing cleanup contract'') (Inr ()))))))))))))"

definition validated_real_execution_evidence :: "(pyval \<Rightarrow> string) \<Rightarrow> TransferReceipt \<Rightarrow> mapping result" where
  "validated_real_execution_evidence str_of receipt =
     raise_if (\<not> terminal_receipt_state (tr_state receipt))
       (ValueError ''real-execution validation requires a terminal receipt'') (
     rbind (require_receipt_ticket_binding str_of receipt (tr_metadata receipt)) (\<lambda>_.
     rbind (require_complete_receipt_evidence receipt) (\<lambda>_.
     rbind (require_failed_receipt_evidence receipt) (\<lambda>_.
     rbind (require_reproduction_evidence str_of (tr_metadata receipt) (Some receipt)) (\<lambda>reproduction.
     rbind (require_real_execution_view str_of receipt reproduction) (\<lambda>_.
     rbind (require_mapping (vget reproduction ''execution'' VNone) []) (\<lambda>execution.
     rbind (require_mapping (vget reproduction ''transfer'' VNone) []) (\<lambda>transfer.
     rbind (py_int (vor (vget execution ''verified_bytes'' (VInt 0)) (VInt 0))) (\<lambda>verified_bytes.
     Inr [(''schema'', VStr ''turbobus.real_execution_validation.v1''), (''source'', VStr ''TransferReceipt''),
          (''fake_receipt'', VBool False), (''synthetic_evidence'', VBool False), (''dry_run'', VBool False),
          (''receipt_id'', VStr (tr_receipt_id receipt)), (''ticket_id'', VStr (tr_ticket_id receipt)),
          (''intent_id'', VStr (tr_intent_id receipt)), (''decision_id'', VStr (tr_decision_id receipt)),
          (''topology_snapshot_id'', VStr (tr_topology_snapshot_id receipt)),
          (''job_id'', VStr (tr_job_id receipt)), (''session_id'', VStr (tr_session_id receipt)),
          (''state'', VStr (state_value (tr_state receipt))), (''bytes_total'', VInt (tr_bytes_total receipt)),
          (''bytes_completed'', VInt (tr_bytes_completed receipt)),
          (''transfer_id'', vget transfer ''transfer_id'' VNone),
          (''completion_source'', vget execution ''completion_source'' VNone),
          (''execution_mode'', vget execution ''mode'' VNone),
          (''verified'', VBool (truthy (vget execution ''verified'' (VBool False)))),
          (''verified_bytes'', VInt verified_bytes),
          (''content_match'', VBool (truthy (vget execution ''content_match'' (VBool False)))),
          (''route_policy_source'', VStr ''daemon_scheduler''),
          (''reproduction_evidence'', VDict reproduction)])))))))))"

section \<open>The lifetime of the buffers\<close>

definition str_lower :: "(pyval \<Rightarrow> string) \<Rightarrow> pyval \<Rightarrow> string" where
  "str_lower str_of v = lower (py_str str_of v)"

definition has_key :: "mapping \<Rightarrow> string \<Rightarrow> bool" where
  "has_key m k = (map_of m k \<noteq> None)"

definition require_runtime_buffer_resource_evidence ::
  "(pyval \<Rightarrow> string) \<Rightarrow> mapping \<Rightarrow> string option \<Rightarrow> pyval \<Rightarrow> string \<Rightarrow> unit result" where
  "require_runtime_buffer_resource_evidence str_of evidence expected_buffer_id kind label =
     (let normalized_kind = str_lower str_of (vor kind (VStr [])) in
      raise_if (opt_holds (\<lambda>i. \<not> list_ex (\<lambda>f. py_str str_of (vget evidence f (VStr [])) = i)
              [''src_buffer_id'', ''dst_buffer_id'', ''cpu_buffer_id'', ''device_buffer_id'']) expected_buffer_id)
        (ValueError (''runtime receipt '' @ label @ '' buffer resource evidence does not match buffer_id'')) (
      if normalized_kind = ''shared_pinned_cpu'' then
        raise_if (str_lower str_of (vget evidence ''cpu_handle_type'' (VStr [])) \<noteq> ''shared_pinned_cpu'')
          (ValueError (''runtime receipt '' @ label @ '' CPU buffer resource evidence has the wrong handle type'')) (
        raise_if (\<not> list_ex (has_key evidence) [''cpu_buffer_opened'', ''cuda_host_registered'', ''close_evidence''])
          (ValueError (''runtime receipt '' @ label @
            '' CPU buffer resource evidence is missing lifecycle markers'')) (Inr ()))
      else if normalized_kind = ''cuda_ipc_device'' then
        raise_if (str_lower str_of (vget evidence ''device_handle_type'' (VStr [])) \<noteq> ''cuda_ipc_device'')
          (ValueError (''runtime receipt '' @ label @ '' CUDA buffer resource evidence has the wrong handle type'')) (
        raise_if (\<not> list_ex (has_key evidence)
            [''cuda_ipc_span_validation'', ''device_ipc_opened'', ''device_ptr'', ''device_index'', ''close_evidence''])
          (ValueError (''runtime receipt '' @ label @
            '' CUDA buffer resource evidence is missing lifecycle markers'')) (
        case vget evidence ''cuda_ipc_span_validation'' VNone of
          VDict spans \<Rightarrow> raise_if (\<not> truthy (vget spans ''validated'' (VBool False)))
            (ValueError (''runtime receipt '' @ label @ '' CUDA buffer span validation did not complete'')) (Inr ())
        | _ \<Rightarrow> Inr ()))
      else Inr ()))"

definition require_runtime_buffer_record ::
  "(pyval \<Rightarrow> string) \<Rightarrow> pyval \<Rightarrow> string \<Rightarrow> string option \<Rightarrow> string \<Rightarrow> unit result" where
  "require_runtime_buffer_record str_of v sid expected_buffer_id label =
     rbind (require_mapping v (''runtime receipt missing '' @ label @ '' buffer lifetime evidence'')) (\<lambda>r.
     raise_if (opt_holds (\<lambda>i. py_str str_of (vget r ''buffer_id'' VNone) \<noteq> i) expected_buffer_id)
       (ValueError (''runtime receipt '' @ label @ '' buffer_id does not match submitted intent'')) (
     rbind (require_mapping (vget r ''registration'' VNone)
       (''runtime receipt missing '' @ label @ '' buffer registration evidence'')) (\<lambda>registration.
     rbind (require_mapping (vget registration ''metadata'' VNone)
       (''runtime receipt missing '' @ label @ '' buffer registration metadata'')) (\<lambda>metadata.
     let runtime_session_id = vget metadata ''runtime_session_id'' VNone in
     raise_if (runtime_session_id = VNone \<or> py_str str_of runtime_session_id \<noteq> sid)
       (ValueError (''runtime receipt '' @ label @ '' buffer runtime_session_id does not match session'')) (
     rbind (require_mapping (vget r ''resource_evidence'' VNone)
       (''runtime receipt missing '' @ label @ '' buffer resource evidence'')) (\<lambda>evidence.
     rbind (require_runtime_buffer_resource_evidence str_of evidence expected_buffer_id
              (vget metadata ''runtime_buffer_kind'' VNone) label) (\<lambda>_.
     if truthy (vget r ''runtime_owned'' (VBool False)) \<and>
        str_lower str_of (vget metadata ''runtime_buffer_kind'' (VStr [])) = ''shared_pinned_cpu''
     then rbind (require_mapping (vget r ''owned_cpu_buffer_release'' VNone)
            (''runtime receipt missing '' @ label @ '' runtime-owned CPU buffer release evidence'')) (\<lambda>release.
          raise_if (\<not> truthy (vget release ''ok'' (VBool False)))
            (ValueError (''runtime receipt '' @ label @ '' runtime-owned CPU buffer release did not complete''))
            (Inr ()))
     else Inr ())))))))"

definition require_runtime_buffer_lifetime_evidence ::
  "(pyval \<Rightarrow> string) \<Rightarrow> mapping \<Rightarrow> string \<Rightarrow> string option \<Rightarrow> string option \<Rightarrow> unit result" where
  "require_runtime_buffer_lifetime_evidence str_of metadata sid source_id destination_id =
     rbind (require_mapping (vget metadata ''buffer_lifetime_evidence'' VNone)
       ''runtime receipt missing buffer_lifetime_evidence'') (\<lambda>lifetime.
     rbind (require_runtime_buffer_record str_of (vget lifetime ''source_buffer'' VNone) sid source_id
       ''source'') (\<lambda>_.
     require_runtime_buffer_record str_of (vget lifetime ''destination_buffer'' VNone) sid destination_id
       ''destination''))"

section \<open>The worker\<close>

definition from_worker :: "mapping \<Rightarrow> bool" where
  "from_worker metadata = str_lower_in (vget metadata ''completion_source'' (VStr [])) [''worker'']"

definition require_worker_startup_evidence :: "(pyval \<Rightarrow> string) \<Rightarrow> mapping \<Rightarrow> unit result" where
  "require_worker_startup_evidence str_of metadata =
     (if \<not> from_worker metadata then Inr ()
      else rbind (require_mapping (vget metadata ''worker_startup'' VNone)
          ''runtime receipt missing worker_startup evidence'') (\<lambda>startup.
        let source = vget startup ''startup_source'' VNone in
        raise_if (source = VNone \<or> blank (py_str str_of source))
          (ValueError ''runtime receipt worker_startup missing startup_source'') (
        raise_if (vget startup ''topology_snapshot_id'' VNone = VNone)
          (ValueError ''runtime receipt worker_startup missing topology_snapshot_id'') (
        raise_if (vget startup ''require_authenticated_peers'' VNone = VNone)
          (ValueError ''runtime receipt worker_startup missing authenticated peer requirement'') (
        raise_if (truthy (vget startup ''require_authenticated_peers'' (VBool False)) \<and>
                  \<not> truthy (vget startup ''daemon_peer_authenticated'' (VBool False)))
          (ValueError ''runtime receipt worker_startup missing authenticated daemon peer evidence'') (Inr ()))))))"

definition require_worker_async_pool_evidence :: "(pyval \<Rightarrow> string) \<Rightarrow> mapping \<Rightarrow> unit result" where
  "require_worker_async_pool_evidence str_of metadata =
     (if \<not> from_worker metadata then Inr ()
      else rbind (require_mapping (vget metadata ''worker_async_pool'' VNone)
          ''runtime receipt missing worker_async_pool evidence'') (\<lambda>pool.
        raise_if (py_str str_of (vget pool ''pool'' (VStr [])) \<noteq> ''worker_async_execution_pool'')
          (ValueError ''runtime receipt worker_async_pool has the wrong pool source'') (
        raise_if (vget pool ''pool_ticket'' VNone = VNone)
          (ValueError ''runtime receipt worker_async_pool missing pool_ticket'') (
        raise_if (vget pool ''state'' VNone = VNone)
          (ValueError ''runtime receipt worker_async_pool missing state'') (Inr ())))))"

definition validate_runtime_receipt ::
  "(pyval \<Rightarrow> string) \<Rightarrow> TransferReceipt \<Rightarrow> string \<Rightarrow> string \<Rightarrow> string \<Rightarrow> string option \<Rightarrow> string option \<Rightarrow>
   unit result" where
  "validate_runtime_receipt str_of receipt intent_id job_id sid source_id destination_id =
     raise_if (tr_intent_id receipt \<noteq> intent_id)
       (ValueError ''runtime receipt intent_id does not match submitted intent'') (
     raise_if (tr_job_id receipt \<noteq> job_id)
       (ValueError ''runtime receipt job_id does not match runtime session'') (
     raise_if (tr_session_id receipt \<noteq> sid)
       (ValueError ''runtime receipt session_id does not match runtime session'') (
     rbind (validated_real_execution_evidence str_of receipt) (\<lambda>_.
     let metadata = tr_metadata receipt in
     rbind (require_runtime_buffer_lifetime_evidence str_of metadata sid source_id destination_id) (\<lambda>_.
     rbind (require_worker_startup_evidence str_of metadata) (\<lambda>_.
     require_worker_async_pool_evidence str_of metadata))))))"

section \<open>What an accepted receipt shows\<close>

lemma accepted_terminal:
  assumes "validated_real_execution_evidence str_of receipt = Inr view"
  shows "terminal_receipt_state (tr_state receipt)"
    and "require_reproduction_evidence str_of (tr_metadata receipt) (Some receipt) = Inr reproduction \<Longrightarrow>
      require_real_execution_view str_of receipt reproduction = Inr ()"
  using assms by (auto simp: validated_real_execution_evidence_def result_simps)

text \<open>The view of the execution a receipt carries, and the registration of a buffer it used.\<close>

definition sub_mapping :: "mapping \<Rightarrow> string \<Rightarrow> mapping" where
  "sub_mapping m k = (case vget m k VNone of VDict d \<Rightarrow> d | _ \<Rightarrow> [])"

definition execution_view :: "TransferReceipt \<Rightarrow> mapping" where
  "execution_view receipt = sub_mapping (sub_mapping (tr_metadata receipt) ''reproduction_evidence'') ''execution''"

definition used_buffer :: "TransferReceipt \<Rightarrow> string \<Rightarrow> mapping" where
  "used_buffer receipt role = sub_mapping (sub_mapping (tr_metadata receipt) ''buffer_lifetime_evidence'') role"

lemma sub_mapping_VDict: "vget m k VNone = VDict d \<Longrightarrow> sub_mapping m k = d"
  by (simp add: sub_mapping_def)

lemma reproduction_Inr:
  "require_reproduction_evidence str_of metadata r = Inr reproduction \<Longrightarrow>
   vget metadata ''reproduction_evidence'' VNone = VDict reproduction"
  by (auto simp: require_reproduction_evidence_def Let_def result_simps)

lemma real_execution_Inr:
  assumes "require_real_execution_view str_of receipt reproduction = Inr ()"
  shows "str_lower_in (vget (sub_mapping reproduction ''execution'') ''completion_source'' (VStr [])) [''worker'', ''backend''] \<and>
    truthy (vget (sub_mapping reproduction ''execution'') ''executed'' (VBool False)) \<and>
    (tr_state receipt = COMPLETE \<longrightarrow>
       truthy (vget (sub_mapping reproduction ''execution'') ''verified'' (VBool False)) \<and>
       py_int (vor (vget (sub_mapping reproduction ''execution'') ''verified_bytes'' (VInt 0)) (VInt 0)) =
         Inr (tr_bytes_total receipt) \<and>
       truthy (vget (sub_mapping reproduction ''execution'') ''content_match'' (VBool False)))"
  using assms
  by (auto simp: require_real_execution_view_def result_simps sub_mapping_VDict split: if_splits)

lemma buffer_record_Inr:
  assumes "require_runtime_buffer_record str_of v sid (Some i) label = Inr ()"
  shows "\<exists>r registration metadata. v = VDict r \<and> py_str str_of (vget r ''buffer_id'' VNone) = i \<and>
    vget r ''registration'' VNone = VDict registration \<and> vget registration ''metadata'' VNone = VDict metadata \<and>
    py_str str_of (vget metadata ''runtime_session_id'' VNone) = sid"
  using assms by (auto simp: require_runtime_buffer_record_def Let_def result_simps)

end
