(* ===== verification/Runtime_Registry.thy ===== *)
theory Runtime_Registry
  imports Runtime_Buffers
begin

text \<open>
  The buffer registry of a runtime session: what every registration, cleanup and rollback keeps,
  whatever the daemon answers and whether or not the call raises, and what a cleanup leaves behind.
\<close>

section \<open>Objects keep their identity\<close>

definition same_ids :: "Memory \<Rightarrow> Memory \<Rightarrow> bool" where
  "same_ids m m' =
     (length (mm_buffers m) \<le> length (mm_buffers m') \<and>
      (\<forall>r < length (mm_buffers m). cb_buffer_id (mm_buffers m' ! r) = cb_buffer_id (mm_buffers m ! r) \<and>
         cb_job_id (mm_buffers m' ! r) = cb_job_id (mm_buffers m ! r)))"

lemma same_ids_refl [simp]: "same_ids m m"
  by (simp add: same_ids_def)

lemma same_ids_trans: "same_ids m m' \<Longrightarrow> same_ids m' m'' \<Longrightarrow> same_ids m m''"
  by (auto simp: same_ids_def)

lemma keeps_set_cpu:
  assumes "\<And>b. cb_buffer_id (f b) = cb_buffer_id b" "\<And>b. cb_job_id (f b) = cb_job_id b"
  shows "keeps (same_ids m0) (set_cpu r f)"
  unfolding set_cpu_def
proof (rule keeps_emodify)
  fix m assume "same_ids m0 m"
  then show "same_ids m0 (m\<lparr>mm_buffers := (mm_buffers m)[r := f (mm_buffers m ! r)]\<rparr>)"
    by (cases "r < length (mm_buffers m)") (auto simp: same_ids_def nth_list_update assms)
qed

lemma keeps_new_cpu: "keeps (same_ids m0) (new_cpu b)"
  unfolding new_cpu_def by (intro keeps_rules) (auto simp: same_ids_def nth_append)

lemma keeps_shm_create: "keeps (same_ids m0) (shm_create name n)"
  unfolding shm_create_def by (intro keeps_rules) (auto simp: same_ids_def)

lemma keeps_shm_unlink: "keeps (same_ids m0) (shm_unlink name)"
  unfolding shm_unlink_def by (intro keeps_rules) (auto simp: same_ids_def)

lemma keeps_cpu_at: "keeps I (cpu_at r)"
  unfolding cpu_at_def by (intro keeps_rules)

lemma keeps_cpu_view: "keeps I (cpu_view r)"
  unfolding cpu_view_def by (intro keeps_rules keeps_cpu_at)

lemma keeps_cpu_address: "keeps I (cpu_address backend r)"
  unfolding cpu_address_def by (intro keeps_rules keeps_cpu_view keeps_cpu_at)

lemma keeps_native: "keeps I (native failure)"
  unfolding native_def by (intro keeps_rules)

lemma keeps_unregister: "keeps (same_ids m0) (unregister_from_cuda backend r)"
  unfolding unregister_from_cuda_def
  by (intro keeps_rules keeps_cpu_at keeps_native keeps_set_cpu) simp_all

lemma keeps_cpu_close: "keeps (same_ids m0) (cpu_close backend r)"
  unfolding cpu_close_def by (intro keeps_rules keeps_cpu_at keeps_unregister keeps_set_cpu) simp_all

lemma keeps_cpu_unlink: "keeps (same_ids m0) (cpu_unlink r)"
  unfolding cpu_unlink_def by (intro keeps_rules keeps_cpu_at keeps_shm_unlink keeps_set_cpu) simp_all

lemma keeps_cpu_release: "keeps (same_ids m0) (cpu_release backend r)"
  unfolding cpu_release_def by (intro keeps_rules keeps_cpu_at keeps_cpu_close keeps_cpu_unlink)

lemma keeps_cpu_allocate: "keeps (same_ids m0) (cpu_allocate uuid i job n prefix)"
  unfolding cpu_allocate_def by (intro keeps_rules keeps_shm_create keeps_new_cpu)

lemmas keeps_memory = keeps_cpu_at keeps_cpu_address keeps_cpu_close keeps_cpu_release keeps_cpu_allocate

section \<open>The registry\<close>

definition entry_ok :: "Memory \<Rightarrow> string \<Rightarrow> int option \<Rightarrow> string \<times> ExecutableBuffer \<Rightarrow> bool" where
  "entry_ok m job gpu e =
     (case e of (i, b) \<Rightarrow> buffer_ids_of b m = (i, job) \<and>
        (case b of CpuBuffer r \<Rightarrow> r < length (mm_buffers m) | CudaBuffer _ g \<Rightarrow> gpu = Some (gb_device_index g)))"

lemma entry_ok_later:
  "entry_ok m job gpu e \<Longrightarrow> same_ids m m' \<Longrightarrow> gpu = None \<or> gpu' = gpu \<Longrightarrow> entry_ok m' job gpu' e"
  by (auto simp: entry_ok_def same_ids_def buffer_ids_of_def split: ExecutableBuffer.splits prod.splits)

lemma entries_later:
  "\<forall>e \<in> A. entry_ok m job gpu e \<Longrightarrow> same_ids m m' \<Longrightarrow> \<forall>e \<in> A. entry_ok m' job gpu e"
  by (blast intro: entry_ok_later)

text \<open>\<open>X\<close> holds the ids that may be marked as owned before they are in the registry.\<close>

definition registry_in :: "string set \<Rightarrow> 'd Runtime \<Rightarrow> bool" where
  "registry_in X s =
     (dict_wf (rt_buffers s) \<and> dict_wf (rt_fingerprints s) \<and>
      set (rt_registered_buffer_ids s) = set (dkeys (rt_fingerprints s)) \<and>
      set (rt_registered_buffer_ids s) \<subseteq> set (dkeys (rt_buffers s)) \<and>
      set (rt_owned_cpu_buffer_ids s) \<subseteq> set (dkeys (rt_buffers s)) \<union> X \<and>
      (\<forall>e \<in> set (rt_buffers s). entry_ok (rt_memory s) (rt_job_id s) (rt_target_gpu s) e))"

abbreviation registry_ok :: "'d Runtime \<Rightarrow> bool" where
  "registry_ok s \<equiv> registry_in {} s"

text \<open>A session that has gone on from a given point: objects, job and target GPU stay.\<close>

definition later :: "'d Runtime \<Rightarrow> 'd Runtime \<Rightarrow> bool" where
  "later s t =
     (same_ids (rt_memory s) (rt_memory t) \<and> rt_job_id t = rt_job_id s \<and> rt_closed t = rt_closed s \<and>
      (rt_target_gpu s = None \<or> rt_target_gpu t = rt_target_gpu s) \<and>
      set (rt_owned_cpu_buffer_ids t) \<subseteq> set (rt_owned_cpu_buffer_ids s))"

lemma later_refl [simp]: "later s s"
  by (simp add: later_def)

lemma later_trans: "later s t \<Longrightarrow> later t u \<Longrightarrow> later s u"
  by (auto simp: later_def intro: same_ids_trans)

text \<open>\<open>K\<close> holds ids that are and stay in the registry.\<close>

definition running :: "string set \<Rightarrow> string set \<Rightarrow> 'd Runtime \<Rightarrow> 'd Runtime \<Rightarrow> bool" where
  "running K X s0 s = (registry_in X s \<and> later s0 s \<and> K \<subseteq> set (dkeys (rt_buffers s)))"

lemma running_memory:
  "running K X s0 s \<Longrightarrow> same_ids (rt_memory s) m \<Longrightarrow> running K X s0 (s\<lparr>rt_memory := m\<rparr>)"
  unfolding running_def registry_in_def later_def
  by (elim conjE, intro conjI) (simp_all add: entries_later, auto intro: same_ids_trans)

lemma keeps_on_memory:
  assumes "\<And>m0. keeps (same_ids m0) m"
  shows "keeps (running K X s0) (on_memory m)"
proof -
  have "same_ids (rt_memory s) (snd (m (rt_memory s)))" for s :: "'d Runtime"
    using assms [of "rt_memory s"] by (simp add: keeps_def)
  then show ?thesis
    by (auto simp: keeps_def on_memory_def case_prod_beta intro: running_memory)
qed

lemma keeps_on_daemon: "keeps (running K X s0) (on_daemon m)"
  by (auto simp: keeps_def running_def registry_in_def later_def on_daemon_def split: prod.splits)

lemma keeps_session: "keeps (running K X s0) require_open" "keeps (running K X s0) session_id"
    "keeps (running K X s0) (require_ok message response)"
  unfolding require_open_def session_id_def require_ok_def by (intro keeps_rules)+

lemma keeps_records: "keeps (running K X s0) (emodify (\<lambda>s. s\<lparr>rt_lifecycle_records := f s\<rparr>))"
  by (rule keeps_emodify) (auto simp: running_def registry_in_def later_def)

lemma keeps_record_cleanup: "keeps (running K X s0) (record_cleanup i ok r)"
  unfolding record_cleanup_def by (rule keeps_records)

lemma set_dkeys_delete: "set (dkeys (AList.delete i d)) = set (dkeys d) - {i}"
  by (simp add: AList.delete_keys image_def AList.delete_eq) force

lemma keeps_forget: "keeps (running {} X s0) (forget_runtime_buffer i)"
  unfolding forget_runtime_buffer_def
proof (rule keeps_emodify)
  fix s :: "'a Runtime"
  assume "running {} X s0 s"
  moreover have "set (AList.delete i (rt_buffers s)) \<subseteq> set (rt_buffers s)"
    by (auto simp: AList.delete_eq)
  ultimately show "running {} X s0 (s\<lparr>rt_registered_buffer_ids := removeAll i (rt_registered_buffer_ids s),
      rt_fingerprints := AList.delete i (rt_fingerprints s), rt_buffers := AList.delete i (rt_buffers s),
      rt_owned_cpu_buffer_ids := removeAll i (rt_owned_cpu_buffer_ids s)\<rparr>)"
    unfolding running_def registry_in_def later_def
    by (elim conjE, intro conjI) (auto simp: set_dkeys_delete simp del: set_map)
qed

lemma keeps_local_cleanup: "keeps (running K X s0) (cleanup_local_cpu_buffer backend i r reason owned)"
  unfolding cleanup_local_cpu_buffer_def
  by (intro keeps_rules keeps_on_memory keeps_memory)

lemma keeps_local_release: "keeps (running K X s0) (cleanup_local_buffer_for_release backend i b reason owned)"
  unfolding cleanup_local_buffer_for_release_def
  by (auto intro!: keeps_rules keeps_local_cleanup split: option.split ExecutableBuffer.split)

lemma keeps_daemon_cleanup: "keeps (running K X s0) (cleanup_daemon_registered_buffer client i reason force)"
  unfolding cleanup_daemon_registered_buffer_def by (intro keeps_rules keeps_on_daemon keeps_session)

lemma keeps_retention: "keeps (running K X s0) (retain_runtime_buffer_cleanup str_of client i b reason owned local)"
  unfolding retain_runtime_buffer_cleanup_def record_buffer_cleanup_retention_def Let_def
  by (intro keeps_rules keeps_on_daemon keeps_session)

lemma keeps_settle: "keeps (running K X s0) (settle_cleanup str_of now i reason daemon local retention)"
  unfolding settle_cleanup_def Let_def
  by (auto intro!: keeps_rules keeps_record_cleanup split: sum.split option.split)

lemma keeps_cleanup: "keeps (running {} X s0) (cleanup_runtime_buffer str_of backend client now i reason force)"
  unfolding cleanup_runtime_buffer_def
  by (auto intro!: keeps_rules keeps_session keeps_daemon_cleanup keeps_forget keeps_local_release keeps_retention
      keeps_settle split: prod.split sum.split)

lemma keeps_bind_target: "keeps (running K X s0) (bind_target_gpu device)"
proof -
  have "running K X s0 (s\<lparr>rt_target_gpu := Some device\<rparr>)"
    if "running K X s0 s" "rt_target_gpu s = None" for s
    using that unfolding running_def registry_in_def later_def
    by (auto simp: entry_ok_def split: ExecutableBuffer.splits prod.splits)
  then show ?thesis
    unfolding bind_target_gpu_def
    by (auto simp: keeps_def effect_defs require_open_def split: option.split)
qed

lemma keeps_open_session: "keeps (running K X s0) (open_session str_of client)"
proof -
  have fields: "running K X s0 (s\<lparr>rt_relay_gpus := a\<rparr>) = running K X s0 s"
    "running K X s0 (s\<lparr>rt_profile_bootstrapped := b\<rparr>) = running K X s0 s"
    "running K X s0 (s\<lparr>rt_session_id := c\<rparr>) = running K X s0 s" for a b c s
    by (simp_all add: running_def registry_in_def later_def)
  show ?thesis
    unfolding open_session_def Let_def
    by (auto intro!: keeps_rules keeps_session keeps_on_daemon simp: fields split: option.split prod.split)
qed

lemma keeps_pending_buffer: "keeps (running K X s0) (register_pending_buffer str_of client entry)"
  unfolding register_pending_buffer_def buffer_registration_def Let_def
  by (auto intro!: keeps_rules keeps_session keeps_on_daemon keeps_on_memory keeps_cpu_at
      split: prod.split ExecutableBuffer.split)

lemma keeps_note_registered:
  assumes "fst entry \<in> K"
  shows "keeps (running K X s0) (note_registered now entry g)"
proof -
  have "running K X s0 (s\<lparr>rt_registered_buffer_ids := set_add i (rt_registered_buffer_ids s),
      rt_fingerprints := AList.update i p (rt_fingerprints s)\<rparr>)" if "running K X s0 s" "i \<in> K" for s i p
    using that unfolding running_def registry_in_def later_def
    by (auto simp: set_add_def AList.update_keys dom_update simp del: set_map)
  then show ?thesis
    using assms unfolding note_registered_def
    by (auto intro!: keeps_rules keeps_records split: prod.split)
qed

lemma keeps_pending_loop:
  "fst ` set entries \<subseteq> K \<Longrightarrow>
   keeps (running K X s0) (register_pending_loop str_of client now entries registered_now)"
proof (induction entries arbitrary: registered_now)
  case Nil
  then show ?case by (simp add: keeps_rules)
next
  case (Cons entry entries)
  then show ?case
    by (auto intro!: keeps_rules keeps_pending_buffer keeps_note_registered split: sum.split option.split)
qed

section \<open>What a cleanup changes\<close>

text \<open>Two states that differ at most in the memory, the daemon and the lifecycle records.\<close>

definition outside :: "'d Runtime \<Rightarrow> 'd Runtime \<Rightarrow> bool" where
  "outside s t = (t\<lparr>rt_memory := rt_memory s, rt_daemon := rt_daemon s,
                    rt_lifecycle_records := rt_lifecycle_records s\<rparr> = s)"

lemma outside_refl [simp]: "outside s s"
  by (simp add: outside_def)

lemma outsideD:
  "outside s t \<Longrightarrow> rt_buffers t = rt_buffers s \<and> rt_registered_buffer_ids t = rt_registered_buffer_ids s \<and>
     rt_fingerprints t = rt_fingerprints s \<and> rt_owned_cpu_buffer_ids t = rt_owned_cpu_buffer_ids s \<and>
     rt_closed t = rt_closed s \<and> rt_session_id t = rt_session_id s \<and> rt_active_intent_ids t = rt_active_intent_ids s \<and>
     rt_job_id t = rt_job_id s \<and> rt_target_gpu t = rt_target_gpu s"
  by (cases s; cases t) (simp add: outside_def)

lemma outside_memory: "keeps (outside s0) (on_memory m)"
  by (auto simp: keeps_def on_memory_def outside_def split: prod.split)

lemma outside_daemon: "keeps (outside s0) (on_daemon m)"
  by (auto simp: keeps_def on_daemon_def outside_def split: prod.split)

lemma outside_require_ok: "keeps I (require_ok message response)"
  unfolding require_ok_def by (intro keeps_rules)

lemma outside_daemon_cleanup: "keeps (outside s0) (cleanup_daemon_registered_buffer client i reason force)"
  unfolding cleanup_daemon_registered_buffer_def by (intro keeps_rules outside_daemon outside_require_ok)

lemma outside_local_release: "keeps (outside s0) (cleanup_local_buffer_for_release backend i b reason owned)"
  unfolding cleanup_local_buffer_for_release_def cleanup_local_cpu_buffer_def
  by (auto intro!: keeps_rules outside_memory split: option.split ExecutableBuffer.split)

lemma outside_retention: "keeps (outside s0) (retain_runtime_buffer_cleanup str_of client i b reason owned local)"
  unfolding retain_runtime_buffer_cleanup_def record_buffer_cleanup_retention_def Let_def
  by (intro keeps_rules outside_daemon outside_require_ok)

lemma outside_settle: "keeps (outside s0) (settle_cleanup str_of now i reason daemon local retention)"
proof -
  have "keeps (outside s0) (record_cleanup i ok r)" for ok r
    unfolding record_cleanup_def by (rule keeps_emodify) (simp add: outside_def)
  then show ?thesis
    unfolding settle_cleanup_def Let_def by (auto intro!: keeps_rules split: sum.split option.split)
qed

definition forgot :: "string \<Rightarrow> 'd Runtime \<Rightarrow> 'd Runtime" where
  "forgot i s = s\<lparr>rt_registered_buffer_ids := removeAll i (rt_registered_buffer_ids s),
                 rt_fingerprints := AList.delete i (rt_fingerprints s),
                 rt_buffers := AList.delete i (rt_buffers s),
                 rt_owned_cpu_buffer_ids := removeAll i (rt_owned_cpu_buffer_ids s)\<rparr>"

lemma forgot_outside: "outside s t \<Longrightarrow> outside (forgot i s) (forgot i t)"
  using outsideD [of s t] by (cases s; cases t) (simp add: forgot_def outside_def)

text \<open>
  A cleanup as four steps: the daemon is asked, the buffer is forgotten, its memory is let go, the
  outcome is settled.
\<close>

definition ask_daemon ::
  "'d DaemonClient \<Rightarrow> string \<Rightarrow> string \<Rightarrow> bool \<Rightarrow> bool \<Rightarrow> ('d Runtime, DaemonResponse result) eff" where
  "ask_daemon client i reason force registered =
     (if registered then eoutcome (cleanup_daemon_registered_buffer client i reason force) else eret (Inr skipped_response))"

lemma ask_daemon_Inr: "\<exists>daemon s1. ask_daemon client i reason force registered s = (Inr daemon, s1) \<and> outside s s1"
proof -
  have "outside s (snd (cleanup_daemon_registered_buffer client i reason force s))"
    using outside_daemon_cleanup [of s] by (simp add: keeps_def)
  then show ?thesis
    by (auto simp: ask_daemon_def effect_defs split: prod.split)
qed

lemma cleanup_runtime_buffer_eq:
  assumes "\<not> rt_closed s"
    and "ask_daemon client i reason force (i \<in> set (rt_registered_buffer_ids s)) s = (Inr daemon, s1)"
  shows "cleanup_runtime_buffer str_of backend client now i reason force s =
     ebind (cleanup_local_buffer_for_release backend i (map_of (rt_buffers s) i) reason
              (i \<in> set (rt_owned_cpu_buffer_ids s))) (\<lambda>local.
     ebind (case daemon of Inl _ \<Rightarrow> eret None
            | Inr _ \<Rightarrow> if i \<in> set (rt_registered_buffer_ids s)
                then retain_runtime_buffer_cleanup str_of client i (map_of (rt_buffers s) i) reason
                       (i \<in> set (rt_owned_cpu_buffer_ids s)) local
                else eret None) (\<lambda>retention.
     settle_cleanup str_of now i reason daemon local retention)) (forgot i s1)"
proof -
  have open_s: "require_open s = (Inr (), s)"
    using assms(1) by (simp add: require_open_def effect_defs)
  show ?thesis
    unfolding cleanup_runtime_buffer_def ask_daemon_def [symmetric]
    by (simp add: ebind_def [of _ _ s] eseq_def open_s eget_def assms(2))
       (simp add: ebind_def [of _ _ s1] forget_runtime_buffer_def emodify_def forgot_def)
qed

lemma cleanup_forgets:
  assumes "\<not> rt_closed s"
  shows "outside (forgot i s) (snd (cleanup_runtime_buffer str_of backend client now i reason force s))"
proof -
  obtain daemon s1 where ask: "ask_daemon client i reason force (i \<in> set (rt_registered_buffer_ids s)) s = (Inr daemon, s1)"
    and s1: "outside s s1"
    using ask_daemon_Inr by blast
  have "keeps (outside (forgot i s)) (ebind (cleanup_local_buffer_for_release backend i b reason owned) (\<lambda>local.
     ebind (case daemon of Inl _ \<Rightarrow> eret None
            | Inr _ \<Rightarrow> if registered then retain_runtime_buffer_cleanup str_of client i b reason owned local
                else eret None) (\<lambda>retention.
     settle_cleanup str_of now i reason daemon local retention)))" for b owned registered
    by (intro keeps_rules outside_local_release outside_settle)
       (auto intro: keeps_rules outside_retention split: sum.split)
  then show ?thesis
    unfolding cleanup_runtime_buffer_eq [OF assms ask]
    using forgot_outside [OF s1] by (simp add: keeps_def)
qed

section \<open>What a failed registration changes\<close>

definition registers :: "string set \<Rightarrow> 'd Runtime \<Rightarrow> bool" where
  "registers A s = (set (rt_registered_buffer_ids s) \<subseteq> A \<and> \<not> rt_closed s)"

lemma registers_mono: "registers A s \<Longrightarrow> A \<subseteq> B \<Longrightarrow> registers B s"
  by (auto simp: registers_def)

lemma registers_memory: "keeps (registers A) (on_memory m)"
  by (auto simp: keeps_def on_memory_def registers_def split: prod.split)

lemma registers_daemon: "keeps (registers A) (on_daemon m)"
  by (auto simp: keeps_def on_daemon_def registers_def split: prod.split)

lemma registers_pending_buffer: "keeps (registers A) (register_pending_buffer str_of client entry)"
  unfolding register_pending_buffer_def buffer_registration_def session_id_def require_ok_def Let_def
  by (auto intro!: keeps_rules registers_daemon registers_memory split: prod.split ExecutableBuffer.split)

lemma registers_note_registered: "fst entry \<in> A \<Longrightarrow> keeps (registers A) (note_registered now entry g)"
  unfolding note_registered_def
  by (cases entry) (auto intro!: keeps_rules simp: registers_def set_add_def)

lemma pending_loop_registers:
  assumes "registers (A \<union> set registered_now) s"
  shows "\<exists>registered failure t. register_pending_loop str_of client now entries registered_now s =
           (Inr (registered, failure), t) \<and> registers (A \<union> set registered) t"
  using assms
proof (induction entries arbitrary: registered_now s)
  case Nil
  then show ?case by (simp add: eret_def)
next
  case (Cons entry entries)
  obtain outcome s1 where step: "register_pending_buffer str_of client entry s = (outcome, s1)" by (cases "register_pending_buffer str_of client entry s")
  have s1: "registers (A \<union> set registered_now) s1"
    using keepsD [OF registers_pending_buffer Cons.prems step] .
  show ?case
  proof (cases outcome)
    case (Inl e)
    with s1 show ?thesis by (simp add: ebind_def eoutcome_def eret_def step)
  next
    case (Inr answer)
    show ?thesis
    proof (cases answer)
      case None
      with Cons.IH [OF s1] Inr show ?thesis by (simp add: ebind_def eoutcome_def step)
    next
      case (Some g)
      obtain noted s2 where noting: "note_registered now entry g s1 = (noted, s2)" by (cases "note_registered now entry g s1")
      have "registers (A \<union> set (registered_now @ [fst entry])) s1"
        using s1 by (rule registers_mono) auto
      then have s2: "registers (A \<union> set (registered_now @ [fst entry])) s2"
        by (intro keepsD [OF registers_note_registered _ noting]) auto
      show ?thesis
      proof (cases noted)
        case (Inl e)
        with s2 Some Inr show ?thesis by (simp add: ebind_def eoutcome_def eret_def step noting)
      next
        case Inr': (Inr u)
        with Cons.IH [OF s2] Some Inr show ?thesis by (simp add: ebind_def eoutcome_def step noting)
      qed
    qed
  qed
qed

lemma cleanup_all_registers:
  assumes "registers (A \<union> set xs) s"
  shows "\<exists>t. efor (\<lambda>i. eignore (cleanup_runtime_buffer str_of backend client now i reason force)) xs s =
           (Inr (), t) \<and> registers A t"
  using assms
proof (induction xs arbitrary: s)
  case Nil
  then show ?case by (simp add: eret_def)
next
  case (Cons i xs)
  let ?t = "snd (cleanup_runtime_buffer str_of backend client now i reason force s)"
  have "outside (forgot i s) ?t"
    using Cons.prems by (intro cleanup_forgets) (simp add: registers_def)
  then have "registers (A \<union> set xs) ?t"
    using Cons.prems outsideD [of "forgot i s" ?t] by (auto simp: registers_def forgot_def)
  from Cons.IH [OF this] show ?case
    by (simp add: eseq_def ebind_def eignore_def)
qed

lemma failed_registration:
  assumes "\<not> rt_closed s" "register_pending_buffers str_of backend client now s = (Inl e, t)"
  shows "set (rt_registered_buffer_ids t) \<subseteq> set (rt_registered_buffer_ids s)"
proof (cases "rt_session_id s")
  case None
  then show ?thesis
    using assms by (auto simp: register_pending_buffers_def require_open_def session_id_def effect_defs)
next
  case (Some sid)
  have "registers (set (rt_registered_buffer_ids s) \<union> set []) s"
    using assms(1) by (simp add: registers_def)
  then obtain registered failure s1 where loop: "register_pending_loop str_of client now (rt_buffers s) [] s =
      (Inr (registered, failure), s1)" and s1: "registers (set (rt_registered_buffer_ids s) \<union> set registered) s1"
    using pending_loop_registers by blast
  then have "registers (set (rt_registered_buffer_ids s) \<union> set (rev registered)) s1" by simp
  from cleanup_all_registers [OF this] obtain u
    where all: "efor (\<lambda>i. eignore (cleanup_runtime_buffer str_of backend client now i
        ''runtime_buffer_registration_failed'' True)) (rev registered) s1 = (Inr (), u)"
      and u: "registers (set (rt_registered_buffer_ids s)) u" by blast
  have "t = u"
    using assms(2) Some
    by (cases failure)
       (auto simp: register_pending_buffers_def require_open_def session_id_def ebind_def eseq_def eget_def
          eraise_if_def eret_def eraise_def assms(1) loop all)
  with u show ?thesis by (simp add: registers_def)
qed

section \<open>Every operation keeps the registry\<close>

lemma running_weaken: "running K X s0 s \<Longrightarrow> L \<subseteq> K \<Longrightarrow> running L X s0 s"
  by (auto simp: running_def)

lemma keeps_register_pending: "keeps (running {} X s0) (register_pending_buffers str_of backend client now)"
proof -
  have "keeps (running {} X s0) (ebind (eget rt_buffers) (\<lambda>entries.
     ebind (register_pending_loop str_of client now entries []) (\<lambda>(registered_now, failure).
     case failure of
       None \<Rightarrow> eret ()
     | Some e \<Rightarrow>
         eseq (efor (\<lambda>i. eignore (cleanup_runtime_buffer str_of backend client now i
                 ''runtime_buffer_registration_failed'' True)) (rev registered_now)) (eraise e))))"
    (is "keeps _ (ebind _ (\<lambda>entries. ebind (?loop entries) ?rest))")
  proof -
    have rest: "keeps (running {} X s0) (?rest p)" for p
      by (auto intro!: keeps_rules keeps_cleanup split: prod.split option.split)
    have "running {} X s0 (snd (ebind (?loop (rt_buffers s)) ?rest s))" if s: "running {} X s0 s" for s
    proof -
      obtain r t where loop: "?loop (rt_buffers s) s = (r, t)" by (cases "?loop (rt_buffers s) s")
      have "running (set (dkeys (rt_buffers s))) X s0 s" using s by (simp add: running_def)
      from keepsD [OF keeps_pending_loop this loop] have "running (set (dkeys (rt_buffers s))) X s0 t" by simp
      then have t: "running {} X s0 t" by (rule running_weaken) simp
      with rest show ?thesis by (cases r) (auto simp: ebind_def loop keeps_def)
    qed
    then show ?thesis by (simp add: keeps_def ebind_def [of "eget rt_buffers"] eget_def)
  qed
  then show ?thesis
    unfolding register_pending_buffers_def
    by (rule keeps_eseq [OF keeps_session(1) keeps_eseq [OF keeps_session(2)]])
qed

lemma registers_open_session: "keeps (registers A) (open_session str_of client)"
  unfolding open_session_def require_open_def require_ok_def Let_def
  by (auto intro!: keeps_rules registers_daemon simp: registers_def split: option.split prod.split)

lemma keeps_try_register: "keeps (running {} X s0) (try_register str_of backend client now)"
  unfolding try_register_def by (intro keeps_rules keeps_open_session keeps_register_pending)

lemma failed_try_register:
  assumes "\<not> rt_closed s" "try_register str_of backend client now s = (Inl e, t)"
  shows "set (rt_registered_buffer_ids t) \<subseteq> set (rt_registered_buffer_ids s)"
proof -
  let ?A = "set (rt_registered_buffer_ids s)"
  have s: "registers ?A s" using assms(1) by (simp add: registers_def)
  obtain r s1 where opened: "open_session str_of client s = (r, s1)" by (cases "open_session str_of client s")
  have s1: "registers ?A s1" by (rule keepsD [OF registers_open_session s opened])
  show ?thesis
  proof (cases r)
    case (Inl e')
    with assms(2) s1 opened show ?thesis
      by (auto simp: try_register_def ebind_def eget_def ewhen_def eseq_def eret_def registers_def split: if_splits)
  next
    case (Inr sid)
    then have "register_pending_buffers str_of backend client now s1 = (Inl e, t)"
      using assms(2) opened
      by (auto simp: try_register_def ebind_def eget_def ewhen_def eseq_def eret_def split: if_splits)
    with s1 failed_registration [OF _ this] show ?thesis by (auto simp: registers_def)
  qed
qed

lemma set_update_dict: "set (AList.update i b d) \<subseteq> insert (i, b) (set d)"
  by (induction d) auto

lemma running_restore:
  assumes "running {} X s0 t"
    and "existing = None \<Longrightarrow> i \<notin> set (rt_registered_buffer_ids t) \<and> (i \<in> set (rt_owned_cpu_buffer_ids t) \<longrightarrow> i \<in> X)"
    and "\<And>b. existing = Some b \<Longrightarrow> entry_ok (rt_memory t) (rt_job_id t) (rt_target_gpu t) (i, b)"
  shows "running {} X s0 (snd (restore_buffer i existing t))"
proof (cases existing)
  case None
  have "set (AList.delete i (rt_buffers t)) \<subseteq> set (rt_buffers t)" by (auto simp: AList.delete_eq)
  with None assms(1) assms(2) [OF None] show ?thesis
    unfolding running_def registry_in_def later_def restore_buffer_def emodify_def
    by (elim conjE, intro conjI) (auto simp: set_dkeys_delete simp del: set_map)
next
  case (Some b)
  have "set (AList.update i b (rt_buffers t)) \<subseteq> insert (i, b) (set (rt_buffers t))"
    by (rule set_update_dict)
  with Some assms(1) assms(3) [OF Some] show ?thesis
    unfolding running_def registry_in_def later_def restore_buffer_def emodify_def
    by (elim conjE, intro conjI) (auto simp: AList.update_keys dom_update simp del: set_map)
qed

text \<open>A buffer that exists: its reference is an object of the process.\<close>

definition exists_in :: "Memory \<Rightarrow> ExecutableBuffer \<Rightarrow> bool" where
  "exists_in m b = (case b of CpuBuffer r \<Rightarrow> r < length (mm_buffers m) | CudaBuffer _ _ \<Rightarrow> True)"

lemma keeps_reading:
  assumes "\<And>I. keeps I m"
  shows "keeps J (on_memory m)"
proof -
  have "snd (m u) = u" for u
    using assms [of "\<lambda>t. t = u"] by (simp add: keeps_def)
  then show ?thesis by (simp add: keeps_def on_memory_def case_prod_beta)
qed

lemma keeps_validate: "keeps J (validate_runtime_buffer_backing backend b)"
  unfolding validate_runtime_buffer_backing_def
  by (auto intro!: keeps_rules keeps_reading keeps_cpu_at keeps_cpu_address split: ExecutableBuffer.split)

lemma keeps_check: "keeps J (check_runtime_buffer backend b)"
  unfolding check_runtime_buffer_def require_open_def Let_def
  by (intro keeps_rules keeps_validate)

lemma check_Inr:
  assumes "check_runtime_buffer backend b s = (Inr (i, existing), t)"
  shows "t = s \<and> \<not> rt_closed s \<and> buffer_ids_of b (rt_memory s) = (i, rt_job_id s) \<and> existing = map_of (rt_buffers s) i"
proof -
  have same: "t = s" using keepsD [OF keeps_check [of "\<lambda>t. t = s"] _ assms] by simp
  obtain u v where "validate_runtime_buffer_backing backend b s = (Inr u, v)" "\<not> rt_closed s"
      and rest: "job_id_of b (rt_memory v) = rt_job_id v" "i = buffer_id_of b (rt_memory v)" "existing = map_of (rt_buffers v) i"
    using assms by (auto simp: check_runtime_buffer_def require_open_def effect_iffs Let_def)
  moreover have "v = s" using keepsD [OF keeps_validate [of "\<lambda>t. t = s"] _ calculation(1)] by simp
  ultimately show ?thesis using same by (simp add: prod_eq_iff)
qed

lemma bind_target_Inr:
  "bind_target_gpu device s = (Inr u, t) \<Longrightarrow> rt_target_gpu t = Some device \<and> t = s\<lparr>rt_target_gpu := Some device\<rparr>"
  by (auto simp: bind_target_gpu_def require_open_def effect_defs split: option.splits if_splits)

lemma running_later: "running K X s0 s \<Longrightarrow> running K X s s"
  by (simp add: running_def)

lemma running_from: "running K X s0 s \<Longrightarrow> running L X s t \<Longrightarrow> running L X s0 t"
  by (auto simp: running_def intro: later_trans)

lemma running_add:
  assumes "running {} X s0 s" "entry_ok (rt_memory s) (rt_job_id s) (rt_target_gpu s) (i, b)"
  shows "running {} X s0 (s\<lparr>rt_buffers := AList.update i b (rt_buffers s)\<rparr>)"
  using running_restore [OF assms(1), of "Some b" i] assms(2)
  by (simp add: restore_buffer_def emodify_def)

lemma register_runtime_buffer_keeps:
  assumes "running {} X s0 s" "exists_in (rt_memory s) b"
    and "register_runtime_buffer str_of backend client now b s = (r, t)"
  shows "running {} X s0 t"
proof -
  obtain c s1 where check: "check_runtime_buffer backend b s = (c, s1)" by (cases "check_runtime_buffer backend b s")
  have "s1 = s" using keepsD [OF keeps_check [of "\<lambda>t. t = s"] _ check] by simp
  show ?thesis
  proof (cases c)
    case (Inl e)
    with assms check \<open>s1 = s\<close> show ?thesis by (simp add: register_runtime_buffer_def ebind_def)
  next
    case (Inr found)
    obtain i existing where found: "found = (i, existing)" by (cases found)
    have chk: "\<not> rt_closed s" "buffer_ids_of b (rt_memory s) = (i, rt_job_id s)" "existing = map_of (rt_buffers s) i"
      using check_Inr [of backend b s i existing s1] check Inr found by auto
    let ?bind = "case b of CudaBuffer _ g \<Rightarrow> bind_target_gpu (gb_device_index g) | CpuBuffer _ \<Rightarrow> eret ()"
    obtain w s2 where bound: "?bind s = (w, s2)" by (cases "?bind s")
    have bind_keeps: "keeps (running {} X z) ?bind" for z
      by (cases b) (simp_all add: keeps_bind_target keeps_rules)
    from keepsD [OF this assms(1) bound] have s2: "running {} X s0 s2" .
    have run: "ebind ?bind (\<lambda>_. eseq (emodify (\<lambda>s. s\<lparr>rt_buffers := AList.update i b (rt_buffers s)\<rparr>)) (
        ecatch (try_register str_of backend client now) (\<lambda>e. eseq (restore_buffer i existing) (eraise e)))) s = (r, t)"
      using assms(3) check \<open>s1 = s\<close> Inr found by (simp add: register_runtime_buffer_def ebind_def [of _ _ s] eseq_def)
    show ?thesis
    proof (cases w)
      case (Inl e)
      with run bound s2 show ?thesis by (simp add: ebind_def)
    next
      case w: (Inr u)
      have fields: "rt_buffers s2 = rt_buffers s" "rt_memory s2 = rt_memory s" "rt_job_id s2 = rt_job_id s"
          "rt_closed s2 = rt_closed s" "rt_registered_buffer_ids s2 = rt_registered_buffer_ids s"
          "rt_owned_cpu_buffer_ids s2 = rt_owned_cpu_buffer_ids s"
        and gpu: "case b of CudaBuffer _ g \<Rightarrow> rt_target_gpu s2 = Some (gb_device_index g) | CpuBuffer _ \<Rightarrow> True"
        using bound w by (auto simp: eret_def split: ExecutableBuffer.splits dest!: bind_target_Inr)
      let ?s3 = "s2\<lparr>rt_buffers := AList.update i b (rt_buffers s2)\<rparr>"
      have "entry_ok (rt_memory s2) (rt_job_id s2) (rt_target_gpu s2) (i, b)"
        using chk(2) assms(2) gpu by (auto simp: entry_ok_def exists_in_def fields split: ExecutableBuffer.splits)
      from running_add [OF s2 this] have s3: "running {} X s0 ?s3" .
      obtain v s4 where body: "try_register str_of backend client now ?s3 = (v, s4)"
        by (cases "try_register str_of backend client now ?s3")
      have s4: "running {} X ?s3 s4" by (rule keepsD [OF keeps_try_register running_later [OF s3] body])
      then have s04: "running {} X s0 s4" by (rule running_from [OF s3])
      show ?thesis
      proof (cases v)
        case (Inl e)
        have t: "t = snd (restore_buffer i existing s4)"
          using run bound w body Inl
          by (simp add: ebind_def eseq_def emodify_def ecatch_def eraise_def restore_buffer_def)
        have registered: "set (rt_registered_buffer_ids s4) \<subseteq> set (rt_registered_buffer_ids s)"
          using failed_try_register [of ?s3 str_of backend client now e s4] body Inl chk(1) fields by simp
        have owned: "set (rt_owned_cpu_buffer_ids s4) \<subseteq> set (rt_owned_cpu_buffer_ids s)"
          using s4 fields by (simp add: running_def later_def)
        have "i \<notin> set (rt_registered_buffer_ids s4) \<and> (i \<in> set (rt_owned_cpu_buffer_ids s4) \<longrightarrow> i \<in> X)"
          if "existing = None"
        proof -
          have "i \<notin> set (dkeys (rt_buffers s))" using that chk(3) by (simp add: map_of_eq_None_iff)
          with assms(1) registered owned show ?thesis by (simp only: running_def registry_in_def) blast
        qed
        moreover have "entry_ok (rt_memory s4) (rt_job_id s4) (rt_target_gpu s4) (i, b')" if "existing = Some b'" for b'
        proof -
          have "(i, b') \<in> set (rt_buffers s)" using that chk(3) by (simp add: map_of_SomeD)
          then have e: "entry_ok (rt_memory s) (rt_job_id s) (rt_target_gpu s) (i, b')"
            using assms(1) by (auto simp: running_def registry_in_def)
          have "running {} X s s2"
            by (rule keepsD [OF bind_keeps running_later [OF assms(1)] bound])
          then have "later s s4" using s4 by (auto simp: running_def later_def intro: same_ids_trans)
          with e show ?thesis by (auto simp: later_def intro: entry_ok_later)
        qed
        ultimately show ?thesis
          unfolding t by (intro running_restore [OF s04])
      next
        case (Inr u')
        with run bound w body s04 show ?thesis by (simp add: ebind_def eseq_def emodify_def ecatch_def)
      qed
    qed
  qed
qed

definition holds_buffers :: "(string, ExecutableBuffer) dict \<Rightarrow> 'd Runtime \<Rightarrow> bool" where
  "holds_buffers B s = (rt_buffers s = B)"

lemma holds_memory: "keeps (holds_buffers B) (on_memory m)"
  by (auto simp: keeps_def on_memory_def holds_buffers_def split: prod.split)

lemma holds_daemon: "keeps (holds_buffers B) (on_daemon m)"
  by (auto simp: keeps_def on_daemon_def holds_buffers_def split: prod.split)

lemma holds_open_session: "keeps (holds_buffers B) (open_session str_of client)"
  unfolding open_session_def require_open_def require_ok_def Let_def
  by (auto intro!: keeps_rules holds_daemon simp: holds_buffers_def split: option.split prod.split)

lemma holds_pending_loop: "keeps (holds_buffers B) (register_pending_loop str_of client now entries registered_now)"
proof (induction entries arbitrary: registered_now)
  case Nil
  then show ?case by (simp add: keeps_rules)
next
  case (Cons entry entries)
  have "keeps (holds_buffers B) (register_pending_buffer str_of client entry)"
    unfolding register_pending_buffer_def buffer_registration_def session_id_def require_ok_def Let_def
    by (auto intro!: keeps_rules holds_daemon holds_memory split: prod.split ExecutableBuffer.split)
  moreover have "keeps (holds_buffers B) (note_registered now entry g)" for g
    unfolding note_registered_def by (cases entry) (auto intro!: keeps_rules simp: holds_buffers_def)
  ultimately show ?case
    using Cons by (auto intro!: keeps_rules split: sum.split option.split)
qed

lemma registered_buffers_stay:
  assumes "try_register str_of backend client now s = (Inr u, t)"
  shows "rt_buffers t = rt_buffers s"
proof (cases "rt_target_gpu s")
  case None
  with assms show ?thesis by (auto simp: try_register_def effect_iffs ewhen_def)
next
  case (Some gpu)
  then obtain sid s1 where opened: "open_session str_of client s = (Inr sid, s1)"
      and pending: "register_pending_buffers str_of backend client now s1 = (Inr u, t)"
    using assms by (auto simp: try_register_def effect_iffs ewhen_def)
  have s1: "rt_buffers s1 = rt_buffers s"
    using keepsD [OF holds_open_session _ opened] by (auto simp: holds_buffers_def)
  obtain registered where "register_pending_loop str_of client now (rt_buffers s1) [] s1 = (Inr (registered, None), t)"
    using pending
    by (auto simp: register_pending_buffers_def require_open_def session_id_def effect_iffs
        split: option.splits)
  from keepsD [OF holds_pending_loop [of "rt_buffers s1"] _ this] have "rt_buffers t = rt_buffers s1"
    by (simp add: holds_buffers_def)
  with s1 show ?thesis by simp
qed

lemma registered_buffer_known:
  assumes "register_runtime_buffer str_of backend client now b s = (Inr u, t)"
  shows "buffer_id_of b (rt_memory s) \<in> set (dkeys (rt_buffers t))"
proof -
  obtain i existing s1 s2 where check: "check_runtime_buffer backend b s = (Inr (i, existing), s1)"
    and body: "ecatch (try_register str_of backend client now) (\<lambda>e. eseq (restore_buffer i existing) (eraise e))
      (s2\<lparr>rt_buffers := AList.update i b (rt_buffers s2)\<rparr>) = (Inr u, t)"
    using assms by (auto simp: register_runtime_buffer_def effect_iffs)
  then have "try_register str_of backend client now (s2\<lparr>rt_buffers := AList.update i b (rt_buffers s2)\<rparr>) = (Inr u, t)"
    by (auto simp: ecatch_def eseq_def ebind_def restore_buffer_def emodify_def eraise_def split: prod.splits sum.splits)
  from registered_buffers_stay [OF this] check_Inr [OF check] show ?thesis
    by (simp add: dom_update)
qed

section \<open>The operations of the session\<close>

lemma registry_running: "registry_in X s \<Longrightarrow> running {} X s s"
  by (simp add: running_def)

lemma running_registry: "running K X s0 s \<Longrightarrow> registry_in X s"
  by (simp add: running_def)

lemma keeps_registry: "(\<And>s0. keeps (running {} {} s0) m) \<Longrightarrow> keeps registry_ok m"
  unfolding keeps_def using registry_running running_registry by blast

lemma registry_owned:
  "registry_in X s \<Longrightarrow> set owned \<subseteq> set (dkeys (rt_buffers s)) \<union> Y \<Longrightarrow>
   registry_in Y (s\<lparr>rt_owned_cpu_buffer_ids := owned\<rparr>)"
  unfolding registry_in_def by (elim conjE, intro conjI) (simp_all del: set_map)

lemma registry_memory: "registry_in X s \<Longrightarrow> same_ids (rt_memory s) m \<Longrightarrow> registry_in X (s\<lparr>rt_memory := m\<rparr>)"
  by (rule running_registry [OF running_memory [OF registry_running]])

lemma registry_on_memory:
  assumes "registry_in X s" "\<And>m0. keeps (same_ids m0) m"
  shows "registry_in X (snd (on_memory m s))"
proof -
  have "keeps (running {} X s) (on_memory m)" by (rule keeps_on_memory) (rule assms(2))
  with registry_running [OF assms(1)] have "running {} X s (snd (on_memory m s))" by (simp add: keeps_def)
  then show ?thesis by (rule running_registry)
qed

lemma undo_cpu_registration_keeps:
  assumes "registry_in X s" "X \<subseteq> {i}" "owned_added \<or> X = {}"
  shows "registry_ok (snd (undo_cpu_registration backend i r owned_added release s))"
proof -
  let ?s1 = "if owned_added then s\<lparr>rt_owned_cpu_buffer_ids := removeAll i (rt_owned_cpu_buffer_ids s)\<rparr> else s"
  have owned: "set (rt_owned_cpu_buffer_ids s) \<subseteq> set (dkeys (rt_buffers s)) \<union> X"
    using assms(1) by (simp only: registry_in_def)
  have "registry_ok ?s1"
  proof (cases owned_added)
    case True
    have "registry_ok (s\<lparr>rt_owned_cpu_buffer_ids := removeAll i (rt_owned_cpu_buffer_ids s)\<rparr>)"
      by (rule registry_owned [OF assms(1)]) (use owned assms(2) in auto)
    with True show ?thesis by simp
  next
    case False
    with assms show ?thesis by simp
  qed
  then show ?thesis
    using registry_on_memory [OF _ keeps_cpu_release, of "{}" ?s1 backend r]
    by (auto simp: undo_cpu_registration_def eseq_def ebind_def ewhen_def emodify_def eret_def eignore_def)
qed

lemma register_cpu_buffer_keeps:
  assumes "registry_ok s" "r < length (mm_buffers (rt_memory s))"
  shows "registry_ok (snd (register_cpu_buffer str_of backend client now r runtime_owned s))"
proof -
  let ?c = "mm_buffers (rt_memory s) ! r" let ?i = "cb_buffer_id (mm_buffers (rt_memory s) ! r)"
  let ?added = "runtime_owned \<and> ?i \<notin> set (rt_owned_cpu_buffer_ids s)"
  let ?X = "if ?added then {?i} else {}"
  let ?s1 = "if runtime_owned then s\<lparr>rt_owned_cpu_buffer_ids := set_add ?i (rt_owned_cpu_buffer_ids s)\<rparr> else s"
  have "set (rt_owned_cpu_buffer_ids s) \<subseteq> set (dkeys (rt_buffers s)) \<union> {}"
    using assms(1) by (simp only: registry_in_def)
  then have "registry_in ?X (s\<lparr>rt_owned_cpu_buffer_ids := set_add ?i (rt_owned_cpu_buffer_ids s)\<rparr>)" if runtime_owned
    by (intro registry_owned [OF assms(1)]) (use that in \<open>auto simp: set_add_def\<close>)
  then have s1: "registry_in ?X ?s1" using assms(1) by simp
  have mem1: "rt_memory ?s1 = rt_memory s" by simp
  obtain v t where run: "register_runtime_buffer str_of backend client now (CpuBuffer r) ?s1 = (v, t)"
    by (cases "register_runtime_buffer str_of backend client now (CpuBuffer r) ?s1")
  have "exists_in (rt_memory ?s1) (CpuBuffer r)" using assms(2) by (simp add: exists_in_def)
  from register_runtime_buffer_keeps [OF registry_running [OF s1] this run]
  have t: "registry_in ?X t" by (rule running_registry)
  show ?thesis
  proof (cases "rt_closed s \<or> (runtime_owned \<and> \<not> cb_owner ?c)")
    case True
    with assms(1) show ?thesis
      by (auto simp: register_cpu_buffer_def require_open_def cpu_at_def on_memory_def effect_defs)
  next
    case False
    then have eq: "register_cpu_buffer str_of backend client now r runtime_owned s =
      eseq (ecatch (register_runtime_buffer str_of backend client now (CpuBuffer r))
       (\<lambda>e. eseq (undo_cpu_registration backend ?i r ?added (runtime_owned \<or> cb_owner ?c)) (eraise e))) (eret r) ?s1"
      by (auto simp: register_cpu_buffer_def require_open_def cpu_at_def on_memory_def
          eseq_def ebind_def eraise_if_def eret_def eget_def ewhen_def emodify_def)
    show ?thesis
    proof (cases v)
      case (Inl e)
      let ?undo = "undo_cpu_registration backend ?i r ?added (runtime_owned \<or> cb_owner ?c)"
      have "registry_ok (snd (?undo t))" by (rule undo_cpu_registration_keeps [OF t]) auto
      moreover obtain z y where h: "?undo t = (z, y)" by (cases "?undo t")
      ultimately have y: "registry_ok y" by (simp only: snd_conv)
      show ?thesis
        unfolding eq eseq_def [of "ecatch _ _"] ebind_def [of "ecatch _ _"] ecatch_def run
        using y by (cases z) (simp_all only: Inl h eseq_def ebind_def eraise_def prod.case sum.case snd_conv)
    next
      case (Inr u)
      have "?i \<in> set (dkeys (rt_buffers t))"
        using registered_buffer_known [OF run [unfolded Inr]] unfolding mem1 by (simp add: buffer_ids_of_def)
      with t have "registry_ok t" by (auto simp: registry_in_def split: if_splits)
      then show ?thesis
        unfolding eq by (simp add: eseq_def ebind_def ecatch_def run Inr eret_def)
    qed
  qed
qed

end
