(* ===== verification/Runtime_Session.thy ===== *)
theory Runtime_Session
  imports Runtime_Registry
begin

text \<open>
  The runtime session as a whole: the steps an application, the session's operations and the daemon
  take in any order, the registry invariant of every reachable state, and what a cleanup leaves behind.
\<close>

section \<open>Every operation keeps the registry\<close>

lemma allocate_cpu_buffer_keeps: "keeps registry_ok (allocate_cpu_buffer str_of backend client now uuid i n prefix)"
proof -
  let ?register = "\<lambda>r. ecatch (register_cpu_buffer str_of backend client now r True)
      (\<lambda>e. eseq (on_memory (cpu_release backend r)) (eraise e))"
  have release: "keeps registry_ok (on_memory (cpu_release backend r))" for r
    by (rule keeps_registry) (intro keeps_on_memory keeps_memory)
  have register: "registry_ok (snd (?register r t))" if "registry_ok t" "r < length (mm_buffers (rt_memory t))" for r t
  proof -
    obtain v u where run: "register_cpu_buffer str_of backend client now r True t = (v, u)"
      by (cases "register_cpu_buffer str_of backend client now r True t")
    have u: "registry_ok u"
      using register_cpu_buffer_keeps [OF that, of str_of backend client now True] run by simp
    obtain w y where freed: "on_memory (cpu_release backend r) u = (w, y)" by (cases "on_memory (cpu_release backend r) u")
    have "registry_ok y" by (rule keepsD [OF release u freed])
    with u show ?thesis
      by (cases v; cases w) (simp_all add: ecatch_def run freed eseq_def ebind_def eraise_def)
  qed
  show ?thesis
    unfolding keeps_def
  proof (intro allI impI)
    fix s :: "'a Runtime"
    assume s: "registry_ok s"
    let ?new = "on_memory (cpu_allocate uuid i (rt_job_id s) n prefix)"
    obtain v t where new: "?new s = (v, t)" by (cases "?new s")
    have t: "registry_ok t"
      using registry_on_memory [OF s keeps_cpu_allocate, of uuid i "rt_job_id s" n prefix] new by simp
    show "registry_ok (snd (allocate_cpu_buffer str_of backend client now uuid i n prefix s))"
    proof (cases "rt_closed s")
      case True
      with s show ?thesis by (simp add: allocate_cpu_buffer_def require_open_def effect_defs)
    next
      case False
      then have eq: "allocate_cpu_buffer str_of backend client now uuid i n prefix s = ebind ?new ?register s"
        by (simp add: allocate_cpu_buffer_def require_open_def eseq_def ebind_def [of _ _ s] eget_def eraise_if_def eret_def)
      show ?thesis
      proof (cases v)
        case (Inl e)
        with t show ?thesis by (simp add: eq ebind_def new)
      next
        case (Inr r)
        have "r < length (mm_buffers (rt_memory t))"
          using new Inr by (auto simp: on_memory_def split: prod.splits dest!: cpu_allocate_Inr)
        from register [OF t this] Inr show ?thesis by (simp add: eq ebind_def new)
      qed
    qed
  qed
qed

lemma register_cuda_buffer_keeps: "keeps registry_ok (register_cuda_buffer str_of backend client now ref g)"
proof -
  have "keeps registry_ok (register_runtime_buffer str_of backend client now (CudaBuffer ref g))"
  proof (unfold keeps_def, intro allI impI)
    fix s :: "'a Runtime"
    assume s: "registry_ok s"
    have "exists_in (rt_memory s) (CudaBuffer ref g)" by (simp add: exists_in_def)
    from register_runtime_buffer_keeps [OF registry_running [OF s] this surjective_pairing]
    show "registry_ok (snd (register_runtime_buffer str_of backend client now (CudaBuffer ref g) s))"
      by (rule running_registry)
  qed
  moreover have "keeps registry_ok require_open" by (rule keeps_registry) (rule keeps_session)
  ultimately show ?thesis unfolding register_cuda_buffer_def by (intro keeps_rules)
qed

lemma rollback_keeps: "keeps registry_ok (rollback_transfer_context_buffer str_of backend client now i known)"
  unfolding rollback_transfer_context_buffer_def Let_def
  by (rule keeps_registry)
     (auto intro!: keeps_rules keeps_cleanup keeps_forget keeps_local_release split: sum.split prod.split)

lemma running_disown:
  "running {} {} s0 s \<Longrightarrow> running {} {} s0 (s\<lparr>rt_owned_cpu_buffer_ids := removeAll i (rt_owned_cpu_buffer_ids s)\<rparr>)"
  unfolding running_def registry_in_def later_def by (elim conjE, intro conjI) (auto simp del: set_map)

lemma cleanup_local_keeps: "keeps registry_ok (cleanup_local_cpu_buffers backend reason)"
  unfolding cleanup_local_cpu_buffers_def
  by (rule keeps_registry)
     (auto intro!: keeps_rules keeps_local_cleanup running_disown split: prod.split ExecutableBuffer.split)

lemma registry_daemon: "registry_in X (s\<lparr>rt_daemon := d\<rparr>) = registry_in X s"
  by (simp add: registry_in_def)

section \<open>Steps\<close>

text \<open>
  \<open>used\<close> is what the application does to its buffers meanwhile (writing, closing, opening more):
  objects stay the objects they are; \<open>answered\<close> is the daemon going on by itself.
\<close>

inductive session_step ::
  "(pyval \<Rightarrow> string) \<Rightarrow> Backend \<Rightarrow> 'd DaemonClient \<Rightarrow> 'd Runtime \<Rightarrow> 'd Runtime \<Rightarrow> bool"
  for str_of backend client where
  opened: "session_step str_of backend client s (snd (open_session str_of client s))"
| registered: "r < length (mm_buffers (rt_memory s)) \<Longrightarrow>
    session_step str_of backend client s (snd (register_cpu_buffer str_of backend client now r owned s))"
| allocated: "session_step str_of backend client s
    (snd (allocate_cpu_buffer str_of backend client now uuid i n prefix s))"
| registered_cuda: "session_step str_of backend client s (snd (register_cuda_buffer str_of backend client now ref g s))"
| cleaned: "session_step str_of backend client s (snd (cleanup_runtime_buffer str_of backend client now i reason force s))"
| rolled_back: "session_step str_of backend client s
    (snd (rollback_transfer_context_buffer str_of backend client now i known s))"
| let_go: "session_step str_of backend client s (snd (cleanup_local_cpu_buffers backend reason s))"
| used: "same_ids (rt_memory s) m \<Longrightarrow> session_step str_of backend client s (s\<lparr>rt_memory := m\<rparr>)"
| answered: "session_step str_of backend client s (s\<lparr>rt_daemon := d\<rparr>)"

abbreviation session_reachable ::
  "(pyval \<Rightarrow> string) \<Rightarrow> Backend \<Rightarrow> 'd DaemonClient \<Rightarrow> 'd Runtime \<Rightarrow> 'd Runtime \<Rightarrow> bool" where
  "session_reachable str_of backend client \<equiv> (session_step str_of backend client)\<^sup>*\<^sup>*"

text \<open>A new session: \<open>TurboBusRuntimeSession.__init__\<close>.\<close>

definition new_runtime ::
  "string \<Rightarrow> string option \<Rightarrow> int \<Rightarrow> int option \<Rightarrow> bool \<Rightarrow> bool \<Rightarrow> bool \<Rightarrow> Memory \<Rightarrow> 'd \<Rightarrow> 'd Runtime" where
  "new_runtime job user inflight target connection_owned has_worker profile memory daemon =
     \<lparr>rt_job_id = job, rt_user_id = user, rt_max_inflight_chunks = inflight,
      rt_control_connection_owned = connection_owned, rt_has_worker_client = has_worker,
      rt_profile_on_first_transfer = profile, rt_target_gpu = target, rt_relay_gpus = None,
      rt_session_id = None, rt_profile_bootstrapped = False, rt_buffers = [], rt_registered_buffer_ids = [],
      rt_fingerprints = [], rt_owned_cpu_buffer_ids = [], rt_submitted_intent_ids = [],
      rt_submitted_intent_buffers = [], rt_lifecycle_records = [], rt_active_intent_ids = [], rt_closed = False,
      rt_memory = memory, rt_daemon = daemon\<rparr>"

lemma registry_new: "registry_ok (new_runtime job user inflight target connection_owned has_worker profile memory daemon)"
  by (simp add: registry_in_def new_runtime_def)

lemma registry_step: "session_step str_of backend client s t \<Longrightarrow> registry_ok s \<Longrightarrow> registry_ok t"
proof (induction rule: session_step.induct)
  case (opened s)
  moreover have "keeps registry_ok (open_session str_of client)" by (rule keeps_registry) (rule keeps_open_session)
  ultimately show ?case by (simp add: keeps_def)
next
  case (cleaned s now i reason force)
  moreover have "keeps registry_ok (cleanup_runtime_buffer str_of backend client now i reason force)"
    by (rule keeps_registry) (rule keeps_cleanup)
  ultimately show ?case by (simp add: keeps_def)
qed (simp_all add: registry_daemon register_cpu_buffer_keeps allocate_cpu_buffer_keeps [unfolded keeps_def, rule_format]
    register_cuda_buffer_keeps [unfolded keeps_def, rule_format] rollback_keeps [unfolded keeps_def, rule_format]
    cleanup_local_keeps [unfolded keeps_def, rule_format] registry_memory)

lemma registry_reachable:
  "session_reachable str_of backend client s t \<Longrightarrow> registry_ok s \<Longrightarrow> registry_ok t"
  by (induction rule: rtranclp_induct) (auto intro: registry_step)

section \<open>What a cleanup leaves behind\<close>

definition closing :: "Memory \<Rightarrow> nat \<Rightarrow> Memory \<Rightarrow> bool" where
  "closing m r m' =
     (mm_names m' = mm_names m \<and> length (mm_buffers m') = length (mm_buffers m) \<and>
      cb_shared_memory_name (mm_buffers m' ! r) = cb_shared_memory_name (mm_buffers m ! r) \<and>
      cb_owner (mm_buffers m' ! r) = cb_owner (mm_buffers m ! r) \<and>
      cb_unlinked (mm_buffers m' ! r) = cb_unlinked (mm_buffers m ! r))"

lemma closing_set_cpu:
  assumes "\<And>b. cb_shared_memory_name (f b) = cb_shared_memory_name b" "\<And>b. cb_owner (f b) = cb_owner b"
    and "\<And>b. cb_unlinked (f b) = cb_unlinked b"
  shows "keeps (closing m r) (set_cpu r f)"
  unfolding set_cpu_def
proof (rule keeps_emodify)
  fix m' assume "closing m r m'"
  with assms show "closing m r (m'\<lparr>mm_buffers := (mm_buffers m')[r := f (mm_buffers m' ! r)]\<rparr>)"
    by (cases "r < length (mm_buffers m')") (simp_all add: closing_def not_less list_update_beyond)
qed

lemma closing_cpu_close: "keeps (closing m r) (cpu_close backend r)"
  unfolding cpu_close_def unregister_from_cuda_def
  by (intro keeps_rules keeps_cpu_at keeps_native closing_set_cpu) simp_all

lemma released_name_is_gone:
  assumes "cb_owner (mm_buffers m ! r)" "\<not> cb_unlinked (mm_buffers m ! r)"
  shows "map_of (mm_names (snd (cpu_release backend r m))) (cb_shared_memory_name (mm_buffers m ! r)) = None"
proof -
  obtain v m1 where closed: "cpu_close backend r m = (v, m1)" by (cases "cpu_close backend r m")
  have m1: "closing m r m1"
    by (rule keepsD [OF closing_cpu_close _ closed]) (simp add: closing_def)
  with assms have "cpu_release backend r m = efinally (\<lambda>_. (v, m1)) (cpu_unlink r) m"
    by (simp add: cpu_release_def efinally_def closed cpu_at_def ebind_eget ewhen_def closing_def)
  moreover have "map_of (mm_names (snd (cpu_unlink r m1))) (cb_shared_memory_name (mm_buffers m ! r)) = None"
    using m1 assms(2)
    by (auto simp: cpu_unlink_def shm_unlink_def cpu_at_def set_cpu_def effect_defs closing_def delete_conv)
  ultimately show ?thesis
    by (simp add: efinally_def split: prod.split sum.split) (metis snd_conv)
qed

lemma ask_daemon_memory:
  "\<exists>daemon s1. ask_daemon client i reason force registered s = (Inr daemon, s1) \<and> rt_memory s1 = rt_memory s"
proof -
  have "keeps (\<lambda>t. rt_memory t = rt_memory s) (cleanup_daemon_registered_buffer client i reason force)"
    unfolding cleanup_daemon_registered_buffer_def require_ok_def
    by (intro keeps_rules) (auto simp: keeps_def on_daemon_def split: prod.split)
  then have "rt_memory (snd (cleanup_daemon_registered_buffer client i reason force s)) = rt_memory s"
    by (simp add: keeps_def)
  then show ?thesis
    by (auto simp: ask_daemon_def effect_defs split: prod.split)
qed

definition name_gone :: "string \<Rightarrow> 'd Runtime \<Rightarrow> bool" where
  "name_gone name s = (map_of (mm_names (rt_memory s)) name = None)"

lemma local_cleanup_releases:
  assumes "cb_owner (mm_buffers (rt_memory s) ! r)" "\<not> cb_unlinked (mm_buffers (rt_memory s) ! r)"
  shows "name_gone (cb_shared_memory_name (mm_buffers (rt_memory s) ! r))
           (snd (cleanup_local_buffer_for_release backend i (Some (CpuBuffer r)) reason True s))"
  using released_name_is_gone [OF assms, of backend]
  by (simp add: cleanup_local_buffer_for_release_def cleanup_local_cpu_buffer_def cpu_at_def on_memory_def effect_defs
      name_gone_def split: prod.split) (metis snd_conv)

lemma name_gone_settled:
  "keeps (name_gone name) (ebind (case daemon of Inl _ \<Rightarrow> eret None
            | Inr _ \<Rightarrow> if registered then retain_runtime_buffer_cleanup str_of client i b reason owned local
                else eret None) (\<lambda>retention. settle_cleanup str_of now i reason daemon local retention))"
proof -
  have "keeps (name_gone name) (on_daemon m)" for m :: "('a, 'b) eff"
    by (auto simp: keeps_def on_daemon_def name_gone_def split: prod.split)
  then show ?thesis
    unfolding retain_runtime_buffer_cleanup_def record_buffer_cleanup_retention_def settle_cleanup_def record_cleanup_def
      require_ok_def Let_def
    by (auto intro!: keeps_rules simp: name_gone_def split: sum.split option.split)
qed

lemma cleanup_gone:
  assumes "\<not> rt_closed s"
    and "cleanup_runtime_buffer str_of backend client now i reason force s = (r, t)"
    and k: "map_of (rt_buffers s) i = Some (CpuBuffer k)" "i \<in> set (rt_owned_cpu_buffer_ids s)"
      "cb_owner (mm_buffers (rt_memory s) ! k)" "\<not> cb_unlinked (mm_buffers (rt_memory s) ! k)"
  shows "name_gone (cb_shared_memory_name (mm_buffers (rt_memory s) ! k)) t"
proof -
  obtain daemon s1 where ask: "ask_daemon client i reason force (i \<in> set (rt_registered_buffer_ids s)) s = (Inr daemon, s1)"
    and memory: "rt_memory s1 = rt_memory s"
    using ask_daemon_memory by blast
  let ?local = "cleanup_local_buffer_for_release backend i (Some (CpuBuffer k)) reason True"
  obtain v s2 where local: "?local (forgot i s1) = (v, s2)" by (cases "?local (forgot i s1)")
  have same: "rt_memory (forgot i s1) = rt_memory s" by (simp add: forgot_def memory)
  have "name_gone (cb_shared_memory_name (mm_buffers (rt_memory s) ! k)) s2"
    using local_cleanup_releases [of "forgot i s1" k backend i reason] k(3,4) local by (simp add: same)
  then have "name_gone (cb_shared_memory_name (mm_buffers (rt_memory s) ! k))
      (snd (cleanup_runtime_buffer str_of backend client now i reason force s))"
    unfolding cleanup_runtime_buffer_eq [OF assms(1) ask]
    by (cases v)
       (simp_all add: ebind_def [of ?local] local k(1,2) name_gone_settled [unfolded keeps_def, rule_format])
  then show ?thesis by (simp add: assms(2))
qed

text \<open>
  C11:  Cleaning a buffer up lets it go, whatever the daemon, the CUDA runtime and the retention call
  answer and whether or not the call raises: the session no longer knows the id, it is neither
  registered nor fingerprinted nor owned; every other buffer is as it was; and when the session owned
  the buffer's shared memory, its name no longer exists.
\<close>

theorem cleanup_lets_go:
  assumes "\<not> rt_closed s"
    and "cleanup_runtime_buffer str_of backend client now i reason force s = (r, t)"
  shows "rt_buffers t = AList.delete i (rt_buffers s) \<and> rt_fingerprints t = AList.delete i (rt_fingerprints s) \<and>
     rt_registered_buffer_ids t = removeAll i (rt_registered_buffer_ids s) \<and>
     rt_owned_cpu_buffer_ids t = removeAll i (rt_owned_cpu_buffer_ids s) \<and>
     (\<forall>k. map_of (rt_buffers s) i = Some (CpuBuffer k) \<and> i \<in> set (rt_owned_cpu_buffer_ids s) \<and>
        cb_owner (mm_buffers (rt_memory s) ! k) \<and> \<not> cb_unlinked (mm_buffers (rt_memory s) ! k) \<longrightarrow>
        map_of (mm_names (rt_memory t)) (cb_shared_memory_name (mm_buffers (rt_memory s) ! k)) = None)"
proof -
  have "outside (forgot i s) t" using cleanup_forgets [OF assms(1), of i str_of backend client now reason force] assms(2) by simp
  note fields = outsideD [OF this]
  show ?thesis
    using fields cleanup_gone [OF assms] by (simp add: forgot_def name_gone_def)
qed

lemma skipped_cleanup:
  assumes "\<not> rt_closed s" "map_of (rt_buffers s) i = None" "i \<notin> set (rt_registered_buffer_ids s)"
  shows "\<exists>response t. cleanup_runtime_buffer str_of backend client now i reason force s = (Inr response, t) \<and>
     rp_ok response \<and> rt_daemon t = rt_daemon s"
  using assms
  by (simp add: cleanup_runtime_buffer_def require_open_def effect_defs forget_runtime_buffer_def
      cleanup_local_buffer_for_release_def settle_cleanup_def Let_def evidence_failure_def record_cleanup_def
      skipped_response_def cleanup_buffer_response_def)

lemma refused_cleanup_raises:
  assumes "\<not> rt_closed s" "i \<in> set (rt_registered_buffer_ids s)"
    and "dc_cleanup_buffer client i reason force None (rt_daemon s) = (Inr refusal, d)" "\<not> rp_ok refusal"
    and "cleanup_runtime_buffer str_of backend client now i reason force s = (r, t)"
  shows "\<exists>e. r = Inl e"
proof -
  obtain e s1 where ask: "ask_daemon client i reason force (i \<in> set (rt_registered_buffer_ids s)) s = (Inr (Inl e), s1)"
    using assms(2-4)
    by (simp add: ask_daemon_def cleanup_daemon_registered_buffer_def on_daemon_def require_ok_def effect_defs)
  have never: "settle_cleanup str_of now i reason (Inl e) local retention z \<noteq> (Inr y, u)" for local retention z y u
    by (auto simp: settle_cleanup_def Let_def effect_iffs)
  then have "\<nexists>y u. cleanup_runtime_buffer str_of backend client now i reason force s = (Inr y, u)"
    unfolding cleanup_runtime_buffer_eq [OF assms(1) ask] by (simp add: ebind_Inr_iff never)
  with assms(5) show ?thesis by (cases r) auto
qed

text \<open>
  C28:  A refused cleanup is lost.  When the daemon refuses to clean a registered buffer up, because a
  transfer still uses it for instance, the call raises, but the session has let the buffer go all the
  same: a second call for the same id reports success without asking the daemon again, whose state
  it leaves as it was.
\<close>

theorem refused_cleanup_is_not_retried:
  assumes "\<not> rt_closed s" "i \<in> set (rt_registered_buffer_ids s)"
    and "dc_cleanup_buffer client i reason force None (rt_daemon s) = (Inr refusal, d)" "\<not> rp_ok refusal"
    and "cleanup_runtime_buffer str_of backend client now i reason force s = (r, t)"
  shows "(\<exists>e. r = Inl e) \<and>
     (\<exists>response u. cleanup_runtime_buffer str_of backend client now' i reason' force' t = (Inr response, u) \<and>
        rp_ok response \<and> rt_daemon u = rt_daemon t)"
proof -
  have "outside (forgot i s) t" using cleanup_forgets [OF assms(1), of i str_of backend client now reason force] assms(5) by simp
  note fields = outsideD [OF this]
  have "\<exists>response u. cleanup_runtime_buffer str_of backend client now' i reason' force' t = (Inr response, u) \<and>
      rp_ok response \<and> rt_daemon u = rt_daemon t"
    by (rule skipped_cleanup) (use fields assms(1) in \<open>simp_all add: forgot_def delete_conv\<close>)
  with refused_cleanup_raises [OF assms] show ?thesis by simp
qed

section \<open>A session\<close>

text \<open>A daemon that accepts everything except the cleanup of a buffer, and counts the calls.\<close>

definition ok_response :: "mapping \<Rightarrow> DaemonResponse" where
  "ok_response p = \<lparr>rp_ok = True, rp_error = None, rp_payload = p\<rparr>"

definition busy_daemon :: "nat DaemonClient" where
  "busy_daemon =
     (let answer = (\<lambda>p n. (Inr (ok_response p), n + 1))
      in \<lparr>dc_register_session = (\<lambda>_ _ _ _. answer [(''session'', VDict [(''session_id'', VStr ''s''), (''relay_gpus'', VList [])])]),
          dc_close_session = (\<lambda>_. answer []), dc_register_job = (\<lambda>_ _ _. answer []),
          dc_register_buffer = (\<lambda>_. answer []),
          dc_cleanup_buffer = (\<lambda>_ _ _ _ n. (Inr \<lparr>rp_ok = False, rp_error = Some ''busy'', rp_payload = []\<rparr>, n + 1)),
          dc_bootstrap_profile = (\<lambda>_ _ n. (Inr (), n + 1))\<rparr>)"

definition a_backend :: Backend where
  "a_backend = \<lparr>be_base_address = (\<lambda>s. 4096 * int (s + 1)), be_register_host_memory = (\<lambda>_ _. None),
                be_unregister_host_memory = (\<lambda>_. None)\<rparr>"

definition a_session :: "nat Runtime" where
  "a_session = new_runtime ''job'' None 4 (Some 0) False True False
     \<lparr>mm_names = [], mm_segments = [], mm_buffers = []\<rparr> 0"

definition a_session_with_buffer :: "nat Runtime" where
  "a_session_with_buffer = snd (allocate_cpu_buffer (\<lambda>_. []) a_backend busy_daemon 0 ''x'' ''cpu'' 4 ''b'' a_session)"

lemma a_session_facts:
  "rt_registered_buffer_ids a_session_with_buffer = [''cpu''] \<and> rt_owned_cpu_buffer_ids a_session_with_buffer = [''cpu''] \<and>
   rt_closed a_session_with_buffer = False \<and> rt_buffers a_session_with_buffer = [(''cpu'', CpuBuffer 0)] \<and>
   map (\<lambda>b. (cb_shared_memory_name b, cb_owner b, cb_unlinked b)) (mm_buffers (rt_memory a_session_with_buffer)) =
     [(''b_x'', True, False)]"
  by code_simp

lemma busy_daemon_refuses:
  "dc_cleanup_buffer busy_daemon i reason force evidence n =
     (Inr \<lparr>rp_ok = False, rp_error = Some ''busy'', rp_payload = []\<rparr>, n + 1)"
  by (simp add: busy_daemon_def)

theorem cleanup_lets_go_witness:
  "\<exists>r t. cleanup_runtime_buffer (\<lambda>_. []) a_backend busy_daemon 1 ''cpu'' ''released'' False a_session_with_buffer = (r, t) \<and>
     rt_buffers t = [] \<and> rt_registered_buffer_ids t = [] \<and> map_of (mm_names (rt_memory t)) ''b_x'' = None"
proof -
  let ?s = a_session_with_buffer
  obtain r t where run: "cleanup_runtime_buffer (\<lambda>_. []) a_backend busy_daemon 1 ''cpu'' ''released'' False ?s = (r, t)"
    by (cases "cleanup_runtime_buffer (\<lambda>_. []) a_backend busy_daemon 1 ''cpu'' ''released'' False ?s")
  have "mm_buffers (rt_memory ?s) = [mm_buffers (rt_memory ?s) ! 0]"
    using a_session_facts by (cases "mm_buffers (rt_memory ?s)") auto
  then have "cb_shared_memory_name (mm_buffers (rt_memory ?s) ! 0) = ''b_x''" "cb_owner (mm_buffers (rt_memory ?s) ! 0)"
      "\<not> cb_unlinked (mm_buffers (rt_memory ?s) ! 0)"
    using a_session_facts by (cases "mm_buffers (rt_memory ?s)"; simp)+
  with cleanup_lets_go [OF _ run] a_session_facts run show ?thesis by auto
qed

theorem refused_cleanup_is_not_retried_witness:
  "\<exists>e t response u.
     cleanup_runtime_buffer (\<lambda>_. []) a_backend busy_daemon 1 ''cpu'' ''released'' False a_session_with_buffer = (Inl e, t) \<and>
     cleanup_runtime_buffer (\<lambda>_. []) a_backend busy_daemon 2 ''cpu'' ''released'' False t = (Inr response, u) \<and>
     rp_ok response \<and> rt_daemon u = rt_daemon t"
proof -
  obtain r t where run:
      "cleanup_runtime_buffer (\<lambda>_. []) a_backend busy_daemon 1 ''cpu'' ''released'' False a_session_with_buffer = (r, t)"
    by (cases "cleanup_runtime_buffer (\<lambda>_. []) a_backend busy_daemon 1 ''cpu'' ''released'' False a_session_with_buffer")
  show ?thesis
    using refused_cleanup_is_not_retried [OF _ _ busy_daemon_refuses _ run, of 2 "''released''" False] a_session_facts run
    by auto
qed

end
