(* ===== verification/Runtime_Transfers.thy ===== *)
theory Runtime_Transfers
  imports Runtime_Receipts Runtime_Session
begin

text \<open>
  The transfers of a runtime session (\<open>turbobus/runtime_session.py\<close>, \<open>runtime/lifecycle_records.py\<close>,
  \<open>runtime/route_policy.py\<close>, \<open>runtime/session_state.py\<close>): submitting an intent, waiting for its receipt,
  recovering its state, and closing the session.  The executor that carries an intent out with the
  worker or the CUDA runtime is a function of the client, as the daemon's calls are; it may raise or
  return any receipt.  The exceptions of decoding a receipt come before those of its own checks.
\<close>

record 'd TransferClient =
  tc_daemon :: "'d DaemonClient"
  tc_submit :: "TransferIntent \<Rightarrow> ('d, DaemonResponse) eff"
  tc_execute :: "TransferIntent \<Rightarrow> DaemonResponse \<Rightarrow> ('d, TransferReceipt) eff"
  tc_wait :: "string \<Rightarrow> rat option \<Rightarrow> ('d, DaemonResponse) eff"
  tc_recover :: "string option \<Rightarrow> string option \<Rightarrow> ('d, DaemonResponse) eff"
  tc_discover :: "int \<Rightarrow> ('d, DaemonResponse) eff"

section \<open>Receipts out of the daemon's answers\<close>

definition receipt_fields :: "string list" where
  "receipt_fields =
     [''receipt_id'', ''ticket_id'', ''intent_id'', ''decision_id'', ''topology_snapshot_id'', ''job_id'',
      ''session_id'', ''state'', ''bytes_total'', ''bytes_completed'', ''started_at'', ''completed_at'',
      ''path_stats'', ''error'', ''metadata'']"

definition required_field :: "mapping \<Rightarrow> string \<Rightarrow> pyval result" where
  "required_field payload k =
     (case map_of payload k of
        None \<Rightarrow> Inl (TypeError (''missing required argument: '' @ k)) | Some v \<Rightarrow> Inr v)"

definition mapping_entries :: "string \<Rightarrow> pyval \<Rightarrow> mapping list result" where
  "mapping_entries name v =
     (case v of
        VList xs \<Rightarrow> rmap (\<lambda>x. case x of VDict d \<Rightarrow> Inr d | _ \<Rightarrow> Inl (TypeError (name @ '' entries must be mappings''))) xs
      | _ \<Rightarrow> Inl (TypeError (name @ '' is not iterable'')))"

definition transfer_receipt_from_payload :: "(pyval \<Rightarrow> string) \<Rightarrow> mapping \<Rightarrow> TransferReceipt result" where
  "transfer_receipt_from_payload str_of payload =
     (let unknown = sort (filter (\<lambda>k. k \<notin> set receipt_fields) (dkeys payload));
          field = required_field payload; text = py_str str_of
      in raise_if (unknown \<noteq> [])
           (ValueError (''daemon receipt contains unknown fields: '' @ join '', '' unknown)) (
         rbind (field ''receipt_id'') (\<lambda>receipt_id.
         rbind (field ''ticket_id'') (\<lambda>ticket_id.
         rbind (field ''intent_id'') (\<lambda>intent_id.
         rbind (field ''decision_id'') (\<lambda>decision_id.
         rbind (field ''topology_snapshot_id'') (\<lambda>snapshot_id.
         rbind (field ''job_id'') (\<lambda>job_id.
         rbind (field ''session_id'') (\<lambda>sid.
         rbind (rbind (field ''state'') (\<lambda>v. TransferStatusState_of (text v))) (\<lambda>state.
         rbind (rbind (field ''bytes_total'') py_int) (\<lambda>total_bytes.
         rbind (rbind (field ''bytes_completed'') py_int) (\<lambda>completed_bytes.
         rbind (case vget payload ''metadata'' (VDict []) of VDict d \<Rightarrow> Inr d
                | _ \<Rightarrow> Inl (TypeError ''metadata must be a mapping'')) (\<lambda>metadata.
         rbind (vfloat (vget payload ''started_at'' (VFloat 0))) (\<lambda>started_at.
         rbind (optional vfloat (vget payload ''completed_at'' VNone)) (\<lambda>completed_at.
         rbind (mapping_entries ''path_stats'' (vget payload ''path_stats'' (VList []))) (\<lambda>path_stats.
         mk_TransferReceipt
           \<lparr>tr_receipt_id = text receipt_id, tr_ticket_id = text ticket_id, tr_intent_id = text intent_id,
            tr_decision_id = text decision_id, tr_topology_snapshot_id = text snapshot_id,
            tr_job_id = text job_id, tr_session_id = text sid, tr_state = state,
            tr_bytes_total = total_bytes, tr_bytes_completed = completed_bytes, tr_started_at = started_at,
            tr_completed_at = completed_at, tr_path_stats = path_stats,
            tr_error = (let e = vget payload ''error'' VNone in if e = VNone then None else Some (text e)),
            tr_metadata = metadata\<rparr>))))))))))))))))"

definition receipt_from_daemon_response ::
  "(pyval \<Rightarrow> string) \<Rightarrow> DaemonResponse \<Rightarrow> string \<Rightarrow> TransferReceipt result" where
  "receipt_from_daemon_response str_of response expected_intent_id =
     raise_if (\<not> rp_ok response)
       (RuntimeError (case rp_error response of None \<Rightarrow> ''daemon receipt wait failed''
                      | Some e \<Rightarrow> if e = [] then ''daemon receipt wait failed'' else e)) (
     rbind (require_mapping (vget (rp_payload response) ''receipt'' VNone) ''daemon response missing receipt'') (\<lambda>payload.
     rbind (transfer_receipt_from_payload str_of payload) (\<lambda>receipt.
     raise_if (tr_intent_id receipt \<noteq> expected_intent_id)
       (ValueError ''daemon receipt intent_id does not match request'') (Inr receipt))))"

section \<open>Routes stay the daemon's\<close>

definition physical_route_metadata_keys :: "string list" where
  "physical_route_metadata_keys =
     [''mode'', ''path'', ''paths'', ''physical_path'', ''physical_paths'', ''physical_route'', ''physical_routes'',
      ''route'', ''routes'', ''relay'', ''relays'', ''relay_gpu'', ''relay_gpus'', ''target_device'', ''target_gpu'',
      ''transfer_mode'']"

fun remove_first_prefix :: "string list \<Rightarrow> string \<Rightarrow> string" where
  "remove_first_prefix [] s = s"
| "remove_first_prefix (p # ps) s =
     (if take (length p) s = p then drop (length p) s else remove_first_prefix ps s)"

definition physical_route_key_name :: "string \<Rightarrow> string" where
  "physical_route_key_name key = remove_first_prefix [''turbobus.'', ''scheduler.'', ''runtime.''] (lower key)"

fun physical_route_keys :: "mapping \<Rightarrow> string list" where
  "physical_route_keys [] = []"
| "physical_route_keys ((key, item) # rest) =
     sort ((if physical_route_key_name key \<in> set physical_route_metadata_keys then [key] else [])
           @ (case item of VDict d \<Rightarrow> map (\<lambda>child. key @ ''.'' @ child) (physical_route_keys d) | _ \<Rightarrow> [])
           @ physical_route_keys rest)"

definition require_intent_control_plane_safe :: "TransferIntent \<Rightarrow> unit result" where
  "require_intent_control_plane_safe intent =
     raise_if (physical_route_keys (ti_policy_hints intent) \<noteq> [])
       (ValueError (''intent policy_hints must not choose physical paths: '' @
          join '', '' (physical_route_keys (ti_policy_hints intent)))) (
     raise_if (physical_route_keys (ti_metadata intent) \<noteq> [])
       (ValueError (''intent metadata must not choose physical paths: '' @
          join '', '' (physical_route_keys (ti_metadata intent)))) (Inr ()))"

section \<open>Lifecycle records of the buffers a transfer uses\<close>

definition runtime_buffer_lifecycle_intent_use :: "TransferIntent \<Rightarrow> string \<Rightarrow> string \<Rightarrow> rat \<Rightarrow> mapping" where
  "runtime_buffer_lifecycle_intent_use intent buffer_id role now =
     [(''intent_id'', VStr (ti_intent_id intent)), (''job_id'', VStr (ti_job_id intent)),
      (''session_id'', VStr (ti_session_id intent)), (''buffer_id'', VStr buffer_id), (''role'', VStr role),
      (''direction'', VStr (ti_direction intent)), (''bytes_total'', VInt (ti_total_bytes intent)),
      (''range_count'', VInt (int (length (ti_ranges intent)))), (''submitted_at'', VFloat now),
      (''state'', VStr ''active'')]"

definition is_cleaned :: "(pyval \<Rightarrow> string) \<Rightarrow> mapping \<Rightarrow> bool" where
  "is_cleaned str_of m = (py_str str_of (vget m ''state'' (VStr [])) = ''cleaned'')"

definition record_use ::
  "(pyval \<Rightarrow> string) \<Rightarrow> TransferIntent \<Rightarrow> rat \<Rightarrow> string \<times> string \<Rightarrow> (string, mapping) dict \<Rightarrow> (string, mapping) dict" where
  "record_use str_of intent now use records =
     (case use of (role, buffer_id) \<Rightarrow>
      let current = dget_default records buffer_id
            [(''buffer_id'', VStr buffer_id), (''job_id'', VStr (ti_job_id intent)),
             (''session_id'', VStr (ti_session_id intent)), (''state'', VStr ''referenced'')];
          active_uses = AList.update (ti_intent_id intent)
            (VDict (runtime_buffer_lifecycle_intent_use intent buffer_id role now))
            (copy_lifecycle_mapping (vget current ''active_uses'' VNone));
          used = AList.update ''last_used_at'' (VFloat now)
            (AList.update ''active_use_count'' (VInt (int (length active_uses)))
              (AList.update ''active_uses'' (VDict active_uses) current))
      in AList.update buffer_id
           (if is_cleaned str_of used then used else AList.update ''state'' (VStr ''active'') used) records)"

definition record_buffer_lifecycle_intent_use ::
  "(pyval \<Rightarrow> string) \<Rightarrow> TransferIntent \<Rightarrow> rat \<Rightarrow> (string, mapping) dict \<Rightarrow> (string, mapping) dict" where
  "record_buffer_lifecycle_intent_use str_of intent now records =
     fold (record_use str_of intent now)
       [(''source'', ti_source_buffer_id intent), (''destination'', ti_destination_buffer_id intent)] records"

text \<open>Recorded uses are mappings.\<close>

definition ended_use :: "TransferReceipt \<Rightarrow> string \<Rightarrow> string \<Rightarrow> mapping \<Rightarrow> mapping" where
  "ended_use receipt intent_id buffer_id active_uses =
     (let use = (case vget active_uses intent_id VNone of VDict d \<Rightarrow> d
           | _ \<Rightarrow> [(''intent_id'', VStr intent_id), (''buffer_id'', VStr buffer_id), (''state'', VStr ''unknown'')]);
          counted = AList.update ''bytes_total'' (VInt (tr_bytes_total receipt))
            (AList.update ''bytes_completed'' (VInt (tr_bytes_completed receipt))
              (AList.update ''state'' (VStr (state_value (tr_state receipt))) use));
          timed = (case tr_completed_at receipt of None \<Rightarrow> counted
            | Some c \<Rightarrow> AList.update ''completed_at'' (VFloat c) counted)
      in case tr_error receipt of None \<Rightarrow> timed | Some e \<Rightarrow> AList.update ''error'' (VStr e) timed)"

definition record_receipt_use ::
  "(pyval \<Rightarrow> string) \<Rightarrow> TransferReceipt \<Rightarrow> string \<Rightarrow> string \<Rightarrow> mapping \<Rightarrow> mapping" where
  "record_receipt_use str_of receipt intent_id buffer_id current =
     (let uses = copy_lifecycle_mapping (vget current ''active_uses'' VNone);
          use = ended_use receipt intent_id buffer_id uses;
          terminal = terminal_receipt_state (tr_state receipt);
          remaining = AList.delete intent_id uses;
          active_uses = (if terminal then remaining else AList.update intent_id (VDict use) remaining);
          terminal_uses = copy_lifecycle_sequence (vget current ''terminal_uses'' VNone)
                          @ (if terminal then [VDict use] else []);
          counted = AList.update ''terminal_use_count'' (VInt (int (length terminal_uses)))
            (AList.update ''active_use_count'' (VInt (int (length active_uses)))
              (AList.update ''terminal_uses'' (VList terminal_uses)
                (AList.update ''active_uses'' (VDict active_uses) current)))
      in if active_uses \<noteq> [] then AList.update ''state'' (VStr ''active'') counted
         else if is_cleaned str_of counted then counted
         else AList.update ''state'' (VStr ''registered'') counted)"

definition record_receipt_in ::
  "(pyval \<Rightarrow> string) \<Rightarrow> TransferReceipt \<Rightarrow> string \<Rightarrow> string \<Rightarrow> (string, mapping) dict \<Rightarrow> (string, mapping) dict" where
  "record_receipt_in str_of receipt intent_id buffer_id records =
     (case map_of records buffer_id of
        None \<Rightarrow> records
      | Some current \<Rightarrow> AList.update buffer_id (record_receipt_use str_of receipt intent_id buffer_id current) records)"

definition record_buffer_lifecycle_receipt ::
  "(pyval \<Rightarrow> string) \<Rightarrow> TransferReceipt \<Rightarrow> string \<Rightarrow> (string, string \<times> string) dict \<Rightarrow>
   (string, mapping) dict \<Rightarrow> (string, mapping) dict" where
  "record_buffer_lifecycle_receipt str_of receipt intent_id buffers records =
     (case map_of buffers intent_id of
        None \<Rightarrow> records
      | Some (source, destination) \<Rightarrow>
          fold (record_receipt_in str_of receipt intent_id) [source, destination] records)"

section \<open>Submitting, waiting and recovering\<close>

text \<open>The memory size of a buffer, and what the code's \<open>isinstance\<close> tests say.\<close>

definition buffer_size :: "ExecutableBuffer \<Rightarrow> Memory \<Rightarrow> int" where
  "buffer_size b m = (case b of CpuBuffer r \<Rightarrow> cb_size_bytes (mm_buffers m ! r) | CudaBuffer _ g \<Rightarrow> gb_size_bytes g)"

definition is_cpu_buffer :: "ExecutableBuffer \<Rightarrow> bool" where
  "is_cpu_buffer b = (case b of CpuBuffer _ \<Rightarrow> True | CudaBuffer _ _ \<Rightarrow> False)"

definition validate_intent_uses_runtime_buffers ::
  "TransferIntent \<Rightarrow> ExecutableBuffer \<Rightarrow> ExecutableBuffer \<Rightarrow> Memory \<Rightarrow> unit result" where
  "validate_intent_uses_runtime_buffers intent source target m =
     (let direction = lower (ti_direction intent);
          fit = validate_intent_ranges_fit_buffers intent (buffer_size source m) (buffer_size target m)
      in if direction = ''h2d'' then
           raise_if (\<not> is_cpu_buffer source) (ValueError ''h2d intent source must be a registered CPU buffer'') (
           raise_if (is_cpu_buffer target) (ValueError ''h2d intent destination must be a registered CUDA buffer'') fit)
         else if direction = ''d2h'' then
           raise_if (is_cpu_buffer source) (ValueError ''d2h intent source must be a registered CUDA buffer'') (
           raise_if (\<not> is_cpu_buffer target) (ValueError ''d2h intent destination must be a registered CPU buffer'') fit)
         else Inl (ValueError ''intent direction must be h2d or d2h''))"

definition require_runtime_mapping :: "pyval \<Rightarrow> string \<Rightarrow> mapping result" where
  "require_runtime_mapping v message = (case v of VDict m \<Rightarrow> Inr m | _ \<Rightarrow> Inl (RuntimeError message))"

definition relay_of_item :: "pyval \<Rightarrow> int option result" where
  "relay_of_item v =
     (case v of VDict d \<Rightarrow> rbind (vindex d ''relay_gpu'') (\<lambda>g. rbind (py_int g) (\<lambda>i. Inr (Some i))) | _ \<Rightarrow> Inr None)"

definition discovered_relays :: "mapping \<Rightarrow> int list result" where
  "discovered_relays payload =
     rbind (require_runtime_mapping (vget payload ''relay_discovery'' VNone)
       ''daemon relay discovery response is missing payload'') (\<lambda>discovery.
     rbind (require_runtime_mapping (vget discovery ''relay_eligibility'' VNone)
       ''daemon relay discovery response is missing eligibility'') (\<lambda>eligibility.
     rbind (iterate_or_empty (vget eligibility ''eligible_relays'' (VList []))) (\<lambda>items.
     rbind (rmap relay_of_item items) (\<lambda>relays. Inr (List.map_filter (\<lambda>x. x) relays)))))"

definition relay_gpus_for_session :: "'d TransferClient \<Rightarrow> ('d Runtime, int list) eff" where
  "relay_gpus_for_session client =
     eseq require_open (
     ebind (eget (\<lambda>s. (rt_relay_gpus s, rt_target_gpu s))) (\<lambda>(known, target).
     case known of Some relays \<Rightarrow> eret relays
     | None \<Rightarrow>
       (case target of None \<Rightarrow> eraise ConversionTypeError
        | Some gpu \<Rightarrow>
          ebind (on_daemon (tc_discover client gpu)) (\<lambda>response.
          eseq (require_ok ''daemon relay discovery failed'' response) (
          ebind (elift (discovered_relays (rp_payload response))) (\<lambda>relays.
          eseq (emodify (\<lambda>s. s\<lparr>rt_relay_gpus := Some relays\<rparr>)) (eret relays)))))))"

definition bootstrap_profile_if_enabled :: "(pyval \<Rightarrow> string) \<Rightarrow> 'd TransferClient \<Rightarrow> ('d Runtime, unit) eff" where
  "bootstrap_profile_if_enabled str_of client =
     eseq require_open (
     ebind (eget (\<lambda>s. \<not> rt_profile_bootstrapped s \<and> rt_profile_on_first_transfer s)) (\<lambda>needed.
     ewhen needed (
       eseq (open_session str_of (tc_daemon client)) (
       ebind (relay_gpus_for_session client) (\<lambda>relays.
       ebind (eget (\<lambda>s. (rt_profile_bootstrapped s, rt_target_gpu s))) (\<lambda>(bootstrapped, target).
       ewhen (\<not> bootstrapped) (
         case target of None \<Rightarrow> eraise ConversionTypeError
         | Some gpu \<Rightarrow>
           eseq (on_daemon (dc_bootstrap_profile (tc_daemon client) gpu relays))
                (emodify (\<lambda>s. s\<lparr>rt_profile_bootstrapped := True\<rparr>)))))))))"

definition check_intent_session :: "TransferIntent \<Rightarrow> string \<Rightarrow> 'd Runtime \<Rightarrow> unit result" where
  "check_intent_session intent sid s =
     raise_if (ti_session_id intent \<noteq> sid) (ValueError ''intent session_id must match the runtime session_id'') (
     case map_of (rt_buffers s) (ti_source_buffer_id intent) of
       None \<Rightarrow> Inl (ValueError ''intent source buffer is not registered with the session'')
     | Some source \<Rightarrow>
       (case map_of (rt_buffers s) (ti_destination_buffer_id intent) of
          None \<Rightarrow> Inl (ValueError ''intent destination buffer is not registered with the session'')
        | Some target \<Rightarrow>
          rbind (require_intent_control_plane_safe intent) (\<lambda>_.
          validate_intent_uses_runtime_buffers intent source target (rt_memory s))))"

definition prepare_runtime_intent ::
  "(pyval \<Rightarrow> string) \<Rightarrow> Backend \<Rightarrow> 'd TransferClient \<Rightarrow> rat \<Rightarrow> TransferIntent \<Rightarrow> ('d Runtime, unit) eff" where
  "prepare_runtime_intent str_of backend client now intent =
     eseq require_open (
     ebind (eget rt_job_id) (\<lambda>job.
     eseq (eraise_if (ti_job_id intent \<noteq> job) (ValueError ''intent job_id must match the runtime session job_id'')) (
     eseq (open_session str_of (tc_daemon client)) (
     ebind session_id (\<lambda>sid.
     ebind (eget (\<lambda>s. s)) (\<lambda>s.
     eseq (elift (check_intent_session intent sid s)) (
     eseq (register_pending_buffers str_of backend (tc_daemon client) now) (
     bootstrap_profile_if_enabled str_of client))))))))"

definition record_runtime_submission ::
  "(pyval \<Rightarrow> string) \<Rightarrow> rat \<Rightarrow> TransferIntent \<Rightarrow> ('d Runtime, unit) eff" where
  "record_runtime_submission str_of now intent =
     emodify (\<lambda>s. s\<lparr>rt_submitted_intent_ids := set_add (ti_intent_id intent) (rt_submitted_intent_ids s),
       rt_submitted_intent_buffers := AList.update (ti_intent_id intent)
         (ti_source_buffer_id intent, ti_destination_buffer_id intent) (rt_submitted_intent_buffers s),
       rt_active_intent_ids := set_add (ti_intent_id intent) (rt_active_intent_ids s),
       rt_lifecycle_records := record_buffer_lifecycle_intent_use str_of intent now (rt_lifecycle_records s)\<rparr>)"

definition note_receipt :: "(pyval \<Rightarrow> string) \<Rightarrow> TransferReceipt \<Rightarrow> string \<Rightarrow> ('d Runtime, unit) eff" where
  "note_receipt str_of receipt intent_id =
     eseq (ewhen (terminal_receipt_state (tr_state receipt))
       (emodify (\<lambda>s. s\<lparr>rt_active_intent_ids := removeAll intent_id (rt_active_intent_ids s)\<rparr>)))
       (emodify (\<lambda>s. s\<lparr>rt_lifecycle_records := record_buffer_lifecycle_receipt str_of receipt intent_id
          (rt_submitted_intent_buffers s) (rt_lifecycle_records s)\<rparr>))"

definition finalize_runtime_receipt ::
  "(pyval \<Rightarrow> string) \<Rightarrow> TransferReceipt \<Rightarrow> string \<Rightarrow> ('d Runtime, TransferReceipt) eff" where
  "finalize_runtime_receipt str_of receipt intent_id =
     ebind session_id (\<lambda>sid.
     ebind (eget (\<lambda>s. (rt_job_id s, map_of (rt_submitted_intent_buffers s) intent_id))) (\<lambda>(job, buffers).
     eseq (elift (validate_runtime_receipt str_of receipt intent_id job sid
             (map_option fst buffers) (map_option snd buffers))) (
     eseq (note_receipt str_of receipt intent_id) (eret receipt))))"

definition wait_runtime_receipt ::
  "(pyval \<Rightarrow> string) \<Rightarrow> 'd TransferClient \<Rightarrow> string \<Rightarrow> rat option \<Rightarrow> ('d Runtime, TransferReceipt) eff" where
  "wait_runtime_receipt str_of client intent_id timeout_seconds =
     eseq require_open (
     ebind (eget (\<lambda>s. intent_id \<in> set (rt_submitted_intent_ids s))) (\<lambda>submitted.
     eseq (eraise_if (\<not> submitted)
       (ValueError ''runtime session can only wait for intents submitted through it'')) (
     ebind (on_daemon (tc_wait client intent_id timeout_seconds)) (\<lambda>response.
     ebind (elift (receipt_from_daemon_response str_of response intent_id)) (\<lambda>receipt.
     finalize_runtime_receipt str_of receipt intent_id)))))"

definition submit_runtime_intent ::
  "(pyval \<Rightarrow> string) \<Rightarrow> Backend \<Rightarrow> 'd TransferClient \<Rightarrow> rat \<Rightarrow> TransferIntent \<Rightarrow> bool \<Rightarrow> rat option \<Rightarrow>
   ('d Runtime, TransferReceipt) eff" where
  "submit_runtime_intent str_of backend client now intent wait timeout_seconds =
     eseq (prepare_runtime_intent str_of backend client now intent) (
     eseq (record_runtime_submission str_of now intent) (
     ecatch
       (ebind (on_daemon (tc_submit client intent)) (\<lambda>response.
        ebind (on_daemon (tc_execute client intent response)) (\<lambda>receipt.
        if wait then wait_runtime_receipt str_of client (ti_intent_id intent) timeout_seconds
        else finalize_runtime_receipt str_of receipt (ti_intent_id intent))))
       (\<lambda>e. eseq (emodify (\<lambda>s. s\<lparr>rt_active_intent_ids := removeAll (ti_intent_id intent) (rt_active_intent_ids s)\<rparr>))
                 (eraise e))))"

definition recover_transfer_state ::
  "(pyval \<Rightarrow> string) \<Rightarrow> 'd TransferClient \<Rightarrow> string option \<Rightarrow> string option \<Rightarrow> ('d Runtime, mapping) eff" where
  "recover_transfer_state str_of client intent_id transfer_id =
     eseq require_open (
     eseq (eraise_if (intent_id = None \<and> transfer_id = None)
       (ValueError ''intent_id or transfer_id is required'')) (
     ebind (eget (\<lambda>s. opt_holds (\<lambda>i. i \<notin> set (rt_submitted_intent_ids s)) intent_id)) (\<lambda>foreign.
     eseq (eraise_if foreign (ValueError ''runtime session can only recover intents submitted through it'')) (
     ebind (on_daemon (tc_recover client intent_id transfer_id)) (\<lambda>response.
     eseq (require_ok ''daemon transfer recovery failed'' response) (
     ebind (elift (require_mapping (vget (rp_payload response) ''transfer_recovery'' VNone)
       ''daemon response missing transfer_recovery'')) (\<lambda>recovery.
     eseq (case vget recovery ''receipt'' VNone of
             VDict payload \<Rightarrow>
               ebind (elift (transfer_receipt_from_payload str_of payload)) (\<lambda>receipt.
               ebind (eget (\<lambda>s. tr_intent_id receipt \<in> set (rt_submitted_intent_ids s))) (\<lambda>submitted.
               ewhen submitted (
                 eseq (finalize_runtime_receipt str_of receipt (tr_intent_id receipt)) (eret ()))))
           | _ \<Rightarrow> eret ()) (
     eret recovery))))))))"

section \<open>Closing\<close>

text \<open>\<open>str(exc) or exc.__class__.__name__\<close>.\<close>

definition error_class :: "py_error \<Rightarrow> string" where
  "error_class e =
     (case e of ValueError _ \<Rightarrow> ''ValueError'' | TypeError _ \<Rightarrow> ''TypeError'' | KeyError _ \<Rightarrow> ''KeyError''
      | RuntimeError _ \<Rightarrow> ''RuntimeError'' | OSError _ \<Rightarrow> ''OSError''
      | WorkerStagingPoolError _ \<Rightarrow> ''WorkerStagingPoolError''
      | WorkerDataPlaneResourceError _ \<Rightarrow> ''WorkerDataPlaneResourceError''
      | IntLiteralError \<Rightarrow> ''ValueError'' | ConversionTypeError \<Rightarrow> ''TypeError'')"

definition error_or_class :: "py_error \<Rightarrow> string" where
  "error_or_class e = (if error_text e = [] then error_class e else error_text e)"

definition wait_evidence :: "string \<Rightarrow> TransferReceipt result \<Rightarrow> mapping" where
  "wait_evidence intent_id outcome =
     (case outcome of
        Inr receipt \<Rightarrow>
          [(''intent_id'', VStr intent_id), (''ok'', VBool True), (''state'', VStr (state_value (tr_state receipt))),
           (''bytes_completed'', VInt (tr_bytes_completed receipt))]
      | Inl e \<Rightarrow> [(''intent_id'', VStr intent_id), (''ok'', VBool False), (''error'', VStr (error_or_class e))])"

definition close_active_intent_receipts ::
  "(pyval \<Rightarrow> string) \<Rightarrow> 'd TransferClient \<Rightarrow> ('d Runtime, mapping list) eff" where
  "close_active_intent_receipts str_of client =
     ebind (eget rt_active_intent_ids) (\<lambda>intent_ids.
     emap (\<lambda>i. ebind (eoutcome (wait_runtime_receipt str_of client i (Some 0))) (\<lambda>outcome.
              eret (wait_evidence i outcome))) intent_ids)"

definition recovery_record :: "(pyval \<Rightarrow> string) \<Rightarrow> string \<Rightarrow> mapping \<Rightarrow> mapping result" where
  "recovery_record str_of intent_id recovery =
     (let base = [(''intent_id'', VStr intent_id), (''ok'', VBool True),
                  (''source'', VStr ''daemon_authoritative_transfer_recovery'')];
          transfer_id = vget recovery ''transfer_id'' VNone;
          tail = (if transfer_id = VNone then [] else [(''transfer_id'', VStr (py_str str_of transfer_id))])
                 @ [(''archived'', VBool (truthy (vget recovery ''archived'' (VBool False))))]
      in case vget recovery ''receipt'' VNone of
           VDict receipt \<Rightarrow>
             rbind (int_or_zero receipt ''bytes_completed'') (\<lambda>completed_bytes.
             rbind (int_or_zero receipt ''bytes_total'') (\<lambda>total_bytes.
             Inr (base @ [(''state'', VStr (py_str str_of (vget receipt ''state'' VNone))),
                          (''bytes_completed'', VInt completed_bytes), (''bytes_total'', VInt total_bytes)] @ tail)))
         | _ \<Rightarrow> Inr (base @ tail))"

definition recovery_evidence :: "(pyval \<Rightarrow> string) \<Rightarrow> string \<Rightarrow> mapping result \<Rightarrow> mapping" where
  "recovery_evidence str_of intent_id outcome =
     (case rbind outcome (recovery_record str_of intent_id) of
        Inr m \<Rightarrow> m
      | Inl e \<Rightarrow> [(''intent_id'', VStr intent_id), (''ok'', VBool False),
                 (''source'', VStr ''daemon_authoritative_transfer_recovery''), (''error'', VStr (error_or_class e))])"

definition recover_active_intent_receipts ::
  "(pyval \<Rightarrow> string) \<Rightarrow> 'd TransferClient \<Rightarrow> string list \<Rightarrow> ('d Runtime, mapping list) eff" where
  "recover_active_intent_receipts str_of client intent_ids =
     emap (\<lambda>i. ebind (eoutcome (recover_transfer_state str_of client (Some i) None)) (\<lambda>outcome.
              eret (recovery_evidence str_of i outcome))) intent_ids"

definition buffer_close_cleanup_record :: "string \<Rightarrow> DaemonResponse \<Rightarrow> mapping" where
  "buffer_close_cleanup_record i response =
     [(''buffer_id'', VStr i), (''ok'', VBool (rp_ok response))]
     @ (case rp_error response of None \<Rightarrow> [] | Some e \<Rightarrow> if e = [] then [] else [(''error'', VStr e)])
     @ [(''payload'', VDict (rp_payload response))]"

definition cleanup_registered_buffers_for_close ::
  "(pyval \<Rightarrow> string) \<Rightarrow> Backend \<Rightarrow> 'd TransferClient \<Rightarrow> rat \<Rightarrow> ('d Runtime, mapping list \<times> mapping list) eff" where
  "cleanup_registered_buffers_for_close str_of backend client now =
     ebind (eget rt_registered_buffer_ids) (\<lambda>ids.
     ebind (emap (\<lambda>i.
          ebind (eoutcome (cleanup_runtime_buffer str_of backend (tc_daemon client) now i ''runtime_session_close'' True))
            (\<lambda>outcome. eret (case outcome of
               Inr response \<Rightarrow> Inr (buffer_close_cleanup_record i response)
             | Inl e \<Rightarrow> Inl [(''buffer_id'', VStr i), (''error'', VStr (error_text e))]))) ids) (\<lambda>outcomes.
     eret (List.map_filter (\<lambda>x. case x of Inr m \<Rightarrow> Some m | Inl _ \<Rightarrow> None) outcomes,
           List.map_filter (\<lambda>x. case x of Inl m \<Rightarrow> Some m | Inr _ \<Rightarrow> None) outcomes)))"

definition lifecycle_snapshot :: "'d Runtime \<Rightarrow> mapping" where
  "lifecycle_snapshot s =
     [(''job_id'', VStr (rt_job_id s)), (''session_id'', opt_value VStr (rt_session_id s)),
      (''active_intent_ids'', VList (map VStr (sort (rt_active_intent_ids s)))),
      (''registered_buffer_ids'', VList (map VStr (sort (rt_registered_buffer_ids s)))),
      (''runtime_owned_cpu_buffer_ids'', VList (map VStr (sort (rt_owned_cpu_buffer_ids s)))),
      (''buffers'', VDict (map (\<lambda>(k, m). (k, VDict m)) (sort_key fst (rt_lifecycle_records s))))]"

definition owned_cpu_release_records :: "mapping list \<Rightarrow> mapping list" where
  "owned_cpu_release_records records = filter (\<lambda>m. truthy (vget m ''runtime_owned'' (VBool False))) records"

definition put_if :: "bool \<Rightarrow> string \<Rightarrow> mapping list \<Rightarrow> mapping \<Rightarrow> mapping" where
  "put_if c k records payload = (if c then AList.update k (VList (map VDict records)) payload else payload)"

definition add_local_cpu_cleanup :: "mapping list \<Rightarrow> mapping \<Rightarrow> mapping" where
  "add_local_cpu_cleanup records payload =
     (let owned = owned_cpu_release_records records
      in put_if (owned \<noteq> []) ''owned_cpu_buffer_release'' owned
           (put_if (records \<noteq> []) ''local_cpu_buffer_cleanup'' records payload))"

definition close_session_payload ::
  "mapping \<Rightarrow> mapping \<Rightarrow> mapping \<Rightarrow> mapping list \<Rightarrow> mapping list \<Rightarrow> mapping list \<Rightarrow> mapping list \<Rightarrow> mapping list \<Rightarrow> mapping" where
  "close_session_payload answered earlier later_on waits recoveries cleanups locally errors =
     put_if (errors \<noteq> []) ''buffer_cleanup_errors'' errors
       (add_local_cpu_cleanup locally
         (put_if (cleanups \<noteq> []) ''buffer_cleanup_evidence'' cleanups
           (put_if (recoveries \<noteq> []) ''active_intent_recovery'' recoveries
             (put_if (waits \<noteq> []) ''active_intent_receipts'' waits
               (AList.update ''buffer_lifecycle_after_cleanup'' (VDict later_on)
                 (AList.update ''buffer_lifecycle'' (VDict earlier) answered))))))"

definition clear_runtime_session_state :: "('d Runtime, unit) eff" where
  "clear_runtime_session_state =
     emodify (\<lambda>s. s\<lparr>rt_session_id := None, rt_target_gpu := None, rt_relay_gpus := None,
       rt_profile_bootstrapped := False, rt_buffers := [], rt_registered_buffer_ids := [], rt_fingerprints := [],
       rt_owned_cpu_buffer_ids := [], rt_submitted_intent_ids := [], rt_submitted_intent_buffers := [],
       rt_active_intent_ids := [], rt_lifecycle_records := []\<rparr>)"

definition shut :: "('d Runtime, unit) eff" where
  "shut = eseq clear_runtime_session_state (emodify (\<lambda>s. s\<lparr>rt_closed := True\<rparr>))"

definition close_without_daemon_session :: "Backend \<Rightarrow> mapping \<Rightarrow> ('d Runtime, DaemonResponse) eff" where
  "close_without_daemon_session backend earlier =
     ebind (cleanup_local_cpu_buffers backend ''runtime_session_close_without_daemon_session'') (\<lambda>locally.
     eseq shut (
     eret \<lparr>rp_ok = True, rp_error = None, rp_payload = add_local_cpu_cleanup locally
       [(''closed'', VBool False), (''managed_service_shutdown'', VList []), (''buffer_lifecycle'', VDict earlier)]\<rparr>))"

text \<open>With the daemon session: what \<open>close\<close> asks for before it lets the state go.\<close>

record CloseEvidence =
  ce_waits :: "mapping list"
  ce_cleanups :: "mapping list"
  ce_errors :: "mapping list"
  ce_response :: DaemonResponse
  ce_recoveries :: "mapping list"
  ce_later :: mapping
  ce_locally :: "mapping list"

definition close_daemon_session :: "'d TransferClient \<Rightarrow> string \<Rightarrow> ('d Runtime, DaemonResponse) eff" where
  "close_daemon_session client sid =
     ebind (eoutcome (on_daemon (dc_close_session (tc_daemon client) sid))) (\<lambda>outcome.
     eret (case outcome of Inr response \<Rightarrow> response
       | Inl e \<Rightarrow> \<lparr>rp_ok = False, rp_error = Some (error_text e), rp_payload = []\<rparr>))"

definition settle_session ::
  "(pyval \<Rightarrow> string) \<Rightarrow> Backend \<Rightarrow> 'd TransferClient \<Rightarrow> rat \<Rightarrow> string \<Rightarrow> ('d Runtime, CloseEvidence) eff" where
  "settle_session str_of backend client now sid =
     ebind (close_active_intent_receipts str_of client) (\<lambda>waits.
     ebind (eget rt_active_intent_ids) (\<lambda>unfinished.
     ebind (cleanup_registered_buffers_for_close str_of backend client now) (\<lambda>(cleanups, errors).
     ebind (close_daemon_session client sid) (\<lambda>response.
     ebind (recover_active_intent_receipts str_of client unfinished) (\<lambda>recoveries.
     ebind (eget lifecycle_snapshot) (\<lambda>later_on.
     ebind (cleanup_local_cpu_buffers backend ''runtime_session_close'') (\<lambda>locally.
     eret \<lparr>ce_waits = waits, ce_cleanups = cleanups, ce_errors = errors, ce_response = response,
           ce_recoveries = recoveries, ce_later = later_on, ce_locally = locally\<rparr>)))))))"

definition close_runtime ::
  "(pyval \<Rightarrow> string) \<Rightarrow> Backend \<Rightarrow> 'd TransferClient \<Rightarrow> rat \<Rightarrow> ('d Runtime, DaemonResponse) eff" where
  "close_runtime str_of backend client now =
     ebind (eget (\<lambda>s. s)) (\<lambda>s.
     if rt_closed s
     then eret \<lparr>rp_ok = True, rp_error = None,
                rp_payload = [(''closed'', VBool False), (''already_closed'', VBool True)]\<rparr>
     else case rt_session_id s of
       None \<Rightarrow> close_without_daemon_session backend (lifecycle_snapshot s)
     | Some sid \<Rightarrow>
       ebind (settle_session str_of backend client now sid) (\<lambda>e.
       eseq shut (
       eret ((ce_response e)\<lparr>rp_payload :=
         close_session_payload (rp_payload (ce_response e)) (lifecycle_snapshot s) (ce_later e) (ce_waits e)
           (ce_recoveries e) (ce_cleanups e) (ce_locally e) (ce_errors e)\<rparr>))))"

end
