(* ===== verification/Runtime_Runs.thy ===== *)
theory Runtime_Runs
  imports Runtime_Transfers
begin

text \<open>
  Runs of a runtime session with its transfers: every operation keeps the buffer registry and the
  account of the intents, whatever the daemon and the executor answer and whichever call raises.
\<close>

section \<open>The account of the intents\<close>

definition used_by :: "(string, mapping) dict \<Rightarrow> string \<Rightarrow> string \<Rightarrow> bool" where
  "used_by records b i =
     (\<exists>m. map_of records b = Some m \<and>
       i \<in> set (dkeys (copy_lifecycle_mapping (vget m ''active_uses'' VNone))))"

definition intents_in ::
  "string list \<Rightarrow> string list \<Rightarrow> (string, string \<times> string) dict \<Rightarrow> (string, mapping) dict \<Rightarrow> bool" where
  "intents_in current submitted buffers records =
     (set current \<subseteq> set submitted \<and> set submitted = set (dkeys buffers) \<and>
      (\<forall>i \<in> set current. \<forall>source destination. map_of buffers i = Some (source, destination) \<longrightarrow>
         used_by records source i \<and> used_by records destination i))"

definition intents_ok :: "'d Runtime \<Rightarrow> bool" where
  "intents_ok s = intents_in (rt_active_intent_ids s) (rt_submitted_intent_ids s)
     (rt_submitted_intent_buffers s) (rt_lifecycle_records s)"

text \<open>The recorded uses of a buffer record.\<close>

definition uses_of :: "mapping \<Rightarrow> string set" where
  "uses_of m = set (dkeys (copy_lifecycle_mapping (vget m ''active_uses'' VNone)))"

lemma used_by_iff: "used_by records b i \<longleftrightarrow> (\<exists>m. map_of records b = Some m \<and> i \<in> uses_of m)"
  by (simp add: used_by_def uses_of_def)

lemma uses_of_update_other [simp]: "k \<noteq> ''active_uses'' \<Longrightarrow> uses_of (AList.update k v m) = uses_of m"
  by (simp add: uses_of_def vget_def dget_default_def)

lemma uses_of_update [simp]: "uses_of (AList.update ''active_uses'' (VDict d) m) = set (dkeys d)"
  by (simp add: uses_of_def vget_def dget_default_def copy_lifecycle_mapping_def)

lemma used_by_update:
  "(\<And>m. map_of records b = Some m \<Longrightarrow> uses_of m \<subseteq> uses_of m') \<Longrightarrow>
   used_by records c i \<Longrightarrow> used_by (AList.update b m' records) c i"
  by (auto simp: used_by_iff)

lemma used_by_new: "i \<in> uses_of m \<Longrightarrow> used_by (AList.update b m records) b i"
  by (simp add: used_by_iff)

lemma uses_of_plain [simp]:
  "uses_of [] = {}" "uses_of [(''buffer_id'', x), (''job_id'', y), (''session_id'', z), (''state'', w)] = {}"
  by (simp_all add: uses_of_def vget_def dget_default_def copy_lifecycle_mapping_def)

lemma uses_fold: "set (dkeys (copy_lifecycle_mapping (vget m ''active_uses'' VNone))) = uses_of m"
  by (simp add: uses_of_def)

lemma delete_all: "AList.delete k d = [] \<Longrightarrow> x \<in> set (dkeys d) \<Longrightarrow> x = k"
  using set_dkeys_delete [of k d] by auto

lemma record_use_uses:
  obtains m' where "record_use str_of intent now (role, b) records = AList.update b m' records"
    "uses_of m' = uses_of (dget_default records b []) \<union> {ti_intent_id intent}"
  by (rule that [unfolded record_use_def Let_def prod.case], rule refl)
     (auto simp: dget_default_def uses_fold AList.update_keys dom_update split: option.split simp del: set_map)

lemma used_by_record_use:
  "used_by records c i \<Longrightarrow> used_by (record_use str_of intent now (role, b) records) c i"
  "used_by (record_use str_of intent now (role, b) records) b (ti_intent_id intent)"
proof -
  obtain m' where m': "record_use str_of intent now (role, b) records = AList.update b m' records"
    "uses_of m' = uses_of (dget_default records b []) \<union> {ti_intent_id intent}"
    using record_use_uses .
  show "used_by records c i \<Longrightarrow> used_by (record_use str_of intent now (role, b) records) c i"
    unfolding m'(1) by (rule used_by_update) (auto simp: m'(2) dget_default_def)
  show "used_by (record_use str_of intent now (role, b) records) b (ti_intent_id intent)"
    unfolding m'(1) by (rule used_by_new) (simp add: m'(2))
qed

lemma used_by_receipt_in:
  assumes "used_by records c i" "i \<noteq> intent_id \<or> \<not> terminal_receipt_state (tr_state receipt)"
  shows "used_by (record_receipt_in str_of receipt intent_id b records) c i"
proof (cases "map_of records b")
  case None
  with assms show ?thesis by (simp add: record_receipt_in_def)
next
  case (Some m)
  have "i \<in> uses_of (record_receipt_use str_of receipt intent_id b m)" if "i \<in> uses_of m"
    using that assms(2) unfolding record_receipt_use_def Let_def
    by (auto simp: set_dkeys_delete AList.update_keys dom_update uses_fold simp del: set_map
        dest: delete_all [OF _ that [unfolded uses_of_def]])
  with assms(1) show ?thesis by (auto simp: record_receipt_in_def Some used_by_iff)
qed

lemma used_by_receipt:
  assumes "used_by records c i" "i \<noteq> intent_id \<or> \<not> terminal_receipt_state (tr_state receipt)"
  shows "used_by (record_buffer_lifecycle_receipt str_of receipt intent_id buffers records) c i"
  using assms by (auto simp: record_buffer_lifecycle_receipt_def used_by_receipt_in split: option.split prod.split)

lemma used_by_cleanup:
  assumes "used_by records c i"
  shows "used_by (record_buffer_lifecycle_cleanup b ok cleanup_record records) c i"
  unfolding record_buffer_lifecycle_cleanup_def Let_def
  by (rule used_by_update [OF _ assms]) (auto simp: dget_default_def)

lemma used_by_registration:
  assumes "record_buffer_lifecycle_registration b registration sid owned now records = Inr records'"
    and "used_by records c i"
  shows "used_by records' c i"
proof -
  have carried: "set (dkeys d) \<subseteq> uses_of (carry_over ''cleanup_history'' x (carry_over ''terminal_uses'' y
      (carry_over ''active_uses'' (VDict d) m)))" for x y d m
    by (cases d) (auto simp: carry_over_def)
  obtain n where records': "records' = AList.update (br_buffer_id registration)
      (carry_over ''cleanup_history'' (VList (copy_lifecycle_sequence
          (vget (dget_default records (br_buffer_id registration) []) ''cleanup_history'' VNone)))
        (carry_over ''terminal_uses'' (VList (copy_lifecycle_sequence
            (vget (dget_default records (br_buffer_id registration) []) ''terminal_uses'' VNone)))
          (carry_over ''active_uses'' (VDict (copy_lifecycle_mapping
              (vget (dget_default records (br_buffer_id registration) []) ''active_uses'' VNone)))
            (runtime_buffer_lifecycle_registration b registration sid owned now n)))) records"
    using assms(1) by (auto simp: record_buffer_lifecycle_registration_def Let_def result_simps)
  show ?thesis
    unfolding records'
    by (rule used_by_update [OF _ assms(2)]) (simp add: dget_default_def uses_fold [symmetric] carried [unfolded uses_of_def] del: set_map)
qed

section \<open>Operations on buffers keep the account\<close>

lemma intents_frame [simp]:
  "intents_ok (s\<lparr>rt_memory := a\<rparr>) = intents_ok s" "intents_ok (s\<lparr>rt_daemon := b\<rparr>) = intents_ok s"
  "intents_ok (s\<lparr>rt_buffers := c\<rparr>) = intents_ok s" "intents_ok (s\<lparr>rt_fingerprints := d\<rparr>) = intents_ok s"
  "intents_ok (s\<lparr>rt_registered_buffer_ids := e\<rparr>) = intents_ok s"
  "intents_ok (s\<lparr>rt_owned_cpu_buffer_ids := f\<rparr>) = intents_ok s"
  "intents_ok (s\<lparr>rt_target_gpu := g\<rparr>) = intents_ok s" "intents_ok (s\<lparr>rt_relay_gpus := h\<rparr>) = intents_ok s"
  "intents_ok (s\<lparr>rt_session_id := i\<rparr>) = intents_ok s" "intents_ok (s\<lparr>rt_profile_bootstrapped := j\<rparr>) = intents_ok s"
  by (simp_all add: intents_ok_def)

lemma intents_records:
  assumes "intents_ok s" "\<And>c i. used_by (rt_lifecycle_records s) c i \<Longrightarrow> used_by records c i"
  shows "intents_ok (s\<lparr>rt_lifecycle_records := records\<rparr>)"
  using assms by (auto simp: intents_ok_def intents_in_def simp del: set_map)

lemma keeps_plain: "keeps I require_open" "keeps I session_id" "keeps I (require_ok message response)"
  unfolding require_open_def session_id_def require_ok_def by (intro keeps_rules)+

lemma intents_memory: "keeps intents_ok (on_memory m)"
  by (auto simp: keeps_def on_memory_def split: prod.split)

lemma intents_daemon: "keeps intents_ok (on_daemon m)"
  by (auto simp: keeps_def on_daemon_def split: prod.split)

lemma intents_record_cleanup: "keeps intents_ok (record_cleanup i ok r)"
  unfolding record_cleanup_def by (rule keeps_emodify) (rule intents_records, assumption, rule used_by_cleanup)

lemma intents_forget: "keeps intents_ok (forget_runtime_buffer i)"
  unfolding forget_runtime_buffer_def by (rule keeps_emodify) simp

lemma intents_local_cleanup: "keeps intents_ok (cleanup_local_cpu_buffer backend i r reason owned)"
  unfolding cleanup_local_cpu_buffer_def by (intro keeps_rules intents_memory)

lemma intents_local_release: "keeps intents_ok (cleanup_local_buffer_for_release backend i b reason owned)"
  unfolding cleanup_local_buffer_for_release_def
  by (auto intro!: keeps_rules intents_local_cleanup split: option.split ExecutableBuffer.split)

lemma intents_cleanup: "keeps intents_ok (cleanup_runtime_buffer str_of backend client now i reason force)"
  unfolding cleanup_runtime_buffer_def cleanup_daemon_registered_buffer_def retain_runtime_buffer_cleanup_def
    record_buffer_cleanup_retention_def settle_cleanup_def Let_def
  by (auto intro!: keeps_rules keeps_plain intents_daemon intents_forget intents_local_release intents_record_cleanup
      split: prod.split sum.split option.split)

lemma intents_open_session: "keeps intents_ok (open_session str_of client)"
  unfolding open_session_def Let_def
  by (auto intro!: keeps_rules keeps_plain intents_daemon split: option.split prod.split)

lemma intents_note_registered: "keeps intents_ok (note_registered now entry g)"
proof -
  have "intents_ok (s\<lparr>rt_lifecycle_records := records\<rparr>)"
    if "intents_ok s" "record_buffer_lifecycle_registration b r sid owned now (rt_lifecycle_records s) = Inr records"
    for s :: "'a Runtime" and b r sid owned records
    by (rule intents_records [OF that(1)]) (rule used_by_registration [OF that(2)])
  then show ?thesis
    unfolding note_registered_def keeps_def by (auto simp: effect_defs split: prod.split sum.split)
qed

lemma intents_pending_buffer: "keeps intents_ok (register_pending_buffer str_of client entry)"
  unfolding register_pending_buffer_def buffer_registration_def Let_def
  by (auto intro!: keeps_rules keeps_plain intents_daemon intents_memory split: prod.split ExecutableBuffer.split)

lemma intents_pending_loop: "keeps intents_ok (register_pending_loop str_of client now entries registered_now)"
  by (induction entries arbitrary: registered_now)
     (auto intro!: keeps_rules intents_pending_buffer intents_note_registered split: sum.split option.split)

lemma intents_register_pending: "keeps intents_ok (register_pending_buffers str_of backend client now)"
  unfolding register_pending_buffers_def
  by (auto intro!: keeps_rules keeps_plain intents_pending_loop intents_cleanup split: prod.split option.split)

lemma intents_register: "keeps intents_ok (register_runtime_buffer str_of backend client now b)"
  unfolding register_runtime_buffer_def check_runtime_buffer_def validate_runtime_buffer_backing_def
    bind_target_gpu_def try_register_def restore_buffer_def Let_def
  by (auto intro!: keeps_rules keeps_plain intents_memory intents_open_session intents_register_pending
      split: prod.split option.split ExecutableBuffer.split)

lemma intents_register_cpu: "keeps intents_ok (register_cpu_buffer str_of backend client now r owned)"
  unfolding register_cpu_buffer_def undo_cpu_registration_def
  by (auto intro!: keeps_rules keeps_plain intents_memory intents_register)

lemma intents_rollback: "keeps intents_ok (rollback_transfer_context_buffer str_of backend client now i known)"
  unfolding rollback_transfer_context_buffer_def Let_def
  by (auto intro!: keeps_rules intents_cleanup intents_forget intents_local_release split: prod.split sum.split)

lemma intents_let_go: "keeps intents_ok (cleanup_local_cpu_buffers backend reason)"
  unfolding cleanup_local_cpu_buffers_def
  by (auto intro!: keeps_rules intents_local_cleanup split: prod.split ExecutableBuffer.split)

lemma intents_session_step: "session_step str_of backend client s t \<Longrightarrow> intents_ok s \<Longrightarrow> intents_ok t"
proof (induction rule: session_step.induct)
  case (allocated s now uuid i n prefix)
  have "keeps intents_ok (allocate_cpu_buffer str_of backend client now uuid i n prefix)"
    unfolding allocate_cpu_buffer_def by (intro keeps_rules keeps_plain intents_memory intents_register_cpu)
  with allocated show ?case by (simp add: keeps_def)
next
  case (registered_cuda s now ref g)
  have "keeps intents_ok (register_cuda_buffer str_of backend client now ref g)"
    unfolding register_cuda_buffer_def by (intro keeps_rules keeps_plain intents_register)
  with registered_cuda show ?case by (simp add: keeps_def)
qed (simp_all add: intents_open_session [unfolded keeps_def, rule_format]
    intents_register_cpu [unfolded keeps_def, rule_format] intents_cleanup [unfolded keeps_def, rule_format]
    intents_rollback [unfolded keeps_def, rule_format] intents_let_go [unfolded keeps_def, rule_format])

section \<open>Transfers keep the account\<close>

lemma intents_record_submitted: "keeps intents_ok (record_runtime_submission str_of now intent)"
  unfolding record_runtime_submission_def
proof (rule keeps_emodify)
  fix s :: "'a Runtime"
  assume "intents_ok s"
  then show "intents_ok (s\<lparr>rt_submitted_intent_ids := set_add (ti_intent_id intent) (rt_submitted_intent_ids s),
       rt_submitted_intent_buffers := AList.update (ti_intent_id intent)
         (ti_source_buffer_id intent, ti_destination_buffer_id intent) (rt_submitted_intent_buffers s),
       rt_active_intent_ids := set_add (ti_intent_id intent) (rt_active_intent_ids s),
       rt_lifecycle_records := record_buffer_lifecycle_intent_use str_of intent now (rt_lifecycle_records s)\<rparr>)"
    by (auto simp: intents_ok_def intents_in_def record_buffer_lifecycle_intent_use_def set_add_def
        AList.update_keys dom_update used_by_record_use simp del: set_map split: if_splits)
qed

lemma intents_inactive:
  assumes "intents_ok s" "\<And>c i. used_by (rt_lifecycle_records s) c i \<Longrightarrow> i \<noteq> intent_id \<Longrightarrow> used_by records c i"
  shows "intents_ok (s\<lparr>rt_active_intent_ids := removeAll intent_id (rt_active_intent_ids s), rt_lifecycle_records := records\<rparr>)"
  using assms by (auto simp: intents_ok_def intents_in_def simp del: set_map)

lemma intents_discard: "intents_ok s \<Longrightarrow> intents_ok (s\<lparr>rt_active_intent_ids := removeAll i (rt_active_intent_ids s)\<rparr>)"
  using intents_inactive [of s i "rt_lifecycle_records s"] by simp

lemma intents_note_receipt: "keeps intents_ok (note_receipt str_of receipt intent_id)"
proof (cases "terminal_receipt_state (tr_state receipt)")
  case True
  then show ?thesis
    by (auto simp: keeps_def note_receipt_def effect_defs intro!: intents_inactive used_by_receipt)
next
  case False
  then show ?thesis
    by (auto simp: keeps_def note_receipt_def effect_defs intro!: intents_records used_by_receipt)
qed

lemma intents_finalize: "keeps intents_ok (finalize_runtime_receipt str_of receipt intent_id)"
  unfolding finalize_runtime_receipt_def
  by (auto intro!: keeps_rules keeps_plain intents_note_receipt split: prod.split)

lemma intents_wait: "keeps intents_ok (wait_runtime_receipt str_of client i timeout)"
  unfolding wait_runtime_receipt_def by (intro keeps_rules keeps_plain intents_daemon intents_finalize)

lemma intents_prepare: "keeps intents_ok (prepare_runtime_intent str_of backend client now intent)"
  unfolding prepare_runtime_intent_def bootstrap_profile_if_enabled_def relay_gpus_for_session_def
  by (auto intro!: keeps_rules keeps_plain intents_daemon intents_open_session intents_register_pending
      split: prod.split option.split)

lemma intents_submit: "keeps intents_ok (submit_runtime_intent str_of backend client now intent wait timeout)"
  unfolding submit_runtime_intent_def
  by (intro keeps_rules intents_prepare intents_record_submitted intents_daemon intents_wait intents_finalize
      intents_discard)

lemma intents_recover: "keeps intents_ok (recover_transfer_state str_of client i t)"
  unfolding recover_transfer_state_def
  by (auto intro!: keeps_rules keeps_plain intents_daemon intents_finalize split: pyval.split)

lemma intents_cleared: "keeps intents_ok shut"
proof -
  have "intents_ok (s\<lparr>rt_closed := c\<rparr>) = intents_ok s" for s :: "'a Runtime" and c by (simp add: intents_ok_def)
  moreover have "keeps intents_ok clear_runtime_session_state"
    unfolding clear_runtime_session_state_def by (rule keeps_emodify) (simp add: intents_ok_def intents_in_def)
  ultimately show ?thesis
    unfolding shut_def by (intro keeps_rules) simp_all
qed

lemma intents_close: "keeps intents_ok (close_runtime str_of backend client now)"
  unfolding close_runtime_def close_without_daemon_session_def settle_session_def close_daemon_session_def
    close_active_intent_receipts_def cleanup_registered_buffers_for_close_def recover_active_intent_receipts_def
  by (auto intro!: keeps_rules intents_cleared intents_let_go intents_wait intents_cleanup intents_recover
      intents_daemon split: prod.split option.split)

section \<open>Transfers keep the registry\<close>

lemma running_frame [simp]:
  "running K X s0 (s\<lparr>rt_relay_gpus := a\<rparr>) = running K X s0 s"
  "running K X s0 (s\<lparr>rt_profile_bootstrapped := b\<rparr>) = running K X s0 s"
  "running K X s0 (s\<lparr>rt_submitted_intent_ids := c\<rparr>) = running K X s0 s"
  "running K X s0 (s\<lparr>rt_submitted_intent_buffers := d\<rparr>) = running K X s0 s"
  "running K X s0 (s\<lparr>rt_active_intent_ids := e\<rparr>) = running K X s0 s"
  "running K X s0 (s\<lparr>rt_lifecycle_records := f\<rparr>) = running K X s0 s"
  by (simp_all add: running_def registry_in_def later_def)

lemma running_note_receipt: "keeps (running K X s0) (note_receipt str_of receipt intent_id)"
  unfolding note_receipt_def by (intro keeps_rules) simp_all

lemma running_finalize: "keeps (running K X s0) (finalize_runtime_receipt str_of receipt intent_id)"
  unfolding finalize_runtime_receipt_def
  by (auto intro!: keeps_rules keeps_plain running_note_receipt split: prod.split)

lemma running_wait: "keeps (running K X s0) (wait_runtime_receipt str_of client i timeout)"
  unfolding wait_runtime_receipt_def by (intro keeps_rules keeps_plain keeps_on_daemon running_finalize)

lemma running_prepare: "keeps (running {} X s0) (prepare_runtime_intent str_of backend client now intent)"
  unfolding prepare_runtime_intent_def bootstrap_profile_if_enabled_def relay_gpus_for_session_def
  by (auto intro!: keeps_rules keeps_plain keeps_on_daemon keeps_open_session keeps_register_pending
      split: prod.split option.split)

lemma running_submit: "keeps (running {} X s0) (submit_runtime_intent str_of backend client now intent wait timeout)"
  unfolding submit_runtime_intent_def record_runtime_submission_def
  by (intro keeps_rules running_prepare keeps_on_daemon running_wait running_finalize) simp_all

lemma running_recover: "keeps (running K X s0) (recover_transfer_state str_of client i t)"
  unfolding recover_transfer_state_def
  by (auto intro!: keeps_rules keeps_plain keeps_on_daemon running_finalize split: pyval.split)

lemma running_let_go: "keeps (running {} {} s0) (cleanup_local_cpu_buffers backend reason)"
  unfolding cleanup_local_cpu_buffers_def
  by (auto intro!: keeps_rules keeps_local_cleanup running_disown split: prod.split ExecutableBuffer.split)

lemma running_settle: "keeps (running {} {} s0) (settle_session str_of backend client now sid)"
  unfolding settle_session_def close_daemon_session_def close_active_intent_receipts_def
    cleanup_registered_buffers_for_close_def recover_active_intent_receipts_def
  by (auto intro!: keeps_rules running_let_go running_wait keeps_cleanup running_recover keeps_on_daemon split: prod.split)

lemma registry_shut: "keeps registry_ok shut"
proof -
  have "registry_ok (s\<lparr>rt_closed := c\<rparr>) = registry_ok s" for s :: "'a Runtime" and c by (simp add: registry_in_def)
  moreover have "keeps registry_ok clear_runtime_session_state"
    unfolding clear_runtime_session_state_def by (rule keeps_emodify) (simp add: registry_in_def)
  ultimately show ?thesis unfolding shut_def by (intro keeps_rules) simp_all
qed

lemma registry_close: "keeps registry_ok (close_runtime str_of backend client now)"
  unfolding close_runtime_def close_without_daemon_session_def
  by (auto intro!: keeps_rules registry_shut keeps_registry [OF running_let_go] keeps_registry [OF running_settle]
      split: option.split)

section \<open>Runs\<close>

inductive run_step ::
  "(pyval \<Rightarrow> string) \<Rightarrow> Backend \<Rightarrow> 'd TransferClient \<Rightarrow> 'd Runtime \<Rightarrow> 'd Runtime \<Rightarrow> bool"
  for str_of backend client where
  buffers: "session_step str_of backend (tc_daemon client) s t \<Longrightarrow> run_step str_of backend client s t"
| submitted: "run_step str_of backend client s (snd (submit_runtime_intent str_of backend client now intent wait timeout s))"
| waited: "run_step str_of backend client s (snd (wait_runtime_receipt str_of client i timeout s))"
| recovered: "run_step str_of backend client s (snd (recover_transfer_state str_of client i t s))"
| closed: "run_step str_of backend client s (snd (close_runtime str_of backend client now s))"

abbreviation runs :: "(pyval \<Rightarrow> string) \<Rightarrow> Backend \<Rightarrow> 'd TransferClient \<Rightarrow> 'd Runtime \<Rightarrow> 'd Runtime \<Rightarrow> bool" where
  "runs str_of backend client \<equiv> (run_step str_of backend client)\<^sup>*\<^sup>*"

lemma run_step_keeps: "run_step str_of backend client s t \<Longrightarrow> registry_ok s \<and> intents_ok s \<Longrightarrow> registry_ok t \<and> intents_ok t"
proof (induction rule: run_step.induct)
  case (buffers s t)
  then show ?case using registry_step intents_session_step by blast
next
  case (submitted s now intent wait timeout)
  then show ?case
    by (elim conjE, intro conjI) (erule keeps_snd [OF keeps_registry [OF running_submit]], erule keeps_snd [OF intents_submit])
next
  case (waited s i timeout)
  then show ?case
    by (elim conjE, intro conjI) (erule keeps_snd [OF keeps_registry [OF running_wait]], erule keeps_snd [OF intents_wait])
next
  case (recovered s i t)
  then show ?case
    by (elim conjE, intro conjI) (erule keeps_snd [OF keeps_registry [OF running_recover]], erule keeps_snd [OF intents_recover])
next
  case (closed s now)
  then show ?case
    by (elim conjE, intro conjI) (erule keeps_snd [OF registry_close], erule keeps_snd [OF intents_close])
qed

lemma runs_keep: "runs str_of backend client s t \<Longrightarrow> registry_ok s \<and> intents_ok s \<Longrightarrow> registry_ok t \<and> intents_ok t"
  by (induction rule: rtranclp_induct) (blast dest: run_step_keeps)+

lemma intents_new: "intents_ok (new_runtime job user inflight target connection_owned has_worker profile memory daemon)"
  by (simp add: intents_ok_def intents_in_def new_runtime_def)

end
