(* ===== verification/Runtime_Closing.thy ===== *)
theory Runtime_Closing
  imports Runtime_Runs
begin

text \<open>
  Closing a session: it answers whatever the daemon does, and every shared memory segment the session
  owned has lost its name afterwards.
\<close>

section \<open>Segments the session still has to let go\<close>

definition held :: "nat \<Rightarrow> string \<Rightarrow> Memory \<Rightarrow> bool" where
  "held k name m =
     (map_of (mm_names m) name = None \<or>
      (cb_owner (mm_buffers m ! k) \<and> \<not> cb_unlinked (mm_buffers m ! k) \<and>
       cb_shared_memory_name (mm_buffers m ! k) = name))"

lemma held_set_cpu:
  assumes "\<And>b. cb_shared_memory_name (f b) = cb_shared_memory_name b" "\<And>b. cb_owner (f b) = cb_owner b"
    and "\<And>b. cb_unlinked (f b) = cb_unlinked b"
  shows "keeps (held k name) (set_cpu r f)"
  unfolding set_cpu_def
proof (rule keeps_emodify)
  fix m assume "held k name m"
  with assms show "held k name (m\<lparr>mm_buffers := (mm_buffers m)[r := f (mm_buffers m ! r)]\<rparr>)"
    by (cases "r < length (mm_buffers m)") (auto simp: held_def nth_list_update not_less list_update_beyond)
qed

lemma held_close: "keeps (held k name) (cpu_close backend r)"
  unfolding cpu_close_def unregister_from_cuda_def
  by (intro keeps_rules keeps_cpu_at keeps_native held_set_cpu) simp_all

lemma held_unlink: "keeps (held k name) (cpu_unlink r)"
proof (unfold keeps_def, intro allI impI)
  fix m assume "held k name m"
  then show "held k name (snd (cpu_unlink r m))"
    by (cases "r < length (mm_buffers m)")
       (auto simp: cpu_unlink_def shm_unlink_def cpu_at_def set_cpu_def effect_defs held_def delete_conv
         nth_list_update not_less list_update_beyond)
qed

lemma held_release: "keeps (held k name) (cpu_release backend r)"
  unfolding cpu_release_def by (intro keeps_rules keeps_cpu_at held_close held_unlink)

lemma gone_set_cpu: "keeps (\<lambda>m. map_of (mm_names m) name = None) (set_cpu r f)"
  unfolding set_cpu_def by (rule keeps_emodify) simp

lemma gone_close: "keeps (\<lambda>m. map_of (mm_names m) name = None) (cpu_close backend r)"
  unfolding cpu_close_def unregister_from_cuda_def
  by (intro keeps_rules keeps_cpu_at keeps_native gone_set_cpu)

lemma gone_release: "keeps (\<lambda>m. map_of (mm_names m) name = None) (cpu_release backend r)"
proof -
  have "keeps (\<lambda>m. map_of (mm_names m) name = None) (shm_unlink n)" for n
    unfolding shm_unlink_def by (intro keeps_rules) (simp add: delete_conv)
  then show ?thesis
    unfolding cpu_release_def cpu_unlink_def by (intro keeps_rules keeps_cpu_at gone_close gone_set_cpu)
qed

section \<open>Sessions that still have to let a segment go\<close>

definition owes :: "string \<Rightarrow> nat \<Rightarrow> string \<Rightarrow> 'd Runtime \<Rightarrow> bool" where
  "owes i k name s =
     (\<not> rt_closed s \<and> dict_wf (rt_buffers s) \<and>
      (name_gone name s \<or>
       (map_of (rt_buffers s) i = Some (CpuBuffer k) \<and> i \<in> set (rt_owned_cpu_buffer_ids s) \<and> held k name (rt_memory s))))"

lemma owes_frame [simp]:
  "owes i k name (s\<lparr>rt_daemon := a\<rparr>) = owes i k name s"
  "owes i k name (s\<lparr>rt_active_intent_ids := b\<rparr>) = owes i k name s"
  "owes i k name (s\<lparr>rt_lifecycle_records := c\<rparr>) = owes i k name s"
  by (simp_all add: owes_def name_gone_def)

lemma gone_frame [simp]:
  "name_gone name (s\<lparr>rt_daemon := a\<rparr>) = name_gone name s" "name_gone name (s\<lparr>rt_active_intent_ids := b\<rparr>) = name_gone name s"
  "name_gone name (s\<lparr>rt_lifecycle_records := c\<rparr>) = name_gone name s"
  "name_gone name (s\<lparr>rt_owned_cpu_buffer_ids := d\<rparr>) = name_gone name s"
  "name_gone name (s\<lparr>rt_buffers := e\<rparr>) = name_gone name s" "name_gone name (s\<lparr>rt_registered_buffer_ids := f\<rparr>) = name_gone name s"
  "name_gone name (s\<lparr>rt_fingerprints := g\<rparr>) = name_gone name s"
  by (simp_all add: name_gone_def)

lemma owes_daemon: "keeps (owes i k name) (on_daemon m)"
  by (auto simp: keeps_def on_daemon_def split: prod.split)

lemma owes_memory:
  assumes "keeps (held k name) m" "keeps (\<lambda>m. map_of (mm_names m) name = None) m"
  shows "keeps (owes i k name) (on_memory m)"
proof (unfold keeps_def, intro allI impI)
  fix s :: "'b Runtime"
  assume s: "owes i k name s"
  obtain r t where run: "m (rt_memory s) = (r, t)" by (cases "m (rt_memory s)")
  have "held k name (rt_memory s) \<Longrightarrow> held k name t" "map_of (mm_names (rt_memory s)) name = None \<Longrightarrow> map_of (mm_names t) name = None"
    using keepsD [OF assms(1) _ run] keepsD [OF assms(2) _ run] by simp_all
  with s show "owes i k name (snd (on_memory m s))"
    by (auto simp: on_memory_def run owes_def name_gone_def)
qed

lemma owes_cpu:
  "keeps (owes i k name) (on_memory (cpu_at r))" "keeps (owes i k name) (on_memory (cpu_close backend r))"
  "keeps (owes i k name) (on_memory (cpu_release backend r))"
  by (intro owes_memory keeps_cpu_at held_close gone_close held_release gone_release)+

lemma gone_memory:
  assumes "keeps (\<lambda>m. map_of (mm_names m) name = None) m"
  shows "keeps (name_gone name) (on_memory m)"
  using keeps_snd [OF assms] by (auto simp: keeps_def on_memory_def name_gone_def case_prod_beta)

lemma gone_daemon: "keeps (name_gone name) (on_daemon m)"
  by (auto simp: keeps_def on_daemon_def split: prod.split)

lemma gone_local_cleanup: "keeps (name_gone name) (cleanup_local_cpu_buffer backend j r reason owned)"
  unfolding cleanup_local_cpu_buffer_def by (intro keeps_rules gone_memory keeps_cpu_at gone_close gone_release)

lemma owes_local_cleanup: "keeps (owes i k name) (cleanup_local_cpu_buffer backend j r reason owned)"
  unfolding cleanup_local_cpu_buffer_def by (auto intro!: keeps_rules owes_cpu)

lemma owes_local_release: "keeps (owes i k name) (cleanup_local_buffer_for_release backend j b reason owned)"
  unfolding cleanup_local_buffer_for_release_def
  by (auto intro!: keeps_rules owes_local_cleanup split: option.split ExecutableBuffer.split)

lemma gone_cleanup: "keeps (name_gone name) (cleanup_runtime_buffer str_of backend client now j reason force)"
  unfolding cleanup_runtime_buffer_def cleanup_daemon_registered_buffer_def retain_runtime_buffer_cleanup_def
    record_buffer_cleanup_retention_def settle_cleanup_def record_cleanup_def forget_runtime_buffer_def
    cleanup_local_buffer_for_release_def Let_def
  by (auto intro!: keeps_rules keeps_plain gone_daemon gone_local_cleanup
      split: prod.split sum.split option.split ExecutableBuffer.split)

lemma owes_cleanup_other:
  assumes "j \<noteq> i"
  shows "keeps (owes i k name) (cleanup_runtime_buffer str_of backend client now j reason force)"
proof -
  have "keeps (owes i k name) (forget_runtime_buffer j)"
    unfolding forget_runtime_buffer_def
    by (rule keeps_emodify) (use assms in \<open>simp add: owes_def name_gone_def delete_conv\<close>)
  then show ?thesis
    unfolding cleanup_runtime_buffer_def cleanup_daemon_registered_buffer_def retain_runtime_buffer_cleanup_def
      record_buffer_cleanup_retention_def settle_cleanup_def record_cleanup_def Let_def
    by (auto intro!: keeps_rules keeps_plain owes_daemon owes_local_release
        split: prod.split sum.split option.split)
qed

lemma owes_cleanup: "keeps (owes i k name) (cleanup_runtime_buffer str_of backend client now j reason force)"
proof (cases "j = i")
  case False
  then show ?thesis by (rule owes_cleanup_other)
next
  case True
  show ?thesis
    unfolding True keeps_def
  proof (intro allI impI)
    fix s :: "'a Runtime"
    assume s: "owes i k name s"
    let ?cleanup = "cleanup_runtime_buffer str_of backend client now i reason force"
    obtain r t where run: "?cleanup s = (r, t)" by (cases "?cleanup s")
    have is_open: "\<not> rt_closed s" using s by (simp add: owes_def)
    have "outside (forgot i s) t" using cleanup_forgets [OF is_open, of i str_of backend client now reason force] run by simp
    note t = outsideD [OF this]
    have "name_gone name t"
    proof (cases "name_gone name s")
      case True
      with keepsD [OF gone_cleanup _ run] show ?thesis by simp
    next
      case False
      with s have "map_of (rt_buffers s) i = Some (CpuBuffer k)" "i \<in> set (rt_owned_cpu_buffer_ids s)"
        "cb_owner (mm_buffers (rt_memory s) ! k)" "\<not> cb_unlinked (mm_buffers (rt_memory s) ! k)"
        "cb_shared_memory_name (mm_buffers (rt_memory s) ! k) = name"
        by (auto simp: owes_def held_def name_gone_def)
      with cleanup_gone [OF is_open run] show ?thesis by blast
    qed
    then show "owes i k name (snd (?cleanup s))"
      using s t run by (simp add: owes_def forgot_def)
  qed
qed

section \<open>The last cleanup\<close>

lemma answers_on_memory: "answers m \<Longrightarrow> answers (on_memory m)"
  unfolding answers_def on_memory_def by (auto split: prod.split) (metis fst_conv)

lemma answers_local_cleanup: "answers (cleanup_local_cpu_buffer backend i r reason owned)"
  unfolding cleanup_local_cpu_buffer_def cpu_at_def by (intro answers_rules answers_on_memory)

text \<open>One turn of \<open>cleanup_local_cpu_buffers\<close>.\<close>

definition let_go_of :: "Backend \<Rightarrow> string \<Rightarrow> string \<times> ExecutableBuffer \<Rightarrow> ('d Runtime, mapping option) eff" where
  "let_go_of backend reason e =
     (case e of (i, b) \<Rightarrow> case b of
          CudaBuffer _ _ \<Rightarrow> eret None
        | CpuBuffer r \<Rightarrow>
            ebind (eget (\<lambda>s. i \<in> set (rt_owned_cpu_buffer_ids s))) (\<lambda>owned.
            eseq (emodify (\<lambda>s. s\<lparr>rt_owned_cpu_buffer_ids := removeAll i (rt_owned_cpu_buffer_ids s)\<rparr>)) (
            ebind (cleanup_local_cpu_buffer backend i r reason owned) (\<lambda>evidence. eret (Some evidence)))))"

lemma cleanup_local_cpu_buffers_eq:
  "cleanup_local_cpu_buffers backend reason =
     ebind (eget rt_buffers) (\<lambda>entries. ebind (emap (let_go_of backend reason) entries) (\<lambda>answers.
     eret (List.map_filter (\<lambda>x. x) answers)))"
  unfolding cleanup_local_cpu_buffers_def let_go_of_def by simp

lemma answers_let_go_of: "answers (let_go_of backend reason e)"
  unfolding let_go_of_def
  by (auto intro!: answers_rules answers_local_cleanup split: prod.split ExecutableBuffer.split)

lemma answers_let_go: "answers (cleanup_local_cpu_buffers backend reason)"
  unfolding cleanup_local_cpu_buffers_eq by (intro answers_rules answers_let_go_of)

lemma gone_let_go_of: "keeps (name_gone name) (let_go_of backend reason e)"
  unfolding let_go_of_def
  by (auto intro!: keeps_rules gone_local_cleanup split: prod.split ExecutableBuffer.split)

lemma owes_let_go_of: "j \<noteq> i \<Longrightarrow> keeps (owes i k name) (let_go_of backend reason (j, b))"
  unfolding let_go_of_def
  by (auto intro!: keeps_rules owes_local_cleanup simp: owes_def name_gone_def split: ExecutableBuffer.split)

lemma let_go_of_it: "leads (owes i k name) (let_go_of backend reason (i, CpuBuffer k)) (name_gone name)"
proof (unfold leads_def, intro allI impI)
  fix s :: "'a Runtime"
  assume s: "owes i k name s"
  show "name_gone name (snd (let_go_of backend reason (i, CpuBuffer k) s))"
  proof (cases "name_gone name s")
    case True
    then show ?thesis by (rule keeps_snd [OF gone_let_go_of])
  next
    case False
    let ?s1 = "s\<lparr>rt_owned_cpu_buffer_ids := removeAll i (rt_owned_cpu_buffer_ids s)\<rparr>"
    have "let_go_of backend reason (i, CpuBuffer k) s =
        cleanup_local_buffer_for_release backend i (Some (CpuBuffer k)) reason True ?s1"
      using s False
      by (simp add: let_go_of_def ebind_eget eseq_def ebind_def [of "emodify _"] emodify_def
          cleanup_local_buffer_for_release_def owes_def)
    moreover have "cb_owner (mm_buffers (rt_memory ?s1) ! k)" "\<not> cb_unlinked (mm_buffers (rt_memory ?s1) ! k)"
        "cb_shared_memory_name (mm_buffers (rt_memory ?s1) ! k) = name"
      using s False by (auto simp: owes_def held_def name_gone_def)
    ultimately show ?thesis using local_cleanup_releases [of ?s1 k backend i reason] by simp
  qed
qed

lemma let_go_of_all:
  "(i, CpuBuffer k) \<in> set entries \<Longrightarrow> \<forall>b. (i, b) \<in> set entries \<longrightarrow> b = CpuBuffer k \<Longrightarrow>
   leads (owes i k name :: 'd Runtime \<Rightarrow> bool) (emap (let_go_of backend reason) entries) (name_gone name)"
proof (induction entries)
  case (Cons e entries)
  obtain j b where e: "e = (j, b)" by (cases e)
  show ?case
  proof (cases "j = i")
    case True
    with Cons.prems(2) e have it: "e = (i, CpuBuffer k)" by auto
    show ?thesis
      unfolding it emap.simps
    proof (rule leads_ebind [OF answers_let_go_of let_go_of_it])
      show "leads (name_gone name :: 'd Runtime \<Rightarrow> bool) (ebind (emap (let_go_of backend reason) entries) (\<lambda>ys. eret (y # ys))) (name_gone name)" for y
        by (rule leads_keeps) (intro keeps_rules gone_let_go_of)
    qed
  next
    case False
    have "(i, CpuBuffer k) \<in> set entries" using Cons.prems(1) False by (simp add: e)
    moreover have "\<forall>b. (i, b) \<in> set entries \<longrightarrow> b = CpuBuffer k" using Cons.prems(2) by (meson list.set_intros(2))
    ultimately have IH: "leads (owes i k name :: 'd Runtime \<Rightarrow> bool) (emap (let_go_of backend reason) entries) (name_gone name)" by (rule Cons.IH)
    show ?thesis
      unfolding e emap.simps
    proof (rule leads_ebind [OF answers_let_go_of leads_keeps [OF owes_let_go_of [OF False]]])
      show "leads (owes i k name :: 'd Runtime \<Rightarrow> bool) (ebind (emap (let_go_of backend reason) entries) (\<lambda>ys. eret (y # ys))) (name_gone name)" for y
        by (rule leads_ebind [OF answers_emap [OF answers_let_go_of] IH]) (rule leads_eret)
    qed
  qed
qed simp

lemma let_go_lets_go: "leads (owes i k name) (cleanup_local_cpu_buffers backend reason) (name_gone name)"
proof (unfold leads_def, intro allI impI)
  fix s :: "'a Runtime"
  assume s: "owes i k name s"
  let ?all = "emap (let_go_of backend reason) (rt_buffers s) :: ('a Runtime, mapping option list) eff"
  have "name_gone name (snd (?all s))"
  proof (cases "name_gone name s")
    case True
    have "keeps (name_gone name) ?all" by (intro keeps_rules gone_let_go_of)
    with True show ?thesis by (rule keeps_snd [rotated])
  next
    case False
    with s have known: "map_of (rt_buffers s) i = Some (CpuBuffer k)" and wf: "distinct (dkeys (rt_buffers s))"
      by (auto simp: owes_def dict_wf_def)
    have "\<forall>b. (i, b) \<in> set (rt_buffers s) \<longrightarrow> b = CpuBuffer k"
      using eq_key_imp_eq_value [OF wf] map_of_SomeD [OF known] by blast
    from let_go_of_all [OF map_of_SomeD [OF known] this]
    have "leads (owes i k name) ?all (name_gone name)" by this
    with s show ?thesis unfolding leads_def by blast
  qed
  moreover have "answers ?all" by (intro answers_rules answers_let_go_of)
  then obtain x t where "?all s = (Inr x, t)" using answersD [of ?all s] by blast
  ultimately show "name_gone name (snd (cleanup_local_cpu_buffers backend reason s))"
    by (simp add: cleanup_local_cpu_buffers_eq ebind_eget) (simp add: ebind_def eret_def)
qed

section \<open>Closing\<close>

lemma owes_plain:
  "keeps (owes i k name) (finalize_runtime_receipt str_of receipt j)"
  "keeps (owes i k name) (wait_runtime_receipt str_of client j timeout)"
  "keeps (owes i k name) (recover_transfer_state str_of client u v)"
proof -
  show f: "keeps (owes i k name) (finalize_runtime_receipt str_of receipt j)" for receipt j
    unfolding finalize_runtime_receipt_def note_receipt_def
    by (auto intro!: keeps_rules keeps_plain split: prod.split)
  show "keeps (owes i k name) (wait_runtime_receipt str_of client j timeout)"
    unfolding wait_runtime_receipt_def by (intro keeps_rules keeps_plain owes_daemon f)
  show "keeps (owes i k name) (recover_transfer_state str_of client u v)"
    unfolding recover_transfer_state_def
    by (auto intro!: keeps_rules keeps_plain owes_daemon f split: pyval.split)
qed

lemma close_steps_answer:
  "answers (close_active_intent_receipts str_of client)" "answers (cleanup_registered_buffers_for_close str_of backend client now)"
  "answers (close_daemon_session client sid)" "answers (recover_active_intent_receipts str_of client ids)"
  unfolding close_active_intent_receipts_def cleanup_registered_buffers_for_close_def close_daemon_session_def
    recover_active_intent_receipts_def
  by (intro answers_rules)+

lemma close_steps_owe:
  "keeps (owes i k name) (close_active_intent_receipts str_of client)"
  "keeps (owes i k name) (cleanup_registered_buffers_for_close str_of backend client now)"
  "keeps (owes i k name) (close_daemon_session client sid)"
  "keeps (owes i k name) (recover_active_intent_receipts str_of client ids)"
  unfolding close_active_intent_receipts_def cleanup_registered_buffers_for_close_def close_daemon_session_def
    recover_active_intent_receipts_def
  by (intro keeps_rules owes_plain owes_cleanup owes_daemon)+

lemma answers_settle: "answers (settle_session str_of backend client now sid)"
  unfolding settle_session_def
  by (auto intro!: answers_rules close_steps_answer answers_let_go split: prod.split)

lemma settle_lets_go: "leads (owes i k name) (settle_session str_of backend client now sid) (name_gone name)"
  unfolding settle_session_def case_prod_beta
  by (rule leads_ebind [OF close_steps_answer(1) leads_keeps [OF close_steps_owe(1)]],
      rule leads_ebind [OF answers_eget leads_keeps [OF keeps_eget]],
      rule leads_ebind [OF close_steps_answer(2) leads_keeps [OF close_steps_owe(2)]],
      rule leads_ebind [OF close_steps_answer(3) leads_keeps [OF close_steps_owe(3)]],
      rule leads_ebind [OF close_steps_answer(4) leads_keeps [OF close_steps_owe(4)]],
      rule leads_ebind [OF answers_eget leads_keeps [OF keeps_eget]],
      rule leads_ebind [OF answers_let_go let_go_lets_go], rule leads_eret)

lemma shut_eq:
  "shut s = (Inr (), s\<lparr>rt_session_id := None, rt_target_gpu := None, rt_relay_gpus := None,
       rt_profile_bootstrapped := False, rt_buffers := [], rt_registered_buffer_ids := [], rt_fingerprints := [],
       rt_owned_cpu_buffer_ids := [], rt_submitted_intent_ids := [], rt_submitted_intent_buffers := [],
       rt_active_intent_ids := [], rt_lifecycle_records := [], rt_closed := True\<rparr>)"
  by (simp add: shut_def clear_runtime_session_state_def eseq_def ebind_def emodify_def)

text \<open>What \<open>close\<close> does before it clears the state, and that nothing else stands between.\<close>

lemma close_ends:
  assumes "\<not> rt_closed s"
  obtains response u where "close_runtime str_of backend client now s = (Inr response, snd (shut u))"
    "\<And>i k name. owes i k name s \<Longrightarrow> name_gone name u"
proof (cases "rt_session_id s")
  case None
  obtain x u where u: "cleanup_local_cpu_buffers backend ''runtime_session_close_without_daemon_session'' s = (Inr x, u)"
    using answersD [OF answers_let_go] by blast
  show ?thesis
  proof (rule that)
    show "close_runtime str_of backend client now s =
       (Inr \<lparr>rp_ok = True, rp_error = None, rp_payload = add_local_cpu_cleanup x
         [(''closed'', VBool False), (''managed_service_shutdown'', VList []),
          (''buffer_lifecycle'', VDict (lifecycle_snapshot s))]\<rparr>, snd (shut u))"
      using assms None u
      by (simp add: close_runtime_def ebind_eget close_without_daemon_session_def)
         (simp add: ebind_def eseq_def shut_eq eret_def)
    show "owes i k name s \<Longrightarrow> name_gone name u" for i k name
      using let_go_lets_go [unfolded leads_def, rule_format, of i k name s backend
          "''runtime_session_close_without_daemon_session''"] u by simp
  qed
next
  case (Some sid)
  obtain e u where u: "settle_session str_of backend client now sid s = (Inr e, u)"
    using answersD [OF answers_settle] by blast
  show ?thesis
  proof (rule that)
    show "close_runtime str_of backend client now s =
       (Inr ((ce_response e)\<lparr>rp_payload :=
         close_session_payload (rp_payload (ce_response e)) (lifecycle_snapshot s) (ce_later e) (ce_waits e)
           (ce_recoveries e) (ce_cleanups e) (ce_locally e) (ce_errors e)\<rparr>), snd (shut u))"
      using assms Some u
      by (simp add: close_runtime_def ebind_eget) (simp add: ebind_def eseq_def shut_eq eret_def)
    show "owes i k name s \<Longrightarrow> name_gone name u" for i k name
      using settle_lets_go [unfolded leads_def, rule_format, of i k name s str_of backend client now sid] u by simp
  qed
qed

section \<open>Accepted transfers\<close>

lemma accepted_receipt:
  assumes "validate_runtime_receipt str_of receipt intent_id job sid (Some source) (Some destination) = Inr ()"
  shows "tr_intent_id receipt = intent_id \<and> tr_job_id receipt = job \<and> tr_session_id receipt = sid \<and>
    terminal_receipt_state (tr_state receipt) \<and>
    str_lower_in (vget (execution_view receipt) ''completion_source'' (VStr [])) [''worker'', ''backend''] \<and>
    truthy (vget (execution_view receipt) ''executed'' (VBool False)) \<and>
    (tr_state receipt = COMPLETE \<longrightarrow>
       truthy (vget (execution_view receipt) ''content_match'' (VBool False)) \<and>
       py_int (vor (vget (execution_view receipt) ''verified_bytes'' (VInt 0)) (VInt 0)) = Inr (tr_bytes_total receipt)) \<and>
    py_str str_of (vget (used_buffer receipt ''source_buffer'') ''buffer_id'' VNone) = source \<and>
    py_str str_of (vget (used_buffer receipt ''destination_buffer'') ''buffer_id'' VNone) = destination"
proof -
  obtain view where ids: "tr_intent_id receipt = intent_id" "tr_job_id receipt = job" "tr_session_id receipt = sid"
    and real: "validated_real_execution_evidence str_of receipt = Inr view"
    and lifetime: "require_runtime_buffer_lifetime_evidence str_of (tr_metadata receipt) sid (Some source) (Some destination) = Inr ()"
    using assms by (auto simp: validate_runtime_receipt_def Let_def result_simps)
  obtain reproduction where terminal: "terminal_receipt_state (tr_state receipt)"
    and reproduced: "require_reproduction_evidence str_of (tr_metadata receipt) (Some receipt) = Inr reproduction"
    and viewed: "require_real_execution_view str_of receipt reproduction = Inr ()"
    using real by (auto simp: validated_real_execution_evidence_def result_simps)
  have execution: "execution_view receipt = sub_mapping reproduction ''execution''"
    by (simp add: execution_view_def sub_mapping_VDict [OF reproduction_Inr [OF reproduced]])
  obtain m where m: "vget (tr_metadata receipt) ''buffer_lifetime_evidence'' VNone = VDict m"
    and src: "require_runtime_buffer_record str_of (vget m ''source_buffer'' VNone) sid (Some source) ''source'' = Inr ()"
    and dst: "require_runtime_buffer_record str_of (vget m ''destination_buffer'' VNone) sid (Some destination) ''destination'' = Inr ()"
    using lifetime by (auto simp: require_runtime_buffer_lifetime_evidence_def result_simps)
  have used: "used_buffer receipt role = sub_mapping m role" for role
    by (simp add: used_buffer_def sub_mapping_VDict [OF m])
  show ?thesis
    using ids terminal real_execution_Inr [OF viewed] buffer_record_Inr [OF src] buffer_record_Inr [OF dst]
    by (auto simp: execution used sub_mapping_def)
qed

lemma note_receipt_eq:
  "note_receipt str_of receipt i s = (Inr (), s\<lparr>
     rt_active_intent_ids := if terminal_receipt_state (tr_state receipt)
       then removeAll i (rt_active_intent_ids s) else rt_active_intent_ids s,
     rt_lifecycle_records := record_buffer_lifecycle_receipt str_of receipt i (rt_submitted_intent_buffers s)
       (rt_lifecycle_records s)\<rparr>)"
  by (simp add: note_receipt_def effect_defs)

lemma finalize_Inr:
  assumes "finalize_runtime_receipt str_of receipt i s = (Inr r, t)"
  shows "r = receipt \<and> (\<exists>sid. rt_session_id s = Some sid \<and>
    validate_runtime_receipt str_of receipt i (rt_job_id s) sid
      (map_option fst (map_of (rt_submitted_intent_buffers s) i))
      (map_option snd (map_of (rt_submitted_intent_buffers s) i)) = Inr ()) \<and>
    t = snd (note_receipt str_of receipt i s)"
  using assms
  by (auto simp: finalize_runtime_receipt_def session_id_def effect_iffs note_receipt_eq split: option.splits prod.splits)

lemma wait_Inr:
  assumes "wait_runtime_receipt str_of client i timeout s = (Inr r, t)"
  shows "\<exists>receipt d. finalize_runtime_receipt str_of receipt i (s\<lparr>rt_daemon := d\<rparr>) = (Inr r, t)"
  using assms
  by (auto simp: wait_runtime_receipt_def require_open_def effect_iffs on_daemon_def split: prod.splits)

lemma prepared_intent:
  assumes "prepare_runtime_intent str_of backend client now intent s = (Inr (), t)"
  shows "\<exists>source target. map_of (rt_buffers s) (ti_source_buffer_id intent) = Some source \<and>
     map_of (rt_buffers s) (ti_destination_buffer_id intent) = Some target \<and>
     require_intent_control_plane_safe intent = Inr () \<and>
     validate_intent_uses_runtime_buffers intent source target (rt_memory s) = Inr ()"
proof -
  let ?same = "\<lambda>t. rt_buffers t = rt_buffers s \<and> rt_memory t = rt_memory s"
  have opens: "keeps ?same (open_session str_of (tc_daemon client))"
    unfolding open_session_def Let_def
    by (auto intro!: keeps_rules keeps_plain simp: keeps_def [of ?same "on_daemon _"] on_daemon_def
        split: option.split prod.split)
  obtain opened sid s1 where opened: "open_session str_of (tc_daemon client) s = (Inr opened, s1)"
    and checked: "check_intent_session intent sid s1 = Inr ()"
    using assms
    by (auto simp: prepare_runtime_intent_def require_open_def session_id_def effect_iffs split: option.splits)
  have "?same s1" by (rule keepsD [OF opens _ opened]) simp
  with checked show ?thesis
    by (auto simp: check_intent_session_def result_simps split: option.splits)
qed

lemma ranges_fit_Inr:
  "ranges_fit rs source_bytes target_bytes start = Inr n \<Longrightarrow>
   n = start + sum_list (map bytes rs) \<and>
   (\<forall>r \<in> set rs. 0 \<le> src_offset r \<and> 0 \<le> dst_offset r \<and> 0 < bytes r \<and>
      src_offset r + bytes r \<le> source_bytes \<and> dst_offset r + bytes r \<le> target_bytes)"
proof (induction rs arbitrary: start)
  case (Cons r rs)
  then have "ranges_fit rs source_bytes target_bytes (start + bytes r) = Inr n" by (simp add: result_simps)
  from Cons.IH [OF this] Cons.prems show ?case by (simp add: result_simps)
qed simp

lemma on_daemon_Inr: "on_daemon m s = (Inr x, t) \<longleftrightarrow> (\<exists>d. m (rt_daemon s) = (Inr x, d) \<and> t = s\<lparr>rt_daemon := d\<rparr>)"
  by (auto simp: on_daemon_def split: prod.split)

lemma uses_buffers_Inr:
  assumes "validate_intent_uses_runtime_buffers intent source target m = Inr ()"
  shows "is_cpu_buffer source \<noteq> is_cpu_buffer target \<and>
    sum_list (map bytes (ti_ranges intent)) = ti_total_bytes intent \<and>
    (\<forall>r \<in> set (ti_ranges intent). 0 \<le> src_offset r \<and> 0 \<le> dst_offset r \<and> 0 < bytes r \<and>
       src_offset r + bytes r \<le> buffer_size source m \<and> dst_offset r + bytes r \<le> buffer_size target m)"
  using assms
  by (auto simp: validate_intent_uses_runtime_buffers_def validate_intent_ranges_fit_buffers_def Let_def result_simps
      split: if_splits dest!: ranges_fit_Inr)

lemma submitted_Inr:
  assumes "submit_runtime_intent str_of backend client now intent wait timeout s = (Inr receipt, t)"
  shows "\<exists>s1 u. prepare_runtime_intent str_of backend client now intent s = (Inr (), s1) \<and>
     map_of (rt_submitted_intent_buffers u) (ti_intent_id intent) =
       Some (ti_source_buffer_id intent, ti_destination_buffer_id intent) \<and> rt_job_id u = rt_job_id s1 \<and>
     finalize_runtime_receipt str_of receipt (ti_intent_id intent) u = (Inr receipt, t)"
proof -
  obtain s1 where prepared: "prepare_runtime_intent str_of backend client now intent s = (Inr (), s1)"
    and rest: "eseq (record_runtime_submission str_of now intent) (ecatch
       (ebind (on_daemon (tc_submit client intent)) (\<lambda>response.
        ebind (on_daemon (tc_execute client intent response)) (\<lambda>receipt.
        if wait then wait_runtime_receipt str_of client (ti_intent_id intent) timeout
        else finalize_runtime_receipt str_of receipt (ti_intent_id intent))))
       (\<lambda>e. eseq (emodify (\<lambda>s. s\<lparr>rt_active_intent_ids := removeAll (ti_intent_id intent) (rt_active_intent_ids s)\<rparr>))
                 (eraise e))) s1 = (Inr receipt, t)"
    using assms by (auto simp: submit_runtime_intent_def eseq_Inr_iff)
  let ?s2 = "snd (record_runtime_submission str_of now intent s1)"
  have s2: "map_of (rt_submitted_intent_buffers ?s2) (ti_intent_id intent) =
       Some (ti_source_buffer_id intent, ti_destination_buffer_id intent)" "rt_job_id ?s2 = rt_job_id s1"
    by (simp_all add: record_runtime_submission_def emodify_def)
  have "ebind (on_daemon (tc_submit client intent)) (\<lambda>response.
        ebind (on_daemon (tc_execute client intent response)) (\<lambda>receipt.
        if wait then wait_runtime_receipt str_of client (ti_intent_id intent) timeout
        else finalize_runtime_receipt str_of receipt (ti_intent_id intent))) ?s2 = (Inr receipt, t)"
    using rest
    by (simp add: record_runtime_submission_def eseq_def ebind_def [of "emodify _"] emodify_def ecatch_def eraise_def
        ebind_def [of "\<lambda>s. (Inr (), _ s)"] split: prod.splits sum.splits)
  then obtain d other where "(if wait then wait_runtime_receipt str_of client (ti_intent_id intent) timeout
        else finalize_runtime_receipt str_of other (ti_intent_id intent)) (?s2\<lparr>rt_daemon := d\<rparr>) = (Inr receipt, t)"
    by (auto simp: ebind_Inr_iff on_daemon_Inr)
  then obtain d where "finalize_runtime_receipt str_of receipt (ti_intent_id intent) (?s2\<lparr>rt_daemon := d\<rparr>) = (Inr receipt, t)"
    using finalize_Inr by (cases wait) (fastforce dest: wait_Inr)+
  then show ?thesis
    using prepared s2 by (intro exI [of _ s1] exI [of _ "?s2\<lparr>rt_daemon := d\<rparr>"]) simp
qed

section \<open>Properties of a session\<close>

text \<open>
  C8: A transfer the session hands over is real.  When \<open>submit_transfer_intent\<close> returns a receipt, whatever
  the daemon, the worker and the executor did, the intent named two known buffers, one in host memory
  and one on the GPU, with ranges of positive length inside both that add up to its bytes, and chose no
  physical route; the receipt is terminal and bound to the intent and the session, says that a worker
  or the backend executed the transfer between those two buffers and, when it is complete, that all its
  bytes were verified and compared; and the session no longer counts the intent as active.
\<close>

theorem accepted_transfer_is_real:
  assumes "submit_runtime_intent str_of backend client now intent wait timeout s = (Inr receipt, t)"
  shows "(\<exists>source target.
      map_of (rt_buffers s) (ti_source_buffer_id intent) = Some source \<and>
      map_of (rt_buffers s) (ti_destination_buffer_id intent) = Some target \<and>
      is_cpu_buffer source \<noteq> is_cpu_buffer target \<and>
      sum_list (map bytes (ti_ranges intent)) = ti_total_bytes intent \<and>
      (\<forall>r \<in> set (ti_ranges intent). 0 \<le> src_offset r \<and> 0 \<le> dst_offset r \<and> 0 < bytes r \<and>
         src_offset r + bytes r \<le> buffer_size source (rt_memory s) \<and>
         dst_offset r + bytes r \<le> buffer_size target (rt_memory s))) \<and>
    physical_route_keys (ti_policy_hints intent) = [] \<and> physical_route_keys (ti_metadata intent) = [] \<and>
    tr_intent_id receipt = ti_intent_id intent \<and> rt_session_id t = Some (tr_session_id receipt) \<and>
    terminal_receipt_state (tr_state receipt) \<and>
    str_lower_in (vget (execution_view receipt) ''completion_source'' (VStr [])) [''worker'', ''backend''] \<and>
    truthy (vget (execution_view receipt) ''executed'' (VBool False)) \<and>
    (tr_state receipt = COMPLETE \<longrightarrow>
       truthy (vget (execution_view receipt) ''content_match'' (VBool False)) \<and>
       py_int (vor (vget (execution_view receipt) ''verified_bytes'' (VInt 0)) (VInt 0)) = Inr (tr_bytes_total receipt)) \<and>
    py_str str_of (vget (used_buffer receipt ''source_buffer'') ''buffer_id'' VNone) = ti_source_buffer_id intent \<and>
    py_str str_of (vget (used_buffer receipt ''destination_buffer'') ''buffer_id'' VNone) = ti_destination_buffer_id intent \<and>
    ti_intent_id intent \<notin> set (rt_active_intent_ids t)"
proof -
  obtain s1 u where prepared: "prepare_runtime_intent str_of backend client now intent s = (Inr (), s1)"
    and buffers: "map_of (rt_submitted_intent_buffers u) (ti_intent_id intent) =
       Some (ti_source_buffer_id intent, ti_destination_buffer_id intent)"
    and final: "finalize_runtime_receipt str_of receipt (ti_intent_id intent) u = (Inr receipt, t)"
    using submitted_Inr [OF assms] by blast
  obtain sid where sid: "rt_session_id u = Some sid"
    and valid: "validate_runtime_receipt str_of receipt (ti_intent_id intent) (rt_job_id u) sid
      (Some (ti_source_buffer_id intent)) (Some (ti_destination_buffer_id intent)) = Inr ()"
    and t: "t = snd (note_receipt str_of receipt (ti_intent_id intent) u)"
    using finalize_Inr [OF final] by (auto simp: buffers)
  obtain source target where known: "map_of (rt_buffers s) (ti_source_buffer_id intent) = Some source"
      "map_of (rt_buffers s) (ti_destination_buffer_id intent) = Some target"
    and safe: "require_intent_control_plane_safe intent = Inr ()"
    and uses: "validate_intent_uses_runtime_buffers intent source target (rt_memory s) = Inr ()"
    using prepared_intent [OF prepared] by blast
  note real = accepted_receipt [OF valid]
  have "rt_session_id t = Some (tr_session_id receipt) \<and> ti_intent_id intent \<notin> set (rt_active_intent_ids t)"
    using real sid by (simp add: t note_receipt_eq)
  moreover have "physical_route_keys (ti_policy_hints intent) = []" "physical_route_keys (ti_metadata intent) = []"
    using safe by (simp_all add: require_intent_control_plane_safe_def result_simps)
  ultimately show ?thesis
    using real known uses_buffers_Inr [OF uses] by blast
qed

text \<open>
  C9: Closing a session always ends, and lets everything go.  In every state an application reaches
  (services and caches the session may have started apart),
  \<open>close\<close> answers without raising, whatever the daemon and the CUDA runtime do and whatever transfers are
  still active; afterwards the session is closed and knows no daemon session, buffer, registration or
  transfer, and no shared memory segment that it owned has a name any more.
\<close>

theorem closing_lets_everything_go:
  assumes "runs str_of backend client
      (new_runtime job user inflight target connection_owned has_worker profile memory daemon) s"
    and "\<not> rt_closed s"
  shows "\<exists>response t. close_runtime str_of backend client now s = (Inr response, t) \<and> rt_closed t \<and>
     rt_session_id t = None \<and> rt_buffers t = [] \<and> rt_registered_buffer_ids t = [] \<and> rt_active_intent_ids t = [] \<and>
     (\<forall>i k. map_of (rt_buffers s) i = Some (CpuBuffer k) \<and> i \<in> set (rt_owned_cpu_buffer_ids s) \<and>
        cb_owner (mm_buffers (rt_memory s) ! k) \<and> \<not> cb_unlinked (mm_buffers (rt_memory s) ! k) \<longrightarrow>
        map_of (mm_names (rt_memory t)) (cb_shared_memory_name (mm_buffers (rt_memory s) ! k)) = None)"
proof -
  have "registry_ok s" by (rule runs_keep [OF assms(1) conjI [OF registry_new intents_new], THEN conjunct1])
  then have wf: "dict_wf (rt_buffers s)" by (simp add: registry_in_def)
  obtain response u where closed: "close_runtime str_of backend client now s = (Inr response, snd (shut u))"
    and gone: "\<And>i k name. owes i k name s \<Longrightarrow> name_gone name u"
    using close_ends [OF assms(2)] by blast
  have "name_gone (cb_shared_memory_name (mm_buffers (rt_memory s) ! k)) u"
    if "map_of (rt_buffers s) i = Some (CpuBuffer k)" "i \<in> set (rt_owned_cpu_buffer_ids s)"
      "cb_owner (mm_buffers (rt_memory s) ! k)" "\<not> cb_unlinked (mm_buffers (rt_memory s) ! k)" for i k
    by (rule gone [of i k]) (use that assms(2) wf in \<open>simp add: owes_def held_def\<close>)
  then show ?thesis
    unfolding closed shut_eq by (auto simp: name_gone_def)
qed

text \<open>
  C7: A session's account stays consistent.  In every state an application reaches from a new session by
  registering, allocating, cleaning and rolling back buffers, by submitting, awaiting and recovering
  transfers and by closing, whatever the daemon and the executor answer and whichever calls raise: ids
  are unique, the registered ids are the fingerprinted ones and name known buffers, as do the ids the
  session owns; every buffer is kept under its own id, belongs to the session's job and, on a GPU, is on
  the session's target; every active transfer was submitted, and the lifecycle records of both its
  buffers list it as an active use.
\<close>

theorem session_account_is_consistent:
  assumes "runs str_of backend client
      (new_runtime job user inflight target connection_owned has_worker profile memory daemon) t"
  shows "distinct (dkeys (rt_buffers t)) \<and>
     set (rt_registered_buffer_ids t) = set (dkeys (rt_fingerprints t)) \<and>
     set (rt_registered_buffer_ids t) \<subseteq> set (dkeys (rt_buffers t)) \<and>
     set (rt_owned_cpu_buffer_ids t) \<subseteq> set (dkeys (rt_buffers t)) \<and>
     (\<forall>(i, b) \<in> set (rt_buffers t). buffer_ids_of b (rt_memory t) = (i, rt_job_id t) \<and>
        (case b of CpuBuffer r \<Rightarrow> r < length (mm_buffers (rt_memory t))
         | CudaBuffer _ g \<Rightarrow> rt_target_gpu t = Some (gb_device_index g))) \<and>
     set (rt_active_intent_ids t) \<subseteq> set (rt_submitted_intent_ids t) \<and>
     (\<forall>i \<in> set (rt_active_intent_ids t). \<exists>source destination.
        map_of (rt_submitted_intent_buffers t) i = Some (source, destination) \<and>
        used_by (rt_lifecycle_records t) source i \<and> used_by (rt_lifecycle_records t) destination i)"
proof -
  have ok: "registry_ok t" "intents_ok t" using runs_keep [OF assms conjI [OF registry_new intents_new]] by simp_all
  have "\<exists>source destination. map_of (rt_submitted_intent_buffers t) i = Some (source, destination) \<and>
        used_by (rt_lifecycle_records t) source i \<and> used_by (rt_lifecycle_records t) destination i"
    if "i \<in> set (rt_active_intent_ids t)" for i
  proof -
    from ok(2) that have "i \<in> set (dkeys (rt_submitted_intent_buffers t))"
      by (auto simp: intents_ok_def intents_in_def)
    then obtain e where "map_of (rt_submitted_intent_buffers t) i = Some e"
      by (metis (no_types, lifting) map_of_eq_None_iff not_None_eq set_map)
    with ok(2) that show ?thesis by (cases e) (auto simp: intents_ok_def intents_in_def)
  qed
  moreover have "set (rt_active_intent_ids t) \<subseteq> set (rt_submitted_intent_ids t)"
    using ok(2) unfolding intents_ok_def intents_in_def by blast
  ultimately show ?thesis
    using ok(1) unfolding registry_in_def entry_ok_def dict_wf_def
    by (elim conjE, intro conjI) (simp_all del: set_map)
qed

section \<open>A transfer\<close>

text \<open>An executor that answers with the receipt of a direct transfer, and a session with a buffer on either side.\<close>

definition a_used_buffer :: "string \<Rightarrow> string \<Rightarrow> mapping \<Rightarrow> mapping" where
  "a_used_buffer i kind evidence =
     [(''buffer_id'', VStr i),
      (''registration'', VDict [(''metadata'', VDict [(''runtime_session_id'', VStr ''s''), (''runtime_buffer_kind'', VStr kind)])]),
      (''resource_evidence'', VDict evidence)]"

definition a_reproduction :: "string \<Rightarrow> mapping" where
  "a_reproduction intent_id =
     [(''schema'', VStr ''turbobus.reproduction_evidence.v1''), (''source'', VStr ''TransferReceipt''),
      (''transfer'', VDict
        [(''transfer_id'', VStr ''x''), (''intent_id'', VStr intent_id), (''decision_id'', VStr ''d''),
         (''topology_snapshot_id'', VStr ''g''), (''ticket_id'', VStr ''t''), (''job_id'', VStr ''job''),
         (''session_id'', VStr ''s''), (''state'', VStr ''complete''), (''bytes_total'', VInt 4),
         (''bytes_completed'', VInt 4)]),
      (''execution'', VDict
        [(''completion_source'', VStr ''backend''), (''executed'', VBool True), (''mode'', VStr ''direct_only''),
         (''path'', VDict []), (''verified'', VBool True), (''verified_bytes'', VInt 4), (''content_match'', VBool True)]),
      (''route_policy_source'', VStr ''daemon_scheduler''),
      (''completion_contract'', VDict
        [(''ticket_id'', VStr ''t''), (''transfer_id'', VStr ''x''), (''plan_generation'', VInt 1)]),
      (''buffer_lifetime'', VDict [])]"

definition a_receipt :: "string \<Rightarrow> TransferReceipt" where
  "a_receipt intent_id =
     \<lparr>tr_receipt_id = ''r'', tr_ticket_id = ''t'', tr_intent_id = intent_id, tr_decision_id = ''d'',
      tr_topology_snapshot_id = ''g'', tr_job_id = ''job'', tr_session_id = ''s'', tr_state = COMPLETE,
      tr_bytes_total = 4, tr_bytes_completed = 4, tr_started_at = 0, tr_completed_at = Some 1,
      tr_path_stats = [], tr_error = None,
      tr_metadata =
        [(''completion_source'', VStr ''backend''), (''executed'', VBool True), (''verified'', VBool True),
         (''verified_bytes'', VInt 4), (''content_match'', VBool True), (''reproduction_evidence'', VDict (a_reproduction intent_id)),
         (''buffer_lifetime_evidence'', VDict
           [(''source_buffer'', VDict (a_used_buffer ''cpu'' ''shared_pinned_cpu''
              [(''cpu_buffer_id'', VStr ''cpu''), (''cpu_handle_type'', VStr ''shared_pinned_cpu''),
               (''cpu_buffer_opened'', VBool True)])),
            (''destination_buffer'', VDict (a_used_buffer ''gpu'' ''cuda_ipc_device''
              [(''device_buffer_id'', VStr ''gpu''), (''device_handle_type'', VStr ''cuda_ipc_device''),
               (''device_index'', VInt 0)]))])]\<rparr>"

definition a_client :: "TransferReceipt \<Rightarrow> nat TransferClient" where
  "a_client receipt =
     \<lparr>tc_daemon = busy_daemon, tc_submit = (\<lambda>_ n. (Inr (ok_response []), n + 1)),
      tc_execute = (\<lambda>_ _ n. (Inr receipt, n + 1)), tc_wait = (\<lambda>_ _ n. (Inr (ok_response []), n + 1)),
      tc_recover = (\<lambda>_ _ n. (Inr (ok_response []), n + 1)), tc_discover = (\<lambda>_ n. (Inr (ok_response []), n + 1))\<rparr>"

definition a_gpu_buffer :: CudaIpcDeviceBuffer where
  "a_gpu_buffer = \<lparr>gb_buffer_id = ''gpu'', gb_job_id = ''job'', gb_device_index = 0, gb_size_bytes = 8,
     gb_cuda_ipc_handle = replicate 64 0, gb_device_offset_bytes = 0, gb_allocation_base_ptr = Some 4096,
     gb_allocation_size_bytes = Some 8, gb_device_ptr = Some 4096\<rparr>"

definition an_intent :: TransferIntent where
  "an_intent = \<lparr>ti_intent_id = ''i'', ti_job_id = ''job'', ti_session_id = ''s'', ti_source_buffer_id = ''cpu'',
     ti_destination_buffer_id = ''gpu'', ti_direction = ''h2d'', ti_total_bytes = 4,
     ti_ranges = [\<lparr>src_offset = 0, dst_offset = 2, bytes = 4\<rparr>], ti_workload_kind = GENERIC, ti_priority = 0,
     ti_policy_hints = [], ti_metadata = []\<rparr>"

definition a_cpu_buffer :: SharedPinnedCpuBuffer where
  "a_cpu_buffer = \<lparr>cb_buffer_id = ''cpu'', cb_job_id = ''job'', cb_size_bytes = 4, cb_shared_memory_name = ''b_x'',
     cb_shared_memory_size_bytes = 4, cb_shared_memory = 0, cb_offset_bytes = 0, cb_owner = True,
     cb_cuda_registered = False, cb_cuda_registered_address = None, cb_closed = False, cb_unlinked = False\<rparr>"

definition registered :: "BufferRegistration result \<Rightarrow> Fingerprint" where
  "registered outcome = (case outcome of Inr r \<Rightarrow> registration_fingerprint (\<lambda>_. []) r ''s'' False
     | Inl _ \<Rightarrow> registration_fingerprint (\<lambda>_. []) \<lparr>br_buffer_id = [], br_job_id = [], br_kind = [], br_size_bytes = 0,
         br_device_index = None, br_address = None, br_pinned = False, br_handle_type = [], br_metadata = []\<rparr> ''s'' False)"

definition a_ready_session :: "nat Runtime" where
  "a_ready_session = a_session\<lparr>rt_session_id := Some ''s'', rt_relay_gpus := Some [],
     rt_buffers := [(''cpu'', CpuBuffer 0), (''gpu'', CudaBuffer 0 a_gpu_buffer)],
     rt_registered_buffer_ids := [''cpu'', ''gpu''],
     rt_fingerprints := [(''cpu'', registered (cpu_registration a_cpu_buffer)), (''gpu'', registered (cuda_registration a_gpu_buffer))],
     rt_memory := \<lparr>mm_names = [(''b_x'', 0)], mm_segments = [[0, 0, 0, 0]], mm_buffers = [a_cpu_buffer]\<rparr>\<rparr>"

lemma registrations_accepted:
  "(case cpu_registration a_cpu_buffer of Inr _ \<Rightarrow> True | Inl _ \<Rightarrow> False)"
  "(case cuda_registration a_gpu_buffer of Inr _ \<Rightarrow> True | Inl _ \<Rightarrow> False)"
  by code_simp+

lemma a_receipt_valid:
  "validate_runtime_receipt (\<lambda>_. []) (a_receipt ''i'') ''i'' ''job'' ''s'' (Some ''cpu'') (Some ''gpu'') = Inr ()"
  by code_simp

lemma ready_facts:
  "rt_closed a_ready_session = False" "rt_session_id a_ready_session = Some ''s''" "rt_job_id a_ready_session = ''job''"
  "rt_buffers a_ready_session = [(''cpu'', CpuBuffer 0), (''gpu'', CudaBuffer 0 a_gpu_buffer)]"
  "rt_fingerprints a_ready_session =
     [(''cpu'', registered (cpu_registration a_cpu_buffer)), (''gpu'', registered (cuda_registration a_gpu_buffer))]"
  "rt_owned_cpu_buffer_ids a_ready_session = []" "rt_profile_on_first_transfer a_ready_session = False"
  "mm_buffers (rt_memory a_ready_session) = [a_cpu_buffer]"
  by (simp_all add: a_ready_session_def a_session_def new_runtime_def)

lemma nothing_pending:
  "register_pending_buffers (\<lambda>_. []) a_backend client now a_ready_session = (Inr (), a_ready_session)"
proof -
  obtain c g where accepted: "cpu_registration a_cpu_buffer = Inr c" "cuda_registration a_gpu_buffer = Inr g"
    using registrations_accepted by (auto split: sum.splits)
  have "register_pending_buffer (\<lambda>_. []) client (''cpu'', CpuBuffer 0) a_ready_session = (Inr None, a_ready_session)"
    "register_pending_buffer (\<lambda>_. []) client (''gpu'', CudaBuffer 0 a_gpu_buffer) a_ready_session = (Inr None, a_ready_session)"
    by (simp_all add: register_pending_buffer_def buffer_registration_def session_id_def on_memory_def cpu_at_def
        effect_defs ready_facts accepted registered_def)
  then show ?thesis
    by (simp add: register_pending_buffers_def require_open_def session_id_def effect_defs ready_facts eraise_if_def)
qed

lemma an_intent_fits: "check_intent_session an_intent ''s'' a_ready_session = Inr ()"
proof -
  have "require_intent_control_plane_safe an_intent = Inr ()" by code_simp
  moreover have "validate_intent_uses_runtime_buffers an_intent (CpuBuffer 0) (CudaBuffer 0 a_gpu_buffer)
      (rt_memory a_ready_session) = Inr ()"
    by (simp add: validate_intent_uses_runtime_buffers_def validate_intent_ranges_fit_buffers_def is_cpu_buffer_def
        buffer_size_def ready_facts an_intent_def a_cpu_buffer_def a_gpu_buffer_def)
  ultimately show ?thesis
    by (simp add: check_intent_session_def ready_facts) (simp add: an_intent_def)
qed

lemma a_transfer:
  assumes "ti_job_id intent = ''job''" "check_intent_session intent ''s'' a_ready_session = Inr ()"
    and "validate_runtime_receipt (\<lambda>_. []) receipt (ti_intent_id intent) ''job'' ''s''
      (Some (ti_source_buffer_id intent)) (Some (ti_destination_buffer_id intent)) = Inr ()"
  shows "fst (submit_runtime_intent (\<lambda>_. []) a_backend (a_client receipt) now intent False None a_ready_session) = Inr receipt"
proof -
  have prepared: "prepare_runtime_intent (\<lambda>_. []) a_backend (a_client receipt) now intent a_ready_session = (Inr (), a_ready_session)"
    by (simp add: prepare_runtime_intent_def require_open_def session_id_def open_session_def bootstrap_profile_if_enabled_def
        effect_defs eraise_if_def ewhen_def ready_facts nothing_pending assms)
  have answers: "tc_submit (a_client receipt) intent n = (Inr (ok_response []), n + 1)"
    "tc_execute (a_client receipt) intent response n = (Inr receipt, n + 1)" for n response
    by (simp_all add: a_client_def)
  show ?thesis
    by (simp add: submit_runtime_intent_def prepared eseq_def ebind_def record_runtime_submission_def emodify_def
        ecatch_def on_daemon_def answers finalize_runtime_receipt_def session_id_def eget_def elift_def ready_facts
        eret_def assms(3) note_receipt_eq)
qed

theorem accepted_transfer_is_real_witness:
  "\<exists>t. submit_runtime_intent (\<lambda>_. []) a_backend (a_client (a_receipt ''i'')) 1 an_intent False None a_ready_session =
       (Inr (a_receipt ''i''), t) \<and>
     sum_list (map bytes (ti_ranges an_intent)) = ti_total_bytes an_intent \<and>
     tr_intent_id (a_receipt ''i'') = ''i'' \<and> ''i'' \<notin> set (rt_active_intent_ids t)"
proof -
  have "fst (submit_runtime_intent (\<lambda>_. []) a_backend (a_client (a_receipt ''i'')) 1 an_intent False None a_ready_session) =
      Inr (a_receipt ''i'')"
    by (rule a_transfer [OF _ an_intent_fits]) (simp_all add: an_intent_def a_receipt_valid)
  then obtain t where run: "submit_runtime_intent (\<lambda>_. []) a_backend (a_client (a_receipt ''i'')) 1 an_intent False None
      a_ready_session = (Inr (a_receipt ''i''), t)"
    by (metis prod.collapse)
  from accepted_transfer_is_real [OF run] have "tr_intent_id (a_receipt ''i'') = ti_intent_id an_intent"
    "ti_intent_id an_intent \<notin> set (rt_active_intent_ids t)"
    "sum_list (map bytes (ti_ranges an_intent)) = ti_total_bytes an_intent" by blast+
  with run show ?thesis by (simp add: an_intent_def)
qed

lemma a_run: "runs (\<lambda>_. []) a_backend (a_client receipt) a_session a_session_with_buffer"
  unfolding a_session_with_buffer_def
  by (intro r_into_rtranclp run_step.buffers) (simp add: a_client_def session_step.allocated)

theorem closing_lets_everything_go_witness:
  "\<exists>response t. close_runtime (\<lambda>_. []) a_backend (a_client (a_receipt ''i'')) 2 a_session_with_buffer = (Inr response, t) \<and>
     rt_closed t \<and> rt_buffers t = [] \<and> map_of (mm_names (rt_memory t)) ''b_x'' = None"
proof -
  let ?s = a_session_with_buffer
  have "mm_buffers (rt_memory ?s) = [mm_buffers (rt_memory ?s) ! 0]"
    using a_session_facts by (cases "mm_buffers (rt_memory ?s)") auto
  then have b: "cb_shared_memory_name (mm_buffers (rt_memory ?s) ! 0) = ''b_x''" "cb_owner (mm_buffers (rt_memory ?s) ! 0)"
      "\<not> cb_unlinked (mm_buffers (rt_memory ?s) ! 0)"
    using a_session_facts by (cases "mm_buffers (rt_memory ?s)"; simp)+
  have known: "map_of (rt_buffers ?s) ''cpu'' = Some (CpuBuffer 0)" "''cpu'' \<in> set (rt_owned_cpu_buffer_ids ?s)"
    "\<not> rt_closed ?s" using a_session_facts by simp_all
  from closing_lets_everything_go [OF a_run [of "a_receipt ''i''", unfolded a_session_def] known(3), of 2] known b
  show ?thesis by metis
qed

theorem session_account_is_consistent_witness:
  "set (rt_registered_buffer_ids a_session_with_buffer) \<subseteq> set (dkeys (rt_buffers a_session_with_buffer)) \<and>
   set (rt_active_intent_ids a_session_with_buffer) \<subseteq> set (rt_submitted_intent_ids a_session_with_buffer)"
  using session_account_is_consistent [OF a_run [unfolded a_session_def]] by blast

end
