(* ===== verification/Spec2Isabelle.thy ===== *)
theory Spec2Isabelle
  imports Staging_Pool Daemon_Tenants Daemon_Leases Daemon_Wait Daemon_Buffers
    Runtime_Closing
begin

text \<open>
  TurboBus moves bytes between host memory and GPUs on one node, directly or through relay GPUs.
  Clients open sessions with a node daemon, register jobs and buffers and ask it to plan transfers;
  the daemon's scheduler splits a transfer over paths and grants chunk leases on relay links; workers
  carry the plan out and report completion.  All paths below are under \<open>src/turbobus\<close>.

  \<^bold>\<open>The parts and the theories.\<close>

    \<^item> \<open>Prelude\<close>, \<open>Values\<close>: dictionaries as association lists (insertion order matters to the code),
      the error monad over \<open>exn + 'a\<close>, Python values, number parsing and string helpers.
    \<^item> \<open>Schema_Base\<close>, \<open>Buffer_Metadata\<close>, \<open>Schema_Control\<close>, \<open>Schema_Tickets\<close>, \<open>Schema_Worker\<close>: the
      contract records of \<open>schema.py\<close> and \<open>ranges.py\<close>.  Each frozen dataclass is a record
      and its \<open>__post_init__\<close> a function \<open>mk_...\<close> that returns the normalised record or the error.
    \<^item> \<open>Tiling\<close>, \<open>Planner\<close>, \<open>Planner_Engine\<close>: \<open>planner_types.py\<close> and \<open>planner_engine.py\<close>; chunking,
      path building, the greedy finish-time assignment (\<open>plan\<close>, \<open>plan_ranges\<close>) and cost metadata.
    \<^item> \<open>Block_Plan\<close>: \<open>scheduler/block_plan.py\<close>, \<open>path_allocator.py\<close>, \<open>block_queue.py\<close>.
    \<^item> \<open>Block_Runtime\<close>: \<open>daemon/block_runtime.py\<close>; the state machine of a transfer's blocks.
    \<^item> \<open>Scheduler_Leases\<close>: the lease granting of \<open>scheduler/daemon.py\<close>.
    \<^item> \<open>Peer_Auth\<close>: \<open>daemon/peer_auth.py\<close>; owners and peers.
    \<^item> \<open>Daemon_State\<close>, \<open>Daemon_Release\<close>, \<open>Daemon_Sessions\<close>, \<open>Daemon_Handlers\<close>, \<open>Daemon_Planning\<close>:
      \<open>daemon/server.py\<close> with \<open>runtime_state.py\<close>, \<open>cleanup_helpers.py\<close>, \<open>planning_helpers.py\<close>.  The
      daemon's tables are the fields of one record \<open>Daemon\<close>; each handler is a function from the
      request and the state to the response and the new state, under the code's one lock.
    \<^item> \<open>Evidence\<close>, \<open>Transfer_Lifecycle\<close>: \<open>daemon/evidence.py\<close> and \<open>daemon/transfer_lifecycle.py\<close>;
      what a worker must show before a transfer counts as complete, and what a status update entails.
    \<^item> \<open>Daemon_Status\<close>, \<open>Daemon_Cleanup\<close>, \<open>Daemon_Intents\<close>, \<open>Daemon_Authorize\<close>, \<open>Daemon_Wait\<close>: the daemon's
      handlers \<open>transfer_status\<close>, \<open>cleanup\<close>, \<open>submit_transfer_intent\<close>, \<open>authorize_worker_transfer\<close> and
      \<open>wait_transfer_receipt\<close>, with the tickets of \<open>daemon/receipts.py\<close>.
    \<^item> \<open>Daemon_Updates\<close>, \<open>Daemon_Progress\<close>, \<open>Daemon_Moves\<close>, \<open>Daemon_Transfers\<close>, \<open>Daemon_Outcomes\<close>,
      \<open>Daemon_Evidence\<close>, \<open>Daemon_Workers\<close>, \<open>Daemon_Buffers\<close>: how the statuses of transfers
      change under every step, and what follows for reachable states.
    \<^item> \<open>Daemon_Ledger\<close>, \<open>Daemon_Close\<close>, \<open>Daemon_Invariant\<close>, \<open>Daemon_Commit\<close>, \<open>Daemon_Keeps\<close>,
      \<open>Daemon_Requests\<close>, \<open>Daemon_Steps\<close>, \<open>Daemon_Properties\<close>, \<open>Daemon_Tenants\<close>, \<open>Daemon_Leases\<close>: the
      daemon's invariant, one preservation lemma per operation, the step relation over the handlers
      and the properties of reachable states.
    \<^item> \<open>Worker_Requests\<close>, \<open>Staging_Pool\<close>: the requests workers accept (\<open>schema.py\<close>) and
      \<open>worker/staging_pool.py\<close>.
    \<^item> \<open>Admission_Priority\<close>: \<open>daemon/admission_priority.py\<close>; the score and the order in which delayed
      admissions are promoted, with the evidence an admission carries of it.
    \<^item> \<open>Effects\<close>, \<open>Shared_Buffers\<close>: code that raises and cleans up while it mutates objects, as effects
      on a state with the rule of consequence for invariants (\<open>keeps\<close>), and the application's buffers
      (\<open>client.py\<close>) over named shared memory segments.
    \<^item> \<open>Runtime_Buffers\<close>, \<open>Runtime_Registry\<close>, \<open>Runtime_Session\<close>: the buffer side of the session an
      application holds (\<open>runtime_session.py\<close>, \<open>runtime/buffers.py\<close>, \<open>runtime/lifecycle_records.py\<close>,
      \<open>runtime/lifecycle.py\<close>): its operations, what each keeps of the buffer registry whatever the
      daemon answers and whichever call raises, and the steps of a session.
    \<^item> \<open>Runtime_Receipts\<close>, \<open>Runtime_Transfers\<close>, \<open>Runtime_Runs\<close>, \<open>Runtime_Closing\<close>: the session's transfers and
      its end.  What it demands of a receipt (\<open>runtime/validation.py\<close>); submitting, waiting, recovering and
      \<open>close\<close> (\<open>runtime_session.py\<close>, \<open>runtime/lifecycle_records.py\<close>, \<open>runtime/route_policy.py\<close>,
      \<open>runtime/session_state.py\<close>); the runs of a session with what every step keeps; and what an accepted
      receipt and a finished \<open>close\<close> promise.
    \<^item> This theory: the properties that follow a transfer through several parts.

  \<^bold>\<open>What the lemmas show.\<close>  A plan moves every byte of its transfer once, within the chunk size, and its
  paths finish within a chunk per other path of the ideal split; a plan over ranges makes each copy the
  ranges ask for as often as they ask for it; the block plan and the runtime records
  keep that account.  In every state the daemon reaches, the quota counters equal the chunks of the
  live reservations of each job and never exceed its limit, every table refers only to entries that
  exist, and closing or reaping takes away exactly what it owns.  Accepted worker requests stay inside
  the registered memory.  What an application writes to a pinned buffer is what the worker that opens
  its registration reads; a session's account of its buffers and active transfers stays consistent
  through failed registrations, cleanups, rollbacks and transfers; a receipt that it hands over is bound to
  the intent and carries evidence of a real execution; and \<open>close\<close> always ends and leaves no owned shared
  memory behind.

  \<^bold>\<open>Conventions.\<close>  Python integers are \<open>int\<close>; Python floats are exact rationals (\<open>rat\<close>), so rounding
  and the values nan and infinity are not modelled and no property depends on them.  Times are given to
  the handlers as arguments in place of \<open>time.time()\<close>, fresh tokens and ids likewise.  Exceptions are
  \<open>Inl\<close> values that carry the kind of the exception and its message.  Loops are structural or have a measure, except the
  daemon's wait for a receipt, a \<open>partial_function\<close> proved to end by the deadline; no fuel is used.

  \<^bold>\<open>Parameters.\<close>  The scheduler's decision enters the daemon's admission as an argument: every
  theorem about the daemon holds whatever the scheduler answers, within the checks the daemon makes,
  as long as an answer has one lease per relay under fresh ids; leases granted for a plan over a profile
  the daemon keeps are like that (\<open>granted_answer_ok\<close>).
  The daemon a session talks to is a record of functions over a state of any type, each of which may
  raise or answer anything, and so is the executor that runs an intent; the CUDA runtime is a record of functions that may report an error.

  \<^bold>\<open>Not modelled.\<close>  Daemon: the queue records, the ring of terminal feedback, the version counter, the
  profile cache (but for the check that a profile's relays are unique), the load sampler, derived columns
  of the audit log, the metadata views of a receipt and telemetry, which either feed no modelled state or are left out for size.
  Session: the services, the direct runtime cache and the control connection a session may own and stop
  when it closes (their failures are caught and reported), the transfer contexts and the fetch and
  offload wrappers that build an intent, and the write-only record of its entrypoint.  Sockets, JSON
  framing, process management, CUDA copies (native libraries), topology discovery (the output of
  \<open>nvidia-smi\<close> and sysfs) and the adapters for vLLM and torch are input and output around the core.
\<close>

section \<open>From a planned transfer to its runtime records\<close>










end
